(* ===== verification/Prelude.thy ===== *)
theory Prelude
  imports Main "HOL-Library.Sublist" "HOL-Library.Word" "HOL-Library.Code_Target_Nat"
begin

text \<open>
  Shared vocabulary of the development.

  A Rust \<open>String\<close> or \<open>&str\<close> is its UTF-8 encoding: a HOL \<open>string\<close> whose characters are
  bytes.  Lengths, prefixes, searches and splits of the standard library work on exactly these
  bytes; the operations that look at Unicode scalars (\<open>trim\<close>, \<open>chars().take(n)\<close>) are written
  out on the encoded bytes below.  The only approximation is letter case: \<open>to_ascii_lower\<close> is
  \<open>to_ascii_lowercase\<close>, and it also stands for \<open>to_lowercase\<close>, whose effect on letters
  outside ASCII is not modelled.

  A fallible operation returns \<open>'e + 'a\<close>, with \<open>Inl\<close> for the error.
\<close>

named_theorems str_defs \<open>definitions of the string operations\<close>
named_theorems wf_intros \<open>an operation keeps its component's well-formedness\<close>

type_synonym u64 = "64 word"

section \<open>Results\<close>

definition ok :: "'e + 'a \<Rightarrow> bool" where
  "ok r = (case r of Inl _ \<Rightarrow> False | Inr _ \<Rightarrow> True)"

definition bind_res :: "'e + 'a \<Rightarrow> ('a \<Rightarrow> 'e + 'b) \<Rightarrow> 'e + 'b" where
  "bind_res r f = (case r of Inl e \<Rightarrow> Inl e | Inr x \<Rightarrow> f x)"

lemma bind_res_simps [simp]:
  "bind_res (Inl e) f = Inl e"
  "bind_res (Inr x) f = f x"
  by (simp_all add: bind_res_def)

lemma bind_res_InrD:
  assumes "bind_res r f = Inr y"
  obtains x where "r = Inr x" "f x = Inr y"
  using assms by (cases r) auto

text \<open>\<open>collect()\<close> of an iterator of results: the first error stops the whole.\<close>

fun collect_res :: "('e + 'a) list \<Rightarrow> 'e + 'a list" where
  "collect_res [] = Inr []"
| "collect_res (Inl e # rs) = Inl e"
| "collect_res (Inr x # rs) = bind_res (collect_res rs) (\<lambda>xs. Inr (x # xs))"

lemma collect_res_map_Inr [simp]: "collect_res (map Inr xs) = Inr xs"
  by (induction xs) auto

lemma collect_res_append:
  "collect_res (rs @ ss) =
     bind_res (collect_res rs) (\<lambda>xs. bind_res (collect_res ss) (\<lambda>ys. Inr (xs @ ys)))"
proof (induction rs rule: collect_res.induct)
  case 1
  show ?case by (cases "collect_res ss") auto
next
  case (3 x rs)
  then show ?case
    by (cases "collect_res rs"; cases "collect_res ss") auto
qed simp

text \<open>A loop that stops at the first error.\<close>

fun fold_res :: "('s \<Rightarrow> 'a \<Rightarrow> 'e + 's) \<Rightarrow> 's \<Rightarrow> 'a list \<Rightarrow> 'e + 's" where
  "fold_res f s [] = Inr s"
| "fold_res f s (x # xs) = bind_res (f s x) (\<lambda>s'. fold_res f s' xs)"

lemma fold_res_append:
  "fold_res f s (xs @ ys) = bind_res (fold_res f s xs) (\<lambda>s'. fold_res f s' ys)"
  by (induction xs arbitrary: s) (auto simp: bind_res_def split: sum.splits)

lemma fold_res_invariant:
  assumes "fold_res f s xs = Inr t" and "I s"
    and "\<And>s x s'. I s \<Longrightarrow> x \<in> set xs \<Longrightarrow> f s x = Inr s' \<Longrightarrow> I s'"
  shows "I t"
  using assms
proof (induction xs arbitrary: s)
  case (Cons x xs)
  from Cons.prems(1) obtain s' where s': "f s x = Inr s'" "fold_res f s' xs = Inr t"
    by (auto elim: bind_res_InrD)
  then have "I s'" using Cons.prems(2,3) by auto
  with s'(2) Cons.prems(3) show ?case by (intro Cons.IH [of s']) auto
qed simp

section \<open>Lists\<close>

text \<open>\<open>v.split_off(v.len() - n)\<close> under the guard \<open>v.len() > n\<close>: the last \<open>n\<close> elements.\<close>

definition keep_last :: "nat \<Rightarrow> 'a list \<Rightarrow> 'a list" where
  "keep_last n xs = (if length xs > n then drop (length xs - n) xs else xs)"

lemma keep_last_drop: "keep_last n xs = drop (length xs - n) xs"
  by (simp add: keep_last_def)

lemma length_keep_last [simp]: "length (keep_last n xs) = min n (length xs)"
  by (simp add: keep_last_def)

lemma set_keep_last: "set (keep_last n xs) \<subseteq> set xs"
  by (simp add: keep_last_drop set_drop_subset)

lemma suffix_keep_last: "suffix (keep_last n xs) xs"
  by (simp add: keep_last_drop suffix_drop)

lemma distinct_map_keep_last: "distinct (map f xs) \<Longrightarrow> distinct (map f (keep_last n xs))"
  by (simp add: keep_last_drop drop_map [symmetric])

lemma keep_last_short [simp]: "length xs \<le> n \<Longrightarrow> keep_last n xs = xs"
  by (simp add: keep_last_def)

lemma keep_last_snoc:
  "keep_last n (keep_last n xs @ [x]) = keep_last n (xs @ [x])"
proof (cases "length xs \<le> n")
  case False
  then have "length xs + 1 - n = Suc (length xs - n)" by simp
  moreover from False have "min n (length xs) + 1 - n = 1" by simp
  moreover from False have "min n (length xs) = n" by simp
  ultimately show ?thesis
    by (cases n) (simp_all add: keep_last_drop drop_Suc tl_drop)
qed simp

text \<open>\<open>iter_mut().find(p)\<close> followed by an update of the element found.\<close>

fun update_first :: "('a \<Rightarrow> bool) \<Rightarrow> ('a \<Rightarrow> 'e + 'a) \<Rightarrow> 'a list \<Rightarrow> 'e + 'a list" where
  "update_first p f [] = Inr []"
| "update_first p f (x # xs) =
     (if p x then bind_res (f x) (\<lambda>y. Inr (y # xs))
      else bind_res (update_first p f xs) (\<lambda>ys. Inr (x # ys)))"

lemma update_first_none:
  "\<not> (\<exists>x\<in>set xs. p x) \<Longrightarrow> update_first p f xs = Inr xs"
  by (induction xs) auto

lemma update_first_split:
  assumes "update_first p f xs = Inr ys" and "\<exists>x\<in>set xs. p x"
  obtains as x bs y where "xs = as @ x # bs" "ys = as @ y # bs" "p x" "f x = Inr y"
    "\<forall>a\<in>set as. \<not> p a"
  using assms
proof (induction xs arbitrary: ys thesis)
  case (Cons z zs)
  show ?case
  proof (cases "p z")
    case True
    with Cons.prems(2) obtain y where "f z = Inr y" "ys = y # zs"
      by (auto elim: bind_res_InrD)
    with True Cons.prems(1) [of "[]" z zs y] show ?thesis by simp
  next
    case False
    with Cons.prems(2) obtain ws where ws: "update_first p f zs = Inr ws" "ys = z # ws"
      by (auto elim: bind_res_InrD)
    from False Cons.prems(3) have "\<exists>x\<in>set zs. p x" by auto
    with ws(1) obtain as x bs y where *: "zs = as @ x # bs" "ws = as @ y # bs" "p x"
      "f x = Inr y" "\<forall>a\<in>set as. \<not> p a"
      using Cons.IH by metis
    show ?thesis
      by (rule Cons.prems(1) [of "z # as" x bs y]) (use * False ws(2) in auto)
  qed
qed simp

lemma update_first_map:
  assumes "update_first p f xs = Inr ys" and "\<And>x y. f x = Inr y \<Longrightarrow> g y = g x"
  shows "map g ys = map g xs"
  using assms
  by (induction xs arbitrary: ys) (auto elim!: bind_res_InrD split: if_splits)

lemma update_first_list_all:
  assumes "update_first p f xs = Inr ys" and "list_all P xs"
    and "\<And>x y. P x \<Longrightarrow> f x = Inr y \<Longrightarrow> P y"
  shows "list_all P ys"
  using assms
  by (induction xs arbitrary: ys) (auto elim!: bind_res_InrD split: if_splits)

section \<open>Simulation along a list of operations\<close>

lemma foldl_simulation:
  assumes "\<And>x d. x \<in> set xs \<Longrightarrow> good (view d) \<Longrightarrow> view (f d x) = g (view d) x \<and> good (g (view d) x)" and "good (view d)"
  shows "view (foldl f d xs) = foldl g (view d) xs"
  using assms
proof (induction xs arbitrary: d)
  case (Cons x xs)
  then have step: "view (f d x) = g (view d) x" "good (view (f d x))" by auto
  have "view (foldl f (f d x) xs) = foldl g (view (f d x)) xs"
    by (rule Cons.IH) (use Cons.prems(1) step(2) in auto)
  with step(1) show ?case by simp
qed simp

end
