(* ===== verification/Text_Ops.thy ===== *)
theory Text_Ops
  imports Prelude
begin

text \<open>
  The string operations of the Rust standard library that the modelled code calls, on UTF-8
  bytes: searching, splitting, trimming (all Unicode white space, by its encodings), character
  counts and truncation, ASCII case, and the integer parsers.
\<close>

section \<open>Searching and splitting\<close>

text \<open>\<open>s.find(pat)\<close>: the byte offset of the first occurrence.\<close>

fun find_sub :: "string \<Rightarrow> string \<Rightarrow> nat option" where
  "find_sub p [] = (if p = [] then Some 0 else None)"
| "find_sub p (c # cs) =
     (if prefix p (c # cs) then Some 0 else map_option Suc (find_sub p cs))"

definition contains_sub :: "string \<Rightarrow> string \<Rightarrow> bool" where
  "contains_sub p s = (find_sub p s \<noteq> None)"

lemma find_sub_prefix: "find_sub p s = Some i \<Longrightarrow> i \<le> length s \<and> prefix p (drop i s)"
  by (induction p s arbitrary: i rule: find_sub.induct) (auto split: if_splits)

lemma find_sub_first: "find_sub p s = Some i \<Longrightarrow> j < i \<Longrightarrow> \<not> prefix p (drop j s)"
proof (induction p s arbitrary: i j rule: find_sub.induct)
  case (2 p c cs)
  then show ?case by (cases j) (auto split: if_splits)
qed (auto split: if_splits)

lemma find_sub_None: "find_sub p s = None \<Longrightarrow> \<not> prefix p (drop j s)"
proof (induction p s arbitrary: j rule: find_sub.induct)
  case (2 p c cs)
  then show ?case by (cases j) (auto split: if_splits)
qed (auto split: if_splits)

lemma contains_sub_iff: "contains_sub p s \<longleftrightarrow> (\<exists>j. prefix p (drop j s))"
  using find_sub_None find_sub_prefix unfolding contains_sub_def by blast

lemma find_sub_split:
  assumes "find_sub p s = Some i"
  shows "s = take i s @ p @ drop (i + length p) s"
proof -
  from find_sub_prefix [OF assms] obtain r where r: "drop i s = p @ r"
    by (auto simp: prefix_def)
  then have "drop (i + length p) s = r"
    by (metis add.commute append_eq_conv_conj drop_drop)
  with r show ?thesis by (metis append_take_drop_id)
qed

text \<open>\<open>s.split(pat)\<close> for a nonempty pattern.\<close>

function split_str :: "string \<Rightarrow> string \<Rightarrow> string list" where
  "split_str p s =
     (if p = [] then [s] else
      case find_sub p s of
        None \<Rightarrow> [s]
      | Some i \<Rightarrow> take i s # split_str p (drop (i + length p) s))"
  by pat_completeness auto
termination
proof (relation "measure (\<lambda>(p, s). length s)")
  fix p s :: string and i
  assume "p \<noteq> []" and "find_sub p s = Some i"
  then have "s \<noteq> []" by (cases s) auto
  with \<open>p \<noteq> []\<close> show "((p, drop (i + length p) s), (p, s)) \<in> measure (\<lambda>(p, s). length s)"
    by simp
qed simp

declare split_str.simps [simp del]

text \<open>\<open>s.split(c)\<close> for one ASCII character.\<close>

fun split_char :: "char \<Rightarrow> string \<Rightarrow> string list" where
  "split_char c [] = [[]]"
| "split_char c (x # xs) =
     (if x = c then [] # split_char c xs
      else case split_char c xs of [] \<Rightarrow> [[x]] | y # ys \<Rightarrow> (x # y) # ys)"

lemma split_char_nonempty [simp]: "split_char c s \<noteq> []"
  by (cases s) (auto split: list.splits)

lemma split_char_free: "x \<in> set (split_char c s) \<Longrightarrow> c \<notin> set x"
proof (induction s arbitrary: x)
  case (Cons a s)
  then show ?case by (cases "split_char c s") (auto split: if_splits)
qed simp

lemma split_char_none: "c \<notin> set s \<Longrightarrow> split_char c s = [s]"
  by (induction s) auto

lemma split_char_append:
  "c \<notin> set x \<Longrightarrow> split_char c (x @ c # s) = x # split_char c s"
  by (induction x) auto

text \<open>\<open>s.split_once(c)\<close>.\<close>

fun split_once :: "char \<Rightarrow> string \<Rightarrow> (string \<times> string) option" where
  "split_once c [] = None"
| "split_once c (x # xs) =
     (if x = c then Some ([], xs)
      else map_option (\<lambda>(a, b). (x # a, b)) (split_once c xs))"

text \<open>\<open>xs.join(sep)\<close>.\<close>

fun join :: "string \<Rightarrow> string list \<Rightarrow> string" where
  "join sep [] = []"
| "join sep [x] = x"
| "join sep (x # y # ys) = x @ sep @ join sep (y # ys)"

lemma join_split_char: "join [c] (split_char c s) = s"
proof (induction s)
  case (Cons a s)
  then show ?case
    by (cases "split_char c s"; cases "tl (split_char c s)") auto
qed simp

definition strip_prefix :: "string \<Rightarrow> string \<Rightarrow> string option" where
  "strip_prefix p s = (if prefix p s then Some (drop (length p) s) else None)"

section \<open>Lines\<close>

definition newline :: char where "newline = CHR 0x0A"

text \<open>
  \<open>s.lines()\<close>: pieces ended by a line feed, a carriage return before the feed dropped; the
  piece after the last feed is a line only when it is not empty.
\<close>

definition strip_cr :: "string \<Rightarrow> string" where
  "strip_cr l = (if l \<noteq> [] \<and> last l = CHR 0x0D then butlast l else l)"

definition str_lines :: "string \<Rightarrow> string list" where
  "str_lines s = (let ps = split_char newline s
     in map strip_cr (butlast ps) @ (if last ps = [] then [] else [last ps]))"

lemma str_lines_Nil [simp]: "str_lines [] = []"
  by (simp add: str_lines_def)

lemma str_lines_append:
  assumes "newline \<notin> set x" and "x = [] \<or> last x \<noteq> CHR 0x0D"
  shows "str_lines (x @ newline # s) = x # str_lines s"
  using assms by (auto simp: str_lines_def Let_def split_char_append strip_cr_def)

text \<open>A file of whole lines: appending one more line appends one more element.\<close>

lemma split_char_snoc:
  "c \<notin> set x \<Longrightarrow> last (split_char c s) = [] \<Longrightarrow>
     split_char c (s @ x @ [c]) = butlast (split_char c s) @ [x, []]"
proof (induction s)
  case Nil
  then show ?case by (simp add: split_char_append)
next
  case (Cons a s)
  show ?case
  proof (cases "a = c")
    case True
    with Cons show ?thesis by auto
  next
    case False
    obtain y ys where ys: "split_char c s = y # ys" by (cases "split_char c s") auto
    from False ys Cons.prems(2) have "ys \<noteq> []" "last (split_char c s) = []"
      by (auto split: if_splits)
    with False ys Cons show ?thesis by auto
  qed
qed

lemma split_char_end: "split_char c (s @ [c]) = split_char c s @ [[]]"
  by (induction s) (auto split: list.splits)

lemma str_lines_snoc:
  assumes "newline \<notin> set x" "x = [] \<or> last x \<noteq> CHR 0x0D" "s = [] \<or> last s = newline"
  shows "str_lines (s @ x @ [newline]) = str_lines s @ [x]"
proof -
  have last_piece: "last (split_char newline s) = []"
    using assms(3) by (metis append_butlast_last_id last_snoc split_char.simps(1)
        split_char_end last.simps)
  have "strip_cr x = x" using assms(2) by (auto simp: strip_cr_def)
  with split_char_snoc [OF assms(1) last_piece] last_piece show ?thesis
    by (simp add: str_lines_def Let_def butlast_append)
qed

section \<open>White space\<close>

definition ascii_space :: "string list" where
  "ascii_space = [[CHR 0x09], [CHR 0x0A], [CHR 0x0B], [CHR 0x0C], [CHR 0x0D], [CHR 0x20]]"

text \<open>The encodings of the code points with the Unicode property White\_Space beyond ASCII.\<close>

definition unicode_space :: "string list" where
  "unicode_space =
     [[CHR 0xC2, CHR 0x85], [CHR 0xC2, CHR 0xA0], [CHR 0xE1, CHR 0x9A, CHR 0x80],
      [CHR 0xE2, CHR 0x80, CHR 0x80], [CHR 0xE2, CHR 0x80, CHR 0x81],
      [CHR 0xE2, CHR 0x80, CHR 0x82], [CHR 0xE2, CHR 0x80, CHR 0x83],
      [CHR 0xE2, CHR 0x80, CHR 0x84], [CHR 0xE2, CHR 0x80, CHR 0x85],
      [CHR 0xE2, CHR 0x80, CHR 0x86], [CHR 0xE2, CHR 0x80, CHR 0x87],
      [CHR 0xE2, CHR 0x80, CHR 0x88], [CHR 0xE2, CHR 0x80, CHR 0x89],
      [CHR 0xE2, CHR 0x80, CHR 0x8A], [CHR 0xE2, CHR 0x80, CHR 0xA8],
      [CHR 0xE2, CHR 0x80, CHR 0xA9], [CHR 0xE2, CHR 0x80, CHR 0xAF],
      [CHR 0xE2, CHR 0x81, CHR 0x9F], [CHR 0xE3, CHR 0x80, CHR 0x80]]"

definition space_seqs :: "string list" where
  "space_seqs = ascii_space @ unicode_space"

definition space_at :: "string \<Rightarrow> string option" where
  "space_at s = find (\<lambda>w. prefix w s) space_seqs"

definition space_before :: "string \<Rightarrow> string option" where
  "space_before s = find (\<lambda>w. suffix w s) space_seqs"

lemma space_seqs_nonempty: "w \<in> set space_seqs \<Longrightarrow> w \<noteq> []"
  by (auto simp: space_seqs_def ascii_space_def unicode_space_def)

lemma space_at_Some: "space_at s = Some w \<Longrightarrow> w \<noteq> [] \<and> prefix w s \<and> w \<in> set space_seqs"
  unfolding space_at_def by (metis find_Some_iff nth_mem space_seqs_nonempty)

lemma space_before_Some:
  "space_before s = Some w \<Longrightarrow> w \<noteq> [] \<and> suffix w s \<and> w \<in> set space_seqs"
  unfolding space_before_def by (metis find_Some_iff nth_mem space_seqs_nonempty)

lemma space_at_None: "space_at s = None \<longleftrightarrow> (\<forall>w\<in>set space_seqs. \<not> prefix w s)"
  by (auto simp: space_at_def find_None_iff)

lemma space_before_None: "space_before s = None \<longleftrightarrow> (\<forall>w\<in>set space_seqs. \<not> suffix w s)"
  by (auto simp: space_before_def find_None_iff)

function trim_start :: "string \<Rightarrow> string" where
  "trim_start s =
     (case space_at s of None \<Rightarrow> s | Some w \<Rightarrow> trim_start (drop (length w) s))"
  by pat_completeness auto
termination
proof (relation "measure length")
  fix s w
  assume "space_at s = Some w"
  then have "w \<noteq> []" "prefix w s" by (auto dest: space_at_Some)
  then show "(drop (length w) s, s) \<in> measure length"
    by (cases w) (auto dest: prefix_length_le)
qed simp

function trim_end :: "string \<Rightarrow> string" where
  "trim_end s =
     (case space_before s of None \<Rightarrow> s | Some w \<Rightarrow> trim_end (take (length s - length w) s))"
  by pat_completeness auto
termination
proof (relation "measure length")
  fix s w
  assume "space_before s = Some w"
  then have "w \<noteq> []" "suffix w s" by (auto dest: space_before_Some)
  then show "(take (length s - length w) s, s) \<in> measure length"
    by (cases w) (auto dest: suffix_length_le)
qed simp

declare trim_start.simps [simp del] trim_end.simps [simp del]

definition trim :: "string \<Rightarrow> string" where
  "trim s = trim_end (trim_start s)"

lemma space_at_trim_start [simp]: "space_at (trim_start s) = None"
  by (induction s rule: trim_start.induct) (subst trim_start.simps, auto split: option.splits)

lemma space_before_trim_end [simp]: "space_before (trim_end s) = None"
  by (induction s rule: trim_end.induct) (subst trim_end.simps, auto split: option.splits)

lemma trim_start_id: "space_at s = None \<Longrightarrow> trim_start s = s"
  by (subst trim_start.simps) simp

lemma trim_end_id: "space_before s = None \<Longrightarrow> trim_end s = s"
  by (subst trim_end.simps) simp

lemma prefix_trim_end: "prefix (trim_end s) s"
proof (induction s rule: trim_end.induct)
  case (1 s)
  show ?case
  proof (cases "space_before s")
    case None
    then show ?thesis by (simp add: trim_end_id)
  next
    case (Some w)
    with 1 have "prefix (trim_end (take (length s - length w) s)) (take (length s - length w) s)"
      by simp
    with Some show ?thesis
      by (subst trim_end.simps) (auto intro: prefix_order.trans take_is_prefix)
  qed
qed

lemma suffix_trim_start: "suffix (trim_start s) s"
proof (induction s rule: trim_start.induct)
  case (1 s)
  show ?case
  proof (cases "space_at s")
    case None
    then show ?thesis by (simp add: trim_start_id)
  next
    case (Some w)
    with 1 have "suffix (trim_start (drop (length w) s)) (drop (length w) s)" by simp
    with Some show ?thesis
      by (subst trim_start.simps) (auto intro: suffix_order.trans suffix_drop)
  qed
qed

lemma space_at_prefix: "space_at s = None \<Longrightarrow> prefix r s \<Longrightarrow> space_at r = None"
  unfolding space_at_None using prefix_order.trans by blast

lemma space_at_trim [simp]: "space_at (trim s) = None"
  unfolding trim_def by (rule space_at_prefix [OF _ prefix_trim_end]) simp

lemma space_before_trim [simp]: "space_before (trim s) = None"
  by (simp add: trim_def)

lemma trim_id: "space_at s = None \<Longrightarrow> space_before s = None \<Longrightarrow> trim s = s"
  by (simp add: trim_def trim_start_id trim_end_id)

lemma trim_trim [simp]: "trim (trim s) = trim s"
  by (rule trim_id) simp_all

lemma trim_Nil [simp]: "trim [] = []"
  by (rule trim_id) (auto simp: space_at_None space_before_None dest: space_seqs_nonempty)

lemma set_trim: "set (trim s) \<subseteq> set s"
  unfolding trim_def
  by (meson prefix_trim_end set_mono_prefix set_mono_suffix subset_trans suffix_trim_start)

definition is_blank :: "string \<Rightarrow> bool" where
  "is_blank s = (trim s = [])"

text \<open>\<open>s.split_whitespace()\<close>: the maximal pieces without white space, none of them empty.\<close>

function split_ws_aux :: "string \<Rightarrow> string \<Rightarrow> string list" where
  "split_ws_aux acc s =
     (case s of [] \<Rightarrow> (if acc = [] then [] else [acc])
      | c # cs \<Rightarrow>
         (case space_at s of
            None \<Rightarrow> split_ws_aux (acc @ [c]) cs
          | Some w \<Rightarrow> (if acc = [] then [] else [acc]) @ split_ws_aux [] (drop (length w) s)))"
  by pat_completeness auto
termination
proof (relation "measure (\<lambda>(acc, s). length s)", goal_cases)
  case (3 acc s c cs w)
  then have "w \<noteq> []" by (auto dest: space_at_Some)
  with 3 show ?case by simp
qed simp_all

declare split_ws_aux.simps [simp del]

definition split_whitespace :: "string \<Rightarrow> string list" where
  "split_whitespace s = split_ws_aux [] s"

section \<open>Characters\<close>

text \<open>\<open>s.chars()\<close> as the list of encoded scalars: a byte that is not a continuation byte
  starts a new one.\<close>

definition is_cont :: "char \<Rightarrow> bool" where
  "is_cont c = (let n = of_char c :: nat in 128 \<le> n \<and> n < 192)"

fun chars :: "string \<Rightarrow> string list" where
  "chars [] = []"
| "chars (c # cs) =
     (case chars cs of
        [] \<Rightarrow> [[c]]
      | d # ds \<Rightarrow> if d \<noteq> [] \<and> is_cont (hd d) then (c # d) # ds else [c] # d # ds)"

lemma concat_chars [simp]: "concat (chars s) = s"
  by (induction s) (auto split: list.splits)

lemma chars_nonempty: "x \<in> set (chars s) \<Longrightarrow> x \<noteq> []"
  by (induction s arbitrary: x) (auto split: list.splits if_splits)

lemma length_chars_le: "length (chars s) \<le> length s"
  by (induction s) (auto split: list.splits)

definition char_count :: "string \<Rightarrow> nat" where
  "char_count s = length (chars s)"

text \<open>\<open>s.chars().take(n).collect()\<close>.\<close>

definition take_chars :: "nat \<Rightarrow> string \<Rightarrow> string" where
  "take_chars n s = concat (take n (chars s))"

lemma take_chars_prefix: "prefix (take_chars n s) s"
proof -
  have "s = take_chars n s @ concat (drop n (chars s))"
    unfolding take_chars_def by (metis append_take_drop_id concat_append concat_chars)
  then show ?thesis by (metis prefixI)
qed

lemma take_chars_id: "char_count s \<le> n \<Longrightarrow> take_chars n s = s"
  by (simp add: take_chars_def char_count_def)

section \<open>ASCII classes and case\<close>

definition is_upper :: "char \<Rightarrow> bool" where
  "is_upper c = (let n = of_char c :: nat in 65 \<le> n \<and> n \<le> 90)"

definition is_lower :: "char \<Rightarrow> bool" where
  "is_lower c = (let n = of_char c :: nat in 97 \<le> n \<and> n \<le> 122)"

definition is_digit :: "char \<Rightarrow> bool" where
  "is_digit c = (let n = of_char c :: nat in 48 \<le> n \<and> n \<le> 57)"

definition is_ascii_alnum :: "char \<Rightarrow> bool" where
  "is_ascii_alnum c = (is_upper c \<or> is_lower c \<or> is_digit c)"

definition lower_char :: "char \<Rightarrow> char" where
  "lower_char c = (if is_upper c then char_of (of_char c + 32 :: nat) else c)"

definition to_ascii_lower :: "string \<Rightarrow> string" where
  "to_ascii_lower s = map lower_char s"

lemma length_to_ascii_lower [simp]: "length (to_ascii_lower s) = length s"
  by (simp add: to_ascii_lower_def)

section \<open>Integers\<close>

definition digit_val :: "char \<Rightarrow> nat" where
  "digit_val c = of_char c - 48"

text \<open>\<open>s.parse::<u32>()\<close>: an optional plus sign, then digits, the value below \<open>2\<^sup>3\<^sup>2\<close>.\<close>

definition digits_val :: "string \<Rightarrow> nat" where
  "digits_val s = foldl (\<lambda>n c. 10 * n + digit_val c) 0 s"

definition parse_uint :: "nat \<Rightarrow> string \<Rightarrow> nat option" where
  "parse_uint bound s =
     (let ds = (case s of c # cs \<Rightarrow> if c = CHR ''+'' then cs else s | [] \<Rightarrow> [])
      in if ds \<noteq> [] \<and> list_all is_digit ds \<and> digits_val ds < bound
         then Some (digits_val ds) else None)"

definition parse_u32 :: "string \<Rightarrow> nat option" where
  "parse_u32 s = parse_uint (2 ^ 32) s"

lemma parse_u32_bound: "parse_u32 s = Some n \<Longrightarrow> n < 2 ^ 32"
  unfolding parse_u32_def parse_uint_def
  by (simp add: Let_def split: list.splits if_splits)

lemmas [str_defs] = contains_sub_def strip_prefix_def str_lines_def is_blank_def char_count_def
  take_chars_def to_ascii_lower_def

section \<open>Joining lines and splitting them again\<close>

lemma split_once_append: "c \<notin> set k \<Longrightarrow> split_once c (k @ c # v) = Some (k, v)"
  by (induction k) auto

lemma not_contains_Cons: "\<not> contains_sub p (a # s) \<Longrightarrow> \<not> contains_sub p s"
  by (auto simp: contains_sub_def split: if_splits)

lemma find_sub_append:
  assumes "c \<notin> set q" and "\<not> contains_sub (c # q) x"
  shows "find_sub (c # q) (x @ (c # q) @ r) = Some (length x)"
  using assms(2)
proof (induction x)
  case (Cons a x)
  have "\<not> prefix (c # q) ((a # x) @ (c # q) @ r)"
  proof
    assume pre: "prefix (c # q) ((a # x) @ (c # q) @ r)"
    show False
    proof (cases "length (c # q) \<le> length (a # x)")
      case True
      with pre have "prefix (c # q) (a # x)" by (metis prefixI prefix_length_prefix)
      with Cons.prems show False by (auto simp: contains_sub_def)
    next
      case False
      with pre have "prefix (a # x) (c # q)"
        by (metis nat_le_linear prefixI prefix_length_prefix)
      then obtain t where t: "c # q = (a # x) @ t" by (auto simp: prefix_def)
      with False have "t \<noteq> []" by auto
      with t pre have "hd t = c" by (cases t) auto
      with t \<open>t \<noteq> []\<close> have "c \<in> set q" by (cases t) auto
      with assms(1) show False by simp
    qed
  qed
  with Cons not_contains_Cons [OF Cons.prems] show ?case by simp
qed simp

lemma split_str_append:
  assumes "c \<notin> set q" and "\<not> contains_sub (c # q) x"
  shows "split_str (c # q) (x @ (c # q) @ r) = x # split_str (c # q) r"
  by (subst split_str.simps) (simp add: find_sub_append [OF assms, simplified])

lemma split_str_none: "\<not> contains_sub p s \<Longrightarrow> split_str p s = [s]"
  by (subst split_str.simps) (simp add: contains_sub_def)

lemma join_Cons: "xs \<noteq> [] \<Longrightarrow> join sep (x # xs) = x @ sep @ join sep xs"
  by (cases xs) auto

lemma join_append: "xs \<noteq> [] \<Longrightarrow> ys \<noteq> [] \<Longrightarrow> join sep (xs @ ys) = join sep xs @ sep @ join sep ys"
proof (induction xs)
  case (Cons a xs)
  then show ?case by (cases "xs = []") (simp_all add: join_Cons)
qed simp

text \<open>No separator \<open>\n---\<close> arises from lines none of which starts with the dashes.\<close>

lemma prefix_free_append:
  "newline \<notin> set d \<Longrightarrow> newline \<notin> set l \<Longrightarrow> prefix d (l @ newline # r) \<Longrightarrow> prefix d l"
proof (induction d arbitrary: l)
  case (Cons a d)
  then show ?case by (cases l) auto
qed simp

lemma find_sub_skip: "c \<notin> set l \<Longrightarrow> find_sub (c # q) (l @ r) = map_option ((+) (length l)) (find_sub (c # q) r)"
proof (induction l)
  case Nil
  show ?case by (cases "find_sub (c # q) r") simp_all
next
  case (Cons a l)
  then show ?case by (cases "find_sub (c # q) r") simp_all
qed

lemma contains_sub_skip: "c \<notin> set l \<Longrightarrow> contains_sub (c # q) (l @ r) = contains_sub (c # q) r"
  by (simp add: contains_sub_def find_sub_skip)

lemma not_contains_lines:
  assumes "newline \<notin> set d" "d \<noteq> []"
    and "list_all (\<lambda>l. newline \<notin> set l \<and> \<not> prefix d l) ls"
  shows "\<not> contains_sub (newline # d) (newline # join [newline] ls)"
  using assms(3)
proof (induction ls)
  case Nil
  then show ?case using assms(2) by (simp add: contains_sub_def)
next
  case (Cons l ls)
  show ?case
  proof (cases ls)
    case Nil
    with Cons.prems have "newline \<notin> set l" "\<not> prefix d l" by auto
    with Nil contains_sub_skip [of newline l d "[]"] show ?thesis
      by (auto simp: contains_sub_def)
  next
    case (Cons l2 ls2)
    let ?rest = "newline # join [newline] ls"
    have "newline \<notin> set l" "\<not> prefix d l" using Cons.prems by auto
    moreover have "join [newline] (l # ls) = l @ ?rest" using Cons by (simp add: join_Cons)
    moreover have "\<not> contains_sub (newline # d) ?rest" using Cons.IH Cons.prems by simp
    ultimately show ?thesis
      using contains_sub_skip [of newline l d ?rest] prefix_free_append [OF assms(1), of l]
      by (auto simp: contains_sub_def)
  qed
qed

lemma str_lines_join:
  assumes "list_all (\<lambda>l. newline \<notin> set l \<and> (l = [] \<or> last l \<noteq> CHR 0x0D)) ls" "ls \<noteq> []" "last ls \<noteq> []"
  shows "str_lines (join [newline] ls) = ls"
  using assms
proof (induction ls)
  case (Cons l ls)
  show ?case
  proof (cases "ls = []")
    case True
    with Cons.prems show ?thesis by (simp add: str_lines_def split_char_none)
  next
    case False
    with Cons show ?thesis by (simp add: join_Cons str_lines_append)
  qed
qed simp

section \<open>Trimming around line feeds and blanks\<close>

lemma space_at_ascii: "[c] \<in> set ascii_space \<Longrightarrow> space_at (c # s) = Some [c]"
  by (auto simp: space_at_def space_seqs_def ascii_space_def)

lemma space_before_ascii: "[c] \<in> set ascii_space \<Longrightarrow> space_before (s @ [c]) = Some [c]"
  by (auto simp: space_before_def space_seqs_def ascii_space_def suffix_def)

lemma trim_start_ascii: "[c] \<in> set ascii_space \<Longrightarrow> trim_start (c # s) = trim_start s"
  by (subst trim_start.simps) (simp add: space_at_ascii)

lemma trim_end_ascii: "[c] \<in> set ascii_space \<Longrightarrow> trim_end (s @ [c]) = trim_end s"
  by (subst trim_end.simps) (simp add: space_before_ascii)

lemma newline_space [simp]: "[newline] \<in> set ascii_space"
  by (simp add: newline_def ascii_space_def)

lemma blank_space [simp]: "[CHR '' ''] \<in> set ascii_space"
  by (simp add: ascii_space_def)

lemma trim_blank_Cons: "trim (CHR '' '' # s) = trim s"
  by (simp add: trim_def trim_start_ascii)

lemma trim_end_Nil: "trim_end s = [] \<Longrightarrow> s \<noteq> [] \<Longrightarrow> space_at s \<noteq> None"
proof (induction s rule: trim_end.induct)
  case (1 s)
  then obtain w where w: "space_before s = Some w"
    by (cases "space_before s") (auto simp: trim_end_id)
  then have s: "s = take (length s - length w) s @ w" "w \<in> set space_seqs"
    by (auto dest!: space_before_Some simp: suffix_def)
  show ?case
  proof (cases "take (length s - length w) s = []")
    case True
    with s have "s = w" by simp
    with s(2) show ?thesis by (auto simp: space_at_None)
  next
    case False
    moreover have "trim_end (take (length s - length w) s) = []"
      using 1(2) w by (subst (asm) trim_end.simps) simp
    ultimately have "space_at (take (length s - length w) s) \<noteq> None" using 1(1) w by blast
    then show ?thesis using space_at_prefix [of s "take (length s - length w) s"] take_is_prefix
      by metis
  qed
qed

lemma not_blank: "space_at s = None \<Longrightarrow> s \<noteq> [] \<Longrightarrow> \<not> is_blank s"
  using trim_end_Nil [of s] by (auto simp: is_blank_def trim_def trim_start_id)

lemma trimmed_last: "trim s = s \<Longrightarrow> s \<noteq> [] \<Longrightarrow> [last s] \<notin> set ascii_space"
  by (metis append_butlast_last_id not_Some_eq space_before_ascii space_before_trim)

lemma trimmed_no_cr: "trim s = s \<Longrightarrow> s \<noteq> [] \<Longrightarrow> last s \<noteq> CHR 0x0D"
  using trimmed_last by (fastforce simp: ascii_space_def)

end
