(* ===== verification/Interfaces.thy ===== *)
theory Interfaces
  imports Prelude
begin

text \<open>
  The contracts that several components share, each as a locale with the lemmas its clients
  use.  Every locale is interpreted on the model's own operations in the theory of the
  component that provides them.
\<close>

section \<open>A list used as a keyed table\<close>

text \<open>
  The registries keep a vector and replace by key (\<open>retain\<close> then \<open>push\<close>) or remove by key
  (\<open>retain\<close>); readers take the first entry with a key.
\<close>

definition lookup_by :: "('a \<Rightarrow> 'k) \<Rightarrow> 'a list \<Rightarrow> 'k \<Rightarrow> 'a option" where
  "lookup_by key xs k = find (\<lambda>x. key x = k) xs"

lemma lookup_by_Nil [simp]: "lookup_by key [] k = None"
  by (simp add: lookup_by_def)

lemma lookup_by_append:
  "lookup_by key (xs @ ys) k =
     (case lookup_by key xs k of None \<Rightarrow> lookup_by key ys k | Some x \<Rightarrow> Some x)"
  by (induction xs) (auto simp: lookup_by_def)

lemma lookup_by_filter_neq:
  "lookup_by key (filter (\<lambda>x. key x \<noteq> k) xs) k' = (if k' = k then None else lookup_by key xs k')"
  by (induction xs) (auto simp: lookup_by_def)

lemma lookup_by_None: "lookup_by key xs k = None \<longleftrightarrow> k \<notin> key ` set xs"
  by (auto simp: lookup_by_def find_None_iff)

lemma lookup_by_Some: "lookup_by key xs k = Some x \<Longrightarrow> x \<in> set xs \<and> key x = k"
  by (auto simp: lookup_by_def find_Some_iff)

lemma lookup_by_mem:
  "distinct (map key xs) \<Longrightarrow> x \<in> set xs \<Longrightarrow> lookup_by key xs (key x) = Some x"
  by (induction xs) (auto simp: lookup_by_def)

datatype ('k, 'a) table_op = Put 'a | Del 'k

text \<open>Running an operation on the list, and on the map it stands for.\<close>

definition table_run ::
  "('a list \<Rightarrow> 'a \<Rightarrow> 'a list) \<Rightarrow> ('a list \<Rightarrow> 'k \<Rightarrow> 'a list) \<Rightarrow> 'a list \<Rightarrow> ('k, 'a) table_op \<Rightarrow> 'a list" where
  "table_run put del xs op = (case op of Put a \<Rightarrow> put xs a | Del k \<Rightarrow> del xs k)"

definition table_spec :: "('a \<Rightarrow> 'k) \<Rightarrow> ('k \<rightharpoonup> 'a) \<Rightarrow> ('k, 'a) table_op \<Rightarrow> ('k \<rightharpoonup> 'a)" where
  "table_spec key m op = (case op of Put a \<Rightarrow> m(key a \<mapsto> a) | Del k \<Rightarrow> m(k := None))"

locale keyed_table =
  fixes key :: "'a \<Rightarrow> 'k"
    and put :: "'a list \<Rightarrow> 'a \<Rightarrow> 'a list"
    and del :: "'a list \<Rightarrow> 'k \<Rightarrow> 'a list"
  assumes lookup_put: "lookup_by key (put xs a) k = (if k = key a then Some a else lookup_by key xs k)"
    and lookup_del: "lookup_by key (del xs k') k = (if k = k' then None else lookup_by key xs k)"
    and put_distinct: "distinct (map key xs) \<Longrightarrow> distinct (map key (put xs a))"
    and del_distinct: "distinct (map key xs) \<Longrightarrow> distinct (map key (del xs k))"
begin

lemma run_op_refines: "lookup_by key (table_run put del xs op) = table_spec key (lookup_by key xs) op"
  by (cases op) (auto simp: table_run_def table_spec_def lookup_put lookup_del fun_eq_iff)

lemma run_ops_refine:
  "lookup_by key (foldl (table_run put del) xs ops) = foldl (table_spec key) (lookup_by key xs) ops"
  by (induction ops arbitrary: xs) (auto simp: run_op_refines)

lemma run_ops_distinct:
  "distinct (map key xs) \<Longrightarrow> distinct (map key (foldl (table_run put del) xs ops))"
proof (induction ops arbitrary: xs)
  case (Cons op ops)
  then have "distinct (map key (table_run put del xs op))"
    by (cases op) (auto simp: table_run_def put_distinct del_distinct)
  then show ?case by (simp add: Cons.IH)
qed simp

lemma put_then_del: "lookup_by key (del (put xs a) (key a)) = lookup_by key (del xs (key a))"
  by (auto simp: lookup_put lookup_del fun_eq_iff)

end

text \<open>A table that is kept sorted by key, as a \<open>BTreeMap\<close> is.\<close>

definition sorted_put :: "('a \<Rightarrow> 'k::linorder) \<Rightarrow> 'a list \<Rightarrow> 'a \<Rightarrow> 'a list" where
  "sorted_put key xs a = sort_key key (filter (\<lambda>x. key x \<noteq> key a) xs @ [a])"

definition drop_key :: "('a \<Rightarrow> 'k) \<Rightarrow> 'a list \<Rightarrow> 'k \<Rightarrow> 'a list" where
  "drop_key key xs k = filter (\<lambda>x. key x \<noteq> k) xs"

lemma find_filter: "find P xs = (case filter P xs of [] \<Rightarrow> None | x # _ \<Rightarrow> Some x)"
  by (induction xs) auto

text \<open>The sort is stable, so the first entry with a key stays the first one.\<close>

lemma lookup_by_sorted: "lookup_by key (sort_key key xs) k = lookup_by key xs k"
  by (simp add: lookup_by_def find_filter sort_key_stable)

interpretation sorted_table: keyed_table key "sorted_put key" "drop_key key" for key
proof
  fix xs :: "'a list" and a k
  show "lookup_by key (sorted_put key xs a) k = (if k = key a then Some a else lookup_by key xs k)"
    unfolding sorted_put_def lookup_by_sorted lookup_by_append lookup_by_filter_neq
    by (auto simp: lookup_by_def split: option.split)
  show "distinct (map key (sorted_put key xs a))" if "distinct (map key xs)"
    using that by (auto simp: sorted_put_def distinct_map inj_on_def)
qed (auto simp: drop_key_def lookup_by_filter_neq distinct_map_filter)

lemma sorted_put_sorted: "sorted (map key (sorted_put key xs a))"
  by (simp add: sorted_put_def)

lemma drop_key_sorted: "sorted (map key xs) \<Longrightarrow> sorted (map key (drop_key key xs k))"
  by (simp add: drop_key_def sorted_filter)

section \<open>A log with a cap\<close>

locale capped_log =
  fixes cap :: nat
    and push :: "'a list \<Rightarrow> 'a \<Rightarrow> 'a list"
  assumes push_keeps_last: "push xs x = keep_last cap (xs @ [x])"
begin

lemma push_length: "length (push xs x) \<le> cap"
  by (simp add: push_keeps_last)

lemma push_set: "set (push xs x) \<subseteq> insert x (set xs)"
  using set_keep_last [of cap "xs @ [x]"] by (auto simp: push_keeps_last)

text \<open>After any number of pushes the log is the last \<open>cap\<close> elements of all that was pushed.\<close>

lemma foldl_push: "foldl push (keep_last cap xs) ys = keep_last cap (xs @ ys)"
proof (induction ys arbitrary: xs)
  case (Cons y ys)
  have "push (keep_last cap xs) y = keep_last cap (xs @ [y])"
    by (simp add: push_keeps_last keep_last_snoc)
  then show ?case using Cons [of "xs @ [y]"] by simp
qed simp

lemma foldl_push_empty: "foldl push [] ys = keep_last cap ys"
  using foldl_push [of "[]" ys] by simp

end

section \<open>A state kept as a journal of events\<close>

text \<open>
  A store that replays a journal: \<open>step\<close> applies an event, \<open>settle\<close> is what a reader does to
  the replayed state before using it.  \<open>inv\<close> is kept by the events of the journal, and on the
  states \<open>small\<close> the settling changes nothing.
\<close>

locale journaled =
  fixes step :: "'s \<Rightarrow> 'e \<Rightarrow> 'err + 's"
    and settle :: "'s \<Rightarrow> 's"
    and init :: 's
    and inv :: "'s \<Rightarrow> bool"
    and good :: "'e \<Rightarrow> bool"
    and small :: "'s \<Rightarrow> bool"
  assumes init_inv: "inv init"
    and step_inv: "inv s \<Longrightarrow> good e \<Longrightarrow> step s e = Inr s' \<Longrightarrow> inv s'"
    and settle_inv: "inv s \<Longrightarrow> inv (settle s)"
    and settle_small: "inv s \<Longrightarrow> small s \<Longrightarrow> settle s = s"
begin

definition replay :: "'e list \<Rightarrow> 'err + 's" where
  "replay es = bind_res (fold_res step init es) (\<lambda>s. Inr (settle s))"

lemma steps_inv:
  assumes "list_all good es" and "fold_res step init es = Inr s"
  shows "inv s"
proof (rule fold_res_invariant [where I = inv and f = step and s = init and xs = es])
  show "fold_res step init es = Inr s" by fact
  show "inv init" by (rule init_inv)
  fix s e s' assume "inv s" "e \<in> set es" "step s e = Inr s'"
  with assms(1) show "inv s'" by (auto simp: list_all_iff intro: step_inv)
qed

lemma replay_inv: "list_all good es \<Longrightarrow> replay es = Inr s \<Longrightarrow> inv s"
  unfolding replay_def by (auto elim!: bind_res_InrD intro!: settle_inv intro: steps_inv)

text \<open>
  Applying an event to what a reader saw, then settling, is what the next reader sees, as long
  as settling has removed nothing.
\<close>

lemma replay_snoc:
  assumes "list_all good es" and "fold_res step init es = Inr s" and "small s"
  shows "replay (es @ [e]) = bind_res (replay es) (\<lambda>t. bind_res (step t e) (\<lambda>u. Inr (settle u)))"
proof -
  have "settle s = s" using steps_inv [OF assms(1,2)] assms(3) by (rule settle_small)
  with assms(2) show ?thesis
    by (simp add: replay_def fold_res_append) (cases "step s e"; simp)
qed

end

section \<open>A handler behind a guard\<close>

text \<open>
  A request handler that first asks a guard: a refused request gets the refusal as its answer
  and touches nothing.
\<close>

locale guarded_handler =
  fixes guard :: "'r \<Rightarrow> 'e option"
    and refusal :: "'e \<Rightarrow> 'a"
    and handle :: "'r \<Rightarrow> 's \<Rightarrow> 'a \<times> 's"
  assumes refused: "guard r = Some e \<Longrightarrow> handle r s = (refusal e, s)"
begin

definition admitted :: "'r \<Rightarrow> bool" where
  "admitted r = (guard r = None)"

definition serve :: "'r list \<Rightarrow> 's \<Rightarrow> 's" where
  "serve rs s = foldl (\<lambda>s r. snd (handle r s)) s rs"

text \<open>What a sequence of requests does to the state is what its admitted requests do.\<close>

lemma serve_admitted: "serve rs s = serve (filter admitted rs) s"
proof (induction rs arbitrary: s)
  case (Cons r rs)
  then show ?case
    by (cases "guard r") (simp_all add: serve_def admitted_def refused)
qed simp

lemma serve_refused: "list_all (\<lambda>r. \<not> admitted r) rs \<Longrightarrow> serve rs s = s"
proof -
  assume "list_all (\<lambda>r. \<not> admitted r) rs"
  then have "filter admitted rs = []" by (simp add: list_all_iff filter_empty_conv)
  then show ?thesis using serve_admitted [of rs s] by (simp add: serve_def)
qed

lemma serve_invariant:
  assumes "\<And>r s. r \<in> set rs \<Longrightarrow> admitted r \<Longrightarrow> I s \<Longrightarrow> I (snd (handle r s))" and "I s"
  shows "I (serve rs s)"
  using assms
proof (induction rs arbitrary: s)
  case (Cons r rs)
  have "I (snd (handle r s))"
    using Cons.prems by (cases "guard r") (simp_all add: admitted_def refused)
  then show ?case using Cons by (simp add: serve_def)
qed (simp add: serve_def)

end

section \<open>A value kept in a file\<close>

text \<open>
  A store that is read, changed and written back on every operation.  \<open>good\<close> are the values
  whose text reads back as the same value.
\<close>

locale json_store =
  fixes load :: "'f \<Rightarrow> 'v"
    and save :: "'v \<Rightarrow> 'f \<Rightarrow> 'f"
    and good :: "'v \<Rightarrow> bool"
  assumes load_save: "good v \<Longrightarrow> load (save v f) = v"
begin

definition rewrite :: "('v \<Rightarrow> 'v) \<Rightarrow> 'f \<Rightarrow> 'f" where
  "rewrite g f = save (g (load f)) f"

lemma load_rewrite: "good (g (load f)) \<Longrightarrow> load (rewrite g f) = g (load f)"
  by (simp add: rewrite_def load_save)

text \<open>A run of operations, each of which rewrites the file or leaves it, has the effect of the
  same run on the value, as long as the values on the way are good.\<close>

lemma load_run:
  assumes "\<And>x f. x \<in> set xs \<Longrightarrow> step f x = f \<and> g x (load f) = load f \<or> step f x = rewrite (g x) f"
    and "\<And>n. n \<le> length xs \<Longrightarrow> good (foldl (\<lambda>v x. g x v) (load f) (take n xs))"
  shows "load (foldl step f xs) = foldl (\<lambda>v x. g x v) (load f) xs"
  using assms
proof (induction xs arbitrary: f)
  case (Cons x xs)
  have "good (g x (load f))" using Cons.prems(2) [of 1] by simp
  then have head: "load (step f x) = g x (load f)"
    using Cons.prems(1) [of x f] load_rewrite [of "g x" f] by auto
  have "load (foldl step (step f x) xs) = foldl (\<lambda>v x. g x v) (load (step f x)) xs"
  proof (rule Cons.IH)
    show "step f' y = f' \<and> g y (load f') = load f' \<or> step f' y = rewrite (g y) f'" if "y \<in> set xs" for y f'
      using Cons.prems(1) [of y f'] that by simp
    show "good (foldl (\<lambda>v x. g x v) (load (step f x)) (take n xs))" if "n \<le> length xs" for n
      using Cons.prems(2) [of "Suc n"] that by (simp add: head)
  qed
  then show ?case by (simp add: head)
qed simp

end

end
