(* ===== verification/TaskRegistry.thy ===== *)
theory TaskRegistry
  imports Text_Ops Interfaces
begin

text \<open>
  The registries of \<open>agents/mod.rs\<close> and the task journal of \<open>channels/mod.rs\<close>.

  \<open>AgentRegistry\<close> keeps the peer agents as one JSON array, replaced by name.
  \<open>AgentTaskRegistry\<close> is event-sourced: every change is one line of a journal file, readers
  replay the journal, and a snapshot file is rewritten after each change.  The files are HOL
  strings (\<open>None\<close>: the file does not exist); \<open>serde_json\<close> is the record \<open>codec\<close> of its
  encoders and decoders, a parameter of every operation that reads or writes a file.  Other I/O
  errors than a missing file are not modelled.
\<close>

section \<open>Agent registry\<close>

record agent_entry =
  ae_name :: string
  ae_role :: "string option"
  ae_parent :: "string option"
  ae_pid :: "32 word"
  ae_gateway_url :: "string option"
  ae_started_at :: string

definition register :: "agent_entry list \<Rightarrow> agent_entry \<Rightarrow> agent_entry list" where
  "register entries entry = filter (\<lambda>e. ae_name e \<noteq> ae_name entry) entries @ [entry]"

definition unregister :: "agent_entry list \<Rightarrow> string \<Rightarrow> agent_entry list" where
  "unregister entries name = filter (\<lambda>e. ae_name e \<noteq> name) entries"

datatype resolve_error = NotInRegistry string | NoGatewayUrl string

definition resolve_agent_gateway :: "agent_entry list \<Rightarrow> string \<Rightarrow> resolve_error + string" where
  "resolve_agent_gateway entries agent_name =
     (case find (\<lambda>e. ae_name e = agent_name) entries of
        None \<Rightarrow> Inl (NotInRegistry agent_name)
      | Some entry \<Rightarrow>
          (case ae_gateway_url entry of
             None \<Rightarrow> Inl (NoGatewayUrl agent_name)
           | Some gw \<Rightarrow> Inr gw))"

interpretation agents: keyed_table ae_name register unregister
proof unfold_locales
  fix xs :: "agent_entry list" and a k k'
  show "lookup_by ae_name (register xs a) k = (if k = ae_name a then Some a else lookup_by ae_name xs k)"
    by (auto simp: register_def lookup_by_append lookup_by_filter_neq split: option.splits)
      (auto simp: lookup_by_def)
  show "lookup_by ae_name (unregister xs k') k = (if k = k' then None else lookup_by ae_name xs k)"
    by (simp add: unregister_def lookup_by_filter_neq)
  show "distinct (map ae_name xs) \<Longrightarrow> distinct (map ae_name (register xs a))"
    by (auto simp: register_def distinct_map intro: inj_on_subset)
  show "distinct (map ae_name xs) \<Longrightarrow> distinct (map ae_name (unregister xs k))"
    by (auto simp: unregister_def distinct_map intro: inj_on_subset)
qed

section \<open>Tasks\<close>

datatype agent_task_state = Submitted | Working | InputRequired | Completed | Failed | Canceled

definition state_to_string :: "agent_task_state \<Rightarrow> string" where
  "state_to_string s = (case s of
     Submitted \<Rightarrow> ''submitted'' | Working \<Rightarrow> ''working'' | InputRequired \<Rightarrow> ''input_required''
   | Completed \<Rightarrow> ''completed'' | Failed \<Rightarrow> ''failed'' | Canceled \<Rightarrow> ''canceled'')"

text \<open>\<open>FromStr\<close>: the derived decoder of the enum with \<open>rename_all = "snake_case"\<close>.\<close>

definition state_of_string :: "string \<Rightarrow> agent_task_state option" where
  "state_of_string s =
     (if s = ''submitted'' then Some Submitted
      else if s = ''working'' then Some Working
      else if s = ''input_required'' then Some InputRequired
      else if s = ''completed'' then Some Completed
      else if s = ''failed'' then Some Failed
      else if s = ''canceled'' then Some Canceled
      else None)"

definition is_terminal :: "agent_task_state \<Rightarrow> bool" where
  "is_terminal s = (case s of Completed \<Rightarrow> True | Failed \<Rightarrow> True | Canceled \<Rightarrow> True | _ \<Rightarrow> False)"

record task_message =
  tm_from :: string
  tm_text :: string
  tm_timestamp :: string

record scratchpad_entry =
  sp_from :: string
  sp_note :: string
  sp_timestamp :: string
  sp_kind :: string

definition max_scratchpad_entries :: nat where "max_scratchpad_entries = 50"
definition max_scratchpad_header_entries :: nat where "max_scratchpad_header_entries = 12"
definition max_terminal_tasks :: nat where "max_terminal_tasks = 100"
definition max_messages_per_task :: nat where "max_messages_per_task = 30"

record agent_task =
  task_id :: string
  task_agent :: string
  task_owner :: string
  task_participants :: "string list"
  task_state :: agent_task_state
  task_created_at :: string
  task_updated_at :: string
  task_result :: "string option"
  task_messages :: "task_message list"
  task_header :: "scratchpad_entry list"
  task_scratchpad :: "scratchpad_entry list"
  task_revision :: u64

abbreviation task_terminal :: "agent_task \<Rightarrow> bool" where
  "task_terminal t \<equiv> is_terminal (task_state t)"

text \<open>\<open>push\<close> followed by the \<open>split_off\<close> under the length guard.\<close>

definition push_message :: "task_message list \<Rightarrow> task_message \<Rightarrow> task_message list" where
  "push_message ms m = (let ms = ms @ [m] in
     if length ms > max_messages_per_task
     then drop (length ms - max_messages_per_task) ms else ms)"

definition push_scratchpad :: "scratchpad_entry list \<Rightarrow> scratchpad_entry \<Rightarrow> scratchpad_entry list" where
  "push_scratchpad es e = (let es = es @ [e] in
     if length es > max_scratchpad_entries
     then drop (length es - max_scratchpad_entries) es else es)"

definition push_header :: "scratchpad_entry list \<Rightarrow> scratchpad_entry \<Rightarrow> scratchpad_entry list" where
  "push_header es e = (let es = filter (\<lambda>x. sp_kind x \<noteq> sp_kind e) es @ [e] in
     if length es > max_scratchpad_header_entries
     then drop (length es - max_scratchpad_header_entries) es else es)"

interpretation messages: capped_log max_messages_per_task push_message
  by unfold_locales (simp add: push_message_def keep_last_def Let_def)

interpretation scratch: capped_log max_scratchpad_entries push_scratchpad
  by unfold_locales (simp add: push_scratchpad_def keep_last_def Let_def)

definition add_participant_name :: "string \<Rightarrow> agent_task \<Rightarrow> agent_task" where
  "add_participant_name participant task =
     (let p = trim participant in
      if p = [] then task
      else if \<not> list_ex (\<lambda>q. q = p) (task_participants task)
      then task\<lparr>task_participants := task_participants task @ [p]\<rparr> else task)"

definition normalize_task :: "agent_task \<Rightarrow> agent_task" where
  "normalize_task task0 =
     (let task1 =
        (if is_blank (task_owner task0)
         then task0\<lparr>task_owner :=
           (case task_messages task0 of
              [] \<Rightarrow> ''parent''
            | m # _ \<Rightarrow> if \<not> is_blank (tm_from m) then tm_from m else ''parent'')\<rparr>
         else task0);
       task2 = add_participant_name (task_owner task1) task1;
       task3 = add_participant_name (task_agent task1) task2
     in if task_revision task3 = 0
        then task3\<lparr>task_revision := of_nat (length (task_header task3) + length (task_scratchpad task3))\<rparr>
        else task3)"

section \<open>The journal's events\<close>

datatype 'v task_journal_event =
    Snapshot (tasks_value: 'v)
  | Created (task_value: 'v)
  | StateUpdated (ev_id: string) (ev_state: string) (ev_from: "string option")
      (ev_message: "string option") (ev_timestamp: string)
  | MessageAppended (ev_id: string) (ev_sender: string) (ev_text: string) (ev_timestamp: string)
  | ScratchpadAppended (ev_id: string) (ev_sender: string) (ev_note: string) (ev_kind: string)
      (ev_section: string) (ev_timestamp: string)
  | ParticipantAdded (ev_id: string) (ev_participant: string) (ev_timestamp: string)

text \<open>\<open>serde_json\<close>, on the type \<open>'v\<close> of its values.\<close>

record 'v codec =
  enc_event :: "'v task_journal_event \<Rightarrow> string"
  dec_event :: "string \<Rightarrow> 'v task_journal_event option"
  to_value :: "agent_task \<Rightarrow> 'v"
  task_from_value :: "'v \<Rightarrow> agent_task option"
  tasks_from_value :: "'v \<Rightarrow> agent_task list option"
  value_from_str :: "string \<Rightarrow> 'v option"
  tasks_to_str :: "agent_task list \<Rightarrow> string"
  tasks_from_str :: "string \<Rightarrow> agent_task list option"

datatype registry_error = SerdeError | UnknownTaskState string

fun apply_event ::
  "'v codec \<Rightarrow> agent_task list \<Rightarrow> 'v task_journal_event \<Rightarrow> registry_error + agent_task list"
where
  "apply_event c tasks (Snapshot v) =
     (case tasks_from_value c v of
        None \<Rightarrow> Inl SerdeError
      | Some ts \<Rightarrow> Inr (map normalize_task ts))"
| "apply_event c tasks (Created v) =
     (case task_from_value c v of
        None \<Rightarrow> Inl SerdeError
      | Some t0 \<Rightarrow> let task = normalize_task t0 in
          Inr (filter (\<lambda>x. task_id x \<noteq> task_id task) tasks @ [task]))"
| "apply_event c tasks (StateUpdated i st from message ts) =
     update_first (\<lambda>t. task_id t = i)
       (\<lambda>t. case state_of_string st of
          None \<Rightarrow> Inl (UnknownTaskState st)
        | Some s \<Rightarrow>
            let t1 = t\<lparr>task_state := s, task_updated_at := ts\<rparr> in
            (case message of
               None \<Rightarrow> Inr t1
             | Some msg \<Rightarrow>
                 let actor = (case from of None \<Rightarrow> task_agent t1 | Some a \<Rightarrow> a);
                     t2 = add_participant_name actor t1;
                     t3 = (if task_terminal t2 then t2\<lparr>task_result := Some msg\<rparr> else t2)
                 in Inr (t3\<lparr>task_messages := push_message (task_messages t3)
                        \<lparr>tm_from = actor, tm_text = msg, tm_timestamp = ts\<rparr>\<rparr>)))
       tasks"
| "apply_event c tasks (MessageAppended i from txt ts) =
     update_first (\<lambda>t. task_id t = i)
       (\<lambda>t. let t1 = add_participant_name from (t\<lparr>task_updated_at := ts\<rparr>) in
          Inr (t1\<lparr>task_messages := push_message (task_messages t1)
                 \<lparr>tm_from = from, tm_text = txt, tm_timestamp = ts\<rparr>\<rparr>))
       tasks"
| "apply_event c tasks (ScratchpadAppended i from note kind sect ts) =
     update_first (\<lambda>t. task_id t = i)
       (\<lambda>t. let t1 = add_participant_name from t;
               entry = \<lparr>sp_from = from, sp_note = note, sp_timestamp = ts, sp_kind = kind\<rparr>;
               t2 = t1\<lparr>task_updated_at := ts, task_revision := task_revision t1 + 1\<rparr>
           in if sect = ''header''
              then Inr (t2\<lparr>task_header := push_header (task_header t2) entry\<rparr>)
              else Inr (t2\<lparr>task_scratchpad := push_scratchpad (task_scratchpad t2) entry\<rparr>))
       tasks"
| "apply_event c tasks (ParticipantAdded i participant ts) =
     update_first (\<lambda>t. task_id t = i)
       (\<lambda>t. Inr (add_participant_name participant (t\<lparr>task_updated_at := ts\<rparr>)))
       tasks"

text \<open>\<open>prune_terminal\<close>: the \<open>retain\<close> closure with its counter.\<close>

fun prune_retain :: "nat \<Rightarrow> nat \<Rightarrow> agent_task list \<Rightarrow> agent_task list" where
  "prune_retain to_remove removed [] = []"
| "prune_retain to_remove removed (t # ts) =
     (if removed \<ge> to_remove then t # prune_retain to_remove removed ts
      else if task_terminal t then prune_retain to_remove (removed + 1) ts
      else t # prune_retain to_remove removed ts)"

definition prune_terminal :: "agent_task list \<Rightarrow> agent_task list" where
  "prune_terminal tasks =
     (let terminal = length (filter task_terminal tasks) in
      if terminal > max_terminal_tasks
      then prune_retain (terminal - max_terminal_tasks) 0 tasks else tasks)"

section \<open>Files\<close>

record task_files =
  snapshot_file :: "string option"
  journal_file :: "string option"

definition append_task_journal_event ::
  "'v codec \<Rightarrow> 'v task_journal_event \<Rightarrow> task_files \<Rightarrow> task_files" where
  "append_task_journal_event c ev fs =
     fs\<lparr>journal_file :=
       Some ((case journal_file fs of None \<Rightarrow> [] | Some d \<Rightarrow> d) @ enc_event c ev @ [newline])\<rparr>"

definition read_task_journal_events ::
  "'v codec \<Rightarrow> task_files \<Rightarrow> registry_error + 'v task_journal_event list" where
  "read_task_journal_events c fs =
     (case journal_file fs of
        None \<Rightarrow> Inr []
      | Some data \<Rightarrow>
          collect_res (map (\<lambda>line. case dec_event c line of None \<Rightarrow> Inl SerdeError | Some e \<Rightarrow> Inr e)
            (filter (\<lambda>line. \<not> is_blank line) (str_lines data))))"

definition seed_task_journal_from_snapshot ::
  "'v codec \<Rightarrow> task_files \<Rightarrow> registry_error + task_files" where
  "seed_task_journal_from_snapshot c fs =
     (if journal_file fs \<noteq> None then Inr fs
      else case snapshot_file fs of
        None \<Rightarrow> Inr fs
      | Some data \<Rightarrow>
          (case value_from_str c data of
             None \<Rightarrow> Inl SerdeError
           | Some v \<Rightarrow> Inr (append_task_journal_event c (Snapshot v) fs)))"

definition load_unlocked :: "'v codec \<Rightarrow> task_files \<Rightarrow> registry_error + agent_task list" where
  "load_unlocked c fs =
     bind_res (read_task_journal_events c fs) (\<lambda>journal.
       if journal \<noteq> []
       then bind_res (fold_res (apply_event c) [] journal)
              (\<lambda>tasks. Inr (prune_terminal (map normalize_task tasks)))
       else case snapshot_file fs of
         None \<Rightarrow> Inr []
       | Some data \<Rightarrow>
           (case tasks_from_str c data of
              None \<Rightarrow> Inl SerdeError
            | Some tasks \<Rightarrow> Inr (map normalize_task tasks)))"

definition save_unlocked :: "'v codec \<Rightarrow> agent_task list \<Rightarrow> task_files \<Rightarrow> task_files" where
  "save_unlocked c tasks fs = fs\<lparr>snapshot_file := Some (tasks_to_str c tasks)\<rparr>"

text \<open>
  The body run under the path lock: the files it leaves, also when it fails half way, and its
  result.
\<close>

definition record_event ::
  "'v codec \<Rightarrow> 'v task_journal_event \<Rightarrow> task_files \<Rightarrow> task_files \<times> (registry_error + unit)" where
  "record_event c ev fs =
     (case seed_task_journal_from_snapshot c fs of
        Inl e \<Rightarrow> (fs, Inl e)
      | Inr fs1 \<Rightarrow>
          (case load_unlocked c fs1 of
             Inl e \<Rightarrow> (fs1, Inl e)
           | Inr tasks \<Rightarrow>
               (case apply_event c tasks ev of
                  Inl e \<Rightarrow> (fs1, Inl e)
                | Inr tasks1 \<Rightarrow>
                    let fs2 = append_task_journal_event c ev fs1
                    in (save_unlocked c (prune_terminal tasks1) fs2, Inr ()))))"

section \<open>Operations of the registry\<close>

definition create ::
  "'v codec \<Rightarrow> string \<Rightarrow> string \<Rightarrow> string \<Rightarrow> string \<Rightarrow> string \<Rightarrow> task_files
     \<Rightarrow> task_files \<times> (registry_error + agent_task)" where
  "create c now uuid agent message owner fs =
     (let task = \<lparr>task_id = uuid, task_agent = agent, task_owner = owner,
            task_participants = [owner, agent], task_state = Submitted,
            task_created_at = now, task_updated_at = now, task_result = None,
            task_messages = [\<lparr>tm_from = owner, tm_text = message, tm_timestamp = now\<rparr>],
            task_header = [], task_scratchpad = [], task_revision = 0\<rparr>
      in case record_event c (Created (to_value c task)) fs of
           (fs', Inl e) \<Rightarrow> (fs', Inl e)
         | (fs', Inr _) \<Rightarrow> (fs', Inr task))"

definition get_task :: "'v codec \<Rightarrow> task_files \<Rightarrow> string \<Rightarrow> registry_error + agent_task option" where
  "get_task c fs i = bind_res (load_unlocked c fs) (\<lambda>ts. Inr (find (\<lambda>t. task_id t = i) ts))"

definition list_active :: "'v codec \<Rightarrow> task_files \<Rightarrow> registry_error + agent_task list" where
  "list_active c fs =
     bind_res (load_unlocked c fs) (\<lambda>ts. Inr (filter (\<lambda>t. \<not> task_terminal t) ts))"

definition update_state ::
  "'v codec \<Rightarrow> string \<Rightarrow> string \<Rightarrow> agent_task_state \<Rightarrow> string option \<Rightarrow> string option \<Rightarrow> task_files
     \<Rightarrow> task_files \<times> (registry_error + unit)" where
  "update_state c now i st from message =
     record_event c (StateUpdated i (state_to_string st) from message now)"

definition append_message ::
  "'v codec \<Rightarrow> string \<Rightarrow> string \<Rightarrow> string \<Rightarrow> string \<Rightarrow> task_files
     \<Rightarrow> task_files \<times> (registry_error + unit)" where
  "append_message c now i from txt = record_event c (MessageAppended i from txt now)"

definition scratchpad_append_kind ::
  "'v codec \<Rightarrow> string \<Rightarrow> string \<Rightarrow> string \<Rightarrow> string \<Rightarrow> string option \<Rightarrow> task_files
     \<Rightarrow> task_files \<times> (registry_error + unit)" where
  "scratchpad_append_kind c now i from note kind =
     record_event c (ScratchpadAppended i from note
       (case kind of None \<Rightarrow> [] | Some k \<Rightarrow> k) ''activity'' now)"

definition scratchpad_append ::
  "'v codec \<Rightarrow> string \<Rightarrow> string \<Rightarrow> string \<Rightarrow> string \<Rightarrow> task_files
     \<Rightarrow> task_files \<times> (registry_error + unit)" where
  "scratchpad_append c now i from note = scratchpad_append_kind c now i from note None"

definition scratchpad_set_header ::
  "'v codec \<Rightarrow> string \<Rightarrow> string \<Rightarrow> string \<Rightarrow> string \<Rightarrow> string \<Rightarrow> task_files
     \<Rightarrow> task_files \<times> (registry_error + unit)" where
  "scratchpad_set_header c now i from kind note fs =
     (case get_task c fs i of
        Inl e \<Rightarrow> (fs, Inl e)
      | Inr found \<Rightarrow>
          if (case found of None \<Rightarrow> False
              | Some t \<Rightarrow> list_ex (\<lambda>e. sp_kind e = kind \<and> sp_from e = from \<and> sp_note e = note)
                           (task_header t))
          then (fs, Inr ())
          else record_event c (ScratchpadAppended i from note kind ''header'' now) fs)"

definition add_participant ::
  "'v codec \<Rightarrow> string \<Rightarrow> string \<Rightarrow> string \<Rightarrow> task_files \<Rightarrow> task_files \<times> (registry_error + unit)" where
  "add_participant c now i participant = record_event c (ParticipantAdded i participant now)"

section \<open>Well-formed tasks\<close>

definition task_ok :: "agent_task \<Rightarrow> bool" where
  "task_ok t \<longleftrightarrow>
     length (task_messages t) \<le> max_messages_per_task \<and>
     length (task_header t) \<le> max_scratchpad_header_entries \<and>
     distinct (map sp_kind (task_header t)) \<and>
     length (task_scratchpad t) \<le> max_scratchpad_entries"

definition registry_ok :: "agent_task list \<Rightarrow> bool" where
  "registry_ok ts \<longleftrightarrow> distinct (map task_id ts) \<and> list_all task_ok ts"

definition event_ok :: "'v codec \<Rightarrow> 'v task_journal_event \<Rightarrow> bool" where
  "event_ok c ev =
     (case ev of
        Snapshot v \<Rightarrow> (case tasks_from_value c v of None \<Rightarrow> False | Some ts \<Rightarrow> registry_ok ts)
      | Created v \<Rightarrow> (case task_from_value c v of None \<Rightarrow> False | Some t \<Rightarrow> task_ok t)
      | StateUpdated i st from msg ts \<Rightarrow> state_of_string st \<noteq> None
      | _ \<Rightarrow> True)"

lemma state_roundtrip: "state_of_string (state_to_string s) = Some s"
  by (cases s) (simp_all add: state_to_string_def state_of_string_def)

lemma add_participant_name_fields [simp]:
  "task_id (add_participant_name p t) = task_id t"
  "task_agent (add_participant_name p t) = task_agent t"
  "task_owner (add_participant_name p t) = task_owner t"
  "task_state (add_participant_name p t) = task_state t"
  "task_messages (add_participant_name p t) = task_messages t"
  "task_header (add_participant_name p t) = task_header t"
  "task_scratchpad (add_participant_name p t) = task_scratchpad t"
  "task_revision (add_participant_name p t) = task_revision t"
  "task_result (add_participant_name p t) = task_result t"
  by (simp_all add: add_participant_name_def Let_def)

lemma normalize_task_fields [simp]:
  "task_id (normalize_task t) = task_id t"
  "task_agent (normalize_task t) = task_agent t"
  "task_state (normalize_task t) = task_state t"
  "task_messages (normalize_task t) = task_messages t"
  "task_header (normalize_task t) = task_header t"
  "task_scratchpad (normalize_task t) = task_scratchpad t"
  "task_result (normalize_task t) = task_result t"
  by (simp_all add: normalize_task_def Let_def)

lemma task_ok_normalize [simp]: "task_ok (normalize_task t) = task_ok t"
  by (simp add: task_ok_def)

lemma task_ok_add_participant [simp]: "task_ok (add_participant_name p t) = task_ok t"
  by (simp add: task_ok_def)

lemma registry_ok_normalize [simp]: "registry_ok (map normalize_task ts) = registry_ok ts"
  by (simp add: registry_ok_def list_all_iff comp_def)

lemma push_header_eq:
  "push_header es e = keep_last max_scratchpad_header_entries
     (filter (\<lambda>x. sp_kind x \<noteq> sp_kind e) es @ [e])"
  by (simp add: push_header_def keep_last_def Let_def)

lemma push_header_ok:
  assumes "distinct (map sp_kind es)"
  shows "length (push_header es e) \<le> max_scratchpad_header_entries"
    and "distinct (map sp_kind (push_header es e))"
proof -
  have "distinct (map sp_kind (filter (\<lambda>x. sp_kind x \<noteq> sp_kind e) es @ [e]))"
    using assms by (auto simp: distinct_map intro: inj_on_subset)
  then show "distinct (map sp_kind (push_header es e))"
    unfolding push_header_eq by (rule distinct_map_keep_last)
qed (simp add: push_header_eq)

text \<open>An update of the task found keeps every other task and the list of ids.\<close>

lemma update_first_registry_ok:
  assumes "update_first p f ts = Inr ts'" and "registry_ok ts"
    and "\<And>t t'. f t = Inr t' \<Longrightarrow> task_id t' = task_id t"
    and "\<And>t t'. task_ok t \<Longrightarrow> f t = Inr t' \<Longrightarrow> task_ok t'"
  shows "registry_ok ts'"
  using update_first_map [OF assms(1), of task_id] update_first_list_all [OF assms(1), of task_ok]
    assms(2-4) by (auto simp: registry_ok_def)

lemma task_ok_push_message:
  "task_ok t \<Longrightarrow> task_ok (t\<lparr>task_messages := push_message ms m\<rparr>)"
  using messages.push_length by (simp add: task_ok_def)

lemma apply_event_ok:
  assumes "registry_ok ts" and "event_ok c ev" and "apply_event c ts ev = Inr ts'"
  shows "registry_ok ts'"
proof (cases ev)
  case (Snapshot v)
  with assms show ?thesis by (auto simp: event_ok_def split: option.splits)
next
  case (Created v)
  with assms obtain t where "task_from_value c v = Some t" "task_ok t"
    "ts' = filter (\<lambda>x. task_id x \<noteq> task_id t) ts @ [normalize_task t]"
    by (auto simp: event_ok_def Let_def split: option.splits)
  with assms(1) show ?thesis
    by (auto simp: registry_ok_def list_all_iff distinct_map intro: inj_on_subset)
next
  case (StateUpdated i st who msg tm)
  show ?thesis
    by (rule update_first_registry_ok [OF assms(3) [unfolded StateUpdated apply_event.simps] assms(1)])
      (auto simp: Let_def task_ok_def messages.push_length split: option.splits if_splits)
next
  case (MessageAppended i who body tm)
  show ?thesis
    by (rule update_first_registry_ok [OF assms(3) [unfolded MessageAppended apply_event.simps] assms(1)])
      (auto simp: Let_def task_ok_def messages.push_length)
next
  case (ScratchpadAppended i who body kind sect tm)
  show ?thesis
    by (rule update_first_registry_ok [OF assms(3) [unfolded ScratchpadAppended apply_event.simps] assms(1)])
      (auto simp: Let_def task_ok_def scratch.push_length push_header_ok split: if_splits)
next
  case (ParticipantAdded i who tm)
  show ?thesis
    by (rule update_first_registry_ok [OF assms(3) [unfolded ParticipantAdded apply_event.simps] assms(1)])
      (auto simp: task_ok_def)
qed

lemma update_first_total:
  "(\<And>t. \<exists>t'. f t = Inr t') \<Longrightarrow> \<exists>ts'. update_first p f ts = Inr ts'"
  by (induction ts) (auto simp: bind_res_def split: sum.splits, metis sum.distinct(1))

lemma apply_event_total: "event_ok c ev \<Longrightarrow> \<exists>ts'. apply_event c ts ev = Inr ts'"
  by (cases ev) (auto simp: event_ok_def Let_def split: option.splits intro!: update_first_total)

section \<open>Pruning\<close>

lemma prune_retain_nonterminal:
  "filter (\<lambda>t. \<not> task_terminal t) (prune_retain k r ts) = filter (\<lambda>t. \<not> task_terminal t) ts"
  by (induction k r ts rule: prune_retain.induct) auto

lemma prune_retain_terminal:
  "r \<le> k \<Longrightarrow> filter task_terminal (prune_retain k r ts) = drop (k - r) (filter task_terminal ts)"
proof (induction k r ts rule: prune_retain.induct)
  case (2 k r t ts)
  show ?case
  proof (cases "r < k")
    case True
    then have "k - r = Suc (k - Suc r)" by simp
    with 2 True show ?thesis by auto
  qed (use 2 in auto)
qed simp

lemma prune_retain_subseq: "subseq (prune_retain k r ts) ts"
  by (induction k r ts rule: prune_retain.induct) auto

lemma prune_terminal_nonterminal [simp]:
  "filter (\<lambda>t. \<not> task_terminal t) (prune_terminal ts) = filter (\<lambda>t. \<not> task_terminal t) ts"
  by (simp add: prune_terminal_def prune_retain_nonterminal Let_def)

lemma prune_terminal_terminal [simp]:
  "filter task_terminal (prune_terminal ts) = keep_last max_terminal_tasks (filter task_terminal ts)"
  by (simp add: prune_terminal_def prune_retain_terminal keep_last_def Let_def)

lemma prune_terminal_subseq: "subseq (prune_terminal ts) ts"
  by (simp add: prune_terminal_def prune_retain_subseq Let_def)

lemma registry_ok_subseq: "registry_ok ts \<Longrightarrow> subseq us ts \<Longrightarrow> registry_ok us"
  unfolding registry_ok_def subseq_conv_nths
  by (auto simp: nths_map [symmetric] list_all_iff intro: distinct_nthsI dest: in_set_nthsD)

lemma prune_terminal_ok: "registry_ok ts \<Longrightarrow> registry_ok (prune_terminal ts)"
  by (rule registry_ok_subseq [OF _ prune_terminal_subseq])

lemma prune_terminal_few:
  "length (filter task_terminal ts) \<le> max_terminal_tasks \<Longrightarrow> prune_terminal ts = ts"
  by (simp add: prune_terminal_def)

definition settle :: "agent_task list \<Rightarrow> agent_task list" where
  "settle ts = prune_terminal (map normalize_task ts)"

definition unpruned :: "agent_task list \<Rightarrow> bool" where
  "unpruned ts \<longleftrightarrow> length (filter task_terminal ts) \<le> max_terminal_tasks
     \<and> (\<forall>t\<in>set ts. normalize_task t = t)"

interpretation journal: journaled "apply_event c" settle "[]" registry_ok "event_ok c" unpruned
  for c :: "'v codec"
proof unfold_locales
  show "registry_ok []" by (simp add: registry_ok_def)
  show "registry_ok (settle s)" if "registry_ok s" for s
    using that by (simp add: settle_def prune_terminal_ok)
  show "settle s = s" if "unpruned s" for s
    using that by (simp add: settle_def unpruned_def prune_terminal_few map_idI)
qed (rule apply_event_ok)

section \<open>The journal file\<close>

text \<open>What the code relies on of \<open>serde_json::to_writer\<close> for one event: it is decoded back, and the
  compact form is one nonblank line.\<close>

definition line_ok :: "'v codec \<Rightarrow> 'v task_journal_event \<Rightarrow> bool" where
  "line_ok c ev \<longleftrightarrow> dec_event c (enc_event c ev) = Some ev \<and> newline \<notin> set (enc_event c ev) \<and>
     \<not> is_blank (enc_event c ev) \<and> last (enc_event c ev) \<noteq> CHR 0x0D"

definition whole_lines :: "task_files \<Rightarrow> bool" where
  "whole_lines fs = (case journal_file fs of None \<Rightarrow> True | Some d \<Rightarrow> d = [] \<or> last d = newline)"

lemma whole_lines_append [simp]: "whole_lines (append_task_journal_event c ev fs)"
  by (simp add: whole_lines_def append_task_journal_event_def)

lemma snapshot_append [simp]:
  "snapshot_file (append_task_journal_event c ev fs) = snapshot_file fs"
  "journal_file (append_task_journal_event c ev fs) \<noteq> None"
  by (simp_all add: append_task_journal_event_def)

lemma read_append:
  assumes "whole_lines fs" and "line_ok c ev" and "read_task_journal_events c fs = Inr es"
  shows "read_task_journal_events c (append_task_journal_event c ev fs) = Inr (es @ [ev])"
proof -
  define d where "d = (case journal_file fs of None \<Rightarrow> [] | Some d \<Rightarrow> d)"
  have "str_lines (d @ enc_event c ev @ [newline]) = str_lines d @ [enc_event c ev]"
    using assms(1,2) by (intro str_lines_snoc)
      (auto simp: line_ok_def whole_lines_def d_def split: option.splits)
  with assms(2,3) show ?thesis
    by (auto simp: read_task_journal_events_def append_task_journal_event_def line_ok_def d_def
        collect_res_append split: option.splits)
qed

lemma load_replay:
  "read_task_journal_events c fs = Inr es \<Longrightarrow> es \<noteq> [] \<Longrightarrow> load_unlocked c fs = journal.replay c es"
  by (simp add: load_unlocked_def journal.replay_def settle_def)

text \<open>The states the registry's own operations leave on disk.\<close>

inductive written :: "'v codec \<Rightarrow> task_files \<Rightarrow> bool" for c :: "'v codec" where
  fresh: "written c \<lparr>snapshot_file = None, journal_file = None\<rparr>"
| legacy: "value_from_str c data = Some v \<Longrightarrow> tasks_from_str c data = tasks_from_value c v \<Longrightarrow>
     event_ok c (Snapshot v) \<Longrightarrow> line_ok c (Snapshot v) \<Longrightarrow>
     written c \<lparr>snapshot_file = Some data, journal_file = None\<rparr>"
| recorded: "written c fs \<Longrightarrow> event_ok c ev \<Longrightarrow> line_ok c ev \<Longrightarrow>
     written c (fst (record_event c ev fs))"

definition legacy_ok :: "'v codec \<Rightarrow> task_files \<Rightarrow> bool" where
  "legacy_ok c fs = (case snapshot_file fs of
     None \<Rightarrow> True
   | Some data \<Rightarrow> (case value_from_str c data of
       None \<Rightarrow> False
     | Some v \<Rightarrow> tasks_from_str c data = tasks_from_value c v \<and> event_ok c (Snapshot v)
         \<and> line_ok c (Snapshot v)))"

definition files_ok :: "'v codec \<Rightarrow> task_files \<Rightarrow> bool" where
  "files_ok c fs = (case journal_file fs of
     None \<Rightarrow> legacy_ok c fs
   | Some d \<Rightarrow> whole_lines fs \<and> (case read_task_journal_events c fs of
       Inl _ \<Rightarrow> False | Inr es \<Rightarrow> es \<noteq> [] \<and> list_all (event_ok c) es))"

lemma files_ok_append:
  assumes "whole_lines fs" "line_ok c ev" "read_task_journal_events c fs = Inr es"
    "list_all (event_ok c) es" "event_ok c ev"
  shows "files_ok c (append_task_journal_event c ev fs)"
  using read_append [OF assms(1-3)] assms(4,5)
  by (auto simp: files_ok_def append_task_journal_event_def split: option.splits)
    (auto simp: whole_lines_def)

lemma files_ok_snapshot:
  "journal_file fs \<noteq> None \<Longrightarrow> files_ok c (save_unlocked c ts fs) = files_ok c fs"
  by (auto simp: files_ok_def save_unlocked_def whole_lines_def read_task_journal_events_def
      split: option.splits)

text \<open>Seeding leaves a journal that reads back, unless there was nothing to seed from.\<close>

lemma seed_files_ok:
  assumes "files_ok c fs"
  obtains fs1 es where "seed_task_journal_from_snapshot c fs = Inr fs1" "files_ok c fs1"
    "whole_lines fs1" "read_task_journal_events c fs1 = Inr es" "list_all (event_ok c) es"
    "load_unlocked c fs1 = load_unlocked c fs \<or> journal_file fs = None"
    "journal_file fs1 = None \<longleftrightarrow> journal_file fs = None \<and> snapshot_file fs = None"
proof (cases "journal_file fs")
  case (Some d)
  with assms that [of fs] show ?thesis
    by (auto simp: files_ok_def seed_task_journal_from_snapshot_def split: sum.splits)
next
  case None
  show ?thesis
  proof (cases "snapshot_file fs")
    case None2: None
    with None assms that [of fs "[]"] show ?thesis
      by (auto simp: seed_task_journal_from_snapshot_def read_task_journal_events_def whole_lines_def)
  next
    case (Some data)
    with None assms obtain v where v: "value_from_str c data = Some v" "event_ok c (Snapshot v)"
      "line_ok c (Snapshot v)" by (auto simp: files_ok_def legacy_ok_def split: option.splits)
    have r: "whole_lines fs" "read_task_journal_events c fs = Inr []"
      using None by (simp_all add: whole_lines_def read_task_journal_events_def)
    show ?thesis
      using that [of "append_task_journal_event c (Snapshot v) fs" "[Snapshot v]"]
        read_append [OF r(1) v(3) r(2)] files_ok_append [OF r(1) v(3) r(2)] None Some v
      by (auto simp: seed_task_journal_from_snapshot_def)
  qed
qed

lemma files_ok_load:
  assumes "files_ok c fs"
  shows "\<exists>ts. load_unlocked c fs = Inr ts \<and> registry_ok ts"
proof (cases "journal_file fs")
  case None
  then have "read_task_journal_events c fs = Inr []" by (simp add: read_task_journal_events_def)
  with None assms show ?thesis
    by (auto simp: files_ok_def legacy_ok_def load_unlocked_def event_ok_def registry_ok_def
        split: option.splits) (auto simp: list_all_iff comp_def)
next
  case (Some d)
  with assms obtain es where es: "read_task_journal_events c fs = Inr es" "es \<noteq> []"
    "list_all (event_ok c) es" by (auto simp: files_ok_def split: sum.splits)
  have "\<exists>t. fold_res (apply_event c) s es = Inr t" for s
    using es(3) by (induction es arbitrary: s) (auto, metis apply_event_total bind_res_simps(2))
  then obtain s where "fold_res (apply_event c) [] es = Inr s" by blast
  then have "journal.replay c es = Inr (settle s)" by (simp add: journal.replay_def)
  with es show ?thesis
    using journal.replay_inv [OF es(3)] load_replay [OF es(1,2)] by auto
qed

lemma record_event_files_ok:
  assumes "files_ok c fs" "event_ok c ev" "line_ok c ev"
  shows "files_ok c (fst (record_event c ev fs)) \<and> snd (record_event c ev fs) = Inr ()"
proof -
  obtain fs1 es where fs1: "seed_task_journal_from_snapshot c fs = Inr fs1" "files_ok c fs1"
    "whole_lines fs1" "read_task_journal_events c fs1 = Inr es" "list_all (event_ok c) es"
    using seed_files_ok [OF assms(1)] by metis
  obtain ts where ts: "load_unlocked c fs1 = Inr ts" using files_ok_load [OF fs1(2)] by blast
  obtain ts' where ts': "apply_event c ts ev = Inr ts'" using apply_event_total [OF assms(2)] by blast
  have "files_ok c (append_task_journal_event c ev fs1)"
    by (rule files_ok_append [OF fs1(3) assms(3) fs1(4,5) assms(2)])
  with fs1(1) ts ts' show ?thesis by (simp add: record_event_def Let_def files_ok_snapshot)
qed

lemma written_files_ok: "written c fs \<Longrightarrow> files_ok c fs"
proof (induction rule: written.induct)
  case fresh
  show ?case by (simp add: files_ok_def legacy_ok_def)
next
  case (legacy data v)
  then show ?case by (simp add: files_ok_def legacy_ok_def)
next
  case (recorded fs ev)
  then show ?case using record_event_files_ok by blast
qed

section \<open>Properties\<close>


text \<open>A recorded event is appended to the journal: a reader of the new journal sees the
  events there were (after seeding from a legacy snapshot) followed by this one.\<close>

theorem record_event_appends:
  assumes "written c fs" and "event_ok c ev" and "line_ok c ev"
    and "seed_task_journal_from_snapshot c fs = Inr fs1"
    and "read_task_journal_events c fs1 = Inr es"
  shows "snd (record_event c ev fs) = Inr ()
    \<and> read_task_journal_events c (fst (record_event c ev fs)) = Inr (es @ [ev])"
proof -
  obtain fs2 es2 where fs2: "seed_task_journal_from_snapshot c fs = Inr fs2" "files_ok c fs2"
    "whole_lines fs2" "read_task_journal_events c fs2 = Inr es2"
    using seed_files_ok [OF written_files_ok [OF assms(1)]] by metis
  with assms have eq: "fs2 = fs1" "es2 = es" by auto
  obtain ts where ts: "load_unlocked c fs1 = Inr ts" using files_ok_load fs2(2) eq by blast
  obtain ts' where ts': "apply_event c ts ev = Inr ts'" using apply_event_total [OF assms(2)] by blast
  show ?thesis
    using read_append [OF fs2(3) assms(3) fs2(4)] eq ts ts' assms(4)
    by (simp add: record_event_def Let_def save_unlocked_def read_task_journal_events_def)
qed


text \<open>Pruning removes only finished tasks, keeps exactly the last 100 of them, and keeps the
  order of what stays.\<close>

theorem prune_terminal_spec:
  "subseq (prune_terminal ts) ts
   \<and> filter (\<lambda>t. \<not> task_terminal t) (prune_terminal ts) = filter (\<lambda>t. \<not> task_terminal t) ts
   \<and> filter task_terminal (prune_terminal ts) = keep_last 100 (filter task_terminal ts)"
  using prune_terminal_subseq prune_terminal_terminal [of ts, unfolded max_terminal_tasks_def]
  by simp

text \<open>The list of active tasks is that of the whole replayed journal: pruning never hides an
  unfinished task.\<close>

theorem list_active_complete:
  assumes "read_task_journal_events c fs = Inr es" and "es \<noteq> []"
    and "fold_res (apply_event c) [] es = Inr s"
  shows "list_active c fs = Inr (filter (\<lambda>t. \<not> task_terminal t) (map normalize_task s))"
  using assms by (simp add: list_active_def load_replay journal.replay_def settle_def)

text \<open>An event that fails (an unknown state name, an undecodable task, an unreadable file)
  leaves the files as they were, but for the seeding of a missing journal.\<close>

theorem record_event_error_keeps_files:
  assumes "record_event c ev fs = (fs', Inl e)" and "journal_file fs \<noteq> None"
  shows "fs' = fs"
  using assms
  by (auto simp: record_event_def seed_task_journal_from_snapshot_def Let_def split: sum.splits)

text \<open>Whatever messages are appended to a task, it shows the last 30 of all its messages, in
  order.\<close>

theorem message_window:
  assumes "length (task_messages t) \<le> 30"
  shows "\<exists>t'. fold_res (apply_event c) [t] (map (\<lambda>(who, txt, ts). MessageAppended (task_id t) who txt ts) ms)
      = Inr [t']
    \<and> task_messages t' = keep_last 30 (task_messages t @
        map (\<lambda>(who, txt, ts). \<lparr>tm_from = who, tm_text = txt, tm_timestamp = ts\<rparr>) ms)"
proof -
  have step: "\<exists>t'. fold_res (apply_event c) [t] (map (\<lambda>(who, txt, ts). MessageAppended (task_id t) who txt ts) ms)
      = Inr [t'] \<and> task_messages t' = foldl push_message (task_messages t)
        (map (\<lambda>(who, txt, ts). \<lparr>tm_from = who, tm_text = txt, tm_timestamp = ts\<rparr>) ms)" for t
  proof (induction ms arbitrary: t)
    case (Cons m ms)
    obtain who body tm where m: "m = (who, body, tm)" by (cases m) auto
    let ?u = "add_participant_name who (t\<lparr>task_updated_at := tm\<rparr>)
      \<lparr>task_messages := push_message (task_messages t)
        \<lparr>tm_from = who, tm_text = body, tm_timestamp = tm\<rparr>\<rparr>"
    show ?case using Cons [of ?u] by (simp add: m Let_def)
  qed simp
  have "keep_last max_messages_per_task (task_messages t) = task_messages t"
    using assms by (simp add: max_messages_per_task_def)
  with step [of t] messages.foldl_push [of "task_messages t"] show ?thesis
    by (auto simp: max_messages_per_task_def)
qed

text \<open>The agent registry is a map from names to entries: after any registrations and
  removals, looking a name up gives what the same updates of a map give.\<close>

theorem agent_registry_refines_map:
  "lookup_by ae_name (foldl (table_run register unregister) [] ops)
     = foldl (table_spec ae_name) (\<lambda>_. None) ops"
proof -
  have empty: "lookup_by ae_name [] = (\<lambda>_. None)" by (rule ext) simp
  show ?thesis using agents.run_ops_refine [of "[]" ops] unfolding empty .
qed

section \<open>Concrete runs\<close>

definition demo_task :: "string \<Rightarrow> agent_task_state \<Rightarrow> agent_task" where
  "demo_task i st = \<lparr>task_id = i, task_agent = ''w'', task_owner = ''p'',
     task_participants = [''p'', ''w''], task_state = st, task_created_at = ''0'',
     task_updated_at = ''0'', task_result = None, task_messages = [], task_header = [],
     task_scratchpad = [], task_revision = 0\<rparr>"

text \<open>A codec for the three events of the runs below, with lists of tasks for JSON values.\<close>

definition demo_tasks :: "agent_task list" where
  "demo_tasks = map (\<lambda>i. demo_task (replicate i (CHR ''x'')) Completed) [0..<101]"

definition demo_codec :: "agent_task list codec" where
  "demo_codec = \<lparr>
     enc_event = (\<lambda>e. case e of Snapshot _ \<Rightarrow> ''s'' | Created _ \<Rightarrow> ''c'' | StateUpdated _ _ _ _ _ \<Rightarrow> ''u''
       | MessageAppended _ _ _ _ \<Rightarrow> ''m'' | ScratchpadAppended _ _ _ _ _ _ \<Rightarrow> ''p''
       | ParticipantAdded _ _ _ \<Rightarrow> ''a''),
     dec_event = (\<lambda>l. if l = ''s'' then Some (Snapshot demo_tasks)
       else if l = ''c'' then Some (Created [demo_task ''t1'' Submitted])
       else if l = ''u'' then Some (StateUpdated [] ''working'' None None ''1'') else None),
     to_value = (\<lambda>t. [t]),
     task_from_value = (\<lambda>v. case v of [t] \<Rightarrow> Some t | _ \<Rightarrow> None),
     tasks_from_value = Some,
     value_from_str = (\<lambda>d. if d = ''[]'' then Some demo_tasks else None),
     tasks_to_str = (\<lambda>_. ''[]''),
     tasks_from_str = (\<lambda>d. if d = ''[]'' then Some demo_tasks else None)\<rparr>"

abbreviation no_files :: task_files where
  "no_files \<equiv> \<lparr>snapshot_file = None, journal_file = None\<rparr>"

abbreviation demo_created :: "agent_task list task_journal_event" where
  "demo_created \<equiv> Created [demo_task ''t1'' Submitted]"

lemma demo_line_ok: "line_ok demo_codec demo_created"
  by code_simp

lemma demo_event_ok: "event_ok demo_codec demo_created"
  by code_simp

lemma demo_normalized: "normalize_task (demo_task i st) = demo_task i st"
proof -
  have "trim ''p'' = ''p''" "trim ''w'' = ''w''" by code_simp+
  then show ?thesis
    by (simp add: demo_task_def normalize_task_def add_participant_name_def is_blank_def Let_def)
qed


theorem record_event_appends_witness:
  "read_task_journal_events demo_codec (fst (record_event demo_codec demo_created no_files))
     = Inr [demo_created]"
proof -
  have "seed_task_journal_from_snapshot demo_codec no_files = Inr no_files"
    and "read_task_journal_events demo_codec no_files = Inr []"
    by (simp_all add: seed_task_journal_from_snapshot_def read_task_journal_events_def)
  from record_event_appends [OF written.fresh demo_event_ok demo_line_ok this] show ?thesis by simp
qed


theorem list_active_complete_witness:
  "list_active demo_codec \<lparr>snapshot_file = None, journal_file = Some [CHR ''c'', CHR 0x0A]\<rparr>
     = Inr [demo_task ''t1'' Submitted]"
proof -
  have "read_task_journal_events demo_codec \<lparr>snapshot_file = None, journal_file = Some [CHR ''c'', CHR 0x0A]\<rparr>
      = Inr [demo_created]" by code_simp
  moreover have "fold_res (apply_event demo_codec) [] [demo_created]
      = Inr [demo_task ''t1'' Submitted]"
    by (simp add: demo_codec_def demo_normalized)
  ultimately show ?thesis
    using list_active_complete [of demo_codec _ "[demo_created]"]
    by (simp add: demo_normalized) (simp add: demo_task_def is_terminal_def)
qed

theorem record_event_error_keeps_files_witness:
  "record_event demo_codec (Created []) \<lparr>snapshot_file = None, journal_file = Some [CHR ''c'', CHR 0x0A]\<rparr>
     = (\<lparr>snapshot_file = None, journal_file = Some [CHR ''c'', CHR 0x0A]\<rparr>, Inl SerdeError)"
proof -
  have "record_event demo_codec (Created []) \<lparr>snapshot_file = None, journal_file = Some [CHR ''c'', CHR 0x0A]\<rparr>
     = (\<lparr>snapshot_file = None, journal_file = Some [CHR ''c'', CHR 0x0A]\<rparr>, Inl SerdeError)" by code_simp
  with record_event_error_keeps_files [OF this] show ?thesis by simp
qed

theorem message_window_witness:
  "\<exists>t'. fold_res (apply_event demo_codec) [demo_task ''t1'' Working] [MessageAppended ''t1'' ''w'' ''hi'' ''1'']
      = Inr [t'] \<and> task_messages t' = [\<lparr>tm_from = ''w'', tm_text = ''hi'', tm_timestamp = ''1''\<rparr>]"
  using message_window [of "demo_task ''t1'' Working" demo_codec "[(''w'', ''hi'', ''1'')]"]
  by (simp add: demo_task_def)

text \<open>A registry whose oldest finished task has been pruned.\<close>

abbreviation full_files :: task_files where
  "full_files \<equiv> \<lparr>snapshot_file = None, journal_file = Some [CHR ''s'', CHR 0x0A]\<rparr>"

abbreviation reopen :: "agent_task list task_journal_event" where
  "reopen \<equiv> StateUpdated [] ''working'' None None ''1''"

lemma demo_tasks_settle: "map normalize_task demo_tasks = demo_tasks"
  by (simp add: demo_tasks_def comp_def demo_normalized)

lemma prune_retain_done: "k \<le> r \<Longrightarrow> prune_retain k r ts = ts"
  by (induction ts) auto

lemma prune_one_over:
  "length (filter task_terminal (t # ts)) = Suc max_terminal_tasks \<Longrightarrow> task_terminal t
     \<Longrightarrow> prune_terminal (t # ts) = ts"
  by (simp add: prune_terminal_def prune_retain_done)

lemma demo_tasks_tl:
  "demo_tasks = demo_task [] Completed # tl demo_tasks"
  "tl demo_tasks = map (\<lambda>i. demo_task (replicate i (CHR ''x'')) Completed) [1..<101]"
  unfolding demo_tasks_def by (simp_all add: upt_conv_Cons [of 0])

lemma demo_terminal: "filter task_terminal (tl demo_tasks) = tl demo_tasks" "length (tl demo_tasks) = 100"
  unfolding demo_tasks_tl(2) by (simp_all add: demo_task_def is_terminal_def)

lemma demo_prune: "prune_terminal demo_tasks = tl demo_tasks"
proof -
  have fin: "task_terminal (demo_task [] Completed)" by (simp add: demo_task_def is_terminal_def)
  moreover have "length (filter task_terminal (demo_task [] Completed # tl demo_tasks)) = Suc max_terminal_tasks"
    using fin demo_terminal by (simp only: filter.simps if_True list.size) (simp add: max_terminal_tasks_def)
  ultimately show ?thesis using prune_one_over demo_tasks_tl(1) by metis
qed

lemma demo_tl_ids: "\<not> (\<exists>t\<in>set (tl demo_tasks). task_id t = [])"
  unfolding demo_tasks_tl(2) by (auto simp: demo_task_def)

lemma load_full: "load_unlocked demo_codec full_files = Inr (tl demo_tasks)"
proof -
  have "read_task_journal_events demo_codec full_files = Inr [Snapshot demo_tasks]"
  proof -
    have "str_lines [CHR ''s'', CHR 0x0A] = [''s'']" "\<not> is_blank ''s''" by code_simp+
    then show ?thesis by (simp add: read_task_journal_events_def demo_codec_def)
  qed
  moreover have "fold_res (apply_event demo_codec) [] [Snapshot demo_tasks] = Inr demo_tasks"
    by (simp add: demo_codec_def demo_tasks_settle)
  ultimately show ?thesis
    by (simp add: load_replay journal.replay_def settle_def demo_tasks_settle demo_prune
        del: apply_event.simps fold_res.simps)
qed

text \<open>An event addressed to a finished task that has been pruned, so that no reader shows it,
  is recorded all the same, and the next reader shows the task again, reopened: the snapshot
  just written and the journal then disagree.\<close>

theorem pruned_task_is_reopened:
  "load_unlocked demo_codec full_files = Inr (tl demo_tasks)
   \<and> \<not> (\<exists>t\<in>set (tl demo_tasks). task_id t = [])
   \<and> snd (record_event demo_codec reopen full_files) = Inr ()
   \<and> load_unlocked demo_codec (fst (record_event demo_codec reopen full_files))
       = Inr (demo_task [] Submitted \<lparr>task_state := Working, task_updated_at := ''1''\<rparr> # tl demo_tasks)"
proof -
  have seed: "seed_task_journal_from_snapshot demo_codec full_files = Inr full_files"
    by (simp add: seed_task_journal_from_snapshot_def)
  have noop: "apply_event demo_codec (tl demo_tasks) reopen = Inr (tl demo_tasks)"
    using demo_tl_ids by (simp add: update_first_none)
  let ?fs = "\<lparr>snapshot_file = Some ''[]'', journal_file = Some [CHR ''s'', CHR 0x0A, CHR ''u'', CHR 0x0A]\<rparr>"
  have rec: "record_event demo_codec reopen full_files = (?fs, Inr ())"
    using seed noop load_full by (simp add: record_event_def Let_def)
      (simp add: append_task_journal_event_def save_unlocked_def demo_codec_def newline_def)
  have read: "read_task_journal_events demo_codec ?fs = Inr [Snapshot demo_tasks, reopen]"
  proof -
    have "str_lines [CHR ''s'', CHR 0x0A, CHR ''u'', CHR 0x0A] = [''s'', ''u'']"
      "\<not> is_blank ''s''" "\<not> is_blank ''u''" by code_simp+
    then show ?thesis by (simp add: read_task_journal_events_def demo_codec_def)
  qed
  let ?ts = "demo_task [] Submitted \<lparr>task_state := Working, task_updated_at := ''1''\<rparr> # tl demo_tasks"
  have "demo_tasks = demo_task [] Completed # tl demo_tasks" by (rule demo_tasks_tl)
  moreover have "apply_event c (demo_task [] Completed # ts) reopen
      = Inr (demo_task [] Submitted \<lparr>task_state := Working, task_updated_at := ''1''\<rparr> # ts)" for c ts
    by (simp add: state_of_string_def) (simp add: demo_task_def)
  ultimately have "apply_event demo_codec demo_tasks reopen = Inr ?ts" by metis
  moreover have "apply_event demo_codec [] (Snapshot demo_tasks) = Inr demo_tasks"
    by (simp add: demo_codec_def demo_tasks_settle)
  ultimately have "fold_res (apply_event demo_codec) [] [Snapshot demo_tasks, reopen] = Inr ?ts"
    by (simp del: apply_event.simps)
  moreover have "settle ?ts = ?ts"
  proof -
    let ?t = "demo_task [] Submitted \<lparr>task_state := Working, task_updated_at := ''1''\<rparr>"
    have "normalize_task ?t = ?t" by code_simp
    moreover have "\<not> task_terminal ?t" by (simp add: is_terminal_def)
    moreover have "map normalize_task (tl demo_tasks) = tl demo_tasks"
      by (simp add: map_tl demo_tasks_settle)
    moreover from calculation have "prune_terminal (?t # tl demo_tasks) = ?t # tl demo_tasks"
      by (intro prune_terminal_few) (simp only: filter.simps if_False demo_terminal max_terminal_tasks_def)
    ultimately show ?thesis unfolding settle_def by (simp only: list.map)
  qed
  ultimately have "load_unlocked demo_codec ?fs = Inr ?ts"
    by (simp add: read load_replay journal.replay_def del: fold_res.simps)
  with rec load_full demo_tl_ids show ?thesis by simp
qed

end
