(* ===== verification/Cron.thy ===== *)
theory Cron
  imports Text_Ops
begin

text \<open>
  Cron expressions of \<open>heartbeat/mod.rs\<close>: the field parser with its table of flags, the
  expression parser, and the match of a wall-clock minute.  Out-of-range indexing of a flag
  table panics in Rust; here it is the error \<open>IndexPanic\<close> (or \<open>None\<close>), and the theorems show
  it never happens.  The civil calendar (\<open>chrono\<close>) is the parameter \<open>calendar\<close>.
\<close>

section \<open>Wall-clock times\<close>

datatype naive_datetime =
  NaiveDateTime (nd_day: int) (nd_hour: nat) (nd_minute: nat) (nd_second: nat) (nd_nano: nat)

instantiation naive_datetime :: linorder
begin

definition less_eq_naive_datetime :: "naive_datetime \<Rightarrow> naive_datetime \<Rightarrow> bool" where
  "less_eq_naive_datetime a b =
     (nd_day a < nd_day b \<or> nd_day a = nd_day b \<and>
      (nd_hour a < nd_hour b \<or> nd_hour a = nd_hour b \<and>
       (nd_minute a < nd_minute b \<or> nd_minute a = nd_minute b \<and>
        (nd_second a < nd_second b \<or> nd_second a = nd_second b \<and> nd_nano a \<le> nd_nano b))))"

definition less_naive_datetime :: "naive_datetime \<Rightarrow> naive_datetime \<Rightarrow> bool" where
  "less_naive_datetime a b = (a \<le> b \<and> \<not> b \<le> a)"

instance
proof
  fix a b c :: naive_datetime
  show "a < b \<longleftrightarrow> a \<le> b \<and> \<not> b \<le> a" by (rule less_naive_datetime_def)
  show "a \<le> a" by (simp add: less_eq_naive_datetime_def)
  show "a \<le> b \<Longrightarrow> b \<le> c \<Longrightarrow> a \<le> c" by (auto simp: less_eq_naive_datetime_def)
  show "a \<le> b \<Longrightarrow> b \<le> a \<Longrightarrow> a = b"
    by (cases a; cases b) (auto simp: less_eq_naive_datetime_def)
  show "a \<le> b \<or> b \<le> a" by (auto simp: less_eq_naive_datetime_def)
qed

end

record calendar =
  cal_month :: "int \<Rightarrow> nat"
  cal_dom :: "int \<Rightarrow> nat"
  cal_dow :: "int \<Rightarrow> nat"   \<comment> \<open>0 is Sunday, as \<open>weekday_to_num\<close> numbers them\<close>

definition minute_slot :: "naive_datetime \<Rightarrow> naive_datetime" where
  "minute_slot t = NaiveDateTime (nd_day t) (nd_hour t) (nd_minute t) 0 0"

lemma minute_slot_le: "minute_slot t \<le> t"
  by (auto simp: minute_slot_def less_eq_naive_datetime_def)

lemma minute_slot_mono: "s \<le> t \<Longrightarrow> minute_slot s \<le> minute_slot t"
  by (auto simp: minute_slot_def less_eq_naive_datetime_def)

section \<open>Parsing\<close>

datatype cron_error =
    WrongFieldCount | EmptySegment | BadStep string | ZeroStep | BadValue string
  | BadRange string | OutOfRange string nat nat | EmptySet | IndexPanic

text \<open>\<open>while value <= end\<close>, with \<open>value.checked_add(step)\<close> on \<open>u32\<close>.\<close>

function cron_fill :: "bool list \<Rightarrow> nat \<Rightarrow> nat \<Rightarrow> nat \<Rightarrow> cron_error + bool list" where
  "cron_fill flags v stop step =
     (if v \<le> stop then
        if v < length flags then
          (let flags' = flags[v := True] in
           if v + step < 2 ^ 32 \<and> v + step > v then cron_fill flags' (v + step) stop step
           else Inr flags')
        else Inl IndexPanic
      else Inr flags)"
  by pat_completeness auto
termination
  by (relation "measure (\<lambda>(flags, v, stop, step). Suc stop - v)") auto

declare cron_fill.simps [simp del]

definition cron_base_step :: "string \<Rightarrow> cron_error + string \<times> nat" where
  "cron_base_step part =
     (case split_once (CHR ''/'') part of
        Some (base, step_str) \<Rightarrow>
          (case parse_u32 (trim step_str) of
             None \<Rightarrow> Inl (BadStep step_str)
           | Some step \<Rightarrow> if step = 0 then Inl ZeroStep else Inr (trim base, step))
      | None \<Rightarrow> Inr (part, 1))"

definition cron_range ::
  "nat \<Rightarrow> nat \<Rightarrow> (string \<Rightarrow> nat option) \<Rightarrow> string \<Rightarrow> cron_error + nat \<times> nat" where
  "cron_range lo hi parse_value base =
     (if base = ''*'' then Inr (lo, hi)
      else case split_once (CHR ''-'') base of
        Some (start_str, end_str) \<Rightarrow>
          (case parse_value (trim start_str) of
             None \<Rightarrow> Inl (BadValue start_str)
           | Some s \<Rightarrow>
               (case parse_value (trim end_str) of
                  None \<Rightarrow> Inl (BadValue end_str)
                | Some e \<Rightarrow> if s > e then Inl (BadRange base) else Inr (s, e)))
      | None \<Rightarrow>
          (case parse_value base of
             None \<Rightarrow> Inl (BadValue base)
           | Some v \<Rightarrow> Inr (v, v)))"

definition parse_cron_part ::
  "nat \<Rightarrow> nat \<Rightarrow> (string \<Rightarrow> nat option) \<Rightarrow> string \<Rightarrow> cron_error + nat \<times> nat \<times> nat" where
  "parse_cron_part lo hi parse_value part0 =
     (let part = trim part0 in
      if part = [] then Inl EmptySegment
      else bind_res (cron_base_step part) (\<lambda>(base, step).
           bind_res (cron_range lo hi parse_value base) (\<lambda>(s, e).
             if s < lo \<or> e > hi then Inl (OutOfRange part lo hi) else Inr (s, e, step))))"

definition parse_cron_field ::
  "string \<Rightarrow> nat \<Rightarrow> nat \<Rightarrow> (string \<Rightarrow> nat option) \<Rightarrow> cron_error + bool list" where
  "parse_cron_field spec lo hi parse_value =
     bind_res
       (fold_res (\<lambda>flags part.
          bind_res (parse_cron_part lo hi parse_value part)
            (\<lambda>(s, e, step). cron_fill flags s e step))
          (replicate (hi + 1) False) (split_char (CHR '','') spec))
       (\<lambda>flags. if \<not> list_ex (\<lambda>v. v) (drop lo (take (hi + 1) flags)) then Inl EmptySet
                else Inr flags)"

definition parse_u32_plain :: "string \<Rightarrow> nat option" where
  "parse_u32_plain v = parse_u32 v"

definition parse_month_value :: "string \<Rightarrow> nat option" where
  "parse_month_value v =
     (let s = to_ascii_lower (trim v) in
      if s = ''jan'' then Some 1 else if s = ''feb'' then Some 2 else if s = ''mar'' then Some 3
      else if s = ''apr'' then Some 4 else if s = ''may'' then Some 5 else if s = ''jun'' then Some 6
      else if s = ''jul'' then Some 7 else if s = ''aug'' then Some 8 else if s = ''sep'' then Some 9
      else if s = ''oct'' then Some 10 else if s = ''nov'' then Some 11 else if s = ''dec'' then Some 12
      else parse_u32 s)"

definition parse_day_of_week_value :: "string \<Rightarrow> nat option" where
  "parse_day_of_week_value v =
     (let s = to_ascii_lower (trim v) in
      if s = ''sun'' then Some 0 else if s = ''mon'' then Some 1 else if s = ''tue'' then Some 2
      else if s = ''wed'' then Some 3 else if s = ''thu'' then Some 4 else if s = ''fri'' then Some 5
      else if s = ''sat'' then Some 6 else parse_u32 s)"

record cron_expression =
  ce_minute :: "bool list"
  ce_hour :: "bool list"
  ce_dom :: "bool list"
  ce_month :: "bool list"
  ce_dow :: "bool list"
  ce_dom_any :: bool
  ce_dow_any :: bool

definition parse_cron_expression :: "string \<Rightarrow> cron_error + cron_expression" where
  "parse_cron_expression expr =
     (case split_whitespace expr of
        [f0, f1, f2, f3, f4] \<Rightarrow>
          bind_res (parse_cron_field f0 0 59 parse_u32_plain) (\<lambda>minute.
          bind_res (parse_cron_field f1 0 23 parse_u32_plain) (\<lambda>hour.
          bind_res (parse_cron_field f2 1 31 parse_u32_plain) (\<lambda>dom.
          bind_res (parse_cron_field f3 1 12 parse_month_value) (\<lambda>month.
          bind_res (parse_cron_field f4 0 7 parse_day_of_week_value) (\<lambda>dow.
          Inr \<lparr>ce_minute = minute, ce_hour = hour, ce_dom = dom, ce_month = month,
               ce_dow = dow, ce_dom_any = (trim f2 = ''*''), ce_dow_any = (trim f4 = ''*'')\<rparr>)))))
      | _ \<Rightarrow> Inl WrongFieldCount)"

section \<open>Matching\<close>

text \<open>\<open>xs[i]\<close>: \<open>None\<close> is the panic.\<close>

definition idx :: "'a list \<Rightarrow> nat \<Rightarrow> 'a option" where
  "idx xs i = (if i < length xs then Some (xs ! i) else None)"

definition cron_matches :: "calendar \<Rightarrow> cron_expression \<Rightarrow> naive_datetime \<Rightarrow> bool option" where
  "cron_matches cal expr t =
     (let minute = nd_minute t; hour = nd_hour t; dom = cal_dom cal (nd_day t);
          month = cal_month cal (nd_day t); dow = cal_dow cal (nd_day t)
      in Option.bind (idx (ce_minute expr) minute) (\<lambda>mi. if \<not> mi then Some False else
         Option.bind (idx (ce_hour expr) hour) (\<lambda>ho. if \<not> ho then Some False else
         Option.bind (idx (ce_month expr) month) (\<lambda>mo. if \<not> mo then Some False else
         Option.bind (idx (ce_dom expr) dom) (\<lambda>dom_match.
         Option.bind (idx (ce_dow expr) dow) (\<lambda>d1.
         Option.bind (if d1 then Some True
                      else if dow = 0 then idx (ce_dow expr) 7 else Some False) (\<lambda>dow_match.
         Some (if ce_dom_any expr \<and> ce_dow_any expr then True
               else if ce_dom_any expr then dow_match
               else if ce_dow_any expr then dom_match
               else dom_match \<or> dow_match))))))))"

definition is_cron_due ::
  "calendar \<Rightarrow> string \<Rightarrow> naive_datetime option \<Rightarrow> naive_datetime \<Rightarrow> bool option" where
  "is_cron_due cal expr last_run now =
     (case last_run of
        None \<Rightarrow> Some True
      | Some prev \<Rightarrow>
          (case parse_cron_expression expr of
             Inl _ \<Rightarrow> Some False
           | Inr parsed \<Rightarrow>
               let tick = minute_slot now in
               if prev \<ge> tick then Some False else cron_matches cal parsed tick))"

definition cron_is_subhourly :: "string \<Rightarrow> bool" where
  "cron_is_subhourly expr =
     (case parse_cron_expression expr of
        Inl _ \<Rightarrow> False
      | Inr parsed \<Rightarrow> length (filter (\<lambda>b. b) (ce_minute parsed)) > 2)"

section \<open>The field parser against its meaning\<close>

lemma cron_fill_length: "cron_fill flags v stop step = Inr fs \<Longrightarrow> length fs = length flags"
proof (induction flags v stop step rule: cron_fill.induct)
  case (1 flags v stop step)
  then show ?case
    by (subst (asm) (2) cron_fill.simps) (auto simp: Let_def split: if_splits)
qed

lemma step_reach_split:
  fixes v :: nat
  assumes "0 < step"
  shows "v \<le> w \<and> (w - v) mod step = 0 \<longleftrightarrow> w = v \<or> v + step \<le> w \<and> (w - (v + step)) mod step = 0"
proof (cases "v + step \<le> w")
  case True
  then have "w - v = (w - (v + step)) + step" by simp
  then have "(w - v) mod step = (w - (v + step)) mod step" by (metis mod_add_self2)
  with True assms show ?thesis by auto
next
  case False
  then have "v \<le> w \<Longrightarrow> w - v < step" by simp
  with False assms show ?thesis by auto
qed

lemma cron_fill_spec:
  assumes "stop < length flags" "stop < 2 ^ 32" "0 < step"
  shows "\<exists>fs. cron_fill flags v stop step = Inr fs \<and>
    (\<forall>w < length flags. fs ! w = (flags ! w \<or> v \<le> w \<and> w \<le> stop \<and> (w - v) mod step = 0))"
  using assms
proof (induction flags v stop step rule: cron_fill.induct)
  case (1 flags v stop step)
  show ?case
  proof (cases "v \<le> stop")
    case False
    then show ?thesis by (subst cron_fill.simps) auto
  next
    case le: True
    show ?thesis
    proof (cases "v + step < 2 ^ 32")
      case True
      with 1 le obtain fs where fs: "cron_fill (flags[v := True]) (v + step) stop step = Inr fs"
        "\<forall>w < length flags. fs ! w = (flags[v := True] ! w \<or>
           v + step \<le> w \<and> w \<le> stop \<and> (w - (v + step)) mod step = 0)" by auto
      have "fs ! w = (flags ! w \<or> v \<le> w \<and> w \<le> stop \<and> (w - v) mod step = 0)"
        if "w < length flags" for w
        using fs(2) that le step_reach_split [OF 1(4), of v w] by (auto simp: nth_list_update split: if_splits)
      with fs(1) True le 1(2,4) show ?thesis by (subst cron_fill.simps) (auto simp: Let_def)
    next
      case False
      have "flags[v := True] ! w = (flags ! w \<or> v \<le> w \<and> w \<le> stop \<and> (w - v) mod step = 0)"
        if "w < length flags" for w
        using that le False 1(3) step_reach_split [OF 1(4), of v w] by (auto simp: nth_list_update split: if_splits)
      with False le 1(2) show ?thesis by (subst cron_fill.simps) (auto simp: Let_def)
    qed
  qed
qed

text \<open>What a part \<open>(s, e, step)\<close> of a field covers.\<close>

definition part_covers :: "nat \<times> nat \<times> nat \<Rightarrow> nat \<Rightarrow> bool" where
  "part_covers p w = (case p of (s, e, step) \<Rightarrow> s \<le> w \<and> w \<le> e \<and> (w - s) mod step = 0)"

lemma cron_base_step_pos: "cron_base_step part = Inr (base, step) \<Longrightarrow> 0 < step"
  by (auto simp: cron_base_step_def split: option.splits if_splits)

lemma cron_range_order: "cron_range lo hi pv base = Inr (s, e) \<Longrightarrow> lo \<le> hi \<Longrightarrow> s \<le> e"
  by (auto simp: cron_range_def split: option.splits if_splits)

lemma parse_cron_part_bounds:
  assumes "parse_cron_part lo hi pv part = Inr (s, e, step)" and "lo \<le> hi"
  shows "lo \<le> s \<and> s \<le> e \<and> e \<le> hi \<and> 0 < step"
  using assms
  by (auto simp: parse_cron_part_def Let_def cron_base_step_pos cron_range_order
      elim!: bind_res_InrD split: if_splits)

lemma parse_cron_parts_spec:
  assumes "lo \<le> hi" "hi < 2 ^ 32" "length flags = hi + 1"
    and "collect_res (map (parse_cron_part lo hi pv) parts) = Inr ps"
  shows "\<exists>fs. fold_res (\<lambda>flags part. bind_res (parse_cron_part lo hi pv part)
            (\<lambda>(s, e, step). cron_fill flags s e step)) flags parts = Inr fs
    \<and> length fs = hi + 1
    \<and> (\<forall>w \<le> hi. fs ! w = (flags ! w \<or> (\<exists>p\<in>set ps. part_covers p w)))"
  using assms(3,4)
proof (induction parts arbitrary: flags ps)
  case (Cons part parts)
  then obtain s e step qs where p: "parse_cron_part lo hi pv part = Inr (s, e, step)"
    "collect_res (map (parse_cron_part lo hi pv) parts) = Inr qs" "ps = (s, e, step) # qs"
    by (cases "parse_cron_part lo hi pv part") (auto elim!: bind_res_InrD)
  from parse_cron_part_bounds [OF p(1) assms(1)] assms(2) Cons.prems(1) obtain fs where
    fs: "cron_fill flags s e step = Inr fs"
      "\<forall>w < length flags. fs ! w = (flags ! w \<or> part_covers (s, e, step) w)"
    using cron_fill_spec [of e flags step s] by (auto simp: part_covers_def)
  have "length fs = hi + 1" using cron_fill_length [OF fs(1)] Cons.prems(1) by simp
  from Cons.IH [OF this p(2)] show ?case
    using p fs Cons.prems(1) by (auto simp: less_Suc_eq_le)
qed simp

lemma fold_res_parts_error:
  "collect_res (map (parse_cron_part lo hi pv) parts) = Inl err \<Longrightarrow> lo \<le> hi \<Longrightarrow> hi < 2 ^ 32 \<Longrightarrow>
   length flags = hi + 1 \<Longrightarrow>
   fold_res (\<lambda>flags part. bind_res (parse_cron_part lo hi pv part)
            (\<lambda>(s, e, step). cron_fill flags s e step)) flags parts = Inl err"
proof (induction parts arbitrary: flags)
  case (Cons part parts)
  show ?case
  proof (cases "parse_cron_part lo hi pv part")
    case (Inl e)
    with Cons.prems show ?thesis by simp
  next
    case (Inr p)
    obtain s e step where p: "p = (s, e, step)" by (cases p) auto
    from parse_cron_part_bounds [OF Inr [unfolded p] Cons.prems(2)] Cons.prems obtain fs where
      "cron_fill flags s e step = Inr fs" using cron_fill_spec [of e flags step s] by auto
    with Cons Inr p cron_fill_length [OF this] show ?thesis
      by (auto simp: bind_res_def split: sum.splits)
  qed
qed simp

lemma parse_cron_field_eq:
  assumes "lo \<le> hi" "hi < 2 ^ 32"
  shows "parse_cron_field spec lo hi pv = Inr flags \<longleftrightarrow>
    (\<exists>ps. collect_res (map (parse_cron_part lo hi pv) (split_char (CHR '','') spec)) = Inr ps \<and>
      length flags = hi + 1 \<and> (\<forall>w \<le> hi. flags ! w = (\<exists>p\<in>set ps. part_covers p w)))"
    (is "?L \<longleftrightarrow> ?R")
proof (cases "collect_res (map (parse_cron_part lo hi pv) (split_char (CHR '','') spec))")
  case (Inl err)
  from fold_res_parts_error [OF this assms, of "replicate (hi + 1) False"] Inl
  show ?thesis by (simp add: parse_cron_field_def)
next
  case (Inr ps)
  from parse_cron_parts_spec [OF assms _ Inr, of "replicate (hi + 1) False"] obtain fs where
    fs: "fold_res (\<lambda>flags part. bind_res (parse_cron_part lo hi pv part)
            (\<lambda>(s, e, step). cron_fill flags s e step)) (replicate (hi + 1) False)
            (split_char (CHR '','') spec) = Inr fs"
      "length fs = hi + 1" "\<forall>w \<le> hi. fs ! w = (\<exists>p\<in>set ps. part_covers p w)"
    by (auto simp del: replicate_Suc)
  have "ps \<noteq> []"
  proof -
    obtain x xs where "split_char (CHR '','') spec = x # xs"
      by (cases "split_char (CHR '','') spec") auto
    with Inr show ?thesis by (cases "parse_cron_part lo hi pv x") (auto elim!: bind_res_InrD)
  qed
  then obtain p where p: "p \<in> set ps" by (cases ps) auto
  obtain s e step where sp: "p = (s, e, step)" by (cases p) auto
  have "\<exists>x. parse_cron_part lo hi pv x = Inr p"
  proof -
    have "collect_res rs = Inr ps \<Longrightarrow> p \<in> set ps \<Longrightarrow> Inr p \<in> set rs" for rs :: "(cron_error + nat \<times> nat \<times> nat) list"
      by (induction rs arbitrary: ps rule: collect_res.induct) (auto elim!: bind_res_InrD)
    from this [OF Inr p] show ?thesis by auto
  qed
  then have b: "lo \<le> s" "s \<le> e" "e \<le> hi" using parse_cron_part_bounds assms(1) sp by blast+
  with p sp have "part_covers p s" by (simp add: part_covers_def)
  with p b fs(3) have "fs ! s" by auto
  moreover have "drop lo (take (hi + 1) fs) ! (s - lo) = fs ! s"
    "s - lo < length (drop lo (take (hi + 1) fs))" using b fs(2) by simp_all
  ultimately have "True \<in> set (drop lo (take (hi + 1) fs))" by (metis nth_mem)
  then have "list_ex (\<lambda>v. v) (drop lo (take (hi + 1) fs))" by (auto simp: list_ex_iff)
  with fs(1) have "parse_cron_field spec lo hi pv = Inr fs" by (simp add: parse_cron_field_def)
  moreover have "fs = flags \<longleftrightarrow>
      length flags = hi + 1 \<and> (\<forall>w \<le> hi. flags ! w = (\<exists>p\<in>set ps. part_covers p w))"
    unfolding list_eq_iff_nth_eq [of fs flags] using fs(2,3) by (auto simp: less_Suc_eq_le)
  ultimately show ?thesis using Inr by simp
qed

section \<open>No panics\<close>

text \<open>What the code relies on of \<open>chrono\<close>: months are 1 to 12, days of a month 1 to 31, days of the
  week 0 to 6; a wall-clock time has an hour below 24 and a minute below 60.\<close>

definition valid_day :: "calendar \<Rightarrow> int \<Rightarrow> bool" where
  "valid_day cal d \<longleftrightarrow> 1 \<le> cal_month cal d \<and> cal_month cal d \<le> 12 \<and>
     1 \<le> cal_dom cal d \<and> cal_dom cal d \<le> 31 \<and> cal_dow cal d \<le> 6"

definition valid_time :: "calendar \<Rightarrow> naive_datetime \<Rightarrow> bool" where
  "valid_time cal t \<longleftrightarrow> valid_day cal (nd_day t) \<and> nd_hour t < 24 \<and> nd_minute t < 60"

lemma minute_slot_fields [simp]:
  "nd_day (minute_slot t) = nd_day t" "nd_hour (minute_slot t) = nd_hour t"
  "nd_minute (minute_slot t) = nd_minute t"
  by (simp_all add: minute_slot_def)

lemma valid_time_slot [simp]: "valid_time cal (minute_slot t) = valid_time cal t"
  by (simp add: valid_time_def minute_slot_def)

text \<open>The tables of a parsed expression have a flag for every value the code looks up.\<close>

definition tables_ok :: "cron_expression \<Rightarrow> bool" where
  "tables_ok e \<longleftrightarrow> length (ce_minute e) = 60 \<and> length (ce_hour e) = 24 \<and> length (ce_dom e) = 32 \<and>
     length (ce_month e) = 13 \<and> length (ce_dow e) = 8"

lemma parse_cron_expression_tables: "parse_cron_expression s = Inr e \<Longrightarrow> tables_ok e"
  unfolding parse_cron_expression_def tables_ok_def
  by (auto elim!: bind_res_InrD split: list.splits simp: parse_cron_field_eq)

lemma cron_matches_value:
  assumes "tables_ok e" "valid_time cal t"
  shows "cron_matches cal e t = Some
    (ce_minute e ! nd_minute t \<and> ce_hour e ! nd_hour t \<and> ce_month e ! cal_month cal (nd_day t) \<and>
     (let dom_match = ce_dom e ! cal_dom cal (nd_day t);
          dow_match = (ce_dow e ! cal_dow cal (nd_day t) \<or> cal_dow cal (nd_day t) = 0 \<and> ce_dow e ! 7)
      in if ce_dom_any e \<and> ce_dow_any e then True else if ce_dom_any e then dow_match
         else if ce_dow_any e then dom_match else dom_match \<or> dow_match))"
proof -
  have "idx (ce_minute e) (nd_minute t) = Some (ce_minute e ! nd_minute t)"
    "idx (ce_hour e) (nd_hour t) = Some (ce_hour e ! nd_hour t)"
    "idx (ce_month e) (cal_month cal (nd_day t)) = Some (ce_month e ! cal_month cal (nd_day t))"
    "idx (ce_dom e) (cal_dom cal (nd_day t)) = Some (ce_dom e ! cal_dom cal (nd_day t))"
    "idx (ce_dow e) (cal_dow cal (nd_day t)) = Some (ce_dow e ! cal_dow cal (nd_day t))"
    "idx (ce_dow e) 7 = Some (ce_dow e ! 7)"
    using assms by (simp_all add: idx_def tables_ok_def valid_time_def valid_day_def)
  then show ?thesis by (simp add: cron_matches_def Let_def)
qed

lemma cron_base_step_no_panic: "cron_base_step part \<noteq> Inl IndexPanic"
  by (auto simp: cron_base_step_def split: option.splits)

lemma cron_range_no_panic: "cron_range lo hi pv base \<noteq> Inl IndexPanic"
  by (auto simp: cron_range_def split: option.splits)

lemma parse_cron_part_no_panic: "parse_cron_part lo hi pv part \<noteq> Inl IndexPanic"
  using cron_base_step_no_panic [of "trim part"] cron_range_no_panic [of lo hi pv]
  by (cases "cron_base_step (trim part)")
    (auto simp: parse_cron_part_def Let_def bind_res_def split: sum.splits if_splits)

lemma collect_res_Inl: "collect_res rs = Inl e \<Longrightarrow> Inl e \<in> set rs"
  by (induction rs rule: collect_res.induct) (auto simp: bind_res_def split: sum.splits)

lemma parse_cron_field_no_panic:
  assumes "lo \<le> hi" "hi < 2 ^ 32"
  shows "parse_cron_field spec lo hi pv \<noteq> Inl IndexPanic"
proof (cases "collect_res (map (parse_cron_part lo hi pv) (split_char (CHR '','') spec))")
  case (Inl err)
  then have "err \<noteq> IndexPanic" using collect_res_Inl parse_cron_part_no_panic by fastforce
  with fold_res_parts_error [OF Inl assms, of "replicate (hi + 1) False"] show ?thesis
    by (simp add: parse_cron_field_def)
next
  case (Inr ps)
  from parse_cron_parts_spec [OF assms _ Inr, of "replicate (hi + 1) False"] show ?thesis
    by (auto simp: parse_cron_field_def simp del: replicate_Suc split: if_splits)
qed

section \<open>Properties\<close>

text \<open>(C17) A cron field is accepted exactly when each comma-separated part is, and then its table
  flags exactly the values some part covers: those from its start to its end in its steps.\<close>

theorem cron_field_meaning:
  assumes "lo \<le> hi" and "hi < 2 ^ 32"
  shows "parse_cron_field spec lo hi pv = Inr flags \<longleftrightarrow>
    (\<exists>ps. collect_res (map (parse_cron_part lo hi pv) (split_char (CHR '','') spec)) = Inr ps \<and>
      length flags = hi + 1 \<and> (\<forall>w \<le> hi. flags ! w = (\<exists>p\<in>set ps. part_covers p w)))"
  by (rule parse_cron_field_eq [OF assms])

theorem cron_field_meaning_witness:
  "\<exists>ps. collect_res (map (parse_cron_part 0 7 parse_u32) (split_char (CHR '','') ''1-5/2,7'')) = Inr ps \<and>
     (\<forall>w \<le> 7. [False, True, False, True, False, True, False, True] ! w = (\<exists>p\<in>set ps. part_covers p w))"
proof -
  have eq: "parse_cron_field ''1-5/2,7'' 0 7 parse_u32 =
      Inr [False, True, False, True, False, True, False, True]" by code_simp
  have "(0::nat) \<le> 7" "(7::nat) < 2 ^ 32" by simp_all
  from cron_field_meaning [OF this, THEN iffD1, OF eq] show ?thesis by blast
qed

text \<open>(C35) Deciding whether a cron entry is due never indexes out of a table, whatever the text of
  the expression: neither the parser nor the match panics.\<close>

theorem cron_never_panics:
  assumes "valid_time cal now"
  shows "parse_cron_expression expr \<noteq> Inl IndexPanic \<and> (\<exists>b. is_cron_due cal expr last_run now = Some b)"
proof
  show "parse_cron_expression expr \<noteq> Inl IndexPanic"
    unfolding parse_cron_expression_def
    by (auto simp: bind_res_def parse_cron_field_no_panic split: list.splits sum.splits)
  show "\<exists>b. is_cron_due cal expr last_run now = Some b"
    using assms by (auto simp: is_cron_due_def Let_def cron_matches_value parse_cron_expression_tables
        split: option.splits sum.splits)
qed

definition demo_calendar :: calendar where
  "demo_calendar = \<lparr>cal_month = (\<lambda>_. 1), cal_dom = (\<lambda>d. nat (d mod 28) + 1),
     cal_dow = (\<lambda>d. nat ((d + 4) mod 7))\<rparr>"

lemma demo_calendar_valid: "valid_day demo_calendar d"
proof -
  have "d mod 28 < 28" "(d + 4) mod 7 < 7" by simp_all
  then show ?thesis by (simp add: valid_day_def demo_calendar_def) linarith
qed

theorem cron_never_panics_witness:
  "\<exists>b. is_cron_due demo_calendar ''*/15 0-6 1,15 * 7'' (Some (NaiveDateTime 0 0 0 0 0))
     (NaiveDateTime 3 6 45 59 0) = Some b"
  using cron_never_panics [of demo_calendar "NaiveDateTime 3 6 45 59 0"]
  by (simp add: valid_time_def demo_calendar_valid)

text \<open>A cron entry that has run is due exactly when the expression parses, the last run was
  before the current minute, and that minute matches: minute, hour and month, and day of month
  or day of week by the usual cron rule (a starred one is ignored), Sunday being 0 or 7.\<close>

theorem cron_due_iff:
  assumes "valid_time cal now"
  shows "is_cron_due cal expr (Some prev) now = Some True \<longleftrightarrow>
    (\<exists>e. parse_cron_expression expr = Inr e \<and> prev < minute_slot now \<and>
      ce_minute e ! nd_minute now \<and> ce_hour e ! nd_hour now \<and>
      ce_month e ! cal_month cal (nd_day now) \<and>
      (ce_dom_any e \<and> ce_dow_any e \<or>
       \<not> ce_dom_any e \<and> ce_dom e ! cal_dom cal (nd_day now) \<or>
       \<not> ce_dow_any e \<and> (ce_dow e ! cal_dow cal (nd_day now) \<or>
          cal_dow cal (nd_day now) = 0 \<and> ce_dow e ! 7)))"
proof (cases "parse_cron_expression expr")
  case (Inl err)
  then show ?thesis by (simp add: is_cron_due_def)
next
  case (Inr e)
  from cron_matches_value [OF parse_cron_expression_tables [OF this], of cal "minute_slot now"] assms
  show ?thesis by (auto simp: is_cron_due_def Inr Let_def not_le)
qed

theorem cron_due_iff_witness:
  "is_cron_due demo_calendar ''30 9 * * 1-5'' (Some (NaiveDateTime 3 9 30 0 0))
     (NaiveDateTime 4 9 30 12 0) = Some True"
proof -
  have p: "parse_cron_expression ''30 9 * * 1-5'' = Inr \<lparr>
      ce_minute = (replicate 60 False)[30 := True], ce_hour = (replicate 24 False)[9 := True],
      ce_dom = False # replicate 31 True, ce_month = False # replicate 12 True,
      ce_dow = [False, True, True, True, True, True, False, False],
      ce_dom_any = True, ce_dow_any = False\<rparr>" by code_simp
  have "NaiveDateTime 3 9 30 0 0 < minute_slot (NaiveDateTime 4 9 30 12 0)" by code_simp
  with p cron_due_iff [of demo_calendar "NaiveDateTime 4 9 30 12 0" "''30 9 * * 1-5''" "NaiveDateTime 3 9 30 0 0"]
  show ?thesis
    by (simp add: valid_time_def demo_calendar_valid) (simp add: demo_calendar_def nth_Cons')
qed

text \<open>An entry that ran at any moment of a minute is not due again in that minute.\<close>

theorem cron_once_per_minute:
  assumes "minute_slot prev = minute_slot now"
  shows "is_cron_due cal expr (Some prev) now = Some False"
  using minute_slot_le [of prev] assms
  by (auto simp: is_cron_due_def Let_def split: sum.splits)

theorem cron_once_per_minute_witness:
  "is_cron_due demo_calendar ''* * * * *'' (Some (NaiveDateTime 3 9 30 1 0)) (NaiveDateTime 3 9 30 58 0)
     = Some False"
  using cron_once_per_minute [of "NaiveDateTime 3 9 30 1 0" "NaiveDateTime 3 9 30 58 0"]
  by (simp add: minute_slot_def)

end
