(* ===== verification/Heartbeat.thy ===== *)
theory Heartbeat
  imports Cron
begin

text \<open>
  The self-scheduler of \<open>heartbeat/mod.rs\<close> and the part of the listen loop in
  \<open>orchestration/channel_mode.rs\<close> that polls it: the entry format, its parser and printer, the
  decision whether an entry is due, and one poll.

  An instant (\<open>DateTime<Utc>\<close>, \<open>DateTime<Local>\<close>) is an integer number of nanoseconds.  The
  time zone database and the local zone are the record \<open>zones\<close>, RFC 3339 text and the
  alphanumeric test on non-ASCII letters the record \<open>text_env\<close>, both parameters.  The code reads
  the clock twice while deciding one entry; the two readings are separate arguments.
\<close>

section \<open>Entries\<close>

datatype priority = Urgent | High | Normal | Low | UnknownPriority string

datatype schedule =
  Once | Minutely | Hourly | Daily | Weekly | CronSchedule string | UnknownSchedule string

datatype status =
  Pending | Running | Processing | Done | Skipped | Blocked | Failed | UnknownStatus string

definition priority_to_string :: "priority \<Rightarrow> string" where
  "priority_to_string p = (case p of Urgent \<Rightarrow> ''urgent'' | High \<Rightarrow> ''high'' | Normal \<Rightarrow> ''normal''
     | Low \<Rightarrow> ''low'' | UnknownPriority s \<Rightarrow> s)"

definition priority_from :: "string \<Rightarrow> priority" where
  "priority_from s =
     (let w = to_ascii_lower (trim s) in
      if w = ''urgent'' then Urgent else if w = ''high'' then High
      else if w = ''normal'' then Normal else if w = ''low'' then Low else UnknownPriority w)"

definition schedule_to_string :: "schedule \<Rightarrow> string" where
  "schedule_to_string s = (case s of Once \<Rightarrow> ''once'' | Minutely \<Rightarrow> ''minutely''
     | Hourly \<Rightarrow> ''hourly'' | Daily \<Rightarrow> ''daily'' | Weekly \<Rightarrow> ''weekly''
     | CronSchedule expr \<Rightarrow> ''cron: '' @ expr | UnknownSchedule u \<Rightarrow> u)"

definition schedule_from :: "string \<Rightarrow> schedule" where
  "schedule_from s =
     (let raw = trim s; w = to_ascii_lower raw in
      if raw = [] then UnknownSchedule []
      else if w = ''once'' then Once
      else if w \<in> set [''minutely'', ''minute'', ''every_minute''] then Minutely
      else if w = ''hourly'' then Hourly else if w = ''daily'' then Daily
      else if w = ''weekly'' then Weekly
      else case strip_prefix ''cron:'' raw of
        Some expr0 \<Rightarrow>
          (let expr = trim expr0 in
           if ok (parse_cron_expression expr) then CronSchedule expr else UnknownSchedule raw)
      | None \<Rightarrow> if ok (parse_cron_expression raw) then CronSchedule raw else UnknownSchedule raw)"

definition status_to_string :: "status \<Rightarrow> string" where
  "status_to_string s = (case s of Pending \<Rightarrow> ''pending'' | Running \<Rightarrow> ''running''
     | Processing \<Rightarrow> ''processing'' | Done \<Rightarrow> ''done'' | Skipped \<Rightarrow> ''skipped''
     | Blocked \<Rightarrow> ''blocked'' | Failed \<Rightarrow> ''failed'' | UnknownStatus u \<Rightarrow> u)"

definition status_from :: "string \<Rightarrow> status" where
  "status_from s =
     (let w = to_ascii_lower (trim s) in
      if w = ''pending'' then Pending else if w = ''running'' then Running
      else if w = ''processing'' then Processing else if w = ''done'' then Done
      else if w = ''skipped'' then Skipped else if w = ''blocked'' then Blocked
      else if w = ''failed'' then Failed else UnknownStatus w)"

record heartbeat_entry =
  he_title :: string
  he_priority :: priority
  he_schedule :: schedule
  he_human_approved :: bool
  he_status :: status
  he_last_run :: "int option"
  he_not_before :: "int option"
  he_body :: string

record text_env =
  parse_rfc3339 :: "string \<Rightarrow> int option"
  show_rfc3339 :: "int \<Rightarrow> string"
  unicode_alnum :: "string \<Rightarrow> bool"

section \<open>Parser\<close>

definition key_char :: "text_env \<Rightarrow> string \<Rightarrow> bool" where
  "key_char te x = (case x of [c] \<Rightarrow> is_ascii_alnum c \<or> c = CHR ''_'' | _ \<Rightarrow> unicode_alnum te x)"

record section_state =
  ss_title :: "string option"
  ss_fields :: "string \<rightharpoonup> string"
  ss_body :: "string list"
  ss_found :: bool
  ss_in_body :: bool

definition parse_line :: "text_env \<Rightarrow> section_state \<Rightarrow> string \<Rightarrow> section_state" where
  "parse_line te st line =
     (if prefix ''# '' line \<and> \<not> prefix ''## '' line then st
      else if prefix ''## '' line \<and> \<not> ss_found st
      then st\<lparr>ss_title := Some (trim (drop 3 line)), ss_found := True\<rparr>
      else if \<not> ss_found st then st
      else if ss_in_body st then st\<lparr>ss_body := ss_body st @ [line]\<rparr>
      else if is_blank line then st\<lparr>ss_in_body := True\<rparr>
      else case split_once (CHR '':'') line of
        Some (k, v) \<Rightarrow>
          (let key = trim k; val = trim v in
           if key \<noteq> [] \<and> list_all (key_char te) (chars key)
           then st\<lparr>ss_fields := (ss_fields st)(key \<mapsto> val)\<rparr>
           else st\<lparr>ss_in_body := True, ss_body := ss_body st @ [line]\<rparr>)
      | None \<Rightarrow> st\<lparr>ss_in_body := True, ss_body := ss_body st @ [line]\<rparr>)"

definition truthy :: "string \<Rightarrow> bool" where
  "truthy v = (to_ascii_lower (trim v) \<in> set [''1'', ''true'', ''yes'', ''on''])"

definition section_entry :: "text_env \<Rightarrow> section_state \<Rightarrow> heartbeat_entry option" where
  "section_entry te st =
     (case ss_title st of
        None \<Rightarrow> None
      | Some title \<Rightarrow>
          (let fields = ss_fields st in
           Some \<lparr>he_title = title,
             he_priority = (case fields ''priority'' of None \<Rightarrow> Normal | Some v \<Rightarrow> priority_from v),
             he_schedule = (case fields ''schedule'' of None \<Rightarrow> Once | Some v \<Rightarrow> schedule_from v),
             he_human_approved = (case fields ''human_approved'' of None \<Rightarrow> False | Some v \<Rightarrow> truthy v),
             he_status = (case fields ''status'' of None \<Rightarrow> Pending | Some v \<Rightarrow> status_from v),
             he_last_run = Option.bind (fields ''last_run'') (parse_rfc3339 te),
             he_not_before = Option.bind (fields ''not_before'') (parse_rfc3339 te),
             he_body = trim (join [newline] (ss_body st))\<rparr>))"

definition section_init :: section_state where
  "section_init = \<lparr>ss_title = None, ss_fields = (\<lambda>_. None), ss_body = [], ss_found = False,
     ss_in_body = False\<rparr>"

definition parse_section :: "text_env \<Rightarrow> string \<Rightarrow> heartbeat_entry option" where
  "parse_section te sect =
     (let s = trim sect in
      if s = [] then None
      else section_entry te (foldl (parse_line te) section_init (str_lines s)))"

definition separator :: string where
  "separator = newline # ''---''"

definition parse_heartbeat :: "text_env \<Rightarrow> string \<Rightarrow> heartbeat_entry list" where
  "parse_heartbeat te content = List.map_filter (parse_section te) (split_str separator content)"

section \<open>Printer\<close>

definition print_field :: "string \<Rightarrow> string \<Rightarrow> string" where
  "print_field key val = key @ '': '' @ val @ [newline]"

definition print_entry :: "text_env \<Rightarrow> heartbeat_entry \<Rightarrow> string" where
  "print_entry te e =
     [newline] @ ''## '' @ he_title e @ [newline]
     @ print_field ''priority'' (priority_to_string (he_priority e))
     @ print_field ''schedule'' (schedule_to_string (he_schedule e))
     @ (if he_human_approved e then print_field ''human_approved'' ''true'' else [])
     @ print_field ''status'' (status_to_string (he_status e))
     @ (case he_last_run e of None \<Rightarrow> [] | Some t \<Rightarrow> print_field ''last_run'' (show_rfc3339 te t))
     @ (case he_not_before e of None \<Rightarrow> [] | Some t \<Rightarrow> print_field ''not_before'' (show_rfc3339 te t))
     @ (if he_body e \<noteq> [] then [newline] @ he_body e @ [newline] else [])
     @ [newline] @ ''---'' @ [newline]"

definition serialize_heartbeat :: "text_env \<Rightarrow> heartbeat_entry list \<Rightarrow> string" where
  "serialize_heartbeat te entries =
     ''# Heartbeat'' @ [newline] @ concat (map (print_entry te) entries)"

section \<open>Scheduling\<close>

text \<open>Chrono durations in nanoseconds.\<close>

definition minutes1 :: int where "minutes1 = 60 * 1000000000"
definition hours1 :: int where "hours1 = 60 * minutes1"
definition weeks1 :: int where "weeks1 = 7 * 24 * hours1"

record 'tz zones =
  parse_tz :: "string \<Rightarrow> 'tz option"
  in_zone :: "'tz \<Rightarrow> int \<Rightarrow> naive_datetime"
  in_local :: "int \<Rightarrow> naive_datetime"

definition wall_datetime_naive :: "'tz zones \<Rightarrow> string option \<Rightarrow> int \<Rightarrow> naive_datetime" where
  "wall_datetime_naive z agent_tz utc =
     (case agent_tz of
        None \<Rightarrow> in_local z utc
      | Some tz_name \<Rightarrow>
          (case parse_tz z tz_name of None \<Rightarrow> in_local z utc | Some tz \<Rightarrow> in_zone z tz utc))"

definition wall_date_naive :: "'tz zones \<Rightarrow> string option \<Rightarrow> int \<Rightarrow> int" where
  "wall_date_naive z agent_tz utc = nd_day (wall_datetime_naive z agent_tz utc)"

definition schedule_requires_human_approval :: "schedule \<Rightarrow> bool" where
  "schedule_requires_human_approval s =
     (case s of Minutely \<Rightarrow> True | CronSchedule expr \<Rightarrow> cron_is_subhourly expr | _ \<Rightarrow> False)"

text \<open>\<open>None\<close> is the panic of \<open>is_cron_due\<close>.\<close>

definition is_entry_due ::
  "calendar \<Rightarrow> 'tz zones \<Rightarrow> int \<Rightarrow> int \<Rightarrow> heartbeat_entry \<Rightarrow> string option \<Rightarrow> bool option" where
  "is_entry_due cal z now0 now e agent_tz =
     (if schedule_requires_human_approval (he_schedule e) \<and> \<not> he_human_approved e then Some False
      else if (case he_not_before e of None \<Rightarrow> False | Some nb \<Rightarrow> now0 < nb) then Some False
      else if he_priority e = Urgent \<and> he_last_run e = None \<and> he_schedule e \<noteq> Once then Some True
      else case he_schedule e of
        Once \<Rightarrow> Some (he_last_run e = None)
      | Minutely \<Rightarrow> (case he_last_run e of None \<Rightarrow> Some True | Some t \<Rightarrow> Some (now - t \<ge> minutes1))
      | Hourly \<Rightarrow> (case he_last_run e of None \<Rightarrow> Some True | Some t \<Rightarrow> Some (now - t > hours1))
      | Daily \<Rightarrow>
          (case he_last_run e of
             None \<Rightarrow> Some True
           | Some t \<Rightarrow> Some (wall_date_naive z agent_tz t < wall_date_naive z agent_tz now))
      | Weekly \<Rightarrow> (case he_last_run e of None \<Rightarrow> Some True | Some t \<Rightarrow> Some (now - t > weeks1))
      | CronSchedule expr \<Rightarrow>
          is_cron_due cal expr (map_option (wall_datetime_naive z agent_tz) (he_last_run e))
            (wall_datetime_naive z agent_tz now)
      | UnknownSchedule _ \<Rightarrow> Some False)"

section \<open>One poll of the listen loop\<close>

definition active_status :: "status \<Rightarrow> bool" where
  "active_status s = (s \<in> set [Pending, Running, Processing])"

definition priority_rank :: "priority \<Rightarrow> nat" where
  "priority_rank p = (case p of Urgent \<Rightarrow> 0 | High \<Rightarrow> 1 | Normal \<Rightarrow> 2 | Low \<Rightarrow> 3 | UnknownPriority _ \<Rightarrow> 4)"

text \<open>
  \<open>due e\<close> is the outcome of \<open>is_entry_due\<close>; the indices are sorted by the stable
  \<open>sort_by_key\<close>, and while a run that is not a heartbeat is active only urgent and high entries
  stay.
\<close>

definition due_indices :: "(heartbeat_entry \<Rightarrow> bool) \<Rightarrow> bool \<Rightarrow> heartbeat_entry list \<Rightarrow> nat list" where
  "due_indices due has_active_task_run entries =
     (let ix = filter (\<lambda>i. active_status (he_status (entries ! i)) \<and> due (entries ! i)) [0..<length entries];
          sorted_ix = sort_key (\<lambda>i. priority_rank (he_priority (entries ! i))) ix
      in if has_active_task_run
         then filter (\<lambda>i. he_priority (entries ! i) = Urgent \<or> he_priority (entries ! i) = High) sorted_ix
         else sorted_ix)"

definition has_active_run :: "string list \<Rightarrow> bool" where
  "has_active_run run_keys = list_ex (\<lambda>k. \<not> prefix ''heartbeat:'' k) run_keys"

definition mark_dispatched :: "int \<Rightarrow> heartbeat_entry \<Rightarrow> heartbeat_entry" where
  "mark_dispatched started e =
     e\<lparr>he_last_run := Some started,
       he_status := (if he_schedule e = Once then Done else Running)\<rparr>"

definition poll_entries ::
  "(heartbeat_entry \<Rightarrow> bool) \<Rightarrow> string list \<Rightarrow> int \<Rightarrow> heartbeat_entry list
     \<Rightarrow> heartbeat_entry list \<times> heartbeat_entry list" where
  "poll_entries due run_keys started entries =
     (let ix = due_indices due (has_active_run run_keys) entries;
          entries' = foldl (\<lambda>es i. es[i := mark_dispatched started (es ! i)]) entries ix
      in (map (\<lambda>i. entries' ! i) ix, entries'))"

section \<open>Facts about a poll\<close>

definition selected :: "(heartbeat_entry \<Rightarrow> bool) \<Rightarrow> bool \<Rightarrow> heartbeat_entry \<Rightarrow> bool" where
  "selected due busy e = (active_status (he_status e) \<and> due e \<and>
     (if busy then he_priority e = Urgent \<or> he_priority e = High else True))"

lemma set_due_indices:
  "set (due_indices due busy es) = {i. i < length es \<and> selected due busy (es ! i)}"
  by (auto simp: due_indices_def selected_def Let_def)

lemma distinct_due_indices: "distinct (due_indices due busy es)"
  by (simp add: due_indices_def Let_def)

lemma due_indices_sorted:
  "sorted (map (\<lambda>i. priority_rank (he_priority (es ! i))) (due_indices due busy es))"
  by (simp add: due_indices_def Let_def sorted_filter)

lemma foldl_update_length: "length (foldl (\<lambda>es i. es[i := f (es ! i)]) es ix) = length es"
  by (induction ix arbitrary: es) auto

lemma foldl_update_nth:
  "distinct ix \<Longrightarrow> j < length es \<Longrightarrow>
     foldl (\<lambda>es i. es[i := f (es ! i)]) es ix ! j = (if j \<in> set ix then f (es ! j) else es ! j)"
  by (induction ix arbitrary: es) (auto, metis nth_list_update_neq)

lemma poll_length [simp]: "length (snd (poll_entries due runs t es)) = length es"
  by (simp add: poll_entries_def Let_def foldl_update_length)

lemma poll_nth:
  "i < length es \<Longrightarrow> snd (poll_entries due runs t es) ! i =
     (if selected due (has_active_run runs) (es ! i) then mark_dispatched t (es ! i) else es ! i)"
  by (simp add: poll_entries_def Let_def foldl_update_nth distinct_due_indices set_due_indices)

lemma fst_poll:
  "fst (poll_entries due runs t es) =
     map (\<lambda>i. mark_dispatched t (es ! i)) (due_indices due (has_active_run runs) es)"
  by (auto simp: poll_entries_def Let_def foldl_update_nth distinct_due_indices set_due_indices)

lemma mark_dispatched_fields [simp]:
  "he_priority (mark_dispatched t e) = he_priority e" "he_schedule (mark_dispatched t e) = he_schedule e"
  "he_body (mark_dispatched t e) = he_body e" "he_title (mark_dispatched t e) = he_title e"
  "he_last_run (mark_dispatched t e) = Some t"
  by (simp_all add: mark_dispatched_def)

section \<open>Properties\<close>

text \<open>Neither an entry that still lacks a required approval nor one whose \<open>not_before\<close> lies in
  the future is due, whatever its priority and schedule.\<close>

theorem due_gates:
  assumes "schedule_requires_human_approval (he_schedule e) \<and> \<not> he_human_approved e
    \<or> (\<exists>nb. he_not_before e = Some nb \<and> now0 < nb)"
  shows "is_entry_due cal z now0 now e tz = Some False"
  using assms by (auto simp: is_entry_due_def)

definition demo_zones :: "unit zones" where
  "demo_zones = \<lparr>parse_tz = (\<lambda>_. None), in_zone = (\<lambda>_ t. NaiveDateTime 0 0 0 0 0),
     in_local = (\<lambda>t. let s = t div 1000000000 in NaiveDateTime (s div 86400)
       (nat (s mod 86400 div 3600)) (nat (s mod 3600 div 60)) (nat (s mod 60)) (nat (t mod 1000000000)))\<rparr>"

definition demo_entry :: "schedule \<Rightarrow> heartbeat_entry" where
  "demo_entry s = \<lparr>he_title = ''t'', he_priority = Normal, he_schedule = s, he_human_approved = False,
     he_status = Pending, he_last_run = None, he_not_before = None, he_body = []\<rparr>"

theorem due_gates_witness:
  "is_entry_due demo_calendar demo_zones 5 5 (demo_entry Once\<lparr>he_priority := Urgent, he_not_before := Some 6\<rparr>) None
     = Some False"
  by (rule due_gates) (simp add: demo_entry_def)

text \<open>An entry dispatched at an instant is not due again before its schedule's next slot: a
  minute, an hour, a week later by the clock, the next wall-clock day for a daily entry, the
  next wall-clock minute for a cron entry, and never for a one-time entry.\<close>

theorem dispatched_entry_waits:
  assumes "case he_schedule e of
      Once \<Rightarrow> True
    | Minutely \<Rightarrow> now - t < minutes1
    | Hourly \<Rightarrow> now - t \<le> hours1
    | Weekly \<Rightarrow> now - t \<le> weeks1
    | Daily \<Rightarrow> wall_date_naive z tz now \<le> wall_date_naive z tz t
    | CronSchedule _ \<Rightarrow> minute_slot (wall_datetime_naive z tz now) \<le> wall_datetime_naive z tz t
    | UnknownSchedule _ \<Rightarrow> True"
  shows "is_entry_due cal z now0 now (mark_dispatched t e) tz = Some False"
  using assms
  by (auto simp: is_entry_due_def is_cron_due_def Let_def split: schedule.splits sum.splits)

theorem dispatched_entry_waits_witness:
  "is_entry_due demo_calendar demo_zones 3600000000000 3600000000000
     (mark_dispatched 0 (demo_entry Hourly)) None = Some False"
  by (rule dispatched_entry_waits) (simp add: demo_entry_def hours1_def minutes1_def)

text \<open>(C30) A poll dispatches exactly the entries that are active and due (while a task run is
  active: of these, the urgent and high ones), stamps them, leaves every other entry as it
  was, and hands them over most urgent first.\<close>

theorem poll_dispatches_due:
  "(\<forall>i < length es. snd (poll_entries due runs t es) ! i =
      (if active_status (he_status (es ! i)) \<and> due (es ! i) \<and>
          (has_active_run runs \<longrightarrow> he_priority (es ! i) \<in> {Urgent, High})
       then mark_dispatched t (es ! i) else es ! i))
   \<and> length (snd (poll_entries due runs t es)) = length es
   \<and> set (fst (poll_entries due runs t es)) =
       {mark_dispatched t (es ! i) |i. i < length es \<and> selected due (has_active_run runs) (es ! i)}
   \<and> sorted (map (\<lambda>e. priority_rank (he_priority e)) (fst (poll_entries due runs t es)))"
  using due_indices_sorted [of es due "has_active_run runs"]
  by (auto simp: poll_nth selected_def fst_poll set_due_indices comp_def)

theorem poll_dispatches_due_witness:
  "snd (poll_entries (\<lambda>_. True) [''chat:1''] 9 [demo_entry Once]) ! 0 = demo_entry Once"
proof -
  have "has_active_run [''chat:1'']" by code_simp
  then show ?thesis
    using poll_dispatches_due [of "[demo_entry Once]" "\<lambda>_. True" "[''chat:1'']" 9]
    by (simp add: demo_entry_def)
qed



end
