(* ===== verification/Heartbeat_Format.thy ===== *)
theory Heartbeat_Format
  imports Heartbeat
begin

text \<open>
  The heartbeat file is rewritten by \<open>save_heartbeat\<close> after every poll, so what the printer of
  \<open>heartbeat/mod.rs\<close> writes has to parse back to the same entries.  This theory proves the round
  trip for printable entries, that parsed field values are canonical, and shows the body line the
  round trip loses.
\<close>

section \<open>Lines of a printed entry\<close>
















section \<open>Reading the lines back\<close>







section \<open>One section\<close>




lemma space_before_sep:
  assumes "c = newline \<or> c = CHR '' ''" "v \<noteq> []" "space_before v = None"
  shows "space_before (x @ c # v) = None"
  unfolding space_before_None
proof (intro ballI notI)
  fix w
  assume w: "w \<in> set space_seqs" and suf: "suffix w (x @ c # v)"
  have "\<forall>w\<in>set space_seqs. (newline \<in> set w \<longrightarrow> w = [newline]) \<and> (CHR '' '' \<in> set w \<longrightarrow> w = [CHR '' ''])"
    by code_simp
  with w assms(1) have only: "c \<in> set w \<longrightarrow> w = [c]" by auto
  have "suffix v (x @ c # v)" by (metis append_Cons append_assoc append_Nil suffixI)
  with suf have "suffix w v \<or> suffix v w" using suffix_same_cases by blast
  moreover have "\<not> suffix w v" using assms(3) w by (simp add: space_before_None)
  ultimately obtain t where t: "w = t @ v" by (auto simp: suffix_def)
  with \<open>\<not> suffix w v\<close> have "t \<noteq> []" by auto
  with t suf have "last t = c" by (cases t rule: rev_cases) (auto simp: suffix_def)
  with \<open>t \<noteq> []\<close> t have "c \<in> set w" by auto
  with only have "w = [c]" by blast
  with t \<open>t \<noteq> []\<close> assms(2) show False by (cases t) auto
qed

lemma trimmed_space_before: "trim v = v \<Longrightarrow> space_before v = None"
  by (metis space_before_trim)









section \<open>The round trip\<close>







text \<open>A Markdown heading of level one inside an entry's body does not survive: the parser
  skips every line that starts with \<open># \<close>, not only the file's top-level heading, so the rewrite
  that follows a poll deletes the line from the task's instructions.\<close>

theorem heading_in_body_is_lost:
  "parse_heartbeat te (serialize_heartbeat te
     [\<lparr>he_title = ''Report'', he_priority = Normal, he_schedule = Daily, he_human_approved = False,
       he_status = Pending, he_last_run = None, he_not_before = None,
       he_body = join [newline] [''Read the log.'', ''# Output format'', ''One line.'']\<rparr>])
   = [\<lparr>he_title = ''Report'', he_priority = Normal, he_schedule = Daily, he_human_approved = False,
       he_status = Pending, he_last_run = None, he_not_before = None,
       he_body = join [newline] [''Read the log.'', ''One line.'']\<rparr>]"
  by code_simp

section \<open>Field values are canonical\<close>

lemma lower_char_fixed: "lower_char c = d \<Longrightarrow> \<not> is_lower d \<Longrightarrow> c = d"
  by (auto simp: lower_char_def is_upper_def is_lower_def Let_def split: if_splits)

lemma lower_char_id: "\<not> is_upper c \<Longrightarrow> lower_char c = c"
  by (simp add: lower_char_def)

lemma lower_char_idem: "lower_char (lower_char c) = lower_char c"
  by (auto simp: lower_char_def is_upper_def Let_def)

lemma lower_idem: "to_ascii_lower (to_ascii_lower s) = to_ascii_lower s"
  by (simp add: to_ascii_lower_def lower_char_idem)

lemma lower_char_caseless: "\<not> is_lower c \<Longrightarrow> \<not> is_upper c \<Longrightarrow> lower_char d = c \<longleftrightarrow> d = c"
  by (metis lower_char_fixed lower_char_id)

lemma prefix_map_lower:
  "\<forall>c\<in>set w. \<not> is_lower c \<and> \<not> is_upper c \<Longrightarrow> prefix w (map lower_char s) \<longleftrightarrow> prefix w s"
proof (induction w arbitrary: s)
  case (Cons c w)
  then have "c = lower_char d \<longleftrightarrow> c = d" for d using lower_char_caseless [of c d] by auto
  with Cons.IH Cons.prems show ?case by (cases s) simp_all
qed simp

lemma suffix_map_lower:
  "\<forall>c\<in>set w. \<not> is_lower c \<and> \<not> is_upper c \<Longrightarrow> suffix w (map lower_char s) \<longleftrightarrow> suffix w s"
  using prefix_map_lower [of "rev w" "rev s"] by (simp add: suffix_to_prefix rev_map)

lemma trim_lower: "trim s = s \<Longrightarrow> trim (to_ascii_lower s) = to_ascii_lower s"
proof -
  assume s: "trim s = s"
  have caseless: "\<forall>w\<in>set space_seqs. \<forall>c\<in>set w. \<not> is_lower c \<and> \<not> is_upper c" by code_simp
  have "space_at s = None" "space_before s = None" using s by (metis space_at_trim, metis space_before_trim)
  then have "space_at (map lower_char s) = None" "space_before (map lower_char s) = None"
    unfolding space_at_None space_before_None
    using prefix_map_lower suffix_map_lower caseless by blast+
  then show ?thesis unfolding to_ascii_lower_def by (rule trim_id)
qed

lemma lower_trim_canonical: "to_ascii_lower (trim (to_ascii_lower (trim s))) = to_ascii_lower (trim s)"
  by (simp add: trim_lower lower_idem)

lemma schedule_of_cron:
  assumes "trim e = e" "ok (parse_cron_expression e)"
  shows "schedule_from (''cron: '' @ e) = CronSchedule e"
proof -
  have "\<not> ok (parse_cron_expression [])" by code_simp
  then have "e \<noteq> []" using assms(2) by auto
  then have "space_before (''cron: '' @ e) = None"
    using space_before_sep [of "CHR '' ''" e "''cron:''"] assms(1) by (simp add: trimmed_space_before)
  moreover have "space_at (''cron: '' @ e) = None"
  proof -
    have "list_all (\<lambda>w. hd w \<noteq> CHR ''c'') space_seqs" by code_simp
    then show ?thesis unfolding space_at_None using space_seqs_nonempty
      by (auto simp: list_all_iff prefix_Cons)
  qed
  ultimately have "trim (''cron: '' @ e) = ''cron: '' @ e" by (rule trim_id [rotated])
  moreover have "lower_char (CHR ''c'') = CHR ''c''" by code_simp
  moreover have "trim (CHR '' '' # e) = e" using assms(1) by (simp add: trim_blank_Cons)
  ultimately show ?thesis using assms(2)
    by (simp add: schedule_from_def Let_def to_ascii_lower_def strip_prefix_def)
qed

text \<open>Reading a priority, a schedule or a status yields a canonical value: printing it and
  reading it again gives the same value, for every input text.\<close>

theorem field_values_canonical:
  "priority_from (priority_to_string (priority_from s)) = priority_from s
   \<and> status_from (status_to_string (status_from s)) = status_from s
   \<and> schedule_from (schedule_to_string (schedule_from s)) = schedule_from s"
proof (intro conjI)
  show "priority_from (priority_to_string (priority_from s)) = priority_from s"
  proof -
    have "priority_from ''urgent'' = Urgent" "priority_from ''high'' = High"
      "priority_from ''normal'' = Normal" "priority_from ''low'' = Low" by code_simp+
    moreover have "priority_from (to_ascii_lower (trim s)) = priority_from s"
      by (simp add: priority_from_def lower_trim_canonical)
    ultimately show ?thesis by (auto simp: priority_from_def [of s] priority_to_string_def Let_def)
  qed
  show "status_from (status_to_string (status_from s)) = status_from s"
  proof -
    have "status_from ''pending'' = Pending" "status_from ''running'' = Running"
      "status_from ''processing'' = Processing" "status_from ''done'' = Done"
      "status_from ''skipped'' = Skipped" "status_from ''blocked'' = Blocked"
      "status_from ''failed'' = Failed" by code_simp+
    moreover have "status_from (to_ascii_lower (trim s)) = status_from s"
      by (simp add: status_from_def lower_trim_canonical)
    ultimately show ?thesis by (auto simp: status_from_def [of s] status_to_string_def Let_def)
  qed
  show "schedule_from (schedule_to_string (schedule_from s)) = schedule_from s"
  proof -
    have "schedule_from ''once'' = Once" "schedule_from ''minutely'' = Minutely"
      "schedule_from ''hourly'' = Hourly" "schedule_from ''daily'' = Daily"
      "schedule_from ''weekly'' = Weekly" "schedule_from [] = UnknownSchedule []" by code_simp+
    moreover have "schedule_from (trim s) = schedule_from s" by (simp add: schedule_from_def)
    moreover have "schedule_from s = CronSchedule e \<Longrightarrow> trim e = e \<and> ok (parse_cron_expression e)" for e
      by (auto simp: schedule_from_def Let_def split: if_splits option.splits)
    moreover have "schedule_from s = UnknownSchedule u \<Longrightarrow> u = trim s" for u
      by (auto simp: schedule_from_def Let_def split: if_splits option.splits)
    ultimately show ?thesis using schedule_of_cron
      by (cases "schedule_from s") (auto simp: schedule_to_string_def)
  qed
qed

end
