(* ===== verification/Encoding.thy ===== *)
theory Encoding
  imports Text_Ops
begin

text \<open>
  Bytes and texts at the borders of the program: the UTF-8 check of \<open>std::str::from_utf8\<close>,
  numerals as \<open>format!\<close> writes them and \<open>from_str_radix\<close> reads them, the remaining pattern
  operations of \<open>str\<close>, and JSON values.
\<close>

section \<open>UTF-8\<close>

text \<open>The ranges of the bytes that have to follow a lead byte.\<close>

definition utf8_tail :: "nat \<Rightarrow> (nat \<times> nat) list option" where
  "utf8_tail n =
     (if n < 0x80 then Some []
      else if 0xC2 \<le> n \<and> n \<le> 0xDF then Some [(0x80, 0xBF)]
      else if n = 0xE0 then Some [(0xA0, 0xBF), (0x80, 0xBF)]
      else if n = 0xED then Some [(0x80, 0x9F), (0x80, 0xBF)]
      else if 0xE1 \<le> n \<and> n \<le> 0xEF then Some [(0x80, 0xBF), (0x80, 0xBF)]
      else if n = 0xF0 then Some [(0x90, 0xBF), (0x80, 0xBF), (0x80, 0xBF)]
      else if 0xF1 \<le> n \<and> n \<le> 0xF3 then Some [(0x80, 0xBF), (0x80, 0xBF), (0x80, 0xBF)]
      else if n = 0xF4 then Some [(0x80, 0x8F), (0x80, 0xBF), (0x80, 0xBF)]
      else None)"

fun utf8_run :: "(nat \<times> nat) list \<Rightarrow> string \<Rightarrow> bool" where
  "utf8_run pending [] = (pending = [])"
| "utf8_run [] (c # cs) =
     (case utf8_tail (of_char c) of None \<Rightarrow> False | Some t \<Rightarrow> utf8_run t cs)"
| "utf8_run ((lo, hi) # t) (c # cs) = (lo \<le> of_char c \<and> of_char c \<le> hi \<and> utf8_run t cs)"

definition utf8_ok :: "string \<Rightarrow> bool" where
  "utf8_ok s = utf8_run [] s"

definition is_ascii :: "char \<Rightarrow> bool" where
  "is_ascii c = ((of_char c :: nat) < 128)"

lemma utf8_ok_ascii: "list_all is_ascii s \<Longrightarrow> utf8_ok s"
  unfolding utf8_ok_def by (induction s) (auto simp: is_ascii_def utf8_tail_def)

lemma utf8_run_append: "utf8_run p a \<Longrightarrow> utf8_run [] b \<Longrightarrow> utf8_run p (a @ b)"
  by (induction p a rule: utf8_run.induct) (auto split: option.splits)

lemma utf8_ok_append: "utf8_ok a \<Longrightarrow> utf8_ok b \<Longrightarrow> utf8_ok (a @ b)"
  by (simp add: utf8_ok_def utf8_run_append)

text \<open>\<open>str::is_char_boundary\<close>, where slicing does not panic, and \<open>floor_char_boundary\<close>.\<close>

definition at_char_boundary :: "string \<Rightarrow> nat \<Rightarrow> bool" where
  "at_char_boundary s i = (i = 0 \<or> i = length s \<or> i < length s \<and> \<not> is_cont (s ! i))"

fun floor_char_boundary :: "string \<Rightarrow> nat \<Rightarrow> nat" where
  "floor_char_boundary s 0 = 0"
| "floor_char_boundary s (Suc i) =
     (if length s \<le> Suc i then length s
      else if at_char_boundary s (Suc i) then Suc i else floor_char_boundary s i)"

section \<open>Numerals\<close>

definition digit_char :: "nat \<Rightarrow> char" where
  "digit_char n = char_of (48 + n)"

text \<open>\<open>Display\<close> of an unsigned integer.\<close>

fun show_nat :: "nat \<Rightarrow> string" where
  "show_nat n = (if n < 10 then [digit_char n] else show_nat (n div 10) @ [digit_char (n mod 10)])"

declare show_nat.simps [simp del]

definition show_int :: "int \<Rightarrow> string" where
  "show_int i = (if i < 0 then ''-'' @ show_nat (nat (- i)) else show_nat (nat i))"

text \<open>\<open>{n:x}\<close> and the width of \<open>{n:04x}\<close>.\<close>

definition hex_char :: "nat \<Rightarrow> char" where
  "hex_char n = (if n < 10 then char_of (48 + n) else char_of (87 + n))"

fun show_hex :: "nat \<Rightarrow> string" where
  "show_hex n = (if n < 16 then [hex_char n] else show_hex (n div 16) @ [hex_char (n mod 16)])"

declare show_hex.simps [simp del]

definition pad_left :: "char \<Rightarrow> nat \<Rightarrow> string \<Rightarrow> string" where
  "pad_left c w s = replicate (w - length s) c @ s"

definition hex_val :: "char \<Rightarrow> nat option" where
  "hex_val c = (let n = of_char c :: nat in
     if is_digit c then Some (n - 48)
     else if 97 \<le> n \<and> n \<le> 102 then Some (n - 87)
     else if 65 \<le> n \<and> n \<le> 70 then Some (n - 55) else None)"

definition hex_digits_val :: "nat list \<Rightarrow> nat" where
  "hex_digits_val ds = foldl (\<lambda>a d. 16 * a + d) 0 ds"

text \<open>\<open>usize::from_str_radix(s, 16)\<close> on 64 bits: an optional plus sign, then digits.\<close>

definition parse_hex :: "string \<Rightarrow> nat option" where
  "parse_hex s =
     (let ds = (case s of c # cs \<Rightarrow> if c = CHR ''+'' then cs else s | [] \<Rightarrow> [])
      in if ds = [] then None
         else case those (map hex_val ds) of
           None \<Rightarrow> None
         | Some vs \<Rightarrow> if hex_digits_val vs < 2 ^ 64 then Some (hex_digits_val vs) else None)"

lemma hex_val_char: "n < 16 \<Longrightarrow> hex_val (hex_char n) = Some n"
  by (auto simp: hex_val_def hex_char_def is_digit_def Let_def)

lemma hex_char_neq_plus: "n < 16 \<Longrightarrow> hex_char n \<noteq> CHR ''+''"
proof
  assume "n < 16" and "hex_char n = CHR ''+''"
  then have "hex_val (CHR ''+'') = Some n" using hex_val_char by metis
  then show False by (simp add: hex_val_def is_digit_def)
qed

lemma hex_char_ascii: "n < 16 \<Longrightarrow> is_ascii (hex_char n)"
  by (simp add: is_ascii_def hex_char_def)

lemma show_hex_digits:
  "\<exists>ds. show_hex n = map hex_char ds \<and> (\<forall>d\<in>set ds. d < 16) \<and> hex_digits_val ds = n \<and> ds \<noteq> []
     \<and> (0 < k \<longrightarrow> n < 16 ^ k \<longrightarrow> length ds \<le> k)"
proof (induction n arbitrary: k rule: show_hex.induct)
  case (1 n)
  show ?case
  proof (cases "n < 16")
    case True
    then have "show_hex n = map hex_char [n]" by (simp add: show_hex.simps)
    then show ?thesis using True by (intro exI [of _ "[n]"]) (simp add: hex_digits_val_def)
  next
    case False
    then obtain ds where ds: "show_hex (n div 16) = map hex_char ds" "\<forall>d\<in>set ds. d < 16"
        "hex_digits_val ds = n div 16" "ds \<noteq> []" "0 < k - 1 \<longrightarrow> n div 16 < 16 ^ (k - 1) \<longrightarrow> length ds \<le> k - 1"
      using 1 by blast
    have "length (ds @ [n mod 16]) \<le> k" if "0 < k" "n < 16 ^ k"
    proof -
      have "k \<noteq> 1" using False that by auto
      with that(1) have "0 < k - 1" "k = Suc (k - 1)" by auto
      moreover from this that(2) have "n div 16 < 16 ^ (k - 1)"
        by (metis less_mult_imp_div_less mult.commute power_Suc)
      ultimately show ?thesis using ds(5) by auto
    qed
    moreover have "show_hex n = map hex_char (ds @ [n mod 16])"
      using False ds(1) by (subst show_hex.simps) simp
    moreover have "hex_digits_val (ds @ [n mod 16]) = n"
      using ds(3) by (simp add: hex_digits_val_def)
    ultimately show ?thesis using ds(2) by (intro exI [of _ "ds @ [n mod 16]"]) auto
  qed
qed

lemma hex_digits_zeros: "hex_digits_val (replicate k 0 @ ds) = hex_digits_val ds"
  unfolding hex_digits_val_def by (induction k) auto

lemma those_map_Some: "(\<And>x. x \<in> set xs \<Longrightarrow> f x = Some (g x)) \<Longrightarrow> those (map f xs) = Some (map g xs)"
  by (induction xs) auto

lemma parse_hex_digits:
  assumes "s \<noteq> []" "hd s \<noteq> CHR ''+''" "those (map hex_val s) = Some vs"
    and "hex_digits_val vs = n" "n < 2 ^ 64"
  shows "parse_hex s = Some n"
  using assms by (cases s) (simp_all add: parse_hex_def)

text \<open>Four hexadecimal digits for every number they can hold, read back as that number.\<close>

lemma hex4:
  assumes "n < 65536"
  shows "length (pad_left (CHR ''0'') 4 (show_hex n)) = 4"
    and "parse_hex (pad_left (CHR ''0'') 4 (show_hex n)) = Some n"
    and "list_all is_ascii (pad_left (CHR ''0'') 4 (show_hex n))"
proof -
  obtain ds where ds: "show_hex n = map hex_char ds" "\<forall>d\<in>set ds. d < 16" "hex_digits_val ds = n"
      "ds \<noteq> []" "length ds \<le> 4"
    using show_hex_digits [of n 4] assms by auto
  let ?es = "replicate (4 - length ds) 0 @ ds"
  have zero: "CHR ''0'' = hex_char 0" by code_simp
  have es: "pad_left (CHR ''0'') 4 (show_hex n) = map hex_char ?es"
    by (simp only: pad_left_def ds(1) zero map_append map_replicate length_map)
  show len: "length (pad_left (CHR ''0'') 4 (show_hex n)) = 4" using ds(5) by (simp add: es)
  have small: "\<forall>d\<in>set ?es. d < 16" using ds(2) by auto
  then show "list_all is_ascii (pad_left (CHR ''0'') 4 (show_hex n))"
    unfolding es by (auto simp: list_all_iff hex_char_ascii)
  have "those (map hex_val (map hex_char ?es)) = Some ?es"
    using those_map_Some [of ?es "hex_val \<circ> hex_char" "\<lambda>d. d"] small by (simp add: hex_val_char)
  moreover have ne: "?es \<noteq> []" using ds(4) by simp
  moreover from ne small have "hd (map hex_char ?es) \<noteq> CHR ''+''"
    by (metis hd_in_set hd_map hex_char_neq_plus)
  moreover have "hex_digits_val ?es = n" by (simp add: hex_digits_zeros ds(3))
  ultimately show "parse_hex (pad_left (CHR ''0'') 4 (show_hex n)) = Some n"
    using assms unfolding es by (intro parse_hex_digits [where vs = ?es]) simp_all
qed

section \<open>Patterns\<close>

text \<open>\<open>s.replace(pat, by)\<close>, \<open>s.trim_matches(c)\<close>, \<open>s.trim_end_matches(pat)\<close>, \<open>s.splitn(3, c)\<close>
  with exactly three pieces.\<close>

definition replace_str :: "string \<Rightarrow> string \<Rightarrow> string \<Rightarrow> string" where
  "replace_str pat with s = join with (split_str pat s)"

definition trim_matches :: "char \<Rightarrow> string \<Rightarrow> string" where
  "trim_matches c s = rev (dropWhile (\<lambda>d. d = c) (rev (dropWhile (\<lambda>d. d = c) s)))"

function trim_end_matches :: "string \<Rightarrow> string \<Rightarrow> string" where
  "trim_end_matches p s =
     (if p \<noteq> [] \<and> suffix p s then trim_end_matches p (take (length s - length p) s) else s)"
  by pat_completeness auto
termination
  by (relation "measure (\<lambda>(p, s). length s)") (auto simp: suffix_def)

declare trim_end_matches.simps [simp del]

definition split_three :: "char \<Rightarrow> string \<Rightarrow> (string \<times> string \<times> string) option" where
  "split_three c s =
     (case split_once c s of
        None \<Rightarrow> None
      | Some (a, r) \<Rightarrow> (case split_once c r of None \<Rightarrow> None | Some (b, d) \<Rightarrow> Some (a, b, d)))"

lemma trim_end_matches_suffix: "p \<noteq> [] \<Longrightarrow> \<not> suffix p (trim_end_matches p s)"
  by (induction p s rule: trim_end_matches.induct) (subst trim_end_matches.simps, auto)

lemma trim_end_matches_prefix: "prefix (trim_end_matches p s) s"
proof (induction p s rule: trim_end_matches.induct)
  case (1 p s)
  then show ?case
    by (subst trim_end_matches.simps) (auto intro: prefix_order.trans take_is_prefix)
qed

section \<open>JSON values\<close>

text \<open>\<open>serde_json::Value\<close>; a number is its literal, an object the list of its members, whose order
  only the serialiser, a parameter wherever it is used, decides.\<close>

datatype json =
  JNull | JBool bool | JNum string | JStr string | JArr "json list" | JObj "(string \<times> json) list"

fun json_get :: "string \<Rightarrow> json \<Rightarrow> json" where
  "json_get k (JObj ms) = (case map_of ms k of None \<Rightarrow> JNull | Some v \<Rightarrow> v)"
| "json_get k _ = JNull"

definition json_str :: "json \<Rightarrow> string option" where
  "json_str v = (case v of JStr s \<Rightarrow> Some s | _ \<Rightarrow> None)"

text \<open>\<open>v[k] = x\<close> on an object.\<close>

fun json_set :: "string \<Rightarrow> json \<Rightarrow> json \<Rightarrow> json" where
  "json_set k x (JObj ms) =
     JObj (if k \<in> fst ` set ms then map (\<lambda>(l, v). (l, if l = k then x else v)) ms else ms @ [(k, x)])"
| "json_set k x v = v"

text \<open>\<open>get(k)\<close> of a value, and the value as a boolean or an unsigned integer.\<close>

fun json_member :: "string \<Rightarrow> json \<Rightarrow> json option" where
  "json_member k (JObj ms) = map_of ms k"
| "json_member k _ = None"

definition json_bool :: "json option \<Rightarrow> bool option" where
  "json_bool v = (case v of Some (JBool b) \<Rightarrow> Some b | _ \<Rightarrow> None)"

definition as_u64 :: "json option \<Rightarrow> u64 option" where
  "as_u64 v =
     (case v of
        Some (JNum s) \<Rightarrow> if s \<noteq> [] \<and> list_all is_digit s \<and> digits_val s < 2 ^ 64 then Some (of_nat (digits_val s)) else None
      | _ \<Rightarrow> None)"

text \<open>\<open>as_i64\<close> of a number literal: decimal digits with an optional minus sign, within 64 bits; \<open>-0\<close>
  is a float.\<close>

definition json_i64 :: "json option \<Rightarrow> int option" where
  "json_i64 v =
     (case v of
        Some (JNum (c # cs)) \<Rightarrow>
          if c = CHR ''-''
          then (if cs \<noteq> [] \<and> list_all is_digit cs \<and> 0 < digits_val cs \<and> digits_val cs \<le> 2 ^ 63
                then Some (- int (digits_val cs)) else None)
          else (if list_all is_digit (c # cs) \<and> digits_val (c # cs) < 2 ^ 63 then Some (int (digits_val (c # cs))) else None)
      | _ \<Rightarrow> None)"

text \<open>\<open>s.parse::<i64>()\<close>.\<close>

definition parse_i64 :: "string \<Rightarrow> int option" where
  "parse_i64 s =
     (case s of
        c # cs \<Rightarrow>
          if c = CHR ''-''
          then (if cs \<noteq> [] \<and> list_all is_digit cs \<and> digits_val cs \<le> 2 ^ 63 then Some (- int (digits_val cs)) else None)
          else map_option int (parse_uint (2 ^ 63) s)
      | [] \<Rightarrow> None)"

definition member_str :: "string \<Rightarrow> json \<Rightarrow> string option" where
  "member_str k v = (case json_member k v of Some w \<Rightarrow> json_str w | None \<Rightarrow> None)"

lemma map_of_replace:
  "map_of (map (\<lambda>(l, v). (l, if l = k then x else v)) ms) l
     = (if l = k then if k \<in> fst ` set ms then Some x else None else map_of ms l)"
  by (induction ms) (auto simp: image_iff, force)

lemma json_member_set [simp]:
  "json_member l (json_set k x (JObj ms)) = (if l = k then Some x else json_member l (JObj ms))"
proof (cases "k \<in> fst ` set ms")
  case True
  then show ?thesis by (auto simp: map_of_replace)
next
  case False
  then have "map_of ms k = None" by (simp add: map_of_eq_None_iff)
  with False show ?thesis by (auto simp: map_add_def split: option.split)
qed

lemma json_set_obj [simp]: "\<exists>ms'. json_set k x (JObj ms) = JObj ms'"
  by simp

text \<open>A numeral is read back.\<close>

lemma digits_val_snoc: "digits_val (ds @ [d]) = 10 * digits_val ds + digit_val d"
  by (simp add: digits_val_def)

lemma digit_char_facts: "n < 10 \<Longrightarrow> is_digit (digit_char n) \<and> digit_val (digit_char n) = n"
  by (auto simp: is_digit_def digit_val_def digit_char_def)

lemma show_nat_digits: "show_nat n \<noteq> [] \<and> list_all is_digit (show_nat n) \<and> digits_val (show_nat n) = n"
proof (induction n rule: show_nat.induct)
  case (1 n)
  show ?case
  proof (cases "n < 10")
    case True
    then show ?thesis using digit_char_facts [of n] by (simp add: show_nat.simps [of n] digits_val_def)
  next
    case False
    then have "n mod 10 < 10" by simp
    with 1 False show ?thesis
      using digit_char_facts [of "n mod 10"] by (simp add: show_nat.simps [of n] digits_val_snoc)
  qed
qed

lemma as_u64_show [simp]: "as_u64 (Some (JNum (show_nat (unat w)))) = Some (w :: u64)"
  using show_nat_digits [of "unat w"] unsigned_less [of w] by (simp add: as_u64_def)

end
