(* ===== verification/Git_Server.thy ===== *)
theory Git_Server
  imports Encoding Interfaces
begin

text \<open>
  The Smart HTTP git server of the workspace (\<open>crates/that-git-server\<close>): the packet lines and
  the push rule of \<open>acl.rs\<close>, the repository names and webhook table of \<open>state.rs\<close>, the request
  handlers of \<open>git.rs\<close> and \<open>api.rs\<close>, the post-receive hook with the automatic merge of
  \<open>hooks.rs\<close> and the expiry of \<open>expiry.rs\<close>.

  The \<open>git\<close> executable, the file system, HTTP delivery and the clock are outside: they act on a
  world \<open>'w\<close> and are the record \<open>git_env\<close>.  A request body and a process output are bytes.
\<close>

section \<open>Packet lines\<close>

text \<open>\<open>format!("{len:04x}")\<close> does not cut a length of more than four digits.\<close>

definition pkt_line :: "string \<Rightarrow> string" where
  "pkt_line data = pad_left (CHR ''0'') 4 (show_hex (length data + 4)) @ data"

record ref_command =
  rc_old :: string
  rc_new :: string
  rc_refname :: string

definition pkt_len :: "string \<Rightarrow> nat" where
  "pkt_len hex = (case parse_hex (if utf8_ok hex then hex else ''0000'') of None \<Rightarrow> 0 | Some n \<Rightarrow> n)"

definition parse_ref_line :: "string \<Rightarrow> ref_command option" where
  "parse_ref_line data =
     (let line = takeWhile (\<lambda>b. b \<noteq> CHR 0x00) data in
      if utf8_ok line
      then map_option (\<lambda>(a, b, c). \<lparr>rc_old = a, rc_new = b, rc_refname = c\<rparr>)
             (split_three (CHR '' '') (trim line))
      else None)"

text \<open>The argument is the body from \<open>pos\<close> on.\<close>

function parse_ref_commands :: "string \<Rightarrow> ref_command list" where
  "parse_ref_commands body =
     (if length body < 4 then []
      else let len = pkt_len (take 4 body) in
        if len = 0 then []
        else if len < 4 \<or> length body < len then []
        else (case parse_ref_line (take (len - 4) (drop 4 body)) of None \<Rightarrow> [] | Some r \<Rightarrow> [r])
             @ parse_ref_commands (drop len body))"
  by pat_completeness auto
termination
  by (relation "measure length") auto

declare parse_ref_commands.simps [simp del]

section \<open>The push rule\<close>

definition acl_prefix :: "string \<Rightarrow> string" where
  "acl_prefix agent_name = ''refs/heads/task/'' @ agent_name"

definition quoted :: "string \<Rightarrow> string" where
  "quoted s = [CHR 0x27] @ s @ [CHR 0x27]"

definition em_dash :: string where
  "em_dash = [CHR 0xE2, CHR 0x80, CHR 0x94]"

text \<open>The error is the first reference outside the prefix.\<close>

fun acl_check :: "ref_command list \<Rightarrow> string \<Rightarrow> string + unit" where
  "acl_check [] agent_name = Inr ()"
| "acl_check (r # rs) agent_name =
     (if \<not> prefix (acl_prefix agent_name) (rc_refname r)
      then Inl (''agent '' @ quoted agent_name @ '' cannot push to '' @ quoted (rc_refname r) @ '' ''
        @ em_dash @ '' only '' @ quoted (acl_prefix agent_name) @ '' allowed'')
      else acl_check rs agent_name)"

section \<open>State\<close>

record app_state =
  repo_root :: string
  default_webhook_url :: "string option"
  expiry_hours :: u64
  auto_merge_on :: bool
  last_push :: "string \<rightharpoonup> (string \<rightharpoonup> int)"
  repo_webhooks :: "string \<rightharpoonup> string"

definition app_state_new :: "string \<Rightarrow> string option \<Rightarrow> u64 \<Rightarrow> bool \<Rightarrow> app_state" where
  "app_state_new root url hours merge =
     \<lparr>repo_root = root,
      default_webhook_url = (case url of None \<Rightarrow> None | Some u \<Rightarrow> if trim u = [] then None else Some u),
      expiry_hours = hours, auto_merge_on = merge, last_push = (\<lambda>_. None), repo_webhooks = (\<lambda>_. None)\<rparr>"

text \<open>\<open>Path::join\<close> with a relative name.\<close>

definition path_join :: "string \<Rightarrow> string \<Rightarrow> string" where
  "path_join root name =
     (if root = [] \<or> last root = CHR ''/'' then root @ name else root @ ''/'' @ name)"

definition repo_name :: "string \<Rightarrow> string option" where
  "repo_name repo =
     (let clean = replace_str ''..'' [] (trim_matches (CHR ''/'') repo) in
      if clean = [] \<or> CHR ''/'' \<in> set clean then None
      else Some (if suffix ''.git'' clean then clean else clean @ ''.git''))"

definition repo_path :: "app_state \<Rightarrow> string \<Rightarrow> string option" where
  "repo_path st repo = map_option (path_join (repo_root st)) (repo_name repo)"

definition webhook_url_for :: "app_state \<Rightarrow> string \<Rightarrow> string option" where
  "webhook_url_for st repo =
     (case repo_webhooks st repo of Some url \<Rightarrow> Some url | None \<Rightarrow> default_webhook_url st)"

definition state_register_webhook :: "string \<Rightarrow> string \<Rightarrow> app_state \<Rightarrow> app_state" where
  "state_register_webhook repo url st = st\<lparr>repo_webhooks := (repo_webhooks st)(repo \<mapsto> url)\<rparr>"

definition record_push :: "int \<Rightarrow> string \<Rightarrow> string \<Rightarrow> app_state \<Rightarrow> app_state" where
  "record_push now repo branch st =
     st\<lparr>last_push := (last_push st)(repo \<mapsto>
        (case last_push st repo of None \<Rightarrow> (\<lambda>_. None) | Some m \<Rightarrow> m)(branch \<mapsto> now))\<rparr>"

section \<open>The outside world\<close>

record git_output =
  go_success :: bool
  go_stdout :: string
  go_stderr :: string

datatype pipe_result = SpawnFailed string | WaitFailed string | Finished git_output

record dir_entry =
  de_name :: string
  de_modified :: "int option"

record 'w git_env =
  git_cmd :: "string list \<Rightarrow> 'w \<Rightarrow> (string + git_output) \<times> 'w"
  git_pipe :: "string list \<Rightarrow> string \<Rightarrow> 'w \<Rightarrow> pipe_result \<times> 'w"
  path_exists :: "string \<Rightarrow> 'w \<Rightarrow> bool"
  read_dir :: "string \<Rightarrow> 'w \<Rightarrow> string + dir_entry list"
  remove_dir_all :: "string \<Rightarrow> 'w \<Rightarrow> (string + unit) \<times> 'w"
  http_post :: "string \<Rightarrow> json \<Rightarrow> 'w \<Rightarrow> (string + nat) \<times> 'w"
  utc_now :: "'w \<Rightarrow> int"
  lossy :: "string \<Rightarrow> string"
  debug_list :: "string list \<Rightarrow> string"

datatype http_status = BAD_REQUEST | FORBIDDEN | NOT_FOUND | INTERNAL_SERVER_ERROR

type_synonym http_error = "http_status \<times> string"

record response =
  rs_content_type :: string
  rs_body :: string

section \<open>Git handlers\<close>

definition ensure_repo ::
  "'w git_env \<Rightarrow> app_state \<Rightarrow> string \<Rightarrow> 'w \<Rightarrow> (string + string) \<times> 'w" where
  "ensure_repo env st repo w =
     (case repo_path st repo of
        None \<Rightarrow> (Inl ''invalid repo name'', w)
      | Some path \<Rightarrow>
          if path_exists env path w then (Inr path, w)
          else (case git_cmd env [''init'', ''--bare'', ''--quiet'', ''--initial-branch=main'', path] w of
              (Inl e, w1) \<Rightarrow> (Inl (''git init: '' @ e), w1)
            | (Inr out, w1) \<Rightarrow>
                if \<not> go_success out then (Inl (''git init failed: '' @ lossy env (go_stderr out)), w1)
                else (Inr path, snd (git_cmd env [''-C'', path, ''config'', ''http.receivepack'', ''true''] w1))))"

definition run_service ::
  "'w git_env \<Rightarrow> string \<Rightarrow> string \<Rightarrow> string \<Rightarrow> 'w \<Rightarrow> (http_error + response) \<times> 'w" where
  "run_service env service path input w =
     (case git_pipe env [service, ''--stateless-rpc'', path] input w of
        (SpawnFailed e, w1) \<Rightarrow> (Inl (INTERNAL_SERVER_ERROR, ''spawn git: '' @ e), w1)
      | (WaitFailed e, w1) \<Rightarrow> (Inl (INTERNAL_SERVER_ERROR, ''git wait: '' @ e), w1)
      | (Finished out, w1) \<Rightarrow>
          (Inr \<lparr>rs_content_type = ''application/x-git-'' @ service @ ''-result'',
                rs_body = go_stdout out\<rparr>, w1))"

definition info_refs ::
  "'w git_env \<Rightarrow> app_state \<Rightarrow> string \<Rightarrow> string \<Rightarrow> 'w \<Rightarrow> (http_error + response) \<times> 'w" where
  "info_refs env st repo svc w =
     (if svc \<noteq> ''git-upload-pack'' \<and> svc \<noteq> ''git-receive-pack''
      then (Inl (BAD_REQUEST, ''invalid service''), w)
      else case ensure_repo env st repo w of
        (Inl e, w1) \<Rightarrow> (Inl (BAD_REQUEST, e), w1)
      | (Inr path, w1) \<Rightarrow>
          (case git_cmd env [the (strip_prefix ''git-'' svc), ''--stateless-rpc'', ''--advertise-refs'', path] w1 of
             (Inl e, w2) \<Rightarrow> (Inl (INTERNAL_SERVER_ERROR, ''git: '' @ e), w2)
           | (Inr out, w2) \<Rightarrow>
               if \<not> go_success out then (Inl (INTERNAL_SERVER_ERROR, lossy env (go_stderr out)), w2)
               else (Inr \<lparr>rs_content_type = ''application/x-'' @ svc @ ''-advertisement'',
                      rs_body = pkt_line (''# service='' @ svc @ [newline]) @ ''0000'' @ go_stdout out\<rparr>, w2)))"

definition upload_pack ::
  "'w git_env \<Rightarrow> app_state \<Rightarrow> string \<Rightarrow> string \<Rightarrow> 'w \<Rightarrow> (http_error + response) \<times> 'w" where
  "upload_pack env st repo body w =
     (case ensure_repo env st repo w of
        (Inl e, w1) \<Rightarrow> (Inl (BAD_REQUEST, e), w1)
      | (Inr path, w1) \<Rightarrow> run_service env ''upload-pack'' path body w1)"

text \<open>The task that \<open>hooks::on_push\<close> spawns, to be run later.\<close>

record hook_task =
  ht_repo :: string
  ht_agent :: "string option"
  ht_refs :: "ref_command list"

type_synonym 'w server = "app_state \<times> hook_task list \<times> 'w"

record push_request =
  pr_repo :: string
  pr_agent_header :: "string option"
  pr_body :: string

text \<open>\<open>HeaderValue::to_str\<close> accepts visible ASCII and the tab; any other value counts as no
  header.\<close>

definition pr_agent :: "push_request \<Rightarrow> string option" where
  "pr_agent rq =
     (case pr_agent_header rq of
        None \<Rightarrow> None
      | Some v \<Rightarrow>
          if list_all (\<lambda>c. c = CHR 0x09 \<or> (32 \<le> (of_char c :: nat) \<and> (of_char c :: nat) < 127)) v
          then Some v else None)"

definition push_guard :: "push_request \<Rightarrow> string option" where
  "push_guard rq =
     (case pr_agent rq of
        None \<Rightarrow> None
      | Some agent_name \<Rightarrow>
          (case acl_check (parse_ref_commands (pr_body rq)) agent_name of
             Inl msg \<Rightarrow> Some msg
           | Inr _ \<Rightarrow> None))"

definition receive_pack ::
  "'w git_env \<Rightarrow> push_request \<Rightarrow> 'w server \<Rightarrow> (http_error + response) \<times> 'w server" where
  "receive_pack env rq s =
     (case s of (st, tasks, w) \<Rightarrow>
      (let refs = parse_ref_commands (pr_body rq) in
       case push_guard rq of
         Some msg \<Rightarrow> (Inl (FORBIDDEN, msg), (st, tasks, w))
       | None \<Rightarrow>
           (case ensure_repo env st (pr_repo rq) w of
              (Inl e, w1) \<Rightarrow> (Inl (BAD_REQUEST, e), (st, tasks, w1))
            | (Inr path, w1) \<Rightarrow>
                (case run_service env ''receive-pack'' path (pr_body rq) w1 of
                   (Inl err, w2) \<Rightarrow> (Inl err, (st, tasks, w2))
                 | (Inr resp, w2) \<Rightarrow>
                     (let repo_clean = trim_end_matches ''.git'' (pr_repo rq);
                          st' = foldl (\<lambda>st r. record_push (utc_now env w2) repo_clean (rc_refname r) st) st refs
                      in (Inr resp,
                          (st', tasks @ [\<lparr>ht_repo = repo_clean, ht_agent = pr_agent rq, ht_refs = refs\<rparr>], w2)))))))"

section \<open>Post-receive hook\<close>

definition branch_task_id :: "string \<Rightarrow> string option" where
  "branch_task_id branch =
     (case split_char (CHR ''/'') branch of
        [a, _, task_id] \<Rightarrow> if a = ''task'' \<and> \<not> is_blank task_id then Some task_id else None
      | _ \<Rightarrow> None)"

definition with_task_id :: "string \<Rightarrow> json \<Rightarrow> json" where
  "with_task_id branch payload =
     (case branch_task_id branch of None \<Rightarrow> payload | Some t \<Rightarrow> json_set ''task_id'' (JStr t) payload)"

text \<open>\<open>first_line (from_utf8_lossy stdout)\<close>, trimmed, and the whole output trimmed.\<close>

definition first_line :: "string \<Rightarrow> string" where
  "first_line s = (case str_lines s of [] \<Rightarrow> [] | l # _ \<Rightarrow> l)"

definition post_webhook :: "'w git_env \<Rightarrow> app_state \<Rightarrow> string \<Rightarrow> json \<Rightarrow> 'w \<Rightarrow> 'w" where
  "post_webhook env st repo payload w =
     (case webhook_url_for st repo of None \<Rightarrow> w | Some url \<Rightarrow> snd (http_post env url payload w))"

text \<open>A successful command's trimmed output; \<open>None\<close> is the early return with a warning.\<close>

definition git_oid :: "'w git_env \<Rightarrow> string list \<Rightarrow> 'w \<Rightarrow> string option \<times> 'w" where
  "git_oid env args w =
     (case git_cmd env args w of
        (Inr out, w1) \<Rightarrow> (if go_success out then Some (trim (lossy env (go_stdout out))) else None, w1)
      | (Inl e, w1) \<Rightarrow> (None, w1))"

definition merge_payload :: "string \<Rightarrow> string \<Rightarrow> string \<Rightarrow> json" where
  "merge_payload repo branch commit_oid =
     with_task_id branch (JObj [(''message'', JStr (''auto-merged '' @ branch @ '' into main in '' @ repo)),
       (''agent'', JStr ''git-server''), (''event'', JStr ''auto_merge''), (''repo'', JStr repo),
       (''branch'', JStr branch), (''commit'', JStr commit_oid)])"

definition conflict_payload :: "'w git_env \<Rightarrow> string \<Rightarrow> string \<Rightarrow> string list \<Rightarrow> json" where
  "conflict_payload env repo branch files =
     with_task_id branch (JObj [(''message'', JStr (''merge conflict: '' @ branch @ '' in '' @ repo @ '' ''
         @ em_dash @ '' files: '' @ debug_list env files)),
       (''agent'', JStr ''git-server''), (''event'', JStr ''merge_conflict''), (''repo'', JStr repo),
       (''branch'', JStr branch), (''conflicting_files'', JArr (map JStr files))])"

text \<open>Steps 2 to 4 of \<open>auto_merge\<close>: the parents, the merge commit, and moving \<open>main\<close>.\<close>

definition commit_merge ::
  "'w git_env \<Rightarrow> app_state \<Rightarrow> string \<Rightarrow> string \<Rightarrow> string \<Rightarrow> string \<Rightarrow> 'w \<Rightarrow> 'w" where
  "commit_merge env st path repo branch tree_oid w =
     (case git_oid env [''-C'', path, ''rev-parse'', ''refs/heads/main''] w of
        (None, w1) \<Rightarrow> w1
      | (Some main_oid, w1) \<Rightarrow>
          (case git_oid env [''-C'', path, ''rev-parse'', ''refs/heads/'' @ branch] w1 of
             (None, w2) \<Rightarrow> w2
           | (Some branch_oid, w2) \<Rightarrow>
               (case git_oid env [''-C'', path, ''commit-tree'', tree_oid, ''-p'', main_oid, ''-p'', branch_oid,
                                  ''-m'', ''Auto-merge '' @ branch] w2 of
                  (None, w3) \<Rightarrow> w3
                | (Some commit_oid, w3) \<Rightarrow>
                    (case git_cmd env [''-C'', path, ''update-ref'', ''refs/heads/main'', commit_oid, main_oid] w3 of
                       (Inr out, w4) \<Rightarrow>
                         if go_success out
                         then post_webhook env st repo (merge_payload repo branch commit_oid) w4 else w4
                     | (Inl e, w4) \<Rightarrow> w4))))"

definition auto_merge :: "'w git_env \<Rightarrow> app_state \<Rightarrow> string \<Rightarrow> string \<Rightarrow> 'w \<Rightarrow> 'w" where
  "auto_merge env st repo branch w =
     (case repo_path st repo of
        None \<Rightarrow> w
      | Some path \<Rightarrow>
          if \<not> path_exists env path w then w
          else (case git_cmd env [''-C'', path, ''merge-tree'', ''--write-tree'', ''main'', branch] w of
              (Inl e, w1) \<Rightarrow> w1
            | (Inr out, w1) \<Rightarrow>
                (let stdout = lossy env (go_stdout out) in
                 if go_success out
                 then let tree_oid = trim (first_line stdout) in
                      if tree_oid = [] then w1 else commit_merge env st path repo branch tree_oid w1
                 else post_webhook env st repo
                        (conflict_payload env repo branch (filter (\<lambda>l. l \<noteq> []) (drop 1 (str_lines stdout)))) w1)))"

definition push_payload :: "string \<Rightarrow> string \<Rightarrow> string \<Rightarrow> string \<Rightarrow> json" where
  "push_payload repo agent_str branch commit =
     with_task_id branch (JObj [(''message'', JStr (''git push: '' @ agent_str @ '' pushed '' @ branch @ '' to ''
         @ repo @ '' ('' @ take (min 8 (length commit)) commit @ '')'')),
       (''agent'', JStr (''git-server/'' @ agent_str)), (''event'', JStr ''push''), (''repo'', JStr repo),
       (''branch'', JStr branch), (''commit'', JStr commit)])"

text \<open>One reference of a push; \<open>None\<close> is the panic that ends the spawned task, of the slice
  \<open>&r.new[..8.min(len)]\<close> when the cut is inside a character.\<close>

definition on_push_ref ::
  "'w git_env \<Rightarrow> app_state \<Rightarrow> string \<Rightarrow> string \<Rightarrow> ref_command \<Rightarrow> 'w \<Rightarrow> 'w option" where
  "on_push_ref env st repo agent_str r w =
     (let branch = (case strip_prefix ''refs/heads/'' (rc_refname r) of None \<Rightarrow> rc_refname r | Some b \<Rightarrow> b);
          merge = (\<lambda>w. if auto_merge_on st \<and> prefix ''task/'' branch then auto_merge env st repo branch w else w)
      in case webhook_url_for st repo of
           None \<Rightarrow> Some (merge w)
         | Some url \<Rightarrow>
             if \<not> at_char_boundary (rc_new r) (min 8 (length (rc_new r))) then None
             else Some (merge (snd (http_post env url (push_payload repo agent_str branch (rc_new r)) w))))"

fun on_push_refs ::
  "'w git_env \<Rightarrow> app_state \<Rightarrow> string \<Rightarrow> string \<Rightarrow> ref_command list \<Rightarrow> 'w \<Rightarrow> 'w" where
  "on_push_refs env st repo agent_str [] w = w"
| "on_push_refs env st repo agent_str (r # rs) w =
     (case on_push_ref env st repo agent_str r w of
        None \<Rightarrow> w
      | Some w' \<Rightarrow> on_push_refs env st repo agent_str rs w')"

definition on_push :: "'w git_env \<Rightarrow> app_state \<Rightarrow> hook_task \<Rightarrow> 'w \<Rightarrow> 'w" where
  "on_push env st task w =
     on_push_refs env st (ht_repo task)
       (case ht_agent task of None \<Rightarrow> ''orchestrator'' | Some a \<Rightarrow> a) (ht_refs task) w"

section \<open>Expiry\<close>

text \<open>
  \<open>chrono::Duration::hours(expiry_hours as i64)\<close>: the cast wraps, and a duration outside
  \<open>i64\<close> milliseconds panics (\<open>None\<close>).  Instants are nanoseconds.
\<close>

definition expiry_cutoff :: "int \<Rightarrow> u64 \<Rightarrow> int option" where
  "expiry_cutoff now hours =
     (let h = sint hours in
      if \<bar>h * 3600\<bar> \<le> 9223372036854775 then Some (now - h * 3600 * 1000000000) else None)"

definition expired :: "'w git_env \<Rightarrow> int \<Rightarrow> dir_entry \<Rightarrow> bool" where
  "expired env cutoff e =
     (suffix ''.git'' (lossy env (de_name e))
      \<and> (case de_modified e of None \<Rightarrow> False | Some t \<Rightarrow> t < cutoff))"

definition expire_repos :: "'w git_env \<Rightarrow> app_state \<Rightarrow> 'w \<Rightarrow> ((string + unit) \<times> 'w) option" where
  "expire_repos env st w =
     (case read_dir env (repo_root st) w of
        Inl e \<Rightarrow> Some (Inl (''readdir: '' @ e), w)
      | Inr entries \<Rightarrow>
          map_option (\<lambda>cutoff.
            (Inr (), foldl (\<lambda>w e. if expired env cutoff e
                then snd (remove_dir_all env (path_join (repo_root st) (de_name e)) w) else w) w entries))
            (expiry_cutoff (utc_now env w) (expiry_hours st)))"

text \<open>The background task after \<open>n\<close> ticks of its interval; a panic ends it.\<close>

fun expiry_ticks :: "'w git_env \<Rightarrow> app_state \<Rightarrow> nat \<Rightarrow> 'w \<Rightarrow> 'w" where
  "expiry_ticks env st 0 w = w"
| "expiry_ticks env st (Suc n) w =
     (case expire_repos env st w of None \<Rightarrow> w | Some (_, w') \<Rightarrow> expiry_ticks env st n w')"

definition spawn_expiry_task :: "'w git_env \<Rightarrow> app_state \<Rightarrow> nat \<Rightarrow> 'w \<Rightarrow> 'w" where
  "spawn_expiry_task env st n w = (if expiry_hours st = 0 then w else expiry_ticks env st n w)"

section \<open>REST handlers\<close>

definition list_repos :: "'w git_env \<Rightarrow> app_state \<Rightarrow> 'w \<Rightarrow> http_error + string list" where
  "list_repos env st w =
     (case read_dir env (repo_root st) w of
        Inl e \<Rightarrow> Inl (INTERNAL_SERVER_ERROR, ''readdir: '' @ e)
      | Inr entries \<Rightarrow> Inr (filter (suffix ''.git'') (map (\<lambda>e. lossy env (de_name e)) entries)))"

definition create_repo ::
  "'w git_env \<Rightarrow> app_state \<Rightarrow> string \<Rightarrow> 'w \<Rightarrow> (http_error + json) \<times> 'w" where
  "create_repo env st repo w =
     (case ensure_repo env st repo w of
        (Inl e, w1) \<Rightarrow> (Inl (BAD_REQUEST, e), w1)
      | (Inr _, w1) \<Rightarrow>
          (let name = (if suffix ''.git'' repo then repo else repo @ ''.git'')
           in (Inr (JObj [(''name'', JStr name), (''created'', JBool True)]), w1)))"

definition existing_repo :: "'w git_env \<Rightarrow> app_state \<Rightarrow> string \<Rightarrow> 'w \<Rightarrow> http_error + string" where
  "existing_repo env st repo w =
     (case repo_path st repo of
        None \<Rightarrow> Inl (BAD_REQUEST, ''invalid repo name'')
      | Some path \<Rightarrow> if \<not> path_exists env path w then Inl (NOT_FOUND, ''repo not found'') else Inr path)"

definition delete_repo ::
  "'w git_env \<Rightarrow> app_state \<Rightarrow> string \<Rightarrow> 'w \<Rightarrow> (http_error + unit) \<times> 'w" where
  "delete_repo env st repo w =
     (case existing_repo env st repo w of
        Inl err \<Rightarrow> (Inl err, w)
      | Inr path \<Rightarrow>
          (case remove_dir_all env path w of
             (Inl e, w1) \<Rightarrow> (Inl (INTERNAL_SERVER_ERROR, ''delete: '' @ e), w1)
           | (Inr _, w1) \<Rightarrow> (Inr (), w1)))"

definition ahead_behind :: "'w git_env \<Rightarrow> string \<Rightarrow> string \<Rightarrow> 'w \<Rightarrow> (nat \<times> nat) \<times> 'w" where
  "ahead_behind env path branch w =
     (case git_cmd env [''-C'', path, ''rev-list'', ''--left-right'', ''--count'', branch @ ''...main''] w of
        (Inr out, w1) \<Rightarrow>
          (if go_success out
           then case split_char (CHR 0x09) (trim (lossy env (go_stdout out))) of
                  [a, b] \<Rightarrow> ((case parse_u32 a of None \<Rightarrow> 0 | Some n \<Rightarrow> n,
                              case parse_u32 b of None \<Rightarrow> 0 | Some n \<Rightarrow> n), w1)
                | _ \<Rightarrow> ((0, 0), w1)
           else ((0, 0), w1))
      | (Inl _, w1) \<Rightarrow> ((0, 0), w1))"

record branch_info =
  bi_name :: string
  bi_ahead :: nat
  bi_behind :: nat
  bi_last_commit :: string

fun activity_lines :: "'w git_env \<Rightarrow> string \<Rightarrow> string list \<Rightarrow> 'w \<Rightarrow> branch_info list \<times> 'w" where
  "activity_lines env path [] w = ([], w)"
| "activity_lines env path (line # lines) w =
     (let (name, last_commit) = (case split_once (CHR 0x09) line of None \<Rightarrow> (line, []) | Some nl \<Rightarrow> nl);
          ((ahead, behind), w1) = (if name \<noteq> ''main'' then ahead_behind env path name w else ((0, 0), w));
          (rest, w2) = activity_lines env path lines w1
      in (\<lparr>bi_name = name, bi_ahead = ahead, bi_behind = behind, bi_last_commit = last_commit\<rparr> # rest, w2))"

definition repo_activity ::
  "'w git_env \<Rightarrow> app_state \<Rightarrow> string \<Rightarrow> 'w \<Rightarrow> (http_error + string \<times> branch_info list) \<times> 'w" where
  "repo_activity env st repo w =
     (case existing_repo env st repo w of
        Inl err \<Rightarrow> (Inl err, w)
      | Inr path \<Rightarrow>
          (case git_cmd env [''-C'', path, ''for-each-ref'',
               ''--format=%(refname:short)'' @ [CHR 0x09] @ ''%(objectname:short) %(creatordate:iso-strict) %(subject)'',
               ''refs/heads/''] w of
             (Inl e, w1) \<Rightarrow> (Inl (INTERNAL_SERVER_ERROR, ''git for-each-ref: '' @ e), w1)
           | (Inr out, w1) \<Rightarrow>
               (case activity_lines env path (filter (\<lambda>l. l \<noteq> []) (str_lines (lossy env (go_stdout out)))) w1 of
                  (branches, w2) \<Rightarrow> (Inr (trim_end_matches ''.git'' repo, branches), w2))))"

definition branch_diff ::
  "'w git_env \<Rightarrow> app_state \<Rightarrow> string \<Rightarrow> string \<Rightarrow> 'w \<Rightarrow> (http_error + response) \<times> 'w" where
  "branch_diff env st repo branch w =
     (case existing_repo env st repo w of
        Inl err \<Rightarrow> (Inl err, w)
      | Inr path \<Rightarrow>
          (case git_cmd env [''-C'', path, ''diff'', ''main...'' @ branch] w of
             (Inl e, w1) \<Rightarrow> (Inl (INTERNAL_SERVER_ERROR, ''git diff: '' @ e), w1)
           | (Inr out, w1) \<Rightarrow>
               (if \<not> go_success out then Inl (BAD_REQUEST, lossy env (go_stderr out))
                else Inr \<lparr>rs_content_type = ''text/plain; charset=utf-8'', rs_body = go_stdout out\<rparr>, w1)))"

record conflict_info =
  ci_repo :: string
  ci_base :: string
  ci_branch :: string
  ci_conflicting_files :: "string list"
  ci_diff_branch :: string
  ci_diff_main :: string

definition git_text :: "'w git_env \<Rightarrow> string list \<Rightarrow> 'w \<Rightarrow> string \<times> 'w" where
  "git_text env args w =
     (case git_cmd env args w of (Inl _, w1) \<Rightarrow> ([], w1) | (Inr out, w1) \<Rightarrow> (lossy env (go_stdout out), w1))"

definition branch_conflicts ::
  "'w git_env \<Rightarrow> app_state \<Rightarrow> string \<Rightarrow> string \<Rightarrow> 'w \<Rightarrow> (http_error + conflict_info) \<times> 'w" where
  "branch_conflicts env st repo branch w =
     (case existing_repo env st repo w of
        Inl err \<Rightarrow> (Inl err, w)
      | Inr path \<Rightarrow>
          (case git_cmd env [''-C'', path, ''merge-tree'', ''--write-tree'', ''--name-only'', ''main'', branch] w of
             (Inl e, w1) \<Rightarrow> (Inl (INTERNAL_SERVER_ERROR, ''merge-tree: '' @ e), w1)
           | (Inr mt, w1) \<Rightarrow>
               (let files = (if go_success mt then []
                      else filter (\<lambda>l. l \<noteq> []) (drop 1 (str_lines (lossy env (go_stdout mt)))));
                    (diff_branch, w2) = git_text env [''-C'', path, ''diff'', ''main...'' @ branch] w1;
                    (diff_main, w3) = git_text env [''-C'', path, ''diff'', branch @ ''...main''] w2
                in (Inr \<lparr>ci_repo = trim_end_matches ''.git'' repo, ci_base = ''main'', ci_branch = branch,
                      ci_conflicting_files = files, ci_diff_branch = diff_branch, ci_diff_main = diff_main\<rparr>, w3))))"

definition register_webhook :: "string \<Rightarrow> json \<Rightarrow> app_state \<Rightarrow> (http_error + json) \<times> app_state" where
  "register_webhook repo body st =
     (case json_str (json_get ''url'' body) of
        None \<Rightarrow> (Inl (BAD_REQUEST, ''missing '' @ quoted ''url'' @ '' field''), st)
      | Some url \<Rightarrow>
          if is_blank url then (Inl (BAD_REQUEST, ''url must not be empty''), st)
          else let name = trim_end_matches ''.git'' repo
               in (Inr (JObj [(''repo'', JStr name), (''webhook_url'', JStr url), (''registered'', JBool True)]),
                   state_register_webhook name url st))"

end
