(* ===== verification/Git_Server_Props.thy ===== *)
theory Git_Server_Props
  imports Git_Server
begin

text \<open>
  What the git server guarantees, and where its push rule stops short: the round trip of packet
  lines, confinement of repository paths and of agent pushes, the automatic merge, expiry.
\<close>

section \<open>Packet lines\<close>

lemma parse_ref_commands_flush: "parse_ref_commands (''0000'' @ r) = []"
proof -
  have "pkt_len ''0000'' = 0" by code_simp
  then show ?thesis by (subst parse_ref_commands.simps) simp
qed

lemma parse_ref_commands_pkt:
  assumes "length d < 65532"
  shows "parse_ref_commands (pkt_line d @ r)
    = (case parse_ref_line d of None \<Rightarrow> [] | Some c \<Rightarrow> [c]) @ parse_ref_commands r"
proof -
  let ?h = "pad_left (CHR ''0'') 4 (show_hex (length d + 4))"
  have h: "length ?h = 4" "parse_hex ?h = Some (length d + 4)" "list_all is_ascii ?h"
    using hex4 [of "length d + 4"] assms by auto
  then have len: "pkt_len ?h = length d + 4" by (simp add: pkt_len_def utf8_ok_ascii)
  have body: "pkt_line d @ r = ?h @ d @ r" by (simp add: pkt_line_def)
  have parts: "take 4 (?h @ d @ r) = ?h" "drop 4 (?h @ d @ r) = d @ r" "drop (length d + 4) (?h @ d @ r) = r"
    using h(1) by auto
  show ?thesis unfolding body
    by (subst parse_ref_commands.simps) (simp only: parts len Let_def, simp add: h(1))
qed

definition plain_token :: "string \<Rightarrow> bool" where
  "plain_token s = (s \<noteq> [] \<and> list_all (\<lambda>c. 32 < (of_char c :: nat) \<and> (of_char c :: nat) < 127) s)"

definition ref_payload :: "ref_command \<times> string \<Rightarrow> string" where
  "ref_payload rc = (case rc of (r, caps) \<Rightarrow>
     rc_old r @ '' '' @ rc_new r @ '' '' @ rc_refname r @ (if caps = [] then [] else CHR 0x00 # caps))"

definition plain_command :: "ref_command \<times> string \<Rightarrow> bool" where
  "plain_command rc = (plain_token (rc_old (fst rc)) \<and> plain_token (rc_new (fst rc))
     \<and> plain_token (rc_refname (fst rc)) \<and> length (ref_payload rc) < 65532)"

lemma plain_token_ascii: "plain_token s \<Longrightarrow> list_all is_ascii s"
  by (auto simp: plain_token_def is_ascii_def list_all_iff)

lemma plain_token_free: "plain_token s \<Longrightarrow> CHR '' '' \<notin> set s \<and> CHR 0x00 \<notin> set s"
  by (auto simp: plain_token_def list_all_iff)

lemma space_seqs_ends:
  "w \<in> set space_seqs \<Longrightarrow> (of_char (hd w) :: nat) \<le> 32 \<or> 127 \<le> (of_char (hd w) :: nat)"
  "w \<in> set space_seqs \<Longrightarrow> (of_char (last w) :: nat) \<le> 32 \<or> 127 \<le> (of_char (last w) :: nat)"
proof -
  have "list_all (\<lambda>w. ((of_char (hd w) :: nat) \<le> 32 \<or> 127 \<le> (of_char (hd w) :: nat))
    \<and> ((of_char (last w) :: nat) \<le> 32 \<or> 127 \<le> (of_char (last w) :: nat))) space_seqs" by code_simp
  then show "w \<in> set space_seqs \<Longrightarrow> (of_char (hd w) :: nat) \<le> 32 \<or> 127 \<le> (of_char (hd w) :: nat)"
    "w \<in> set space_seqs \<Longrightarrow> (of_char (last w) :: nat) \<le> 32 \<or> 127 \<le> (of_char (last w) :: nat)"
    by (auto simp: list_all_iff)
qed

lemma trim_visible:
  assumes "plain_token a" "plain_token b"
  shows "trim (a @ m @ b) = a @ m @ b"
proof (rule trim_id)
  have a: "a \<noteq> []" "32 < (of_char (hd a) :: nat)" "(of_char (hd a) :: nat) < 127"
    using assms(1) by (auto simp: plain_token_def list_all_iff)
  have b: "b \<noteq> []" "32 < (of_char (last b) :: nat)" "(of_char (last b) :: nat) < 127"
    using assms(2) by (auto simp: plain_token_def list_all_iff)
  show "space_at (a @ m @ b) = None" unfolding space_at_None
  proof (intro ballI notI)
    fix w assume w: "w \<in> set space_seqs" "prefix w (a @ m @ b)"
    then have "hd w = hd a" using space_seqs_nonempty [OF w(1)] a(1)
      by (metis append_is_Nil_conv hd_append2 prefix_def)
    with space_seqs_ends(1) [OF w(1)] a show False by simp
  qed
  show "space_before (a @ m @ b) = None" unfolding space_before_None
  proof (intro ballI notI)
    fix w assume w: "w \<in> set space_seqs" "suffix w (a @ m @ b)"
    then have "last w = last b" using space_seqs_nonempty [OF w(1)] b(1)
      by (metis append_is_Nil_conv last_appendR suffix_def)
    with space_seqs_ends(2) [OF w(1)] b show False by simp
  qed
qed

lemma parse_ref_line_payload:
  assumes "plain_command rc"
  shows "parse_ref_line (ref_payload rc) = Some (fst rc)"
proof -
  obtain r caps where rc: "rc = (r, caps)" by (cases rc)
  let ?line = "rc_old r @ '' '' @ rc_new r @ '' '' @ rc_refname r"
  have tok: "plain_token (rc_old r)" "plain_token (rc_new r)" "plain_token (rc_refname r)"
    using assms by (simp_all add: plain_command_def rc)
  have free: "CHR 0x00 \<notin> set ?line" using tok plain_token_free by auto
  have cut: "takeWhile (\<lambda>b. b \<noteq> CHR 0x00) (ref_payload rc) = ?line"
  proof (cases "caps = []")
    case True
    then show ?thesis using free by (auto simp: rc ref_payload_def takeWhile_eq_all_conv)
  next
    case False
    have "takeWhile (\<lambda>b. b \<noteq> CHR 0x00) (?line @ CHR 0x00 # caps) = ?line"
      using free by (subst takeWhile_append2) auto
    with False show ?thesis by (simp add: rc ref_payload_def)
  qed
  have "list_all is_ascii ?line" using tok plain_token_ascii by (auto simp: is_ascii_def)
  moreover have "trim ?line = ?line"
    using trim_visible [OF tok(1) tok(3), of "'' '' @ rc_new r @ '' ''"] by simp
  moreover have "split_three (CHR '' '') ?line = Some (rc_old r, rc_new r, rc_refname r)"
    using tok plain_token_free split_once_append [of "CHR '' ''" "rc_old r"]
      split_once_append [of "CHR '' ''" "rc_new r"] by (simp add: split_three_def)
  ultimately show ?thesis unfolding parse_ref_line_def cut
    by (simp add: utf8_ok_ascii rc)
qed

text \<open>(C28) Reading the reference commands of a push gives back the commands that were sent, in
  order and with their capabilities cut off, for any number of packet lines before the flush
  packet, and whatever pack data follows.\<close>

theorem ref_commands_roundtrip:
  assumes "list_all plain_command cmds"
  shows "parse_ref_commands (concat (map (\<lambda>rc. pkt_line (ref_payload rc)) cmds) @ ''0000'' @ pack)
    = map fst cmds"
  using assms
proof (induction cmds)
  case Nil
  then show ?case using parse_ref_commands_flush [of pack] by simp
next
  case (Cons rc cmds)
  then have "length (ref_payload rc) < 65532" "parse_ref_line (ref_payload rc) = Some (fst rc)"
    by (simp_all add: plain_command_def parse_ref_line_payload)
  then show ?case using Cons by (simp add: parse_ref_commands_pkt)
qed

definition demo_cmd :: "string \<Rightarrow> ref_command" where
  "demo_cmd name = \<lparr>rc_old = replicate 40 (CHR ''0''), rc_new = ''0a1b2c3d'', rc_refname = name\<rparr>"

theorem ref_commands_roundtrip_witness:
  "parse_ref_commands (pkt_line (ref_payload (demo_cmd ''refs/heads/task/w1'', '' report-status''))
      @ pkt_line (ref_payload (demo_cmd ''refs/heads/task/w1/x'', [])) @ ''0000'' @ ''PACK'')
    = [demo_cmd ''refs/heads/task/w1'', demo_cmd ''refs/heads/task/w1/x'']"
proof -
  have "list_all plain_command [(demo_cmd ''refs/heads/task/w1'', '' report-status''),
      (demo_cmd ''refs/heads/task/w1/x'', [])]" by code_simp
  from ref_commands_roundtrip [OF this, of "''PACK''"] show ?thesis by simp
qed

section \<open>Repository paths\<close>

lemma dropWhile_eq_free: "c \<notin> set s \<Longrightarrow> dropWhile (\<lambda>d. d = c) s = s"
  by (cases s) auto

lemma trim_matches_free: "c \<notin> set s \<Longrightarrow> trim_matches c s = s"
  by (simp add: trim_matches_def dropWhile_eq_free)

text \<open>A repository name from a request is never resolved outside the repository root: the
  path is the root joined with one name that has no slash and ends in \<open>.git\<close>, so it is neither
  a dot name nor a nested path.  A name without slash and double dot gets the expected path.\<close>

theorem repo_path_confined:
  "(\<forall>p. repo_path st repo = Some p \<longrightarrow>
      (\<exists>name. p = path_join (repo_root st) name \<and> CHR ''/'' \<notin> set name \<and> suffix ''.git'' name
         \<and> name \<noteq> ''.'' \<and> name \<noteq> ''..''))
   \<and> (repo \<noteq> [] \<longrightarrow> CHR ''/'' \<notin> set repo \<longrightarrow> \<not> contains_sub ''..'' repo \<longrightarrow> \<not> suffix ''.git'' repo \<longrightarrow>
      repo_path st repo = Some (path_join (repo_root st) (repo @ ''.git'')))"
proof (intro conjI allI impI)
  fix p assume "repo_path st repo = Some p"
  then obtain name where p: "p = path_join (repo_root st) name" and name: "repo_name repo = Some name"
    by (auto simp: repo_path_def)
  have "CHR ''/'' \<notin> set name" "suffix ''.git'' name"
    using name by (auto simp: repo_name_def Let_def suffix_def split: if_splits)
  moreover from this(2) have "name \<noteq> ''.''" "name \<noteq> ''..''" by (auto simp: suffix_def)
  ultimately show "\<exists>name. p = path_join (repo_root st) name \<and> CHR ''/'' \<notin> set name \<and> suffix ''.git'' name
      \<and> name \<noteq> ''.'' \<and> name \<noteq> ''..''" using p by blast
next
  assume "repo \<noteq> []" "CHR ''/'' \<notin> set repo" "\<not> contains_sub ''..'' repo" "\<not> suffix ''.git'' repo"
  then show "repo_path st repo = Some (path_join (repo_root st) (repo @ ''.git''))"
    by (simp add: repo_path_def repo_name_def trim_matches_free replace_str_def split_str_none)
qed

theorem repo_path_confined_witness:
  "repo_path (app_state_new ''/repos'' None 24 False) ''team'' = Some ''/repos/team.git''
   \<and> repo_path (app_state_new ''/repos'' None 24 False) ''../etc/passwd'' = None"
proof
  have "\<not> contains_sub ''..'' ''team''" "\<not> suffix ''.git'' ''team''"
    "path_join ''/repos'' ''team.git'' = ''/repos/team.git''" by code_simp+
  then show "repo_path (app_state_new ''/repos'' None 24 False) ''team'' = Some ''/repos/team.git''"
    using repo_path_confined [of "app_state_new ''/repos'' None 24 False" "''team''"]
    by (simp add: app_state_new_def)
  show "repo_path (app_state_new ''/repos'' None 24 False) ''../etc/passwd'' = None" by code_simp
qed

text \<open>The push handler hands the name without any \<open>.git\<close> ending to the hook, which resolves it
  again: a push to \<open>x.git.git\<close> is merged, and announced, in the repository \<open>x.git\<close>.\<close>

lemma hook_repo_differs:
  "repo_path st ''x.git.git'' = Some (path_join (repo_root st) ''x.git.git'')
   \<and> repo_path st (trim_end_matches ''.git'' ''x.git.git'') = Some (path_join (repo_root st) ''x.git'')"
proof -
  have "repo_name ''x.git.git'' = Some ''x.git.git''" by code_simp
  moreover have "repo_name (trim_end_matches ''.git'' ''x.git.git'') = Some ''x.git''" by code_simp
  ultimately show ?thesis by (simp add: repo_path_def)
qed

section \<open>Pushes of agents\<close>

interpretation push: guarded_handler push_guard "\<lambda>msg. Inl (FORBIDDEN, msg)" "receive_pack env"
  for env :: "'w git_env"
  by unfold_locales (simp add: receive_pack_def split: prod.split)

lemma acl_check_iff: "ok (acl_check refs a) \<longleftrightarrow> (\<forall>r\<in>set refs. prefix (acl_prefix a) (rc_refname r))"
  by (induction refs) (auto simp: ok_def)

lemma acl_check_Inr: "acl_check refs a = Inr () \<longleftrightarrow> (\<forall>r\<in>set refs. prefix (acl_prefix a) (rc_refname r))"
  using acl_check_iff [of refs a] by (cases "acl_check refs a") (auto simp: ok_def)

lemma push_guard_None:
  "pr_agent rq = Some a \<Longrightarrow> push_guard rq = None \<longleftrightarrow> acl_check (parse_ref_commands (pr_body rq)) a = Inr ()"
  by (cases "acl_check (parse_ref_commands (pr_body rq)) a") (auto simp: push_guard_def)

definition pushed_branches :: "app_state \<Rightarrow> string \<Rightarrow> string set" where
  "pushed_branches st repo = (case last_push st repo of None \<Rightarrow> {} | Some m \<Rightarrow> dom m)"

lemma record_pushes:
  "pushed_branches (foldl (\<lambda>st r. record_push now repo (rc_refname r) st) st refs) repo'
    = (if repo' = repo then rc_refname ` set refs else {}) \<union> pushed_branches st repo'"
proof (induction refs arbitrary: st)
  case (Cons r refs)
  have "pushed_branches (record_push now repo (rc_refname r) st) repo'
      = (if repo' = repo then {rc_refname r} else {}) \<union> pushed_branches st repo'"
    by (auto simp: pushed_branches_def record_push_def split: option.splits)
  with Cons show ?case by auto
qed simp

text \<open>(C1) A push that names an agent stays inside that agent's branch prefix: it is answered
  \<open>FORBIDDEN\<close> and neither the repositories nor the server's tables change, or every reference
  it records and every reference handed to the hook starts with the agent's prefix.\<close>

theorem agent_push_confined:
  assumes "pr_agent rq = Some a" and "receive_pack env rq (st, tasks, w) = (res, (st', tasks', w'))"
  shows "(\<exists>msg. res = Inl (FORBIDDEN, msg)) \<and> (st', tasks', w') = (st, tasks, w)
    \<or> (\<forall>repo. \<forall>b \<in> pushed_branches st' repo. b \<in> pushed_branches st repo \<or> prefix (acl_prefix a) b)
      \<and> (\<forall>t \<in> set tasks'. t \<in> set tasks \<or> list_all (\<lambda>r. prefix (acl_prefix a) (rc_refname r)) (ht_refs t))"
proof (cases "push_guard rq")
  case None
  let ?refs = "parse_ref_commands (pr_body rq)"
  have refs: "\<forall>r\<in>set ?refs. prefix (acl_prefix a) (rc_refname r)"
    using None push_guard_None [OF assms(1)] acl_check_Inr by blast
  have "(st', tasks') = (st, tasks)
      \<or> (\<exists>repo now. st' = foldl (\<lambda>st r. record_push now repo (rc_refname r) st) st ?refs
          \<and> tasks' = tasks @ [\<lparr>ht_repo = repo, ht_agent = Some a, ht_refs = ?refs\<rparr>])"
    using assms None by (auto simp: receive_pack_def Let_def split: prod.splits sum.splits)
  moreover have "rc_refname ` set ?refs \<subseteq> {b. prefix (acl_prefix a) b}" using refs by auto
  ultimately show ?thesis using refs
    by (elim disjE exE conjE) (simp_all add: record_pushes list_all_iff subset_iff, blast)
next
  case (Some msg)
  then show ?thesis using assms(2) push.refused [of rq msg env "(st, tasks, w)"] by simp
qed

definition idle_env :: "nat git_env" where
  "idle_env = \<lparr>git_cmd = (\<lambda>_ w. (Inr \<lparr>go_success = True, go_stdout = [], go_stderr = []\<rparr>, Suc w)),
     git_pipe = (\<lambda>_ _ w. (Finished \<lparr>go_success = True, go_stdout = [], go_stderr = []\<rparr>, Suc w)),
     path_exists = (\<lambda>_ _. True), read_dir = (\<lambda>_ _. Inr []), remove_dir_all = (\<lambda>_ w. (Inr (), Suc w)),
     http_post = (\<lambda>_ _ w. (Inr 200, Suc w)), utc_now = (\<lambda>_. 0), lossy = (\<lambda>s. s), debug_list = concat\<rparr>"

definition demo_push :: "string \<Rightarrow> push_request" where
  "demo_push name = \<lparr>pr_repo = ''team'', pr_agent_header = Some ''w1'',
     pr_body = pkt_line (ref_payload (demo_cmd name, [])) @ ''0000''\<rparr>"

theorem agent_push_confined_witness:
  "list_all (\<lambda>t. list_all (\<lambda>r. prefix (acl_prefix ''w1'') (rc_refname r)) (ht_refs t))
    (fst (snd (snd (receive_pack idle_env (demo_push ''refs/heads/task/w1/x'')
       (app_state_new ''/repos'' None 24 False, [], 0)))))"
proof -
  let ?s = "(app_state_new ''/repos'' None 24 False, [], 0)"
  let ?rq = "demo_push ''refs/heads/task/w1/x''"
  obtain res st' tasks' w' where r: "receive_pack idle_env ?rq ?s = (res, (st', tasks', w'))"
    by (metis surj_pair)
  have "pr_agent ?rq = Some ''w1''" by code_simp
  from agent_push_confined [OF this r] show ?thesis by (auto simp: r list_all_iff)
qed

text \<open>Refused pushes leave no trace: what a sequence of pushes does to the server and its
  repositories is what the admitted ones among them do, in their order.\<close>

theorem refused_pushes_change_nothing:
  "foldl (\<lambda>s rq. snd (receive_pack env rq s)) s rqs
    = foldl (\<lambda>s rq. snd (receive_pack env rq s)) s (filter (\<lambda>rq. push_guard rq = None) rqs)"
proof -
  have "push.admitted = (\<lambda>rq. push_guard rq = None)" by (rule ext) (simp add: push.admitted_def)
  then show ?thesis using push.serve_admitted [of env rqs s] by (simp add: push.serve_def)
qed

text \<open>The rule compares prefixes without a separator: whatever an agent may push, every agent
  whose name is a prefix of that agent's name may push as well, so \<open>worker-1\<close> can rewrite the
  branches of \<open>worker-10\<close>.\<close>

theorem acl_admits_longer_names:
  assumes "acl_check refs (agent_name @ rest) = Inr ()"
  shows "acl_check refs agent_name = Inr ()"
  using assms unfolding acl_check_Inr acl_prefix_def
  by (metis append_assoc append_prefixD)

theorem acl_admits_longer_names_witness:
  "acl_check [demo_cmd ''refs/heads/task/worker-10/feature''] ''worker-1'' = Inr ()"
proof (rule acl_admits_longer_names [where rest = "''0''"])
  show "acl_check [demo_cmd ''refs/heads/task/worker-10/feature''] (''worker-1'' @ ''0'') = Inr ()"
    by code_simp
qed

text \<open>(C38) A command line that is not valid UTF-8 never reaches the rule, which admits the push,
  while the body goes to \<open>git receive-pack\<close> unchanged: an agent can push to a reference of any
  prefix whose name contains such a byte.\<close>

theorem acl_skips_invalid_utf8:
  assumes "\<not> utf8_ok (takeWhile (\<lambda>b. b \<noteq> CHR 0x00) d)" and "length d < 65532"
    and "pr_body rq = pkt_line d @ ''0000'' @ pack"
  shows "push_guard rq = None"
proof -
  have "parse_ref_commands (pkt_line d @ ''0000'' @ pack) = []"
    using assms(1) by (simp add: parse_ref_commands_pkt [OF assms(2)] parse_ref_line_def
        parse_ref_commands_flush [simplified] Let_def)
  then have "parse_ref_commands (pr_body rq) = []" by (simp only: assms(3))
  then show ?thesis by (simp add: push_guard_def split: option.split)
qed

theorem acl_skips_invalid_utf8_witness:
  "push_guard \<lparr>pr_repo = ''team'', pr_agent_header = Some ''w1'',
     pr_body = pkt_line (''0 1 refs/heads/release-'' @ [CHR 0xFF]) @ ''0000'' @ ''PACK''\<rparr> = None"
proof (rule acl_skips_invalid_utf8)
  show "\<not> utf8_ok (takeWhile (\<lambda>b. b \<noteq> CHR 0x00) (''0 1 refs/heads/release-'' @ [CHR 0xFF]))" by code_simp
qed simp_all

definition with_status :: "bool \<Rightarrow> 'w git_env \<Rightarrow> 'w git_env" where
  "with_status b env = env\<lparr>git_pipe := (\<lambda>args input w.
     case git_pipe env args input w of
       (Finished out, w1) \<Rightarrow> (Finished (out\<lparr>go_success := b\<rparr>), w1)
     | r \<Rightarrow> r)\<rparr>"

lemma with_status_simps [simp]:
  "git_cmd (with_status b env) = git_cmd env" "path_exists (with_status b env) = path_exists env"
  "lossy (with_status b env) = lossy env" "utc_now (with_status b env) = utc_now env"
  by (simp_all add: with_status_def)

text \<open>The push handler does not look at git's exit status: whether \<open>git receive-pack\<close>
  accepted or rejected the push, the same references are recorded and the same hook (webhook
  and automatic merge) is spawned.\<close>

theorem push_ignores_exit_status:
  "receive_pack (with_status b env) rq s = receive_pack env rq s"
proof -
  have "ensure_repo (with_status b env) st repo w = ensure_repo env st repo w" for st repo w
    by (simp only: ensure_repo_def with_status_simps)
  moreover have "run_service (with_status b env) service path input w = run_service env service path input w"
    for service path input w
    by (auto simp: run_service_def with_status_def split: prod.split pipe_result.split)
  ultimately show ?thesis by (simp only: receive_pack_def with_status_simps)
qed

section \<open>Automatic merge\<close>










section \<open>Expiry\<close>

lemma uint_u64_less: "uint (h :: u64) < 2 ^ 64"
  using unsigned_less [of h] by simp

lemma sint_small: "uint (h :: u64) < 2 ^ 63 \<Longrightarrow> sint h = uint h"
  using uint_ge_0 [of h] by (simp add: sint_uint signed_take_bit_eq_take_bit_shift take_bit_int_eq_self)

lemma sint_large: "2 ^ 63 \<le> uint (h :: u64) \<Longrightarrow> sint h = uint h - 2 ^ 64"
proof -
  assume h: "2 ^ 63 \<le> uint h"
  have lt: "uint h < 2 ^ 64" by (rule uint_u64_less)
  have "take_bit 64 (uint h + 2 ^ 63) = (uint h + 2 ^ 63) mod 2 ^ 64" by (simp add: take_bit_eq_mod)
  also have "\<dots> = (uint h + 2 ^ 63 - 2 ^ 64) mod 2 ^ 64" by (simp only: minus_mod_self2)
  also have "\<dots> = uint h + 2 ^ 63 - 2 ^ 64" using h lt by (intro mod_pos_pos_trivial) simp_all
  finally show ?thesis by (simp add: sint_uint signed_take_bit_eq_take_bit_shift)
qed

lemma foldl_if_filter: "foldl (\<lambda>w e. if P e then f w e else w) w es = foldl f w (filter P es)"
  by (induction es arbitrary: w) auto

text \<open>With an expiry of at most 2562047788015 hours, a tick removes exactly the repositories
  (directories ending in \<open>.git\<close>) whose last modification is more than that many hours ago,
  and keeps those whose modification time is unknown.\<close>

theorem expiry_removes_idle:
  assumes "uint (expiry_hours st) \<le> 2562047788015" and "read_dir env (repo_root st) w = Inr entries"
  shows "expire_repos env st w = Some (Inr (),
    foldl (\<lambda>w e. snd (remove_dir_all env (path_join (repo_root st) (de_name e)) w)) w
      (filter (\<lambda>e. suffix ''.git'' (lossy env (de_name e)) \<and>
         (\<exists>t. de_modified e = Some t \<and> uint (expiry_hours st) * 3600 * 1000000000 < utc_now env w - t)) entries))"
proof -
  let ?h = "uint (expiry_hours st)"
  have "sint (expiry_hours st) = ?h" using assms(1) by (intro sint_small) simp
  then have "expiry_cutoff (utc_now env w) (expiry_hours st) = Some (utc_now env w - ?h * 3600 * 1000000000)"
    using assms(1) by (simp add: expiry_cutoff_def)
  moreover have "expired env (utc_now env w - ?h * 3600 * 1000000000) = (\<lambda>e. suffix ''.git'' (lossy env (de_name e)) \<and>
         (\<exists>t. de_modified e = Some t \<and> ?h * 3600 * 1000000000 < utc_now env w - t))"
    by (auto simp: expired_def fun_eq_iff split: option.split)
  ultimately show ?thesis using assms(2)
    by (simp add: expire_repos_def foldl_if_filter)
qed

definition dir_env :: "string list git_env" where
  "dir_env = \<lparr>git_cmd = (\<lambda>_ w. (Inl [], w)), git_pipe = (\<lambda>_ _ w. (SpawnFailed [], w)), path_exists = (\<lambda>_ _. True),
     read_dir = (\<lambda>_ _. Inr [\<lparr>de_name = ''old.git'', de_modified = Some 0\<rparr>,
       \<lparr>de_name = ''new.git'', de_modified = Some 90000000000000\<rparr>, \<lparr>de_name = ''tmp'', de_modified = Some 0\<rparr>]),
     remove_dir_all = (\<lambda>p w. (Inr (), w @ [p])), http_post = (\<lambda>_ _ w. (Inr 200, w)),
     utc_now = (\<lambda>_. 90000000000000), lossy = (\<lambda>s. s), debug_list = concat\<rparr>"

theorem expiry_removes_idle_witness:
  "expire_repos dir_env (app_state_new ''/repos'' None 24 False) [] = Some (Inr (), [''/repos/old.git''])"
proof -
  let ?st = "app_state_new ''/repos'' None 24 False"
  have "uint (expiry_hours ?st) \<le> 2562047788015" by (simp add: app_state_new_def)
  from expiry_removes_idle [OF this, of dir_env "[]" "[\<lparr>de_name = ''old.git'', de_modified = Some 0\<rparr>,
       \<lparr>de_name = ''new.git'', de_modified = Some 90000000000000\<rparr>, \<lparr>de_name = ''tmp'', de_modified = Some 0\<rparr>]"]
  show ?thesis by (simp add: dir_env_def app_state_new_def path_join_def suffix_to_prefix)
qed

text \<open>An expiry near the top of \<open>u64\<close>, meant as never, becomes a negative duration: the cutoff lies
  in the future and every repository with a past modification time is removed.\<close>

lemma expiry_wraps:
  assumes "2 ^ 64 - 2562047788015 \<le> uint (expiry_hours st)" and "read_dir env (repo_root st) w = Inr entries"
    and "\<forall>e\<in>set entries. \<exists>t \<le> utc_now env w. de_modified e = Some t"
  shows "expire_repos env st w = Some (Inr (),
    foldl (\<lambda>w e. snd (remove_dir_all env (path_join (repo_root st) (de_name e)) w)) w
      (filter (\<lambda>e. suffix ''.git'' (lossy env (de_name e))) entries))"
proof -
  let ?h = "uint (expiry_hours st)"
  have lt: "?h < 2 ^ 64" by (rule uint_u64_less)
  have "sint (expiry_hours st) = ?h - 2 ^ 64" using assms(1) by (intro sint_large) simp
  then have cut: "expiry_cutoff (utc_now env w) (expiry_hours st) = Some (utc_now env w - (?h - 2 ^ 64) * 3600 * 1000000000)"
    using assms(1) lt by (simp add: expiry_cutoff_def)
  have "filter (expired env (utc_now env w - (?h - 2 ^ 64) * 3600 * 1000000000)) entries
      = filter (\<lambda>e. suffix ''.git'' (lossy env (de_name e))) entries"
    using assms(3) lt by (intro filter_cong) (auto simp: expired_def)
  then show ?thesis using assms(2) cut by (simp add: expire_repos_def foldl_if_filter)
qed

end
