(* ===== verification/Session.thy ===== *)
theory Session
  imports Encoding Interfaces
begin

text \<open>
  Sessions and their JSONL transcripts (\<open>session/mod.rs\<close>): the transcript events, the files of
  the state directory and every operation of \<open>SessionManager\<close>, the detection of interrupted
  runs, and the two functions that rebuild the conversation from a transcript.

  The JSON encodings are the record \<open>session_codec\<close>, date formatting the record \<open>date_env\<close>,
  both parameters.  The floating-point cost estimate is left out.
\<close>

section \<open>Transcripts\<close>

datatype run_status = Success | RunError | Cancelled | MaxTurns

datatype transcript_event =
    RunStart string
  | UserMessage string
  | AssistantMessage string
  | ToolCall string json
  | ToolResult string string bool
  | RunEnd run_status "string option"
  | Compaction string
  | Restart (rs_interrupted: "string option") (rs_last_task: "string option")
      (rs_last_tool: "string option") (rs_recent_tools: "string list")
  | Usage u64 u64 u64 u64 string string

record transcript_entry =
  te_timestamp :: int
  te_run_id :: string
  te_event :: transcript_event

datatype message = MUser string | MAssistant string

record channel_preferences =
  cp_provider :: "string option"
  cp_model :: "string option"

definition is_default :: "channel_preferences \<Rightarrow> bool" where
  "is_default p = (cp_provider p = None \<and> cp_model p = None)"

record session_codec =
  enc_entry :: "transcript_entry \<Rightarrow> string"
  dec_entry :: "string \<Rightarrow> transcript_entry option"
  enc_sessions :: "(string \<rightharpoonup> string) \<Rightarrow> string"
  dec_sessions :: "string \<Rightarrow> (string \<rightharpoonup> string) option"
  enc_prefs :: "(string \<rightharpoonup> channel_preferences) \<Rightarrow> string"
  dec_prefs :: "string \<Rightarrow> (string \<rightharpoonup> channel_preferences) option"

section \<open>Interrupted runs\<close>

record interrupted_run =
  ir_run_id :: string
  ir_last_task :: "string option"
  ir_last_tool :: "string option"
  ir_recent_tools :: "string list"

text \<open>The counter is an \<open>i32\<close>; it only overflows after \<open>2\<^sup>31\<close> open runs and is a number here.\<close>

definition interrupt_step ::
  "interrupted_run option \<times> nat \<Rightarrow> transcript_entry \<Rightarrow> interrupted_run option \<times> nat" where
  "interrupt_step s e =
     (case s of (current, open_runs) \<Rightarrow>
      (case te_event e of
         RunStart task \<Rightarrow>
           (Some \<lparr>ir_run_id = te_run_id e, ir_last_task = Some task, ir_last_tool = None,
                  ir_recent_tools = []\<rparr>, open_runs + 1)
       | RunEnd _ _ \<Rightarrow> (if open_runs - 1 = 0 then None else current, open_runs - 1)
       | Restart _ _ _ _ \<Rightarrow> (if open_runs - 1 = 0 then None else current, open_runs - 1)
       | ToolCall tool _ \<Rightarrow>
           (if open_runs > 0
            then map_option (\<lambda>c. c\<lparr>ir_last_tool := Some tool, ir_recent_tools := ir_recent_tools c @ [tool]\<rparr>) current
            else current, open_runs)
       | _ \<Rightarrow> (current, open_runs)))"

definition find_interrupted_run :: "transcript_entry list \<Rightarrow> interrupted_run option" where
  "find_interrupted_run entries =
     (case foldl interrupt_step (None, 0) entries of
        (current, open_runs) \<Rightarrow> if open_runs > 0 then current else None)"

section \<open>Rebuilding the conversation\<close>

definition arrow :: string where
  "arrow = [CHR '' '', CHR 0xE2, CHR 0x86, CHR 0x92, CHR '' '']"

definition double_quoted :: "string \<Rightarrow> string" where
  "double_quoted s = [CHR 0x22] @ s @ [CHR 0x22]"

definition task_part :: "string option \<Rightarrow> string" where
  "task_part t =
     (case t of None \<Rightarrow> []
      | Some task \<Rightarrow> '' You were working on: '' @ double_quoted (take_chars 200 task)
          @ (if char_count task > 200 then ''...'' else []) @ ''.'')"

definition tools_part :: "interrupted_run \<Rightarrow> string" where
  "tools_part ctx =
     (if ir_recent_tools ctx \<noteq> []
      then '' Recent tool chain: '' @ join arrow (rev (take 15 (rev (ir_recent_tools ctx)))) @ ''.''
      else case ir_last_tool ctx of None \<Rightarrow> []
        | Some tool \<Rightarrow> '' The last tool you called was: '' @ tool @ ''.'')"

definition restart_marker_pair :: "interrupted_run \<Rightarrow> string \<times> string" where
  "restart_marker_pair ctx =
     (''[System: the previous run was interrupted by a process restart. ''
        @ ''Any in-progress work may be incomplete.''
        @ task_part (ir_last_task ctx) @ tools_part ctx @ '' Assess the situation before continuing.]'',
      ''Understood '' @ [CHR 0xE2, CHR 0x80, CHR 0x94]
        @ '' I was interrupted. I'' @ [CHR 0x27] @ ''ll check the current state before proceeding.'')"

definition append_restart_marker :: "message list \<Rightarrow> interrupted_run \<Rightarrow> message list" where
  "append_restart_marker history ctx =
     (case restart_marker_pair ctx of (u, a) \<Rightarrow> history @ [MUser u, MAssistant a])"

definition restart_ctx :: "transcript_event \<Rightarrow> interrupted_run" where
  "restart_ctx ev = \<lparr>ir_run_id = [], ir_last_task = rs_last_task ev, ir_last_tool = rs_last_tool ev,
     ir_recent_tools = rs_recent_tools ev\<rparr>"

definition history_step :: "message list \<Rightarrow> transcript_entry \<Rightarrow> message list" where
  "history_step history e =
     (case te_event e of
        UserMessage c \<Rightarrow> history @ [MUser c]
      | AssistantMessage c \<Rightarrow> history @ [MAssistant c]
      | Restart _ _ _ _ \<Rightarrow> append_restart_marker history (restart_ctx (te_event e))
      | _ \<Rightarrow> history)"

definition rebuild_history :: "transcript_entry list \<Rightarrow> message list" where
  "rebuild_history entries =
     (let history = foldl history_step [] entries in
      case find_interrupted_run entries of
        None \<Rightarrow> history | Some ctx \<Rightarrow> append_restart_marker history ctx)"

definition is_compaction :: "transcript_entry \<Rightarrow> bool" where
  "is_compaction e = (case te_event e of Compaction _ \<Rightarrow> True | _ \<Rightarrow> False)"

text \<open>The last compaction's summary and the entries after it.\<close>

fun split_compaction :: "transcript_entry list \<Rightarrow> string option \<times> transcript_entry list" where
  "split_compaction [] = (None, [])"
| "split_compaction (e # es) =
     (case split_compaction es of
        (Some s, tail) \<Rightarrow> (Some s, tail)
      | (None, _) \<Rightarrow>
          (case te_event e of Compaction s \<Rightarrow> (Some s, es) | _ \<Rightarrow> (None, e # es)))"

record pair_state =
  ps_pairs :: "(string \<times> string) list"
  ps_pending :: "string option"
  ps_restart :: bool

definition pair_step :: "pair_state \<Rightarrow> transcript_entry \<Rightarrow> pair_state" where
  "pair_step st e =
     (case te_event e of
        UserMessage c \<Rightarrow> st\<lparr>ps_pending := Some c\<rparr>
      | AssistantMessage c \<Rightarrow>
          (case ps_pending st of
             None \<Rightarrow> st | Some u \<Rightarrow> st\<lparr>ps_pending := None, ps_pairs := ps_pairs st @ [(u, c)]\<rparr>)
      | Restart _ _ _ _ \<Rightarrow>
          st\<lparr>ps_pairs := ps_pairs st @ [restart_marker_pair (restart_ctx (te_event e))], ps_restart := True\<rparr>
      | _ \<Rightarrow> st)"

definition pair_init :: pair_state where
  "pair_init = \<lparr>ps_pairs = [], ps_pending = None, ps_restart = False\<rparr>"

definition summary_anchor :: "string option \<Rightarrow> message list" where
  "summary_anchor s =
     (case s of None \<Rightarrow> []
      | Some summary \<Rightarrow>
          [MUser (''[Conversation context summary from an earlier session: '' @ summary @ '']''),
           MAssistant ''Understood, I have the context from our previous conversation.''])"

definition rebuild_history_recent :: "transcript_entry list \<Rightarrow> nat \<Rightarrow> message list" where
  "rebuild_history_recent entries max_pairs =
     (case split_compaction entries of
        (summary, tail) \<Rightarrow>
          (let st = foldl pair_step pair_init tail;
               recent = drop (length (ps_pairs st) - max_pairs) (ps_pairs st);
               history = summary_anchor summary @ concat (map (\<lambda>(u, a). [MUser u, MAssistant a]) recent)
           in if ps_restart st then history
              else case find_interrupted_run tail of
                None \<Rightarrow> history | Some ctx \<Rightarrow> append_restart_marker history ctx))"

section \<open>The state directory\<close>

record session_file =
  sx_name :: string
  sx_content :: string
  sx_modified :: int

text \<open>\<open>sessions/\<close> with its files in directory order, and the two index files beside it.\<close>

record state_dir =
  sd_sessions :: "session_file list"
  sd_channel_sessions :: "string option"
  sd_channel_preferences :: "string option"

datatype session_error = SessionNotFound string | NotUtf8 | ParseFailed

definition session_path :: "string \<Rightarrow> string" where
  "session_path session_id = session_id @ ''.jsonl''"

definition find_file :: "string \<Rightarrow> state_dir \<Rightarrow> session_file option" where
  "find_file name d = find (\<lambda>f. sx_name f = name) (sd_sessions d)"

definition write_file :: "string \<Rightarrow> string \<Rightarrow> int \<Rightarrow> state_dir \<Rightarrow> state_dir" where
  "write_file name content now d =
     d\<lparr>sd_sessions :=
       (if find_file name d = None
        then sd_sessions d @ [\<lparr>sx_name = name, sx_content = content, sx_modified = now\<rparr>]
        else map (\<lambda>f. if sx_name f = name then f\<lparr>sx_content := content, sx_modified := now\<rparr> else f)
               (sd_sessions d))\<rparr>"

definition hex2 :: "8 word \<Rightarrow> string" where
  "hex2 b = pad_left (CHR ''0'') 2 (show_hex (unat b))"

text \<open>\<open>date_part\<close> is the formatted clock, the two bytes come from a fresh UUID.\<close>

definition create_session :: "string \<Rightarrow> 8 word \<Rightarrow> 8 word \<Rightarrow> int \<Rightarrow> state_dir \<Rightarrow> string \<times> state_dir" where
  "create_session date_part b0 b1 now d =
     (let i = date_part @ ''-'' @ hex2 b0 @ hex2 b1 in (i, write_file (session_path i) [] now d))"

definition list_sessions :: "state_dir \<Rightarrow> string list" where
  "list_sessions d =
     map fst (sort_key (\<lambda>(_, modified). - modified)
       (map (\<lambda>f. (trim_end_matches ''.jsonl'' (sx_name f), sx_modified f))
         (filter (\<lambda>f. suffix ''.jsonl'' (sx_name f)) (sd_sessions d))))"

definition append_entry :: "session_codec \<Rightarrow> string \<Rightarrow> transcript_entry \<Rightarrow> int \<Rightarrow> state_dir \<Rightarrow> state_dir" where
  "append_entry c session_id e now d =
     write_file (session_path session_id)
       ((case find_file (session_path session_id) d of None \<Rightarrow> [] | Some f \<Rightarrow> sx_content f)
        @ enc_entry c e @ [newline]) now d"

definition parse_transcript :: "session_codec \<Rightarrow> string \<Rightarrow> session_error + transcript_entry list" where
  "parse_transcript c content =
     (if \<not> utf8_ok content then Inl NotUtf8
      else collect_res (map (\<lambda>l. case dec_entry c l of None \<Rightarrow> Inl ParseFailed | Some e \<Rightarrow> Inr e)
             (filter (\<lambda>l. \<not> is_blank l) (str_lines content))))"

definition read_transcript :: "session_codec \<Rightarrow> string \<Rightarrow> state_dir \<Rightarrow> session_error + transcript_entry list" where
  "read_transcript c session_id d =
     (case find_file (session_path session_id) d of
        None \<Rightarrow> Inl (SessionNotFound session_id)
      | Some f \<Rightarrow> parse_transcript c (sx_content f))"

definition get_or_create_session ::
  "string \<Rightarrow> 8 word \<Rightarrow> 8 word \<Rightarrow> int \<Rightarrow> state_dir \<Rightarrow> string \<times> state_dir" where
  "get_or_create_session date_part b0 b1 now d =
     (case list_sessions d of
        i # _ \<Rightarrow> (i, d)
      | [] \<Rightarrow> create_session date_part b0 b1 now d)"

definition find_session_by_prefix :: "string \<Rightarrow> state_dir \<Rightarrow> string option" where
  "find_session_by_prefix p d =
     (case filter (prefix p) (list_sessions d) of [] \<Rightarrow> None | i # _ \<Rightarrow> Some i)"

section \<open>Summaries and usage\<close>

record date_env =
  parse_ymd :: "string \<Rightarrow> int option"
  parse_hms :: "string \<Rightarrow> int option"
  show_minute :: "int \<Rightarrow> int \<Rightarrow> string"

definition slice :: "nat \<Rightarrow> nat \<Rightarrow> string \<Rightarrow> string option" where
  "slice a b s = (if a \<le> b \<and> at_char_boundary s a \<and> at_char_boundary s b
     then Some (take (b - a) (drop a s)) else None)"

text \<open>\<open>None\<close> is a panicking slice.\<close>

definition parse_session_timestamp :: "date_env \<Rightarrow> string \<Rightarrow> string option" where
  "parse_session_timestamp de i =
     (let legacy = (if length i > 20 then map_option (\<lambda>p. p @ ''...'') (slice 0 8 i) else Some i) in
      if length i \<ge> 15 \<and> list_all (\<lambda>x. length x = 1 \<and> is_digit (hd x)) (take 8 (chars i))
      then Option.bind (slice 0 8 i) (\<lambda>d. Option.bind (slice 9 15 i) (\<lambda>t.
             case (parse_ymd de d, parse_hms de t) of
               (Some date, Some time) \<Rightarrow> Some (show_minute de date time)
             | _ \<Rightarrow> legacy))
      else legacy)"

record session_summary =
  sm_id :: string
  sm_preview :: string
  sm_timestamp :: string
  sm_entry_count :: nat

definition preview_of :: "string \<Rightarrow> string" where
  "preview_of content =
     (if length content > 80 then take (floor_char_boundary content 80) content @ ''...'' else content)"

definition summary_step :: "session_codec \<Rightarrow> nat \<times> string \<Rightarrow> string \<Rightarrow> nat \<times> string" where
  "summary_step c s line =
     (case s of (entry_count, preview) \<Rightarrow>
      if is_blank line then s
      else (entry_count + 1,
        if preview = []
        then case dec_entry c line of
               Some e \<Rightarrow> (case te_event e of UserMessage content \<Rightarrow> preview_of content | _ \<Rightarrow> preview)
             | None \<Rightarrow> preview
        else preview))"

definition session_summary ::
  "session_codec \<Rightarrow> date_env \<Rightarrow> string \<Rightarrow> string \<Rightarrow> session_summary option" where
  "session_summary c de i content =
     (case foldl (summary_step c) (0, []) (str_lines content) of
        (entry_count, preview) \<Rightarrow>
          map_option (\<lambda>ts. \<lparr>sm_id = i, sm_preview = (if preview = [] then ''(empty session)'' else preview),
            sm_timestamp = ts, sm_entry_count = entry_count\<rparr>) (parse_session_timestamp de i))"

text \<open>Sessions whose file cannot be read are skipped; \<open>None\<close> is a panic.\<close>

fun session_summaries_of ::
  "session_codec \<Rightarrow> date_env \<Rightarrow> state_dir \<Rightarrow> string list \<Rightarrow> session_summary list option" where
  "session_summaries_of c de d [] = Some []"
| "session_summaries_of c de d (i # is) =
     (case find_file (session_path i) d of
        None \<Rightarrow> session_summaries_of c de d is
      | Some f \<Rightarrow>
          if \<not> utf8_ok (sx_content f) then session_summaries_of c de d is
          else Option.bind (session_summary c de i (sx_content f)) (\<lambda>sm.
                 map_option ((#) sm) (session_summaries_of c de d is)))"

definition session_summaries ::
  "session_codec \<Rightarrow> date_env \<Rightarrow> nat \<Rightarrow> state_dir \<Rightarrow> session_summary list option" where
  "session_summaries c de limit d = session_summaries_of c de d (take limit (list_sessions d))"

record aggregated_usage =
  au_input_tokens :: u64
  au_output_tokens :: u64
  au_cached_input_tokens :: u64
  au_tool_calls :: u64
  au_session_count :: nat

definition usage_zero :: aggregated_usage where
  "usage_zero = \<lparr>au_input_tokens = 0, au_output_tokens = 0, au_cached_input_tokens = 0,
     au_tool_calls = 0, au_session_count = 0\<rparr>"

text \<open>The sums are those of a release build, where \<open>+=\<close> on \<open>u64\<close> wraps.\<close>

definition usage_step ::
  "session_codec \<Rightarrow> aggregated_usage \<times> bool \<Rightarrow> string \<Rightarrow> aggregated_usage \<times> bool" where
  "usage_step c s line =
     (if is_blank line then s
      else case dec_entry c line of
        None \<Rightarrow> s
      | Some e \<Rightarrow>
          (case te_event e of
             Usage it ot ct tc model provider \<Rightarrow>
               (let a = fst s in
                (a\<lparr>au_input_tokens := au_input_tokens a + it, au_output_tokens := au_output_tokens a + ot,
                   au_cached_input_tokens := au_cached_input_tokens a + ct,
                   au_tool_calls := au_tool_calls a + tc\<rparr>, True))
           | _ \<Rightarrow> s))"

definition usage_file :: "session_codec \<Rightarrow> int \<Rightarrow> aggregated_usage \<Rightarrow> session_file \<Rightarrow> aggregated_usage" where
  "usage_file c since agg f =
     (if \<not> suffix ''.jsonl'' (sx_name f) \<or> sx_modified f < since \<or> \<not> utf8_ok (sx_content f) then agg
      else case foldl (usage_step c) (agg, False) (str_lines (sx_content f)) of
        (agg', has_usage) \<Rightarrow>
          if has_usage then agg'\<lparr>au_session_count := au_session_count agg' + 1\<rparr> else agg')"

definition aggregate_usage :: "session_codec \<Rightarrow> int \<Rightarrow> state_dir \<Rightarrow> aggregated_usage" where
  "aggregate_usage c since d = foldl (usage_file c since) usage_zero (sd_sessions d)"

section \<open>Restart marks and the channel indexes\<close>

text \<open>\<open>run_id\<close> is the fresh identifier of the marker entry.\<close>

definition mark_restart_if_interrupted ::
  "session_codec \<Rightarrow> string \<Rightarrow> string \<Rightarrow> int \<Rightarrow> state_dir \<Rightarrow> string option \<times> state_dir" where
  "mark_restart_if_interrupted c run_id session_id now d =
     (case read_transcript c session_id d of
        Inl _ \<Rightarrow> (None, d)
      | Inr entries \<Rightarrow>
          (case find_interrupted_run entries of
             None \<Rightarrow> (None, d)
           | Some i \<Rightarrow>
               (Some (ir_run_id i),
                append_entry c session_id
                  \<lparr>te_timestamp = now, te_run_id = run_id,
                   te_event = Restart (Some (ir_run_id i)) (ir_last_task i) (ir_last_tool i) (ir_recent_tools i)\<rparr>
                  now d)))"

definition load_index :: "(string \<Rightarrow> (string \<rightharpoonup> 'a) option) \<Rightarrow> string option \<Rightarrow> (string \<rightharpoonup> 'a)" where
  "load_index dec file =
     (case file of
        None \<Rightarrow> (\<lambda>_. None)
      | Some s \<Rightarrow> if \<not> utf8_ok s then (\<lambda>_. None) else case dec s of None \<Rightarrow> (\<lambda>_. None) | Some m \<Rightarrow> m)"

definition load_channel_sessions :: "session_codec \<Rightarrow> state_dir \<Rightarrow> (string \<rightharpoonup> string)" where
  "load_channel_sessions c d = load_index (dec_sessions c) (sd_channel_sessions d)"

definition save_channel_session :: "session_codec \<Rightarrow> string \<Rightarrow> string \<Rightarrow> state_dir \<Rightarrow> state_dir" where
  "save_channel_session c sender_key session_id d =
     d\<lparr>sd_channel_sessions := Some (enc_sessions c ((load_channel_sessions c d)(sender_key \<mapsto> session_id)))\<rparr>"

definition load_channel_preferences :: "session_codec \<Rightarrow> state_dir \<Rightarrow> (string \<rightharpoonup> channel_preferences)" where
  "load_channel_preferences c d = load_index (dec_prefs c) (sd_channel_preferences d)"

definition save_channel_preferences ::
  "session_codec \<Rightarrow> string \<Rightarrow> channel_preferences \<Rightarrow> state_dir \<Rightarrow> state_dir" where
  "save_channel_preferences c sender_key prefs d =
     (let m = load_channel_preferences c d in
      d\<lparr>sd_channel_preferences := Some (enc_prefs c
         (if is_default prefs then m(sender_key := None) else m(sender_key \<mapsto> prefs)))\<rparr>)"

end
