(* ===== verification/Session_Props.thy ===== *)
theory Session_Props
  imports Session
begin

text \<open>
  What the session transcripts guarantee: appending and reading, which run counts as
  interrupted, what a restart mark changes, and the shape of the rebuilt conversation.
\<close>

section \<open>Appending\<close>

text \<open>What the code relies on of the JSON encoding: one nonblank line of UTF-8 that decodes back.\<close>

definition entry_line :: "session_codec \<Rightarrow> transcript_entry \<Rightarrow> bool" where
  "entry_line c e = (utf8_ok (enc_entry c e) \<and> dec_entry c (enc_entry c e) = Some e \<and> newline \<notin> set (enc_entry c e)
     \<and> \<not> is_blank (enc_entry c e) \<and> (enc_entry c e = [] \<or> last (enc_entry c e) \<noteq> CHR 0x0D))"

definition whole_transcript :: "state_dir \<Rightarrow> string \<Rightarrow> bool" where
  "whole_transcript d i = (case find_file (session_path i) d of None \<Rightarrow> True
     | Some f \<Rightarrow> sx_content f = [] \<or> last (sx_content f) = newline)"

lemma find_write: "find_file n (write_file name content now d) =
   (if n = name then Some \<lparr>sx_name = name, sx_content = content, sx_modified = now\<rparr> else find_file n d)"
proof (cases "find_file name d")
  case None
  then have none: "find (\<lambda>f. sx_name f = name) (sd_sessions d) = None" by (simp add: find_file_def)
  have "find P (fs @ [f]) = (case find P fs of None \<Rightarrow> if P f then Some f else None | Some g \<Rightarrow> Some g)"
    for P and f :: session_file and fs by (induction fs) auto
  then have "find (\<lambda>f. sx_name f = n) (sd_sessions d @ [\<lparr>sx_name = name, sx_content = content, sx_modified = now\<rparr>])
     = (if n = name then Some \<lparr>sx_name = name, sx_content = content, sx_modified = now\<rparr>
        else find (\<lambda>f. sx_name f = n) (sd_sessions d))"
    using none by (auto split: option.splits)
  with None show ?thesis by (simp add: find_file_def write_file_def)
next
  case (Some f)
  have "find (\<lambda>f. sx_name f = n) (map (\<lambda>f. if sx_name f = name then f\<lparr>sx_content := content, sx_modified := now\<rparr> else f) fs)
     = map_option (\<lambda>f. if n = name then f\<lparr>sx_content := content, sx_modified := now\<rparr> else f)
         (find (\<lambda>f. sx_name f = n) fs)" for fs :: "session_file list"
    by (induction fs) auto
  moreover have "sx_name f = name" using Some by (auto simp: find_file_def find_Some_iff)
  ultimately show ?thesis using Some
    by (cases "n = name"; cases f) (simp_all add: find_file_def write_file_def option.map_ident)
qed

lemma session_path_inj: "session_path i = session_path j \<longleftrightarrow> i = j"
  by (simp add: session_path_def)

lemma newline_utf8: "utf8_ok [newline]"
  by code_simp

lemma parse_transcript_snoc:
  assumes "parse_transcript c s = Inr es" "entry_line c e" "s = [] \<or> last s = newline"
  shows "parse_transcript c (s @ enc_entry c e @ [newline]) = Inr (es @ [e])"
proof -
  have "str_lines (s @ enc_entry c e @ [newline]) = str_lines s @ [enc_entry c e]"
    using assms(2,3) by (intro str_lines_snoc) (auto simp: entry_line_def)
  moreover have "utf8_ok (s @ enc_entry c e @ [newline])"
    using assms(1,2) newline_utf8 by (auto simp: parse_transcript_def entry_line_def intro!: utf8_ok_append split: if_splits)
  ultimately show ?thesis using assms(1,2)
    by (auto simp: parse_transcript_def entry_line_def collect_res_append split: if_splits)
qed

lemma parse_transcript_empty: "parse_transcript c [] = Inr []"
  by (simp add: parse_transcript_def utf8_ok_def)

text \<open>The transcript as a reader that takes a missing file for an empty one sees it.\<close>

definition transcript_or_empty :: "session_codec \<Rightarrow> string \<Rightarrow> state_dir \<Rightarrow> session_error + transcript_entry list" where
  "transcript_or_empty c i d = (if find_file (session_path i) d = None then Inr [] else read_transcript c i d)"

lemma append_entry_reads:
  assumes "transcript_or_empty c i d = Inr es" "entry_line c e" "whole_transcript d i"
  shows "read_transcript c i (append_entry c i e now d) = Inr (es @ [e])"
    and "whole_transcript (append_entry c i e now d) i"
    and "find_file (session_path i) (append_entry c i e now d) \<noteq> None"
proof -
  let ?old = "case find_file (session_path i) d of None \<Rightarrow> [] | Some f \<Rightarrow> sx_content f"
  have "parse_transcript c ?old = Inr es" "?old = [] \<or> last ?old = newline"
    using assms(1,3) parse_transcript_empty
    by (auto simp: transcript_or_empty_def read_transcript_def whole_transcript_def split: option.splits)
  from parse_transcript_snoc [OF this(1) assms(2) this(2)]
  show "read_transcript c i (append_entry c i e now d) = Inr (es @ [e])"
    by (simp add: read_transcript_def append_entry_def find_write)
  show "whole_transcript (append_entry c i e now d) i" "find_file (session_path i) (append_entry c i e now d) \<noteq> None"
    by (simp_all add: whole_transcript_def append_entry_def find_write)
qed

text \<open>A transcript is append-only: after appending any number of entries it reads as the old
  entries followed by the new ones in their order, and no other session's transcript changes.\<close>

theorem append_then_read:
  assumes "transcript_or_empty c i d = Inr es" and "whole_transcript d i"
    and "list_all (\<lambda>(e, now). entry_line c e) new" and "new \<noteq> []"
  shows "read_transcript c i (foldl (\<lambda>d (e, now). append_entry c i e now d) d new) = Inr (es @ map fst new)
    \<and> (\<forall>j. j \<noteq> i \<longrightarrow> read_transcript c j (foldl (\<lambda>d (e, now). append_entry c i e now d) d new) = read_transcript c j d)"
  using assms
proof (induction new arbitrary: d es)
  case (Cons en new)
  obtain e now where en: "en = (e, now)" by (cases en)
  let ?d = "append_entry c i e now d"
  have line: "entry_line c e" using Cons.prems(3) en by simp
  note step = append_entry_reads [OF Cons.prems(1) line Cons.prems(2), of now]
  have other: "read_transcript c j ?d = read_transcript c j d" if "j \<noteq> i" for j
    using that by (simp add: read_transcript_def append_entry_def find_write session_path_inj)
  show ?case
  proof (cases "new = []")
    case True
    then show ?thesis using step(1) other en by simp
  next
    case False
    have "transcript_or_empty c i ?d = Inr (es @ [e])" using step(1,3) by (simp add: transcript_or_empty_def)
    from Cons.IH [OF this step(2) _ False] Cons.prems(3) show ?thesis using other en by simp
  qed
qed simp

definition demo_codec :: session_codec where
  "demo_codec = \<lparr>
     enc_entry = (\<lambda>e. case te_event e of UserMessage c \<Rightarrow> ''u'' | RunStart t \<Rightarrow> ''r'' | _ \<Rightarrow> ''x''),
     dec_entry = (\<lambda>l. if l = ''u'' then Some \<lparr>te_timestamp = 0, te_run_id = ''r1'', te_event = UserMessage ''hi''\<rparr>
       else if l = ''r'' then Some \<lparr>te_timestamp = 0, te_run_id = ''r1'', te_event = RunStart ''job''\<rparr>
       else if l = ''x'' then Some \<lparr>te_timestamp = 5, te_run_id = ''m1'',
         te_event = Restart (Some ''r1'') (Some ''job'') None []\<rparr> else None),
     enc_sessions = (\<lambda>_. []), dec_sessions = (\<lambda>_. None), enc_prefs = (\<lambda>_. []), dec_prefs = (\<lambda>_. None)\<rparr>"

definition empty_dir :: state_dir where
  "empty_dir = \<lparr>sd_sessions = [], sd_channel_sessions = None, sd_channel_preferences = None\<rparr>"

definition demo_entry :: "transcript_event \<Rightarrow> transcript_entry" where
  "demo_entry ev = \<lparr>te_timestamp = 0, te_run_id = ''r1'', te_event = ev\<rparr>"

theorem append_then_read_witness:
  "read_transcript demo_codec ''s'' (append_entry demo_codec ''s'' (demo_entry (UserMessage ''hi'')) 2
      (append_entry demo_codec ''s'' (demo_entry (RunStart ''job'')) 1 empty_dir))
    = Inr [demo_entry (RunStart ''job''), demo_entry (UserMessage ''hi'')]"
proof -
  have "transcript_or_empty demo_codec ''s'' empty_dir = Inr []" "whole_transcript empty_dir ''s''"
    by (simp_all add: transcript_or_empty_def whole_transcript_def find_file_def empty_dir_def)
  moreover have "list_all (\<lambda>(e, now). entry_line demo_codec e)
      [(demo_entry (RunStart ''job''), 1 :: int), (demo_entry (UserMessage ''hi''), 2)]" by code_simp
  ultimately show ?thesis
    using append_then_read [of demo_codec "''s''" empty_dir "[]"
        "[(demo_entry (RunStart ''job''), 1), (demo_entry (UserMessage ''hi''), 2)]"] by simp
qed

section \<open>Interrupted runs\<close>

definition open_runs :: "transcript_entry list \<Rightarrow> nat" where
  "open_runs es = snd (foldl interrupt_step (None, 0) es)"

definition is_start :: "transcript_entry \<Rightarrow> bool" where
  "is_start e = (case te_event e of RunStart _ \<Rightarrow> True | _ \<Rightarrow> False)"

definition is_end :: "transcript_entry \<Rightarrow> bool" where
  "is_end e = (case te_event e of RunEnd _ _ \<Rightarrow> True | Restart _ _ _ _ \<Rightarrow> True | _ \<Rightarrow> False)"

definition tool_names :: "transcript_entry list \<Rightarrow> string list" where
  "tool_names es = List.map_filter (\<lambda>e. case te_event e of ToolCall t _ \<Rightarrow> Some t | _ \<Rightarrow> None) es"

definition with_tools :: "interrupted_run \<Rightarrow> string list \<Rightarrow> interrupted_run" where
  "with_tools c ts = c\<lparr>ir_last_tool := (if ts = [] then ir_last_tool c else Some (last ts)),
     ir_recent_tools := ir_recent_tools c @ ts\<rparr>"

lemma tool_names_Nil [simp]: "tool_names [] = []"
  by (simp add: tool_names_def List.map_filter_simps)

lemma tool_names_Cons:
  "tool_names (e # es) = (case te_event e of ToolCall t _ \<Rightarrow> [t] | _ \<Rightarrow> []) @ tool_names es"
  by (simp add: tool_names_def List.map_filter_simps split: transcript_event.split)

lemma interrupt_closed: "\<not> is_start e \<Longrightarrow> interrupt_step (None, 0) e = (None, 0)"
  by (auto simp: interrupt_step_def is_start_def split: transcript_event.splits)

lemma interrupt_closed_list: "list_all (\<lambda>e. \<not> is_start e) es \<Longrightarrow> foldl interrupt_step (None, 0) es = (None, 0)"
  by (induction es) (simp_all add: interrupt_closed)

lemma interrupt_open:
  assumes "list_all (\<lambda>e. \<not> is_start e) es" "0 < n"
  shows "foldl interrupt_step (Some c, n) es =
    (if length (filter is_end es) < n then (Some (with_tools c (tool_names es)), n - length (filter is_end es))
     else (None, 0))"
  using assms
proof (induction es arbitrary: c n)
  case Nil
  then show ?case by (simp add: with_tools_def)
next
  case (Cons e es)
  have IH: "foldl interrupt_step (Some c', m) es =
    (if length (filter is_end es) < m then (Some (with_tools c' (tool_names es)), m - length (filter is_end es))
     else (None, 0))" if "0 < m" for c' m
    using Cons that by simp
  have closed: "foldl interrupt_step (None, 0) es = (None, 0)"
    using Cons.prems(1) by (simp add: interrupt_closed_list)
  show ?case
  proof (cases "is_end e")
    case True
    then have "interrupt_step (Some c, n) e = (if n - 1 = 0 then None else Some c, n - 1)"
      "tool_names (e # es) = tool_names es"
      by (auto simp: interrupt_step_def is_end_def tool_names_Cons split: transcript_event.splits)
    then show ?thesis using True Cons.prems(2) IH [of "n - 1" c] closed by (cases "n = 1") auto
  next
    case False
    then have "interrupt_step (Some c, n) e = (Some (with_tools c (tool_names [e])), n)"
      using Cons.prems by (cases "te_event e")
        (auto simp: interrupt_step_def is_end_def is_start_def tool_names_Cons with_tools_def)
    moreover have "with_tools (with_tools c (tool_names [e])) (tool_names es) = with_tools c (tool_names (e # es))"
      by (cases "te_event e") (auto simp: with_tools_def tool_names_Cons)
    ultimately show ?thesis using False Cons.prems(2) IH [of n "with_tools c (tool_names [e])"] by simp
  qed
qed

lemma interrupt_start:
  assumes "te_event start = RunStart task" "list_all (\<lambda>e. \<not> is_start e) post"
  shows "foldl interrupt_step (None, 0) (pre @ start # post) =
    (if length (filter is_end post) \<le> open_runs pre
     then (Some (with_tools \<lparr>ir_run_id = te_run_id start, ir_last_task = Some task, ir_last_tool = None,
             ir_recent_tools = []\<rparr> (tool_names post)), open_runs pre + 1 - length (filter is_end post))
     else (None, 0))"
proof -
  obtain c n where pre: "foldl interrupt_step (None, 0) pre = (c, n)" by fastforce
  then have "open_runs pre = n" by (simp add: open_runs_def)
  with pre assms show ?thesis by (simp add: interrupt_step_def interrupt_open less_Suc_eq_le)
qed

text \<open>(C19) Which run counts as interrupted: with \<open>start\<close> the last run start of the transcript, the
  report is that run, its task and all tools called since, exactly when the entries after it
  close (by a run end or a restart mark) no more runs than were open before it.  Without any
  open run before, the run is reported exactly when nothing closed it.\<close>

theorem interrupted_run_report:
  assumes "te_event start = RunStart task" and "list_all (\<lambda>e. \<not> is_start e) post"
  shows "find_interrupted_run (pre @ start # post) =
    (if length (filter is_end post) \<le> open_runs pre
     then Some \<lparr>ir_run_id = te_run_id start, ir_last_task = Some task,
            ir_last_tool = (if tool_names post = [] then None else Some (last (tool_names post))),
            ir_recent_tools = tool_names post\<rparr>
     else None)"
  using interrupt_start [OF assms, of pre] by (simp add: find_interrupted_run_def with_tools_def)

theorem interrupted_run_report_witness:
  "find_interrupted_run [demo_entry (RunStart ''old''), demo_entry (RunEnd Success None),
      demo_entry (RunStart ''job''), demo_entry (ToolCall ''fs_cat'' JNull), demo_entry (UserMessage ''m'')]
    = Some \<lparr>ir_run_id = ''r1'', ir_last_task = Some ''job'', ir_last_tool = Some ''fs_cat'',
        ir_recent_tools = [''fs_cat'']\<rparr>"
proof -
  let ?post = "[demo_entry (ToolCall ''fs_cat'' JNull), demo_entry (UserMessage ''m'')]"
  have "list_all (\<lambda>e. \<not> is_start e) ?post" "te_event (demo_entry (RunStart ''job'')) = RunStart ''job''"
    "filter is_end ?post = []" "tool_names ?post = [''fs_cat'']"
    by (simp_all add: is_start_def is_end_def demo_entry_def tool_names_Cons)
  with interrupted_run_report [of "demo_entry (RunStart ''job'')" "''job''" ?post
      "[demo_entry (RunStart ''old''), demo_entry (RunEnd Success None)]"]
  show ?thesis by (simp add: demo_entry_def)
qed

text \<open>A run end does not say which run it closes: of two overlapping runs, the one that started
  last is reported as interrupted although it is the one that ended.\<close>

lemma ended_run_reported:
  assumes "te_event a = RunStart ta" "te_event b = RunStart tb" "te_event e = RunEnd st err"
  shows "map_option ir_run_id (find_interrupted_run [a, b, e]) = Some (te_run_id b)"
  using assms by (simp add: find_interrupted_run_def interrupt_step_def)






section \<open>The rebuilt conversation\<close>

definition exchanges :: "(string \<times> string) list \<Rightarrow> message list" where
  "exchanges ps = concat (map (\<lambda>(u, a). [MUser u, MAssistant a]) ps)"

lemma exchanges_append: "exchanges (ps @ qs) = exchanges ps @ exchanges qs"
  by (simp add: exchanges_def)

lemma append_restart_exchanges: "append_restart_marker (exchanges ps) ctx = exchanges (ps @ [restart_marker_pair ctx])"
  by (cases "restart_marker_pair ctx") (simp add: append_restart_marker_def exchanges_def)

lemma summary_exchanges: "\<exists>ps. summary_anchor s = exchanges ps \<and> length ps \<le> 1"
proof (cases s)
  case None
  then show ?thesis by (intro exI [of _ "[]"]) (simp add: summary_anchor_def exchanges_def)
next
  case (Some t)
  then show ?thesis
    by (intro exI [of _ "[(''[Conversation context summary from an earlier session: '' @ t @ '']'',
        ''Understood, I have the context from our previous conversation.'')]"])
      (simp add: summary_anchor_def exchanges_def)
qed

lemma split_compaction_last:
  "te_event e = Compaction s \<Longrightarrow> list_all (\<lambda>e. \<not> is_compaction e) tail
     \<Longrightarrow> split_compaction (pre @ e # tail) = (Some s, tail)"
proof (induction pre)
  case Nil
  have "list_all (\<lambda>e. \<not> is_compaction e) tail \<Longrightarrow> split_compaction tail = (None, tail)" for tail
    by (induction tail) (auto simp: is_compaction_def split: transcript_event.splits)
  with Nil show ?case by simp
qed simp

text \<open>(C33) The conversation handed to the model alternates user and assistant messages, starting
  with the user, and has at most \<open>max_pairs\<close> exchanges beside the compaction summary and a
  restart notice, whatever the transcript looks like.\<close>

theorem recent_history_shape:
  "\<exists>ps. rebuild_history_recent es max_pairs = exchanges ps \<and> length ps \<le> max_pairs + 2"
proof -
  obtain summary tail where sc: "split_compaction es = (summary, tail)" by fastforce
  let ?st = "foldl pair_step pair_init tail"
  let ?recent = "drop (length (ps_pairs ?st) - max_pairs) (ps_pairs ?st)"
  obtain qs where qs: "summary_anchor summary = exchanges qs" "length qs \<le> 1" using summary_exchanges by blast
  have hist: "summary_anchor summary @ concat (map (\<lambda>(u, a). [MUser u, MAssistant a]) ?recent) = exchanges (qs @ ?recent)"
    using qs(1) by (simp add: exchanges_append) (simp add: exchanges_def)
  have len: "length (qs @ ?recent) \<le> max_pairs + 1" using qs(2) by simp
  show ?thesis
  proof (cases "ps_restart ?st \<or> find_interrupted_run tail = None")
    case True
    then have "rebuild_history_recent es max_pairs = exchanges (qs @ ?recent)"
      using hist by (auto simp: rebuild_history_recent_def sc Let_def)
    with len show ?thesis by (metis le_add1 add.assoc le_trans nat_1_add_1 one_add_one)
  next
    case False
    then obtain ctx where "find_interrupted_run tail = Some ctx" by auto
    with False have "rebuild_history_recent es max_pairs = exchanges (qs @ ?recent @ [restart_marker_pair ctx])"
      using hist by (simp add: rebuild_history_recent_def sc Let_def append_restart_exchanges)
    moreover have "length (qs @ ?recent @ [restart_marker_pair ctx]) \<le> max_pairs + 2" using len by simp
    ultimately show ?thesis by blast
  qed
qed

text \<open>A compaction cuts the past off: what is rebuilt does not depend on the entries before
  the last compaction, and starts with its summary.\<close>

theorem recent_history_after_compaction:
  assumes "te_event e = Compaction s" and "list_all (\<lambda>e. \<not> is_compaction e) tail"
  shows "rebuild_history_recent (pre @ e # tail) max_pairs = rebuild_history_recent (e # tail) max_pairs
    \<and> prefix (summary_anchor (Some s)) (rebuild_history_recent (pre @ e # tail) max_pairs)"
proof -
  have "split_compaction (pre @ e # tail) = (Some s, tail)" "split_compaction (e # tail) = (Some s, tail)"
    using split_compaction_last [OF assms, of pre] split_compaction_last [OF assms, of "[]"] by simp_all
  then show ?thesis
    by (auto simp: rebuild_history_recent_def Let_def append_restart_marker_def split: option.split prod.split)
qed

theorem recent_history_after_compaction_witness:
  "rebuild_history_recent [demo_entry (UserMessage ''a''), demo_entry (Compaction ''short''),
      demo_entry (UserMessage ''b''), demo_entry (AssistantMessage ''c'')] 5
    = summary_anchor (Some ''short'') @ [MUser ''b'', MAssistant ''c'']"
proof -
  let ?tail = "[demo_entry (UserMessage ''b''), demo_entry (AssistantMessage ''c'')]"
  have "te_event (demo_entry (Compaction ''short'')) = Compaction ''short''"
    "list_all (\<lambda>e. \<not> is_compaction e) ?tail" by (simp_all add: demo_entry_def is_compaction_def)
  moreover have "rebuild_history_recent (demo_entry (Compaction ''short'') # ?tail) 5
      = summary_anchor (Some ''short'') @ [MUser ''b'', MAssistant ''c'']" by code_simp
  ultimately show ?thesis
    using recent_history_after_compaction [of "demo_entry (Compaction ''short'')" "''short''" ?tail
        "[demo_entry (UserMessage ''a'')]" 5] by simp
qed

section \<open>Channel indexes\<close>

text \<open>The JSON encoding of an index decodes back, for the indexes \<open>good\<close> that occur.\<close>

definition index_codec :: "('m \<Rightarrow> string) \<Rightarrow> (string \<Rightarrow> 'm option) \<Rightarrow> ('m \<Rightarrow> bool) \<Rightarrow> bool" where
  "index_codec enc dec good \<longleftrightarrow> (\<forall>m. good m \<longrightarrow> dec (enc m) = Some m \<and> utf8_ok (enc m))"

text \<open>The index of channel conversations behaves as a map kept across restarts: after any
  sequence of saves it has, for each sender, the session saved last, and the stored preferences
  have the last preferences, where saving default preferences removes the sender's entry.\<close>

theorem channel_index_refines_map:
  assumes "index_codec (enc_sessions c) (dec_sessions c) good" and "index_codec (enc_prefs c) (dec_prefs c) good'"
    and "\<And>m k s. good m \<Longrightarrow> (k, s) \<in> set kss \<Longrightarrow> good (m(k \<mapsto> s))" and "good (load_channel_sessions c d)"
    and "\<And>m k p. good' m \<Longrightarrow> (k, p) \<in> set kps \<Longrightarrow> good' (m(k := if is_default p then None else Some p))"
    and "good' (load_channel_preferences c d)"
  shows "load_channel_sessions c (foldl (\<lambda>d (k, s). save_channel_session c k s d) d kss)
      = foldl (\<lambda>m (k, s). m(k \<mapsto> s)) (load_channel_sessions c d) kss
    \<and> load_channel_preferences c (foldl (\<lambda>d (k, p). save_channel_preferences c k p d) d kps)
      = foldl (\<lambda>m (k, p). m(k := if is_default p then None else Some p)) (load_channel_preferences c d) kps"
proof
  show "load_channel_sessions c (foldl (\<lambda>d (k, s). save_channel_session c k s d) d kss)
      = foldl (\<lambda>m (k, s). m(k \<mapsto> s)) (load_channel_sessions c d) kss"
  proof (rule foldl_simulation [where good = good])
    fix x d assume "x \<in> set kss" "good (load_channel_sessions c d)"
    moreover obtain k s where x: "x = (k, s)" by (cases x)
    ultimately have "good ((load_channel_sessions c d)(k \<mapsto> s))" using assms(3) by blast
    then show "load_channel_sessions c ((\<lambda>(k, s). save_channel_session c k s d) x)
        = (\<lambda>(k, s). (load_channel_sessions c d)(k \<mapsto> s)) x \<and> good ((\<lambda>(k, s). (load_channel_sessions c d)(k \<mapsto> s)) x)"
      using assms(1) unfolding x load_channel_sessions_def save_channel_session_def load_index_def index_codec_def by auto
  qed (rule assms(4))
  show "load_channel_preferences c (foldl (\<lambda>d (k, p). save_channel_preferences c k p d) d kps)
      = foldl (\<lambda>m (k, p). m(k := if is_default p then None else Some p)) (load_channel_preferences c d) kps"
  proof (rule foldl_simulation [where good = good'])
    fix x d assume "x \<in> set kps" "good' (load_channel_preferences c d)"
    moreover obtain k p where x: "x = (k, p)" by (cases x)
    ultimately have "good' ((load_channel_preferences c d)(k := if is_default p then None else Some p))"
      using assms(5) by blast
    then show "load_channel_preferences c ((\<lambda>(k, p). save_channel_preferences c k p d) x)
        = (\<lambda>(k, p). (load_channel_preferences c d)(k := if is_default p then None else Some p)) x
        \<and> good' ((\<lambda>(k, p). (load_channel_preferences c d)(k := if is_default p then None else Some p)) x)"
      using assms(2)
      unfolding x load_channel_preferences_def save_channel_preferences_def load_index_def index_codec_def Let_def
      by (auto split: if_splits)
  qed (rule assms(6))
qed

definition one_prefs :: channel_preferences where
  "one_prefs = \<lparr>cp_provider = Some ''p'', cp_model = None\<rparr>"

definition index_demo :: session_codec where
  "index_demo = demo_codec\<lparr>
     enc_sessions := (\<lambda>m. if m = (\<lambda>_. None) then ''0'' else ''1''),
     dec_sessions := (\<lambda>s. Some (if s = ''0'' then (\<lambda>_. None) else [''k'' \<mapsto> ''s''])),
     enc_prefs := (\<lambda>m. if m = (\<lambda>_. None) then ''0'' else ''1''),
     dec_prefs := (\<lambda>s. Some (if s = ''0'' then (\<lambda>_. None) else [''k'' \<mapsto> one_prefs]))\<rparr>"

theorem channel_index_refines_map_witness:
  "load_channel_sessions index_demo (save_channel_session index_demo ''k'' ''s'' empty_dir) = [''k'' \<mapsto> ''s'']"
proof -
  have utf8: "utf8_ok ''0''" "utf8_ok ''1''" by code_simp+
  let ?good = "\<lambda>m. m = (\<lambda>_. None) \<or> m = [''k'' \<mapsto> ''s'']"
  let ?good' = "\<lambda>m. m = (\<lambda>_. None) \<or> m = [''k'' \<mapsto> one_prefs]"
  have ne: "[''k'' \<mapsto> ''s''] \<noteq> (\<lambda>_. None)" "[''k'' \<mapsto> one_prefs] \<noteq> (\<lambda>_. None)"
    by (metis fun_upd_same option.distinct(1))+
  have 1: "index_codec (enc_sessions index_demo) (dec_sessions index_demo) ?good"
    and 2: "index_codec (enc_prefs index_demo) (dec_prefs index_demo) ?good'"
    using ne utf8 by (auto simp: index_codec_def index_demo_def)
  have load: "load_channel_sessions index_demo empty_dir = (\<lambda>_. None)"
    "load_channel_preferences index_demo empty_dir = (\<lambda>_. None)"
    by (simp_all add: load_channel_sessions_def load_channel_preferences_def load_index_def empty_dir_def)
  have "load_channel_sessions index_demo (foldl (\<lambda>d (k, s). save_channel_session index_demo k s d) empty_dir [(''k'', ''s'')])
      = foldl (\<lambda>m (k, s). m(k \<mapsto> s)) (load_channel_sessions index_demo empty_dir) [(''k'', ''s'')]"
    by (rule channel_index_refines_map [OF 1 2, where kps = "[]", THEN conjunct1]) (auto simp: load)
  then show ?thesis by (simp add: load)
qed

text \<open>A session id that is drawn a second time within its second names an existing file, and
  creating the session empties that transcript.\<close>

lemma create_session_truncates:
  "create_session date_part b0 b1 now d = (i, d') \<Longrightarrow> read_transcript c i d' = Inr []"
  by (auto simp: create_session_def Let_def read_transcript_def find_write parse_transcript_empty)

end
