(* ===== verification/Output_Budget.thy ===== *)
theory Output_Budget
  imports Encoding
begin

text \<open>
  The token budget of tool outputs (\<open>tools/output\<close>): structural reduction of JSON values
  (\<open>json_analysis.rs\<close>), the line-based compactions (\<open>compaction.rs\<close>) and the two entry points
  of \<open>budget.rs\<close>.

  The tokenizer (\<open>count_tokens\<close>) and the JSON printers are the record \<open>output_env\<close>.
\<close>

record output_env =
  count_tokens :: "string \<Rightarrow> nat"
  to_json_compact :: "json \<Rightarrow> string"
  to_json_pretty :: "json \<Rightarrow> string"
  from_json :: "string \<Rightarrow> json option"

record budgeted_output =
  bo_content :: string
  bo_tokens :: nat
  bo_truncated :: bool
  bo_original_tokens :: nat

section \<open>Reduction of JSON values\<close>

record value_stats =
  vs_arrays :: nat
  vs_strings :: nat
  vs_max_array_len :: nat
  vs_max_string_len :: nat

fun collect_value_stats :: "json \<Rightarrow> value_stats \<Rightarrow> value_stats" where
  "collect_value_stats (JStr s) st =
     st\<lparr>vs_strings := vs_strings st + 1, vs_max_string_len := max (vs_max_string_len st) (length s)\<rparr>"
| "collect_value_stats (JArr vs) st =
     fold collect_value_stats vs
       (st\<lparr>vs_arrays := vs_arrays st + 1, vs_max_array_len := max (vs_max_array_len st) (length vs)\<rparr>)"
| "collect_value_stats (JObj ms) st = fold (\<lambda>(_, v). collect_value_stats v) ms st"
| "collect_value_stats v st = st"

definition array_heavy :: "(nat \<times> nat) list" where
  "array_heavy = [(2000, 30), (1200, 20), (800, 15), (500, 10), (300, 7), (200, 5), (150, 3), (100, 2),
     (80, 1), (50, 1), (30, 1)]"

definition string_heavy :: "(nat \<times> nat) list" where
  "string_heavy = [(1200, 50), (800, 30), (500, 20), (300, 15), (220, 10), (180, 7), (140, 5), (100, 3),
     (80, 2), (50, 1), (30, 1), (20, 1)]"

definition balanced :: "(nat \<times> nat) list" where
  "balanced = [(1500, 30), (900, 20), (600, 15), (400, 10), (280, 7), (220, 5), (170, 3), (120, 2),
     (90, 1), (60, 1), (40, 1), (30, 1)]"

text \<open>\<open>saturating_mul(2)\<close> does not saturate on counts of values in memory.\<close>

definition reduction_plan :: "value_stats \<Rightarrow> (nat \<times> nat) list" where
  "reduction_plan st =
     (if vs_max_array_len st \<ge> 100 \<or> vs_arrays st > vs_strings st * 2 then array_heavy
      else if vs_max_string_len st \<ge> 2000 \<or> vs_strings st > vs_arrays st * 2 then string_heavy
      else balanced)"

definition truncation_mark :: string where
  "truncation_mark = ''...[truncated]''"

fun reduce_value :: "nat \<Rightarrow> nat \<Rightarrow> json \<Rightarrow> json" where
  "reduce_value ms ma (JStr s) =
     (if length s > ms then JStr (take (floor_char_boundary s ms) s @ truncation_mark) else JStr s)"
| "reduce_value ms ma (JArr vs) =
     JArr (take ma (map (reduce_value ms ma) vs)
       @ (if length vs > ma
          then [JObj [(''_truncated'', JBool True), (''remaining'', JNum (show_nat (length vs - ma)))]] else []))"
| "reduce_value ms ma (JObj members) = JObj (map (\<lambda>(k, v). (k, reduce_value ms ma v)) members)"
| "reduce_value ms ma v = v"

definition skeleton_member :: "string \<times> json \<Rightarrow> bool" where
  "skeleton_member kv =
     (case snd kv of JNum _ \<Rightarrow> True | JBool _ \<Rightarrow> True | JStr s \<Rightarrow> length s \<le> 50 | _ \<Rightarrow> False)"

fun extract_skeleton :: "json \<Rightarrow> json" where
  "extract_skeleton (JObj ms) = json_set ''truncated'' (JBool True) (JObj (filter skeleton_member ms))"
| "extract_skeleton v = JObj [(''truncated'', JBool True)]"

definition budget_exhausted :: string where
  "budget_exhausted = ''{'' @ [CHR 0x22] @ ''budget_exhausted'' @ [CHR 0x22] @ '':true}''"

fun first_fitting :: "output_env \<Rightarrow> nat \<Rightarrow> json \<Rightarrow> (nat \<times> nat) list \<Rightarrow> string option" where
  "first_fitting env budget v [] = None"
| "first_fitting env budget v ((ms, ma) # plan) =
     (let s = to_json_compact env (reduce_value ms ma v) in
      if count_tokens env s \<le> budget then Some s else first_fitting env budget v plan)"

definition truncate_json_value :: "output_env \<Rightarrow> json \<Rightarrow> nat \<Rightarrow> string" where
  "truncate_json_value env v budget =
     (let stats = collect_value_stats v
            \<lparr>vs_arrays = 0, vs_strings = 0, vs_max_array_len = 0, vs_max_string_len = 0\<rparr>
      in case first_fitting env budget v (reduction_plan stats) of
           Some s \<Rightarrow> s
         | None \<Rightarrow>
             (let v' = reduce_value 20 1 v; s = to_json_compact env v' in
              if count_tokens env s > budget
              then let sk = to_json_compact env (extract_skeleton v') in
                   if count_tokens env sk \<le> budget then sk else budget_exhausted
              else s))"

definition emit_json :: "output_env \<Rightarrow> json \<Rightarrow> nat option \<Rightarrow> budgeted_output" where
  "emit_json env v max_tokens =
     (case max_tokens of
        None \<Rightarrow>
          (let p = to_json_pretty env v; n = count_tokens env p
           in \<lparr>bo_content = p, bo_tokens = n, bo_truncated = False, bo_original_tokens = n\<rparr>)
      | Some budget \<Rightarrow>
          (let c = to_json_compact env v; cn = count_tokens env c in
           if cn > budget
           then let t = truncate_json_value env v budget
                in \<lparr>bo_content = t, bo_tokens = count_tokens env t, bo_truncated = True, bo_original_tokens = cn\<rparr>
           else let p = to_json_pretty env v; pn = count_tokens env p in
                if pn \<le> budget
                then \<lparr>bo_content = p, bo_tokens = pn, bo_truncated = False, bo_original_tokens = pn\<rparr>
                else \<lparr>bo_content = c, bo_tokens = cn, bo_truncated = False, bo_original_tokens = pn\<rparr>))"

section \<open>Compaction of lines\<close>

text \<open>The greedy loops: lines are taken while their tokens fit.\<close>

fun take_fitting :: "output_env \<Rightarrow> nat \<Rightarrow> nat \<Rightarrow> string list \<Rightarrow> string list \<times> nat" where
  "take_fitting env budget used [] = ([], used)"
| "take_fitting env budget used (l # ls) =
     (if used + count_tokens env l > budget then ([], used)
      else case take_fitting env budget (used + count_tokens env l) ls of (taken, n) \<Rightarrow> (l # taken, n))"

definition lf :: string where "lf = [newline]"

definition compact_head_only :: "output_env \<Rightarrow> string \<Rightarrow> nat \<Rightarrow> string" where
  "compact_head_only env body max_tokens =
     (let ls = str_lines body;
          taken = fst (take_fitting env (max_tokens - 5) 0 ls);
          omitted = length ls - length taken
      in join lf taken
         @ (if omitted > 0 then lf @ ''... ('' @ show_nat omitted @ '' more lines truncated)'' else []))"

text \<open>
  The products with the floats 0.6 and 0.4, rounded down, are \<open>3 n div 5\<close> and \<open>2 n div 5\<close>: at a
  multiple of 5 the double product rounds to the exact integer, and otherwise the fractional
  part is at least 0.2 from the next integer (below \<open>2\<^sup>5\<^sup>0\<close> tokens).
\<close>

definition compact_head_tail :: "output_env \<Rightarrow> string \<Rightarrow> nat \<Rightarrow> string" where
  "compact_head_tail env body max_tokens =
     (let ls = str_lines body in
      if length ls \<le> 3 then compact_head_only env body max_tokens
      else let usable = max_tokens - 5;
               head_budget = usable * 3 div 5;
               (head, head_tokens) = take_fitting env head_budget 0 ls;
               tail_budget = usable * 2 div 5 + (head_budget - head_tokens);
               tail = rev (fst (take_fitting env tail_budget 0 (rev ls)));
               omitted = length ls - (length head + length tail)
           in join lf head
              @ (if omitted > 0 then lf @ ''... ('' @ show_nat omitted @ '' lines omitted) ...'' @ lf else [])
              @ join lf tail)"

definition priority_patterns :: "string list" where
  "priority_patterns = [''error'', ''Error'', ''ERROR'', ''warn'', ''Warn'', ''WARN'', ''panic'', ''fail'', ''FAIL'']"

definition is_priority :: "string \<Rightarrow> bool" where
  "is_priority line = list_ex (\<lambda>p. contains_sub p line) priority_patterns"

definition compact_rule_based :: "output_env \<Rightarrow> string \<Rightarrow> nat \<Rightarrow> string" where
  "compact_rule_based env body max_tokens =
     (let ls = str_lines body;
          taken = fst (take_fitting env (max_tokens - 5) 0
                    (filter is_priority ls @ filter (\<lambda>l. \<not> is_priority l) ls))
      in join lf taken
         @ (if length taken < length ls
            then lf @ ''... ('' @ show_nat (length taken) @ '' of '' @ show_nat (length ls) @ '' lines shown)''
            else []))"

datatype compaction_strategy = HeadTail | HeadOnly | RuleBased

definition apply_budget_to_text :: "output_env \<Rightarrow> string \<Rightarrow> nat \<Rightarrow> compaction_strategy \<Rightarrow> budgeted_output" where
  "apply_budget_to_text env body max_tokens strategy =
     (let n = count_tokens env body in
      if n \<le> max_tokens
      then \<lparr>bo_content = body, bo_tokens = n, bo_truncated = False, bo_original_tokens = n\<rparr>
      else let c = (case strategy of
                 HeadTail \<Rightarrow> compact_head_tail env body max_tokens
               | HeadOnly \<Rightarrow> compact_head_only env body max_tokens
               | RuleBased \<Rightarrow> compact_rule_based env body max_tokens)
           in \<lparr>bo_content = c, bo_tokens = count_tokens env c, bo_truncated = True, bo_original_tokens = n\<rparr>)"

section \<open>The envelope\<close>

record output_envelope =
  oe_data :: json
  oe_tokens :: nat
  oe_truncated :: bool
  oe_original_tokens :: nat
  oe_flush_recommended :: bool

definition from_budgeted :: "output_env \<Rightarrow> budgeted_output \<Rightarrow> output_envelope" where
  "from_budgeted env b =
     \<lparr>oe_data = (case from_json env (bo_content b) of None \<Rightarrow> JStr (bo_content b) | Some v \<Rightarrow> v),
      oe_tokens = bo_tokens b, oe_truncated = bo_truncated b, oe_original_tokens = bo_original_tokens b,
      oe_flush_recommended = (bo_truncated b \<and> bo_original_tokens b > bo_tokens b * 2)\<rparr>"

end
