(* ===== verification/Output_Budget_Props.thy ===== *)
theory Output_Budget_Props
  imports Output_Budget
begin

text \<open>
  What the token budget guarantees for JSON outputs and for compacted text, and where the
  head-and-tail compaction repeats lines and leaves the budget.
\<close>

section \<open>JSON outputs\<close>

lemma first_fitting_Some:
  "first_fitting env budget v plan = Some s \<Longrightarrow>
     count_tokens env s \<le> budget \<and> (\<exists>u. s = to_json_compact env u)"
  by (induction plan) (auto simp: Let_def split: if_splits)

lemma truncate_json_value_cases:
  "count_tokens env (truncate_json_value env v budget) \<le> budget
     \<and> (\<exists>u. truncate_json_value env v budget = to_json_compact env u)
   \<or> truncate_json_value env v budget = budget_exhausted"
  by (auto simp: truncate_json_value_def Let_def dest!: first_fitting_Some split: option.split)

text \<open>(C27) A JSON output is always the print of a JSON value, its token count is that of its
  content, and it fits the budget, with the one exception of the fixed text that says the
  budget is exhausted; an output that is not marked truncated is the print of the whole value.\<close>

theorem emit_json_budget:
  "bo_tokens (emit_json env v mt) = count_tokens env (bo_content (emit_json env v mt))
   \<and> (bo_content (emit_json env v mt) = budget_exhausted
      \<or> (case mt of None \<Rightarrow> True | Some budget \<Rightarrow> bo_tokens (emit_json env v mt) \<le> budget)
        \<and> (\<exists>u. bo_content (emit_json env v mt) \<in> {to_json_compact env u, to_json_pretty env u}
             \<and> (bo_truncated (emit_json env v mt) \<or> u = v)))"
proof (cases mt)
  case None
  then show ?thesis by (auto simp: emit_json_def Let_def)
next
  case (Some budget)
  show ?thesis
  proof (cases "count_tokens env (to_json_compact env v) > budget")
    case True
    then show ?thesis using truncate_json_value_cases [of env v budget]
      by (auto simp: emit_json_def Some Let_def)
  next
    case False
    then show ?thesis by (auto simp: emit_json_def Some Let_def)
  qed
qed

fun json_within :: "nat \<Rightarrow> nat \<Rightarrow> json \<Rightarrow> bool" where
  "json_within ms ma (JStr s) = (length s \<le> ms)"
| "json_within ms ma (JArr vs) = (length vs \<le> ma \<and> list_all (json_within ms ma) vs)"
| "json_within ms ma (JObj members) = list_all (\<lambda>(k, v). json_within ms ma v) members"
| "json_within ms ma v = True"

lemma floor_char_boundary_le: "floor_char_boundary s i \<le> i"
  by (induction i) (auto simp: Let_def)

lemma json_within_reduce: "json_within (ms + length truncation_mark) (ma + 1) (reduce_value ms ma v)"
proof (induction ms ma v rule: reduce_value.induct)
  case (1 ms ma s)
  show ?case using floor_char_boundary_le [of s ms] by (simp add: min_le_iff_disj)
next
  case (2 ms ma vs)
  then show ?case by (auto simp: list_all_iff dest!: in_set_takeD)
qed (auto simp: list_all_iff)

text \<open>Reducing a value bounds every string by the limit (plus the mark) and every array by the
  limit (plus the sentinel), at every depth, and leaves a value that is within the limits as
  it is.\<close>

theorem reduce_value_bounds:
  "json_within (ms + 14) (ma + 1) (reduce_value ms ma v)
   \<and> (json_within ms ma v \<longrightarrow> reduce_value ms ma v = v)"
proof
  show "json_within (ms + 14) (ma + 1) (reduce_value ms ma v)"
  proof -
    have "length truncation_mark = 14" by (simp add: truncation_mark_def)
    then show ?thesis using json_within_reduce [of ms ma v] by metis
  qed
  show "json_within ms ma v \<longrightarrow> reduce_value ms ma v = v"
  proof (induction ms ma v rule: reduce_value.induct)
    case (2 ms ma vs)
    then show ?case by (auto simp: list_all_iff map_idI)
  next
    case (3 ms ma members)
    have "json_within ms ma (JObj members) \<Longrightarrow> map (\<lambda>(k, v). (k, reduce_value ms ma v)) members = members"
      using 3 by (intro map_idI) (auto simp: list_all_iff)
    then show ?case by simp
  qed auto
qed

theorem reduce_value_bounds_witness:
  "reduce_value 5 1 (JObj [(''k'', JArr [JStr ''abc''])]) = JObj [(''k'', JArr [JStr ''abc''])]
   \<and> reduce_value 2 1 (JArr [JStr ''abc'', JNull])
      = JArr [JStr ''ab...[truncated]'', JObj [(''_truncated'', JBool True), (''remaining'', JNum ''1'')]]"
proof
  have "json_within 5 1 (JObj [(''k'', JArr [JStr ''abc''])])" by simp
  then show "reduce_value 5 1 (JObj [(''k'', JArr [JStr ''abc''])]) = JObj [(''k'', JArr [JStr ''abc''])]"
    using reduce_value_bounds [of 5 1 "JObj [(''k'', JArr [JStr ''abc''])]"] by blast
  show "reduce_value 2 1 (JArr [JStr ''abc'', JNull])
      = JArr [JStr ''ab...[truncated]'', JObj [(''_truncated'', JBool True), (''remaining'', JNum ''1'')]]" by code_simp
qed

section \<open>Text\<close>

definition line_tokens :: "output_env \<Rightarrow> string list \<Rightarrow> nat" where
  "line_tokens env ls = sum_list (map (count_tokens env) ls)"

lemma take_fitting_spec:
  "take_fitting env budget used ls = (taken, n) \<Longrightarrow>
     (\<exists>k. taken = take k ls) \<and> n = used + line_tokens env taken \<and> (taken \<noteq> [] \<longrightarrow> n \<le> budget)"
proof (induction env budget used ls arbitrary: taken n rule: take_fitting.induct)
  case (1 env budget used)
  then show ?case by (simp add: line_tokens_def)
next
  case (2 env budget used l ls)
  show ?case
  proof (cases "used + count_tokens env l > budget")
    case True
    with 2(2) show ?thesis by (auto simp: line_tokens_def intro: exI [of _ 0])
  next
    case False
    obtain taken' n' where rec: "take_fitting env budget (used + count_tokens env l) ls = (taken', n')" by fastforce
    with 2(2) False have t: "taken = l # taken'" "n = n'" by auto
    obtain k where "taken' = take k ls" using 2(1) [OF False rec] by blast
    then have "\<exists>k. taken = take k (l # ls)" by (intro exI [of _ "Suc k"]) (simp add: t)
    moreover have "n' = used + count_tokens env l + line_tokens env taken'" "taken' \<noteq> [] \<longrightarrow> n' \<le> budget"
      using 2(1) [OF False rec] by auto
    moreover have "line_tokens env taken = count_tokens env l + line_tokens env taken'" by (simp add: t line_tokens_def)
    moreover have "n \<le> budget" using calculation(3) False t(2) calculation(2)
      by (cases "taken' = []") (auto simp: line_tokens_def)
    ultimately show ?thesis using t(2) by auto
  qed
qed

lemma take_fitting_bound: "take_fitting env budget 0 ls = (taken, n) \<Longrightarrow> n = line_tokens env taken \<and> n \<le> budget"
  using take_fitting_spec [of env budget 0 ls taken n] by (cases "taken = []") (auto simp: line_tokens_def)

lemma take_fitting_all: "used + line_tokens env ls \<le> budget \<Longrightarrow> take_fitting env budget used ls = (ls, used + line_tokens env ls)"
  by (induction ls arbitrary: used) (auto simp: line_tokens_def)

text \<open>As long as head and tail do not meet, the head-and-tail compaction keeps a beginning and
  an end of the text, in order, says how many lines are left out, and the kept lines together
  have at most the budget less the five tokens reserved for that mark.\<close>

theorem head_tail_keeps_ends:
  assumes "str_lines body = ls" and "3 < length ls"
    and "take_fitting env ((max_tokens - 5) * 3 div 5) 0 ls = (head, n)"
    and "take_fitting env ((max_tokens - 5) * 2 div 5 + ((max_tokens - 5) * 3 div 5 - n)) 0 (rev ls) = (back, m)"
    and "length head + length back < length ls"
  shows "(\<exists>mid. ls = head @ mid @ rev back
      \<and> compact_head_tail env body max_tokens
        = join lf head @ lf @ ''... ('' @ show_nat (length mid) @ '' lines omitted) ...'' @ lf @ join lf (rev back))
    \<and> line_tokens env head + line_tokens env (rev back) \<le> max_tokens - 5"
proof (intro conjI)
  obtain k where k: "head = take k ls" using take_fitting_spec [OF assms(3)] by blast
  obtain j where j: "back = take j (rev ls)" using take_fitting_spec [OF assms(4)] by blast
  define p where "p = length ls - length back"
  have bk: "rev back = drop p ls" by (simp add: p_def j take_rev)
  have p: "length head \<le> p" "p \<le> length ls" using assms(5) by (simp_all add: p_def)
  have "take (length head) (take p ls) = head" using k p by (cases "k \<le> length ls") (simp_all add: min_def)
  then have "take p ls = head @ drop (length head) (take p ls)"
    using append_take_drop_id [of "length head" "take p ls"] by simp
  then have "head @ drop (length head) (take p ls) @ rev back = take p ls @ drop p ls"
    unfolding bk append_assoc [symmetric] by (rule arg_cong [where f = "\<lambda>x. x @ drop p ls", OF sym])
  then have split: "ls = head @ drop (length head) (take p ls) @ rev back" by simp
  have len: "length (drop (length head) (take p ls)) = length ls - (length head + length back)"
    using p by (simp add: p_def)
  have "compact_head_tail env body max_tokens
      = join lf head @ lf @ ''... ('' @ show_nat (length ls - (length head + length back)) @ '' lines omitted) ...'' @ lf
        @ join lf (rev back)"
    using assms by (simp add: compact_head_tail_def Let_def)
  with split len show "\<exists>mid. ls = head @ mid @ rev back
      \<and> compact_head_tail env body max_tokens
        = join lf head @ lf @ ''... ('' @ show_nat (length mid) @ '' lines omitted) ...'' @ lf @ join lf (rev back)"
    by (intro exI [of _ "drop (length head) (take p ls)"]) (simp only: simp_thms)
  have "line_tokens env (rev back) = line_tokens env back" by (simp add: line_tokens_def rev_map [symmetric])
  moreover have sum: "(max_tokens - 5) * 3 div 5 + (max_tokens - 5) * 2 div 5 \<le> max_tokens - 5" by simp
  moreover have "a + c \<le> b" if "a \<le> h" "c \<le> t + (h - a)" "h + t \<le> b" for a b c h t :: nat
    using that by simp
  moreover have "n = line_tokens env head" "n \<le> (max_tokens - 5) * 3 div 5" using take_fitting_bound [OF assms(3)] by simp_all
  moreover have "line_tokens env back \<le> (max_tokens - 5) * 2 div 5 + ((max_tokens - 5) * 3 div 5 - n)"
    using take_fitting_bound [OF assms(4)] by simp
  ultimately show "line_tokens env head + line_tokens env (rev back) \<le> max_tokens - 5" by metis
qed

text \<open>Line feeds are not counted while lines are taken, so a text of many short lines can be
  over the budget although all its lines fit the head: then the head is the whole text, the
  tail is taken a second time, and the compacted output repeats lines and is longer than the
  text it was to shorten.\<close>

theorem head_tail_repeats_lines:
  assumes "str_lines body = ls" and "3 < length ls" and "max_tokens < count_tokens env body"
    and "line_tokens env ls \<le> (max_tokens - 5) * 3 div 5"
    and "take_fitting env ((max_tokens - 5) * 2 div 5 + ((max_tokens - 5) * 3 div 5 - line_tokens env ls)) 0 (rev ls) = (back, m)"
  shows "apply_budget_to_text env body max_tokens HeadTail
    = \<lparr>bo_content = join lf ls @ join lf (rev back), bo_tokens = count_tokens env (join lf ls @ join lf (rev back)),
       bo_truncated = True, bo_original_tokens = count_tokens env body\<rparr>"
proof -
  have "take_fitting env ((max_tokens - 5) * 3 div 5) 0 ls = (ls, line_tokens env ls)"
    using take_fitting_all [of 0] assms(4) by simp
  then have "compact_head_tail env body max_tokens = join lf ls @ join lf (rev back)"
    using assms(1,2,5) by (simp add: compact_head_tail_def Let_def)
  with assms(3) show ?thesis by (simp add: apply_budget_to_text_def Let_def)
qed

text \<open>A tokenizer that counts one token for each byte.\<close>

definition byte_env :: output_env where
  "byte_env = \<lparr>count_tokens = length, to_json_compact = (\<lambda>_. []), to_json_pretty = (\<lambda>_. []), from_json = (\<lambda>_. None)\<rparr>"

theorem head_tail_keeps_ends_witness:
  "compact_head_tail byte_env (join lf [''aa'', ''bb'', ''cc'', ''dd'', ''ee'', ''ff'']) 11
    = join lf [''aa'', ''... (4 lines omitted) ...'', ''ff'']"
proof -
  let ?ls = "[''aa'', ''bb'', ''cc'', ''dd'', ''ee'', ''ff'']"
  have 1: "str_lines (join lf ?ls) = ?ls" "3 < length ?ls" by code_simp+
  have 2: "take_fitting byte_env ((11 - 5) * 3 div 5) 0 ?ls = ([''aa''], 2)" by code_simp
  have 3: "take_fitting byte_env ((11 - 5) * 2 div 5 + ((11 - 5) * 3 div 5 - 2)) 0 (rev ?ls) = ([''ff''], 2)"
    by code_simp
  obtain mid where mid: "?ls = [''aa''] @ mid @ rev [''ff'']"
    and out: "compact_head_tail byte_env (join lf ?ls) 11 = join lf [''aa''] @ lf @ ''... ('' @ show_nat (length mid)
      @ '' lines omitted) ...'' @ lf @ join lf (rev [''ff''])"
    using head_tail_keeps_ends [OF 1 2 3] by auto
  have "length mid = 4" using arg_cong [OF mid, of length] by simp
  moreover have "show_nat 4 = ''4''" by code_simp
  ultimately show ?thesis unfolding out by (simp add: lf_def)
qed

theorem head_tail_repeats_lines_witness:
  "bo_content (apply_budget_to_text byte_env (concat (replicate 20 (''a'' @ lf))) 39 HeadTail)
    = join lf (replicate 20 ''a'') @ join lf (replicate 13 ''a'')"
proof -
  let ?ls = "replicate 20 ''a''"
  let ?body = "concat (replicate 20 (''a'' @ lf))"
  have 1: "str_lines ?body = ?ls" by code_simp
  have 2: "3 < length ?ls" by simp
  have 3: "39 < count_tokens byte_env ?body" by code_simp
  have 4: "line_tokens byte_env ?ls \<le> (39 - 5) * 3 div 5" by code_simp
  have 5: "take_fitting byte_env ((39 - 5) * 2 div 5 + ((39 - 5) * 3 div 5 - line_tokens byte_env ?ls)) 0 (rev ?ls)
      = (replicate 13 ''a'', 13)" by code_simp
  show ?thesis using head_tail_repeats_lines [OF 1 2 3 4 5] by simp
qed

end
