(* ===== verification/Channel_Router.thy ===== *)
theory Channel_Router
  imports Encoding Interfaces
begin

text \<open>
  The channel router (\<open>channels/router.rs\<close>) with the events and messages it carries
  (\<open>channels/channel.rs\<close>, \<open>channels/message.rs\<close>), the notify tool (\<open>channels/tool.rs\<close>) and the
  file registry of dynamic channels (\<open>channels/registry.rs\<close>).

  A channel adapter is the trait object \<open>dyn Channel\<close>: its identifier, capabilities and
  formatting instructions are data, its methods are calls that are appended to a log.  What a
  call answers is a function of the log up to and including that call, the record
  \<open>adapters\<close>.  \<open>join_all\<close> starts its calls in the order of the list, which is the order of the
  log; the interleaving of their awaits is not modelled.
\<close>

section \<open>Channels\<close>

record channel_capabilities =
  cap_inbound :: bool
  cap_ask_human :: bool
  cap_typing_indicator :: bool
  cap_command_menu :: bool
  cap_max_message_len :: nat
  cap_message_edit :: bool
  cap_attachments :: bool
  cap_inbound_images :: bool
  cap_inbound_audio :: bool
  cap_rich_messages :: bool
  cap_reactions :: bool
  cap_native_api :: bool
  cap_deferred_start :: bool

definition default_capabilities :: channel_capabilities where
  "default_capabilities =
     \<lparr>cap_inbound = False, cap_ask_human = False, cap_typing_indicator = False, cap_command_menu = False,
      cap_max_message_len = 4096, cap_message_edit = False, cap_attachments = False, cap_inbound_images = False,
      cap_inbound_audio = False, cap_rich_messages = False, cap_reactions = False, cap_native_api = False,
      cap_deferred_start = False\<rparr>"

record channel =
  ch_id :: string
  ch_capabilities :: channel_capabilities
  ch_format_instructions :: "string option"

datatype channel_event =
    StreamToken string
  | ThinkingDelta string
  | TypingIndicator
  | ToolCallEvent (ce_call_id: string) (ce_name: string) (ce_args: string)
  | ToolResultEvent (ce_call_id: string) (ce_name: string) (ce_result: string)
  | ResetEvent
  | Done (ce_text: string) (ce_input_tokens: u64) (ce_output_tokens: u64) (ce_cached_input_tokens: u64) (ce_cache_write_tokens: u64)
  | ErrorEvent string
  | Retrying (ce_attempt: "32 word") (ce_max_attempts: "32 word") (ce_delay_secs: u64)
  | Notify string
  | Attachment (ce_filename: string) (ce_data: string) (ce_caption: "string option") (ce_mime_type: "string option")

record message_handle =
  mh_message_id :: "string option"
  mh_channel_id :: "string option"
  mh_conversation_id :: "string option"

definition default_handle :: message_handle where
  "default_handle = \<lparr>mh_message_id = None, mh_channel_id = None, mh_conversation_id = None\<rparr>"

record outbound_target =
  ot_recipient_id :: "string option"
  ot_sender_id :: "string option"
  ot_thread_id :: "string option"
  ot_session_id :: "string option"
  ot_reply_to_message_id :: "string option"
  ot_request_id :: "string option"
  ot_status_update :: bool

datatype parse_mode = MarkdownV2 | HTML | Plain

record inline_button =
  ib_text :: string
  ib_callback_data :: string

record keyboard_button =
  kb_text :: string

datatype reply_markup =
    InlineKeyboard "inline_button list list"
  | ReplyKeyboard "keyboard_button list list" (rm_resize: bool) (rm_one_time: bool)
  | RemoveKeyboard
  | ForceReply "string option"

record outbound_message =
  om_text :: string
  om_parse_mode :: "parse_mode option"
  om_reply_markup :: "reply_markup option"
  om_reply_to_message_id :: "string option"

record bot_command =
  bc_command :: string
  bc_description :: string

text \<open>The two fields of \<open>AdapterConfig\<close> the router reads.\<close>

record adapter_config =
  ac_id :: "string option"
  ac_adapter_type :: string

text \<open>A message from outside, with its attachments.\<close>

datatype inbound_attachment =
    ImageAttachment string string
  | AudioAttachment string string "nat option"
  | DocumentAttachment string string "string option"

record inbound_message =
  im_channel_id :: string
  im_sender_id :: string
  im_text :: string
  im_message_id :: "string option"
  im_conversation_id :: "string option"
  im_session_hint :: "string option"
  im_callback_url :: "string option"
  im_deferred :: bool
  im_attachments :: "inbound_attachment list"
  im_metadata :: "json option"

datatype channel_call =
    OnStart
  | OnStop
  | OnConfigUpdate adapter_config
  | SendEvent channel_event "outbound_target option"
  | UpdateMessage message_handle string
  | AskHuman string "u64 option" "outbound_target option"
  | StartListener
  | React string string string
  | SendMessage outbound_message "outbound_target option"
  | SendRaw string json
  | RegisterCommands "bot_command list"

type_synonym call_log = "(channel \<times> channel_call) list"

record adapters =
  answer_unit :: "call_log \<Rightarrow> string + unit"
  answer_handle :: "call_log \<Rightarrow> string + message_handle"
  answer_text :: "call_log \<Rightarrow> string + string"
  answer_json :: "call_log \<Rightarrow> string + json"

section \<open>The router\<close>

record router =
  rt_channels :: "channel list"
  rt_primary_idx :: nat

definition router_new :: "channel list \<Rightarrow> nat \<Rightarrow> router" where
  "router_new channels primary_idx = \<lparr>rt_channels = channels, rt_primary_idx = primary_idx\<rparr>"

definition channel_count :: "router \<Rightarrow> nat" where
  "channel_count r = length (rt_channels r)"

definition channel_ids :: "router \<Rightarrow> string" where
  "channel_ids r = join '','' (map ch_id (rt_channels r))"

definition channel_by_id :: "channel list \<Rightarrow> string \<Rightarrow> channel option" where
  "channel_by_id channels i = find (\<lambda>c. ch_id c = i) channels"

definition asks_human :: "channel \<Rightarrow> bool" where
  "asks_human c = cap_ask_human (ch_capabilities c)"

definition find_ask_human_in :: "channel list \<Rightarrow> nat \<Rightarrow> string option \<Rightarrow> channel option" where
  "find_ask_human_in channels primary_idx preferred =
     (case (case preferred of None \<Rightarrow> None | Some p \<Rightarrow> channel_by_id channels p) of
        Some ch \<Rightarrow>
          if asks_human ch then Some ch
          else if primary_idx < length channels \<and> asks_human (channels ! primary_idx) then Some (channels ! primary_idx)
          else find asks_human channels
      | None \<Rightarrow>
          if primary_idx < length channels \<and> asks_human (channels ! primary_idx) then Some (channels ! primary_idx)
          else find asks_human channels)"

definition primary_id :: "router \<Rightarrow> string" where
  "primary_id r =
     (case find_ask_human_in (rt_channels r) (rt_primary_idx r) None of
        Some c \<Rightarrow> ch_id c
      | None \<Rightarrow> (case rt_channels r of [] \<Rightarrow> ''none'' | c # _ \<Rightarrow> ch_id c))"

definition env_vars :: "router \<Rightarrow> (string \<times> string) list" where
  "env_vars r = [(''THAT_CHANNEL_IDS'', channel_ids r), (''THAT_CHANNEL_PRIMARY'', primary_id r)]"

definition initialize_filtered :: "router \<Rightarrow> bool \<Rightarrow> call_log \<Rightarrow> call_log" where
  "initialize_filtered r deferred log =
     foldl (\<lambda>log ch. log @ [(ch, OnStart)]) log
       (filter (\<lambda>ch. cap_deferred_start (ch_capabilities ch) = deferred) (rt_channels r))"

definition initialize_now :: "router \<Rightarrow> call_log \<Rightarrow> call_log" where
  "initialize_now r log = initialize_filtered r False log"

definition initialize_deferred :: "router \<Rightarrow> call_log \<Rightarrow> call_log" where
  "initialize_deferred r log = initialize_filtered r True log"

definition broadcast :: "router \<Rightarrow> channel_event \<Rightarrow> call_log \<Rightarrow> call_log" where
  "broadcast r event log = foldl (\<lambda>log ch. log @ [(ch, SendEvent event None)]) log (rt_channels r)"

definition send_to ::
  "adapters \<Rightarrow> router \<Rightarrow> string \<Rightarrow> channel_event \<Rightarrow> outbound_target option \<Rightarrow> call_log \<Rightarrow>
     (string + message_handle) \<times> call_log" where
  "send_to env r channel_id event target log =
     (case channel_by_id (rt_channels r) channel_id of
        None \<Rightarrow> (Inr default_handle, log)
      | Some ch \<Rightarrow> (let log' = log @ [(ch, SendEvent event target)] in (answer_handle env log', log')))"

definition notify_all :: "router \<Rightarrow> string \<Rightarrow> call_log \<Rightarrow> call_log" where
  "notify_all r message log = foldl (\<lambda>log ch. log @ [(ch, SendEvent (Notify message) None)]) log (rt_channels r)"

definition notify_channel :: "router \<Rightarrow> string \<Rightarrow> string \<Rightarrow> outbound_target option \<Rightarrow> call_log \<Rightarrow> call_log" where
  "notify_channel r channel_id message target log =
     (case channel_by_id (rt_channels r) channel_id of
        None \<Rightarrow> log
      | Some ch \<Rightarrow> log @ [(ch, SendEvent (Notify message) target)])"

definition no_ask_channel :: string where
  "no_ask_channel = ''No channel supports ask_human. Configure a Telegram or TUI channel ''
     @ ''as the primary channel (channels.primary) to handle human_ask interactions.''"

definition waiting_note :: "string \<Rightarrow> string \<Rightarrow> string" where
  "waiting_note primary message = ''Waiting for user input on `'' @ primary @ ''` channel: '' @ message"

definition ask_human_primary ::
  "adapters \<Rightarrow> router \<Rightarrow> string \<Rightarrow> u64 option \<Rightarrow> string option \<Rightarrow> outbound_target option \<Rightarrow> call_log \<Rightarrow>
     (string + string) \<times> call_log" where
  "ask_human_primary env r message timeout preferred target log =
     (case find_ask_human_in (rt_channels r) (rt_primary_idx r) preferred of
        None \<Rightarrow> (Inl no_ask_channel, log)
      | Some primary \<Rightarrow>
          (let log1 = foldl (\<lambda>log ch.
                 if ch_id ch \<noteq> ch_id primary
                 then log @ [(ch, SendEvent (Notify (waiting_note (ch_id primary) message)) None)] else log)
               log (rt_channels r);
               log2 = log1 @ [(primary, AskHuman message timeout target)]
           in (answer_text env log2, log2)))"

definition append_instructions :: "string \<Rightarrow> string option \<Rightarrow> string" where
  "append_instructions acc i =
     (case i of None \<Rightarrow> acc | Some s \<Rightarrow> (if acc = [] then acc else acc @ [newline]) @ s)"

definition combined_format_instructions :: "router \<Rightarrow> string" where
  "combined_format_instructions r = foldl append_instructions [] (map ch_format_instructions (rt_channels r))"

definition format_instructions_for :: "router \<Rightarrow> string \<Rightarrow> string" where
  "format_instructions_for r channel_id =
     (case channel_by_id (rt_channels r) channel_id of
        None \<Rightarrow> []
      | Some ch \<Rightarrow> (case ch_format_instructions ch of None \<Rightarrow> [] | Some s \<Rightarrow> s))"

definition start_listeners :: "router \<Rightarrow> call_log \<Rightarrow> call_log" where
  "start_listeners r log =
     foldl (\<lambda>log ch. if \<not> cap_inbound (ch_capabilities ch) then log else log @ [(ch, StartListener)]) log (rt_channels r)"

definition register_commands :: "router \<Rightarrow> bot_command list \<Rightarrow> call_log \<Rightarrow> call_log" where
  "register_commands r commands log =
     foldl (\<lambda>log ch. if \<not> cap_command_menu (ch_capabilities ch) then log else log @ [(ch, RegisterCommands commands)])
       log (rt_channels r)"

definition apply_config_updates :: "router \<Rightarrow> adapter_config list \<Rightarrow> call_log \<Rightarrow> call_log" where
  "apply_config_updates r configs log =
     foldl (\<lambda>log cfg.
       case channel_by_id (rt_channels r) (case ac_id cfg of Some i \<Rightarrow> i | None \<Rightarrow> ac_adapter_type cfg) of
         None \<Rightarrow> log | Some ch \<Rightarrow> log @ [(ch, OnConfigUpdate cfg)]) log configs"

definition react_to_message :: "router \<Rightarrow> string \<Rightarrow> string \<Rightarrow> string \<Rightarrow> string \<Rightarrow> call_log \<Rightarrow> call_log" where
  "react_to_message r channel_id chat_id message_id emoji log =
     (case channel_by_id (rt_channels r) channel_id of
        None \<Rightarrow> log
      | Some ch \<Rightarrow> if \<not> cap_reactions (ch_capabilities ch) then log else log @ [(ch, React chat_id message_id emoji)])"

definition update_message ::
  "adapters \<Rightarrow> router \<Rightarrow> message_handle \<Rightarrow> string \<Rightarrow> call_log \<Rightarrow> (string + unit) \<times> call_log" where
  "update_message env r h content log =
     (case mh_channel_id h of
        None \<Rightarrow> (Inr (), log)
      | Some i \<Rightarrow>
          (case channel_by_id (rt_channels r) i of
             None \<Rightarrow> (Inr (), log)
           | Some ch \<Rightarrow> (let log' = log @ [(ch, UpdateMessage h content)] in (answer_unit env log', log'))))"

definition channel_not_found :: "string \<Rightarrow> string" where
  "channel_not_found i = ''channel '' @ [CHR 0x27] @ i @ [CHR 0x27] @ '' not found''"

definition send_message ::
  "adapters \<Rightarrow> router \<Rightarrow> string \<Rightarrow> outbound_message \<Rightarrow> outbound_target option \<Rightarrow> call_log \<Rightarrow>
     (string + message_handle) \<times> call_log" where
  "send_message env r channel_id msg target log =
     (case channel_by_id (rt_channels r) channel_id of
        None \<Rightarrow> (Inl (channel_not_found channel_id), log)
      | Some ch \<Rightarrow> (let log' = log @ [(ch, SendMessage msg target)] in (answer_handle env log', log')))"

definition send_raw ::
  "adapters \<Rightarrow> router \<Rightarrow> string \<Rightarrow> string \<Rightarrow> json \<Rightarrow> call_log \<Rightarrow> (string + json) \<times> call_log" where
  "send_raw env r channel_id meth payload log =
     (case channel_by_id (rt_channels r) channel_id of
        None \<Rightarrow> (Inl (channel_not_found channel_id), log)
      | Some ch \<Rightarrow> (let log' = log @ [(ch, SendRaw meth payload)] in (answer_json env log', log')))"

definition add_channel :: "channel \<Rightarrow> router \<times> call_log \<Rightarrow> router \<times> call_log" where
  "add_channel ch s =
     (case s of (r, log) \<Rightarrow>
        (r\<lparr>rt_channels := rt_channels r @ [ch]\<rparr>,
         log @ (ch, OnStart) # (if cap_inbound (ch_capabilities ch) then [(ch, StartListener)] else [])))"

fun remove_first :: "('a \<Rightarrow> bool) \<Rightarrow> 'a list \<Rightarrow> ('a \<times> 'a list) option" where
  "remove_first p [] = None"
| "remove_first p (x # xs) =
     (if p x then Some (x, xs)
      else case remove_first p xs of None \<Rightarrow> None | Some (y, ys) \<Rightarrow> Some (y, x # ys))"

definition remove_channel :: "string \<Rightarrow> router \<times> call_log \<Rightarrow> router \<times> call_log" where
  "remove_channel i s =
     (case s of (r, log) \<Rightarrow>
        (case remove_first (\<lambda>c. ch_id c = i) (rt_channels r) of
           None \<Rightarrow> (r, log)
         | Some (ch, rest) \<Rightarrow> (r\<lparr>rt_channels := rest\<rparr>, log @ [(ch, OnStop)])))"

section \<open>The notify tool\<close>

record notify_tool =
  nt_router :: router
  nt_channel_id :: "string option"
  nt_target :: "outbound_target option"

text \<open>The answer of the tool is always \<open>{"sent": true}\<close>.\<close>

definition notify_call :: "notify_tool \<Rightarrow> string \<Rightarrow> call_log \<Rightarrow> bool \<times> call_log" where
  "notify_call t message log =
     (True,
      case nt_channel_id t of
        Some i \<Rightarrow> notify_channel (nt_router t) i message (nt_target t) log
      | None \<Rightarrow> notify_all (nt_router t) message log)"

section \<open>The registry of dynamic channels\<close>

record channel_entry =
  ce_id :: string
  ce_callback_url :: string
  ce_capabilities :: "string list"
  ce_registered_at :: string

text \<open>The registry file: its text if it exists, the codec of the entries, the error of a file
  that is not UTF-8, and whether \<open>atomic_write_json\<close> succeeds.\<close>

record registry_env =
  print_entries :: "channel_entry list \<Rightarrow> string"
  parse_entries :: "string \<Rightarrow> channel_entry list option"
  atomic_write_error :: "string option"

datatype registry_failure = ReadFailed | BadJson | WriteFailed string

definition registry_load :: "registry_env \<Rightarrow> string option \<Rightarrow> registry_failure + channel_entry list" where
  "registry_load env file =
     (case file of
        None \<Rightarrow> Inr []
      | Some s \<Rightarrow> if \<not> utf8_ok s then Inl ReadFailed
          else (case parse_entries env s of None \<Rightarrow> Inl BadJson | Some es \<Rightarrow> Inr es))"

definition registry_save ::
  "registry_env \<Rightarrow> channel_entry list \<Rightarrow> string option \<Rightarrow> (registry_failure + unit) \<times> string option" where
  "registry_save env es file =
     (case atomic_write_error env of
        Some e \<Rightarrow> (Inl (WriteFailed e), file)
      | None \<Rightarrow> (Inr (), Some (print_entries env es)))"

definition put_entry :: "channel_entry list \<Rightarrow> channel_entry \<Rightarrow> channel_entry list" where
  "put_entry es e = filter (\<lambda>x. ce_id x \<noteq> ce_id e) es @ [e]"

definition drop_entry :: "channel_entry list \<Rightarrow> string \<Rightarrow> channel_entry list" where
  "drop_entry es i = filter (\<lambda>x. ce_id x \<noteq> i) es"

definition register_channel ::
  "registry_env \<Rightarrow> channel_entry \<Rightarrow> string option \<Rightarrow> (registry_failure + unit) \<times> string option" where
  "register_channel env e file =
     (case registry_load env file of
        Inl err \<Rightarrow> (Inl err, file)
      | Inr es \<Rightarrow> registry_save env (put_entry es e) file)"

definition unregister_channel ::
  "registry_env \<Rightarrow> string \<Rightarrow> string option \<Rightarrow> (registry_failure + unit) \<times> string option" where
  "unregister_channel env i file =
     (case registry_load env file of
        Inl err \<Rightarrow> (Inl err, file)
      | Inr es \<Rightarrow> registry_save env (drop_entry es i) file)"

definition list_channels :: "registry_env \<Rightarrow> string option \<Rightarrow> registry_failure + channel_entry list" where
  "list_channels env file = registry_load env file"

end
