(* ===== verification/Channel_Props.thy ===== *)
theory Channel_Props
  imports Channel_Router
begin

text \<open>What the channel router promises: who is asked, who is told, and that the dynamic channel
  registry is a table by identifier.\<close>

section \<open>Calls\<close>

lemma foldl_log: "foldl (\<lambda>log x. log @ f x) log xs = log @ concat (map f xs)"
  by (induction xs arbitrary: log) auto

lemma foldl_log_filter:
  "foldl (\<lambda>log x. if P x then log @ [f x] else log) log xs = log @ map f (filter P xs)"
  by (induction xs arbitrary: log) auto

lemma broadcast_log: "broadcast r ev log = log @ map (\<lambda>ch. (ch, SendEvent ev None)) (rt_channels r)"
  using foldl_log [of "\<lambda>ch. [(ch, SendEvent ev None)]"] by (simp add: broadcast_def concat_map_singleton)

lemma find_ask_human_None: "find_ask_human_in chs i pref = None \<longleftrightarrow> \<not> (\<exists>c\<in>set chs. asks_human c)"
  by (auto simp: find_ask_human_in_def channel_by_id_def find_None_iff find_Some_iff set_conv_nth
      split: option.split if_splits)

lemma find_ask_human_Some: "find_ask_human_in chs i pref = Some p \<Longrightarrow> p \<in> set chs \<and> asks_human p"
  by (auto simp: find_ask_human_in_def channel_by_id_def find_Some_iff split: option.splits if_splits)

lemma find_ask_human_preferred:
  "channel_by_id chs i = Some c \<Longrightarrow> asks_human c \<Longrightarrow> find_ask_human_in chs k (Some i) = Some c"
  by (simp add: find_ask_human_in_def)

text \<open>(C34) A question reaches exactly one channel, and one that can answer it: if no channel can, the
  question fails and nothing is sent; otherwise every channel with another identifier first
  gets one note, in order, then one channel that declares the capability is asked - the
  preferred one, if it can - and its answer is the result, also when a note failed.\<close>

theorem question_reaches_one:
  "case ask_human_primary env r msg timeout preferred target log of (res, log') \<Rightarrow>
     if \<not> (\<exists>c\<in>set (rt_channels r). asks_human c) then res = Inl no_ask_channel \<and> log' = log
     else \<exists>p\<in>set (rt_channels r). asks_human p
       \<and> log' = log
           @ map (\<lambda>c. (c, SendEvent (Notify (waiting_note (ch_id p) msg)) None)) (filter (\<lambda>c. ch_id c \<noteq> ch_id p) (rt_channels r))
           @ [(p, AskHuman msg timeout target)]
       \<and> res = answer_text env log'
       \<and> (case preferred of None \<Rightarrow> True | Some i \<Rightarrow>
            (case channel_by_id (rt_channels r) i of Some c \<Rightarrow> asks_human c \<longrightarrow> p = c | None \<Rightarrow> True))"
proof (cases "find_ask_human_in (rt_channels r) (rt_primary_idx r) preferred")
  case None
  then have none: "\<not> (\<exists>c\<in>set (rt_channels r). asks_human c)" by (simp add: find_ask_human_None)
  have "ask_human_primary env r msg timeout preferred target log = (Inl no_ask_channel, log)"
    using None by (simp add: ask_human_primary_def)
  with none show ?thesis by simp
next
  case (Some p)
  note p = find_ask_human_Some [OF Some]
  have "(case preferred of None \<Rightarrow> True | Some i \<Rightarrow>
            (case channel_by_id (rt_channels r) i of Some c \<Rightarrow> asks_human c \<longrightarrow> p = c | None \<Rightarrow> True))"
    using find_ask_human_preferred Some by (auto split: option.split)
  then show ?thesis
    using p Some by (auto simp: ask_human_primary_def Let_def foldl_log_filter intro!: bexI [of _ p])
qed

definition demo_channel :: "string \<Rightarrow> channel" where
  "demo_channel i = \<lparr>ch_id = i, ch_capabilities = default_capabilities\<lparr>cap_ask_human := True\<rparr>, ch_format_instructions = None\<rparr>"

theorem question_reaches_one_witness:
  "\<forall>env. snd (ask_human_primary env (router_new (map demo_channel [''http'', ''tui'']) 0) ''ok'' None (Some ''tui'') None [])
     = [(demo_channel ''http'', SendEvent (Notify (waiting_note ''tui'' ''ok'')) None), (demo_channel ''tui'', AskHuman ''ok'' None None)]"
proof
  fix env
  let ?r = "router_new (map demo_channel [''http'', ''tui'']) 0"
  have able: "\<exists>c\<in>set (rt_channels ?r). asks_human c" by (simp add: router_new_def asks_human_def demo_channel_def)
  have tui: "channel_by_id (rt_channels ?r) ''tui'' = Some (demo_channel ''tui'')" "asks_human (demo_channel ''tui'')"
    by (simp_all add: router_new_def channel_by_id_def asks_human_def demo_channel_def)
  obtain res log' where q: "ask_human_primary env ?r ''ok'' None (Some ''tui'') None [] = (res, log')" by fastforce
  from question_reaches_one [where env = env and r = ?r and msg = "''ok''" and timeout = None
      and preferred = "Some ''tui''" and target = None and log = "[]"] able tui
  have "log' = [(demo_channel ''http'', SendEvent (Notify (waiting_note ''tui'' ''ok'')) None), (demo_channel ''tui'', AskHuman ''ok'' None None)]"
    unfolding q by (auto simp: router_new_def) (simp_all add: demo_channel_def)
  then show "snd (ask_human_primary env ?r ''ok'' None (Some ''tui'') None [])
     = [(demo_channel ''http'', SendEvent (Notify (waiting_note ''tui'' ''ok'')) None), (demo_channel ''tui'', AskHuman ''ok'' None None)]"
    unfolding q by (simp only: snd_conv)
qed

section \<open>Adding and removing\<close>

lemma remove_first_None: "remove_first P xs = None \<longleftrightarrow> \<not> (\<exists>x\<in>set xs. P x)"
  by (induction xs) (auto split: option.split)

lemma remove_first_Some:
  "remove_first P xs = Some (y, ys) \<Longrightarrow>
     \<exists>as bs. xs = as @ y # bs \<and> ys = as @ bs \<and> P y \<and> \<not> (\<exists>a\<in>set as. P a)"
proof (induction xs arbitrary: ys)
  case (Cons x xs)
  show ?case
  proof (cases "P x")
    case True
    then show ?thesis using Cons.prems by (intro exI [of _ "[]"] exI [of _ xs]) auto
  next
    case False
    then obtain zs where "remove_first P xs = Some (y, zs)" "ys = x # zs"
      using Cons.prems by (auto split: option.splits)
    then obtain as bs where "xs = as @ y # bs" "ys = x # as @ bs" "P y" "\<not> (\<exists>a\<in>set as. P a)"
      using Cons.IH by blast
    then show ?thesis using False by (intro exI [of _ "x # as"] exI [of _ bs]) auto
  qed
qed simp

lemma remove_first_skip:
  "\<not> (\<exists>a\<in>set as. P a) \<Longrightarrow> P y \<Longrightarrow> remove_first P (as @ y # bs) = Some (y, as @ bs)"
  by (induction as) auto

text \<open>The configured primary channel is a position, not a channel: when a channel before it is
  removed at run time, the channel after it becomes the one that is asked.\<close>

theorem removal_shifts_primary:
  assumes "rt_channels r = as @ x # bs @ p # q # cs" and "rt_primary_idx r = length (as @ x # bs)"
    and "asks_human p" and "asks_human q" and "\<forall>a\<in>set as. ch_id a \<noteq> ch_id x"
  shows "primary_id r = ch_id p \<and> primary_id (fst (remove_channel (ch_id x) (r, log))) = ch_id q"
proof
  have "rt_channels r ! rt_primary_idx r = p"
    using assms(1,2) nth_append_length [of "as @ x # bs" p "q # cs"] by simp
  then show "primary_id r = ch_id p"
    using assms(1-3) by (simp add: primary_id_def find_ask_human_in_def)
  have removed: "fst (remove_channel (ch_id x) (r, log)) = r\<lparr>rt_channels := as @ bs @ p # q # cs\<rparr>"
    using assms(5) remove_first_skip [of as "\<lambda>c. ch_id c = ch_id x" x "bs @ p # q # cs"]
    by (simp add: remove_channel_def assms(1))
  have "(as @ bs @ p # q # cs) ! rt_primary_idx r = q"
    using assms(2) nth_append_length [of "as @ bs @ [p]" q cs] by simp
  then show "primary_id (fst (remove_channel (ch_id x) (r, log))) = ch_id q"
    using assms(2,4) by (simp add: primary_id_def find_ask_human_in_def removed)
qed

theorem removal_shifts_primary_witness:
  "primary_id (fst (remove_channel ''http'' (router_new (map demo_channel [''http'', ''telegram'', ''tui'']) 1, []))) = ''tui''"
proof -
  let ?r = "router_new (map demo_channel [''http'', ''telegram'', ''tui'']) 1"
  have "primary_id ?r = ch_id (demo_channel ''telegram'')
      \<and> primary_id (fst (remove_channel (ch_id (demo_channel ''http'')) (?r, []))) = ch_id (demo_channel ''tui'')"
    by (rule removal_shifts_primary [where as = "[]" and bs = "[]" and cs = "[]"])
      (simp_all add: router_new_def asks_human_def demo_channel_def)
  then show ?thesis by (simp add: demo_channel_def)
qed

section \<open>The registry of dynamic channels\<close>

interpretation entries: keyed_table ce_id put_entry drop_entry
proof unfold_locales
  fix xs :: "channel_entry list" and a k k'
  show "lookup_by ce_id (put_entry xs a) k = (if k = ce_id a then Some a else lookup_by ce_id xs k)"
    by (auto simp: put_entry_def lookup_by_append lookup_by_filter_neq split: option.splits)
      (auto simp: lookup_by_def)
  show "lookup_by ce_id (drop_entry xs k') k = (if k = k' then None else lookup_by ce_id xs k)"
    by (simp add: drop_entry_def lookup_by_filter_neq)
  show "distinct (map ce_id xs) \<Longrightarrow> distinct (map ce_id (put_entry xs a))"
    by (auto simp: put_entry_def distinct_map intro: inj_on_subset)
  show "distinct (map ce_id xs) \<Longrightarrow> distinct (map ce_id (drop_entry xs k))"
    by (auto simp: drop_entry_def distinct_map intro: inj_on_subset)
qed

definition registry_op :: "registry_env \<Rightarrow> string option \<Rightarrow> (string, channel_entry) table_op \<Rightarrow> string option" where
  "registry_op env f op =
     (case op of Put e \<Rightarrow> snd (register_channel env e f) | Del i \<Rightarrow> snd (unregister_channel env i f))"

definition stored_entries :: "registry_env \<Rightarrow> string option \<Rightarrow> channel_entry list" where
  "stored_entries env f = (case list_channels env f of Inl _ \<Rightarrow> [] | Inr es \<Rightarrow> es)"

definition entries_read_back :: "registry_env \<Rightarrow> channel_entry list \<Rightarrow> bool" where
  "entries_read_back env es \<longleftrightarrow> utf8_ok (print_entries env es) \<and> parse_entries env (print_entries env es) = Some es"

lemma registry_op_reads:
  assumes "atomic_write_error env = None" and "list_channels env f = Inr es"
    and "entries_read_back env (table_run put_entry drop_entry es op)"
  shows "list_channels env (registry_op env f op) = Inr (table_run put_entry drop_entry es op)"
proof -
  have "registry_op env f op = Some (print_entries env (table_run put_entry drop_entry es op))"
    using assms(1,2)
    by (cases op) (simp_all add: registry_op_def table_run_def register_channel_def unregister_channel_def
        registry_save_def list_channels_def)
  then show ?thesis using assms(3) by (simp add: list_channels_def registry_load_def entries_read_back_def)
qed

text \<open>Over any sequence of registrations and removals the registry file is a map from
  identifiers to entries, with at most one entry for each identifier.\<close>

theorem channel_registry_refines_map:
  assumes "atomic_write_error env = None" and "list_channels env f = Inr es" and "distinct (map ce_id es)"
    and "\<And>n. entries_read_back env (foldl (table_run put_entry drop_entry) es (take n ops))"
  shows "\<exists>es'. list_channels env (foldl (registry_op env) f ops) = Inr es' \<and> distinct (map ce_id es')
    \<and> lookup_by ce_id es' = foldl (table_spec ce_id) (lookup_by ce_id es) ops"
proof -
  have "list_channels env (foldl (registry_op env) f ops) = Inr (foldl (table_run put_entry drop_entry) es ops)"
    using assms(2,4)
  proof (induction ops arbitrary: f es)
    case (Cons op ops)
    have "entries_read_back env (table_run put_entry drop_entry es op)" using Cons.prems(2) [of 1] by simp
    then have "list_channels env (registry_op env f op) = Inr (table_run put_entry drop_entry es op)"
      by (rule registry_op_reads [OF assms(1) Cons.prems(1)])
    then have "list_channels env (foldl (registry_op env) (registry_op env f op) ops)
        = Inr (foldl (table_run put_entry drop_entry) (table_run put_entry drop_entry es op) ops)"
    proof (rule Cons.IH)
      show "entries_read_back env (foldl (table_run put_entry drop_entry) (table_run put_entry drop_entry es op) (take n ops))" for n
        using Cons.prems(2) [of "Suc n"] by simp
    qed
    then show ?case by simp
  qed simp
  then show ?thesis using entries.run_ops_refine [of es ops] entries.run_ops_distinct [OF assms(3), of ops] by simp
qed

definition demo_channel_entry :: channel_entry where
  "demo_channel_entry = \<lparr>ce_id = ''bot'', ce_callback_url = ''http://cb'', ce_capabilities = [], ce_registered_at = ''now''\<rparr>"

definition demo_registry_env :: registry_env where
  "demo_registry_env = \<lparr>print_entries = (\<lambda>es. if es = [] then ''[]'' else ''[bot]''),
     parse_entries = (\<lambda>s. Some (if s = ''[]'' then [] else [demo_channel_entry])), atomic_write_error = None\<rparr>"

theorem channel_registry_refines_map_witness:
  "\<exists>es'. list_channels demo_registry_env (foldl (registry_op demo_registry_env) None [Put demo_channel_entry, Del ''tg'', Put demo_channel_entry])
      = Inr es' \<and> lookup_by ce_id es' ''bot'' = Some demo_channel_entry"
proof -
  let ?ops = "[Put demo_channel_entry, Del ''tg'', Put demo_channel_entry]"
  have readable: "entries_read_back demo_registry_env es" if "es = [] \<or> es = [demo_channel_entry]" for es
    using that by (auto simp: entries_read_back_def demo_registry_env_def intro!: utf8_ok_ascii simp: is_ascii_def)
  have "foldl (table_run put_entry drop_entry) [] (take n ?ops) = (if n = 0 then [] else [demo_channel_entry])" for n
    by (cases n; cases "n - 1"; cases "n - 2")
      (auto simp: table_run_def put_entry_def drop_entry_def demo_channel_entry_def take_Cons split: nat.split)
  then have "entries_read_back demo_registry_env (foldl (table_run put_entry drop_entry) [] (take n ?ops))" for n
    by (simp add: readable)
  moreover have "list_channels demo_registry_env None = Inr []" by (simp add: list_channels_def registry_load_def)
  ultimately have "\<exists>es'. list_channels demo_registry_env (foldl (registry_op demo_registry_env) None ?ops) = Inr es' \<and> distinct (map ce_id es')
    \<and> lookup_by ce_id es' = foldl (table_spec ce_id) (lookup_by ce_id []) ?ops"
    by (intro channel_registry_refines_map) (simp_all add: demo_registry_env_def)
  then show ?thesis by (auto simp: table_spec_def demo_channel_entry_def)
qed

end
