(* ===== verification/Path_Lock.thy ===== *)
theory Path_Lock
  imports Prelude
begin

text \<open>
  The lock file that guards the journals (\<open>acquire_path_lock\<close>, \<open>PathLockGuard\<close> and
  \<open>with_path_lock\<close> of \<open>channels/mod.rs\<close>), twice: the acquiring loop of one process as a function
  of what it observes, and the system of all processes that use one lock file as a step
  relation.  Times are in milliseconds.
\<close>

section \<open>The loop of one process\<close>

definition wait_timeout :: nat where "wait_timeout = 5000"
definition stale_after :: nat where "stale_after = 120000"

text \<open>What one round sees: the result of \<open>create_new\<close>, and, when the file exists, its age (\<open>None\<close>
  if the metadata cannot be read or lie in the future) and the time since the start.\<close>

datatype open_result = Created | AlreadyExists "nat option" nat | OpenError string

datatype lock_result = Acquired | TimedOut | OpenFailed string

definition is_stale :: "nat option \<Rightarrow> bool" where
  "is_stale age = (case age of None \<Rightarrow> False | Some a \<Rightarrow> a > stale_after)"

text \<open>\<open>obs n\<close> is what round \<open>n\<close> sees; \<open>None\<close> means that the fuel ran out and the loop is still
  running.\<close>

fun acquire_loop :: "(nat \<Rightarrow> open_result) \<Rightarrow> nat \<Rightarrow> nat \<Rightarrow> lock_result option" where
  "acquire_loop obs n 0 = None"
| "acquire_loop obs n (Suc fuel) =
     (case obs n of
        Created \<Rightarrow> Some Acquired
      | OpenError e \<Rightarrow> Some (OpenFailed e)
      | AlreadyExists age elapsed \<Rightarrow>
          if is_stale age then acquire_loop obs (Suc n) fuel
          else if \<not> elapsed < wait_timeout then Some TimedOut
          else acquire_loop obs (Suc n) fuel)"

definition acquire_path_lock :: "(nat \<Rightarrow> open_result) \<Rightarrow> nat \<Rightarrow> lock_result option" where
  "acquire_path_lock obs fuel = acquire_loop obs 0 fuel"

text \<open>The body runs only with the lock.\<close>

definition with_path_lock :: "lock_result \<Rightarrow> (unit \<Rightarrow> 's \<Rightarrow> (string + 'a) \<times> 's) \<Rightarrow> 's \<Rightarrow> (string + 'a) \<times> 's" where
  "with_path_lock r f s =
     (case r of
        Acquired \<Rightarrow> f () s
      | TimedOut \<Rightarrow> (Inl ''timed out waiting for file lock'', s)
      | OpenFailed e \<Rightarrow> (Inl e, s))"

lemma acquire_loop_returns:
  assumes "\<And>i. n \<le> i \<Longrightarrow> i < n + fuel \<Longrightarrow>
      (case obs i of AlreadyExists age elapsed \<Rightarrow> \<not> is_stale age \<and> 10 * i \<le> elapsed | _ \<Rightarrow> True)"
    and "wait_timeout < 10 * (n + fuel)" and "0 < fuel"
  shows "\<exists>r. acquire_loop obs n fuel = Some r"
  using assms
proof (induction fuel arbitrary: n)
  case (Suc fuel)
  show ?case
  proof (cases "obs n")
    case (AlreadyExists age elapsed)
    then have now: "\<not> is_stale age" "10 * n \<le> elapsed" using Suc.prems(1) [of n] by simp_all
    show ?thesis
    proof (cases "elapsed < wait_timeout")
      case True
      then have "0 < fuel" using now(2) Suc.prems(2) by (cases fuel) (simp_all add: wait_timeout_def)
      moreover have "(case obs i of AlreadyExists age elapsed \<Rightarrow> \<not> is_stale age \<and> 10 * i \<le> elapsed | _ \<Rightarrow> True)"
        if "Suc n \<le> i" "i < Suc n + fuel" for i
        using Suc.prems(1) [of i] that by simp
      moreover have "wait_timeout < 10 * (Suc n + fuel)" using Suc.prems(2) by simp
      ultimately have "\<exists>r. acquire_loop obs (Suc n) fuel = Some r" by (intro Suc.IH)
      then show ?thesis using AlreadyExists now(1) True by simp
    next
      case False
      then show ?thesis using AlreadyExists now(1) by simp
    qed
  qed simp_all
qed simp

text \<open>(C32) Acquiring gives up: if every round after the first sleeps its ten milliseconds and no
  round finds the lock file stale, the loop returns within 501 rounds, with the lock, a time-out
  or the error of opening the file.\<close>

theorem acquire_returns:
  assumes "\<And>i age elapsed. i \<le> 500 \<Longrightarrow> obs i = AlreadyExists age elapsed \<Longrightarrow> \<not> is_stale age \<and> 10 * i \<le> elapsed"
  shows "\<exists>r. acquire_path_lock obs 501 = Some r"
  unfolding acquire_path_lock_def
proof (rule acquire_loop_returns)
  fix i assume "0 \<le> i" "i < 0 + (501 :: nat)"
  then show "case obs i of AlreadyExists age elapsed \<Rightarrow> \<not> is_stale age \<and> 10 * i \<le> elapsed | _ \<Rightarrow> True"
    using assms [of i] by (auto split: open_result.split)
qed (simp_all add: wait_timeout_def)

theorem acquire_returns_witness:
  "\<exists>r. acquire_path_lock (\<lambda>i. AlreadyExists (Some 30) (10 * i)) 501 = Some r"
  by (rule acquire_returns) (auto simp: is_stale_def stale_after_def)

text \<open>(C40) A stale lock file that cannot be removed keeps the loop busy for ever: the time-out is
  not looked at on that branch.\<close>

theorem stale_lock_never_returns:
  assumes "\<And>i. \<exists>age elapsed. obs i = AlreadyExists (Some age) elapsed \<and> age > 120000"
  shows "acquire_path_lock obs fuel = None"
proof -
  have "acquire_loop obs n fuel = None" for n
  proof (induction fuel arbitrary: n)
    case (Suc fuel)
    obtain age elapsed where "obs n = AlreadyExists (Some age) elapsed" "age > 120000" using assms by blast
    then show ?case using Suc by (simp add: is_stale_def stale_after_def)
  qed simp
  then show ?thesis by (simp add: acquire_path_lock_def)
qed

theorem stale_lock_never_returns_witness:
  "acquire_path_lock (\<lambda>i. AlreadyExists (Some (200000 + i)) i) 1000 = None"
  by (rule stale_lock_never_returns) simp

section \<open>All processes\<close>

text \<open>Where a process is: the system calls of a round are separate steps, and what was seen by one
  may be outdated at the next.\<close>

datatype phase = Idle | Trying nat | Checking nat | Removing nat | Holding nat | GaveUp

record lock_system =
  ls_now :: nat
  ls_file :: "nat option"
  ls_phase :: "nat \<Rightarrow> phase"

definition move :: "nat \<Rightarrow> phase \<Rightarrow> lock_system \<Rightarrow> lock_system" where
  "move p ph s = s\<lparr>ls_phase := (ls_phase s)(p := ph)\<rparr>"

text \<open>The file is its modification time.\<close>

inductive lock_step :: "lock_system \<Rightarrow> lock_system \<Rightarrow> bool" where
  tick: "lock_step s (s\<lparr>ls_now := ls_now s + d\<rparr>)"
| start: "ls_phase s p = Idle \<Longrightarrow> lock_step s (move p (Trying (ls_now s)) s)"
| create: "ls_phase s p = Trying t0 \<Longrightarrow> ls_file s = None \<Longrightarrow>
    lock_step s (move p (Holding (ls_now s)) (s\<lparr>ls_file := Some (ls_now s)\<rparr>))"
| occupied: "ls_phase s p = Trying t0 \<Longrightarrow> ls_file s = Some m \<Longrightarrow> lock_step s (move p (Checking t0) s)"
| stale: "ls_phase s p = Checking t0 \<Longrightarrow> ls_file s = Some m \<Longrightarrow> is_stale (Some (ls_now s - m)) \<Longrightarrow>
    lock_step s (move p (Removing t0) s)"
| wait: "ls_phase s p = Checking t0 \<Longrightarrow> \<not> is_stale (map_option (\<lambda>m. ls_now s - m) (ls_file s)) \<Longrightarrow>
    ls_now s - t0 < wait_timeout \<Longrightarrow> lock_step s (move p (Trying t0) s)"
| give_up: "ls_phase s p = Checking t0 \<Longrightarrow> \<not> is_stale (map_option (\<lambda>m. ls_now s - m) (ls_file s)) \<Longrightarrow>
    \<not> ls_now s - t0 < wait_timeout \<Longrightarrow> lock_step s (move p GaveUp s)"
| remove: "ls_phase s p = Removing t0 \<Longrightarrow> lock_step s (move p (Trying t0) (s\<lparr>ls_file := None\<rparr>))"
| release: "ls_phase s p = Holding t0 \<Longrightarrow> lock_step s (move p Idle (s\<lparr>ls_file := None\<rparr>))"

inductive_cases lock_stepE: "lock_step s s'"

definition lock_init :: "nat option \<Rightarrow> nat \<Rightarrow> lock_system" where
  "lock_init f now = \<lparr>ls_now = now, ls_file = f, ls_phase = (\<lambda>_. Idle)\<rparr>"

definition timely :: "lock_system \<Rightarrow> bool" where
  "timely s \<longleftrightarrow> (\<forall>p t. ls_phase s p = Holding t \<longrightarrow> ls_now s - t \<le> stale_after)"

text \<open>Runs in which no holder keeps the lock beyond the age at which it counts as stale.\<close>

inductive timely_run :: "lock_system \<Rightarrow> lock_system \<Rightarrow> bool" where
  here: "timely s \<Longrightarrow> timely_run s s"
| more: "timely_run s s' \<Longrightarrow> lock_step s' s'' \<Longrightarrow> timely s'' \<Longrightarrow> timely_run s s''"







lemma timely_chain:
  "successively lock_step (s # ss) \<Longrightarrow> list_all timely (s # ss) \<Longrightarrow> timely_run s (last (s # ss))"
proof (induction ss rule: rev_induct)
  case Nil
  then show ?case by (simp add: timely_run.here)
next
  case (snoc x xs)
  then have "timely_run s (last (s # xs))" by (simp add: successively_append_iff flip: append_Cons)
  moreover have "lock_step (last (s # xs)) x" using snoc.prems(1) by (simp add: successively_append_iff flip: append_Cons)
  ultimately show ?case using snoc.prems(2) by (auto intro: timely_run.more)
qed

text \<open>Two processes, 10 and 20, at time 130000.\<close>

definition duo :: "nat option \<Rightarrow> phase \<Rightarrow> phase \<Rightarrow> lock_system" where
  "duo f a b = \<lparr>ls_now = 130000, ls_file = f, ls_phase = (\<lambda>_. Idle)(10 := a, 20 := b)\<rparr>"

lemma duo_sel:
  "ls_phase (duo f a b) 10 = a" "ls_phase (duo f a b) 20 = b" "ls_file (duo f a b) = f" "ls_now (duo f a b) = 130000"
  "move 10 a' (duo f a b) = duo f a' b" "move 20 b' (duo f a b) = duo f a b'" "(duo f a b)\<lparr>ls_file := f'\<rparr> = duo f' a b"
  by (auto simp: duo_def move_def fun_eq_iff)

lemma duo_steps:
  "lock_step (duo f Idle b) (duo f (Trying 130000) b)" "lock_step (duo f a Idle) (duo f a (Trying 130000))"
  "lock_step (duo (Some m) (Trying t) b) (duo (Some m) (Checking t) b)"
  "lock_step (duo (Some m) a (Trying t)) (duo (Some m) a (Checking t))"
  "lock_step (duo (Some 0) (Checking t) b) (duo (Some 0) (Removing t) b)"
  "lock_step (duo (Some 0) a (Checking t)) (duo (Some 0) a (Removing t))"
  "lock_step (duo f (Removing t) b) (duo None (Trying t) b)" "lock_step (duo f a (Removing t)) (duo None a (Trying t))"
  "lock_step (duo None (Trying t) b) (duo (Some 130000) (Holding 130000) b)"
  "lock_step (duo None a (Trying t)) (duo (Some 130000) a (Holding 130000))"
  using start [of "duo f Idle b" 10] start [of "duo f a Idle" 20]
    occupied [of "duo (Some m) (Trying t) b" 10] occupied [of "duo (Some m) a (Trying t)" 20]
    stale [of "duo (Some 0) (Checking t) b" 10] stale [of "duo (Some 0) a (Checking t)" 20]
    remove [of "duo f (Removing t) b" 10] remove [of "duo f a (Removing t)" 20]
    create [of "duo None (Trying t) b" 10] create [of "duo None a (Trying t)" 20]
  by (simp_all add: duo_sel is_stale_def stale_after_def)

lemma duo_timely: "timely (duo f a b)"
  if "\<forall>t. a = Holding t \<longrightarrow> t = 130000" "\<forall>t. b = Holding t \<longrightarrow> t = 130000"
  using that by (auto simp: timely_def duo_def split: if_splits)

text \<open>A lock file left by a crashed process breaks the exclusion: two waiting processes can both
  find it stale, one removes it and takes the lock, and the other then removes the new file
  and takes the lock too, although no holder was late.\<close>

theorem stale_lock_two_holders:
  "\<exists>s. timely_run (lock_init (Some 0) 130000) s \<and> ls_phase s 10 = Holding 130000 \<and> ls_phase s 20 = Holding 130000"
proof -
  let ?T = "Trying 130000" and ?C = "Checking 130000" and ?R = "Removing 130000" and ?H = "Holding 130000"
  let ?run = "[duo (Some 0) ?T Idle, duo (Some 0) ?T ?T, duo (Some 0) ?C ?T, duo (Some 0) ?C ?C, duo (Some 0) ?R ?C,
    duo (Some 0) ?R ?R, duo None ?T ?R, duo (Some 130000) ?H ?R, duo None ?H ?T, duo (Some 130000) ?H ?H]"
  have "successively lock_step (duo (Some 0) Idle Idle # ?run)" by (simp only: successively.simps duo_steps simp_thms)
  moreover have "list_all timely (duo (Some 0) Idle Idle # ?run)" by (simp add: duo_timely)
  moreover have "duo (Some 0) Idle Idle = lock_init (Some 0) 130000" by (simp add: duo_def lock_init_def fun_eq_iff)
  ultimately have "timely_run (lock_init (Some 0) 130000) (duo (Some 130000) ?H ?H)"
    using timely_chain [of "duo (Some 0) Idle Idle" ?run] by simp
  then show ?thesis using duo_sel(1,2) by blast
qed


end
