(* ===== verification/Tool_Config.thy ===== *)
theory Tool_Config
  imports Prelude
begin

text \<open>
  The configuration of the tools with its defaults (\<open>tools/config/mod.rs\<close>), and the search for a
  project configuration.  The layering of the sources by figment is outside.
\<close>

datatype output_format = Json | Compact | Markdown | Raw

datatype verbosity = Quiet | Normal | Verbose | Trace

datatype policy_level = Deny | Prompt | Allow

text \<open>The levels in the order of what they permit.\<close>

fun policy_rank :: "policy_level \<Rightarrow> nat" where
  "policy_rank Deny = 0"
| "policy_rank Prompt = 1"
| "policy_rank Allow = 2"

instantiation policy_level :: linorder
begin

definition less_eq_policy_level :: "policy_level \<Rightarrow> policy_level \<Rightarrow> bool" where
  "less_eq_policy_level a b \<longleftrightarrow> policy_rank a \<le> policy_rank b"

definition less_policy_level :: "policy_level \<Rightarrow> policy_level \<Rightarrow> bool" where
  "less_policy_level a b \<longleftrightarrow> policy_rank a < policy_rank b"

instance
proof
  fix a b :: policy_level
  show "a \<le> b \<Longrightarrow> b \<le> a \<Longrightarrow> a = b"
    by (cases a; cases b) (simp_all add: less_eq_policy_level_def)
qed (auto simp: less_eq_policy_level_def less_policy_level_def)

end

record core_config =
  cc_daemon :: bool
  cc_default_format :: output_format
  cc_verbosity :: verbosity

record output_config =
  default_max_tokens :: nat
  summarizer :: string
  summarizer_fallback :: string
  code_read_context_lines :: nat
  fs_ls_max_depth :: nat
  code_tree_max_depth :: nat

record code_config =
  languages :: "string list"
  auto_index :: bool
  pagerank :: bool
  grep_workers :: nat
  mmap_min_bytes :: nat
  edit_format_name :: string
  git_safety :: bool
  git_safety_branch :: bool

record tool_policies =
  tp_code_read :: policy_level
  tp_code_edit :: policy_level
  tp_fs_read :: policy_level
  tp_fs_write :: policy_level
  tp_fs_delete :: policy_level
  tp_shell_exec :: policy_level
  tp_search :: policy_level
  tp_memory :: policy_level
  tp_git_commit :: policy_level
  tp_git_push :: policy_level
  tp_mem_compact :: policy_level

record policy_config =
  pc_default :: policy_level
  pc_tools :: tool_policies

record memory_config =
  db_path :: string
  default_recall_limit :: nat
  auto_prune_days :: u64

record search_config =
  primary_engine :: string
  fallback_chain :: "string list"
  hedged_requests :: bool
  cache_ttl_minutes :: u64
  max_results_per_engine :: nat
  searxng_url :: string
  search_token_cap :: nat
  fetch_token_cap :: nat
  persistent_cache :: bool

record session_config =
  sessions_path :: string
  soft_threshold_tokens :: u64

record human_config =
  default_timeout :: u64
  headless_queue :: bool
  queue_dir :: string
  poll_interval_ms :: u64

record tools_config =
  tc_core :: core_config
  tc_output :: output_config
  tc_code :: code_config
  tc_policy :: policy_config
  tc_memory :: memory_config
  tc_search :: search_config
  tc_human :: human_config
  tc_session :: session_config

definition default_core_config :: core_config where
  "default_core_config = \<lparr>cc_daemon = False, cc_default_format = Json, cc_verbosity = Normal\<rparr>"

definition default_output_config :: output_config where
  "default_output_config =
     \<lparr>default_max_tokens = 4096, summarizer = ''phi-3.5-mini'', summarizer_fallback = ''rule'',
      code_read_context_lines = 8, fs_ls_max_depth = 2, code_tree_max_depth = 4\<rparr>"

text \<open>\<open>parallelism\<close> is what \<open>available_parallelism\<close> answers.\<close>

definition default_code_config :: "nat option \<Rightarrow> code_config" where
  "default_code_config parallelism =
     \<lparr>languages = [''rust'', ''typescript'', ''python'', ''go''], auto_index = True, pagerank = True,
      grep_workers = (case parallelism of Some n \<Rightarrow> min n 8 | None \<Rightarrow> 4), mmap_min_bytes = 256 * 1024,
      edit_format_name = ''unified-diff'', git_safety = True, git_safety_branch = False\<rparr>"

definition default_tool_policies :: tool_policies where
  "default_tool_policies =
     \<lparr>tp_code_read = Allow, tp_code_edit = Prompt, tp_fs_read = Allow, tp_fs_write = Prompt, tp_fs_delete = Deny,
      tp_shell_exec = Deny, tp_search = Allow, tp_memory = Allow, tp_git_commit = Prompt, tp_git_push = Deny,
      tp_mem_compact = Allow\<rparr>"

definition default_policy_config :: policy_config where
  "default_policy_config = \<lparr>pc_default = Prompt, pc_tools = default_tool_policies\<rparr>"

definition default_memory_config :: memory_config where
  "default_memory_config = \<lparr>db_path = [], default_recall_limit = 10, auto_prune_days = 0\<rparr>"

definition default_search_config :: search_config where
  "default_search_config =
     \<lparr>primary_engine = ''duckduckgo'', fallback_chain = [''bing'', ''yahoo'', ''mojeek'', ''tavily'', ''brave''],
      hedged_requests = False, cache_ttl_minutes = 60, max_results_per_engine = 6,
      searxng_url = ''http://127.0.0.1:8080'', search_token_cap = 320, fetch_token_cap = 600, persistent_cache = True\<rparr>"

definition default_session_config :: session_config where
  "default_session_config = \<lparr>sessions_path = [], soft_threshold_tokens = 100000\<rparr>"

definition default_human_config :: human_config where
  "default_human_config = \<lparr>default_timeout = 300, headless_queue = False, queue_dir = [], poll_interval_ms = 500\<rparr>"

definition default_tools_config :: "nat option \<Rightarrow> tools_config" where
  "default_tools_config parallelism =
     \<lparr>tc_core = default_core_config, tc_output = default_output_config, tc_code = default_code_config parallelism,
      tc_policy = default_policy_config, tc_memory = default_memory_config, tc_search = default_search_config,
      tc_human = default_human_config, tc_session = default_session_config\<rparr>"

text \<open>A directory is the list of its components; \<open>pop\<close> removes the last one.\<close>

definition candidate :: "string list \<Rightarrow> string list" where
  "candidate d = d @ [''.that-tools'', ''tools.toml'']"

function find_project_config :: "(string list \<Rightarrow> bool) \<Rightarrow> string list \<Rightarrow> string list option" where
  "find_project_config is_there d =
     (if is_there (candidate d) then Some (candidate d)
      else if d = [] then None
      else find_project_config is_there (butlast d))"
  by pat_completeness auto
termination by (relation "measure (length \<circ> snd)") auto

declare find_project_config.simps [simp del]

text \<open>The walk upwards finds the configuration of the nearest enclosing directory.\<close>

lemma find_project_config_nearest:
  "find_project_config is_there d = Some c \<longleftrightarrow>
     (\<exists>e. prefix e d \<and> c = candidate e \<and> is_there c \<and> (\<forall>e'. prefix e' d \<and> length e < length e' \<longrightarrow> \<not> is_there (candidate e')))"
proof (induction is_there d rule: find_project_config.induct)
  case (1 is_there d)
  have pre: "prefix e d \<longleftrightarrow> e = d \<or> d \<noteq> [] \<and> prefix e (butlast d)" for e
    by (cases d rule: rev_cases) (auto simp: prefix_snoc)
  show ?case
  proof (cases "is_there (candidate d)")
    case True
    have "e = d" if "prefix e d" "\<forall>e'. prefix e' d \<and> length e < length e' \<longrightarrow> \<not> is_there (candidate e')" for e
    proof (rule ccontr)
      assume "e \<noteq> d"
      then have "length e < length d" using that(1) by (intro prefix_length_less) simp
      then show False using that(2) True by blast
    qed
    moreover have "\<not> (prefix e' d \<and> length d < length e')" for e' using prefix_length_le [of e' d] by auto
    ultimately have "(\<exists>e. prefix e d \<and> c = candidate e \<and> is_there c
        \<and> (\<forall>e'. prefix e' d \<and> length e < length e' \<longrightarrow> \<not> is_there (candidate e'))) \<longleftrightarrow> c = candidate d"
      using True by blast
    then show ?thesis using True by (subst find_project_config.simps) auto
  next
    case False
    show ?thesis
    proof (cases "d = []")
      case True
      with False show ?thesis by (subst find_project_config.simps) auto
    next
      case ne: False
      have "prefix e (butlast d) \<Longrightarrow> length e < length d" for e
        using prefix_length_le [of e "butlast d"] ne by (cases d rule: rev_cases) auto
      then show ?thesis using 1 [OF False ne] False ne
        by (subst find_project_config.simps) (simp add: pre, metis)
    qed
  qed
qed

end
