(* ===== verification/Timestamps.thy ===== *)
theory Timestamps
  imports Encoding
begin

text \<open>
  The timestamps the registries write: \<open>days_to_ymd\<close> and \<open>now_rfc3339\<close> of \<open>channels/registry.rs\<close>,
  \<open>now_iso\<close> of \<open>tools/impls/session/mod.rs\<close> and \<open>chrono_now\<close> of \<open>tools/impls/memory/store.rs\<close>.
  The clock is an argument: the seconds since 1970-01-01.  The conversion from a day count to a
  date is proved to follow the Gregorian calendar, one day at a time.
\<close>

section \<open>The conversion\<close>

definition year_of_era :: "nat \<Rightarrow> nat" where
  "year_of_era doe = (doe - doe div 1460 + doe div 36524 - doe div 146096) div 365"

definition days_to_ymd :: "nat \<Rightarrow> nat \<times> nat \<times> nat" where
  "days_to_ymd days =
     (let z = days + 719468;
          era = z div 146097;
          doe = z - era * 146097;
          yoe = year_of_era doe;
          y = yoe + era * 400;
          doy = doe - (365 * yoe + yoe div 4 - yoe div 100);
          mp = (5 * doy + 2) div 153;
          d = doy - (153 * mp + 2) div 5 + 1;
          mo = (if mp < 10 then mp + 3 else mp - 9);
          y = (if mo \<le> 2 then y + 1 else y)
      in (y, mo, d))"

definition two :: "nat \<Rightarrow> string" where
  "two n = pad_left CHR ''0'' 2 (show_nat n)"

definition four :: "nat \<Rightarrow> string" where
  "four n = pad_left CHR ''0'' 4 (show_nat n)"

definition now_rfc3339 :: "nat \<Rightarrow> string" where
  "now_rfc3339 secs =
     (let days = secs div 86400; rem = secs mod 86400; h = rem div 3600; m = (rem mod 3600) div 60; s = rem mod 60 in
      case days_to_ymd days of (y, mo, d) \<Rightarrow>
        four y @ ''-'' @ two mo @ ''-'' @ two d @ ''T'' @ two h @ '':'' @ two m @ '':'' @ two s @ ''Z'')"

text \<open>\<open>now_iso\<close> and \<open>chrono_now\<close> are the same text in two modules.  They count the years in
  \<open>i64\<close>; the days in an era are converted to \<open>u64\<close>.\<close>

definition now_iso :: "nat \<Rightarrow> string" where
  "now_iso secs =
     (let days_since_epoch = secs div 86400;
          time_of_day = secs mod 86400;
          hours = time_of_day div 3600;
          minutes = (time_of_day mod 3600) div 60;
          seconds = time_of_day mod 60;
          z = int days_since_epoch + 719468;
          era = (if z \<ge> 0 then z else z - 146096) div 146097;
          doe = nat (z - era * 146097);
          yoe = year_of_era doe;
          y = int yoe + era * 400;
          doy = doe - (365 * yoe + yoe div 4 - yoe div 100);
          mp = (5 * doy + 2) div 153;
          d = doy - (153 * mp + 2) div 5 + 1;
          m = (if mp < 10 then mp + 3 else mp - 9);
          y = (if m \<le> 2 then y + 1 else y)
      in pad_left CHR ''0'' 4 (show_int y) @ ''-'' @ two m @ ''-'' @ two d @ '' ''
         @ two hours @ '':'' @ two minutes @ '':'' @ two seconds)"

section \<open>The calendar\<close>

definition leap_year :: "nat \<Rightarrow> bool" where
  "leap_year y \<longleftrightarrow> 4 dvd y \<and> (\<not> 100 dvd y \<or> 400 dvd y)"

definition month_length :: "nat \<Rightarrow> nat \<Rightarrow> nat" where
  "month_length y m = (if m = 2 then (if leap_year y then 29 else 28)
     else if m \<in> {4, 6, 9, 11} then 30 else 31)"

definition next_day :: "nat \<times> nat \<times> nat \<Rightarrow> nat \<times> nat \<times> nat" where
  "next_day date =
     (case date of (y, m, d) \<Rightarrow>
        if d < month_length y m then (y, m, d + 1)
        else if m < 12 then (y, m + 1, 1)
        else (y + 1, 1, 1))"

text \<open>The first day of the year that starts in March, counted from 1 March of year 0, and the
  length of that year, which contains the February of the next one.\<close>

definition march_first :: "nat \<Rightarrow> nat" where
  "march_first y = 365 * y + y div 4 - y div 100 + y div 400"

definition march_year_length :: "nat \<Rightarrow> nat" where
  "march_year_length y = (if leap_year (Suc y) then 366 else 365)"

lemma year_split:
  fixes y :: nat
  obtains e c q i where "y = 400 * e + 100 * c + 4 * q + i" "c < 4" "q < 25" "i < 4"
proof
  show "y = 400 * (y div 400) + 100 * (y mod 400 div 100) + 4 * (y mod 100 div 4) + y mod 4"
  proof -
    have "y mod 400 mod 100 = y mod 100" "y mod 100 mod 4 = y mod 4" by (simp_all add: mod_mod_cancel)
    then show ?thesis
      using div_mult_mod_eq [of y 400] div_mult_mod_eq [of "y mod 400" 100] div_mult_mod_eq [of "y mod 100" 4] by linarith
  qed
qed (simp_all add: less_mult_imp_div_less)

lemma march_first_split:
  assumes "c < 4" "q < 25" "i < 4"
  shows "march_first (400 * e + 100 * c + 4 * q + i) = 146097 * e + 36524 * c + 1461 * q + 365 * i"
proof -
  have "(400 * e + 100 * c + 4 * q + i) div 4 = 100 * e + 25 * c + q"
    "(400 * e + 100 * c + 4 * q + i) div 100 = 4 * e + c"
    "(400 * e + 100 * c + 4 * q + i) div 400 = e"
    using assms by (intro div_nat_eqI; simp)+
  then show ?thesis by (simp add: march_first_def)
qed

lemma leap_split:
  assumes "c < 4" "q < 25" "i < 4"
  shows "leap_year (Suc (400 * e + 100 * c + 4 * q + i)) \<longleftrightarrow> i = 3 \<and> (q < 24 \<or> c = 3)"
proof -
  have "4 dvd Suc (400 * e + 100 * c + 4 * q + i) \<longleftrightarrow> i = 3"
  proof -
    have "Suc (400 * e + 100 * c + 4 * q + i) = 4 * (100 * e + 25 * c + q) + Suc i" by simp
    moreover have "4 dvd 4 * (100 * e + 25 * c + q) + Suc i \<longleftrightarrow> 4 dvd Suc i"
      by (simp only: dvd_add_right_iff dvd_triv_left)
    moreover have "4 dvd Suc i \<Longrightarrow> 4 \<le> Suc i" by (rule dvd_imp_le) simp_all
    moreover have "i = 3 \<Longrightarrow> 4 dvd Suc i" by simp
    moreover have "4 \<le> Suc i \<longleftrightarrow> i = 3" using assms(3) by auto
    ultimately show ?thesis by metis
  qed
  moreover have "100 dvd Suc (400 * e + 100 * c + 4 * q + i) \<longleftrightarrow> q = 24" if "i = 3"
  proof -
    have "Suc (400 * e + 100 * c + 4 * q + i) = 100 * (4 * e + c) + 4 * Suc q" using that by simp
    moreover have "100 dvd 100 * (4 * e + c) + 4 * Suc q \<longleftrightarrow> 100 dvd 4 * Suc q"
      by (simp only: dvd_add_right_iff dvd_triv_left)
    moreover have "100 dvd 4 * Suc q \<Longrightarrow> 100 \<le> 4 * Suc q" by (rule dvd_imp_le) simp_all
    moreover have "q = 24 \<Longrightarrow> 100 dvd 4 * Suc q" by simp
    moreover have "100 \<le> 4 * Suc q \<longleftrightarrow> q = 24" using assms(2) by auto
    ultimately show ?thesis by metis
  qed
  moreover have "400 dvd Suc (400 * e + 100 * c + 4 * q + i) \<longleftrightarrow> c = 3" if "i = 3" "q = 24"
  proof -
    have "Suc (400 * e + 100 * c + 4 * q + i) = 400 * e + 100 * Suc c" using that by simp
    moreover have "400 dvd 400 * e + 100 * Suc c \<longleftrightarrow> 400 dvd 100 * Suc c"
      by (simp only: dvd_add_right_iff dvd_triv_left)
    moreover have "400 dvd 100 * Suc c \<Longrightarrow> 400 \<le> 100 * Suc c" by (rule dvd_imp_le) simp_all
    moreover have "c = 3 \<Longrightarrow> 400 dvd 100 * Suc c" by simp
    moreover have "400 \<le> 100 * Suc c \<longleftrightarrow> c = 3" using assms(1) by auto
    ultimately show ?thesis by metis
  qed
  moreover have "q < 24 \<longleftrightarrow> q \<noteq> 24" using assms(2) by linarith
  ultimately show ?thesis unfolding leap_year_def by blast
qed

lemma march_first_Suc: "march_first (Suc y) = march_first y + march_year_length y"
proof -
  obtain e c q i where y: "y = 400 * e + 100 * c + 4 * q + i" "c < 4" "q < 25" "i < 4" by (rule year_split)
  consider "i < 3" | "i = 3" "q < 24" | "i = 3" "q = 24" "c < 3" | "i = 3" "q = 24" "c = 3"
    using y by linarith
  then have "march_first (Suc y) = 146097 * e + 36524 * c + 1461 * q + 365 * i + (if i = 3 \<and> (q < 24 \<or> c = 3) then 366 else 365)"
  proof cases
    case 1
    then show ?thesis using march_first_split [of c q "Suc i" e] y by simp
  next
    case 2
    then show ?thesis using march_first_split [of c "Suc q" 0 e] y by (simp add: algebra_simps)
  next
    case 3
    then show ?thesis using march_first_split [of "Suc c" 0 0 e] y by (simp add: algebra_simps)
  next
    case 4
    then show ?thesis using march_first_split [of 0 0 0 "Suc e"] y by (simp add: algebra_simps)
  qed
  then show ?thesis using march_first_split [OF y(2-4), of e] leap_split [OF y(2-4), of e]
    by (simp add: march_year_length_def y(1))
qed

lemma march_first_le: "a \<le> b \<Longrightarrow> march_first a \<le> march_first b"
  by (rule lift_Suc_mono_le [of march_first]) (simp only: march_first_Suc le_add1)

text \<open>The formula finds the year of a day of an era.\<close>

lemma year_of_era_march:
  assumes "c < 4" "q < 25" "i < 4" and "k < march_year_length (100 * c + 4 * q + i)"
  shows "year_of_era (march_first (100 * c + 4 * q + i) + k) = 100 * c + 4 * q + i"
proof -
  let ?doe = "36524 * c + 1461 * q + 365 * i + k"
  have len: "k \<le> 364 \<or> k = 365 \<and> i = 3 \<and> (q < 24 \<or> c = 3)"
    using assms(4) leap_split [OF assms(1-3), of 0] by (auto simp: march_year_length_def split: if_splits)
  have "year_of_era ?doe = 100 * c + 4 * q + i"
  proof (cases "c = 3 \<and> q = 24 \<and> i = 3 \<and> k = 365")
    case True
    then show ?thesis by (simp add: year_of_era_def)
  next
    case False
    have "?doe div 36524 = c" using assms(1-3) len False by (intro div_nat_eqI) auto
    moreover have "?doe div 146096 = 0" using assms(1-3) len False by (intro div_nat_eqI) auto
    moreover have "?doe div 1460 = 25 * c + q + (if 1460 \<le> 24 * c + q + 365 * i + k then 1 else 0)"
      using assms(1-3) len by (intro div_nat_eqI) auto
    moreover have "(100 * c + 4 * q + i) * 365 \<le> ?doe - (25 * c + q + (if 1460 \<le> 24 * c + q + 365 * i + k then 1 else 0)) + c"
      using assms(1-3) len by (cases "1460 \<le> 24 * c + q + 365 * i + k") auto
    moreover have "?doe - (25 * c + q + (if 1460 \<le> 24 * c + q + 365 * i + k then 1 else 0)) + c < Suc (100 * c + 4 * q + i) * 365"
      using assms(1-3) len by (cases "1460 \<le> 24 * c + q + 365 * i + k") auto
    ultimately show ?thesis unfolding year_of_era_def by (intro div_nat_eqI) auto
  qed
  then show ?thesis using march_first_split [OF assms(1-3), of 0] by simp
qed

text \<open>The date of day \<open>k\<close> of the year that starts in March of \<open>y\<close>.\<close>

definition march_month :: "nat \<Rightarrow> nat" where
  "march_month k = (5 * k + 2) div 153"

definition month_first :: "nat \<Rightarrow> nat" where
  "month_first mp = (153 * mp + 2) div 5"

definition march_date :: "nat \<Rightarrow> nat \<Rightarrow> nat \<times> nat \<times> nat" where
  "march_date y k =
     (let mp = march_month k; mo = (if mp < 10 then mp + 3 else mp - 9)
      in (if mo \<le> 2 then y + 1 else y, mo, k - month_first mp + 1))"

lemma days_to_ymd_march:
  assumes "days + 719468 = march_first y + k" and "k < march_year_length y"
  shows "days_to_ymd days = march_date y k"
proof -
  obtain e c q i where y: "y = 400 * e + 100 * c + 4 * q + i" "c < 4" "q < 25" "i < 4" by (rule year_split)
  let ?y0 = "100 * c + 4 * q + i"
  have y0: "?y0 < 400" using y by linarith
  have len: "march_year_length y = march_year_length ?y0"
    using leap_split [OF y(2-4), of e] leap_split [OF y(2-4), of 0] by (simp add: march_year_length_def y(1))
  have first: "march_first y = 146097 * e + march_first ?y0"
    using march_first_split [OF y(2-4), of e] march_first_split [OF y(2-4), of 0] by (simp add: y(1))
  have "march_first (Suc ?y0) \<le> 146097"
  proof -
    have "march_first (Suc ?y0) \<le> march_first 400" using y0 by (intro march_first_le) simp
    moreover have "march_first 400 = 146097" by (simp add: march_first_def)
    ultimately show ?thesis by simp
  qed
  then have doe: "march_first ?y0 + k < 146097" using assms(2) len by (simp add: march_first_Suc)
  have z: "days + 719468 = 146097 * e + (march_first ?y0 + k)" using assms(1) first by simp
  have era: "(days + 719468) div 146097 = e" unfolding z using doe by simp
  have rest: "days + 719468 - e * 146097 = march_first ?y0 + k" unfolding z by simp
  have yoe: "year_of_era (march_first ?y0 + k) = ?y0"
    using year_of_era_march [OF y(2-4)] assms(2) len by simp
  have "march_first ?y0 = 365 * ?y0 + ?y0 div 4 - ?y0 div 100" using y0 by (simp add: march_first_def)
  then have doy: "march_first ?y0 + k - (365 * ?y0 + ?y0 div 4 - ?y0 div 100) = k" by simp
  have yy: "?y0 + e * 400 = y" by (simp add: y(1))
  show ?thesis
    unfolding days_to_ymd_def Let_def era rest yoe doy yy march_date_def march_month_def month_first_def by simp
qed

lemma march_month_iff: "march_month k = mp \<longleftrightarrow> month_first mp \<le> k \<and> k < month_first (Suc mp)"
proof -
  have "month_first mp \<le> k \<longleftrightarrow> 153 * mp + 2 < Suc k * 5"
    using div_less_iff_less_mult [of 5 "153 * mp + 2" "Suc k"] by (simp add: month_first_def less_Suc_eq_le)
  moreover have "k < month_first (Suc mp) \<longleftrightarrow> Suc k * 5 \<le> 153 * Suc mp + 2"
    using less_eq_div_iff_mult_less_eq [of 5 "Suc k" "153 * Suc mp + 2"] by (simp add: month_first_def Suc_le_eq)
  moreover have "march_month k = mp \<longleftrightarrow> mp \<le> march_month k \<and> march_month k < Suc mp" by auto
  moreover have "mp \<le> march_month k \<longleftrightarrow> mp * 153 \<le> 5 * k + 2"
    by (simp only: march_month_def less_eq_div_iff_mult_less_eq zero_less_numeral)
  moreover have "march_month k < Suc mp \<longleftrightarrow> 5 * k + 2 < Suc mp * 153"
    by (simp only: march_month_def div_less_iff_less_mult zero_less_numeral)
  ultimately show ?thesis by auto
qed

lemma march_date_month:
  "month_first mp \<le> k \<Longrightarrow> k < month_first (Suc mp) \<Longrightarrow> mp < 12 \<Longrightarrow>
     march_date y k = (if mp < 10 then (y, mp + 3, k - month_first mp + 1) else (y + 1, mp - 9, k - month_first mp + 1))"
  using march_month_iff [of k mp] by (auto simp: march_date_def Let_def)

lemma month_firsts:
  "month_first 0 = 0" "month_first (Suc 0) = 31" "month_first (Suc (Suc 0)) = 61" "month_first 2 = 61" "month_first 3 = 92" "month_first 4 = 122"
  "month_first 5 = 153" "month_first 6 = 184" "month_first 7 = 214" "month_first 8 = 245" "month_first 9 = 275"
  "month_first 10 = 306" "month_first 11 = 337" "month_first 12 = 367"
  by (simp_all add: month_first_def)

lemma month_length_march:
  assumes "mp < 11"
  shows "(if mp < 10 then month_length y (mp + 3) else month_length y' (mp - 9)) = month_first (Suc mp) - month_first mp"
proof -
  have "mp \<in> {0, 1, 2, 3, 4, 5, 6, 7, 8, 9, 10}" using assms by (auto simp: eval_nat_numeral less_Suc_eq)
  then show ?thesis by (auto simp: month_length_def month_firsts)
qed

lemma month_first_less: "month_first mp < month_first (Suc mp)"
  by (simp add: month_first_def)

lemma next_day_march:
  assumes "k < march_year_length y"
  shows "next_day (march_date y k)
    = (if Suc k < march_year_length y then march_date y (Suc k) else march_date (Suc y) 0)"
proof -
  let ?mp = "march_month k"
  have mp: "month_first ?mp \<le> k" "k < month_first (Suc ?mp)" using march_month_iff [of k ?mp] by simp_all
  have "k < 366" using assms by (auto simp: march_year_length_def split: if_splits)
  then have mp12: "?mp < 12" by (auto simp: march_month_def div_less_iff_less_mult)
  have feb: "month_length (Suc y) 2 = march_year_length y - 337"
    by (simp add: month_length_def march_year_length_def)
  note date = march_date_month [OF mp mp12]
  show ?thesis
  proof (cases "?mp = 11")
    case True
    then have now: "march_date y k = (Suc y, 2, k - 337 + 1)" using date [of y] by (simp add: month_firsts)
    have k: "337 \<le> k" using mp(1) True by (simp add: month_firsts)
    then obtain j where j: "k = 337 + j" using le_Suc_ex by blast
    show ?thesis
    proof (cases "Suc k < march_year_length y")
      case True
      then have "march_date y (Suc k) = (Suc y, 2, Suc k - 337 + 1)"
        using march_date_month [of 11 "Suc k" y] k by (auto simp: month_firsts march_year_length_def split: if_splits)
      then show ?thesis using True now by (simp add: next_day_def feb j)
    next
      case False
      have "march_date (Suc y) 0 = (Suc y, 3, 1)" using march_date_month [of 0 0 "Suc y"] by (simp add: month_firsts)
      then show ?thesis using False assms now by (simp add: next_day_def feb j)
    qed
  next
    case False
    then have lt: "?mp < 11" using mp12 by simp
    have "month_first (Suc ?mp) \<le> 337" using lt by (simp add: month_first_def)
    then have more: "Suc k < march_year_length y" using mp(2) by (simp add: march_year_length_def)
    have len: "(if ?mp < 10 then month_length y (?mp + 3) else month_length (y + 1) (?mp - 9))
        = month_first (Suc ?mp) - month_first ?mp" by (rule month_length_march [OF lt])
    obtain j where j: "k = month_first ?mp + j" using le_Suc_ex [OF mp(1)] by blast
    then have diff: "k - month_first ?mp = j" "Suc k - month_first ?mp = Suc j" by simp_all
    have less: "Suc k < month_first (Suc ?mp) \<longleftrightarrow> Suc j < month_first (Suc ?mp) - month_first ?mp"
      using j by linarith
    have now: "march_date y k = (if ?mp < 10 then (y, ?mp + 3, j + 1) else (y + 1, ?mp - 9, j + 1))"
      using date [of y] diff by simp
    show ?thesis
    proof (cases "Suc k < month_first (Suc ?mp)")
      case True
      then have then': "march_date y (Suc k) = (if ?mp < 10 then (y, ?mp + 3, j + 2) else (y + 1, ?mp - 9, j + 2))"
        using march_date_month [of ?mp "Suc k" y] mp(1) mp12 diff by simp
      show ?thesis
        using more True less len by (cases "?mp < 10") (simp_all add: now then' next_day_def)
    next
      case False
      then have k: "Suc k = month_first (Suc ?mp)" using mp(2) by simp
      then have then': "march_date y (Suc k) = (if Suc ?mp < 10 then (y, Suc ?mp + 3, 1) else (y + 1, Suc ?mp - 9, 1))"
        using march_date_month [of "Suc ?mp" "Suc k" y] lt month_first_less [of "Suc ?mp"] by simp
      show ?thesis
      proof (cases "?mp < 10")
        case True
        then have "?mp < 9 \<or> ?mp = 9" by linarith
        then show ?thesis using more False less len by (elim disjE) (simp_all add: now then' next_day_def)
      next
        case False2: False
        then have "?mp = 10" using lt by simp
        then show ?thesis using more False less len by (simp add: now then' next_day_def)
      qed
    qed
  qed
qed

text \<open>(C26) The conversion from days since the epoch to a date is the Gregorian calendar: day 0 is
  1 January 1970, and each further day is the next date.\<close>

theorem days_follow_calendar:
  "days_to_ymd 0 = (1970, 1, 1) \<and> days_to_ymd (Suc days) = next_day (days_to_ymd days)"
proof
  have start: "0 + 719468 = march_first 1969 + 306 \<and> 306 < march_year_length 1969"
    by (simp add: march_first_def march_year_length_def)
  then have "days_to_ymd 0 = march_date 1969 306" by (intro days_to_ymd_march) simp_all
  then show "days_to_ymd 0 = (1970, 1, 1)" using march_date_month [of 10 306 1969] by (simp add: month_firsts)
  have "\<exists>y k. days + 719468 = march_first y + k \<and> k < march_year_length y"
  proof (induction days)
    case 0
    from start show ?case by metis
  next
    case (Suc days)
    then obtain y k where "days + 719468 = march_first y + k" "k < march_year_length y" by blast
    then have "Suc days + 719468 = march_first y + Suc k"
      "\<not> Suc k < march_year_length y \<Longrightarrow> Suc days + 719468 = march_first (Suc y) + 0"
      "0 < march_year_length (Suc y)"
      by (simp_all add: march_first_Suc march_year_length_def)
    then show ?case by metis
  qed
  then obtain y k where yk: "days + 719468 = march_first y + k" "k < march_year_length y" by blast
  have now: "days_to_ymd days = march_date y k" using yk by (rule days_to_ymd_march)
  have "days_to_ymd (Suc days) = (if Suc k < march_year_length y then march_date y (Suc k) else march_date (Suc y) 0)"
  proof (cases "Suc k < march_year_length y")
    case True
    then show ?thesis using days_to_ymd_march [of "Suc days" y "Suc k"] yk(1) by simp
  next
    case False
    then have "Suc days + 719468 = march_first (Suc y) + 0" using yk by (simp add: march_first_Suc)
    then show ?thesis using days_to_ymd_march [of "Suc days" "Suc y" 0] False by (simp add: march_year_length_def)
  qed
  then show "days_to_ymd (Suc days) = next_day (days_to_ymd days)"
    by (simp only: now next_day_march [OF yk(2)])
qed

lemma days_to_ymd_int:
  "(if int days + 719468 \<ge> 0 then int days + 719468 else int days + 719468 - 146096) div 146097
     = int ((days + 719468) div 146097)"
  "nat (int days + 719468 - int ((days + 719468) div 146097) * 146097)
     = days + 719468 - (days + 719468) div 146097 * 146097"
proof -
  have z: "int days + 719468 = int (days + 719468)" by simp
  show "(if int days + 719468 \<ge> 0 then int days + 719468 else int days + 719468 - 146096) div 146097
     = int ((days + 719468) div 146097)"
    by (simp only: z of_nat_0_le_iff if_True zdiv_int of_nat_numeral)
  show "nat (int days + 719468 - int ((days + 719468) div 146097) * 146097)
     = days + 719468 - (days + 719468) div 146097 * 146097"
    unfolding z by (simp only: nat_minus_as_int nat_int of_nat_mult of_nat_numeral)
qed

text \<open>\<open>now_iso\<close> prints the same date as \<open>now_rfc3339\<close>.\<close>

lemma now_iso_date:
  "now_iso secs = (case days_to_ymd (secs div 86400) of (y, m, d) \<Rightarrow>
     four y @ ''-'' @ two m @ ''-'' @ two d @ '' '' @ two (secs mod 86400 div 3600) @ '':''
       @ two (secs mod 86400 mod 3600 div 60) @ '':'' @ two (secs mod 86400 mod 60))"
proof -
  have show_int_nat: "pad_left CHR ''0'' 4 (show_int (int n)) = four n" for n by (simp add: show_int_def four_def)
  have year: "(if m \<le> 2 then int yoe + int e * 400 + 1 else int yoe + int e * 400)
      = int (if m \<le> 2 then yoe + e * 400 + 1 else yoe + e * 400)" for m yoe e :: nat by simp
  show ?thesis
    unfolding now_iso_def days_to_ymd_def Let_def days_to_ymd_int year show_int_nat prod.case by (rule refl)
qed

end
