(* ===== verification/Tool_Sessions.thy ===== *)
theory Tool_Sessions
  imports Timestamps Interfaces
begin

text \<open>
  The per-session token accounts of the tools (\<open>tools/impls/session/mod.rs\<close>): a JSON file with one
  record for each session, read and rewritten by every operation.

  The JSON text of the table and the write of the file are the record \<open>accounts_env\<close>; the file is
  its content, if it exists; the clock is an argument in seconds.  Token counts are \<open>usize\<close>.
\<close>

section \<open>The file\<close>

record session_record =
  tr_session_id :: string
  tr_created_at :: string
  tr_updated_at :: string
  tr_input_tokens :: u64
  tr_context_tokens :: u64
  tr_compaction_count :: u64
  tr_last_flush_at :: "string option"

record session_stats = session_record +
  flush_recommended :: bool

type_synonym sessions_file = "string \<rightharpoonup> session_record"

text \<open>\<open>write_accounts f s\<close> is what creating the directory and writing \<open>s\<close> gives when the file is \<open>f\<close>:
  an error text, if it failed, and the file afterwards.\<close>

record accounts_env =
  print_accounts :: "sessions_file \<Rightarrow> string"
  parse_accounts :: "string \<Rightarrow> sessions_file option"
  write_accounts :: "string option \<Rightarrow> string \<Rightarrow> string option \<times> string option"

text \<open>The two directories of \<open>dirs\<close>, if the platform has them.\<close>

definition default_sessions_path :: "string option \<Rightarrow> string option \<Rightarrow> string" where
  "default_sessions_path data_local home =
     (case data_local of Some d \<Rightarrow> d
      | None \<Rightarrow> (case home of Some h \<Rightarrow> h @ ''/.local/share'' | None \<Rightarrow> ''/tmp''))
     @ ''/that-tools/sessions.json''"

definition load_sessions :: "accounts_env \<Rightarrow> string option \<Rightarrow> sessions_file" where
  "load_sessions env file =
     (case file of
        None \<Rightarrow> (\<lambda>_. None)
      | Some s \<Rightarrow>
          if \<not> utf8_ok s then (\<lambda>_. None)
          else (case parse_accounts env s of None \<Rightarrow> (\<lambda>_. None) | Some m \<Rightarrow> m))"

definition save_sessions :: "accounts_env \<Rightarrow> sessions_file \<Rightarrow> string option \<Rightarrow> (string + unit) \<times> string option" where
  "save_sessions env m file =
     (case write_accounts env file (print_accounts env m) of
        (None, file') \<Rightarrow> (Inr (), file')
      | (Some e, file') \<Rightarrow> (Inl e, file'))"

section \<open>Operations\<close>

definition fresh_record :: "string \<Rightarrow> string \<Rightarrow> session_record" where
  "fresh_record sid now =
     \<lparr>tr_session_id = sid, tr_created_at = now, tr_updated_at = now, tr_input_tokens = 0, tr_context_tokens = 0,
      tr_compaction_count = 0, tr_last_flush_at = None\<rparr>"

text \<open>\<open>uuid\<close> is the identifier \<open>Uuid::new_v4\<close> would give.\<close>

definition init_session ::
  "accounts_env \<Rightarrow> string option \<Rightarrow> string \<Rightarrow> nat \<Rightarrow> string option \<Rightarrow> (string + session_record) \<times> string option" where
  "init_session env session_id uuid secs file =
     (let m = load_sessions env file;
          sid = (case session_id of Some s \<Rightarrow> s | None \<Rightarrow> uuid);
          now = now_iso secs;
          r = (case m sid of Some r \<Rightarrow> r | None \<Rightarrow> fresh_record sid now)
      in case save_sessions env (m(sid \<mapsto> r)) file of
           (Inl e, file') \<Rightarrow> (Inl e, file')
         | (Inr _, file') \<Rightarrow> (Inr r, file'))"

definition not_found :: "string \<Rightarrow> string" where
  "not_found sid = ''session not found: '' @ sid"

definition get_stats :: "accounts_env \<Rightarrow> string \<Rightarrow> string option \<Rightarrow> u64 \<Rightarrow> string + session_stats" where
  "get_stats env session_id file soft_threshold =
     (case load_sessions env file session_id of
        None \<Rightarrow> Inl (not_found session_id)
      | Some r \<Rightarrow> Inr (session_record.extend r (session_stats.fields (tr_context_tokens r > soft_threshold))))"

definition add_tokens ::
  "accounts_env \<Rightarrow> string \<Rightarrow> u64 \<Rightarrow> nat \<Rightarrow> string option \<Rightarrow> (string + session_record) \<times> string option" where
  "add_tokens env session_id tokens secs file =
     (let m = load_sessions env file; now = now_iso secs in
      case m session_id of
        None \<Rightarrow> (Inl (not_found session_id), file)
      | Some r0 \<Rightarrow>
          (let r = r0\<lparr>tr_context_tokens := tr_context_tokens r0 + tokens, tr_input_tokens := tr_input_tokens r0 + tokens,
                     tr_updated_at := now\<rparr>
           in case save_sessions env (m(session_id \<mapsto> r)) file of
                (Inl e, file') \<Rightarrow> (Inl e, file')
              | (Inr _, file') \<Rightarrow> (Inr r, file')))"

definition reset_context ::
  "accounts_env \<Rightarrow> string \<Rightarrow> u64 \<Rightarrow> nat \<Rightarrow> string option \<Rightarrow> (string + session_record) \<times> string option" where
  "reset_context env session_id to_tokens secs file =
     (let m = load_sessions env file; now = now_iso secs in
      case m session_id of
        None \<Rightarrow> (Inl (not_found session_id), file)
      | Some r0 \<Rightarrow>
          (let r = r0\<lparr>tr_context_tokens := to_tokens, tr_updated_at := now\<rparr>
           in case save_sessions env (m(session_id \<mapsto> r)) file of
                (Inl e, file') \<Rightarrow> (Inl e, file')
              | (Inr _, file') \<Rightarrow> (Inr r, file')))"

definition increment_compaction ::
  "accounts_env \<Rightarrow> string \<Rightarrow> nat \<Rightarrow> string option \<Rightarrow> (string + unit) \<times> string option" where
  "increment_compaction env session_id secs file =
     (let m = load_sessions env file; now = now_iso secs in
      case m session_id of
        None \<Rightarrow> (Inr (), file)
      | Some r0 \<Rightarrow>
          (let r = r0\<lparr>tr_compaction_count := tr_compaction_count r0 + 1, tr_last_flush_at := Some now,
                     tr_updated_at := now\<rparr>
           in save_sessions env (m(session_id \<mapsto> r)) file))"

section \<open>The accounts as a map\<close>

datatype account_op = OpInit string | OpAdd string u64 | OpReset string u64 | OpCompact string

text \<open>What one operation at a time does to the table of records.\<close>

fun account_step :: "nat \<times> account_op \<Rightarrow> sessions_file \<Rightarrow> sessions_file" where
  "account_step (t, OpInit sid) m =
     m(sid \<mapsto> (case m sid of None \<Rightarrow> fresh_record sid (now_iso t) | Some r \<Rightarrow> r))"
| "account_step (t, OpAdd sid n) m = m(sid := map_option (\<lambda>r.
     r\<lparr>tr_context_tokens := tr_context_tokens r + n, tr_input_tokens := tr_input_tokens r + n,
       tr_updated_at := now_iso t\<rparr>) (m sid))"
| "account_step (t, OpReset sid n) m = m(sid := map_option (\<lambda>r.
     r\<lparr>tr_context_tokens := n, tr_updated_at := now_iso t\<rparr>) (m sid))"
| "account_step (t, OpCompact sid) m = m(sid := map_option (\<lambda>r.
     r\<lparr>tr_compaction_count := tr_compaction_count r + 1, tr_last_flush_at := Some (now_iso t),
       tr_updated_at := now_iso t\<rparr>) (m sid))"

definition run_account :: "accounts_env \<Rightarrow> string option \<Rightarrow> nat \<times> account_op \<Rightarrow> string option" where
  "run_account env file op =
     (case op of
        (t, OpInit sid) \<Rightarrow> snd (init_session env (Some sid) [] t file)
      | (t, OpAdd sid n) \<Rightarrow> snd (add_tokens env sid n t file)
      | (t, OpReset sid n) \<Rightarrow> snd (reset_context env sid n t file)
      | (t, OpCompact sid) \<Rightarrow> snd (increment_compaction env sid t file))"

definition reads_back :: "accounts_env \<Rightarrow> sessions_file \<Rightarrow> bool" where
  "reads_back env m \<longleftrightarrow> utf8_ok (print_accounts env m) \<and> parse_accounts env (print_accounts env m) = Some m"

interpretation accounts: json_store "load_sessions env" "\<lambda>m _. Some (print_accounts env m)" "reads_back env"
  for env :: accounts_env
  by unfold_locales (simp add: load_sessions_def reads_back_def)

definition writes_ok :: "accounts_env \<Rightarrow> bool" where
  "writes_ok env \<longleftrightarrow> write_accounts env = (\<lambda>_ s. (None, Some s))"

lemma run_account_step:
  assumes "writes_ok env"
  shows "run_account env file op = file \<and> account_step op (load_sessions env file) = load_sessions env file
    \<or> run_account env file op = accounts.rewrite env (account_step op) file"
proof -
  have save: "save_sessions env m f = (Inr (), Some (print_accounts env m))" for m f
    using assms by (simp add: save_sessions_def writes_ok_def)
  obtain t a where op: "op = (t, a)" by fastforce
  show ?thesis
  proof (cases a)
    case (OpInit sid)
    then show ?thesis
      by (cases "load_sessions env file sid")
        (simp_all add: op run_account_def init_session_def accounts.rewrite_def save Let_def)
  next
    case (OpAdd sid n)
    then show ?thesis
      by (cases "load_sessions env file sid")
        (simp_all add: op run_account_def add_tokens_def accounts.rewrite_def save Let_def fun_upd_idem)
  next
    case (OpReset sid n)
    then show ?thesis
      by (cases "load_sessions env file sid")
        (simp_all add: op run_account_def reset_context_def accounts.rewrite_def save Let_def fun_upd_idem)
  next
    case (OpCompact sid)
    then show ?thesis
      by (cases "load_sessions env file sid")
        (simp_all add: op run_account_def increment_compaction_def accounts.rewrite_def save Let_def fun_upd_idem)
  qed
qed

text \<open>What an operation means for the counters of the session \<open>sid\<close>.\<close>

definition added_tokens :: "string \<Rightarrow> nat \<times> account_op \<Rightarrow> u64" where
  "added_tokens sid op = (case snd op of OpAdd s n \<Rightarrow> if s = sid then n else 0 | _ \<Rightarrow> 0)"

definition compactions :: "string \<Rightarrow> nat \<times> account_op \<Rightarrow> u64" where
  "compactions sid op = (if snd op = OpCompact sid then 1 else 0)"

definition context_step :: "string \<Rightarrow> u64 \<Rightarrow> nat \<times> account_op \<Rightarrow> u64" where
  "context_step sid c op =
     (case snd op of
        OpAdd s n \<Rightarrow> if s = sid then c + n else c
      | OpReset s n \<Rightarrow> if s = sid then n else c
      | _ \<Rightarrow> c)"

lemma account_step_counters:
  assumes "m sid = Some r"
  shows "\<exists>r'. account_step op m sid = Some r'
    \<and> tr_input_tokens r' = tr_input_tokens r + added_tokens sid op
    \<and> tr_context_tokens r' = context_step sid (tr_context_tokens r) op
    \<and> tr_compaction_count r' = tr_compaction_count r + compactions sid op
    \<and> tr_created_at r' = tr_created_at r"
proof -
  obtain t a where op: "op = (t, a)" by fastforce
  show ?thesis
    using assms by (cases a) (auto simp: op added_tokens_def context_step_def compactions_def)
qed

lemma account_steps_counters:
  assumes "m sid = Some r"
  shows "\<exists>r'. foldl (\<lambda>m op. account_step op m) m ops sid = Some r'
    \<and> tr_input_tokens r' = tr_input_tokens r + sum_list (map (added_tokens sid) ops)
    \<and> tr_context_tokens r' = foldl (context_step sid) (tr_context_tokens r) ops
    \<and> tr_compaction_count r' = tr_compaction_count r + sum_list (map (compactions sid) ops)
    \<and> tr_created_at r' = tr_created_at r"
  using assms
proof (induction ops arbitrary: m r)
  case (Cons op ops)
  obtain r1 where r1: "account_step op m sid = Some r1"
      "tr_input_tokens r1 = tr_input_tokens r + added_tokens sid op"
      "tr_context_tokens r1 = context_step sid (tr_context_tokens r) op"
      "tr_compaction_count r1 = tr_compaction_count r + compactions sid op"
      "tr_created_at r1 = tr_created_at r"
    using account_step_counters [of m sid r op] Cons.prems by blast
  from Cons.IH [of "account_step op m" r1] r1 show ?case by (simp add: add.assoc)
qed simp

text \<open>(C24) The file is an account of its sessions: after any sequence of operations on any sessions
  the statistics of a session have the sum of all tokens added to it (modulo \<open>2\<^sup>6\<^sup>4\<close>), the
  tokens since its last reset, the number of its compactions and its creation time, and
  recommend a flush exactly when the tokens in context exceed the threshold.\<close>

theorem session_totals:
  assumes "writes_ok env" and "load_sessions env file sid = Some r"
    and "\<And>n. n \<le> length ops \<Longrightarrow>
      reads_back env (foldl (\<lambda>m op. account_step op m) (load_sessions env file) (take n ops))"
  shows "\<exists>st. get_stats env sid (foldl (run_account env) file ops) soft_threshold = Inr st
    \<and> tr_input_tokens st = tr_input_tokens r + sum_list (map (added_tokens sid) ops)
    \<and> tr_context_tokens st = foldl (context_step sid) (tr_context_tokens r) ops
    \<and> tr_compaction_count st = tr_compaction_count r + sum_list (map (compactions sid) ops)
    \<and> tr_created_at st = tr_created_at r
    \<and> (flush_recommended st \<longleftrightarrow> foldl (context_step sid) (tr_context_tokens r) ops > soft_threshold)"
proof -
  have "load_sessions env (foldl (run_account env) file ops)
      = foldl (\<lambda>m op. account_step op m) (load_sessions env file) ops"
    using run_account_step [OF assms(1)] assms(3) by (intro accounts.load_run)
  moreover obtain r' where "foldl (\<lambda>m op. account_step op m) (load_sessions env file) ops sid = Some r'"
      "tr_input_tokens r' = tr_input_tokens r + sum_list (map (added_tokens sid) ops)"
      "tr_context_tokens r' = foldl (context_step sid) (tr_context_tokens r) ops"
      "tr_compaction_count r' = tr_compaction_count r + sum_list (map (compactions sid) ops)"
      "tr_created_at r' = tr_created_at r"
    using account_steps_counters [of "load_sessions env file" sid r ops] assms(2) by blast
  ultimately show ?thesis
    by (simp add: get_stats_def session_record.defs session_stats.defs)
qed

text \<open>An instance: one session \<open>s\<close>, whose context counter is the number of characters of the file.\<close>

definition unary_record :: "nat \<Rightarrow> session_record" where
  "unary_record n = (fresh_record ''s'' (now_iso 0))\<lparr>tr_input_tokens := 5, tr_context_tokens := of_nat n\<rparr>"

definition unary_env :: accounts_env where
  "unary_env = \<lparr>
     print_accounts = (\<lambda>m. case m ''s'' of None \<Rightarrow> [] | Some r \<Rightarrow> replicate (unat (tr_context_tokens r)) CHR ''i''),
     parse_accounts = (\<lambda>s. Some [''s'' \<mapsto> unary_record (length s)]),
     write_accounts = (\<lambda>_ s. (None, Some s))\<rparr>"

theorem session_totals_witness:
  "\<exists>st. get_stats unary_env ''s'' (foldl (run_account unary_env) (Some ''iiiii'') [(0, OpReset ''s'' 2), (0, OpInit ''s'')]) 1 = Inr st
    \<and> tr_context_tokens st = 2 \<and> flush_recommended st"
proof -
  let ?ops = "[(0, OpReset ''s'' 2), (0, OpInit ''s'')]"
  have ok: "writes_ok unary_env" by (simp add: writes_ok_def unary_env_def)
  have ascii: "utf8_ok (replicate n CHR ''i'')" for n by (rule utf8_ok_ascii) (simp add: list_all_iff is_ascii_def)
  have five: "''iiiii'' = replicate 5 CHR ''i''" by (simp add: numeral_eq_Suc)
  have load: "load_sessions unary_env (Some ''iiiii'') = [''s'' \<mapsto> unary_record 5]"
    unfolding five using ascii by (simp add: load_sessions_def unary_env_def)
  have init: "load_sessions unary_env (Some ''iiiii'') ''s'' = Some (unary_record 5)" by (simp add: load)
  have maps: "foldl (\<lambda>m op. account_step op m) [''s'' \<mapsto> unary_record 5] (take n ?ops)
      = [''s'' \<mapsto> unary_record (if n = 0 then 5 else 2)]" for n
    by (cases n; cases "n - 1") (auto simp: unary_record_def fresh_record_def)
  have readable: "reads_back unary_env [''s'' \<mapsto> unary_record k]" if "k = 5 \<or> k = 2" for k
    using that ascii by (auto simp: reads_back_def unary_env_def unary_record_def)
  have "reads_back unary_env (foldl (\<lambda>m op. account_step op m) (load_sessions unary_env (Some ''iiiii'')) (take n ?ops))" for n
    unfolding load maps by (rule readable) simp
  from session_totals [OF ok init this, where soft_threshold = 1]
  show ?thesis by (auto simp: context_step_def)
qed

end
