(* ===== verification/Tool_Dispatch.thy ===== *)
theory Tool_Dispatch
  imports Tool_Config Tool_Sessions Output_Budget
begin

text \<open>
  The dispatcher of tool requests (\<open>tools/impls/dispatch.rs\<close>) and the translation of command-line
  commands to requests (\<open>tools/mod.rs\<close>).

  The tools themselves act on a world \<open>'w\<close> and are the record \<open>tool_impls\<close>, one field for each
  function the dispatcher calls; the token accounts of a compaction are the operations of
  \<open>Tool_Sessions\<close> on the file the world holds.  A Rust path is its text.
\<close>

section \<open>Requests\<close>

datatype signal_mode = Graceful | Immediate

datatype tool_request =
    FsLs string "nat option"
  | FsCat string
  | FsWrite string string bool bool
  | FsMkdir string bool
  | FsRm string bool bool
  | CodeRead string "nat option" bool "nat option" "nat option"
  | CodeGrep string string "nat option" "nat option" bool bool "string list" "string list"
  | CodeTree string "nat option" bool bool
  | CodeSymbols string "string option" "string option"
  | CodeSummary string
  | CodeEdit string "string option" "string option" "string option" "string option" bool bool
  | MemAdd string "string list" "string option" "string option" bool
  | MemSearch string "string list option" "nat option" "string option"
  | MemCompact string "string option"
  | MemUnpin string
  | MemRemove string
  | SearchQuery string "string option" nat bool
  | SearchFetch "string list" string
  | HumanAsk string "u64 option"
  | FsImageRead string
  | ShellExec string "string option" u64 "signal_mode option" bool

record tool_response =
  tr_success :: bool
  tr_output :: json
  tr_tokens :: nat
  tr_original_tokens :: nat
  tr_truncated :: bool

definition response_of :: "output_env \<Rightarrow> budgeted_output \<Rightarrow> tool_response" where
  "response_of oe b =
     \<lparr>tr_success = True,
      tr_output = (case from_json oe (bo_content b) of Some v \<Rightarrow> v | None \<Rightarrow> JStr (bo_content b)),
      tr_tokens = bo_tokens b, tr_original_tokens = bo_original_tokens b, tr_truncated = bo_truncated b\<rparr>"

definition error_with_code :: "string \<Rightarrow> string \<Rightarrow> tool_response" where
  "error_with_code message code =
     \<lparr>tr_success = False, tr_output = JObj [(''error'', JStr message), (''code'', JStr code)],
      tr_tokens = 0, tr_original_tokens = 0, tr_truncated = False\<rparr>"

definition error_response :: "string \<Rightarrow> tool_response" where
  "error_response message = error_with_code message ''EXECUTION_FAILED''"

section \<open>Policy\<close>

fun policy_name_for :: "tool_request \<Rightarrow> string" where
  "policy_name_for (FsLs _ _) = ''fs_read''"
| "policy_name_for (FsCat _) = ''fs_read''"
| "policy_name_for (FsImageRead _) = ''fs_read''"
| "policy_name_for (FsWrite _ _ _ _) = ''fs_write''"
| "policy_name_for (FsMkdir _ _) = ''fs_write''"
| "policy_name_for (FsRm _ _ _) = ''fs_delete''"
| "policy_name_for (CodeRead _ _ _ _ _) = ''code_read''"
| "policy_name_for (CodeGrep _ _ _ _ _ _ _ _) = ''code_read''"
| "policy_name_for (CodeTree _ _ _ _) = ''code_read''"
| "policy_name_for (CodeSymbols _ _ _) = ''code_read''"
| "policy_name_for (CodeSummary _) = ''code_read''"
| "policy_name_for (CodeEdit _ _ _ _ _ _ _) = ''code_edit''"
| "policy_name_for (MemAdd _ _ _ _ _) = ''memory''"
| "policy_name_for (MemSearch _ _ _ _) = ''memory''"
| "policy_name_for (MemUnpin _) = ''memory''"
| "policy_name_for (MemRemove _) = ''memory''"
| "policy_name_for (MemCompact _ _) = ''mem_compact''"
| "policy_name_for (SearchQuery _ _ _ _) = ''search''"
| "policy_name_for (SearchFetch _ _) = ''search''"
| "policy_name_for (HumanAsk _ _) = ''memory''"
| "policy_name_for (ShellExec _ _ _ _ _) = ''shell_exec''"

text \<open>The table of the levels is written out in \<open>check_policy\<close> and again in \<open>policy_for\<close> of
  \<open>commands/mod.rs\<close>.\<close>

definition policy_for :: "policy_config \<Rightarrow> string \<Rightarrow> policy_level" where
  "policy_for p name =
     (if name = ''code_read'' then tp_code_read (pc_tools p)
      else if name = ''code_edit'' then tp_code_edit (pc_tools p)
      else if name = ''fs_read'' then tp_fs_read (pc_tools p)
      else if name = ''fs_write'' then tp_fs_write (pc_tools p)
      else if name = ''fs_delete'' then tp_fs_delete (pc_tools p)
      else if name = ''shell_exec'' then tp_shell_exec (pc_tools p)
      else if name = ''search'' then tp_search (pc_tools p)
      else if name = ''memory'' then tp_memory (pc_tools p)
      else if name = ''mem_compact'' then tp_mem_compact (pc_tools p)
      else if name = ''git_commit'' then tp_git_commit (pc_tools p)
      else if name = ''git_push'' then tp_git_push (pc_tools p)
      else pc_default p)"

definition tool_quoted :: "string \<Rightarrow> string" where
  "tool_quoted name = ''policy denied: tool '' @ [CHR 0x27] @ name @ [CHR 0x27]"

text \<open>\<open>interactive\<close>: standard input is a terminal.\<close>

definition check_policy :: "tools_config \<Rightarrow> bool \<Rightarrow> tool_request \<Rightarrow> tool_response option" where
  "check_policy cfg interactive req =
     (let name = policy_name_for req in
      case policy_for (tc_policy cfg) name of
        Allow \<Rightarrow> None
      | Prompt \<Rightarrow>
          if interactive then None
          else Some (error_with_code (tool_quoted name @ '' requires approval but no interactive terminal is available'')
                 ''POLICY_PROMPT_REQUIRED'')
      | Deny \<Rightarrow> Some (error_with_code (tool_quoted name @ '' is not allowed by current policy'') ''POLICY_DENIED''))"

section \<open>The tools\<close>

record code_symbol =
  cs_name :: string
  cs_kind :: string
  cs_line_start :: nat
  cs_line_end :: nat

datatype edit_format =
    UnifiedDiff
  | SearchReplace string string bool
  | AstNode string string
  | WholeFile

record compact_result =
  cr_id :: string
  cr_content :: string
  cr_created_at :: string
  cr_session_id :: "string option"
  cr_context_tokens_reset :: bool
  cr_compaction_count :: "u64 option"

type_synonym 'w budgeted_call = "'w \<Rightarrow> (string + budgeted_output) \<times> 'w"
type_synonym 'w value_call = "'w \<Rightarrow> (string + json) \<times> 'w"

text \<open>The reads that only inspect the file system (\<open>is_file\<close>, \<open>exists\<close>, the walk over the source
  files below a directory with their names relative to it, and the parser) leave the world as
  it is.  \<open>debug_kind\<close> results are the \<open>Debug\<close> texts of the symbol kinds.\<close>

record 'w tool_impls =
  ti_fs_ls :: "string \<Rightarrow> nat option \<Rightarrow> nat option \<Rightarrow> 'w budgeted_call"
  ti_fs_cat :: "string \<Rightarrow> nat option \<Rightarrow> 'w budgeted_call"
  ti_fs_write :: "string \<Rightarrow> string \<Rightarrow> bool \<Rightarrow> bool \<Rightarrow> nat option \<Rightarrow> 'w budgeted_call"
  ti_fs_mkdir :: "string \<Rightarrow> bool \<Rightarrow> nat option \<Rightarrow> 'w budgeted_call"
  ti_fs_rm :: "string \<Rightarrow> bool \<Rightarrow> bool \<Rightarrow> nat option \<Rightarrow> 'w budgeted_call"
  ti_image_read :: "string \<Rightarrow> 'w value_call"
  ti_code_read :: "string \<Rightarrow> nat option \<Rightarrow> bool \<Rightarrow> nat option \<Rightarrow> nat option \<Rightarrow> nat option \<Rightarrow> 'w budgeted_call"
  ti_code_grep :: "string \<Rightarrow> string \<Rightarrow> nat option \<Rightarrow> nat option \<Rightarrow> nat option \<Rightarrow> bool \<Rightarrow> bool \<Rightarrow>
     string list \<Rightarrow> string list \<Rightarrow> nat option \<Rightarrow> nat option \<Rightarrow> 'w budgeted_call"
  ti_code_tree :: "string \<Rightarrow> nat option \<Rightarrow> nat option \<Rightarrow> bool \<Rightarrow> bool \<Rightarrow> 'w budgeted_call"
  ti_code_summary :: "string \<Rightarrow> nat option \<Rightarrow> 'w budgeted_call"
  ti_code_edit :: "string \<Rightarrow> edit_format \<Rightarrow> bool \<Rightarrow> nat option \<Rightarrow> 'w budgeted_call"
  ti_is_file :: "string \<Rightarrow> 'w \<Rightarrow> bool"
  ti_exists :: "string \<Rightarrow> 'w \<Rightarrow> bool"
  ti_code_files :: "string \<Rightarrow> 'w \<Rightarrow> (string \<times> string) list"
  ti_parse_file :: "string \<Rightarrow> 'w \<Rightarrow> string + code_symbol list"
  ti_symbols_json :: "code_symbol list \<Rightarrow> json"
  ti_mem_add :: "string \<Rightarrow> string list \<Rightarrow> string option \<Rightarrow> string option \<Rightarrow> bool \<Rightarrow> memory_config \<Rightarrow>
     'w \<Rightarrow> (string + string \<times> json) \<times> 'w"
  ti_mem_recall :: "string \<Rightarrow> nat \<Rightarrow> string option \<Rightarrow> memory_config \<Rightarrow> 'w value_call"
  ti_mem_search :: "string \<Rightarrow> string list option \<Rightarrow> nat \<Rightarrow> string option \<Rightarrow> memory_config \<Rightarrow> 'w value_call"
  ti_mem_compact :: "string \<Rightarrow> string option \<Rightarrow> memory_config \<Rightarrow> 'w \<Rightarrow> (string + compact_result) \<times> 'w"
  ti_mem_unpin :: "string \<Rightarrow> memory_config \<Rightarrow> 'w value_call"
  ti_mem_remove :: "string \<Rightarrow> memory_config \<Rightarrow> 'w value_call"
  ti_search :: "string \<Rightarrow> string option \<Rightarrow> nat \<Rightarrow> bool \<Rightarrow> search_config \<Rightarrow> nat option \<Rightarrow> 'w budgeted_call"
  ti_fetch :: "string list \<Rightarrow> string \<Rightarrow> nat option \<Rightarrow> 'w budgeted_call"
  ti_human_ask :: "string \<Rightarrow> u64 option \<Rightarrow> 'w value_call"
  ti_exec :: "string \<Rightarrow> string option \<Rightarrow> u64 \<Rightarrow> nat option \<Rightarrow> signal_mode \<Rightarrow> bool \<Rightarrow> 'w budgeted_call"
  ti_default_accounts :: string
  ti_accounts_env :: accounts_env
  ti_accounts_file :: "string \<Rightarrow> 'w \<Rightarrow> string option"
  ti_set_accounts_file :: "string \<Rightarrow> string option \<Rightarrow> 'w \<Rightarrow> 'w"
  ti_seconds :: "'w \<Rightarrow> nat"

section \<open>Dispatch\<close>

definition budgeted_response :: "output_env \<Rightarrow> (string + budgeted_output) \<times> 'w \<Rightarrow> tool_response \<times> 'w" where
  "budgeted_response oe r =
     (case r of (Inr b, w) \<Rightarrow> (response_of oe b, w) | (Inl e, w) \<Rightarrow> (error_response e, w))"

definition value_response ::
  "output_env \<Rightarrow> nat option \<Rightarrow> (string + json) \<times> 'w \<Rightarrow> tool_response \<times> 'w" where
  "value_response oe max_tokens r =
     (case r of
        (Inr v, w) \<Rightarrow> (response_of oe (emit_json oe v max_tokens), w)
      | (Inl e, w) \<Rightarrow> (error_response e, w))"

definition or_default :: "'a option \<Rightarrow> 'a \<Rightarrow> 'a option" where
  "or_default v d = (case v of Some x \<Rightarrow> Some x | None \<Rightarrow> Some d)"

definition symbol_matches :: "string option \<Rightarrow> string option \<Rightarrow> code_symbol \<Rightarrow> bool" where
  "symbol_matches kind name s \<longleftrightarrow>
     (case kind of None \<Rightarrow> True | Some k \<Rightarrow> contains_sub (to_ascii_lower k) (to_ascii_lower (cs_kind s)))
     \<and> (case name of None \<Rightarrow> True | Some n \<Rightarrow> contains_sub (to_ascii_lower n) (to_ascii_lower (cs_name s)))"

definition symbols_of :: "'w tool_impls \<Rightarrow> string \<Rightarrow> 'w \<Rightarrow> string + code_symbol list" where
  "symbols_of ti path w =
     (if ti_is_file ti path w then ti_parse_file ti path w
      else Inr (concat (map (\<lambda>(file, rel).
         case ti_parse_file ti file w of
           Inl _ \<Rightarrow> []
         | Inr syms \<Rightarrow> map (\<lambda>s. s\<lparr>cs_name := rel @ '':'' @ cs_name s\<rparr>) syms) (ti_code_files ti path w))))"

definition execute_fs ::
  "output_env \<Rightarrow> 'w tool_impls \<Rightarrow> tools_config \<Rightarrow> tool_request \<Rightarrow> nat option \<Rightarrow> 'w \<Rightarrow> tool_response \<times> 'w" where
  "execute_fs oe ti cfg req max_tokens w =
     (case req of
        FsLs path max_depth \<Rightarrow>
          budgeted_response oe (ti_fs_ls ti path (or_default max_depth (fs_ls_max_depth (tc_output cfg))) max_tokens w)
      | FsCat path \<Rightarrow> budgeted_response oe (ti_fs_cat ti path max_tokens w)
      | FsWrite path content dry_run backup \<Rightarrow>
          budgeted_response oe (ti_fs_write ti path content dry_run backup max_tokens w)
      | FsMkdir path parents \<Rightarrow> budgeted_response oe (ti_fs_mkdir ti path parents max_tokens w)
      | FsRm path recursive dry_run \<Rightarrow> budgeted_response oe (ti_fs_rm ti path recursive dry_run max_tokens w)
      | FsImageRead path \<Rightarrow>
          (case ti_image_read ti path w of
             (Inr meta, w') \<Rightarrow>
               (\<lparr>tr_success = True, tr_output = meta, tr_tokens = 0, tr_original_tokens = 0, tr_truncated = False\<rparr>, w')
           | (Inl e, w') \<Rightarrow> (error_response e, w'))
      | _ \<Rightarrow> (error_response [], w))"

definition code_edit_format ::
  "string option \<Rightarrow> string option \<Rightarrow> string option \<Rightarrow> string option \<Rightarrow> bool \<Rightarrow> edit_format option" where
  "code_edit_format search replace target_fn new_body replace_all =
     (case (search, replace) of
        (Some s, Some r) \<Rightarrow> Some (SearchReplace s r replace_all)
      | _ \<Rightarrow> (case (target_fn, new_body) of
           (Some name, Some body) \<Rightarrow> Some (AstNode name body)
         | _ \<Rightarrow> None))"

text \<open>The crate is built with its default feature \<open>code-analysis\<close>.\<close>

definition execute_code ::
  "output_env \<Rightarrow> 'w tool_impls \<Rightarrow> tools_config \<Rightarrow> tool_request \<Rightarrow> nat option \<Rightarrow> 'w \<Rightarrow> tool_response \<times> 'w" where
  "execute_code oe ti cfg req max_tokens w =
     (case req of
        CodeRead path context symbols line end_line \<Rightarrow>
          budgeted_response oe
            (ti_code_read ti path (or_default context (code_read_context_lines (tc_output cfg))) symbols max_tokens line end_line w)
      | CodeGrep pattern path context limit ignore_case regex incl excl \<Rightarrow>
          budgeted_response oe
            (ti_code_grep ti path pattern context max_tokens limit ignore_case regex incl excl
              (Some (grep_workers (tc_code cfg))) (Some (mmap_min_bytes (tc_code cfg))) w)
      | CodeTree path depth compact ranked \<Rightarrow>
          budgeted_response oe
            (ti_code_tree ti path (or_default depth (code_tree_max_depth (tc_output cfg))) max_tokens compact ranked w)
      | CodeSymbols path kind name \<Rightarrow>
          (case symbols_of ti path w of
             Inl e \<Rightarrow> (error_response e, w)
           | Inr syms \<Rightarrow>
               (response_of oe (emit_json oe (ti_symbols_json ti (filter (symbol_matches kind name) syms)) max_tokens), w))
      | CodeSummary path \<Rightarrow> budgeted_response oe (ti_code_summary ti path max_tokens w)
      | CodeEdit path search replace target_fn new_body replace_all dry_run \<Rightarrow>
          (case code_edit_format search replace target_fn new_body replace_all of
             None \<Rightarrow> (error_response ''invalid code_edit args: specify search+replace or target_fn+new_body'', w)
           | Some fmt \<Rightarrow> budgeted_response oe (ti_code_edit ti path fmt dry_run max_tokens w))
      | _ \<Rightarrow> (error_response [], w))"

definition accounts_path :: "'w tool_impls \<Rightarrow> tools_config \<Rightarrow> string" where
  "accounts_path ti cfg =
     (if sessions_path (tc_session cfg) = [] then ti_default_accounts ti else sessions_path (tc_session cfg))"

text \<open>The token account after a compaction: the reset, the count, and what the answer reports.\<close>

definition compact_accounts ::
  "'w tool_impls \<Rightarrow> tools_config \<Rightarrow> string \<Rightarrow> compact_result \<Rightarrow> 'w \<Rightarrow> compact_result \<times> 'w" where
  "compact_accounts ti cfg sid result w =
     (let path = accounts_path ti cfg; env = ti_accounts_env ti in
      case reset_context env sid 0 (ti_seconds ti w) (ti_accounts_file ti path w) of (r1, f1) \<Rightarrow>
        (let w1 = ti_set_accounts_file ti path f1 w;
             result1 = (if ok r1 then result\<lparr>cr_context_tokens_reset := True\<rparr> else result)
         in case increment_compaction env sid (ti_seconds ti w1) f1 of
              (Inl _, f2) \<Rightarrow> (result1, ti_set_accounts_file ti path f2 w1)
            | (Inr _, f2) \<Rightarrow>
                ((case get_stats env sid f2 (soft_threshold_tokens (tc_session cfg)) of
                    Inl _ \<Rightarrow> result1
                  | Inr st \<Rightarrow> result1\<lparr>cr_compaction_count := Some (tr_compaction_count st)\<rparr>),
                 ti_set_accounts_file ti path f2 w1)))"

definition compact_json :: "compact_result \<Rightarrow> json" where
  "compact_json r =
     JObj [(''id'', JStr (cr_id r)), (''content'', JStr (cr_content r)), (''created_at'', JStr (cr_created_at r)),
       (''session_id'', case cr_session_id r of Some s \<Rightarrow> JStr s | None \<Rightarrow> JNull),
       (''context_tokens_reset'', JBool (cr_context_tokens_reset r)),
       (''compaction_count'', case cr_compaction_count r of Some n \<Rightarrow> JNum (show_nat (unat n)) | None \<Rightarrow> JNull)]"

definition execute_memory ::
  "output_env \<Rightarrow> 'w tool_impls \<Rightarrow> tools_config \<Rightarrow> tool_request \<Rightarrow> nat option \<Rightarrow> 'w \<Rightarrow> tool_response \<times> 'w" where
  "execute_memory oe ti cfg req max_tokens w =
     (case req of
        MemAdd content tags source session_id pin \<Rightarrow>
          (case ti_mem_add ti content tags source session_id pin (tc_memory cfg) w of
             (Inr (i, _), w') \<Rightarrow>
               (response_of oe (emit_json oe (JObj [(''stored'', JBool True), (''id'', JStr i)]) max_tokens), w')
           | (Inl e, w') \<Rightarrow> (error_response e, w'))
      | MemSearch query tags limit session_id \<Rightarrow>
          value_response oe max_tokens
            (ti_mem_search ti query tags (case limit of Some n \<Rightarrow> n | None \<Rightarrow> 10) session_id (tc_memory cfg) w)
      | MemCompact summary session_id \<Rightarrow>
          (case ti_mem_compact ti summary session_id (tc_memory cfg) w of
             (Inl e, w') \<Rightarrow> (error_response e, w')
           | (Inr result, w') \<Rightarrow>
               (case (case session_id of None \<Rightarrow> (result, w') | Some sid \<Rightarrow> compact_accounts ti cfg sid result w') of
                  (result', w'') \<Rightarrow> (response_of oe (emit_json oe (compact_json result') max_tokens), w'')))
      | MemUnpin i \<Rightarrow> value_response oe max_tokens (ti_mem_unpin ti i (tc_memory cfg) w)
      | MemRemove i \<Rightarrow> value_response oe max_tokens (ti_mem_remove ti i (tc_memory cfg) w)
      | _ \<Rightarrow> (error_response [], w))"

definition execute_other ::
  "output_env \<Rightarrow> 'w tool_impls \<Rightarrow> tools_config \<Rightarrow> tool_request \<Rightarrow> nat option \<Rightarrow> 'w \<Rightarrow> tool_response \<times> 'w" where
  "execute_other oe ti cfg req max_tokens w =
     (case req of
        SearchQuery query engine limit no_cache \<Rightarrow>
          budgeted_response oe (ti_search ti query engine limit no_cache (tc_search cfg) max_tokens w)
      | SearchFetch urls mode \<Rightarrow> budgeted_response oe (ti_fetch ti urls mode max_tokens w)
      | HumanAsk message timeout \<Rightarrow> value_response oe max_tokens (ti_human_ask ti message timeout w)
      | ShellExec command cwd timeout_secs signal shorten \<Rightarrow>
          budgeted_response oe
            (ti_exec ti command cwd timeout_secs (if shorten then max_tokens else None)
              (case signal of Some m \<Rightarrow> m | None \<Rightarrow> Graceful) False w)
      | _ \<Rightarrow> (error_response [], w))"

fun run_tool ::
  "output_env \<Rightarrow> 'w tool_impls \<Rightarrow> tools_config \<Rightarrow> tool_request \<Rightarrow> nat option \<Rightarrow> 'w \<Rightarrow> tool_response \<times> 'w" where
  "run_tool oe ti cfg (FsLs a b) = execute_fs oe ti cfg (FsLs a b)"
| "run_tool oe ti cfg (FsCat a) = execute_fs oe ti cfg (FsCat a)"
| "run_tool oe ti cfg (FsWrite a b c d) = execute_fs oe ti cfg (FsWrite a b c d)"
| "run_tool oe ti cfg (FsMkdir a b) = execute_fs oe ti cfg (FsMkdir a b)"
| "run_tool oe ti cfg (FsRm a b c) = execute_fs oe ti cfg (FsRm a b c)"
| "run_tool oe ti cfg (FsImageRead a) = execute_fs oe ti cfg (FsImageRead a)"
| "run_tool oe ti cfg (CodeRead a b c d e) = execute_code oe ti cfg (CodeRead a b c d e)"
| "run_tool oe ti cfg (CodeGrep a b c d e f g h) = execute_code oe ti cfg (CodeGrep a b c d e f g h)"
| "run_tool oe ti cfg (CodeTree a b c d) = execute_code oe ti cfg (CodeTree a b c d)"
| "run_tool oe ti cfg (CodeSymbols a b c) = execute_code oe ti cfg (CodeSymbols a b c)"
| "run_tool oe ti cfg (CodeSummary a) = execute_code oe ti cfg (CodeSummary a)"
| "run_tool oe ti cfg (CodeEdit a b c d e f g) = execute_code oe ti cfg (CodeEdit a b c d e f g)"
| "run_tool oe ti cfg (MemAdd a b c d e) = execute_memory oe ti cfg (MemAdd a b c d e)"
| "run_tool oe ti cfg (MemSearch a b c d) = execute_memory oe ti cfg (MemSearch a b c d)"
| "run_tool oe ti cfg (MemCompact a b) = execute_memory oe ti cfg (MemCompact a b)"
| "run_tool oe ti cfg (MemUnpin a) = execute_memory oe ti cfg (MemUnpin a)"
| "run_tool oe ti cfg (MemRemove a) = execute_memory oe ti cfg (MemRemove a)"
| "run_tool oe ti cfg (SearchQuery a b c d) = execute_other oe ti cfg (SearchQuery a b c d)"
| "run_tool oe ti cfg (SearchFetch a b) = execute_other oe ti cfg (SearchFetch a b)"
| "run_tool oe ti cfg (HumanAsk a b) = execute_other oe ti cfg (HumanAsk a b)"
| "run_tool oe ti cfg (ShellExec a b c d e) = execute_other oe ti cfg (ShellExec a b c d e)"

definition execute_tool ::
  "output_env \<Rightarrow> 'w tool_impls \<Rightarrow> bool \<Rightarrow> tools_config \<Rightarrow> tool_request \<Rightarrow> nat option \<Rightarrow> 'w \<Rightarrow> tool_response \<times> 'w" where
  "execute_tool oe ti interactive cfg req max_tokens w =
     (case check_policy cfg interactive req of
        Some denied \<Rightarrow> (denied, w)
      | None \<Rightarrow> run_tool oe ti cfg req max_tokens w)"

end
