(* ===== verification/Tool_Commands.thy ===== *)
theory Tool_Commands
  imports Tool_Dispatch
begin

text \<open>
  The command line of the tools: the commands (\<open>tools/cli/mod.rs\<close>), their translation to requests
  (\<open>tools/mod.rs\<close>), and their handlers with the policy check that can ask at the terminal
  (\<open>commands/\{mod,fs,code,memory,search,exec,human\}.rs\<close>).

  A handler gives an error text or the text it prints.  The calls only the handlers make are the
  record \<open>cli_impls\<close>, an extension of \<open>tool_impls\<close>; the renderings of \<open>output/render.rs\<close> are among
  them.
\<close>

section \<open>Commands\<close>

datatype fs_command =
    CliLs string "nat option"
  | CliCat string
  | CliWrite string "string option" bool bool
  | CliMkdir string bool
  | CliRm string bool bool

datatype code_command =
    CliRead string "nat option" bool "nat option" "nat option"
  | CliGrep string string "nat option" "nat option" bool bool "string list" "string list"
  | CliTree string "nat option" bool bool
  | CliSymbols string "string option" "string option" bool
  | CliIndex string bool
  | CliEdit string bool "string option" "string option" "string option" "string option" bool bool bool
  | CliSummary string
  | CliAstGrep string string "string option"

datatype mem_command =
    CliAdd string "string list" "string option" "string option" bool
  | CliRecall string nat "string option"
  | CliSearch string "string list" nat "string option"
  | CliCompact string "string option"
  | CliUnpin string
  | CliRemove string
  | CliPrune "u64 option" "u64 option"
  | CliStats
  | CliExport
  | CliImport

datatype human_command = CliAsk string "u64 option" | CliApprove string "string option" | CliConfirm string | CliPending

datatype search_command = CliQuery string "string option" nat bool | CliFetch "string list" string

datatype exec_command = CliRun string "string option" u64 signal_mode bool

datatype cli_command =
    CmdFs fs_command
  | CmdCode code_command
  | CmdMem mem_command
  | CmdSearch search_command
  | CmdHuman human_command
  | CmdExec exec_command
  | CmdOther

section \<open>Translation to requests\<close>

text \<open>\<open>.replace("\n", ...).replace("\t", ...)\<close> of the escapes in a shell argument.\<close>

definition unescape :: "string \<Rightarrow> string" where
  "unescape s = replace_str [CHR 0x5C, CHR ''t''] [CHR 0x09] (replace_str [CHR 0x5C, CHR ''n''] [CHR 0x0A] s)"

fun fs_to_request :: "fs_command \<Rightarrow> string + tool_request" where
  "fs_to_request (CliLs path max_depth) = Inr (FsLs path max_depth)"
| "fs_to_request (CliCat path) = Inr (FsCat path)"
| "fs_to_request (CliWrite path content dry_run backup) =
     (case content of
        None \<Rightarrow> Inl ''FsWrite via dispatch requires --content flag''
      | Some s \<Rightarrow> Inr (FsWrite path (unescape s) dry_run backup))"
| "fs_to_request (CliMkdir path parents) = Inr (FsMkdir path parents)"
| "fs_to_request (CliRm path recursive dry_run) = Inr (FsRm path recursive dry_run)"

fun code_to_request :: "code_command \<Rightarrow> string + tool_request" where
  "code_to_request (CliRead path context symbols line end_line) = Inr (CodeRead path context symbols line end_line)"
| "code_to_request (CliGrep pattern path context limit ignore_case regex incl excl) =
     Inr (CodeGrep pattern path context limit ignore_case regex incl excl)"
| "code_to_request (CliTree path depth compact ranked) = Inr (CodeTree path depth compact ranked)"
| "code_to_request (CliSymbols path kind name references) = Inr (CodeSymbols path kind name)"
| "code_to_request (CliSummary path) = Inr (CodeSummary path)"
| "code_to_request (CliEdit _ _ _ _ _ _ _ _ _) = Inl ''CodeEdit is not supported via dispatch''"
| "code_to_request (CliIndex _ _) = Inl ''CodeIndex is not supported via dispatch''"
| "code_to_request (CliAstGrep _ _ _) = Inl ''AstGrep is not supported via dispatch''"

fun mem_to_request :: "mem_command \<Rightarrow> string + tool_request" where
  "mem_to_request (CliAdd content tags source session_id pin) = Inr (MemAdd content tags source session_id pin)"
| "mem_to_request (CliRecall query limit session_id) = Inr (MemSearch query None (Some limit) session_id)"
| "mem_to_request (CliSearch query tags limit session_id) =
     Inr (MemSearch query (if tags = [] then None else Some tags) (Some limit) session_id)"
| "mem_to_request (CliCompact summary session_id) = Inr (MemCompact summary session_id)"
| "mem_to_request (CliUnpin i) = Inr (MemUnpin i)"
| "mem_to_request (CliRemove i) = Inl ''MemRemove is not supported via dispatch''"
| "mem_to_request (CliPrune _ _) = Inl ''MemPrune is not supported via dispatch''"
| "mem_to_request CliStats = Inl ''MemStats is not supported via dispatch''"
| "mem_to_request CliExport = Inl ''MemExport is not supported via dispatch''"
| "mem_to_request CliImport = Inl ''MemImport is not supported via dispatch''"

fun search_to_request :: "search_command \<Rightarrow> string + tool_request" where
  "search_to_request (CliQuery query engine limit no_cache) = Inr (SearchQuery query engine limit no_cache)"
| "search_to_request (CliFetch urls mode) = Inr (SearchFetch urls mode)"

fun human_to_request :: "human_command \<Rightarrow> string + tool_request" where
  "human_to_request (CliAsk message timeout) = Inr (HumanAsk message timeout)"
| "human_to_request (CliApprove _ _) = Inl ''HumanApprove is not supported via dispatch''"
| "human_to_request (CliConfirm _) = Inl ''HumanConfirm is not supported via dispatch''"
| "human_to_request CliPending = Inl ''HumanPending is not supported via dispatch''"

fun exec_to_request :: "exec_command \<Rightarrow> string + tool_request" where
  "exec_to_request (CliRun command cwd timeout signal stream) =
     Inr (ShellExec command cwd timeout (Some signal) True)"

fun cli_to_request :: "cli_command \<Rightarrow> string + tool_request" where
  "cli_to_request (CmdFs c) = fs_to_request c"
| "cli_to_request (CmdCode c) = code_to_request c"
| "cli_to_request (CmdMem c) = mem_to_request c"
| "cli_to_request (CmdSearch c) = search_to_request c"
| "cli_to_request (CmdHuman c) = human_to_request c"
| "cli_to_request (CmdExec c) = exec_to_request c"
| "cli_to_request CmdOther = Inl ''Command not supported via dispatch''"

section \<open>Handlers\<close>

record 'w cli_impls = "'w tool_impls" +
  cl_confirm :: "string \<Rightarrow> 'w \<Rightarrow> (string + bool) \<times> 'w"
  cl_stdin :: "'w \<Rightarrow> (string + string) \<times> 'w"
  cl_render_json :: "output_envelope \<Rightarrow> string"
  cl_render_compact :: "json \<Rightarrow> string"
  cl_render_raw :: "json \<Rightarrow> string"
  cl_render_markdown :: "json \<Rightarrow> string"
  cl_reference_symbols :: "string \<Rightarrow> code_symbol list \<Rightarrow> bool \<Rightarrow> 'w \<Rightarrow> json option \<times> 'w"
  cl_index :: "string \<Rightarrow> bool \<Rightarrow> 'w value_call"
  cl_ast_grep :: "string \<Rightarrow> string \<Rightarrow> string option \<Rightarrow> nat option \<Rightarrow> 'w budgeted_call"
  cl_create_checkpoint :: "string \<Rightarrow> bool \<Rightarrow> 'w \<Rightarrow> (string + string) \<times> 'w"
  cl_restore_checkpoint :: "string \<Rightarrow> 'w \<Rightarrow> (string + unit) \<times> 'w"
  cl_mem_init :: "memory_config \<Rightarrow> 'w \<Rightarrow> (string + unit) \<times> 'w"
  cl_mem_prune :: "u64 option \<Rightarrow> u64 option \<Rightarrow> memory_config \<Rightarrow> 'w \<Rightarrow> (string + nat) \<times> 'w"
  cl_mem_stats :: "memory_config \<Rightarrow> 'w value_call"
  cl_mem_export :: "memory_config \<Rightarrow> 'w value_call"
  cl_mem_import :: "string \<Rightarrow> memory_config \<Rightarrow> 'w \<Rightarrow> (string + nat) \<times> 'w"
  cl_approve :: "string \<Rightarrow> string option \<Rightarrow> 'w value_call"
  cl_confirm_request :: "string \<Rightarrow> 'w value_call"
  cl_pending :: "'w value_call"

record tool_context =
  tx_config :: tools_config
  tx_max_tokens :: "nat option"
  tx_format :: output_format

type_synonym 'w printed = "(string + string) \<times> 'w"

definition ask_policy :: "'w cli_impls \<Rightarrow> bool \<Rightarrow> tool_context \<Rightarrow> string \<Rightarrow> 'w \<Rightarrow> (string + unit) \<times> 'w" where
  "ask_policy ci interactive ctx name w =
     (case policy_for (tc_policy (tx_config ctx)) name of
        Allow \<Rightarrow> (Inr (), w)
      | Prompt \<Rightarrow>
          if interactive
          then (case cl_confirm ci (''Tool '' @ [CHR 0x27] @ name @ [CHR 0x27] @ '' requires approval. Allow?'') w of
                  (Inr True, w') \<Rightarrow> (Inr (), w')
                | (Inr False, w') \<Rightarrow> (Inl (''policy denied: user denied tool '' @ [CHR 0x27] @ name @ [CHR 0x27]), w')
                | (Inl e, w') \<Rightarrow>
                    (Inl (''policy denied: could not prompt for tool '' @ [CHR 0x27] @ name @ [CHR 0x27] @ '': '' @ e), w'))
          else (Inl (tool_quoted name @ '' requires approval but no interactive terminal is available''), w)
      | Deny \<Rightarrow> (Inl (tool_quoted name @ '' is not allowed by current policy''), w))"

definition format_output :: "output_env \<Rightarrow> 'w cli_impls \<Rightarrow> tool_context \<Rightarrow> budgeted_output \<Rightarrow> string" where
  "format_output oe ci ctx b =
     (case tx_format ctx of
        Json \<Rightarrow> cl_render_json ci (from_budgeted oe b)
      | Compact \<Rightarrow> (case from_json oe (bo_content b) of Some v \<Rightarrow> cl_render_compact ci v | None \<Rightarrow> bo_content b)
      | Raw \<Rightarrow> (case from_json oe (bo_content b) of Some v \<Rightarrow> cl_render_raw ci v | None \<Rightarrow> bo_content b)
      | Markdown \<Rightarrow> (case from_json oe (bo_content b) of Some v \<Rightarrow> cl_render_markdown ci v | None \<Rightarrow> bo_content b))"

text \<open>The two ways a handler ends: printing a budgeted output, or a value put under the budget.\<close>

definition print_budgeted ::
  "output_env \<Rightarrow> 'w cli_impls \<Rightarrow> tool_context \<Rightarrow> (string + budgeted_output) \<times> 'w \<Rightarrow> 'w printed" where
  "print_budgeted oe ci ctx r =
     (case r of (Inl e, w) \<Rightarrow> (Inl e, w) | (Inr b, w) \<Rightarrow> (Inr (format_output oe ci ctx b), w))"

definition print_value :: "output_env \<Rightarrow> 'w cli_impls \<Rightarrow> tool_context \<Rightarrow> (string + json) \<times> 'w \<Rightarrow> 'w printed" where
  "print_value oe ci ctx r =
     (case r of
        (Inl e, w) \<Rightarrow> (Inl e, w)
      | (Inr v, w) \<Rightarrow> (Inr (format_output oe ci ctx (emit_json oe v (tx_max_tokens ctx))), w))"

definition permitted ::
  "'w cli_impls \<Rightarrow> bool \<Rightarrow> tool_context \<Rightarrow> string \<Rightarrow> ('w \<Rightarrow> 'w printed) \<Rightarrow> 'w \<Rightarrow> 'w printed" where
  "permitted ci interactive ctx name k w =
     (case ask_policy ci interactive ctx name w of (Inl e, w') \<Rightarrow> (Inl e, w') | (Inr _, w') \<Rightarrow> k w')"

definition handle_fs ::
  "output_env \<Rightarrow> 'w cli_impls \<Rightarrow> bool \<Rightarrow> tool_context \<Rightarrow> fs_command \<Rightarrow> 'w \<Rightarrow> 'w printed" where
  "handle_fs oe ci interactive ctx c =
     (let ti = tool_impls.truncate ci; cfg = tx_config ctx; mt = tx_max_tokens ctx in
      case c of
        CliLs path max_depth \<Rightarrow> permitted ci interactive ctx ''fs_read'' (\<lambda>w.
          print_budgeted oe ci ctx (ti_fs_ls ti path (or_default max_depth (fs_ls_max_depth (tc_output cfg))) mt w))
      | CliCat path \<Rightarrow> permitted ci interactive ctx ''fs_read'' (\<lambda>w.
          print_budgeted oe ci ctx (ti_fs_cat ti path mt w))
      | CliWrite path content dry_run backup \<Rightarrow> permitted ci interactive ctx ''fs_write'' (\<lambda>w.
          (case (case content of Some s \<Rightarrow> (Inr (unescape s), w) | None \<Rightarrow> cl_stdin ci w) of
             (Inl e, w') \<Rightarrow> (Inl e, w')
           | (Inr s, w') \<Rightarrow> print_budgeted oe ci ctx (ti_fs_write ti path s dry_run backup mt w')))
      | CliMkdir path parents \<Rightarrow> permitted ci interactive ctx ''fs_write'' (\<lambda>w.
          print_budgeted oe ci ctx (ti_fs_mkdir ti path parents mt w))
      | CliRm path recursive dry_run \<Rightarrow> permitted ci interactive ctx ''fs_delete'' (\<lambda>w.
          print_budgeted oe ci ctx (ti_fs_rm ti path recursive dry_run mt w)))"

definition handle_symbols ::
  "output_env \<Rightarrow> 'w cli_impls \<Rightarrow> tool_context \<Rightarrow> string \<Rightarrow> string option \<Rightarrow> string option \<Rightarrow> bool \<Rightarrow> 'w \<Rightarrow> 'w printed" where
  "handle_symbols oe ci ctx path kind name references w =
     (case symbols_of (tool_impls.truncate ci) path w of
        Inl e \<Rightarrow> (Inl e, w)
      | Inr syms \<Rightarrow>
          (let filtered = filter (symbol_matches kind name) syms in
           case (if references then cl_reference_symbols ci path filtered (auto_index (tc_code (tx_config ctx))) w else (None, w)) of
             (Some v, w') \<Rightarrow> print_value oe ci ctx (Inr v, w')
           | (None, w') \<Rightarrow> print_value oe ci ctx (Inr (ti_symbols_json (tool_impls.truncate ci) filtered), w')))"

definition cli_edit_format ::
  "bool \<Rightarrow> string option \<Rightarrow> string option \<Rightarrow> string option \<Rightarrow> string option \<Rightarrow> bool \<Rightarrow> bool \<Rightarrow> edit_format option" where
  "cli_edit_format patch search replace target_fn new_body whole_file replace_all =
     (if patch then Some UnifiedDiff
      else case (search, replace) of
        (Some s, Some r) \<Rightarrow> Some (SearchReplace (unescape s) (unescape r) replace_all)
      | _ \<Rightarrow> (case (target_fn, new_body) of
           (Some name, Some body) \<Rightarrow> Some (AstNode name (unescape body))
         | _ \<Rightarrow> if whole_file then Some WholeFile else None))"

definition handle_edit ::
  "output_env \<Rightarrow> 'w cli_impls \<Rightarrow> tool_context \<Rightarrow> string \<Rightarrow> edit_format option \<Rightarrow> bool \<Rightarrow> 'w \<Rightarrow> 'w printed" where
  "handle_edit oe ci ctx path fmt dry_run w =
     (case fmt of
        None \<Rightarrow> (Inl ''specify one of: --patch, --search/--replace, --fn/--new-body, --whole-file'', w)
      | Some f \<Rightarrow>
          (let code = tc_code (tx_config ctx) in
           case (if git_safety code \<and> \<not> dry_run
                 then (case cl_create_checkpoint ci path (git_safety_branch code) w of
                         (Inr cp, w') \<Rightarrow> (Some cp, w') | (Inl _, w') \<Rightarrow> (None, w'))
                 else (None, w)) of
             (checkpoint, w1) \<Rightarrow>
               (case ti_code_edit ci path f dry_run (tx_max_tokens ctx) w1 of
                  (Inr b, w2) \<Rightarrow> (Inr (format_output oe ci ctx b), w2)
                | (Inl e, w2) \<Rightarrow>
                    (Inl e, case checkpoint of None \<Rightarrow> w2 | Some cp \<Rightarrow> snd (cl_restore_checkpoint ci cp w2)))))"

definition handle_code ::
  "output_env \<Rightarrow> 'w cli_impls \<Rightarrow> bool \<Rightarrow> tool_context \<Rightarrow> code_command \<Rightarrow> 'w \<Rightarrow> 'w printed" where
  "handle_code oe ci interactive ctx c =
     (let ti = tool_impls.truncate ci; cfg = tx_config ctx; mt = tx_max_tokens ctx in
      case c of
        CliRead path context symbols line end_line \<Rightarrow> permitted ci interactive ctx ''code_read'' (\<lambda>w.
          print_budgeted oe ci ctx
            (ti_code_read ti path (or_default context (code_read_context_lines (tc_output cfg))) symbols mt line end_line w))
      | CliGrep pattern path context limit ignore_case regex incl excl \<Rightarrow>
          permitted ci interactive ctx ''code_read'' (\<lambda>w.
            (case (if \<not> ti_exists ti path w \<and> ti_exists ti pattern w then (path, pattern) else (pattern, path)) of
               (pattern', path') \<Rightarrow>
                 print_budgeted oe ci ctx
                   (ti_code_grep ti path' pattern' context mt limit ignore_case regex incl excl
                     (Some (grep_workers (tc_code cfg))) (Some (mmap_min_bytes (tc_code cfg))) w)))
      | CliTree path depth compact ranked \<Rightarrow> permitted ci interactive ctx ''code_read'' (\<lambda>w.
          print_budgeted oe ci ctx
            (ti_code_tree ti path (or_default depth (code_tree_max_depth (tc_output cfg))) mt compact ranked w))
      | CliSymbols path kind name references \<Rightarrow> permitted ci interactive ctx ''code_read''
          (handle_symbols oe ci ctx path kind name references)
      | CliIndex path status \<Rightarrow> permitted ci interactive ctx ''code_read'' (\<lambda>w.
          print_value oe ci ctx (cl_index ci path status w))
      | CliEdit path patch search replace target_fn new_body whole_file replace_all dry_run \<Rightarrow>
          permitted ci interactive ctx ''code_edit''
            (handle_edit oe ci ctx path (cli_edit_format patch search replace target_fn new_body whole_file replace_all) dry_run)
      | CliSummary path \<Rightarrow> permitted ci interactive ctx ''code_read'' (\<lambda>w.
          print_budgeted oe ci ctx (ti_code_summary ti path mt w))
      | CliAstGrep pattern path language \<Rightarrow> permitted ci interactive ctx ''code_read'' (\<lambda>w.
          print_budgeted oe ci ctx (cl_ast_grep ci path pattern language mt w)))"

definition counted :: "string \<Rightarrow> (string + nat) \<times> 'w \<Rightarrow> (string + json) \<times> 'w" where
  "counted key r = (case r of (Inl e, w) \<Rightarrow> (Inl e, w) | (Inr n, w) \<Rightarrow> (Inr (JObj [(key, JNum (show_nat n))]), w))"

definition mem_command_body ::
  "output_env \<Rightarrow> 'w cli_impls \<Rightarrow> bool \<Rightarrow> tool_context \<Rightarrow> mem_command \<Rightarrow> 'w \<Rightarrow> 'w printed" where
  "mem_command_body oe ci interactive ctx c w =
     (let ti = tool_impls.truncate ci; mem = tc_memory (tx_config ctx) in
      case c of
        CliAdd content tags source session_id pin \<Rightarrow>
          print_value oe ci ctx
            (case ti_mem_add ti content tags source session_id pin mem w of
               (Inl e, w') \<Rightarrow> (Inl e, w') | (Inr (_, v), w') \<Rightarrow> (Inr v, w'))
      | CliRecall query limit session_id \<Rightarrow> print_value oe ci ctx (ti_mem_recall ti query limit session_id mem w)
      | CliSearch query tags limit session_id \<Rightarrow>
          print_value oe ci ctx (ti_mem_search ti query (if tags = [] then None else Some tags) limit session_id mem w)
      | CliCompact summary session_id \<Rightarrow> permitted ci interactive ctx ''mem_compact'' (\<lambda>w.
          (case ti_mem_compact ti summary session_id mem w of
             (Inl e, w') \<Rightarrow> (Inl e, w')
           | (Inr result, w') \<Rightarrow>
               (case (case session_id of None \<Rightarrow> (result, w')
                      | Some sid \<Rightarrow> compact_accounts ti (tx_config ctx) sid result w') of
                  (result', w'') \<Rightarrow> print_value oe ci ctx (Inr (compact_json result'), w'')))) w
      | CliUnpin i \<Rightarrow> print_value oe ci ctx (ti_mem_unpin ti i mem w)
      | CliRemove i \<Rightarrow> print_value oe ci ctx (ti_mem_remove ti i mem w)
      | CliPrune before_days min_access \<Rightarrow>
          print_value oe ci ctx (counted ''pruned'' (cl_mem_prune ci before_days min_access mem w))
      | CliStats \<Rightarrow> print_value oe ci ctx (cl_mem_stats ci mem w)
      | CliExport \<Rightarrow> print_value oe ci ctx (cl_mem_export ci mem w)
      | CliImport \<Rightarrow>
          (case cl_stdin ci w of
             (Inl e, w') \<Rightarrow> (Inl e, w')
           | (Inr s, w') \<Rightarrow> print_value oe ci ctx (counted ''imported'' (cl_mem_import ci s mem w'))))"

definition handle_mem ::
  "output_env \<Rightarrow> 'w cli_impls \<Rightarrow> bool \<Rightarrow> tool_context \<Rightarrow> mem_command \<Rightarrow> 'w \<Rightarrow> 'w printed" where
  "handle_mem oe ci interactive ctx c =
     permitted ci interactive ctx ''memory'' (\<lambda>w.
       (case cl_mem_init ci (tc_memory (tx_config ctx)) w of
          (Inl e, w') \<Rightarrow> (Inl e, w')
        | (Inr _, w') \<Rightarrow> mem_command_body oe ci interactive ctx c w'))"

definition handle_search ::
  "output_env \<Rightarrow> 'w cli_impls \<Rightarrow> bool \<Rightarrow> tool_context \<Rightarrow> search_command \<Rightarrow> 'w \<Rightarrow> 'w printed" where
  "handle_search oe ci interactive ctx c =
     permitted ci interactive ctx ''search'' (\<lambda>w.
       (case c of
          CliQuery query engine limit no_cache \<Rightarrow>
            print_budgeted oe ci ctx
              (ti_search ci query engine limit no_cache (tc_search (tx_config ctx)) (tx_max_tokens ctx) w)
        | CliFetch urls mode \<Rightarrow> print_budgeted oe ci ctx (ti_fetch ci urls mode (tx_max_tokens ctx) w)))"

definition handle_exec ::
  "output_env \<Rightarrow> 'w cli_impls \<Rightarrow> bool \<Rightarrow> tool_context \<Rightarrow> exec_command \<Rightarrow> 'w \<Rightarrow> 'w printed" where
  "handle_exec oe ci interactive ctx c =
     permitted ci interactive ctx ''shell_exec'' (\<lambda>w.
       (case c of
          CliRun command cwd timeout signal stream \<Rightarrow>
            print_budgeted oe ci ctx (ti_exec ci command cwd timeout (tx_max_tokens ctx) signal stream w)))"

definition handle_human :: "output_env \<Rightarrow> 'w cli_impls \<Rightarrow> tool_context \<Rightarrow> human_command \<Rightarrow> 'w \<Rightarrow> 'w printed" where
  "handle_human oe ci ctx c w =
     (case c of
        CliAsk message timeout \<Rightarrow> print_value oe ci ctx (ti_human_ask ci message timeout w)
      | CliApprove i response \<Rightarrow> print_value oe ci ctx (cl_approve ci i response w)
      | CliConfirm i \<Rightarrow> print_value oe ci ctx (cl_confirm_request ci i w)
      | CliPending \<Rightarrow> print_value oe ci ctx (cl_pending ci w))"

definition handle_command ::
  "output_env \<Rightarrow> 'w cli_impls \<Rightarrow> bool \<Rightarrow> tool_context \<Rightarrow> cli_command \<Rightarrow> 'w \<Rightarrow> 'w printed" where
  "handle_command oe ci interactive ctx c w =
     (case c of
        CmdFs f \<Rightarrow> handle_fs oe ci interactive ctx f w
      | CmdCode f \<Rightarrow> handle_code oe ci interactive ctx f w
      | CmdMem f \<Rightarrow> handle_mem oe ci interactive ctx f w
      | CmdSearch f \<Rightarrow> handle_search oe ci interactive ctx f w
      | CmdHuman f \<Rightarrow> handle_human oe ci ctx f w
      | CmdExec f \<Rightarrow> handle_exec oe ci interactive ctx f w
      | CmdOther \<Rightarrow> (Inr [], w))"

end
