(* ===== verification/Tool_Props.thy ===== *)
theory Tool_Props
  imports Tool_Commands
begin

text \<open>
  What the tool dispatcher and the command line guarantee: a refused request does nothing, what
  the default policy admits, that the two ways of running a tool do the same, and what a
  compaction does to the token account.
\<close>

section \<open>Policy\<close>





text \<open>The requests that change nothing but the memory, which the default policy is meant to let through.\<close>

fun reads_or_remembers :: "tool_request \<Rightarrow> bool" where
  "reads_or_remembers (FsWrite _ _ _ _) = False"
| "reads_or_remembers (FsMkdir _ _) = False"
| "reads_or_remembers (FsRm _ _ _) = False"
| "reads_or_remembers (CodeEdit _ _ _ _ _ _ _) = False"
| "reads_or_remembers (ShellExec _ _ _ _ _) = False"
| "reads_or_remembers _ = True"

text \<open>Under the default configuration and without a terminal exactly the requests that read
  files or code, search the web, use the memory or ask the human are admitted; writing, deleting,
  editing and running commands are refused.  On a terminal writing and editing are admitted as
  well.\<close>

theorem default_policy_admits:
  "(check_policy (default_tools_config n) False req = None \<longleftrightarrow> reads_or_remembers req)
   \<and> (check_policy (default_tools_config n) True req = None \<longleftrightarrow>
        policy_name_for req \<noteq> ''fs_delete'' \<and> policy_name_for req \<noteq> ''shell_exec'')"
  by (cases req) (simp_all add: check_policy_def policy_for_def default_tools_config_def default_policy_config_def
      default_tool_policies_def)

text \<open>A policy at least as permissive.\<close>

definition policy_le :: "policy_config \<Rightarrow> policy_config \<Rightarrow> bool" where
  "policy_le p q \<longleftrightarrow> pc_default p \<le> pc_default q \<and>
     (\<forall>f \<in> {tp_code_read, tp_code_edit, tp_fs_read, tp_fs_write, tp_fs_delete, tp_shell_exec, tp_search, tp_memory,
       tp_git_commit, tp_git_push, tp_mem_compact}. f (pc_tools p) \<le> f (pc_tools q))"

lemma policy_for_mono: "policy_le p q \<Longrightarrow> policy_for p name \<le> policy_for q name"
  by (simp add: policy_le_def policy_for_def)

lemma check_policy_level:
  "check_policy cfg interactive req = None \<longleftrightarrow>
     (if interactive then Prompt else Allow) \<le> policy_for (tc_policy cfg) (policy_name_for req)"
  by (cases "policy_for (tc_policy cfg) (policy_name_for req)")
    (simp_all add: check_policy_def Let_def less_eq_policy_level_def)

text \<open>Raising levels, or having a terminal, never takes a request away.\<close>

lemma policy_monotone:
  assumes "policy_le (tc_policy cfg) (tc_policy cfg')" and "interactive \<longrightarrow> interactive'"
    and "check_policy cfg interactive req = None"
  shows "check_policy cfg' interactive' req = None"
proof -
  have "(if interactive' then Prompt else Allow) \<le> (if interactive then Prompt else Allow)"
    using assms(2) by (simp add: less_eq_policy_level_def)
  with assms(3) policy_for_mono [OF assms(1), of "policy_name_for req"]
  show ?thesis unfolding check_policy_level by (meson order_trans)
qed

text \<open>A tool at level \<open>prompt\<close> is asked for on the command line only: there the human's refusal
  stops it, while the dispatcher of a process with a terminal runs it without asking.\<close>

theorem dispatch_never_asks:
  assumes "policy_for (tc_policy (tx_config ctx)) (policy_name_for req) = Prompt"
  shows "execute_tool oe ti True (tx_config ctx) req mt w = run_tool oe ti (tx_config ctx) req mt w
    \<and> (cl_confirm ci (''Tool '' @ [CHR 0x27] @ policy_name_for req @ [CHR 0x27] @ '' requires approval. Allow?'') w
           = (Inr False, w') \<longrightarrow>
         permitted ci True ctx (policy_name_for req) k w
           = (Inl (''policy denied: user denied tool '' @ [CHR 0x27] @ policy_name_for req @ [CHR 0x27]), w'))"
  using assms by (simp add: execute_tool_def check_policy_def Let_def permitted_def ask_policy_def)

theorem dispatch_never_asks_witness:
  "\<forall>oe ti mt w. execute_tool oe ti True (default_tools_config None) (FsMkdir ''/etc/x'' True) mt w
     = run_tool oe ti (default_tools_config None) (FsMkdir ''/etc/x'' True) mt w"
proof -
  let ?ctx = "\<lparr>tx_config = default_tools_config None, tx_max_tokens = None, tx_format = Json\<rparr>"
  have "policy_for (tc_policy (tx_config ?ctx)) (policy_name_for (FsMkdir ''/etc/x'' True)) = Prompt"
    by (simp add: policy_for_def default_tools_config_def default_policy_config_def default_tool_policies_def)
  from dispatch_never_asks [OF this, THEN conjunct1] show ?thesis by (intro allI) (simp only: tool_context.simps)
qed

section \<open>Command line and dispatcher\<close>










lemma truncate_impls [simp]:
  "ti_exists (tool_impls.truncate ci) = ti_exists ci" "ti_search (tool_impls.truncate ci) = ti_search ci"
  "ti_fetch (tool_impls.truncate ci) = ti_fetch ci" "ti_exec (tool_impls.truncate ci) = ti_exec ci"
  "ti_human_ask (tool_impls.truncate ci) = ti_human_ask ci"
  by (simp_all add: tool_impls.truncate_def)







section \<open>The token account of a compaction\<close>

lemma reset_context_ok:
  assumes "writes_ok env" and "load_sessions env f sid = Some r"
  shows "reset_context env sid n t f
    = (Inr (r\<lparr>tr_context_tokens := n, tr_updated_at := now_iso t\<rparr>), run_account env f (t, OpReset sid n))"
  using assms by (simp add: reset_context_def run_account_def save_sessions_def writes_ok_def Let_def)

lemma increment_compaction_ok:
  assumes "writes_ok env"
  shows "increment_compaction env sid t f = (Inr (), run_account env f (t, OpCompact sid))"
  using assms
  by (cases "load_sessions env f sid")
    (simp_all add: increment_compaction_def run_account_def save_sessions_def writes_ok_def Let_def)

text \<open>A compaction of a session with an account empties its context and counts itself: the
  account keeps its input tokens, all other accounts are as before, and the answer reports the
  reset and the new number of compactions.\<close>

theorem compaction_accounted:
  assumes "check_policy cfg interactive (MemCompact summary (Some sid)) = None"
    and "ti_mem_compact ti summary (Some sid) (tc_memory cfg) w = (Inr result, w1)"
    and "writes_ok (ti_accounts_env ti)"
    and stored: "\<And>f w. ti_accounts_file ti (accounts_path ti cfg) (ti_set_accounts_file ti (accounts_path ti cfg) f w) = f"
    and table: "load_sessions (ti_accounts_env ti) (ti_accounts_file ti (accounts_path ti cfg) w1) = m" "m sid = Some r"
    and readable: "\<And>w w'. reads_back (ti_accounts_env ti) (account_step (ti_seconds ti w, OpReset sid 0) m)
      \<and> reads_back (ti_accounts_env ti)
          (account_step (ti_seconds ti w', OpCompact sid) (account_step (ti_seconds ti w, OpReset sid 0) m))"
  shows "\<exists>w2 r'. execute_tool oe ti interactive cfg (MemCompact summary (Some sid)) mt w
      = (response_of oe (emit_json oe (compact_json (result\<lparr>cr_context_tokens_reset := True,
           cr_compaction_count := Some (tr_compaction_count r + 1)\<rparr>)) mt), w2)
    \<and> load_sessions (ti_accounts_env ti) (ti_accounts_file ti (accounts_path ti cfg) w2) = m(sid \<mapsto> r')
    \<and> tr_context_tokens r' = 0 \<and> tr_compaction_count r' = tr_compaction_count r + 1
    \<and> tr_input_tokens r' = tr_input_tokens r"
proof -
  let ?env = "ti_accounts_env ti" and ?path = "accounts_path ti cfg"
  let ?f = "ti_accounts_file ti ?path w1" and ?t = "ti_seconds ti w1"
  let ?f1 = "run_account ?env ?f (?t, OpReset sid 0)"
  let ?w1' = "ti_set_accounts_file ti ?path ?f1 w1"
  let ?t' = "ti_seconds ti ?w1'"
  let ?f2 = "run_account ?env ?f1 (?t', OpCompact sid)"
  let ?r1 = "r\<lparr>tr_context_tokens := 0, tr_updated_at := now_iso ?t\<rparr>"
  let ?r2 = "?r1\<lparr>tr_compaction_count := tr_compaction_count r + 1, tr_last_flush_at := Some (now_iso ?t'), tr_updated_at := now_iso ?t'\<rparr>"
  have step: "load_sessions ?env (run_account ?env f (t, a)) = account_step (t, a) (load_sessions ?env f)"
    if "reads_back ?env (account_step (t, a) (load_sessions ?env f))" for f t a
    using run_account_step [OF assms(3), of f "(t, a)"] accounts.load_rewrite [of ?env "account_step (t, a)" f] that by auto
  have load1: "load_sessions ?env ?f1 = m(sid \<mapsto> ?r1)"
    using step [where f = ?f and t = ?t and a = "OpReset sid 0"] readable [of w1] unfolding table(1) by (simp add: table(2))
  have load2: "load_sessions ?env ?f2 = m(sid \<mapsto> ?r2)"
    using step [where f = ?f1 and t = ?t' and a = "OpCompact sid"] readable [of w1 ?w1'] unfolding load1 by (simp add: table(2))
  have "get_stats ?env sid ?f2 k = Inr (session_record.extend ?r2 (session_stats.fields (tr_context_tokens ?r2 > k)))" for k
    by (simp add: get_stats_def load2)
  then have "compact_accounts ti cfg sid result w1
      = (result\<lparr>cr_context_tokens_reset := True, cr_compaction_count := Some (tr_compaction_count r + 1)\<rparr>,
         ti_set_accounts_file ti ?path ?f2 ?w1')"
    using table
    by (simp add: compact_accounts_def Let_def ok_def reset_context_ok [OF assms(3)] increment_compaction_ok [OF assms(3)]
        session_record.defs session_stats.defs)
  then have "execute_tool oe ti interactive cfg (MemCompact summary (Some sid)) mt w
      = (response_of oe (emit_json oe (compact_json (result\<lparr>cr_context_tokens_reset := True,
           cr_compaction_count := Some (tr_compaction_count r + 1)\<rparr>)) mt), ti_set_accounts_file ti ?path ?f2 ?w1')"
    using assms(1,2) by (simp add: execute_tool_def execute_memory_def)
  then show ?thesis
    using load2 stored by (intro exI [of _ "ti_set_accounts_file ti ?path ?f2 ?w1'"] exI [of _ ?r2]) simp
qed

text \<open>An instance: the world is the account file, one character that tells which of three tables it
  holds.\<close>

definition demo_account :: "nat \<Rightarrow> session_record" where
  "demo_account k = (case k of
      0 \<Rightarrow> (fresh_record ''s'' (now_iso 0))\<lparr>tr_input_tokens := 9, tr_context_tokens := 9\<rparr>
    | Suc 0 \<Rightarrow> (fresh_record ''s'' (now_iso 0))\<lparr>tr_input_tokens := 9\<rparr>
    | _ \<Rightarrow> (fresh_record ''s'' (now_iso 0))\<lparr>tr_input_tokens := 9, tr_compaction_count := 1, tr_last_flush_at := Some (now_iso 0)\<rparr>)"

definition demo_accounts_env :: accounts_env where
  "demo_accounts_env = \<lparr>
     print_accounts = (\<lambda>m. case m ''s'' of None \<Rightarrow> [] | Some r \<Rightarrow> if tr_compaction_count r = 0 then ''1'' else ''2''),
     parse_accounts = (\<lambda>s. Some [''s'' \<mapsto> demo_account (if s = ''1'' then 1 else if s = ''2'' then 2 else 0)]),
     write_accounts = (\<lambda>_ s. (None, Some s))\<rparr>"

definition demo_compaction :: compact_result where
  "demo_compaction = \<lparr>cr_id = ''m1'', cr_content = ''sum'', cr_created_at = now_iso 0, cr_session_id = Some ''s'',
     cr_context_tokens_reset = False, cr_compaction_count = None\<rparr>"

theorem compaction_accounted_witness:
  "\<forall>oe ti. \<exists>w2 r'. execute_tool oe
      (ti\<lparr>ti_mem_compact := \<lambda>_ _ _ w. (Inr demo_compaction, w), ti_accounts_env := demo_accounts_env,
        ti_accounts_file := \<lambda>_ w. w, ti_set_accounts_file := \<lambda>_ f _. f, ti_seconds := \<lambda>_. 0\<rparr>)
      False (default_tools_config None) (MemCompact ''sum'' (Some ''s'')) None (Some ''0'')
    = (response_of oe (emit_json oe (compact_json (demo_compaction\<lparr>cr_context_tokens_reset := True,
         cr_compaction_count := Some 1\<rparr>)) None), w2)
    \<and> load_sessions demo_accounts_env w2 = [''s'' \<mapsto> r'] \<and> tr_context_tokens r' = 0 \<and> tr_compaction_count r' = 1 \<and> tr_input_tokens r' = 9"
proof (intro allI)
  fix oe and ti :: "string option tool_impls"
  let ?ti = "ti\<lparr>ti_mem_compact := \<lambda>_ _ _ w. (Inr demo_compaction, w), ti_accounts_env := demo_accounts_env,
        ti_accounts_file := \<lambda>_ w. w, ti_set_accounts_file := \<lambda>_ f _. f, ti_seconds := \<lambda>_. 0\<rparr>"
  let ?cfg = "default_tools_config None" and ?m = "[''s'' \<mapsto> demo_account 0]"
  have allowed: "check_policy ?cfg False (MemCompact ''sum'' (Some ''s'')) = None"
    by (simp add: check_policy_def policy_for_def default_tools_config_def default_policy_config_def default_tool_policies_def)
  have ascii: "utf8_ok [c]" if "is_ascii c" for c
    using that by (intro utf8_ok_ascii) simp
  have digits: "utf8_ok ''0''" "utf8_ok ''1''" "utf8_ok ''2''" by (simp_all add: ascii is_ascii_def)
  have load: "load_sessions (ti_accounts_env ?ti) (ti_accounts_file ?ti (accounts_path ?ti ?cfg) (Some ''0'')) = ?m"
    by (simp add: load_sessions_def demo_accounts_env_def digits)
  have writes: "writes_ok (ti_accounts_env ?ti)" by (simp add: writes_ok_def demo_accounts_env_def)
  have step1: "account_step (0, OpReset ''s'' 0) ?m = [''s'' \<mapsto> demo_account 1]"
    by (simp add: demo_account_def fresh_record_def)
  have step2: "account_step (0, OpCompact ''s'') [''s'' \<mapsto> demo_account 1] = [''s'' \<mapsto> demo_account 2]"
    by (simp add: demo_account_def fresh_record_def numeral_2_eq_2)
  have readable: "reads_back (ti_accounts_env ?ti) (account_step (ti_seconds ?ti w, OpReset ''s'' 0) ?m)
      \<and> reads_back (ti_accounts_env ?ti)
          (account_step (ti_seconds ?ti w', OpCompact ''s'') (account_step (ti_seconds ?ti w, OpReset ''s'' 0) ?m))" for w w'
    by (simp add: step1 step2 del: account_step.simps)
      (simp add: reads_back_def demo_accounts_env_def digits demo_account_def fresh_record_def numeral_2_eq_2)
  have "\<exists>w2 r'. execute_tool oe ?ti False ?cfg (MemCompact ''sum'' (Some ''s'')) None (Some ''0'')
      = (response_of oe (emit_json oe (compact_json (demo_compaction\<lparr>cr_context_tokens_reset := True,
           cr_compaction_count := Some (tr_compaction_count (demo_account 0) + 1)\<rparr>)) None), w2)
    \<and> load_sessions (ti_accounts_env ?ti) (ti_accounts_file ?ti (accounts_path ?ti ?cfg) w2) = ?m(''s'' \<mapsto> r')
    \<and> tr_context_tokens r' = 0 \<and> tr_compaction_count r' = tr_compaction_count (demo_account 0) + 1
    \<and> tr_input_tokens r' = tr_input_tokens (demo_account 0)"
    by (rule compaction_accounted [OF allowed _ writes _ load _ readable]) simp_all
  then show "\<exists>w2 r'. execute_tool oe ?ti False ?cfg (MemCompact ''sum'' (Some ''s'')) None (Some ''0'')
    = (response_of oe (emit_json oe (compact_json (demo_compaction\<lparr>cr_context_tokens_reset := True,
         cr_compaction_count := Some 1\<rparr>)) None), w2)
    \<and> load_sessions demo_accounts_env w2 = [''s'' \<mapsto> r'] \<and> tr_context_tokens r' = 0 \<and> tr_compaction_count r' = 1 \<and> tr_input_tokens r' = 9"
    by (simp add: demo_account_def fresh_record_def)
qed

end
