(* ===== verification/Agent_Loop.thy ===== *)
theory Agent_Loop
  imports Output_Budget "HOL-Library.List_Lexorder" "HOL-Library.Char_ord"
begin

text \<open>
  The agentic loop (\<open>agent_loop/\{types,hook,mod\}.rs\<close>): turns of the model, the execution of the
  tool calls of a turn with its guards on edits, and the messages the loop itself adds.

  Everything outside acts on a world \<open>'w\<close> and is the record \<open>loop_env\<close>: the streaming turns of the
  providers, the tools, the callbacks of the hook, the steering queue and the log files.  The
  events of a provider's turn are there before the callbacks they cause.  The counters of a
  \<open>Usage\<close> and the numbers of turns wrap as in a release build.  Tracing is left out.
\<close>

type_synonym u32 = "32 word"

section \<open>Messages\<close>

type_synonym image = "string \<times> string"

record tool_call =
  tc_call_id :: string
  tc_name :: string
  tc_args_json :: string

datatype message =
    User string "image list"
  | Assistant string "tool_call list"
  | Tool string string string "image list"

definition user_message :: "string \<Rightarrow> message" where
  "user_message content = User content []"

definition assistant_message :: "string \<Rightarrow> message" where
  "assistant_message content = Assistant content []"

record tool_def =
  td_name :: string
  td_description :: string
  td_parameters :: json

record usage =
  us_input_tokens :: u32
  us_output_tokens :: u32
  us_cache_read_tokens :: u32
  us_cache_write_tokens :: u32

definition usage_default :: usage where
  "usage_default = \<lparr>us_input_tokens = 0, us_output_tokens = 0, us_cache_read_tokens = 0, us_cache_write_tokens = 0\<rparr>"

definition usage_add :: "usage \<Rightarrow> usage \<Rightarrow> usage" where
  "usage_add a b =
     \<lparr>us_input_tokens = us_input_tokens a + us_input_tokens b,
      us_output_tokens = us_output_tokens a + us_output_tokens b,
      us_cache_read_tokens = us_cache_read_tokens a + us_cache_read_tokens b,
      us_cache_write_tokens = us_cache_write_tokens a + us_cache_write_tokens b\<rparr>"

section \<open>What the loop works with\<close>

datatype turn_event =
    TextDelta string
  | ReasoningDelta string
  | ToolCallComplete tool_call
  | TurnEnd string usage
  | TurnError string

datatype hook_action = Continue | Skip string | Finish string string

record dispatch_result =
  dr_text :: string
  dr_images :: "image list"

text \<open>The fields of \<open>LoopConfig\<close> and of its \<open>ToolContext\<close> the loop itself reads; \<open>lc_steering\<close>: there
  is a steering queue.\<close>

record loop_config =
  lc_provider :: string
  lc_model :: string
  lc_system :: string
  lc_max_turns :: u32
  lc_tools :: "tool_def list"
  lc_history :: "message list"
  lc_images :: "image list"
  lc_steering :: bool
  lc_system_reminder :: "string option"
  lc_state_dir :: "string option"
  lc_agent_name :: string

datatype audit_event =
    AuditEvent string string
  | RunEvent string string
  | ErrorEvent string string string

type_synonym 'w provider_turn = "loop_config \<Rightarrow> string \<Rightarrow> message list \<Rightarrow> 'w \<Rightarrow> (turn_event list \<times> (string + unit)) \<times> 'w"

text \<open>\<open>le_dispatch_all\<close> are concurrent calls of \<open>dispatch_tool\<close>, in whatever interleaving; \<open>le_percent\<close>
  is the floating-point percentage shown in a message; \<open>le_hash\<close> the standard library's default
  hasher; \<open>le_transport\<close> the transport of a registered provider.\<close>

record 'w loop_env =
  le_json :: output_env
  le_anthropic :: "loop_config \<Rightarrow> string \<Rightarrow> string option \<Rightarrow> message list \<Rightarrow> 'w \<Rightarrow> (turn_event list \<times> (string + unit)) \<times> 'w"
  le_openai :: "'w provider_turn"
  le_openrouter :: "'w provider_turn"
  le_openai_chat :: "'w provider_turn"
  le_transport :: "string \<Rightarrow> string option"
  le_on_text_delta :: "string \<Rightarrow> 'w \<Rightarrow> 'w"
  le_on_reasoning_delta :: "string \<Rightarrow> 'w \<Rightarrow> 'w"
  le_on_tool_call :: "string \<Rightarrow> string \<Rightarrow> string \<Rightarrow> 'w \<Rightarrow> hook_action \<times> 'w"
  le_on_tool_result :: "string \<Rightarrow> string \<Rightarrow> string \<Rightarrow> 'w \<Rightarrow> 'w"
  le_on_steering :: "'w \<Rightarrow> 'w"
  le_drain_steering :: "'w \<Rightarrow> string list \<times> 'w"
  le_dispatch :: "string \<Rightarrow> string \<Rightarrow> 'w \<Rightarrow> dispatch_result \<times> 'w"
  le_dispatch_all :: "(string \<times> string) list \<Rightarrow> 'w \<Rightarrow> (nat \<Rightarrow> dispatch_result) \<times> 'w"
  le_log :: "audit_event \<Rightarrow> 'w \<Rightarrow> 'w"
  le_hash :: "string \<Rightarrow> string \<Rightarrow> u64"
  le_percent :: "u32 \<Rightarrow> u32 \<Rightarrow> nat"
  le_has_parent :: bool

definition log_audit :: "'w loop_env \<Rightarrow> loop_config \<Rightarrow> audit_event \<Rightarrow> 'w \<Rightarrow> 'w" where
  "log_audit env cfg ev w = (case lc_state_dir cfg of None \<Rightarrow> w | Some _ \<Rightarrow> le_log env ev w)"

section \<open>One turn of the model\<close>

text \<open>The provider's task: which provider gets which system prompt.\<close>

definition provider_turn ::
  "'w loop_env \<Rightarrow> loop_config \<Rightarrow> message list \<Rightarrow> 'w \<Rightarrow> (turn_event list \<times> (string + unit)) \<times> 'w" where
  "provider_turn env cfg messages w =
     (if lc_provider cfg = ''anthropic'' then
        le_anthropic env cfg (lc_system cfg) (lc_system_reminder cfg) messages w
      else if lc_provider cfg = ''openai'' then
        le_openai env cfg
          (case lc_system_reminder cfg of
             Some r \<Rightarrow> if r \<noteq> [] then lc_system cfg @ [newline, newline] @ r else lc_system cfg
           | None \<Rightarrow> lc_system cfg) messages w
      else if lc_provider cfg = ''openrouter'' then le_openrouter env cfg (lc_system cfg) messages w
      else
        (case le_transport env (lc_provider cfg) of
           None \<Rightarrow> (([], Inl (''Unsupported provider: '' @ lc_provider cfg)), w)
         | Some transport \<Rightarrow>
             if transport = ''openai_chat'' then le_openai_chat env cfg (lc_system cfg) messages w
             else (([], Inl (''Unsupported provider transport '' @ [CHR 0x27] @ transport @ [CHR 0x27]
                    @ '' for '' @ lc_provider cfg)), w)))"

fun drive_events ::
  "'w loop_env \<Rightarrow> turn_event list \<Rightarrow> string \<times> tool_call list \<times> usage \<Rightarrow> 'w \<Rightarrow>
     (string + string \<times> tool_call list \<times> usage) \<times> 'w" where
  "drive_events env [] acc w = (Inr acc, w)"
| "drive_events env (TextDelta d # es) (text, calls, u) w =
     drive_events env es (text @ d, calls, u) (le_on_text_delta env d w)"
| "drive_events env (ReasoningDelta d # es) acc w = drive_events env es acc (le_on_reasoning_delta env d w)"
| "drive_events env (ToolCallComplete tc # es) (text, calls, u) w = drive_events env es (text, calls @ [tc], u) w"
| "drive_events env (TurnEnd full u' # es) (text, calls, u) w =
     drive_events env es (if text = [] then full else text, calls, u') w"
| "drive_events env (TurnError e # es) acc w = (Inl e, w)"

definition run_turn ::
  "'w loop_env \<Rightarrow> loop_config \<Rightarrow> message list \<Rightarrow> 'w \<Rightarrow> (string + string \<times> tool_call list \<times> usage) \<times> 'w" where
  "run_turn env cfg messages w =
     (case provider_turn env cfg messages w of ((events, result), w1) \<Rightarrow>
        (case drive_events env events ([], [], usage_default) w1 of
           (Inl e, w2) \<Rightarrow> (Inl e, w2)
         | (Inr r, w2) \<Rightarrow> (case result of Inl e \<Rightarrow> (Inl e, w2) | Inr _ \<Rightarrow> (Inr r, w2))))"

section \<open>Results of tools\<close>

definition max_tool_result_chars :: nat where "max_tool_result_chars = 32000"
definition base64_blob_min_len :: nat where "base64_blob_min_len = 1000"

definition base64_char :: "char \<Rightarrow> bool" where
  "base64_char c \<longleftrightarrow> is_ascii_alnum c \<or> c = CHR ''+'' \<or> c = CHR ''/'' \<or> c = CHR ''=''"

fun base64_run :: "nat \<Rightarrow> string \<Rightarrow> bool" where
  "base64_run run [] = False"
| "base64_run run (b # bs) =
     (if base64_char b then (if run + 1 \<ge> base64_blob_min_len then True else base64_run (run + 1) bs)
      else base64_run 0 bs)"

definition likely_contains_base64 :: "string \<Rightarrow> bool" where
  "likely_contains_base64 s = base64_run 0 s"

definition is_base64_blob :: "string \<Rightarrow> bool" where
  "is_base64_blob s \<longleftrightarrow>
     \<not> length s < base64_blob_min_len \<and> length (filter base64_char s) * 100 div length s \<ge> 95"

fun strip_base64_blobs :: "json \<Rightarrow> json \<times> nat" where
  "strip_base64_blobs (JStr s) =
     (if is_base64_blob s then (JStr (''[base64 data stripped, '' @ show_nat (length s) @ '' chars]''), 1) else (JStr s, 0))"
| "strip_base64_blobs (JArr vs) = (JArr (map (fst \<circ> strip_base64_blobs) vs), sum_list (map (snd \<circ> strip_base64_blobs) vs))"
| "strip_base64_blobs (JObj ms) =
     (JObj (map (\<lambda>(k, v). (k, fst (strip_base64_blobs v))) ms), sum_list (map (\<lambda>(k, v). snd (strip_base64_blobs v)) ms))"
| "strip_base64_blobs v = (v, 0)"

definition overflow_guidance :: "string \<Rightarrow> string" where
  "overflow_guidance tool =
     (if tool = ''code_read'' then ''Re-call with `line` and `end_line` to read a specific range.''
      else if tool = ''code_grep'' then ''Reduce `limit`, add `include`/`exclude` globs, or narrow the `path`.''
      else if tool = ''shell_exec'' then ''Pipe output through `head`, `tail`, or `grep` to limit result size.''
      else if tool = ''fs_cat'' then ''Use `code_read` with `line`/`end_line` instead for large files.''
      else if tool = ''fs_ls'' then ''Reduce `max_depth` or target a more specific subdirectory.''
      else if tool = ''code_tree'' then ''Reduce `depth` or target a more specific subdirectory.''
      else if tool = ''mem_recall'' then ''Reduce `limit` or use a more specific `query`.''
      else if tool = ''code_summary'' then ''Target a specific subdirectory instead of a broad path.''
      else ''Re-call with more specific parameters to reduce output size.'')"

definition overflow_error :: "'w loop_env \<Rightarrow> string \<Rightarrow> nat \<Rightarrow> string" where
  "overflow_error env tool original_chars =
     to_json_compact (le_json env)
       (JObj [(''error'', JStr ''result_too_large''), (''original_chars'', JNum (show_nat original_chars)),
         (''max_chars'', JNum (show_nat max_tool_result_chars)), (''action_required'', JStr (overflow_guidance tool))])"

definition sanitize_tool_result :: "'w loop_env \<Rightarrow> string \<Rightarrow> string \<Rightarrow> string" where
  "sanitize_tool_result env name result =
     (if length result \<le> max_tool_result_chars \<and> \<not> likely_contains_base64 result then result
      else case from_json (le_json env) result of
        Some v \<Rightarrow>
          (let cleaned = to_json_compact (le_json env) (fst (strip_base64_blobs v)) in
           if length cleaned \<le> max_tool_result_chars then cleaned else overflow_error env name (length result))
      | None \<Rightarrow>
          if length result > max_tool_result_chars then overflow_error env name (length result) else result)"

definition is_error_value :: "json \<Rightarrow> bool" where
  "is_error_value v =
     (if json_member ''error'' v \<noteq> None then True
      else if json_bool (json_member ''timed_out'' v) = Some True then True
      else if json_bool (json_member ''ok'' v) = Some False then True
      else case json_i64 (json_member ''exit_code'' v) of Some code \<Rightarrow> code \<noteq> 0 | None \<Rightarrow> False)"

definition is_tool_error_result :: "'w loop_env \<Rightarrow> string \<Rightarrow> bool" where
  "is_tool_error_result env result =
     (case from_json (le_json env) result of Some v \<Rightarrow> is_error_value v | None \<Rightarrow> True)"

definition tool_arg_path :: "'w loop_env \<Rightarrow> string \<Rightarrow> string option" where
  "tool_arg_path env args =
     (case from_json (le_json env) args of
        None \<Rightarrow> None
      | Some v \<Rightarrow>
          (case json_member ''path'' v of
             Some (JStr s) \<Rightarrow> (let raw = trim s in if raw = [] then None else Some raw)
           | _ \<Rightarrow> None))"

definition is_parallel_safe :: "string \<Rightarrow> bool" where
  "is_parallel_safe name \<longleftrightarrow>
     name \<in> {''agent_run'', ''agent_query'', ''http_request'', ''workspace_activity'', ''workspace_diff'',
       ''workspace_conflicts'', ''agent_list'', ''list_skills'', ''read_skill''}"

definition error_json :: "'w loop_env \<Rightarrow> string \<Rightarrow> string" where
  "error_json env text = to_json_compact (le_json env) (JObj [(''error'', JStr text)])"

definition edit_first_read_guard_result :: "'w loop_env \<Rightarrow> string \<Rightarrow> string" where
  "edit_first_read_guard_result env path =
     error_json env (''code_edit blocked: you have not read '' @ [CHR 0x27] @ path @ [CHR 0x27]
       @ '' this session. Call code_read or fs_cat on it first so you know the current content before editing.'')"

definition edit_verification_guard_result :: "'w loop_env \<Rightarrow> string \<Rightarrow> string \<Rightarrow> string" where
  "edit_verification_guard_result env path previous =
     error_json env (''code_edit blocked: file '' @ [CHR 0x27] @ path @ [CHR 0x27] @ '' was already edited by ''
       @ previous @ ''. Run code_read on this file first to verify current content, then apply the next edit.'')"

section \<open>The tool calls of a turn\<close>

text \<open>The files edited and not read since, with the call that edited them, and the files read.\<close>

record edit_guard =
  eg_pending :: "(string \<times> string) list"
  eg_read :: "string set"

definition edit_allowed :: "edit_guard \<Rightarrow> string \<Rightarrow> bool" where
  "edit_allowed g path \<longleftrightarrow> path \<in> eg_read g \<and> map_of (eg_pending g) path = None"

definition note_edit :: "string \<Rightarrow> string \<Rightarrow> edit_guard \<Rightarrow> edit_guard" where
  "note_edit path call_id g =
     g\<lparr>eg_pending := filter (\<lambda>e. fst e \<noteq> path) (eg_pending g) @ [(path, call_id)]\<rparr>"

definition note_read :: "string \<Rightarrow> edit_guard \<Rightarrow> edit_guard" where
  "note_read path g =
     g\<lparr>eg_pending := filter (\<lambda>e. fst e \<noteq> path) (eg_pending g), eg_read := insert path (eg_read g)\<rparr>"

text \<open>A call the hook lets through.\<close>

definition guarded_dispatch ::
  "'w loop_env \<Rightarrow> tool_call \<Rightarrow> edit_guard \<Rightarrow> 'w \<Rightarrow> (string \<times> image list) \<times> edit_guard \<times> 'w" where
  "guarded_dispatch env tc g w =
     (if tc_name tc = ''code_edit'' then
        (case tool_arg_path env (tc_args_json tc) of
           Some path \<Rightarrow>
             if path \<notin> eg_read g then ((edit_first_read_guard_result env path, []), g, w)
             else (case map_of (eg_pending g) path of
                 Some previous \<Rightarrow> ((edit_verification_guard_result env path previous, []), g, w)
               | None \<Rightarrow>
                   (case le_dispatch env (tc_name tc) (tc_args_json tc) w of (dr, w') \<Rightarrow>
                      ((dr_text dr, dr_images dr),
                       if \<not> is_tool_error_result env (dr_text dr) then note_edit path (tc_call_id tc) g else g, w')))
         | None \<Rightarrow>
             (case le_dispatch env (tc_name tc) (tc_args_json tc) w of (dr, w') \<Rightarrow> ((dr_text dr, dr_images dr), g, w')))
      else
        (case le_dispatch env (tc_name tc) (tc_args_json tc) w of (dr, w') \<Rightarrow>
           ((dr_text dr, dr_images dr),
            if tc_name tc \<in> {''code_read'', ''fs_cat''} \<and> \<not> is_tool_error_result env (dr_text dr)
            then (case tool_arg_path env (tc_args_json tc) of Some path \<Rightarrow> note_read path g | None \<Rightarrow> g)
            else g, w')))"

record 'w calls_state =
  cs_results :: "(string \<times> image list) option list"
  cs_terminal :: "string option"
  cs_guard :: edit_guard
  cs_world :: 'w

definition already_finalized :: string where
  "already_finalized = [CHR ''{'', CHR 0x22] @ ''skipped'' @ [CHR 0x22] @ '':true,'' @ [CHR 0x22] @ ''reason''
     @ [CHR 0x22, CHR '':'', CHR 0x22] @ ''run already finalized via answer'' @ [CHR 0x22, CHR ''}'']"

definition sequential_call ::
  "'w loop_env \<Rightarrow> loop_config \<Rightarrow> tool_call list \<Rightarrow> 'w calls_state \<Rightarrow> nat \<Rightarrow> 'w calls_state" where
  "sequential_call env cfg calls s i =
     (let tc = calls ! i;
          w1 = log_audit env cfg (AuditEvent ''tool_call'' (tc_name tc @ '': '' @ tc_args_json tc)) (cs_world s);
          w2 = log_audit env cfg (RunEvent ''ToolCall'' (tc_name tc @ '' '' @ tc_args_json tc)) w1
      in case le_on_tool_call env (tc_name tc) (tc_call_id tc) (tc_args_json tc) w2 of (action, w3) \<Rightarrow>
        (case cs_terminal s of
           Some _ \<Rightarrow> s\<lparr>cs_results := (cs_results s)[i := Some (already_finalized, [])], cs_world := w3\<rparr>
         | None \<Rightarrow>
             (case action of
                Skip r \<Rightarrow> s\<lparr>cs_results := (cs_results s)[i := Some (r, [])], cs_world := w3\<rparr>
              | Finish r out \<Rightarrow>
                  s\<lparr>cs_results := (cs_results s)[i := Some (r, [])], cs_terminal := Some out, cs_world := w3\<rparr>
              | Continue \<Rightarrow>
                  (case guarded_dispatch env tc (cs_guard s) w3 of (r, g, w4) \<Rightarrow>
                     s\<lparr>cs_results := (cs_results s)[i := Some r], cs_guard := g, cs_world := w4\<rparr>))))"

definition parallel_indices :: "tool_call list \<Rightarrow> nat list" where
  "parallel_indices calls = filter (\<lambda>i. is_parallel_safe (tc_name (calls ! i))) [0..<length calls]"

definition sequential_indices :: "tool_call list \<Rightarrow> nat list" where
  "sequential_indices calls = filter (\<lambda>i. \<not> is_parallel_safe (tc_name (calls ! i))) [0..<length calls]"

definition parallel_calls ::
  "'w loop_env \<Rightarrow> loop_config \<Rightarrow> tool_call list \<Rightarrow> (string \<times> image list) option list \<Rightarrow> 'w \<Rightarrow>
     (string \<times> image list) option list \<times> 'w" where
  "parallel_calls env cfg calls results w =
     (let indices = parallel_indices calls in
      if length indices > 1
      then (let w1 = foldl (\<lambda>w i. log_audit env cfg
                  (AuditEvent ''tool_call'' (tc_name (calls ! i) @ '': '' @ tc_args_json (calls ! i))) w) w indices
            in case le_dispatch_all env (map (\<lambda>i. (tc_name (calls ! i), tc_args_json (calls ! i))) indices) w1 of (out, w2) \<Rightarrow>
                 (foldl (\<lambda>rs j. rs[indices ! j := Some (dr_text (out j), dr_images (out j))]) results [0..<length indices], w2))
      else (results, w))"

definition execute_calls ::
  "'w loop_env \<Rightarrow> loop_config \<Rightarrow> tool_call list \<Rightarrow> edit_guard \<Rightarrow> 'w \<Rightarrow> 'w calls_state" where
  "execute_calls env cfg calls g w =
     (case parallel_calls env cfg calls (replicate (length calls) None) w of (results, w1) \<Rightarrow>
        (let remaining = filter (\<lambda>i. results ! i = None) (parallel_indices calls) in
         foldl (sequential_call env cfg calls)
           \<lparr>cs_results = results, cs_terminal = None, cs_guard = g, cs_world = w1\<rparr>
           (sequential_indices calls @ remaining)))"

definition not_executed :: string where
  "not_executed = [CHR ''{'', CHR 0x22] @ ''error'' @ [CHR 0x22, CHR '':'', CHR 0x22] @ ''tool not executed'' @ [CHR 0x22, CHR ''}'']"

text \<open>The results in the order of the calls: logs, hook and message.\<close>

definition report_result ::
  "'w loop_env \<Rightarrow> loop_config \<Rightarrow> message list \<times> 'w \<Rightarrow> tool_call \<times> (string \<times> image list) option \<Rightarrow> message list \<times> 'w" where
  "report_result env cfg s r =
     (case s of (messages, w) \<Rightarrow> case r of (tc, result) \<Rightarrow>
        (case (case result of Some x \<Rightarrow> x | None \<Rightarrow> (not_executed, [])) of (text, images) \<Rightarrow>
           (let is_error = is_tool_error_result env text;
                w1 = (if is_error then log_audit env cfg (ErrorEvent (tc_name tc) text (tc_args_json tc)) w else w);
                w2 = log_audit env cfg (RunEvent ''ToolResult'' (tc_name tc @ '' ('' @ (if is_error then ''error'' else ''ok'')
                       @ '', '' @ show_nat (char_count text) @ '' chars) '' @ text)) w1;
                w3 = le_on_tool_result env (tc_name tc) (tc_call_id tc) text w2
            in (messages @ [Tool (tc_call_id tc) (tc_name tc) (sanitize_tool_result env (tc_name tc) text) images], w3))))"

section \<open>Messages of the loop\<close>

definition long_dash :: string where "long_dash = [CHR 0xE2, CHR 0x80, CHR 0x94]"

definition reminder :: "string \<Rightarrow> string" where
  "reminder body = ''<system-reminder>'' @ [newline] @ body @ [newline] @ ''</system-reminder>''"

definition show_u32 :: "u32 \<Rightarrow> string" where
  "show_u32 n = show_nat (unat n)"

definition budget_half :: "loop_config \<Rightarrow> u32" where
  "budget_half cfg = lc_max_turns cfg div 2"

definition budget_eighty :: "loop_config \<Rightarrow> u32" where
  "budget_eighty cfg = lc_max_turns cfg * 4 div 5"

definition budget_reminder :: "loop_config \<Rightarrow> u32 \<Rightarrow> message list" where
  "budget_reminder cfg current =
     (if lc_max_turns cfg \<ge> 10 \<and> (current = budget_half cfg \<or> current = budget_eighty cfg)
      then [user_message (reminder (''turn_budget: '' @ show_u32 current @ ''/'' @ show_u32 (lc_max_turns cfg) @ '' '' @ long_dash @ '' ''
              @ show_u32 (lc_max_turns cfg - current) @ '' turns remaining. Prioritize completing the current objective. ''
              @ ''If you have open tasks, focus on finishing them before starting new work.''))]
      else [])"

definition steering_hints :: "'w loop_env \<Rightarrow> loop_config \<Rightarrow> message list \<times> 'w \<Rightarrow> message list \<times> 'w" where
  "steering_hints env cfg s =
     (case s of (messages, w) \<Rightarrow>
        if lc_steering cfg
        then (case le_drain_steering env w of (hints, w1) \<Rightarrow>
                if hints \<noteq> []
                then (messages @ [user_message (''[hint]: '' @ join [newline] hints)], le_on_steering env w1)
                else (messages, w1))
        else (messages, w))"

definition verification_reminder :: "edit_guard \<Rightarrow> string" where
  "verification_reminder g =
     reminder (''edit_verification_required: true'' @ [newline]
       @ ''requirement: Before finalizing, call code_read on each edited file to verify actual on-disk content.'' @ [newline]
       @ ''pending_files: '' @ join '', '' (sort (map fst (eg_pending g))))"

definition context_window :: "string \<Rightarrow> u32" where
  "context_window model =
     (if model = ''claude-opus-4-6'' \<or> model = ''claude-sonnet-4-6'' \<or> model = ''claude-haiku-4-5'' then 1000000
      else if model = ''gpt-5.2-codex'' \<or> model = ''gpt-5.1-codex-mini'' then 1000000
      else 200000)"

text \<open>The products of the two window sizes with the fractions 0.70 and 0.85 are exact in floating
  point.\<close>

definition context_warn_tokens :: "string \<Rightarrow> u32" where
  "context_warn_tokens model = context_window model * 7 div 10"

definition context_critical_tokens :: "string \<Rightarrow> u32" where
  "context_critical_tokens model = context_window model * 17 div 20"

definition pressure_reminder :: "'w loop_env \<Rightarrow> loop_config \<Rightarrow> u32 \<Rightarrow> message list" where
  "pressure_reminder env cfg input =
     (let window = context_window (lc_model cfg);
          pct = show_nat (if window > 0 then le_percent env input window else 0);
          tail = pct @ ''% of '' @ show_u32 window @ '' tokens)'' @ [newline] @ ''Your context window is '' @ pct @ ''% full. ''
      in if input > context_critical_tokens (lc_model cfg)
         then [user_message (reminder (''context_pressure: critical ('' @ tail
                 @ ''You MUST call mem_compact NOW as your very first action this turn '' @ long_dash
                 @ '' no other tool calls before it. Failure to compact will cause response truncation and lost work.''))]
         else if input > context_warn_tokens (lc_model cfg)
         then [user_message (reminder (''context_pressure: high ('' @ tail
                 @ ''Call mem_compact NOW as your first action this turn to preserve the session before the window fills and ''
                 @ ''responses get truncated.''))]
         else [])"

section \<open>Repetition\<close>

definition exploration_tools :: "string list" where
  "exploration_tools = [''shell_exec'', ''fs_ls'', ''fs_cat'', ''code_grep'', ''code_search'', ''code_read'']"

definition exploration_soft_limit :: nat where "exploration_soft_limit = 8"
definition exploration_hard_limit :: nat where "exploration_hard_limit = 12"

definition boost :: "'w loop_env \<Rightarrow> nat \<times> u64 set \<Rightarrow> tool_call \<Rightarrow> nat \<times> u64 set" where
  "boost env s tc =
     (case s of (streak, seen) \<Rightarrow>
        (let h = le_hash env (tc_name tc) (tc_args_json tc) in
         (if h \<in> seen then streak + 1 else streak, insert h seen)))"

definition update_streak :: "'w loop_env \<Rightarrow> tool_call list \<Rightarrow> nat \<times> u64 set \<Rightarrow> nat \<times> u64 set" where
  "update_streak env calls s =
     (case s of (streak, seen) \<Rightarrow>
        if calls \<noteq> [] \<and> list_all (\<lambda>tc. tc_name tc \<in> set exploration_tools) calls
        then foldl (boost env) (streak + 1, seen) calls
        else (streak div 2, seen))"

definition streak_message :: "'w loop_env \<Rightarrow> nat \<Rightarrow> message list" where
  "streak_message env streak =
     (if streak \<ge> exploration_hard_limit
      then [user_message (''STOP. You have been retrying the same approach repeatedly without making ''
              @ ''progress. You MUST either report to the user what is blocking you (via ''
              @ ''input_required with a specific question) or take a completely different ''
              @ ''approach. Do NOT retry the same command or strategy again.''
              @ (if le_has_parent env
                 then '' If you need information you cannot find locally (environment details, ''
                   @ ''registry endpoints, credentials, infrastructure context), ask your parent ''
                   @ ''agent via POST to $THAT_PARENT_GATEWAY_URL/v1/notify '' @ long_dash @ '' they have the ''
                   @ ''broader context you are missing.'' else []))]
      else if streak \<ge> exploration_soft_limit
      then [user_message (''You have been repeating similar actions for '' @ show_nat streak @ '' turns ''
              @ ''without meaningful progress. Step back and reconsider your approach ''
              @ ''entirely. If you are stuck on a recurring error, analyze the root cause ''
              @ ''fully before retrying. Try a fundamentally different strategy rather than ''
              @ ''repeating the same steps.''
              @ (if le_has_parent env
                 then '' If you are missing environment context (registry addresses, service ''
                   @ ''endpoints, credentials), ask your parent agent for help instead of guessing.'' else []))]
      else [])"

section \<open>The loop\<close>

record 'w loop_state =
  lp_messages :: "message list"
  lp_usage :: usage
  lp_guard :: edit_guard
  lp_streak :: nat
  lp_seen :: "u64 set"
  lp_world :: 'w

record interrupted_run =
  in_error :: string
  in_messages :: "message list"
  in_usage :: usage

type_synonym run_result = "interrupted_run + string \<times> usage"

datatype 'w turn_outcome = Done run_result 'w | Again "'w loop_state"

text \<open>A turn up to the request to the model.\<close>

definition prepare_turn :: "'w loop_env \<Rightarrow> loop_config \<Rightarrow> u32 \<Rightarrow> 'w loop_state \<Rightarrow> 'w loop_state" where
  "prepare_turn env cfg turn s =
     (case steering_hints env cfg (lp_messages s, lp_world s) of (messages, w) \<Rightarrow>
        s\<lparr>lp_messages := messages @ budget_reminder cfg (turn + 1), lp_world := w\<rparr>)"

text \<open>The rest of the turn, after the model's answer.\<close>

definition finish_turn ::
  "'w loop_env \<Rightarrow> loop_config \<Rightarrow> string \<times> tool_call list \<times> usage \<Rightarrow> 'w loop_state \<Rightarrow> 'w turn_outcome" where
  "finish_turn env cfg answer s =
     (case answer of (text, calls, u) \<Rightarrow>
        (let total = usage_add (lp_usage s) u in
         if calls = [] then
           (if eg_pending (lp_guard s) \<noteq> []
            then Again (s\<lparr>lp_usage := total, lp_messages := lp_messages s
                   @ [assistant_message text, user_message (verification_reminder (lp_guard s))]\<rparr>)
            else Done (Inr (text, total)) (log_audit env cfg (RunEvent ''Output'' text) (lp_world s)))
         else
           (let cs = execute_calls env cfg calls (lp_guard s) (lp_world s) in
            case foldl (report_result env cfg) (lp_messages s @ [Assistant text calls], cs_world cs) (zip calls (cs_results cs)) of
              (messages, w) \<Rightarrow>
                (case cs_terminal cs of
                   Some output \<Rightarrow> Done (Inr (output, total)) w
                 | None \<Rightarrow>
                     (case update_streak env calls (lp_streak s, lp_seen s) of (streak, seen) \<Rightarrow>
                        Again \<lparr>lp_messages = messages @ pressure_reminder env cfg (us_input_tokens u) @ streak_message env streak,
                          lp_usage = total, lp_guard = cs_guard cs, lp_streak = streak, lp_seen = seen, lp_world = w\<rparr>)))))"

definition turn_step :: "'w loop_env \<Rightarrow> loop_config \<Rightarrow> u32 \<Rightarrow> 'w loop_state \<Rightarrow> 'w turn_outcome" where
  "turn_step env cfg turn s =
     (let s1 = prepare_turn env cfg turn s in
      case run_turn env cfg (lp_messages s1) (lp_world s1) of
        (Inl e, w) \<Rightarrow> Done (Inl \<lparr>in_error = e, in_messages = lp_messages s1, in_usage = lp_usage s1\<rparr>) w
      | (Inr answer, w) \<Rightarrow> finish_turn env cfg answer (s1\<lparr>lp_world := w\<rparr>))"

definition max_turns_reached :: "loop_config \<Rightarrow> string" where
  "max_turns_reached cfg = ''max turns ('' @ show_u32 (lc_max_turns cfg) @ '') reached''"

text \<open>\<open>for turn in turns_consumed..max_turns\<close>: \<open>n\<close> turns are left.\<close>

fun run_turns :: "'w loop_env \<Rightarrow> loop_config \<Rightarrow> nat \<Rightarrow> 'w loop_state \<Rightarrow> run_result \<times> 'w" where
  "run_turns env cfg 0 s =
     (Inl \<lparr>in_error = max_turns_reached cfg, in_messages = lp_messages s, in_usage = lp_usage s\<rparr>, lp_world s)"
| "run_turns env cfg (Suc n) s =
     (case turn_step env cfg (lc_max_turns cfg - of_nat (Suc n)) s of
        Done r w \<Rightarrow> (r, w)
      | Again s' \<Rightarrow> run_turns env cfg n s')"

fun is_user :: "message \<Rightarrow> bool" where
  "is_user (User _ _) = True"
| "is_user _ = False"

fun is_assistant :: "message \<Rightarrow> bool" where
  "is_assistant (Assistant _ _) = True"
| "is_assistant _ = False"

text \<open>The assistant messages from the last user message on.\<close>

definition turns_consumed :: "message list \<Rightarrow> u32" where
  "turns_consumed messages =
     (let from_last = (if list_ex is_user messages
                       then rev (takeWhile (\<lambda>m. \<not> is_user m) (rev messages)) else messages)
      in of_nat (length (filter is_assistant from_last)))"

definition last_user_content :: "message list \<Rightarrow> string" where
  "last_user_content messages = (case find is_user (rev messages) of Some (User c _) \<Rightarrow> c | _ \<Rightarrow> [])"

definition start_state :: "'w loop_env \<Rightarrow> loop_config \<Rightarrow> message list \<Rightarrow> 'w \<Rightarrow> 'w loop_state" where
  "start_state env cfg messages w =
     \<lparr>lp_messages = messages, lp_usage = usage_default, lp_guard = \<lparr>eg_pending = [], eg_read = {}\<rparr>, lp_streak = 0,
      lp_seen = {}, lp_world = log_audit env cfg (RunEvent ''Input'' (last_user_content messages)) w\<rparr>"

definition run_from_checkpoint :: "'w loop_env \<Rightarrow> loop_config \<Rightarrow> message list \<Rightarrow> 'w \<Rightarrow> run_result \<times> 'w" where
  "run_from_checkpoint env cfg messages w =
     run_turns env cfg (unat (lc_max_turns cfg) - unat (turns_consumed messages)) (start_state env cfg messages w)"

definition run_with_checkpoint :: "'w loop_env \<Rightarrow> loop_config \<Rightarrow> string \<Rightarrow> 'w \<Rightarrow> run_result \<times> 'w" where
  "run_with_checkpoint env cfg task w =
     run_from_checkpoint env cfg (lc_history cfg @ [User task (lc_images cfg)]) w"

definition resume_with_checkpoint :: "'w loop_env \<Rightarrow> loop_config \<Rightarrow> message list \<Rightarrow> 'w \<Rightarrow> run_result \<times> 'w" where
  "resume_with_checkpoint env cfg messages w = run_from_checkpoint env cfg messages w"

definition run_loop :: "'w loop_env \<Rightarrow> loop_config \<Rightarrow> string \<Rightarrow> 'w \<Rightarrow> (string + string \<times> usage) \<times> 'w" where
  "run_loop env cfg task w =
     (case run_with_checkpoint env cfg task w of
        (Inl i, w') \<Rightarrow> (Inl (in_error i), w')
      | (Inr r, w') \<Rightarrow> (Inr r, w'))"

end
