(* ===== verification/Agent_Loop_Props.thy ===== *)
theory Agent_Loop_Props
  imports Agent_Loop
begin

text \<open>
  What the agentic loop guarantees: conversations the providers accept, edits only after reads and
  answers only after verification, bounded tool results - and what it does not: the hook is not
  asked about concurrent calls, and a resumed run forgets the turns before the last reminder.
\<close>

section \<open>Conversations\<close>

text \<open>Every call of an assistant message is answered right after it, in order.\<close>

definition answers :: "tool_call \<Rightarrow> message \<Rightarrow> bool" where
  "answers tc m = (case m of Tool i n _ _ \<Rightarrow> i = tc_call_id tc \<and> n = tc_name tc | _ \<Rightarrow> False)"

inductive wf_chat :: "message list \<Rightarrow> bool" where
  empty: "wf_chat []"
| user: "wf_chat ms \<Longrightarrow> wf_chat (ms @ [User c images])"
| assistant: "wf_chat ms \<Longrightarrow> list_all2 answers calls tools \<Longrightarrow> wf_chat (ms @ Assistant c calls # tools)"

lemma wf_chat_said: "wf_chat ms \<Longrightarrow> wf_chat (ms @ [Assistant c []])"
  using wf_chat.assistant [of ms "[]" "[]" c] by simp

lemma wf_chat_users: "wf_chat ms \<Longrightarrow> list_all is_user us \<Longrightarrow> wf_chat (ms @ us)"
proof (induction us arbitrary: ms)
  case (Cons u us)
  then obtain c images where u: "u = User c images" by (cases u) auto
  have "wf_chat ((ms @ [u]) @ us)" using Cons u by (intro Cons.IH) (auto intro: wf_chat.user)
  then show ?case by simp
qed simp

lemma list_all_user_added [simp]:
  "list_all is_user (budget_reminder cfg n)"
  "list_all is_user (pressure_reminder env cfg i)"
  "list_all is_user (streak_message env k)"
  by (simp_all add: budget_reminder_def pressure_reminder_def streak_message_def user_message_def Let_def)

lemma prepare_adds_users:
  "\<exists>us. lp_messages (prepare_turn env cfg turn s) = lp_messages s @ us \<and> list_all is_user us"
  by (auto simp: prepare_turn_def steering_hints_def user_message_def split: prod.split)

lemma length_sequential [simp]: "length (cs_results (sequential_call env cfg calls s i)) = length (cs_results s)"
  by (simp add: sequential_call_def Let_def split: prod.split option.split hook_action.split)

lemma length_sequential_calls [simp]:
  "length (cs_results (foldl (sequential_call env cfg calls) s is)) = length (cs_results s)"
  by (induction "is" arbitrary: s) simp_all

lemma length_updates [simp]: "length (foldl (\<lambda>rs j. rs[f j := g j]) rs js) = length rs"
  by (induction js arbitrary: rs) simp_all

lemma length_parallel [simp]: "length (fst (parallel_calls env cfg calls rs w)) = length rs"
  by (simp add: parallel_calls_def Let_def split: prod.split)

lemma length_execute [simp]: "length (cs_results (execute_calls env cfg calls g w)) = length calls"
proof -
  obtain rs w' where "parallel_calls env cfg calls (replicate (length calls) None) w = (rs, w')" by fastforce
  then show ?thesis
    using length_parallel [of env cfg calls "replicate (length calls) None" w] by (simp add: execute_calls_def Let_def)
qed

lemma report_result_adds: "\<exists>m. fst (report_result env cfg (ms, w) (tc, r)) = ms @ [m] \<and> answers tc m"
  by (cases r) (auto simp: report_result_def answers_def Let_def split: prod.split)

lemma report_results:
  "length results = length calls \<Longrightarrow>
     \<exists>tools. fst (foldl (report_result env cfg) (ms, w) (zip calls results)) = ms @ tools \<and> list_all2 answers calls tools"
proof (induction calls arbitrary: ms w results)
  case (Cons tc calls)
  then obtain r rs where results: "results = r # rs" "length rs = length calls" by (cases results) auto
  obtain m w' where step: "report_result env cfg (ms, w) (tc, r) = (ms @ [m], w')" "answers tc m"
    using report_result_adds [of env cfg ms w tc r] by (metis prod.collapse)
  from Cons.IH [OF results(2), of "ms @ [m]" w'] step results(1) show ?case by auto
qed simp

lemma finish_turn_chat:
  assumes "wf_chat (lp_messages s)" and "finish_turn env cfg answer s = Again s'"
  shows "wf_chat (lp_messages s') \<and> prefix (lp_messages s) (lp_messages s')"
proof -
  obtain said calls u where answer: "answer = (said, calls, u)" by (cases answer)
  show ?thesis
  proof (cases "calls = []")
    case True
    then have "lp_messages s' = (lp_messages s @ [Assistant said []]) @ [User (verification_reminder (lp_guard s)) []]"
      using assms(2) by (auto simp: finish_turn_def answer user_message_def assistant_message_def Let_def split: if_splits)
    then show ?thesis using assms(1) by (simp del: append_assoc add: wf_chat.user wf_chat_said)
  next
    case False
    let ?cs = "execute_calls env cfg calls (lp_guard s) (lp_world s)"
    obtain ms w where report: "foldl (report_result env cfg) (lp_messages s @ [Assistant said calls], cs_world ?cs)
        (zip calls (cs_results ?cs)) = (ms, w)" by fastforce
    obtain tools where tools: "ms = lp_messages s @ Assistant said calls # tools" "list_all2 answers calls tools"
      using report_results [of "cs_results ?cs" calls env cfg "lp_messages s @ [Assistant said calls]" "cs_world ?cs"] report by auto
    have wf: "wf_chat ms" unfolding tools(1) by (rule wf_chat.assistant [OF assms(1) tools(2)])
    obtain us where us: "lp_messages s' = ms @ us" "list_all is_user us"
      using assms(2) False report
      by (auto simp: finish_turn_def answer Let_def split: option.splits prod.splits)
    then show ?thesis using wf_chat_users [OF wf us(2)] by (simp add: tools(1))
  qed
qed

lemma prepare_turn_chat:
  "wf_chat (lp_messages s) \<Longrightarrow> wf_chat (lp_messages (prepare_turn env cfg turn s))
     \<and> prefix (lp_messages s) (lp_messages (prepare_turn env cfg turn s))"
  using prepare_adds_users [of env cfg turn s] wf_chat_users by (metis prefixI)

lemma turn_step_chat:
  assumes "wf_chat (lp_messages s)"
  shows "turn_step env cfg turn s = Again s' \<Longrightarrow> wf_chat (lp_messages s') \<and> prefix (lp_messages s) (lp_messages s')"
    and "turn_step env cfg turn s = Done (Inl i) w' \<Longrightarrow> wf_chat (in_messages i) \<and> prefix (lp_messages s) (in_messages i)"
proof -
  let ?s1 = "prepare_turn env cfg turn s"
  note prep = prepare_turn_chat [OF assms, of env cfg turn]
  obtain r w where run: "run_turn env cfg (lp_messages ?s1) (lp_world ?s1) = (r, w)" by fastforce
  { assume again: "turn_step env cfg turn s = Again s'"
    then obtain a where "r = Inr a" "finish_turn env cfg a (?s1\<lparr>lp_world := w\<rparr>) = Again s'"
      using run by (auto simp: turn_step_def Let_def split: sum.splits)
    then show "wf_chat (lp_messages s') \<and> prefix (lp_messages s) (lp_messages s')"
      using finish_turn_chat [of "?s1\<lparr>lp_world := w\<rparr>" env cfg a s'] prep by (auto intro: prefix_order.trans) }
  assume stop: "turn_step env cfg turn s = Done (Inl i) w'"
  have "in_messages i = lp_messages ?s1"
  proof (cases r)
    case (Inl e)
    then show ?thesis using stop run by (auto simp: turn_step_def Let_def)
  next
    case (Inr a)
    then have "finish_turn env cfg a (?s1\<lparr>lp_world := w\<rparr>) = Done (Inl i) w'"
      using stop run by (simp add: turn_step_def Let_def)
    then show ?thesis by (auto simp: finish_turn_def Let_def split: prod.splits if_splits option.splits)
  qed
  then show "wf_chat (in_messages i) \<and> prefix (lp_messages s) (in_messages i)" using prep by simp
qed

text \<open>The states a run goes through, with the number of turns left.\<close>

inductive in_turn :: "'w loop_env \<Rightarrow> loop_config \<Rightarrow> message list \<Rightarrow> 'w \<Rightarrow> nat \<Rightarrow> 'w loop_state \<Rightarrow> bool"
  for env cfg messages w where
  first: "in_turn env cfg messages w (unat (lc_max_turns cfg) - unat (turns_consumed messages)) (start_state env cfg messages w)"
| again: "in_turn env cfg messages w (Suc n) s \<Longrightarrow>
    turn_step env cfg (lc_max_turns cfg - of_nat (Suc n)) s = Again s' \<Longrightarrow> in_turn env cfg messages w n s'"

lemma in_turn_chat:
  "in_turn env cfg messages w n s \<Longrightarrow> wf_chat messages \<Longrightarrow> wf_chat (lp_messages s) \<and> prefix messages (lp_messages s)"
proof (induction rule: in_turn.induct)
  case first
  then show ?case by (simp add: start_state_def)
next
  case (again n s s')
  then show ?case using turn_step_chat(1) by (blast intro: prefix_order.trans)
qed

lemma run_turns_chat:
  "wf_chat (lp_messages s) \<Longrightarrow> run_turns env cfg n s = (Inl i, w') \<Longrightarrow>
     wf_chat (in_messages i) \<and> prefix (lp_messages s) (in_messages i)"
proof (induction n arbitrary: s)
  case (Suc n)
  show ?case
  proof (cases "turn_step env cfg (lc_max_turns cfg - of_nat (Suc n)) s")
    case (Done r w)
    then have "turn_step env cfg (lc_max_turns cfg - of_nat (Suc n)) s = Done (Inl i) w'" using Suc.prems by simp
    then show ?thesis by (rule turn_step_chat(2) [OF Suc.prems(1)])
  next
    case (Again s')
    then show ?thesis
      using Suc.prems Suc.IH [of s'] turn_step_chat(1) [OF Suc.prems(1) Again] by (auto intro: prefix_order.trans)
  qed
qed auto

text \<open>(C4) The loop keeps the conversation acceptable to the providers: if every tool call of the
  given conversation is answered right after its message, in order, then so it is in every
  request to the model and in every checkpoint of an interrupted run, and all of them extend the
  given conversation.\<close>

theorem conversation_well_formed:
  assumes "wf_chat messages"
  shows "(in_turn env cfg messages w n s \<longrightarrow>
      wf_chat (lp_messages (prepare_turn env cfg turn s)) \<and> prefix messages (lp_messages (prepare_turn env cfg turn s)))
    \<and> (run_from_checkpoint env cfg messages w = (Inl i, w') \<longrightarrow> wf_chat (in_messages i) \<and> prefix messages (in_messages i))"
proof (intro conjI impI)
  assume "in_turn env cfg messages w n s"
  from in_turn_chat [OF this assms] prepare_turn_chat [of s env cfg turn]
  show "wf_chat (lp_messages (prepare_turn env cfg turn s))" "prefix messages (lp_messages (prepare_turn env cfg turn s))"
    by (auto intro: prefix_order.trans)
next
  assume "run_from_checkpoint env cfg messages w = (Inl i, w')"
  with run_turns_chat [of "start_state env cfg messages w" env cfg] assms
  show "wf_chat (in_messages i)" "prefix messages (in_messages i)"
    by (auto simp: run_from_checkpoint_def start_state_def)
qed

section \<open>Edits are read first, answers verified\<close>

text \<open>A log of the dispatched calls, each with the text of its result.  Only a call of \<open>dispatch_tool\<close>
  outside a concurrent group is an entry; the calls of such a group are neither reads nor edits.\<close>

type_synonym trace = "(string \<times> string \<times> string) list"

definition records_dispatches :: "'w loop_env \<Rightarrow> ('w \<Rightarrow> trace) \<Rightarrow> bool" where
  "records_dispatches env obs \<longleftrightarrow>
     (\<forall>n a w. obs (snd (le_dispatch env n a w)) = obs w @ [(n, a, dr_text (fst (le_dispatch env n a w)))])
     \<and> (\<forall>cs w. obs (snd (le_dispatch_all env cs w)) = obs w)
     \<and> (\<forall>cfg sys r ms w. obs (snd (le_anthropic env cfg sys r ms w)) = obs w)
     \<and> (\<forall>cfg sys ms w. obs (snd (le_openai env cfg sys ms w)) = obs w \<and> obs (snd (le_openrouter env cfg sys ms w)) = obs w
          \<and> obs (snd (le_openai_chat env cfg sys ms w)) = obs w)
     \<and> (\<forall>d w. obs (le_on_text_delta env d w) = obs w \<and> obs (le_on_reasoning_delta env d w) = obs w)
     \<and> (\<forall>n i a w. obs (snd (le_on_tool_call env n i a w)) = obs w \<and> obs (le_on_tool_result env n i a w) = obs w)
     \<and> (\<forall>w. obs (le_on_steering env w) = obs w \<and> obs (snd (le_drain_steering env w)) = obs w)
     \<and> (\<forall>ev w. obs (le_log env ev w) = obs w)"

text \<open>The hook never ends a run.\<close>

definition never_finishes :: "'w loop_env \<Rightarrow> bool" where
  "never_finishes env \<longleftrightarrow> (\<forall>n i a w r out. fst (le_on_tool_call env n i a w) \<noteq> Finish r out)"

definition edits :: "'w loop_env \<Rightarrow> string \<Rightarrow> string \<times> string \<times> string \<Rightarrow> bool" where
  "edits env p e = (case e of (n, a, r) \<Rightarrow> n = ''code_edit'' \<and> tool_arg_path env a = Some p)"

definition edited :: "'w loop_env \<Rightarrow> string \<Rightarrow> string \<times> string \<times> string \<Rightarrow> bool" where
  "edited env p e = (edits env p e \<and> \<not> is_tool_error_result env (snd (snd e)))"

definition read_ok :: "'w loop_env \<Rightarrow> string \<Rightarrow> string \<times> string \<times> string \<Rightarrow> bool" where
  "read_ok env p e =
     (case e of (n, a, r) \<Rightarrow> n \<in> {''code_read'', ''fs_cat''} \<and> tool_arg_path env a = Some p \<and> \<not> is_tool_error_result env r)"

text \<open>The last successful read of a file lies after its last successful edit; every successful edit
  of it is followed by a successful read.\<close>

definition freshly_read :: "'w loop_env \<Rightarrow> trace \<Rightarrow> string \<Rightarrow> bool" where
  "freshly_read env t p \<longleftrightarrow> (\<exists>t1 e t2. t = t1 @ e # t2 \<and> read_ok env p e \<and> \<not> list_ex (edited env p) t2)"

definition verified :: "'w loop_env \<Rightarrow> trace \<Rightarrow> string \<Rightarrow> bool" where
  "verified env t p \<longleftrightarrow> (\<forall>t1 e t2. t = t1 @ e # t2 \<longrightarrow> edited env p e \<longrightarrow> list_ex (read_ok env p) t2)"

definition edits_after_reads :: "'w loop_env \<Rightarrow> trace \<Rightarrow> bool" where
  "edits_after_reads env t \<longleftrightarrow> (\<forall>t1 e t2 p. t = t1 @ e # t2 \<longrightarrow> edits env p e \<longrightarrow> freshly_read env t1 p)"

lemma snoc_split: "t @ [x] = t1 @ e # t2 \<longleftrightarrow> (t2 = [] \<and> t1 = t \<and> e = x) \<or> (\<exists>t3. t2 = t3 @ [x] \<and> t = t1 @ e # t3)"
  by (cases t2 rule: rev_cases) auto

lemma freshly_read_snoc:
  "read_ok env p x \<Longrightarrow> freshly_read env (t @ [x]) p"
  "freshly_read env t p \<Longrightarrow> \<not> edited env p x \<Longrightarrow> freshly_read env (t @ [x]) p"
proof -
  assume "read_ok env p x"
  then show "freshly_read env (t @ [x]) p" unfolding freshly_read_def by (intro exI [of _ t] exI [of _ x] exI [of _ "[]"]) simp
next
  assume "freshly_read env t p" "\<not> edited env p x"
  then obtain t1 e t2 where "t = t1 @ e # t2" "read_ok env p e" "\<not> list_ex (edited env p) (t2 @ [x])"
    by (auto simp: freshly_read_def)
  then show "freshly_read env (t @ [x]) p"
    unfolding freshly_read_def by (intro exI [of _ t1] exI [of _ e] exI [of _ "t2 @ [x]"]) simp
qed

lemma verified_snoc:
  "read_ok env p x \<Longrightarrow> \<not> edited env p x \<Longrightarrow> verified env (t @ [x]) p"
  "verified env t p \<Longrightarrow> \<not> edited env p x \<Longrightarrow> verified env (t @ [x]) p"
  by (auto simp: verified_def snoc_split)

lemma edits_after_reads_snoc:
  "edits_after_reads env t \<Longrightarrow> (\<And>p. edits env p x \<Longrightarrow> freshly_read env t p) \<Longrightarrow> edits_after_reads env (t @ [x])"
  by (auto simp: edits_after_reads_def snoc_split)

definition guarded :: "'w loop_env \<Rightarrow> trace \<Rightarrow> edit_guard \<Rightarrow> bool" where
  "guarded env t g \<longleftrightarrow> edits_after_reads env t
     \<and> (\<forall>p. map_of (eg_pending g) p = None \<longrightarrow> verified env t p \<and> (p \<in> eg_read g \<longrightarrow> freshly_read env t p))"

lemma map_of_filter_neq: "map_of (filter (\<lambda>e. fst e \<noteq> p) xs) q = (if q = p then None else map_of xs q)"
  by (induction xs) auto

text \<open>One entry more: what the guard has to become.\<close>

lemma guarded_other:
  assumes "guarded env t g" and "\<And>p. \<not> edits env p x"
  shows "guarded env (t @ [x]) g"
  using assms
  by (auto simp: guarded_def edited_def intro: verified_snoc(2) freshly_read_snoc(2) edits_after_reads_snoc)

lemma guarded_read:
  assumes "guarded env t g" and "\<And>p. \<not> edits env p x" and "read_ok env q x"
  shows "guarded env (t @ [x]) (note_read q g)"
proof -
  have other: "guarded env (t @ [x]) g" by (rule guarded_other [OF assms(1,2)])
  have "\<not> edited env q x" using assms(2) by (simp add: edited_def)
  note now = verified_snoc(1) [OF assms(3) this] freshly_read_snoc(1) [OF assms(3)]
  with other show ?thesis by (auto simp: guarded_def note_read_def map_of_filter_neq now split: if_splits)
qed

lemma guarded_edit:
  assumes "guarded env t g" and "edit_allowed g q" and "edits env q x"
  shows "guarded env (t @ [x]) (if edited env q x then note_edit q i g else g)"
proof -
  have only: "p = q" if "edits env p x" for p using that assms(3) by (auto simp: edits_def split: prod.splits)
  have fresh: "freshly_read env t q" using assms(1,2) by (auto simp: guarded_def edit_allowed_def)
  then have after: "edits_after_reads env (t @ [x])"
    using assms(1) only by (auto simp: guarded_def intro!: edits_after_reads_snoc)
  have keep: "verified env (t @ [x]) p \<and> (p \<in> eg_read g \<longrightarrow> freshly_read env (t @ [x]) p)"
    if "map_of (eg_pending g) p = None" "\<not> edited env p x" for p
    using that assms(1) by (auto simp: guarded_def intro: verified_snoc(2) freshly_read_snoc(2))
  show ?thesis
  proof (cases "edited env q x")
    case True
    have "\<not> edited env p x" if "p \<noteq> q" for p using that only by (auto simp: edited_def)
    then have kept: "verified env (t @ [x]) p \<and> (p \<in> eg_read g \<longrightarrow> freshly_read env (t @ [x]) p)"
      if "map_of (eg_pending g) p = None" "p \<noteq> q" for p using that keep by simp
    have pending: "map_of (eg_pending (note_edit q i g)) p = (if p = q then Some i else map_of (eg_pending g) p)" for p
      by (simp add: note_edit_def map_of_filter_neq map_add_def split: option.split)
    have "eg_read (note_edit q i g) = eg_read g" by (simp add: note_edit_def)
    then have "guarded env (t @ [x]) (note_edit q i g)"
      using after kept unfolding guarded_def pending by simp
    then show ?thesis using True by simp
  next
    case False
    have "\<not> edited env p x" for p using False only by (auto simp: edited_def)
    then show ?thesis using after keep False by (simp add: guarded_def)
  qed
qed

lemma dispatch_recorded:
  "records_dispatches env obs \<Longrightarrow> le_dispatch env n a w = (dr, w') \<Longrightarrow> obs w' = obs w @ [(n, a, dr_text dr)]"
  unfolding records_dispatches_def by (drule conjunct1) (metis fst_conv snd_conv)

lemma guarded_dispatch_keeps:
  assumes "records_dispatches env obs" and "guarded env (obs w) g"
    and "guarded_dispatch env tc g w = (r, g', w')"
  shows "guarded env (obs w') g'"
proof -
  obtain dr v where d: "le_dispatch env (tc_name tc) (tc_args_json tc) w = (dr, v)" by fastforce
  let ?x = "(tc_name tc, tc_args_json tc, dr_text dr)"
  have v: "obs v = obs w @ [?x]" by (rule dispatch_recorded [OF assms(1) d])
  show ?thesis
  proof (cases "tc_name tc = ''code_edit''")
    case True
    show ?thesis
    proof (cases "tool_arg_path env (tc_args_json tc)")
      case None
      then have "\<not> edits env p ?x" for p by (simp add: edits_def)
      then show ?thesis
        using guarded_other [OF assms(2), of ?x] assms(3) True None d v by (simp add: guarded_dispatch_def)
    next
      case (Some q)
      have "edits env q ?x" using True Some by (simp add: edits_def)
      moreover have "edited env q ?x \<longleftrightarrow> \<not> is_tool_error_result env (dr_text dr)"
        using True Some by (simp add: edits_def edited_def)
      ultimately show ?thesis
        using guarded_edit [OF assms(2), of q ?x "tc_call_id tc"] assms(2,3) True Some d v
        by (auto simp: guarded_dispatch_def edit_allowed_def split: if_splits option.splits)
    qed
  next
    case False
    then have other: "\<not> edits env p ?x" for p by (simp add: edits_def)
    have g': "g' = (if tc_name tc \<in> {''code_read'', ''fs_cat''} \<and> \<not> is_tool_error_result env (dr_text dr)
            then (case tool_arg_path env (tc_args_json tc) of Some path \<Rightarrow> note_read path g | None \<Rightarrow> g) else g)"
      and w': "w' = v"
      using assms(3) False d by (simp_all add: guarded_dispatch_def)
    have "guarded env (obs v) (note_read q g)"
      if "tc_name tc \<in> {''code_read'', ''fs_cat''}" "\<not> is_tool_error_result env (dr_text dr)"
        "tool_arg_path env (tc_args_json tc) = Some q" for q
      unfolding v using that by (intro guarded_read [OF assms(2) other]) (simp add: read_ok_def)
    then show ?thesis
      using guarded_other [OF assms(2) other] v by (simp add: g' w' split: option.split)
  qed
qed

text \<open>Everything else leaves the log alone.\<close>

lemma records_quiet:
  assumes "records_dispatches env obs"
  shows "obs (snd (le_dispatch_all env cs w)) = obs w" "obs (le_on_text_delta env d w) = obs w"
    "obs (le_on_reasoning_delta env d w) = obs w" "obs (snd (le_on_tool_call env n i a w)) = obs w"
    "obs (le_on_tool_result env n i a w) = obs w" "obs (le_on_steering env w) = obs w"
    "obs (snd (le_drain_steering env w)) = obs w" "obs (le_log env ev w) = obs w"
    "obs (snd (le_anthropic env cfg sys r ms w)) = obs w" "obs (snd (le_openai env cfg sys ms w)) = obs w"
    "obs (snd (le_openrouter env cfg sys ms w)) = obs w" "obs (snd (le_openai_chat env cfg sys ms w)) = obs w"
  using assms unfolding records_dispatches_def by blast+

locale recorded_loop =
  fixes env :: "'w loop_env" and obs :: "'w \<Rightarrow> trace"
  assumes records: "records_dispatches env obs"
begin

lemma quiet_log: "obs (log_audit env cfg ev w) = obs w"
  by (simp add: log_audit_def records_quiet [OF records] split: option.split)

lemma quiet_logs: "obs (foldl (\<lambda>w i. log_audit env cfg (f i) w) w is) = obs w"
  by (induction "is" arbitrary: w) (simp_all add: quiet_log)

lemma quiet_provider: "obs (snd (provider_turn env cfg ms w)) = obs w"
  by (simp add: provider_turn_def records_quiet [OF records] split: option.split)

lemma quiet_events: "obs (snd (drive_events env es acc w)) = obs w"
proof (induction es arbitrary: acc w)
  case (Cons e es)
  then show ?case by (cases acc; cases e) (simp_all add: records_quiet(2,3) [OF records])
qed simp

lemma quiet_turn: "obs (snd (run_turn env cfg ms w)) = obs w"
proof -
  obtain es r w1 where p: "provider_turn env cfg ms w = ((es, r), w1)" by (metis prod.collapse)
  obtain x w2 where d: "drive_events env es ([], [], usage_default) w1 = (x, w2)" by fastforce
  have "obs w1 = obs w" using quiet_provider [of cfg ms w] p by simp
  moreover have "obs w2 = obs w1" using quiet_events [of es _ w1] d by (metis snd_conv)
  ultimately show ?thesis by (simp add: run_turn_def p d split: sum.split)
qed

lemma quiet_prepare: "obs (lp_world (prepare_turn env cfg turn s)) = obs (lp_world s)"
proof -
  obtain hints w where "le_drain_steering env (lp_world s) = (hints, w)" by fastforce
  then show ?thesis
    using records_quiet(7) [OF records, of "lp_world s"] records_quiet(6) [OF records, of w]
    by (simp add: prepare_turn_def steering_hints_def)
qed

lemma quiet_report: "obs (snd (foldl (report_result env cfg) s rs)) = obs (snd s)"
proof (induction rs arbitrary: s)
  case (Cons r rs)
  have "obs (snd (report_result env cfg s r)) = obs (snd s)"
    by (simp add: report_result_def Let_def quiet_log records_quiet [OF records] split: prod.split)
  then show ?case by (simp add: Cons.IH)
qed simp

lemma quiet_parallel: "obs (snd (parallel_calls env cfg calls rs w)) = obs w"
proof -
  let ?w = "foldl (\<lambda>w i. log_audit env cfg (AuditEvent ''tool_call'' (tc_name (calls ! i) @ '': '' @ tc_args_json (calls ! i))) w)
    w (parallel_indices calls)"
  let ?cs = "map (\<lambda>i. (tc_name (calls ! i), tc_args_json (calls ! i))) (parallel_indices calls)"
  obtain out w2 where all: "le_dispatch_all env ?cs ?w = (out, w2)" by fastforce
  have "obs w2 = obs ?w" using records_quiet(1) [OF records, of ?cs ?w] unfolding all snd_conv .
  then have "obs w2 = obs w" by (simp only: quiet_logs)
  then show ?thesis unfolding parallel_calls_def Let_def all by simp
qed

lemma guarded_sequential:
  assumes "guarded env (obs (cs_world s)) (cs_guard s)"
  shows "guarded env (obs (cs_world (sequential_call env cfg calls s i))) (cs_guard (sequential_call env cfg calls s i))"
proof -
  let ?tc = "calls ! i"
  let ?w2 = "log_audit env cfg (RunEvent ''ToolCall'' (tc_name ?tc @ '' '' @ tc_args_json ?tc))
    (log_audit env cfg (AuditEvent ''tool_call'' (tc_name ?tc @ '': '' @ tc_args_json ?tc)) (cs_world s))"
  obtain action w3 where hook: "le_on_tool_call env (tc_name ?tc) (tc_call_id ?tc) (tc_args_json ?tc) ?w2 = (action, w3)"
    by fastforce
  have w3: "obs w3 = obs (cs_world s)"
    using records_quiet(4) [OF records, of "tc_name ?tc" "tc_call_id ?tc" "tc_args_json ?tc" ?w2] unfolding hook snd_conv by (simp only: quiet_log)
  obtain r g w4 where d: "guarded_dispatch env ?tc (cs_guard s) w3 = (r, g, w4)" by (metis prod.collapse)
  have "guarded env (obs w4) g" using guarded_dispatch_keeps [OF records _ d] assms by (simp add: w3)
  then show ?thesis
    using assms unfolding sequential_call_def Let_def hook by (simp add: d w3 split: option.split hook_action.split)
qed

lemma guarded_sequentials:
  "guarded env (obs (cs_world s)) (cs_guard s) \<Longrightarrow>
     guarded env (obs (cs_world (foldl (sequential_call env cfg calls) s is))) (cs_guard (foldl (sequential_call env cfg calls) s is))"
  by (induction "is" arbitrary: s) (simp_all add: guarded_sequential)

lemma guarded_execute:
  assumes "guarded env (obs w) g"
  shows "guarded env (obs (cs_world (execute_calls env cfg calls g w))) (cs_guard (execute_calls env cfg calls g w))"
proof -
  obtain rs w1 where p: "parallel_calls env cfg calls (replicate (length calls) None) w = (rs, w1)" by fastforce
  then have "obs w1 = obs w" using quiet_parallel by (metis snd_conv)
  then show ?thesis using assms by (simp add: execute_calls_def p Let_def guarded_sequentials)
qed

lemma no_terminal:
  assumes "never_finishes env" and "cs_terminal s = None"
  shows "cs_terminal (foldl (sequential_call env cfg calls) s is) = None"
  using assms(2)
proof (induction "is" arbitrary: s)
  case (Cons i "is")
  have "cs_terminal (sequential_call env cfg calls s i) = None"
    using Cons.prems assms(1) unfolding sequential_call_def Let_def never_finishes_def
    by (auto split: prod.split hook_action.split) (metis fst_conv)
  then show ?case by (simp add: Cons.IH)
qed simp

lemma no_terminal_execute:
  assumes "never_finishes env"
  shows "cs_terminal (execute_calls env cfg calls g w) = None"
  using no_terminal [OF assms] by (simp add: execute_calls_def Let_def split: prod.split)

lemma guarded_finish_turn:
  assumes "guarded env (obs (lp_world s)) (lp_guard s)"
  shows "finish_turn env cfg answer s = Again s' \<Longrightarrow> guarded env (obs (lp_world s')) (lp_guard s')"
    and "finish_turn env cfg answer s = Done r w \<Longrightarrow>
      \<exists>g. guarded env (obs w) g \<and> (never_finishes env \<longrightarrow> eg_pending g = [])"
proof -
  obtain said calls u where answer: "answer = (said, calls, u)" by (cases answer)
  let ?cs = "execute_calls env cfg calls (lp_guard s) (lp_world s)"
  obtain ms v where report: "foldl (report_result env cfg) (lp_messages s @ [Assistant said calls], cs_world ?cs)
      (zip calls (cs_results ?cs)) = (ms, v)" by fastforce
  have v: "obs v = obs (cs_world ?cs)"
    using quiet_report [of cfg "(lp_messages s @ [Assistant said calls], cs_world ?cs)" "zip calls (cs_results ?cs)"] report by simp
  have guard: "guarded env (obs v) (cs_guard ?cs)" unfolding v by (rule guarded_execute [OF assms])
  { assume "finish_turn env cfg answer s = Again s'"
    then show "guarded env (obs (lp_world s')) (lp_guard s')"
      using assms guard report
      by (auto simp: finish_turn_def answer Let_def split: if_splits option.splits prod.splits) }
  assume stop: "finish_turn env cfg answer s = Done r w"
  show "\<exists>g. guarded env (obs w) g \<and> (never_finishes env \<longrightarrow> eg_pending g = [])"
  proof (cases "calls = []")
    case True
    then have "eg_pending (lp_guard s) = []" "w = log_audit env cfg (RunEvent ''Output'' said) (lp_world s)"
      using stop by (auto simp: finish_turn_def answer Let_def split: if_splits)
    then show ?thesis using assms by (auto simp: quiet_log)
  next
    case False
    then have w: "w = v" and t: "cs_terminal ?cs \<noteq> None"
      using stop report by (auto simp: finish_turn_def answer Let_def split: option.splits prod.splits)
    have "\<not> never_finishes env"
      using no_terminal_execute [of cfg calls "lp_guard s" "lp_world s"] t by auto
    then show ?thesis using guard w by blast
  qed
qed

lemma guarded_turn_step:
  assumes "guarded env (obs (lp_world s)) (lp_guard s)"
  shows "turn_step env cfg turn s = Again s' \<Longrightarrow> guarded env (obs (lp_world s')) (lp_guard s')"
    and "turn_step env cfg turn s = Done r w \<Longrightarrow>
      \<exists>g. guarded env (obs w) g \<and> (ok r \<and> never_finishes env \<longrightarrow> eg_pending g = [])"
proof -
  let ?s1 = "prepare_turn env cfg turn s"
  have guard: "lp_guard ?s1 = lp_guard s" by (simp add: prepare_turn_def split: prod.split)
  obtain x v where run: "run_turn env cfg (lp_messages ?s1) (lp_world ?s1) = (x, v)" by fastforce
  have "obs v = obs (lp_world s)" using quiet_turn [of cfg "lp_messages ?s1" "lp_world ?s1"] by (simp add: run quiet_prepare)
  then have here: "guarded env (obs (lp_world (?s1\<lparr>lp_world := v\<rparr>))) (lp_guard (?s1\<lparr>lp_world := v\<rparr>))"
    using assms by (simp add: guard)
  { assume "turn_step env cfg turn s = Again s'"
    then show "guarded env (obs (lp_world s')) (lp_guard s')"
      using guarded_finish_turn(1) [OF here] run by (auto simp: turn_step_def Let_def split: sum.splits) }
  assume stop: "turn_step env cfg turn s = Done r w"
  show "\<exists>g. guarded env (obs w) g \<and> (ok r \<and> never_finishes env \<longrightarrow> eg_pending g = [])"
  proof (cases x)
    case (Inl e)
    then have "\<not> ok r" "w = v" using stop run by (auto simp: turn_step_def Let_def ok_def)
    then show ?thesis using here by auto
  next
    case (Inr a)
    then have "finish_turn env cfg a (?s1\<lparr>lp_world := v\<rparr>) = Done r w" using stop run by (simp add: turn_step_def Let_def)
    from guarded_finish_turn(2) [OF here this] show ?thesis by blast
  qed
qed

lemma guarded_run_turns:
  "guarded env (obs (lp_world s)) (lp_guard s) \<Longrightarrow> run_turns env cfg n s = (r, w) \<Longrightarrow>
     \<exists>g. guarded env (obs w) g \<and> (ok r \<and> never_finishes env \<longrightarrow> eg_pending g = [])"
proof (induction n arbitrary: s)
  case 0
  then show ?case by (auto simp: ok_def)
next
  case (Suc n)
  show ?case
  proof (cases "turn_step env cfg (lc_max_turns cfg - of_nat (Suc n)) s")
    case (Done r' w')
    then have "turn_step env cfg (lc_max_turns cfg - of_nat (Suc n)) s = Done r w" using Suc.prems by simp
    then show ?thesis by (rule guarded_turn_step(2) [OF Suc.prems(1)])
  next
    case (Again s')
    then show ?thesis using Suc guarded_turn_step(1) [OF Suc.prems(1) Again] by simp
  qed
qed

lemma guarded_run:
  assumes "obs w = []" and "run_from_checkpoint env cfg messages w = (r, w')"
  shows "\<exists>g. guarded env (obs w') g
    \<and> (ok r \<and> never_finishes env \<longrightarrow> eg_pending g = [])"
proof (rule guarded_run_turns)
  show "guarded env (obs (lp_world (start_state env cfg messages w))) (lp_guard (start_state env cfg messages w))"
    by (simp add: start_state_def quiet_log assms(1) guarded_def edits_after_reads_def verified_def)
  show "run_turns env cfg (unat (lc_max_turns cfg) - unat (turns_consumed messages)) (start_state env cfg messages w) = (r, w')"
    using assms(2) by (simp add: run_from_checkpoint_def)
qed

end

text \<open>Any environment can be made to record: the log is carried beside the world.\<close>

definition carry :: "('w \<Rightarrow> 'a \<times> 'w) \<Rightarrow> 'w \<times> trace \<Rightarrow> 'a \<times> 'w \<times> trace" where
  "carry f s = (case f (fst s) of (x, w) \<Rightarrow> (x, w, snd s))"

definition traced :: "'w loop_env \<Rightarrow> ('w \<times> trace) loop_env" where
  "traced env = \<lparr>
     le_json = le_json env,
     le_anthropic = (\<lambda>cfg sys r ms. carry (le_anthropic env cfg sys r ms)),
     le_openai = (\<lambda>cfg sys ms. carry (le_openai env cfg sys ms)),
     le_openrouter = (\<lambda>cfg sys ms. carry (le_openrouter env cfg sys ms)),
     le_openai_chat = (\<lambda>cfg sys ms. carry (le_openai_chat env cfg sys ms)),
     le_transport = le_transport env,
     le_on_text_delta = (\<lambda>d. apfst (le_on_text_delta env d)),
     le_on_reasoning_delta = (\<lambda>d. apfst (le_on_reasoning_delta env d)),
     le_on_tool_call = (\<lambda>n i a. carry (le_on_tool_call env n i a)),
     le_on_tool_result = (\<lambda>n i r. apfst (le_on_tool_result env n i r)),
     le_on_steering = apfst (le_on_steering env),
     le_drain_steering = carry (le_drain_steering env),
     le_dispatch = (\<lambda>n a s. case le_dispatch env n a (fst s) of (dr, w) \<Rightarrow> (dr, w, snd s @ [(n, a, dr_text dr)])),
     le_dispatch_all = (\<lambda>cs. carry (le_dispatch_all env cs)),
     le_log = (\<lambda>ev. apfst (le_log env ev)),
     le_hash = le_hash env, le_percent = le_percent env, le_has_parent = le_has_parent env\<rparr>"

lemma carry_trace [simp]: "snd (snd (carry f s)) = snd s"
  by (simp add: carry_def split: prod.split)

lemma traced_records: "records_dispatches (traced env) snd"
  by (simp add: records_dispatches_def traced_def split: prod.split)

interpretation traced: recorded_loop "traced env" snd for env
  by unfold_locales (rule traced_records)

lemma traced_same [simp]:
  "edits (traced env) = edits env" "edited (traced env) = edited env" "read_ok (traced env) = read_ok env"
  by (simp_all add: fun_eq_iff edits_def edited_def read_ok_def is_tool_error_result_def tool_arg_path_def traced_def
      split: prod.split)

lemma traced_freshly_read [simp]: "freshly_read (traced env) = freshly_read env"
  by (simp add: fun_eq_iff freshly_read_def)

lemma carry_plain [simp]: "apsnd fst (carry f s) = f (fst s)"
  by (simp add: carry_def split: prod.split)

lemma traced_fields [simp]:
  "le_json (traced env) = le_json env" "le_hash (traced env) = le_hash env"
  "le_percent (traced env) = le_percent env" "le_has_parent (traced env) = le_has_parent env"
  by (simp_all add: traced_def)

lemma traced_pure [simp]:
  "is_tool_error_result (traced env) = is_tool_error_result env" "tool_arg_path (traced env) = tool_arg_path env"
  "edit_first_read_guard_result (traced env) = edit_first_read_guard_result env"
  "edit_verification_guard_result (traced env) = edit_verification_guard_result env"
  "sanitize_tool_result (traced env) = sanitize_tool_result env" "pressure_reminder (traced env) = pressure_reminder env"
  "streak_message (traced env) = streak_message env" "update_streak (traced env) = update_streak env"
proof -
  have "boost (traced env) = boost env" by (simp add: boost_def fun_eq_iff split: prod.split)
  then show "update_streak (traced env) = update_streak env"
    by (intro ext) (simp add: update_streak_def split: prod.split)
  have "overflow_error (traced env) = overflow_error env" by (simp add: overflow_error_def fun_eq_iff)
  then show "sanitize_tool_result (traced env) = sanitize_tool_result env"
    by (intro ext) (simp add: sanitize_tool_result_def Let_def split: option.split)
  show "is_tool_error_result (traced env) = is_tool_error_result env" "tool_arg_path (traced env) = tool_arg_path env"
    by (simp_all add: fun_eq_iff is_tool_error_result_def tool_arg_path_def)
  show "edit_first_read_guard_result (traced env) = edit_first_read_guard_result env"
    "edit_verification_guard_result (traced env) = edit_verification_guard_result env"
    by (simp_all add: fun_eq_iff edit_first_read_guard_result_def edit_verification_guard_result_def error_json_def)
  show "pressure_reminder (traced env) = pressure_reminder env" "streak_message (traced env) = streak_message env"
    by (simp_all add: fun_eq_iff pressure_reminder_def streak_message_def Let_def)
qed





















text \<open>An instance: the first answer reads, edits and reads the file \<open>f\<close>, the second is the final text.\<close>

definition demo_json :: output_env where
  "demo_json = \<lparr>count_tokens = length, to_json_compact = (\<lambda>_. ''{}''), to_json_pretty = (\<lambda>_. ''{}''),
     from_json = (\<lambda>s. if s = ''A'' then Some (JObj [(''path'', JStr ''f'')]) else if s = ''ok'' then Some JNull else None)\<rparr>"

definition demo_call :: "string \<Rightarrow> turn_event" where
  "demo_call n = ToolCallComplete \<lparr>tc_call_id = n, tc_name = n, tc_args_json = ''A''\<rparr>"

definition demo_env :: "unit loop_env" where
  "demo_env = \<lparr>
     le_json = demo_json,
     le_anthropic = (\<lambda>_ _ _ ms w. ((if length ms = 1 then map demo_call [''fs_cat'', ''code_edit'', ''code_read'']
        else [TextDelta ''done''], Inr ()), w)),
     le_openai = (\<lambda>_ _ _ w. (([], Inr ()), w)), le_openrouter = (\<lambda>_ _ _ w. (([], Inr ()), w)),
     le_openai_chat = (\<lambda>_ _ _ w. (([], Inr ()), w)), le_transport = (\<lambda>_. None),
     le_on_text_delta = (\<lambda>_ w. w), le_on_reasoning_delta = (\<lambda>_ w. w),
     le_on_tool_call = (\<lambda>_ _ _ w. (Continue, w)), le_on_tool_result = (\<lambda>_ _ _ w. w),
     le_on_steering = (\<lambda>w. w), le_drain_steering = (\<lambda>w. ([], w)),
     le_dispatch = (\<lambda>_ _ w. (\<lparr>dr_text = ''ok'', dr_images = []\<rparr>, w)),
     le_dispatch_all = (\<lambda>_ w. (\<lambda>_. \<lparr>dr_text = ''ok'', dr_images = []\<rparr>, w)),
     le_log = (\<lambda>_ w. w), le_hash = (\<lambda>_ _. 0), le_percent = (\<lambda>_ _. 0), le_has_parent = False\<rparr>"

definition demo_loop_config :: loop_config where
  "demo_loop_config = \<lparr>lc_provider = ''anthropic'', lc_model = ''m'', lc_system = [], lc_max_turns = 5, lc_tools = [],
     lc_history = [], lc_images = [], lc_steering = False, lc_system_reminder = None, lc_state_dir = None, lc_agent_name = []\<rparr>"




theorem conversation_well_formed_witness:
  "wf_chat (lp_messages (prepare_turn demo_env demo_loop_config 0 (start_state demo_env demo_loop_config [User ''go'' []] ())))"
proof -
  have "wf_chat [User ''go'' []]" using wf_chat.user [OF wf_chat.empty] by simp
  from conversation_well_formed [OF this, THEN conjunct1, THEN mp, OF in_turn.first] show ?thesis by (rule conjunct1)
qed

section \<open>Concurrent calls\<close>

lemma parallel_updates:
  assumes "\<And>j. j < n \<Longrightarrow> f j < length rs"
  shows "(\<forall>i < length rs. (i \<in> f ` {..<n} \<or> rs ! i \<noteq> None) \<longrightarrow>
    foldl (\<lambda>rs j. rs[f j := Some (g j)]) rs [0..<n] ! i \<noteq> None)"
  using assms
proof (induction n)
  case (Suc n)
  then show ?case by (auto simp: nth_list_update lessThan_Suc)
qed simp

lemma all_parallel:
  assumes "list_all (\<lambda>tc. is_parallel_safe (tc_name tc)) calls"
  shows "parallel_indices calls = [0..<length calls]" "sequential_indices calls = []"
proof -
  have "is_parallel_safe (tc_name (calls ! i))" if "i < length calls" for i
    using assms that by (simp add: list_all_length)
  then show "parallel_indices calls = [0..<length calls]" "sequential_indices calls = []"
    by (auto simp: parallel_indices_def sequential_indices_def filter_empty_conv intro!: filter_True)
qed

lemma parallel_calls_hook:
  "parallel_calls (env\<lparr>le_on_tool_call := h\<rparr>) cfg calls rs w = parallel_calls env cfg calls rs w"
proof -
  have "log_audit (env\<lparr>le_on_tool_call := h\<rparr>) = log_audit env" by (simp add: log_audit_def fun_eq_iff split: option.split)
  moreover have "le_dispatch_all (env\<lparr>le_on_tool_call := h\<rparr>) = le_dispatch_all env" by simp
  ultimately show ?thesis unfolding parallel_calls_def by (simp only:)
qed

text \<open>(C39) The hook is not asked about concurrent calls: when a turn has at least two calls and all of
  them are of the tools that run concurrently, their results, the guard and the world after do
  not depend on what the hook would answer, so it can neither skip nor finish on them.\<close>

theorem concurrent_calls_bypass_hook:
  assumes "list_all (\<lambda>tc. is_parallel_safe (tc_name tc)) calls" and "length calls \<ge> 2"
  shows "execute_calls (env\<lparr>le_on_tool_call := h\<rparr>) cfg calls g w = execute_calls env cfg calls g w
    \<and> cs_terminal (execute_calls env cfg calls g w) = None \<and> None \<notin> set (cs_results (execute_calls env cfg calls g w))"
proof -
  note indices = all_parallel [OF assms(1)]
  obtain rs w1 where p: "parallel_calls env cfg calls (replicate (length calls) None) w = (rs, w1)" by fastforce
  have len: "length rs = length calls" using length_parallel [of env cfg calls "replicate (length calls) None" w] by (simp add: p)
  have "\<exists>gs. rs = foldl (\<lambda>rs j. rs[[0..<length calls] ! j := Some (gs j)]) (replicate (length calls) None) [0..<length calls]"
    using p assms(2) unfolding parallel_calls_def Let_def indices
    by (auto split: prod.splits)
  then obtain gs where "rs = foldl (\<lambda>rs j. rs[[0..<length calls] ! j := Some (gs j)]) (replicate (length calls) None) [0..<length calls]"
    by blast
  then have some: "rs ! i \<noteq> None" if "i < length calls" for i
    using parallel_updates [of "length calls" "(!) [0..<length calls]" "replicate (length calls) None" gs] that
    by (auto simp: image_iff intro!: bexI [of _ i])
  have "filter (\<lambda>i. rs ! i = None) (parallel_indices calls) = []" using some by (auto simp: indices filter_empty_conv)
  then have run: "execute_calls (env\<lparr>le_on_tool_call := h'\<rparr>) cfg calls g w
      = \<lparr>cs_results = rs, cs_terminal = None, cs_guard = g, cs_world = w1\<rparr>" for h'
    by (simp add: execute_calls_def parallel_calls_hook p Let_def indices)
  then have "execute_calls env cfg calls g w = \<lparr>cs_results = rs, cs_terminal = None, cs_guard = g, cs_world = w1\<rparr>"
    using run [of "le_on_tool_call env"] by simp
  moreover have "None \<notin> set rs" using some len by (auto simp: in_set_conv_nth)
  ultimately show ?thesis by (simp add: run)
qed

theorem concurrent_calls_bypass_hook_witness:
  "let calls = [\<lparr>tc_call_id = ''1'', tc_name = ''agent_query'', tc_args_json = ''A''\<rparr>,
                \<lparr>tc_call_id = ''2'', tc_name = ''http_request'', tc_args_json = ''A''\<rparr>]
   in \<forall>g. cs_terminal (execute_calls (demo_env\<lparr>le_on_tool_call := \<lambda>_ _ _ w. (Finish ''{}'' ''end'', w)\<rparr>) demo_loop_config calls g ()) = None"
proof -
  let ?calls = "[\<lparr>tc_call_id = ''1'', tc_name = ''agent_query'', tc_args_json = ''A''\<rparr>,
                \<lparr>tc_call_id = ''2'', tc_name = ''http_request'', tc_args_json = ''A''\<rparr>]"
  have "list_all (\<lambda>tc. is_parallel_safe (tc_name tc)) ?calls" "length ?calls \<ge> 2" by (simp_all add: is_parallel_safe_def)
  from concurrent_calls_bypass_hook [OF this, where env = "demo_env\<lparr>le_on_tool_call := \<lambda>_ _ _ w. (Finish ''{}'' ''end'', w)\<rparr>"
      and cfg = demo_loop_config and w = "()", THEN conjunct2, THEN conjunct1]
  show ?thesis unfolding Let_def by (rule allI)
qed

section \<open>Results in the conversation\<close>

text \<open>What a tool answers enters the conversation with at most 32000 bytes, provided the printed
  overflow notice is no longer than that; a short result without a long run of base64
  characters enters unchanged.\<close>

theorem tool_results_bounded:
  assumes "length (overflow_error env name (length result)) \<le> max_tool_result_chars"
  shows "length (sanitize_tool_result env name result) \<le> max_tool_result_chars
    \<and> (length result \<le> max_tool_result_chars \<and> \<not> likely_contains_base64 result \<longrightarrow> sanitize_tool_result env name result = result)"
  using assms by (auto simp: sanitize_tool_result_def Let_def split: option.split)

theorem tool_results_bounded_witness:
  "length (sanitize_tool_result demo_env ''fs_cat'' (replicate 40000 CHR ''a'')) \<le> 32000"
  using tool_results_bounded [of demo_env "''fs_cat''" "replicate 40000 CHR ''a''"]
  by (simp add: overflow_error_def demo_env_def demo_json_def max_tool_result_chars_def)

section \<open>Resuming\<close>

lemma turns_consumed_last_user: "turns_consumed (ms @ [User c images]) = 0"
  by (simp add: turns_consumed_def)

text \<open>A resumed run forgets the turns before the last message of the loop itself: if the run was
  interrupted right after the loop had added a reminder or a hint, the resumed run has all its
  turns again; without such messages exactly the answered turns are deducted.\<close>

theorem resume_turns:
  "turns_consumed (ms @ [User c images]) = 0
   \<and> (list_all (\<lambda>m. \<not> is_user m) us \<longrightarrow>
        turns_consumed (ms @ [User c images] @ us) = of_nat (length (filter is_assistant us)))"
proof
  show "list_all (\<lambda>m. \<not> is_user m) us \<longrightarrow>
        turns_consumed (ms @ [User c images] @ us) = of_nat (length (filter is_assistant us))"
  proof
    assume "list_all (\<lambda>m. \<not> is_user m) us"
    then have "takeWhile (\<lambda>m. \<not> is_user m) (rev us @ User c images # rev ms) = rev us"
      by (subst takeWhile_append2) (auto simp: list_all_iff)
    then show "turns_consumed (ms @ [User c images] @ us) = of_nat (length (filter is_assistant us))"
      by (simp add: turns_consumed_def Let_def)
  qed
qed (rule turns_consumed_last_user)

theorem resume_turns_witness:
  "turns_consumed ([User ''go'' [], Assistant ''a'' [], User ''go'' []] @ [User ''reminder'' []] @ [Assistant ''b'' []]) = 1"
  using resume_turns [of "[User ''go'' [], Assistant ''a'' [], User ''go'' []]" "''reminder''" "[]" "[Assistant ''b'' []]"] by simp

end
