(* ===== verification/Provider_Wire.thy ===== *)
theory Provider_Wire
  imports Agent_Loop
begin

text \<open>
  The requests to the model providers: a conversation as the messages of the Anthropic API
  (\<open>agent_loop/anthropic.rs\<close>), as the items of the OpenAI Responses API (\<open>openai.rs\<close>) and as Chat
  Completions messages (\<open>openrouter.rs\<close>, \<open>openai_compatible.rs\<close>), with the request bodies.

  The base64 encoder, the JSON parser and printer are the record \<open>wire_env\<close>.
\<close>

record wire_env =
  we_base64 :: "string \<Rightarrow> string"
  we_parse :: "string \<Rightarrow> json option"
  we_print :: "json \<Rightarrow> string"

section \<open>JSON values\<close>

text \<open>A cache mark is a member set on the last element in place.\<close>

definition ephemeral :: json where
  "ephemeral = JObj [(''type'', JStr ''ephemeral'')]"

definition text_block :: "string \<Rightarrow> json" where
  "text_block s = JObj [(''type'', JStr ''text''), (''text'', JStr s)]"

definition role_message :: "string \<Rightarrow> json \<Rightarrow> json" where
  "role_message role content = JObj [(''role'', JStr role), (''content'', content)]"

definition mark_last :: "json list \<Rightarrow> json list" where
  "mark_last vs = (case rev vs of [] \<Rightarrow> [] | v # rest \<Rightarrow> rev rest @ [json_set ''cache_control'' ephemeral v])"

section \<open>Anthropic\<close>

definition anthropic_image :: "wire_env \<Rightarrow> image \<Rightarrow> json" where
  "anthropic_image we im =
     (case im of (bytes, mime) \<Rightarrow>
        JObj [(''type'', JStr ''image''),
          (''source'', JObj [(''type'', JStr ''base64''), (''media_type'', JStr mime), (''data'', JStr (we_base64 we bytes))])])"

definition anthropic_content :: "wire_env \<Rightarrow> string \<Rightarrow> image list \<Rightarrow> json" where
  "anthropic_content we content images =
     (if images = [] then JStr content else JArr (map (anthropic_image we) images @ [text_block content]))"

definition tool_use_block :: "wire_env \<Rightarrow> tool_call \<Rightarrow> json" where
  "tool_use_block we tc =
     JObj [(''type'', JStr ''tool_use''), (''id'', JStr (tc_call_id tc)), (''name'', JStr (tc_name tc)),
       (''input'', case we_parse we (tc_args_json tc) of Some v \<Rightarrow> v | None \<Rightarrow> JObj [])]"

definition tool_result_block :: "wire_env \<Rightarrow> string \<Rightarrow> string \<Rightarrow> image list \<Rightarrow> json" where
  "tool_result_block we call_id content images =
     JObj [(''type'', JStr ''tool_result''), (''tool_use_id'', JStr call_id), (''content'', anthropic_content we content images)]"

fun is_tool :: "message \<Rightarrow> bool" where
  "is_tool (Tool _ _ _ _) = True"
| "is_tool _ = False"

fun result_of :: "wire_env \<Rightarrow> message \<Rightarrow> json" where
  "result_of we (Tool call_id name content images) = tool_result_block we call_id content images"
| "result_of we _ = JNull"

text \<open>Consecutive tool messages become one user message.\<close>

function group_messages :: "wire_env \<Rightarrow> message list \<Rightarrow> json list" where
  "group_messages we [] = []"
| "group_messages we (User content images # ms) =
     role_message ''user'' (anthropic_content we content images) # group_messages we ms"
| "group_messages we (Assistant content calls # ms) =
     role_message ''assistant''
       (JArr ((if content \<noteq> [] then [text_block content] else []) @ map (tool_use_block we) calls)) # group_messages we ms"
| "group_messages we (Tool i n c im # ms) =
     role_message ''user'' (JArr (map (result_of we) (Tool i n c im # takeWhile is_tool ms)))
       # group_messages we (dropWhile is_tool ms)"
  by pat_completeness auto
termination
  by (relation "measure (length \<circ> snd)") (auto simp: le_imp_less_Suc length_dropWhile_le)

text \<open>The blocks of a message, a string being one text block, and the merging of neighbours.\<close>

definition content_blocks :: "json \<Rightarrow> json list" where
  "content_blocks msg =
     (case json_get ''content'' msg of JStr s \<Rightarrow> [text_block s] | JArr vs \<Rightarrow> vs | _ \<Rightarrow> [])"

definition extend_message :: "json \<Rightarrow> json \<Rightarrow> json" where
  "extend_message prev msg =
     (case json_get ''content'' prev of
        JStr s \<Rightarrow> json_set ''content'' (JArr (text_block s # content_blocks msg)) prev
      | JArr vs \<Rightarrow> json_set ''content'' (JArr (vs @ content_blocks msg)) prev
      | _ \<Rightarrow> prev)"

definition merge_message :: "json list \<Rightarrow> json \<Rightarrow> json list" where
  "merge_message merged msg =
     (case rev merged of
        [] \<Rightarrow> [msg]
      | prev # rest \<Rightarrow>
          if json_get ''role'' prev = json_get ''role'' msg then rev rest @ [extend_message prev msg]
          else merged @ [msg])"

definition merge_roles :: "json list \<Rightarrow> json list" where
  "merge_roles out = foldl merge_message [] out"

text \<open>The cache mark on the last block of a message.\<close>

definition mark_message :: "json \<Rightarrow> json" where
  "mark_message msg =
     (case json_get ''content'' msg of
        JStr s \<Rightarrow> json_set ''content''
          (JArr [JObj [(''type'', JStr ''text''), (''text'', JStr s), (''cache_control'', ephemeral)]]) msg
      | JArr vs \<Rightarrow> json_set ''content'' (JArr (mark_last vs)) msg
      | _ \<Rightarrow> msg)"

fun mark_first :: "(json \<Rightarrow> bool) \<Rightarrow> json list \<Rightarrow> json list" where
  "mark_first p [] = []"
| "mark_first p (m # ms) = (if p m then mark_message m # ms else m # mark_first p ms)"

text \<open>\<open>rposition\<close>: the last message with the property.\<close>

definition mark_last_message :: "(json \<Rightarrow> bool) \<Rightarrow> json list \<Rightarrow> json list" where
  "mark_last_message p ms = rev (mark_first p (rev ms))"

definition messages_to_anthropic :: "wire_env \<Rightarrow> message list \<Rightarrow> bool \<Rightarrow> json list" where
  "messages_to_anthropic we messages prompt_caching =
     (let out = merge_roles (group_messages we messages) in
      if prompt_caching \<and> length out > 1
      then mark_last_message (\<lambda>m. json_get ''role'' m = JStr ''user'') out else out)"

definition tool_to_anthropic :: "tool_def \<Rightarrow> json" where
  "tool_to_anthropic t =
     JObj [(''name'', JStr (td_name t)), (''description'', JStr (td_description t)),
       (''input_schema'', JObj [(''type'', JStr ''object''), (''properties'', json_get ''properties'' (td_parameters t)),
          (''required'', json_get ''required'' (td_parameters t))])]"

definition claude_code_identity :: string where
  "claude_code_identity = ''You are Claude Code, Anthropic'' @ [CHR 0x27] @ ''s official CLI for Claude.''"

definition supports_adaptive_thinking :: "string \<Rightarrow> bool" where
  "supports_adaptive_thinking model \<longleftrightarrow>
     contains_sub ''opus-4-6'' model \<or> contains_sub ''opus-4.6'' model \<or> contains_sub ''sonnet-4-6'' model
     \<or> contains_sub ''sonnet-4.6'' model"

definition is_oauth_token :: "string \<Rightarrow> bool" where
  "is_oauth_token token = prefix ''sk-ant-oat'' token"

definition thinking_budget :: "u32 \<Rightarrow> nat" where
  "thinking_budget max_tokens = max (unat max_tokens * 3 div 5) 1024"

definition anthropic_request ::
  "wire_env \<Rightarrow> string \<Rightarrow> string option \<Rightarrow> message list \<Rightarrow> tool_def list \<Rightarrow> string \<Rightarrow> u32 \<Rightarrow> bool \<Rightarrow> bool \<Rightarrow> bool \<Rightarrow> json" where
  "anthropic_request we system volatile messages tools model max_tokens is_oauth adaptive caching =
     (let blocks =
            (if is_oauth then [text_block claude_code_identity] else [])
            @ (if system \<noteq> [] then [if caching then json_set ''cache_control'' ephemeral (text_block system) else text_block system] else [])
            @ (case volatile of Some r \<Rightarrow> if r \<noteq> [] then [text_block r] else [] | None \<Rightarrow> []);
          tool_list = (if caching \<and> tools \<noteq> [] then mark_last (map tool_to_anthropic tools) else map tool_to_anthropic tools);
          body = JObj [(''model'', JStr model), (''max_tokens'', JNum (show_u32 max_tokens)), (''stream'', JBool True),
            (''messages'', JArr (messages_to_anthropic we messages caching)), (''tools'', JArr tool_list)];
          body1 = (if blocks \<noteq> [] then json_set ''system'' (JArr blocks) body else body)
      in if prefix ''claude-'' model \<and> \<not> contains_sub ''-3'' model
         then json_set ''thinking''
           (if adaptive then JObj [(''type'', JStr ''adaptive'')]
            else JObj [(''type'', JStr ''enabled''), (''budget_tokens'', JNum (show_nat (thinking_budget max_tokens)))]) body1
         else body1)"

section \<open>OpenAI Responses\<close>

definition data_url :: "wire_env \<Rightarrow> image \<Rightarrow> json" where
  "data_url we im =
     (case im of (bytes, mime) \<Rightarrow>
        JObj [(''type'', JStr ''image_url''),
          (''image_url'', JObj [(''url'', JStr (''data:'' @ mime @ '';base64,'' @ we_base64 we bytes))])])"

definition url_content :: "wire_env \<Rightarrow> string \<Rightarrow> image list \<Rightarrow> json" where
  "url_content we content images =
     (if images = [] then JStr content else JArr (map (data_url we) images @ [text_block content]))"

definition visual_note :: "wire_env \<Rightarrow> image list \<Rightarrow> json list" where
  "visual_note we images =
     (if images \<noteq> []
      then [role_message ''user'' (JArr (map (data_url we) images @ [text_block ''[Visual content from image_read tool]'']))]
      else [])"

definition function_call :: "tool_call \<Rightarrow> json" where
  "function_call tc =
     JObj [(''type'', JStr ''function_call''), (''call_id'', JStr (tc_call_id tc)), (''name'', JStr (tc_name tc)),
       (''arguments'', JStr (tc_args_json tc))]"

fun response_items :: "wire_env \<Rightarrow> message \<Rightarrow> json list" where
  "response_items we (User content images) = [role_message ''user'' (url_content we content images)]"
| "response_items we (Assistant content calls) =
     (if content \<noteq> [] then [role_message ''assistant'' (JStr content)] else []) @ map function_call calls"
| "response_items we (Tool call_id name content images) =
     JObj [(''type'', JStr ''function_call_output''), (''call_id'', JStr call_id), (''output'', JStr content)]
     # visual_note we images"

definition messages_to_responses_input :: "wire_env \<Rightarrow> message list \<Rightarrow> json list" where
  "messages_to_responses_input we messages = concat (map (response_items we) messages)"

definition tool_to_responses :: "tool_def \<Rightarrow> json" where
  "tool_to_responses t =
     JObj [(''type'', JStr ''function''), (''name'', JStr (td_name t)), (''description'', JStr (td_description t)),
       (''parameters'', td_parameters t), (''strict'', JBool False)]"

definition with_tools :: "json list \<Rightarrow> json \<Rightarrow> json" where
  "with_tools tools body = (if tools \<noteq> [] then json_set ''tools'' (JArr tools) body else body)"

definition responses_ws_request ::
  "wire_env \<Rightarrow> string \<Rightarrow> message list \<Rightarrow> tool_def list \<Rightarrow> string \<Rightarrow> u32 \<Rightarrow> string option \<Rightarrow> json" where
  "responses_ws_request we system messages tools model max_tokens previous =
     (let body = JObj [(''type'', JStr ''response.create''), (''model'', JStr model), (''max_output_tokens'', JNum (show_u32 max_tokens)),
            (''instructions'', JStr system), (''store'', JBool False), (''input'', JArr (messages_to_responses_input we messages))]
      in with_tools (map tool_to_responses tools)
           (case previous of Some i \<Rightarrow> json_set ''previous_response_id'' (JStr i) body | None \<Rightarrow> body))"

definition responses_http_request ::
  "wire_env \<Rightarrow> string \<Rightarrow> message list \<Rightarrow> tool_def list \<Rightarrow> string \<Rightarrow> u32 \<Rightarrow> json" where
  "responses_http_request we system messages tools model max_tokens =
     with_tools (map tool_to_responses tools)
       (JObj [(''model'', JStr model), (''max_output_tokens'', JNum (show_u32 max_tokens)), (''stream'', JBool True),
          (''instructions'', JStr system), (''store'', JBool False), (''input'', JArr (messages_to_responses_input we messages))])"

section \<open>Chat Completions\<close>

definition chat_call :: "tool_call \<Rightarrow> json" where
  "chat_call tc =
     JObj [(''id'', JStr (tc_call_id tc)), (''type'', JStr ''function''),
       (''function'', JObj [(''name'', JStr (tc_name tc)), (''arguments'', JStr (tc_args_json tc))])]"

fun chat_items :: "wire_env \<Rightarrow> message \<Rightarrow> json list" where
  "chat_items we (User content images) = [role_message ''user'' (url_content we content images)]"
| "chat_items we (Assistant content calls) =
     [if calls \<noteq> [] then json_set ''tool_calls'' (JArr (map chat_call calls)) (role_message ''assistant'' (JStr content))
      else role_message ''assistant'' (JStr content)]"
| "chat_items we (Tool call_id name content images) =
     JObj [(''role'', JStr ''tool''), (''tool_call_id'', JStr call_id), (''content'', JStr content)] # visual_note we images"

text \<open>\<open>openai_compatible.rs\<close>.\<close>

definition chat_completions :: "wire_env \<Rightarrow> string \<Rightarrow> message list \<Rightarrow> json list" where
  "chat_completions we system messages = role_message ''system'' (JStr system) # concat (map (chat_items we) messages)"

text \<open>\<open>openrouter.rs\<close>.\<close>

definition routed_completions :: "wire_env \<Rightarrow> string \<Rightarrow> message list \<Rightarrow> bool \<Rightarrow> json list" where
  "routed_completions we system messages prompt_caching =
     (let out =
        (if prompt_caching
         then role_message ''system''
           (JArr [JObj [(''type'', JStr ''text''), (''text'', JStr system), (''cache_control'', ephemeral)]])
         else role_message ''system'' (JStr system)) # concat (map (chat_items we) messages)
      in if prompt_caching \<and> length out > 2
         then mark_last_message (\<lambda>m. json_get ''role'' m = JStr ''user'' \<or> json_get ''role'' m = JStr ''tool'') out
         else out)"

definition tool_to_chat_completions :: "tool_def \<Rightarrow> json" where
  "tool_to_chat_completions t =
     JObj [(''type'', JStr ''function''),
       (''function'', JObj [(''name'', JStr (td_name t)), (''description'', JStr (td_description t)), (''parameters'', td_parameters t)])]"

definition stream_body :: "string \<Rightarrow> u32 \<Rightarrow> json list \<Rightarrow> json" where
  "stream_body model max_tokens messages =
     JObj [(''model'', JStr model), (''max_tokens'', JNum (show_u32 max_tokens)), (''stream'', JBool True),
       (''stream_options'', JObj [(''include_usage'', JBool True)]), (''messages'', JArr messages)]"

definition chat_request :: "wire_env \<Rightarrow> string \<Rightarrow> message list \<Rightarrow> tool_def list \<Rightarrow> string \<Rightarrow> u32 \<Rightarrow> json" where
  "chat_request we system messages tools model max_tokens =
     (let body = stream_body model max_tokens (chat_completions we system messages) in
      if tools \<noteq> []
      then json_set ''tools'' (JArr (map tool_to_chat_completions tools)) (json_set ''parallel_tool_calls'' (JBool False) body)
      else body)"

definition routed_request :: "wire_env \<Rightarrow> string \<Rightarrow> message list \<Rightarrow> tool_def list \<Rightarrow> string \<Rightarrow> u32 \<Rightarrow> bool \<Rightarrow> json" where
  "routed_request we system messages tools model max_tokens prompt_caching =
     (let body = stream_body model max_tokens (routed_completions we system messages prompt_caching) in
      if tools \<noteq> []
      then (let defs = map tool_to_chat_completions tools in
            json_set ''tools'' (JArr (if prompt_caching then mark_last defs else defs))
              (json_set ''provider'' (JObj [(''require_parameters'', JBool True)]) body))
      else body)"

definition openrouter_disabled_tools :: "string list" where
  "openrouter_disabled_tools =
     [''list_skills'', ''provider_admin'', ''agent_run'', ''agent_task'', ''agent_admin'', ''workspace_admin'']"

definition filter_openrouter_tools :: "tool_def list \<Rightarrow> tool_def list" where
  "filter_openrouter_tools tools = filter (\<lambda>t. td_name t \<notin> set openrouter_disabled_tools) tools"

definition should_retry_without_cache :: "nat \<Rightarrow> string \<Rightarrow> bool" where
  "should_retry_without_cache status body \<longleftrightarrow>
     status = 404 \<and> contains_sub ''No endpoints found that can handle the requested parameters'' body"

end
