(* ===== verification/Provider_Wire_Props.thy ===== *)
theory Provider_Wire_Props
  imports Provider_Wire Agent_Loop_Props
begin

text \<open>
  What the conversions to the providers' formats keep: roles alternate and tool uses are answered
  in the Anthropic messages, nothing is lost by merging, and in Chat Completions every call is
  answered as long as no tool result carries an image.
\<close>

section \<open>Messages with a role\<close>

definition msg_role :: "json \<Rightarrow> json" where
  "msg_role m = json_get ''role'' m"

definition tool_use_ids :: "json \<Rightarrow> json list" where
  "tool_use_ids m = map (json_get ''id'') (filter (\<lambda>b. json_get ''type'' b = JStr ''tool_use'') (content_blocks m))"

definition tool_result_ids :: "json \<Rightarrow> json list" where
  "tool_result_ids m =
     map (json_get ''tool_use_id'') (filter (\<lambda>b. json_get ''type'' b = JStr ''tool_result'') (content_blocks m))"

inductive role_msg :: "json \<Rightarrow> bool" where
  "r = ''user'' \<or> r = ''assistant'' \<Longrightarrow> role_msg (role_message r (JStr s))"
| "r = ''user'' \<or> r = ''assistant'' \<Longrightarrow> role_msg (role_message r (JArr vs))"

lemma role_message_simps [simp]:
  "msg_role (role_message r c) = JStr r"
  "content_blocks (role_message r (JStr s)) = [text_block s]"
  "content_blocks (role_message r (JArr vs)) = vs"
  by (simp_all add: msg_role_def role_message_def content_blocks_def)

lemma extend_role_message:
  assumes "role_msg m"
  shows "role_msg (extend_message m m')" "msg_role (extend_message m m') = msg_role m"
    "content_blocks (extend_message m m') = content_blocks m @ content_blocks m'"
proof -
  obtain r where r: "r = ''user'' \<or> r = ''assistant''"
      "extend_message m m' = role_message r (JArr (content_blocks m @ content_blocks m'))" "msg_role m = JStr r"
    using assms by cases (simp_all add: extend_message_def role_message_def content_blocks_def msg_role_def)
  then show "role_msg (extend_message m m')" "msg_role (extend_message m m') = msg_role m"
    "content_blocks (extend_message m m') = content_blocks m @ content_blocks m'"
    by (simp_all add: role_msg.intros)
qed

lemma group_role_msgs: "list_all role_msg (group_messages we ms)"
  by (induction we ms rule: group_messages.induct) (auto simp: anthropic_content_def intro: role_msg.intros)

section \<open>Merging\<close>

lemma merge_message_snoc:
  "merge_message (xs @ [p]) m = (if msg_role p = msg_role m then xs @ [extend_message p m] else xs @ [p, m])"
  by (simp add: merge_message_def msg_role_def)

lemma merge_message_Nil [simp]: "merge_message [] m = [m]"
  by (simp add: merge_message_def)

lemma merge_roles_snoc: "merge_roles (xs @ [m]) = merge_message (merge_roles xs) m"
  by (simp add: merge_roles_def)

lemma merge_role_msgs: "list_all role_msg xs \<Longrightarrow> list_all role_msg (merge_roles xs)"
proof (induction xs rule: rev_induct)
  case (snoc m xs)
  then show ?case
    by (cases "merge_roles xs" rule: rev_cases) (auto simp: merge_roles_snoc merge_message_snoc extend_role_message)
qed (simp add: merge_roles_def)

lemma distinct_adj_snoc: "distinct_adj (xs @ [a]) \<longleftrightarrow> distinct_adj xs \<and> (xs = [] \<or> last xs \<noteq> a)"
  by (simp add: distinct_adj_append_iff)

lemma merge_alternates: "list_all role_msg xs \<Longrightarrow> distinct_adj (map msg_role (merge_roles xs))"
proof (induction xs rule: rev_induct)
  case (snoc m xs)
  then have msgs: "list_all role_msg (merge_roles xs)" by (simp add: merge_role_msgs)
  show ?case
  proof (cases "merge_roles xs" rule: rev_cases)
    case Nil
    then show ?thesis by (simp add: merge_roles_snoc)
  next
    case (snoc ys p)
    have "role_msg p" using msgs by (simp add: snoc)
    then show ?thesis
      using snoc.IH snoc snoc.prems
      by (auto simp: merge_roles_snoc merge_message_snoc extend_role_message distinct_adj_append_iff)
  qed
qed (simp add: merge_roles_def)

lemma merge_content:
  "list_all role_msg xs \<Longrightarrow> concat (map content_blocks (merge_roles xs)) = concat (map content_blocks xs)"
proof (induction xs rule: rev_induct)
  case (snoc m xs)
  then have msgs: "list_all role_msg (merge_roles xs)" by (simp add: merge_role_msgs)
  then show ?case
    using snoc
    by (cases "merge_roles xs" rule: rev_cases) (auto simp: merge_roles_snoc merge_message_snoc extend_role_message)
qed (simp add: merge_roles_def)

section \<open>The cache mark\<close>

lemma mark_last_eq: "vs \<noteq> [] \<Longrightarrow> mark_last vs = butlast vs @ [json_set ''cache_control'' ephemeral (last vs)]"
  by (cases vs rule: rev_cases) (simp_all add: mark_last_def)

lemma json_get_set_other: "k \<noteq> l \<Longrightarrow> json_get k (json_set l x v) = json_get k v"
proof (cases v)
  case (JObj ms)
  have "map_of (map (\<lambda>(l', v). (l', if l' = l then x else v)) ms) k = map_of ms k" if "k \<noteq> l"
    using that by (induction ms) auto
  then show "k \<noteq> l \<Longrightarrow> json_get k (json_set l x v) = json_get k v"
    by (auto simp: JObj map_add_def split: option.split)
qed simp_all

lemma marked_member:
  assumes "k \<noteq> ''cache_control''" "l \<noteq> ''cache_control''"
  shows "map (json_get k) (filter (\<lambda>b. json_get l b = x) (mark_last vs)) = map (json_get k) (filter (\<lambda>b. json_get l b = x) vs)"
  using assms by (cases vs rule: rev_cases) (simp_all add: mark_last_def json_get_set_other)

lemma mark_message_keeps:
  assumes "role_msg m"
  shows "role_msg (mark_message m)" "msg_role (mark_message m) = msg_role m"
    "tool_use_ids (mark_message m) = tool_use_ids m" "tool_result_ids (mark_message m) = tool_result_ids m"
proof -
  have str: "mark_message (role_message r (JStr s))
      = role_message r (JArr [JObj [(''type'', JStr ''text''), (''text'', JStr s), (''cache_control'', ephemeral)]])" for r s
    by (simp add: mark_message_def role_message_def)
  have arr: "mark_message (role_message r (JArr vs)) = role_message r (JArr (mark_last vs))" for r vs
    by (simp add: mark_message_def role_message_def)
  show "role_msg (mark_message m)" "msg_role (mark_message m) = msg_role m"
    using assms by (cases; simp add: str arr role_msg.intros)+
  show "tool_use_ids (mark_message m) = tool_use_ids m" "tool_result_ids (mark_message m) = tool_result_ids m"
    using assms
    by (cases; simp add: str arr tool_use_ids_def tool_result_ids_def marked_member text_block_def)+
qed

lemma mark_first_keeps:
  assumes "list_all role_msg ms" and "\<And>m. role_msg m \<Longrightarrow> f (mark_message m) = f m"
  shows "map f (mark_first p ms) = map f ms"
  using assms by (induction ms) auto

lemma mark_last_message_keeps:
  assumes "list_all role_msg ms" and "\<And>m. role_msg m \<Longrightarrow> f (mark_message m) = f m"
  shows "map f (mark_last_message p ms) = map f ms"
  using mark_first_keeps [of "rev ms" f p] assms by (simp add: mark_last_message_def rev_map [symmetric])

lemma anthropic_keeps:
  assumes "\<And>m. role_msg m \<Longrightarrow> f (mark_message m) = f m"
  shows "map f (messages_to_anthropic we ms caching) = map f (merge_roles (group_messages we ms))"
  using mark_last_message_keeps [OF merge_role_msgs [OF group_role_msgs], where f = f] assms
  by (simp add: messages_to_anthropic_def Let_def)

text \<open>(C21) The Anthropic API gets alternating roles: whatever the conversation, the messages of a
  request are those of users and assistants in turn, and without the cache marks merging
  neighbours loses no block of content and keeps their order.\<close>

theorem anthropic_roles_alternate:
  "distinct_adj (map msg_role (messages_to_anthropic we ms caching))
   \<and> set (map msg_role (messages_to_anthropic we ms caching)) \<subseteq> {JStr ''user'', JStr ''assistant''}
   \<and> concat (map content_blocks (messages_to_anthropic we ms False)) = concat (map content_blocks (group_messages we ms))"
proof (intro conjI)
  let ?out = "merge_roles (group_messages we ms)"
  have roles: "map msg_role (messages_to_anthropic we ms caching) = map msg_role ?out"
    by (rule anthropic_keeps) (rule mark_message_keeps)
  show "distinct_adj (map msg_role (messages_to_anthropic we ms caching))"
    unfolding roles by (rule merge_alternates [OF group_role_msgs])
  have "msg_role m \<in> {JStr ''user'', JStr ''assistant''}" if "role_msg m" for m using that by cases auto
  then show "set (map msg_role (messages_to_anthropic we ms caching)) \<subseteq> {JStr ''user'', JStr ''assistant''}"
    unfolding roles using merge_role_msgs [OF group_role_msgs] by (fastforce simp: list_all_iff)
  show "concat (map content_blocks (messages_to_anthropic we ms False)) = concat (map content_blocks (group_messages we ms))"
    by (simp add: messages_to_anthropic_def merge_content [OF group_role_msgs])
qed

section \<open>Tool uses are answered\<close>

text \<open>Every message but the last is free of tool uses or followed by exactly their results.\<close>

fun open_turns :: "(json list \<times> json list) list \<Rightarrow> bool" where
  "open_turns [] = True"
| "open_turns [x] = True"
| "open_turns (x # y # zs) = ((fst x = [] \<or> snd y = fst x) \<and> open_turns (y # zs))"

definition turn_ids :: "json \<Rightarrow> json list \<times> json list" where
  "turn_ids m = (tool_use_ids m, tool_result_ids m)"

definition answered_turns :: "json list \<Rightarrow> bool" where
  "answered_turns ms =
     (let ids = map turn_ids ms in open_turns ids \<and> (ids = [] \<or> fst (last ids) = []))"

lemma open_turns_snoc: "open_turns (xs @ [x]) \<longleftrightarrow> open_turns xs \<and> (xs = [] \<or> fst (last xs) = [] \<or> snd x = fst (last xs))"
  by (induction xs rule: open_turns.induct) auto

lemma open_turns_snoc2: "open_turns (xs @ [x, y]) \<longleftrightarrow> open_turns (xs @ [x]) \<and> (fst x = [] \<or> snd y = fst x)"
  using open_turns_snoc [of "xs @ [x]" y] by simp

lemma extend_ids:
  "role_msg m \<Longrightarrow> turn_ids (extend_message m m') = (fst (turn_ids m) @ fst (turn_ids m'), snd (turn_ids m) @ snd (turn_ids m'))"
  by (simp add: turn_ids_def tool_use_ids_def tool_result_ids_def extend_role_message)

text \<open>One message more, behind an answered conversation; \<open>answered\<close> without and with open uses at the end.\<close>

definition uses_open :: "json list \<Rightarrow> json list \<Rightarrow> bool" where
  "uses_open ids ms \<longleftrightarrow> list_all role_msg ms \<and> open_turns (map turn_ids ms)
     \<and> (if ms = [] then ids = [] else fst (turn_ids (last ms)) = ids)"

lemma answered_iff: "list_all role_msg ms \<Longrightarrow> answered_turns ms \<longleftrightarrow> uses_open [] ms"
  by (auto simp: answered_turns_def uses_open_def Let_def last_map)

lemma merge_uses:
  assumes "uses_open [] ms" and "role_msg m" and "turn_ids m = (ids, [])"
  shows "uses_open ids (merge_message ms m)"
proof (cases ms rule: rev_cases)
  case Nil
  then show ?thesis using assms by (simp add: uses_open_def)
next
  case (snoc ys p)
  have p: "role_msg p" "fst (turn_ids p) = []" using assms(1) by (simp_all add: snoc uses_open_def)
  show ?thesis
  proof (cases "msg_role p = msg_role m")
    case True
    then have merged: "merge_message ms m = ys @ [extend_message p m]" by (simp add: snoc merge_message_snoc)
    have "snd (turn_ids (extend_message p m)) = snd (turn_ids p)" by (simp add: extend_ids [OF p(1)] assms(3))
    then show ?thesis
      unfolding merged using assms p
      by (simp add: uses_open_def snoc extend_role_message(1) open_turns_snoc extend_ids)
  next
    case False
    then have pushed: "merge_message ms m = (ys @ [p]) @ [m]" by (simp add: snoc merge_message_snoc)
    show ?thesis
      unfolding pushed using assms p
      by (simp add: uses_open_def snoc open_turns_snoc2)
  qed
qed

lemma merge_results:
  assumes "uses_open ids ms" and "ms \<noteq> []" and "role_msg m" and "turn_ids m = ([], ids)"
    and "msg_role (last ms) \<noteq> msg_role m"
  shows "uses_open [] (merge_message ms m)"
proof -
  obtain ys p where ms: "ms = ys @ [p]" using assms(2) by (cases ms rule: rev_cases) auto
  then have "merge_message ms m = (ys @ [p]) @ [m]" using assms(5) by (simp add: merge_message_snoc)
  then show ?thesis
    using assms ms by (simp add: uses_open_def open_turns_snoc2)
qed

lemma merge_last_role: "role_msg m \<Longrightarrow> list_all role_msg ms \<Longrightarrow> msg_role (last (merge_message ms m)) = msg_role m"
  by (cases ms rule: rev_cases) (auto simp: merge_message_snoc extend_role_message)

lemma merge_nonempty [simp]: "merge_message ms m \<noteq> []"
  by (cases ms rule: rev_cases) (auto simp: merge_message_snoc)

lemma tools_span:
  "list_all is_tool ms \<Longrightarrow> takeWhile is_tool ms = ms" "list_all is_tool ms \<Longrightarrow> dropWhile is_tool ms = []"
  "list_all is_tool ms \<Longrightarrow> ys = [] \<or> \<not> is_tool (hd ys) \<Longrightarrow> takeWhile is_tool (ms @ ys) = ms"
  "list_all is_tool ms \<Longrightarrow> ys = [] \<or> \<not> is_tool (hd ys) \<Longrightarrow> dropWhile is_tool (ms @ ys) = ys"
  by (induction ms) (auto intro: list.exhaust [of ys])

lemma tools_span_mixed:
  "\<not> list_all is_tool ms \<Longrightarrow> takeWhile is_tool (ms @ ys) = takeWhile is_tool ms"
  "\<not> list_all is_tool ms \<Longrightarrow> dropWhile is_tool (ms @ ys) = dropWhile is_tool ms @ ys"
  by (induction ms) auto

lemma group_append:
  "ys = [] \<or> \<not> is_tool (hd ys) \<Longrightarrow> group_messages we (xs @ ys) = group_messages we xs @ group_messages we ys"
proof (induction we xs rule: group_messages.induct)
  case (4 we i n c im ms)
  then show ?case by (cases "list_all is_tool ms") (simp_all add: tools_span tools_span_mixed)
qed simp_all

lemma image_ids [simp]:
  "filter (\<lambda>b. json_get ''type'' b = JStr ''tool_use'') (map (anthropic_image we) ims) = []"
  "filter (\<lambda>b. json_get ''type'' b = JStr ''tool_result'') (map (anthropic_image we) ims) = []"
  by (induction ims) (auto simp: anthropic_image_def)

lemma user_ids: "turn_ids (role_message ''user'' (anthropic_content we c ims)) = ([], [])"
  by (simp add: turn_ids_def tool_use_ids_def tool_result_ids_def anthropic_content_def text_block_def)

definition assistant_json :: "wire_env \<Rightarrow> string \<Rightarrow> tool_call list \<Rightarrow> json" where
  "assistant_json we c calls = role_message ''assistant''
     (JArr ((if c \<noteq> [] then [text_block c] else []) @ map (tool_use_block we) calls))"

lemma assistant_ids: "turn_ids (assistant_json we c calls) = (map (\<lambda>tc. JStr (tc_call_id tc)) calls, [])"
proof -
  have "map (json_get ''id'') (filter (\<lambda>b. json_get ''type'' b = JStr ''tool_use'') (map (tool_use_block we) calls))
      = map (\<lambda>tc. JStr (tc_call_id tc)) calls"
    "filter (\<lambda>b. json_get ''type'' b = JStr ''tool_result'') (map (tool_use_block we) calls) = []"
    by (induction calls) (simp_all add: tool_use_block_def)
  then show ?thesis
    by (simp add: assistant_json_def turn_ids_def tool_use_ids_def tool_result_ids_def text_block_def)
qed

lemma results_ids:
  "list_all2 answers calls tools \<Longrightarrow>
     turn_ids (role_message ''user'' (JArr (map (result_of we) tools))) = ([], map (\<lambda>tc. JStr (tc_call_id tc)) calls)"
proof (induction rule: list_all2_induct)
  case (Cons tc calls m tools)
  then show ?case
    by (cases m) (auto simp: turn_ids_def tool_use_ids_def tool_result_ids_def answers_def tool_result_block_def)
qed (simp add: turn_ids_def tool_use_ids_def tool_result_ids_def)

lemma answers_tools: "list_all2 answers calls tools \<Longrightarrow> list_all is_tool tools"
proof (induction rule: list_all2_induct)
  case (Cons tc calls m tools)
  then show ?case by (cases m) (simp_all add: answers_def)
qed simp

lemma group_assistant:
  assumes "list_all is_tool tools"
  shows "group_messages we (Assistant c calls # tools)
    = assistant_json we c calls # (if tools = [] then [] else [role_message ''user'' (JArr (map (result_of we) tools))])"
proof -
  have single: "group_messages we tools = [role_message ''user'' (JArr (map (result_of we) tools))]" if nonempty: "tools \<noteq> []"
  proof -
    obtain m ms where ms: "tools = m # ms" using nonempty by (cases tools) auto
    then have "is_tool m" and rest: "list_all is_tool ms" using assms by simp_all
    then obtain i n c im where "m = Tool i n c im" by (cases m) auto
    then show ?thesis by (simp add: ms tools_span [OF rest])
  qed
  have "group_messages we (Assistant c calls # tools) = assistant_json we c calls # group_messages we tools"
    by (simp only: group_messages.simps assistant_json_def)
  then show ?thesis using single by (cases "tools = []") (simp_all del: group_messages.simps(3))
qed

lemma role_msg_roles [simp]: "role_msg (assistant_json we c calls)" "role_msg (role_message ''user'' (JArr vs))"
    "role_msg (role_message ''user'' (anthropic_content we c ims))" "msg_role (assistant_json we c calls) = JStr ''assistant''"
  by (simp_all add: assistant_json_def anthropic_content_def role_msg.intros)

lemma wf_chat_answered: "wf_chat ms \<Longrightarrow> uses_open [] (merge_roles (group_messages we ms))"
proof (induction rule: wf_chat.induct)
  case empty
  then show ?case by (simp add: merge_roles_def uses_open_def)
next
  case (user ms c images)
  then show ?case
    by (simp add: group_append merge_roles_snoc merge_uses user_ids)
next
  case (assistant ms calls tools c)
  let ?a = "assistant_json we c calls" and ?merged = "merge_roles (group_messages we ms)"
  let ?ids = "map (\<lambda>tc. JStr (tc_call_id tc)) calls"
  have a: "uses_open ?ids (merge_message ?merged ?a)" by (rule merge_uses [OF assistant.IH]) (simp_all add: assistant_ids)
  have grouped: "group_messages we (ms @ Assistant c calls # tools)
      = (group_messages we ms @ [?a]) @ (if tools = [] then [] else [role_message ''user'' (JArr (map (result_of we) tools))])"
    by (simp add: group_append group_assistant [OF answers_tools [OF assistant.hyps(2)]] del: group_messages.simps(3))
  show ?case
  proof (cases "tools = []")
    case True
    then have "calls = []" using assistant.hyps(2) by simp
    then show ?thesis unfolding grouped using a True by (simp add: merge_roles_snoc)
  next
    case False
    have "uses_open [] (merge_message (merge_message ?merged ?a) (role_message ''user'' (JArr (map (result_of we) tools))))"
    proof (rule merge_results [OF a])
      show "turn_ids (role_message ''user'' (JArr (map (result_of we) tools))) = ([], ?ids)" by (rule results_ids [OF assistant.hyps(2)])
      have "list_all role_msg ?merged" using assistant.IH by (simp add: uses_open_def)
      then show "msg_role (last (merge_message ?merged ?a)) \<noteq> msg_role (role_message ''user'' (JArr (map (result_of we) tools)))"
        by (simp add: merge_last_role)
    qed simp_all
    then show ?thesis using False unfolding grouped by (simp only: if_False merge_roles_snoc)
  qed
qed

text \<open>(C6) Every tool use of a request is answered in the next message: for a well-formed conversation
  each message of the Anthropic request that uses tools is followed by one whose tool results
  are exactly those of the uses, in order, with and without cache marks.\<close>

theorem anthropic_uses_answered:
  assumes "wf_chat ms"
  shows "answered_turns (messages_to_anthropic we ms caching)"
proof -
  have "map turn_ids (messages_to_anthropic we ms caching) = map turn_ids (merge_roles (group_messages we ms))"
    by (rule anthropic_keeps) (simp add: turn_ids_def mark_message_keeps)
  moreover have "answered_turns (merge_roles (group_messages we ms))"
    using wf_chat_answered [OF assms, of we] answered_iff [OF merge_role_msgs [OF group_role_msgs]] by simp
  ultimately show ?thesis by (simp add: answered_turns_def)
qed

definition plain_wire :: wire_env where
  "plain_wire = \<lparr>we_base64 = (\<lambda>b. b), we_parse = (\<lambda>_. None), we_print = (\<lambda>_. [])\<rparr>"

definition demo_tool_call :: "string \<Rightarrow> tool_call" where
  "demo_tool_call i = \<lparr>tc_call_id = i, tc_name = ''image_read'', tc_args_json = ''{}''\<rparr>"

text \<open>A well-formed conversation: two images are read in one turn.\<close>

definition demo_chat :: "message list" where
  "demo_chat = [User ''go'' [], Assistant [] [demo_tool_call ''1'', demo_tool_call ''2''],
     Tool ''1'' ''image_read'' ''a'' [(''png'', ''image/png'')], Tool ''2'' ''image_read'' ''b'' [(''png'', ''image/png'')]]"

lemma demo_chat_wf: "wf_chat demo_chat"
proof -
  have "wf_chat ([User ''go'' []] @ Assistant [] [demo_tool_call ''1'', demo_tool_call ''2'']
     # [Tool ''1'' ''image_read'' ''a'' [(''png'', ''image/png'')], Tool ''2'' ''image_read'' ''b'' [(''png'', ''image/png'')]])"
    using wf_chat.user [OF wf_chat.empty]
    by (intro wf_chat.assistant) (simp_all add: answers_def demo_tool_call_def)
  then show ?thesis by (simp add: demo_chat_def)
qed

theorem anthropic_uses_answered_witness:
  "answered_turns (messages_to_anthropic plain_wire demo_chat True)"
  by (rule anthropic_uses_answered [OF demo_chat_wf])

section \<open>Chat Completions\<close>

definition call_ids :: "json \<Rightarrow> json list" where
  "call_ids m = (case json_get ''tool_calls'' m of JArr vs \<Rightarrow> map (json_get ''id'') vs | _ \<Rightarrow> [])"

text \<open>The rule of the API: the calls of an assistant message are answered by the tool messages right
  behind it.\<close>

fun calls_answered :: "json list \<Rightarrow> bool" where
  "calls_answered [] = True"
| "calls_answered (m # ms) =
     (map (\<lambda>t. (json_get ''role'' t, json_get ''tool_call_id'' t)) (take (length (call_ids m)) ms)
        = map (\<lambda>i. (JStr ''tool'', i)) (call_ids m)
      \<and> calls_answered ms)"

fun has_images :: "message \<Rightarrow> bool" where
  "has_images (Tool _ _ _ images) = (images \<noteq> [])"
| "has_images _ = False"

lemma calls_answered_append: "calls_answered xs \<Longrightarrow> calls_answered ys \<Longrightarrow> calls_answered (xs @ ys)"
proof (induction xs)
  case (Cons x xs)
  have "length (call_ids x) \<le> length xs"
    using arg_cong [OF conjunct1 [OF Cons.prems(1) [unfolded calls_answered.simps]], of length] by simp
  then show ?case using Cons by simp
qed simp

lemma call_ids_plain [simp]: "call_ids (role_message r c) = []"
  by (simp add: call_ids_def role_message_def)

lemma tool_items:
  "list_all2 answers calls tools \<Longrightarrow> list_all (\<lambda>m. \<not> has_images m) tools \<Longrightarrow>
     map (\<lambda>t. (json_get ''role'' t, json_get ''tool_call_id'' t)) (concat (map (chat_items we) tools))
       = map (\<lambda>tc. (JStr ''tool'', JStr (tc_call_id tc))) calls
     \<and> list_all (\<lambda>m. call_ids m = []) (concat (map (chat_items we) tools))
     \<and> length (concat (map (chat_items we) tools)) = length calls"
proof (induction rule: list_all2_induct)
  case (Cons tc calls m tools)
  then show ?case by (cases m) (auto simp: answers_def visual_note_def call_ids_def)
qed simp

lemma calls_answered_silent: "list_all (\<lambda>m. call_ids m = []) ms \<Longrightarrow> calls_answered ms"
  by (induction ms) auto

lemma assistant_call_ids:
  "\<exists>m. chat_items we (Assistant c calls) = [m] \<and> call_ids m = map (\<lambda>tc. JStr (tc_call_id tc)) calls"
  by (auto simp: call_ids_def role_message_def chat_call_def)

text \<open>Chat Completions requests answer their calls when no tool result carries an image: then, for
  a well-formed conversation, every assistant message with calls is followed at once by the tool
  messages of exactly these calls, in order.\<close>

theorem chat_calls_answered:
  assumes "wf_chat ms" and "list_all (\<lambda>m. \<not> has_images m) ms"
  shows "calls_answered (chat_completions we system ms)"
proof -
  have "calls_answered (concat (map (chat_items we) ms))"
    using assms
  proof (induction rule: wf_chat.induct)
    case (user ms c images)
    then show ?case by (simp add: calls_answered_append)
  next
    case (assistant ms calls tools c)
    obtain m where m: "chat_items we (Assistant c calls) = [m]" "call_ids m = map (\<lambda>tc. JStr (tc_call_id tc)) calls"
      using assistant_call_ids [of we c calls] by blast
    have "list_all (\<lambda>m. \<not> has_images m) tools" using assistant.prems by simp
    note items = tool_items [OF assistant.hyps(2) this, of we]
    have "calls_answered (m # concat (map (chat_items we) tools))"
      using items calls_answered_silent by (simp add: m(2) comp_def)
    then have "calls_answered (concat (map (chat_items we) ms) @ m # concat (map (chat_items we) tools))"
      using assistant by (intro calls_answered_append) auto
    then show ?case using m(1) by (simp del: chat_items.simps)
  qed simp
  then show ?thesis by (simp add: chat_completions_def)
qed

theorem chat_calls_answered_witness:
  "calls_answered (chat_completions plain_wire [] (map (\<lambda>m. case m of Tool i n c _ \<Rightarrow> Tool i n c [] | _ \<Rightarrow> m) demo_chat))"
proof (rule chat_calls_answered)
  have "wf_chat ([User ''go'' []] @ Assistant [] [demo_tool_call ''1'', demo_tool_call ''2'']
     # [Tool ''1'' ''image_read'' ''a'' [], Tool ''2'' ''image_read'' ''b'' []])"
    using wf_chat.user [OF wf_chat.empty] by (intro wf_chat.assistant) (simp_all add: answers_def demo_tool_call_def)
  then show "wf_chat (map (\<lambda>m. case m of Tool i n c _ \<Rightarrow> Tool i n c [] | _ \<Rightarrow> m) demo_chat)" by (simp add: demo_chat_def)
qed (simp add: demo_chat_def)

text \<open>An image result breaks the rule of the Chat Completions API: when two calls of one turn give
  images, the user message that carries the first image stands between the two tool messages, so
  the second call is not answered behind its assistant message.\<close>

theorem chat_images_split_results:
  "wf_chat demo_chat \<and> \<not> calls_answered (chat_completions plain_wire [] demo_chat)"
proof
  show "\<not> calls_answered (chat_completions plain_wire [] demo_chat)"
    by (simp add: demo_chat_def demo_tool_call_def chat_completions_def visual_note_def call_ids_def role_message_def chat_call_def)
qed (rule demo_chat_wf)

end
