(* ===== verification/Provider_Stream.thy ===== *)
theory Provider_Stream
  imports Agent_Loop
begin

text \<open>
  The streamed answers of the model providers (\<open>agent_loop/\{anthropic,openrouter,openai_compatible,openai\}.rs\<close>):
  decoding chunks, splitting lines of server-sent events, and the events of each provider as
  \<open>TurnEvent\<close>s.

  A response is what its stream gives: chunks of bytes, a transport error or a time-out; the end of
  the list is the clean end of the stream.  The JSON parser and printer, the text of a parse error and the order in which a
  hash map gives its entries are the record \<open>stream_env\<close>.
\<close>

section \<open>Decoding\<close>

text \<open>\<open>String::from_utf8_lossy\<close>: a maximal prefix of a valid sequence becomes one replacement character.\<close>

fun matched :: "(nat \<times> nat) list \<Rightarrow> string \<Rightarrow> nat" where
  "matched [] s = 0"
| "matched (r # rs) [] = 0"
| "matched ((lo, hi) # rs) (c # cs) = (if lo \<le> of_char c \<and> of_char c \<le> hi then Suc (matched rs cs) else 0)"

definition replacement :: string where
  "replacement = [CHR 0xEF, CHR 0xBF, CHR 0xBD]"

function from_utf8_lossy :: "string \<Rightarrow> string" where
  "from_utf8_lossy [] = []"
| "from_utf8_lossy (c # cs) =
     (case utf8_tail (of_char c) of
        None \<Rightarrow> replacement @ from_utf8_lossy cs
      | Some rs \<Rightarrow>
          (let n = matched rs cs in
           (if n = length rs then c # take n cs else replacement) @ from_utf8_lossy (drop n cs)))"
  by pat_completeness auto
termination by (relation "measure length") auto

section \<open>Lines\<close>

datatype stream_item = Chunk string | ChunkError string | IdleTimeout

text \<open>The first complete line of the buffer without its carriage returns, and what is behind it.\<close>

definition trim_cr :: "string \<Rightarrow> string" where
  "trim_cr s = rev (dropWhile (\<lambda>c. c = CHR 0x0D) (rev s))"

definition next_line :: "string \<Rightarrow> (string \<times> string) option" where
  "next_line buf = map_option (\<lambda>(line, rest). (trim_cr line, rest)) (split_once newline buf)"

lemma next_line_shorter: "next_line buf = Some (line, rest) \<Longrightarrow> length rest < length buf"
proof -
  have "split_once c s = Some (a, b) \<Longrightarrow> length b < length s" for c s a b
    by (induction s arbitrary: a) (auto split: if_splits option.splits)
  then show "next_line buf = Some (line, rest) \<Longrightarrow> length rest < length buf" by (auto simp: next_line_def)
qed

section \<open>Readings of JSON\<close>

definition json_u64 :: "json \<Rightarrow> nat option" where
  "json_u64 v =
     (case v of JNum s \<Rightarrow> if s \<noteq> [] \<and> list_all is_digit s \<and> digits_val s < 2 ^ 64 then Some (digits_val s) else None
      | _ \<Rightarrow> None)"

definition u64_or_zero :: "json \<Rightarrow> nat" where
  "u64_or_zero v = (case json_u64 v of Some n \<Rightarrow> n | None \<Rightarrow> 0)"

definition str_or :: "string \<Rightarrow> json \<Rightarrow> string" where
  "str_or d v = (case json_str v of Some s \<Rightarrow> s | None \<Rightarrow> d)"

definition is_object :: "json \<Rightarrow> bool" where
  "is_object v = (case v of JObj _ \<Rightarrow> True | _ \<Rightarrow> False)"

record stream_env =
  se_parse :: "string \<Rightarrow> json option"
  se_print :: "json \<Rightarrow> string"
  se_parse_error :: "string \<Rightarrow> string"
  se_order :: "(nat \<times> string \<times> string \<times> string) list \<Rightarrow> (nat \<times> string \<times> string \<times> string) list"

type_synonym slots = "(nat \<times> string \<times> string \<times> string) list"

definition slot_insert :: "nat \<Rightarrow> string \<times> string \<times> string \<Rightarrow> slots \<Rightarrow> slots" where
  "slot_insert i v slots = filter (\<lambda>s. fst s \<noteq> i) slots @ [(i, v)]"

definition slot_update :: "nat \<Rightarrow> (string \<times> string \<times> string \<Rightarrow> string \<times> string \<times> string) \<Rightarrow> slots \<Rightarrow> slots" where
  "slot_update i f slots = map (\<lambda>(j, v). (j, if j = i then f v else v)) slots"

text \<open>What a reader has sent and gathered so far.\<close>

record stream_state =
  st_sent :: "turn_event list"
  st_text :: string
  st_usage :: usage
  st_slots :: slots

definition stream_init :: stream_state where
  "stream_init = \<lparr>st_sent = [], st_text = [], st_usage = usage_default, st_slots = []\<rparr>"

definition send :: "turn_event \<Rightarrow> stream_state \<Rightarrow> stream_state" where
  "send e s = s\<lparr>st_sent := st_sent s @ [e]\<rparr>"

definition slot_event :: "nat \<times> string \<times> string \<times> string \<Rightarrow> turn_event list" where
  "slot_event s =
     (case s of (_, call_id, name, args) \<Rightarrow>
        if name \<noteq> [] then [ToolCallComplete \<lparr>tc_call_id = call_id, tc_name = name, tc_args_json = args\<rparr>] else [])"

definition flush_pending_turn :: "stream_env \<Rightarrow> stream_state \<Rightarrow> stream_state" where
  "flush_pending_turn se s =
     s\<lparr>st_sent := st_sent s @ concat (map slot_event (se_order se (st_slots s))) @ [TurnEnd (st_text s) (st_usage s)],
       st_slots := []\<rparr>"

section \<open>Chat Completions streams\<close>

text \<open>OpenRouter and the registered providers differ in their error texts and in the cache counters.\<close>

record chat_dialect =
  cd_error :: "string \<Rightarrow> string"
  cd_timeout :: string
  cd_cache_details :: bool

definition stream_idle_timeout_secs :: nat where
  "stream_idle_timeout_secs = 90"

definition openrouter_dialect :: chat_dialect where
  "openrouter_dialect =
     \<lparr>cd_error = (\<lambda>msg. ''OpenRouter API stream error: '' @ msg),
      cd_timeout = ''OpenRouter SSE stream timed out: no data for '' @ show_nat stream_idle_timeout_secs @ ''s'',
      cd_cache_details = True\<rparr>"

definition compatible_dialect :: "string \<Rightarrow> chat_dialect" where
  "compatible_dialect provider_id =
     \<lparr>cd_error = (\<lambda>msg. ''Provider '' @ [CHR 0x27] @ provider_id @ [CHR 0x27] @ '' stream error: '' @ msg),
      cd_timeout = ''Provider '' @ [CHR 0x27] @ provider_id @ [CHR 0x27] @ '' SSE stream timed out: no data for ''
        @ show_nat stream_idle_timeout_secs @ ''s'',
      cd_cache_details = False\<rparr>"

definition chat_usage :: "chat_dialect \<Rightarrow> json \<Rightarrow> usage \<Rightarrow> usage" where
  "chat_usage cd val u =
     (let v = json_get ''usage'' val in
      if is_object v then
        (let u1 = u\<lparr>us_input_tokens := of_nat (u64_or_zero (json_get ''prompt_tokens'' v)),
                   us_output_tokens := of_nat (u64_or_zero (json_get ''completion_tokens'' v))\<rparr>;
             details = json_get ''prompt_tokens_details'' v
         in if cd_cache_details cd \<and> is_object details
            then (let u2 = (case json_u64 (json_get ''cached_tokens'' details) of
                              Some n \<Rightarrow> u1\<lparr>us_cache_read_tokens := of_nat n\<rparr> | None \<Rightarrow> u1)
                  in case json_u64 (json_get ''cache_write_tokens'' details) of
                       Some n \<Rightarrow> u2\<lparr>us_cache_write_tokens := of_nat n\<rparr> | None \<Rightarrow> u2)
            else u1)
      else u)"

definition chat_tool_delta :: "json \<Rightarrow> slots \<Rightarrow> slots" where
  "chat_tool_delta tc slots =
     (let idx = u64_or_zero (json_get ''index'' tc);
          name = json_get ''name'' (json_get ''function'' tc);
          args = json_get ''arguments'' (json_get ''function'' tc)
      in case json_str (json_get ''id'' tc) of
           Some call_id \<Rightarrow> slot_insert idx (call_id, str_or [] name, str_or [] args) slots
         | None \<Rightarrow>
             slot_update idx (\<lambda>(c, n, a).
               (c, if str_or [] name \<noteq> [] \<and> n = [] then str_or [] name else n, a @ str_or [] args)) slots)"

definition first_choice :: "json \<Rightarrow> json option" where
  "first_choice val = (case json_get ''choices'' val of JArr (c # _) \<Rightarrow> Some c | _ \<Rightarrow> None)"

definition chat_delta :: "json \<Rightarrow> stream_state \<Rightarrow> stream_state" where
  "chat_delta delta s =
     (let content = str_or [] (json_get ''content'' delta);
          s1 = (if content \<noteq> [] then send (TextDelta content) (s\<lparr>st_text := st_text s @ content\<rparr>) else s)
      in case json_get ''tool_calls'' delta of
           JArr tcs \<Rightarrow> s1\<lparr>st_slots := foldl (\<lambda>slots tc. chat_tool_delta tc slots) (st_slots s1) tcs\<rparr>
         | _ \<Rightarrow> s1)"

text \<open>What a reader makes of a line: it goes on, it goes on with the next chunk, or it is done.\<close>

datatype ('s, 'r) line_result = Reading 's | Paused 's | Finished 'r

type_synonym turn_result = "turn_event list \<times> (string + usage)"

definition chat_value :: "stream_env \<Rightarrow> chat_dialect \<Rightarrow> json \<Rightarrow> stream_state \<Rightarrow> (stream_state, turn_result) line_result" where
  "chat_value se cd val s =
     (case json_member ''error'' val of
        Some err \<Rightarrow>
          (let message = cd_error cd (case json_str (json_get ''message'' err) of Some m \<Rightarrow> m
                 | None \<Rightarrow> (case json_str err of Some m \<Rightarrow> m | None \<Rightarrow> ''unknown error''))
           in Finished (st_sent s @ [TurnError message], Inl message))
      | None \<Rightarrow>
          (let s1 = s\<lparr>st_usage := chat_usage cd val (st_usage s)\<rparr> in
           case first_choice val of
             None \<Rightarrow> Reading s1
           | Some choice \<Rightarrow>
               (let s2 = (case (case json_member ''delta'' choice of Some d \<Rightarrow> Some d | None \<Rightarrow> json_member ''message'' choice) of
                            Some d \<Rightarrow> chat_delta d s1 | None \<Rightarrow> s1)
                in if json_get ''finish_reason'' choice \<noteq> JNull then Reading (flush_pending_turn se s2) else Reading s2)))"

definition chat_line :: "stream_env \<Rightarrow> chat_dialect \<Rightarrow> string \<Rightarrow> stream_state \<Rightarrow> (stream_state, turn_result) line_result" where
  "chat_line se cd line s =
     (case strip_prefix ''data: '' line of
        None \<Rightarrow> Reading s
      | Some data \<Rightarrow>
          if data = ''[DONE]'' then (let s' = flush_pending_turn se s in Finished (st_sent s', Inr (st_usage s')))
          else (case se_parse se data of None \<Rightarrow> Reading s | Some val \<Rightarrow> chat_value se cd val s))"

text \<open>All complete lines of the buffer, until one ends the reading.\<close>

function drain_lines ::
  "(string \<Rightarrow> 's \<Rightarrow> ('s, 'r) line_result) \<Rightarrow> string \<Rightarrow> 's \<Rightarrow> string \<times> ('s, 'r) line_result" where
  "drain_lines f buf s =
     (case next_line buf of
        None \<Rightarrow> (buf, Reading s)
      | Some (line, rest) \<Rightarrow>
          (case f line s of
             Reading s' \<Rightarrow> drain_lines f rest s'
           | Paused s' \<Rightarrow> (rest, Paused s')
           | Finished r \<Rightarrow> (rest, Finished r)))"
  by pat_completeness auto
termination by (relation "measure (\<lambda>(f, buf, s). length buf)") (auto dest: next_line_shorter)

declare drain_lines.simps [simp del]

fun chat_read ::
  "stream_env \<Rightarrow> chat_dialect \<Rightarrow> string \<Rightarrow> stream_state \<Rightarrow> stream_item list \<Rightarrow> turn_result" where
  "chat_read se cd buf s [] = (let s' = flush_pending_turn se s in (st_sent s', Inr (st_usage s')))"
| "chat_read se cd buf s (Chunk bytes # items) =
     (case drain_lines (chat_line se cd) (buf @ from_utf8_lossy bytes) s of
        (buf', Reading s') \<Rightarrow> chat_read se cd buf' s' items
      | (buf', Paused s') \<Rightarrow> chat_read se cd buf' s' items
      | (_, Finished r) \<Rightarrow> r)"
| "chat_read se cd buf s (ChunkError e # items) = (st_sent s, Inl e)"
| "chat_read se cd buf s (IdleTimeout # items) = (st_sent s, Inl (cd_timeout cd))"

definition chat_stream :: "stream_env \<Rightarrow> chat_dialect \<Rightarrow> stream_item list \<Rightarrow> turn_result" where
  "chat_stream se cd items = chat_read se cd [] stream_init items"

definition openrouter_stream :: "stream_env \<Rightarrow> stream_item list \<Rightarrow> turn_result" where
  "openrouter_stream se items = chat_stream se openrouter_dialect items"

definition compatible_stream :: "stream_env \<Rightarrow> string \<Rightarrow> stream_item list \<Rightarrow> turn_result" where
  "compatible_stream se provider_id items = chat_stream se (compatible_dialect provider_id) items"

end
