(* ===== verification/Provider_Registry.thy ===== *)
theory Provider_Registry
  imports Encoding Interfaces "HOL-Library.List_Lexorder" "HOL-Library.Char_ord"
begin

text \<open>
  The registry of model providers added at run time (\<open>provider_registry.rs\<close>): a sorted list of
  entries in one file, keyed by a normalised id.

  The file is its text if it exists; the codec of the entries and the atomic write are the record
  \<open>provider_env\<close>.
\<close>

record provider_entry =
  pe_id :: string
  pe_transport :: string
  pe_base_url :: string
  pe_api_key_env :: string
  pe_models :: "string list"
  pe_registered_at :: string

record provider_env =
  print_providers :: "provider_entry list \<Rightarrow> string"
  parse_providers :: "string \<Rightarrow> provider_entry list option"
  providers_write_error :: "string option"

datatype provider_failure =
    InvalidProviderId
  | TransportRequired
  | BaseUrlRequired
  | ApiKeyEnvRequired
  | ProvidersUnreadable
  | ProvidersBadJson
  | ProvidersWriteFailed string

definition id_char :: "char \<Rightarrow> bool" where
  "id_char c \<longleftrightarrow> is_lower c \<or> is_digit c \<or> c = CHR ''-'' \<or> c = CHR ''_''"

definition normalize_provider_id :: "string \<Rightarrow> string option" where
  "normalize_provider_id i =
     (let n = to_ascii_lower (trim i) in if n = [] \<or> \<not> list_all id_char n then None else Some n)"

definition load_providers :: "provider_env \<Rightarrow> string option \<Rightarrow> provider_failure + provider_entry list" where
  "load_providers env file =
     (case file of
        None \<Rightarrow> Inr []
      | Some s \<Rightarrow> if \<not> utf8_ok s then Inl ProvidersUnreadable
          else (case parse_providers env s of None \<Rightarrow> Inl ProvidersBadJson | Some es \<Rightarrow> Inr es))"

definition save_providers ::
  "provider_env \<Rightarrow> provider_entry list \<Rightarrow> string option \<Rightarrow> (provider_failure + unit) \<times> string option" where
  "save_providers env es file =
     (case providers_write_error env of
        Some e \<Rightarrow> (Inl (ProvidersWriteFailed e), file)
      | None \<Rightarrow> (Inr (), Some (print_providers env es)))"

definition put_provider :: "provider_entry list \<Rightarrow> provider_entry \<Rightarrow> provider_entry list" where
  "put_provider es e = sort_key pe_id (filter (\<lambda>x. pe_id x \<noteq> pe_id e) es @ [e])"

definition drop_provider :: "provider_entry list \<Rightarrow> string \<Rightarrow> provider_entry list" where
  "drop_provider es i = filter (\<lambda>x. pe_id x \<noteq> i) es"

text \<open>The entry as it is stored.\<close>

definition checked_entry :: "provider_entry \<Rightarrow> provider_failure + provider_entry" where
  "checked_entry e =
     (case normalize_provider_id (pe_id e) of
        None \<Rightarrow> Inl InvalidProviderId
      | Some i \<Rightarrow>
          if trim (pe_transport e) = [] then Inl TransportRequired
          else if trim (pe_base_url e) = [] then Inl BaseUrlRequired
          else if trim (pe_api_key_env e) = [] then Inl ApiKeyEnvRequired
          else Inr (e\<lparr>pe_id := i, pe_models := filter (\<lambda>m. trim m \<noteq> []) (pe_models e)\<rparr>))"

definition register_provider ::
  "provider_env \<Rightarrow> provider_entry \<Rightarrow> string option \<Rightarrow> (provider_failure + unit) \<times> string option" where
  "register_provider env e file =
     (case checked_entry e of
        Inl err \<Rightarrow> (Inl err, file)
      | Inr e' \<Rightarrow>
          (case load_providers env file of
             Inl err \<Rightarrow> (Inl err, file)
           | Inr es \<Rightarrow> save_providers env (put_provider es e') file))"

definition unregister_provider ::
  "provider_env \<Rightarrow> string \<Rightarrow> string option \<Rightarrow> (provider_failure + unit) \<times> string option" where
  "unregister_provider env i file =
     (case normalize_provider_id i of
        None \<Rightarrow> (Inl InvalidProviderId, file)
      | Some n \<Rightarrow>
          (case load_providers env file of
             Inl err \<Rightarrow> (Inl err, file)
           | Inr es \<Rightarrow> save_providers env (drop_provider es n) file))"

definition get_provider :: "provider_env \<Rightarrow> string \<Rightarrow> string option \<Rightarrow> provider_failure + provider_entry option" where
  "get_provider env i file =
     (case normalize_provider_id i of
        None \<Rightarrow> Inr None
      | Some n \<Rightarrow> bind_res (load_providers env file) (\<lambda>es. Inr (lookup_by pe_id es n)))"

text \<open>The two lookups that swallow errors; \<open>None\<close>: there is no home directory.\<close>

definition load_registered_providers :: "provider_env \<Rightarrow> string option option \<Rightarrow> provider_entry list" where
  "load_registered_providers env home =
     (case home of None \<Rightarrow> [] | Some file \<Rightarrow> (case load_providers env file of Inr es \<Rightarrow> es | Inl _ \<Rightarrow> []))"

definition find_registered_provider :: "provider_env \<Rightarrow> string \<Rightarrow> string option option \<Rightarrow> provider_entry option" where
  "find_registered_provider env i home =
     (case home of None \<Rightarrow> None | Some file \<Rightarrow> (case get_provider env i file of Inr e \<Rightarrow> e | Inl _ \<Rightarrow> None))"

section \<open>The table\<close>

interpretation providers: keyed_table pe_id put_provider drop_provider
proof
  fix es e k
  show "lookup_by pe_id (put_provider es e) k = (if k = pe_id e then Some e else lookup_by pe_id es k)"
    unfolding put_provider_def lookup_by_sorted lookup_by_append lookup_by_filter_neq
    by (auto simp: lookup_by_def split: option.split)
  show "distinct (map pe_id (put_provider es e))" if "distinct (map pe_id es)"
    using that unfolding put_provider_def
    by (auto simp: distinct_map inj_on_def)
qed (auto simp: drop_provider_def lookup_by_filter_neq distinct_map_filter)

lemma put_provider_sorted: "sorted (map pe_id (put_provider es e))"
  by (simp add: put_provider_def)

lemma drop_provider_sorted: "sorted (map pe_id es) \<Longrightarrow> sorted (map pe_id (drop_provider es i))"
  by (simp add: drop_provider_def sorted_filter)

section \<open>Ids\<close>

lemma id_char_lower: "id_char c \<Longrightarrow> lower_char c = c"
  by (auto simp: id_char_def lower_char_def is_lower_def is_upper_def is_digit_def Let_def)

lemma lower_ids: "list_all id_char s \<Longrightarrow> to_ascii_lower s = s"
  by (induction s) (simp_all add: to_ascii_lower_def id_char_lower)


lemma no_space_in_id: "w \<in> set space_seqs \<Longrightarrow> \<not> list_all id_char w"
  by (auto simp: space_seqs_def ascii_space_def unicode_space_def id_char_def is_lower_def is_digit_def)

lemma trim_ids: "list_all id_char s \<Longrightarrow> trim s = s"
  by (rule trim_id; unfold space_at_None space_before_None)
    (metis (no_types) no_space_in_id list_all_iff set_mono_prefix set_mono_suffix subsetD)+

lemma normalize_idempotent: "normalize_provider_id i = Some n \<Longrightarrow> normalize_provider_id n = Some n"
  by (auto simp: normalize_provider_id_def Let_def trim_ids lower_ids split: if_splits)

lemma checked_entry_id: "checked_entry e = Inr e' \<Longrightarrow> normalize_provider_id (pe_id e) = Some (pe_id e')"
  by (auto simp: checked_entry_def split: option.splits if_splits)

section \<open>The registry\<close>

text \<open>The codec reads back what was written.\<close>

definition providers_read_back :: "provider_env \<Rightarrow> provider_entry list \<Rightarrow> bool" where
  "providers_read_back env es \<longleftrightarrow>
     utf8_ok (print_providers env es) \<and> parse_providers env (print_providers env es) = Some es"

text \<open>A registered provider is found under every spelling of its id, in place of what was
  registered under it before, and no other provider is touched.\<close>

theorem registered_provider_found:
  assumes "providers_write_error env = None" and "load_providers env f = Inr es"
    and "checked_entry e = Inr e'" and "providers_read_back env (put_provider es e')"
  shows "fst (register_provider env e f) = Inr () \<and> get_provider env i (snd (register_provider env e f)) =
       (if normalize_provider_id i = Some (pe_id e') then Inr (Some e') else get_provider env i f)"
proof -
  have saved: "register_provider env e f = (Inr (), Some (print_providers env (put_provider es e')))"
    using assms(1-3) by (simp add: register_provider_def save_providers_def)
  have "load_providers env (snd (register_provider env e f)) = Inr (put_provider es e')"
    using assms(4) by (simp add: saved load_providers_def providers_read_back_def)
  then show ?thesis
    using assms(2) saved by (auto simp: get_provider_def bind_res_def providers.lookup_put split: option.splits)
qed

definition demo_provider_env :: provider_env where
  "demo_provider_env = \<lparr>print_providers = (\<lambda>es. concat (map pe_id es)),
     parse_providers = (\<lambda>s. Some [\<lparr>pe_id = s, pe_transport = ''openai_chat'', pe_base_url = ''u'', pe_api_key_env = ''K'',
       pe_models = [], pe_registered_at = []\<rparr>]), providers_write_error = None\<rparr>"

definition demo_provider :: "string \<Rightarrow> provider_entry" where
  "demo_provider i = \<lparr>pe_id = i, pe_transport = ''openai_chat'', pe_base_url = ''u'', pe_api_key_env = ''K'',
     pe_models = [], pe_registered_at = []\<rparr>"

theorem registered_provider_found_witness:
  "get_provider demo_provider_env '' GROQ'' (snd (register_provider demo_provider_env (demo_provider ''Groq'') None))
     = Inr (Some (demo_provider ''groq''))"
proof -
  have n: "normalize_provider_id ''Groq'' = Some ''groq''" "normalize_provider_id '' GROQ'' = Some ''groq''" by code_simp+
  have t: "trim ''openai_chat'' = ''openai_chat''" "trim ''u'' = ''u''" "trim ''K'' = ''K''" by code_simp+
  have c: "checked_entry (demo_provider ''Groq'') = Inr (demo_provider ''groq'')"
    using n t by (simp add: checked_entry_def demo_provider_def)
  show ?thesis
    using registered_provider_found [of demo_provider_env None "[]" "demo_provider ''Groq''" "demo_provider ''groq''" "'' GROQ''"]
      c n by (simp add: demo_provider_env_def load_providers_def providers_read_back_def put_provider_def demo_provider_def
        utf8_ok_ascii is_ascii_def)
qed

end
