(* ===== verification/Provider_Events.thy ===== *)
theory Provider_Events
  imports Provider_Stream Provider_Wire Provider_Registry
begin

text \<open>
  The streamed turn of the Anthropic provider (\<open>agent_loop/anthropic.rs\<close>), and the whole turns of
  the providers that are asked over HTTP: request, error answers, retry without cache, and the
  events of the answer (\<open>anthropic.rs\<close>, \<open>openrouter.rs\<close>, \<open>openai_compatible.rs\<close>).

  The HTTP client is a function on a world \<open>'w\<close>; what it answers is the record \<open>http_response\<close>.
\<close>

section \<open>Anthropic events\<close>

datatype block_kind = NoBlock | TextBlock | ThinkingBlock | ToolUseBlock

record block_state =
  bs_kind :: block_kind
  bs_call_id :: string
  bs_name :: string
  bs_args_buf :: string
  bs_text_buf :: string

definition default_block :: block_state where
  "default_block = \<lparr>bs_kind = NoBlock, bs_call_id = [], bs_name = [], bs_args_buf = [], bs_text_buf = []\<rparr>"

text \<open>\<open>as_blocks\<close> is the map of open blocks; entries are only looked up, replaced and removed.\<close>

record anthropic_state =
  as_sent :: "turn_event list"
  as_text :: string
  as_usage :: usage
  as_blocks :: "nat \<rightharpoonup> block_state"
  as_ended :: bool

definition anthropic_init :: anthropic_state where
  "anthropic_init = \<lparr>as_sent = [], as_text = [], as_usage = usage_default, as_blocks = Map.empty, as_ended = False\<rparr>"

definition emit_event :: "turn_event \<Rightarrow> anthropic_state \<Rightarrow> anthropic_state" where
  "emit_event e s = s\<lparr>as_sent := as_sent s @ [e]\<rparr>"

definition input_usage :: "json \<Rightarrow> usage \<Rightarrow> usage" where
  "input_usage v u =
     u\<lparr>us_input_tokens := of_nat (u64_or_zero (json_get ''input_tokens'' v)),
       us_cache_read_tokens := of_nat (u64_or_zero (json_get ''cache_read_input_tokens'' v)),
       us_cache_write_tokens := of_nat (u64_or_zero (json_get ''cache_creation_input_tokens'' v))\<rparr>"

definition output_usage :: "json \<Rightarrow> usage \<Rightarrow> usage" where
  "output_usage v u = u\<lparr>us_output_tokens := of_nat (u64_or_zero (json_get ''output_tokens'' v))\<rparr>"

definition pointer2 :: "string \<Rightarrow> string \<Rightarrow> json \<Rightarrow> json option" where
  "pointer2 a b v = (case json_member a v of Some m \<Rightarrow> json_member b m | None \<Rightarrow> None)"

definition block_index :: "json \<Rightarrow> nat" where
  "block_index val = u64_or_zero (json_get ''index'' val)"

definition start_block :: "json \<Rightarrow> block_state" where
  "start_block cb =
     (let t = str_or [] (json_get ''type'' cb) in
      if t = ''text'' then default_block\<lparr>bs_kind := TextBlock\<rparr>
      else if t = ''thinking'' then default_block\<lparr>bs_kind := ThinkingBlock\<rparr>
      else if t = ''tool_use'' then default_block\<lparr>bs_kind := ToolUseBlock,
        bs_call_id := str_or [] (json_get ''id'' cb), bs_name := str_or [] (json_get ''name'' cb)\<rparr>
      else default_block)"

definition block_delta :: "nat \<Rightarrow> json \<Rightarrow> anthropic_state \<Rightarrow> anthropic_state" where
  "block_delta idx delta s =
     (case as_blocks s idx of
        None \<Rightarrow> s
      | Some b \<Rightarrow>
          (let t = str_or [] (json_get ''type'' delta) in
           if t = ''text_delta'' then
             (let content = str_or [] (json_get ''text'' delta) in
              emit_event (TextDelta content)
                (s\<lparr>as_blocks := (as_blocks s)(idx \<mapsto> b\<lparr>bs_text_buf := bs_text_buf b @ content\<rparr>),
                   as_text := as_text s @ content\<rparr>))
           else if t = ''thinking_delta'' then emit_event (ReasoningDelta (str_or [] (json_get ''thinking'' delta))) s
           else if t = ''input_json_delta'' then
             s\<lparr>as_blocks := (as_blocks s)(idx \<mapsto> b\<lparr>bs_args_buf := bs_args_buf b @ str_or [] (json_get ''partial_json'' delta)\<rparr>)\<rparr>
           else s))"

definition stop_block :: "nat \<Rightarrow> anthropic_state \<Rightarrow> anthropic_state" where
  "stop_block idx s =
     (case as_blocks s idx of
        None \<Rightarrow> s
      | Some b \<Rightarrow>
          (let s' = s\<lparr>as_blocks := (as_blocks s)(idx := None)\<rparr> in
           if bs_kind b = ToolUseBlock \<and> bs_name b \<noteq> []
           then emit_event (ToolCallComplete \<lparr>tc_call_id = bs_call_id b, tc_name = bs_name b, tc_args_json = bs_args_buf b\<rparr>) s'
           else s'))"

definition stream_error_text :: "json \<Rightarrow> string" where
  "stream_error_text val =
     ''Anthropic stream error ('' @ str_or ''unknown'' (json_get ''type'' (json_get ''error'' val)) @ ''): ''
     @ str_or ''Unknown error'' (json_get ''message'' (json_get ''error'' val))"

definition anthropic_event :: "json \<Rightarrow> anthropic_state \<Rightarrow> (anthropic_state, turn_result) line_result" where
  "anthropic_event val s =
     (let t = str_or [] (json_get ''type'' val) in
      if t = ''message_start'' then
        Reading (case pointer2 ''message'' ''usage'' val of
                   Some u \<Rightarrow> s\<lparr>as_usage := input_usage u (as_usage s)\<rparr> | None \<Rightarrow> s)
      else if t = ''content_block_start'' then
        Reading (s\<lparr>as_blocks := (as_blocks s)(block_index val \<mapsto> start_block (json_get ''content_block'' val))\<rparr>)
      else if t = ''content_block_delta'' then Reading (block_delta (block_index val) (json_get ''delta'' val) s)
      else if t = ''content_block_stop'' then Reading (stop_block (block_index val) s)
      else if t = ''message_delta'' then
        Reading (case json_member ''usage'' val of
                   Some u \<Rightarrow> s\<lparr>as_usage := output_usage u (as_usage s)\<rparr> | None \<Rightarrow> s)
      else if t = ''message_stop'' then
        Reading (emit_event (TurnEnd (as_text s) (as_usage s)) (s\<lparr>as_ended := True\<rparr>))
      else if t = ''error'' then Finished (as_sent s @ [TurnError (stream_error_text val)], Inl (stream_error_text val))
      else Reading s)"

text \<open>\<open>[DONE]\<close> leaves the rest of the buffer for the next chunk.\<close>

definition anthropic_line :: "stream_env \<Rightarrow> string \<Rightarrow> anthropic_state \<Rightarrow> (anthropic_state, turn_result) line_result" where
  "anthropic_line se line s =
     (case strip_prefix ''data: '' line of
        None \<Rightarrow> Reading s
      | Some data \<Rightarrow>
          if data = ''[DONE]'' then Paused s
          else (case se_parse se data of None \<Rightarrow> Reading s | Some val \<Rightarrow> anthropic_event val s))"

section \<open>Answers without a stream\<close>

definition payload_block :: "stream_env \<Rightarrow> json \<Rightarrow> turn_event list \<times> string" where
  "payload_block se block =
     (let t = str_or [] (json_get ''type'' block) in
      if t = ''text'' then
        (let content = str_or [] (json_get ''text'' block) in
         if content \<noteq> [] then ([TextDelta content], content) else ([], []))
      else if t = ''thinking'' then
        (let thinking = str_or [] (json_get ''thinking'' block) in
         if thinking \<noteq> [] then ([ReasoningDelta thinking], []) else ([], []))
      else if t = ''redacted_thinking'' then ([ReasoningDelta ''[Reasoning redacted]''], [])
      else if t = ''tool_use'' then
        ([ToolCallComplete \<lparr>tc_call_id = str_or [] (json_get ''id'' block), tc_name = str_or [] (json_get ''name'' block),
           tc_args_json = se_print se (json_get ''input'' block)\<rparr>], [])
      else ([], []))"

definition parse_json_payload_value :: "stream_env \<Rightarrow> json \<Rightarrow> turn_event list \<times> usage" where
  "parse_json_payload_value se payload =
     (let u = (case json_member ''usage'' payload of
                 Some v \<Rightarrow> output_usage v (input_usage v usage_default) | None \<Rightarrow> usage_default);
          parts = (case json_get ''content'' payload of JArr blocks \<Rightarrow> map (payload_block se) blocks | _ \<Rightarrow> [])
      in (concat (map fst parts) @ [TurnEnd (concat (map snd parts)) u], u))"

definition parse_json_payload :: "stream_env \<Rightarrow> string \<Rightarrow> turn_result" where
  "parse_json_payload se payload =
     (case se_parse se payload of
        None \<Rightarrow> ([], Inl (se_parse_error se payload))
      | Some v \<Rightarrow> (case parse_json_payload_value se v of (es, u) \<Rightarrow> (es, Inr u)))"

section \<open>The Anthropic stream\<close>

text \<open>The deadline of the whole stream passes between two reads, or while one waits.\<close>

datatype wall_item = Item stream_item | DeadlineBefore | DeadlineWaiting

definition stream_wall_timeout_secs :: nat where
  "stream_wall_timeout_secs = 300"

definition wall_text :: string where
  "wall_text = ''Anthropic SSE stream exceeded wall-clock limit of '' @ show_nat stream_wall_timeout_secs @ ''s''"

definition anthropic_end :: "stream_env \<Rightarrow> string \<Rightarrow> anthropic_state \<Rightarrow> turn_result" where
  "anthropic_end se raw s =
     (if \<not> as_ended s \<and> prefix ''{'' (trim raw)
      then (case parse_json_payload se (trim raw) of (es, r) \<Rightarrow> (as_sent s @ es, r))
      else (as_sent s, Inr (as_usage s)))"

fun anthropic_read :: "stream_env \<Rightarrow> string \<Rightarrow> string \<Rightarrow> anthropic_state \<Rightarrow> wall_item list \<Rightarrow> turn_result" where
  "anthropic_read se buf raw s [] = anthropic_end se raw s"
| "anthropic_read se buf raw s (Item (Chunk bytes) # items) =
     (case drain_lines (anthropic_line se) (buf @ from_utf8_lossy bytes) s of
        (buf', Reading s') \<Rightarrow> anthropic_read se buf' (raw @ from_utf8_lossy bytes) s' items
      | (buf', Paused s') \<Rightarrow> anthropic_read se buf' (raw @ from_utf8_lossy bytes) s' items
      | (_, Finished r) \<Rightarrow> r)"
| "anthropic_read se buf raw s (Item (ChunkError e) # items) = (as_sent s, Inl e)"
| "anthropic_read se buf raw s (Item IdleTimeout # items) =
     (as_sent s, Inl (''Anthropic SSE stream timed out: no data for '' @ show_nat stream_idle_timeout_secs @ ''s''))"
| "anthropic_read se buf raw s (DeadlineBefore # items) =
     (as_sent s, Inl (wall_text @ '' (keep-alives received but no content)''))"
| "anthropic_read se buf raw s (DeadlineWaiting # items) = (as_sent s, Inl wall_text)"

definition anthropic_stream :: "stream_env \<Rightarrow> wall_item list \<Rightarrow> turn_result" where
  "anthropic_stream se items = anthropic_read se [] [] anthropic_init items"

section \<open>Turns over HTTP\<close>

record http_request =
  hq_url :: string
  hq_headers :: "(string \<times> string) list"
  hq_body :: string

text \<open>\<open>hr_status_text\<close> is the status as it is displayed, \<open>hr_body\<close> the body as text or empty, \<open>hr_json\<close>
  the body read as JSON, \<open>hr_items\<close> the body read as a stream.\<close>

record 'i http_response =
  hr_status :: nat
  hr_status_text :: string
  hr_content_type :: "string option"
  hr_body :: string
  hr_json :: "string + json"
  hr_items :: "'i list"

type_synonym ('i, 'w) http = "http_request \<Rightarrow> 'w \<Rightarrow> (string + 'i http_response) \<times> 'w"

definition is_success :: "'i http_response \<Rightarrow> bool" where
  "is_success r \<longleftrightarrow> 200 \<le> hr_status r \<and> hr_status r < 300"

definition anthropic_betas :: "bool \<Rightarrow> bool \<Rightarrow> bool \<Rightarrow> string" where
  "anthropic_betas is_oauth adaptive caching =
     (let betas = (if caching then [''prompt-caching-2024-07-31''] else [])
            @ [''fine-grained-tool-streaming-2025-05-14'']
            @ (if \<not> adaptive then [''interleaved-thinking-2025-05-14''] else []);
          joined = join '','' betas
      in if is_oauth then ''claude-code-20250219,oauth-2025-04-20'' @ '','' @ joined else joined)"

definition anthropic_headers :: "string \<Rightarrow> bool \<Rightarrow> bool \<Rightarrow> (string \<times> string) list" where
  "anthropic_headers api_key adaptive caching =
     [(''anthropic-version'', ''2023-06-01''), (''content-type'', ''application/json''),
      (''anthropic-beta'', anthropic_betas (is_oauth_token api_key) adaptive caching)]
     @ (if is_oauth_token api_key
        then [(''authorization'', ''Bearer '' @ api_key), (''user-agent'', ''claude-cli/2.1.75''), (''x-app'', ''cli'')]
        else [(''x-api-key'', api_key)])"

definition anthropic_api_error :: "nat \<Rightarrow> string \<Rightarrow> string \<Rightarrow> bool \<Rightarrow> string" where
  "anthropic_api_error status status_text resp_body is_oauth =
     (if is_oauth \<and> status \<in> {400, 401, 403}
      then ''Anthropic OAuth request failed ('' @ status_text @ ''): '' @ resp_body @ [newline]
        @ ''This path should work with a valid Claude Code OAuth token, so the rejection likely points to request-shape incompatibility or token scope.''
      else ''Anthropic API error '' @ status_text @ '': '' @ resp_body)"

definition anthropic_turn ::
  "(wall_item, 'w) http \<Rightarrow> stream_env \<Rightarrow> wire_env \<Rightarrow> string \<Rightarrow> string \<Rightarrow> string \<Rightarrow> string option \<Rightarrow>
     message list \<Rightarrow> tool_def list \<Rightarrow> u32 \<Rightarrow> bool \<Rightarrow> 'w \<Rightarrow> turn_result \<times> 'w" where
  "anthropic_turn http se we api_key model system volatile messages tools max_tokens prompt_caching w =
     (let is_oauth = is_oauth_token api_key;
          adaptive = supports_adaptive_thinking model;
          body = anthropic_request we system volatile messages tools model max_tokens is_oauth adaptive prompt_caching
      in case http \<lparr>hq_url = ''https://api.anthropic.com/v1/messages'',
                    hq_headers = anthropic_headers api_key adaptive prompt_caching,
                    hq_body = we_print we body\<rparr> w of
           (Inl e, w1) \<Rightarrow> (([], Inl e), w1)
         | (Inr r, w1) \<Rightarrow>
             if \<not> is_success r then (([], Inl (anthropic_api_error (hr_status r) (hr_status_text r) (hr_body r) is_oauth)), w1)
             else if \<not> contains_sub ''text/event-stream''
                    (to_ascii_lower (case hr_content_type r of Some t \<Rightarrow> t | None \<Rightarrow> [])) then
               (case hr_json r of
                  Inl e \<Rightarrow> (([], Inl e), w1)
                | Inr v \<Rightarrow> (case parse_json_payload_value se v of (es, u) \<Rightarrow> ((es, Inr u), w1)))
             else (anthropic_stream se (hr_items r), w1))"

definition quoted :: "string \<Rightarrow> string" where
  "quoted s = [CHR 0x27] @ s @ [CHR 0x27]"

definition pointer_str :: "json option \<Rightarrow> string" where
  "pointer_str v = (case v of Some (JStr s) \<Rightarrow> s | _ \<Rightarrow> [])"

definition provider_hint :: "string \<Rightarrow> string \<Rightarrow> string \<Rightarrow> bool \<Rightarrow> json \<Rightarrow> string" where
  "provider_hint status_text body model has_tools val =
     (let meta = pointer2 ''error'' ''metadata'' val;
          name = pointer_str (case meta of Some m \<Rightarrow> json_member ''provider_name'' m | None \<Rightarrow> None);
          raw = pointer_str (case meta of Some m \<Rightarrow> json_member ''raw'' m | None \<Rightarrow> None)
      in ''OpenRouter API error '' @ status_text @ '': ''
         @ (if name = [] then ''the routed provider'' else ''provider '' @ quoted name)
         @ '' failed for model '' @ quoted model
         @ (if has_tools then '' during a tool-call turn'' else [])
         @ ''. Try a different provider/model selection. In channel mode, use /models to switch. Raw provider response: ''
         @ (if raw = [] then body else raw))"

definition cache_hint :: "string \<Rightarrow> string \<Rightarrow> bool \<Rightarrow> bool \<Rightarrow> string" where
  "cache_hint status_text model has_tools used_caching =
     ''OpenRouter API error '' @ status_text @ '': no routed provider can satisfy model '' @ quoted model
     @ '' with the current request parameters.''
     @ (if has_tools then '' This run sends tool schemas, so the routed provider must support tool calling.'' else [])
     @ (if used_caching then '' Prompt-caching markers were enabled for this request.'' else [])
     @ '' Try a different model, or retry without prompt caching / with fewer routed features.''"

definition format_http_error :: "stream_env \<Rightarrow> nat \<Rightarrow> string \<Rightarrow> string \<Rightarrow> string \<Rightarrow> bool \<Rightarrow> bool \<Rightarrow> string" where
  "format_http_error se status status_text body model has_tools used_caching =
     (let message = ''OpenRouter API error '' @ status_text @ '': '' @ body in
      case se_parse se body of
        None \<Rightarrow> message
      | Some val \<Rightarrow>
          if should_retry_without_cache status body then cache_hint status_text model has_tools used_caching
          else if to_ascii_lower (pointer_str (pointer2 ''error'' ''message'' val)) = to_ascii_lower ''Provider returned error''
          then provider_hint status_text body model has_tools val
          else message)"

definition openrouter_send ::
  "(stream_item, 'w) http \<Rightarrow> wire_env \<Rightarrow> string \<Rightarrow> json \<Rightarrow> 'w \<Rightarrow> (string + stream_item http_response) \<times> 'w" where
  "openrouter_send http we api_key body w =
     http \<lparr>hq_url = ''https://openrouter.ai/api/v1/chat/completions'',
           hq_headers = [(''Authorization'', ''Bearer '' @ api_key), (''Content-Type'', ''application/json''), (''X-Title'', ''that-agent'')],
           hq_body = we_print we body\<rparr> w"

text \<open>What is done with the last response.\<close>

definition openrouter_answer ::
  "stream_env \<Rightarrow> string \<Rightarrow> bool \<Rightarrow> bool \<Rightarrow> stream_item http_response \<Rightarrow> turn_result" where
  "openrouter_answer se model has_tools used_caching r =
     (if \<not> is_success r
      then ([], Inl (format_http_error se (hr_status r) (hr_status_text r) (hr_body r) model has_tools used_caching))
      else openrouter_stream se (hr_items r))"

definition openrouter_turn ::
  "(stream_item, 'w) http \<Rightarrow> stream_env \<Rightarrow> wire_env \<Rightarrow> string \<Rightarrow> string \<Rightarrow> string \<Rightarrow>
     message list \<Rightarrow> tool_def list \<Rightarrow> u32 \<Rightarrow> bool \<Rightarrow> 'w \<Rightarrow> turn_result \<times> 'w" where
  "openrouter_turn http se we api_key model system messages tools max_tokens prompt_caching w =
     (let routed = filter_openrouter_tools tools;
          body = (\<lambda>caching. routed_request we system messages routed model max_tokens caching)
      in case openrouter_send http we api_key (body prompt_caching) w of
           (Inl e, w1) \<Rightarrow> (([], Inl e), w1)
         | (Inr r, w1) \<Rightarrow>
             if \<not> is_success r \<and> prompt_caching \<and> should_retry_without_cache (hr_status r) (hr_body r) then
               (case openrouter_send http we api_key (body False) w1 of
                  (Inl e, w2) \<Rightarrow> (([], Inl e), w2)
                | (Inr r2, w2) \<Rightarrow> (openrouter_answer se model (routed \<noteq> []) False r2, w2))
             else (openrouter_answer se model (routed \<noteq> []) prompt_caching r, w1))"

definition compatible_turn ::
  "(stream_item, 'w) http \<Rightarrow> stream_env \<Rightarrow> wire_env \<Rightarrow> provider_entry \<Rightarrow> string \<Rightarrow> string \<Rightarrow> string \<Rightarrow>
     message list \<Rightarrow> tool_def list \<Rightarrow> u32 \<Rightarrow> 'w \<Rightarrow> turn_result \<times> 'w" where
  "compatible_turn http se we provider api_key model system messages tools max_tokens w =
     (case http \<lparr>hq_url = trim_end_matches ''/'' (pe_base_url provider) @ ''/chat/completions'',
                 hq_headers = [(''Authorization'', ''Bearer '' @ api_key), (''Content-Type'', ''application/json'')],
                 hq_body = we_print we (chat_request we system messages tools model max_tokens)\<rparr> w of
        (Inl e, w1) \<Rightarrow> (([], Inl e), w1)
      | (Inr r, w1) \<Rightarrow>
          if \<not> is_success r
          then (([], Inl (''Provider '' @ quoted (pe_id provider) @ '' API error '' @ hr_status_text r @ '': '' @ hr_body r)), w1)
          else (compatible_stream se (pe_id provider) (hr_items r), w1))"

end
