(* ===== verification/Provider_Responses.thy ===== *)
theory Provider_Responses
  imports Provider_Events
begin

text \<open>
  The OpenAI Responses provider (\<open>agent_loop/openai.rs\<close>): its events, the turn over HTTP, the turn
  over a WebSocket of its own, and the turns over the WebSocket that a run keeps, which continue
  from the last response.

  The WebSocket is the record \<open>ws_env\<close> over a world \<open>'w\<close>: connecting, sending a text, and the
  messages that are read until the turn is over.  A panic of the task is a result of its own.
\<close>

section \<open>Events\<close>

datatype event_control =
    EventContinue
  | EventCompleted "string option"
  | EventApiError "string option" string
  | EventPanic

definition slot_lookup :: "nat \<Rightarrow> slots \<Rightarrow> (string \<times> string \<times> string) option" where
  "slot_lookup i slots = map_of slots i"

definition slot_remove :: "nat \<Rightarrow> slots \<Rightarrow> slots" where
  "slot_remove i slots = filter (\<lambda>s. fst s \<noteq> i) slots"

definition output_index :: "json \<Rightarrow> nat" where
  "output_index val = u64_or_zero (json_get ''output_index'' val)"

definition function_item :: "json \<Rightarrow> bool" where
  "function_item item \<longleftrightarrow> is_object item \<and> json_get ''type'' item = JStr ''function_call''"

text \<open>Indexing an object of the parser with a missing key panics: \<open>None\<close>.\<close>

definition response_usage :: "json \<Rightarrow> usage \<Rightarrow> usage option" where
  "response_usage response u =
     (case json_member ''usage'' response of
        Some (JObj ms) \<Rightarrow>
          (case (json_member ''input_tokens'' (JObj ms), json_member ''output_tokens'' (JObj ms)) of
             (Some i, Some n) \<Rightarrow>
               Some (u\<lparr>us_input_tokens := of_nat (u64_or_zero i), us_output_tokens := of_nat (u64_or_zero n)\<rparr>)
           | _ \<Rightarrow> None)
      | _ \<Rightarrow> Some u)"

definition response_id :: "json \<Rightarrow> string option" where
  "response_id response = (case json_member ''id'' response of Some v \<Rightarrow> json_str v | None \<Rightarrow> None)"

definition incomplete_detail :: "json \<Rightarrow> string" where
  "incomplete_detail response =
     ''incomplete: '' @ (case pointer2 ''incomplete_details'' ''reason'' response of
                          Some (JStr r) \<Rightarrow> r | _ \<Rightarrow> ''unknown'')"

definition response_completed :: "json \<Rightarrow> stream_state \<Rightarrow> stream_state \<times> event_control" where
  "response_completed response s =
     (case response_usage response (st_usage s) of
        None \<Rightarrow> (s, EventPanic)
      | Some u \<Rightarrow>
          (let s1 = s\<lparr>st_usage := u\<rparr> in
           if json_member ''status'' response = Some (JStr ''incomplete'')
           then (s1, EventApiError (Some ''incomplete'') (incomplete_detail response))
           else (send (TurnEnd (st_text s1) u) s1, EventCompleted (response_id response))))"

definition response_incomplete :: "json \<Rightarrow> stream_state \<Rightarrow> stream_state \<times> event_control" where
  "response_incomplete response s =
     (case response_usage response (st_usage s) of
        None \<Rightarrow> (s, EventPanic)
      | Some u \<Rightarrow> (s\<lparr>st_usage := u\<rparr>, EventApiError (Some ''incomplete'') (incomplete_detail response)))"

definition item_added :: "json \<Rightarrow> stream_state \<Rightarrow> stream_state \<times> event_control" where
  "item_added val s =
     (let item = json_get ''item'' val in
      if \<not> function_item item then (s, EventContinue)
      else (case (json_member ''call_id'' item, json_member ''name'' item) of
              (Some c, Some n) \<Rightarrow>
                (s\<lparr>st_slots := slot_insert (output_index val) (str_or [] c, str_or [] n, []) (st_slots s)\<rparr>, EventContinue)
            | _ \<Rightarrow> (s, EventPanic)))"

definition item_done :: "json \<Rightarrow> stream_state \<Rightarrow> stream_state \<times> event_control" where
  "item_done val s =
     (let item = json_get ''item'' val in
      if \<not> function_item item then (s, EventContinue)
      else (case slot_lookup (output_index val) (st_slots s) of
              None \<Rightarrow> (s, EventContinue)
            | Some (call_id, name, args) \<Rightarrow>
                (let s1 = s\<lparr>st_slots := slot_remove (output_index val) (st_slots s)\<rparr> in
                 case json_member ''arguments'' item of
                   None \<Rightarrow> (s1, EventPanic)
                 | Some v \<Rightarrow>
                     (send (ToolCallComplete \<lparr>tc_call_id = call_id, tc_name = name,
                              tc_args_json = (if str_or [] v \<noteq> [] then str_or [] v else args)\<rparr>) s1, EventContinue))))"

definition event_error :: "json \<Rightarrow> event_control" where
  "event_error val =
     (let code = (case pointer2 ''error'' ''code'' val of Some v \<Rightarrow> json_str v | None \<Rightarrow> None);
          msg = (case pointer2 ''error'' ''message'' val of
                   Some (JStr m) \<Rightarrow> m
                 | _ \<Rightarrow> str_or ''unknown error'' (json_get ''message'' val))
      in EventApiError code (case code of Some c \<Rightarrow> c @ '': '' @ msg | None \<Rightarrow> msg))"

definition response_event :: "json \<Rightarrow> stream_state \<Rightarrow> stream_state \<times> event_control" where
  "response_event val s =
     (case json_str (json_get ''type'' val) of
        None \<Rightarrow> (s, EventContinue)
      | Some t \<Rightarrow>
          if t = ''response.output_text.delta'' then
            (let delta = str_or [] (json_get ''delta'' val) in
             (if delta \<noteq> [] then send (TextDelta delta) (s\<lparr>st_text := st_text s @ delta\<rparr>) else s, EventContinue))
          else if t = ''response.output_item.added'' then item_added val s
          else if t = ''response.function_call_arguments.delta'' then
            (s\<lparr>st_slots := slot_update (output_index val) (\<lambda>(c, n, a). (c, n, a @ str_or [] (json_get ''delta'' val))) (st_slots s)\<rparr>,
             EventContinue)
          else if t = ''response.output_item.done'' then item_done val s
          else if t = ''response.completed'' then response_completed (json_get ''response'' val) s
          else if t = ''response.incomplete'' then response_incomplete (json_get ''response'' val) s
          else if t = ''error'' then (s, event_error val)
          else (s, EventContinue))"

definition handle_response_event :: "stream_env \<Rightarrow> string \<Rightarrow> stream_state \<Rightarrow> stream_state \<times> event_control" where
  "handle_response_event se raw s =
     (case se_parse se raw of None \<Rightarrow> (s, EventContinue) | Some val \<Rightarrow> response_event val s)"

section \<open>The turn over HTTP\<close>

text \<open>\<open>None\<close>: the task panicked.\<close>

type_synonym task_result = "turn_event list \<times> (string + usage) option"

definition api_error_text :: "string \<Rightarrow> string" where
  "api_error_text detail = ''OpenAI Responses API error: '' @ detail"

definition responses_line :: "stream_env \<Rightarrow> string \<Rightarrow> stream_state \<Rightarrow> (stream_state, task_result) line_result" where
  "responses_line se line s =
     (case strip_prefix ''data: '' line of
        None \<Rightarrow> Reading s
      | Some data \<Rightarrow>
          (case handle_response_event se data s of
             (s', EventContinue) \<Rightarrow> Reading s'
           | (s', EventCompleted _) \<Rightarrow> Finished (st_sent s', Some (Inr (st_usage s')))
           | (s', EventApiError _ detail) \<Rightarrow>
               Finished (st_sent s' @ [TurnError (api_error_text detail)], Some (Inl (api_error_text detail)))
           | (s', EventPanic) \<Rightarrow> Finished (st_sent s', None)))"

fun responses_read :: "stream_env \<Rightarrow> string \<Rightarrow> stream_state \<Rightarrow> stream_item list \<Rightarrow> task_result" where
  "responses_read se buf s [] = (let s' = flush_pending_turn se s in (st_sent s', Some (Inr (st_usage s'))))"
| "responses_read se buf s (Chunk bytes # items) =
     (case drain_lines (responses_line se) (buf @ from_utf8_lossy bytes) s of
        (buf', Reading s') \<Rightarrow> responses_read se buf' s' items
      | (buf', Paused s') \<Rightarrow> responses_read se buf' s' items
      | (_, Finished r) \<Rightarrow> r)"
| "responses_read se buf s (ChunkError e # items) = (st_sent s, Some (Inl e))"
| "responses_read se buf s (IdleTimeout # items) =
     (st_sent s, Some (Inl (''OpenAI SSE stream timed out: no data for '' @ show_nat stream_idle_timeout_secs @ ''s'')))"

definition responses_http_turn ::
  "(stream_item, 'w) http \<Rightarrow> stream_env \<Rightarrow> wire_env \<Rightarrow> string \<Rightarrow> string \<Rightarrow> string \<Rightarrow>
     message list \<Rightarrow> tool_def list \<Rightarrow> u32 \<Rightarrow> 'w \<Rightarrow> task_result \<times> 'w" where
  "responses_http_turn http se we api_key model system messages tools max_tokens w =
     (case http \<lparr>hq_url = ''https://api.openai.com/v1/responses'',
                 hq_headers = [(''Authorization'', ''Bearer '' @ api_key), (''content-type'', ''application/json'')],
                 hq_body = we_print we (responses_http_request we system messages tools model max_tokens)\<rparr> w of
        (Inl e, w1) \<Rightarrow> (([], Some (Inl e)), w1)
      | (Inr r, w1) \<Rightarrow>
          if \<not> is_success r then (([], Some (Inl (''OpenAI API error '' @ hr_status_text r @ '': '' @ hr_body r))), w1)
          else (responses_read se [] stream_init (hr_items r), w1))"

section \<open>The turn over a WebSocket\<close>

text \<open>\<open>WsPing\<close> carries the error of the pong that answers it.\<close>

datatype ws_item =
    WsText string
  | WsBinary string
  | WsPing "string option"
  | WsClose
  | WsOther
  | WsError string
  | WsIdle

datatype turn_failure = Api "string option" string | Transport string

datatype ws_result =
    WsTurn usage bool "string option"
  | WsFailure turn_failure
  | WsPanic

fun read_ws_turn :: "stream_env \<Rightarrow> stream_state \<Rightarrow> ws_item list \<Rightarrow> turn_event list \<times> ws_result" where
  "read_ws_turn se s [] = (let s' = flush_pending_turn se s in (st_sent s', WsTurn (st_usage s') False None))"
| "read_ws_turn se s (WsText raw # items) =
     (case handle_response_event se raw s of
        (s', EventContinue) \<Rightarrow> read_ws_turn se s' items
      | (s', EventCompleted i) \<Rightarrow> (st_sent s', WsTurn (st_usage s') True i)
      | (s', EventApiError code detail) \<Rightarrow> (st_sent s', WsFailure (Api code detail))
      | (s', EventPanic) \<Rightarrow> (st_sent s', WsPanic))"
| "read_ws_turn se s (WsBinary bytes # items) =
     (if \<not> utf8_ok bytes then read_ws_turn se s items
      else (case handle_response_event se bytes s of
              (s', EventContinue) \<Rightarrow> read_ws_turn se s' items
            | (s', EventCompleted i) \<Rightarrow> (st_sent s', WsTurn (st_usage s') True i)
            | (s', EventApiError code detail) \<Rightarrow> (st_sent s', WsFailure (Api code detail))
            | (s', EventPanic) \<Rightarrow> (st_sent s', WsPanic)))"
| "read_ws_turn se s (WsPing (Some e) # items) = (st_sent s, WsFailure (Transport e))"
| "read_ws_turn se s (WsPing None # items) = read_ws_turn se s items"
| "read_ws_turn se s (WsClose # items) =
     (let s' = flush_pending_turn se s in (st_sent s', WsTurn (st_usage s') False None))"
| "read_ws_turn se s (WsOther # items) = read_ws_turn se s items"
| "read_ws_turn se s (WsError e # items) = (st_sent s, WsFailure (Transport e))"
| "read_ws_turn se s (WsIdle # items) =
     (st_sent s, WsFailure (Transport (''OpenAI WebSocket stream timed out: no data for ''
        @ show_nat stream_idle_timeout_secs @ ''s'')))"

record 'w ws_env =
  ws_connect :: "string \<Rightarrow> 'w \<Rightarrow> (string + unit) \<times> 'w"
  ws_send :: "json \<Rightarrow> 'w \<Rightarrow> string option \<times> 'w"
  ws_items :: "'w \<Rightarrow> ws_item list \<times> 'w"
  ws_closed :: "'w \<Rightarrow> 'w"

text \<open>What \<open>stream_turn_ws_persistent\<close> keeps between turns; the mutex guards it.\<close>

record ws_state =
  wss_open :: bool
  wss_previous :: "string option"
  wss_messages_len :: nat

definition new_ws_session :: ws_state where
  "new_ws_session = \<lparr>wss_open = False, wss_previous = None, wss_messages_len = 0\<rparr>"

definition forget_previous :: "ws_state \<Rightarrow> ws_state" where
  "forget_previous st = st\<lparr>wss_previous := None, wss_messages_len := 0\<rparr>"

definition send_and_read ::
  "'w ws_env \<Rightarrow> stream_env \<Rightarrow> json \<Rightarrow> 'w \<Rightarrow> (turn_event list \<times> ws_result) \<times> 'w" where
  "send_and_read env se payload w =
     (case ws_send env payload w of
        (Some e, w1) \<Rightarrow> (([], WsFailure (Transport e)), w1)
      | (None, w1) \<Rightarrow> (case ws_items env w1 of (items, w2) \<Rightarrow> (read_ws_turn se stream_init items, w2)))"

definition ws_ephemeral_turn ::
  "'w ws_env \<Rightarrow> stream_env \<Rightarrow> wire_env \<Rightarrow> string \<Rightarrow> string \<Rightarrow> string \<Rightarrow>
     message list \<Rightarrow> tool_def list \<Rightarrow> u32 \<Rightarrow> 'w \<Rightarrow> task_result \<times> 'w" where
  "ws_ephemeral_turn env se we api_key model system messages tools max_tokens w =
     (case ws_connect env api_key w of
        (Inl e, w1) \<Rightarrow> (([], Some (Inl e)), w1)
      | (Inr _, w1) \<Rightarrow>
          (case ws_send env (responses_ws_request we system messages tools model max_tokens None) w1 of
             (Some e, w2) \<Rightarrow> (([], Some (Inl e)), w2)
           | (None, w2) \<Rightarrow>
               (case ws_items env w2 of
                  (items, w3) \<Rightarrow>
                    (case read_ws_turn se stream_init items of
                       (es, WsTurn u _ _) \<Rightarrow> ((es, Some (Inr u)), ws_closed env w3)
                     | (es, WsFailure (Api _ detail)) \<Rightarrow>
                         ((es @ [TurnError (api_error_text detail)], Some (Inl (api_error_text detail))), ws_closed env w3)
                     | (es, WsFailure (Transport e)) \<Rightarrow> ((es @ [TurnError e], Some (Inl e)), ws_closed env w3)
                     | (es, WsPanic) \<Rightarrow> ((es, None), w3)))))"

definition continued_from :: "ws_state \<Rightarrow> message list \<Rightarrow> nat" where
  "continued_from st messages = (if wss_previous st \<noteq> None then min (wss_messages_len st) (length messages) else 0)"

definition recoverable :: "string option \<Rightarrow> bool" where
  "recoverable code \<longleftrightarrow> code = Some ''previous_response_not_found'' \<or> code = Some ''websocket_connection_limit_reached''"

text \<open>The loop goes round at most once more: \<open>retried\<close> is \<open>retried_without_previous\<close>.  The events of
  a failed attempt have been sent.\<close>

function ws_attempt ::
  "'w ws_env \<Rightarrow> stream_env \<Rightarrow> wire_env \<Rightarrow> string \<Rightarrow> (message list \<Rightarrow> string option \<Rightarrow> json) \<Rightarrow>
     message list \<Rightarrow> bool \<Rightarrow> ws_state \<Rightarrow> turn_event list \<Rightarrow> 'w \<Rightarrow> task_result \<times> ws_state \<times> 'w" where
  "ws_attempt env se we api_key request messages retried st sent w =
     (case (if wss_open st then (Inr (), w) else ws_connect env api_key w) of
        (Inl e, w1) \<Rightarrow> ((sent, Some (Inl e)), st, w1)
      | (Inr _, w1) \<Rightarrow>
          (let st1 = st\<lparr>wss_open := True\<rparr> in
           case send_and_read env se (request (drop (continued_from st1 messages) messages) (wss_previous st1)) w1 of
             ((es, WsTurn u completed i), w2) \<Rightarrow>
               ((sent @ es, Some (Inr u)),
                (if completed then st1\<lparr>wss_previous := i, wss_messages_len := length messages\<rparr>
                 else (forget_previous st1)\<lparr>wss_open := False\<rparr>), w2)
           | ((es, WsFailure (Api code detail)), w2) \<Rightarrow>
               if recoverable code \<and> \<not> retried then
                 ws_attempt env se we api_key request messages True
                   (if code = Some ''websocket_connection_limit_reached'' then (forget_previous st1)\<lparr>wss_open := False\<rparr>
                    else forget_previous st1) (sent @ es) w2
               else ((sent @ es @ [TurnError (api_error_text detail)], Some (Inl (api_error_text detail))), st1, w2)
           | ((es, WsFailure (Transport e)), w2) \<Rightarrow>
               ((sent @ es @ [TurnError e], Some (Inl e)), (forget_previous st1)\<lparr>wss_open := False\<rparr>, w2)
           | ((es, WsPanic), w2) \<Rightarrow> ((sent @ es, None), st1, w2)))"
  by pat_completeness auto
termination by (relation "measure (\<lambda>(_, _, _, _, _, _, retried, _). if retried then 0 else 1)") auto

declare ws_attempt.simps [simp del]

definition ws_persistent_turn ::
  "'w ws_env \<Rightarrow> stream_env \<Rightarrow> wire_env \<Rightarrow> string \<Rightarrow> string \<Rightarrow> string \<Rightarrow>
     message list \<Rightarrow> tool_def list \<Rightarrow> u32 \<Rightarrow> ws_state \<Rightarrow> 'w \<Rightarrow> task_result \<times> ws_state \<times> 'w" where
  "ws_persistent_turn env se we api_key model system messages tools max_tokens st w =
     ws_attempt env se we api_key
       (\<lambda>ms previous. responses_ws_request we system ms tools model max_tokens previous) messages False st [] w"

end
