(* ===== verification/Provider_Stream_Props.thy ===== *)
theory Provider_Stream_Props
  imports Provider_Responses
begin

text \<open>
  What the readers of the providers' streams promise: how a stream is cut into chunks does not
  matter as long as no character is cut, tool calls are put together from their fragments however
  the blocks interleave, and the kept WebSocket recovers from a lost response.  The closed theorems
  show where the promises end.
\<close>

section \<open>Decoding valid text\<close>

lemma utf8_run_matched:
  "utf8_run p s \<Longrightarrow> matched p s = length p \<and> utf8_run [] (drop (length p) s) \<and> length p \<le> length s"
  by (induction p s rule: matched.induct) auto

lemma lossy_id: "utf8_ok s \<Longrightarrow> from_utf8_lossy s = s"
proof (induction s rule: from_utf8_lossy.induct)
  case (2 c cs)
  then obtain p where p: "utf8_tail (of_char c) = Some p" "utf8_run p cs" by (auto simp: utf8_ok_def split: option.splits)
  then show ?case using 2(2) [OF p(1)] utf8_run_matched [OF p(2)] by (simp add: Let_def utf8_ok_def)
qed simp

lemma utf8_ok_concat: "list_all utf8_ok cs \<Longrightarrow> utf8_ok (concat cs)"
  by (induction cs) (auto simp: utf8_ok_append, simp add: utf8_ok_def)

section \<open>Lines and chunks\<close>

lemma next_line_append: "next_line buf = Some (l, rest) \<Longrightarrow> next_line (buf @ ext) = Some (l, rest @ ext)"
proof -
  have "split_once c s = Some (a, b) \<Longrightarrow> split_once c (s @ ext) = Some (a, b @ ext)" for c s a b
    by (induction s arbitrary: a) (auto split: if_splits option.splits)
  then show "next_line buf = Some (l, rest) \<Longrightarrow> next_line (buf @ ext) = Some (l, rest @ ext)"
    by (auto simp: next_line_def)
qed

text \<open>A reader of a stream by lines that goes on after every line it does not finish at.\<close>

locale line_reader =
  fixes line :: "string \<Rightarrow> 's \<Rightarrow> ('s, 'r) line_result"
    and reads :: "string \<Rightarrow> 's \<Rightarrow> stream_item list \<Rightarrow> 'r"
  assumes goes_on: "line l s \<noteq> Paused s'"
    and reads_end: "reads buf s [] = reads [] s []"
    and reads_chunk: "reads buf s (Chunk bytes # items) =
      (case drain_lines line (buf @ from_utf8_lossy bytes) s of
         (buf', Reading s') \<Rightarrow> reads buf' s' items
       | (buf', Paused s') \<Rightarrow> reads buf' s' items
       | (_, Finished r) \<Rightarrow> r)"
    and reads_other: "i = IdleTimeout \<or> i = ChunkError e \<Longrightarrow> reads buf s (i # items) = reads [] s [i]"
begin

lemma drain_not_paused: "drain_lines line buf s \<noteq> (rest, Paused s')"
  by (induction buf arbitrary: s rule: length_induct)
    (subst drain_lines.simps, auto dest!: next_line_shorter simp: goes_on split: option.splits line_result.splits)

lemma drain_done: "drain_lines line buf s = (buf', Reading s') \<Longrightarrow> next_line buf' = None"
  by (induction buf arbitrary: s rule: length_induct)
    (subst (asm) drain_lines.simps, auto dest!: next_line_shorter simp: goes_on split: option.splits line_result.splits)

lemma drain_append_reading:
  "drain_lines line buf s = (buf', Reading s') \<Longrightarrow> drain_lines line (buf @ ext) s = drain_lines line (buf' @ ext) s'"
proof (induction buf arbitrary: s rule: length_induct)
  case (1 buf)
  show ?case
  proof (cases "next_line buf")
    case None
    then show ?thesis using 1(2) by (simp add: drain_lines.simps [of line buf s])
  next
    case (Some lr)
    then obtain l rest where lr: "next_line buf = Some (l, rest)" by (cases lr) auto
    with 1(2) obtain s1 where "line l s = Reading s1" "drain_lines line rest s1 = (buf', Reading s')"
      by (subst (asm) drain_lines.simps) (auto simp: goes_on split: line_result.splits)
    then show ?thesis
      using 1(1) next_line_shorter [OF lr] next_line_append [OF lr, of ext]
      by (subst drain_lines.simps) simp
  qed
qed

lemma drain_append_finished:
  "drain_lines line buf s = (rest, Finished r) \<Longrightarrow> \<exists>rest'. drain_lines line (buf @ ext) s = (rest', Finished r)"
proof (induction buf arbitrary: s rule: length_induct)
  case (1 buf)
  from 1(2) obtain l b where lr: "next_line buf = Some (l, b)"
    by (subst (asm) drain_lines.simps) (auto split: option.splits)
  note shorter = next_line_shorter [OF lr] and longer = next_line_append [OF lr, of ext]
  show ?case
  proof (cases "line l s")
    case (Reading s1)
    then have "drain_lines line b s1 = (rest, Finished r)" using 1(2) lr by (subst (asm) drain_lines.simps) simp
    then show ?thesis using 1(1) shorter longer Reading by (subst drain_lines.simps) simp
  next
    case (Finished x)
    then show ?thesis using 1(2) lr longer by (subst drain_lines.simps, subst (asm) drain_lines.simps) simp
  qed (use goes_on in blast)
qed

lemma reads_join:
  assumes "utf8_ok a" "utf8_ok b"
  shows "reads buf s (Chunk a # Chunk b # items) = reads buf s (Chunk (a @ b) # items)"
proof (cases "drain_lines line (buf @ a) s")
  case (Pair rest res)
  show ?thesis
  proof (cases res)
    case (Reading s')
    then show ?thesis using assms Pair drain_append_reading [of "buf @ a" s rest s' b]
      by (simp add: reads_chunk lossy_id utf8_ok_append)
  next
    case (Finished r)
    then show ?thesis using assms Pair drain_append_finished [of "buf @ a" s rest r b]
      by (auto simp: reads_chunk lossy_id utf8_ok_append)
  qed (use Pair drain_not_paused in blast)
qed

lemma reads_chunks:
  "list_all utf8_ok cs \<Longrightarrow> utf8_ok c \<Longrightarrow>
     reads buf s (Chunk c # map Chunk cs @ items) = reads buf s (Chunk (c @ concat cs) # items)"
  by (induction cs arbitrary: c) (auto simp: reads_join utf8_ok_append)

lemma reads_empty_chunk: "next_line buf = None \<Longrightarrow> reads buf s (Chunk [] # items) = reads buf s items"
  by (simp add: reads_chunk drain_lines.simps)

text \<open>Two ways of cutting the same bytes, none inside a character, are read alike.\<close>

lemma reads_any_cut:
  assumes "list_all utf8_ok xs" "list_all utf8_ok ys" "concat xs = concat ys"
  shows "reads [] s (map Chunk xs @ items) = reads [] s (map Chunk ys @ items)"
proof -
  have start: "next_line [] = None" by (simp add: next_line_def)
  have "reads [] s (map Chunk zs @ items) = reads [] s (Chunk (concat zs) # items)" if "list_all utf8_ok zs" for zs
    using reads_chunks [OF that, of "[]" "[]" s items] reads_empty_chunk [OF start]
    by (simp add: utf8_ok_def)
  then show ?thesis using assms by simp
qed

end

lemma chat_value_goes_on: "chat_value se cd val s \<noteq> Paused s'"
  by (auto simp: chat_value_def Let_def split: option.splits)

lemma chat_line_goes_on: "chat_line se cd l s \<noteq> Paused s'"
  by (auto simp: chat_line_def Let_def chat_value_goes_on split: option.splits)

interpretation chat: line_reader "chat_line se cd" "chat_read se cd" for se cd
proof
  fix i e buf s items assume "i = IdleTimeout \<or> i = ChunkError e"
  then show "chat_read se cd buf s (i # items) = chat_read se cd [] s [i]" by auto
qed (simp_all add: chat_line_goes_on)

lemma responses_line_goes_on: "responses_line se l s \<noteq> Paused s'"
  by (auto simp: responses_line_def split: option.splits event_control.splits prod.splits)

interpretation responses: line_reader "responses_line se" "responses_read se" for se
proof
  fix i e buf s items assume "i = IdleTimeout \<or> i = ChunkError e"
  then show "responses_read se buf s (i # items) = responses_read se [] s [i]" by auto
qed (simp_all add: responses_line_goes_on)

text \<open>(C18) How the bytes of an answer are cut into chunks does not change the turn, as long as no
  character is cut: Chat Completions and Responses streams.\<close>

theorem cuts_between_characters:
  assumes "list_all utf8_ok xs" and "list_all utf8_ok ys" and "concat xs = concat ys"
  shows "chat_stream se cd (map Chunk xs @ items) = chat_stream se cd (map Chunk ys @ items)
    \<and> responses_read se [] stream_init (map Chunk xs @ items) = responses_read se [] stream_init (map Chunk ys @ items)"
  unfolding chat_stream_def using chat.reads_any_cut [OF assms] responses.reads_any_cut [OF assms] by blast

text \<open>A parser that makes the whole line the text of the first choice.\<close>

definition demo_stream_env :: stream_env where
  "demo_stream_env = \<lparr>se_parse = (\<lambda>s. Some (JObj [(''choices'', JArr [JObj [(''delta'', JObj [(''content'', JStr s)])]])])),
     se_print = (\<lambda>_. []), se_parse_error = (\<lambda>s. s), se_order = (\<lambda>s. s)\<rparr>"

theorem cuts_between_characters_witness:
  "chat_stream demo_stream_env openrouter_dialect (map Chunk [''da'', ''ta: hi'', [newline]])
     = chat_stream demo_stream_env openrouter_dialect [Chunk (''data: hi'' @ [newline])]"
proof -
  have ok: "list_all utf8_ok [''da'', ''ta: hi'', [newline]]" "list_all utf8_ok [''data: hi'' @ [newline]]" by code_simp+
  have "concat [''da'', ''ta: hi'', [newline]] = concat [''data: hi'' @ [newline]]" by simp
  from cuts_between_characters [OF ok this, of demo_stream_env openrouter_dialect "[]"] show ?thesis by simp
qed

text \<open>Each chunk is decoded by itself: a character that is cut by a chunk boundary is lost.  The
  same bytes in one chunk give the letter.\<close>

theorem cut_character_is_lost:
  "openrouter_stream demo_stream_env [Chunk (''data: caf'' @ [CHR 0xC3]), Chunk [CHR 0xA9, newline]]
     = ([TextDelta (''caf'' @ replacement @ replacement), TurnEnd (''caf'' @ replacement @ replacement) usage_default], Inr usage_default)
   \<and> openrouter_stream demo_stream_env [Chunk (''data: caf'' @ [CHR 0xC3, CHR 0xA9, newline])]
     = ([TextDelta (''caf'' @ [CHR 0xC3, CHR 0xA9]), TurnEnd (''caf'' @ [CHR 0xC3, CHR 0xA9]) usage_default], Inr usage_default)"
  by code_simp

text \<open>A chunk with a member \<open>error\<close> that is null ends the turn as an error.\<close>

theorem null_error_ends_turn:
  assumes "json_member ''error'' val = Some JNull" and "se_parse se data = Some val" and "data \<noteq> ''[DONE]''"
  shows "chat_line se cd (''data: '' @ data) s
    = Finished (st_sent s @ [TurnError (cd_error cd ''unknown error'')], Inl (cd_error cd ''unknown error''))"
proof -
  have "strip_prefix ''data: '' (''data: '' @ data) = Some data" by (simp add: strip_prefix_def)
  then show ?thesis using assms by (simp add: chat_line_def chat_value_def Let_def json_str_def)
qed

theorem null_error_ends_turn_witness:
  "chat_line (demo_stream_env\<lparr>se_parse := \<lambda>_. Some (JObj [(''error'', JNull), (''choices'', JArr [])])\<rparr>) openrouter_dialect
     (''data: '' @ ''{}'') stream_init
    = Finished ([TurnError ''OpenRouter API stream error: unknown error''], Inl ''OpenRouter API stream error: unknown error'')"
  using null_error_ends_turn [of "JObj [(''error'', JNull), (''choices'', JArr [])]"
      "demo_stream_env\<lparr>se_parse := \<lambda>_. Some (JObj [(''error'', JNull), (''choices'', JArr [])])\<rparr>" "''{}''" openrouter_dialect stream_init]
  by (simp add: openrouter_dialect_def stream_init_def)

section \<open>Anthropic blocks\<close>

fun run_events :: "json list \<Rightarrow> anthropic_state \<Rightarrow> (anthropic_state, turn_result) line_result" where
  "run_events [] s = Reading s"
| "run_events (v # vs) s = (case anthropic_event v s of Reading s' \<Rightarrow> run_events vs s' | r \<Rightarrow> r)"

definition event_type :: "json \<Rightarrow> string" where
  "event_type v = str_or [] (json_get ''type'' v)"

definition touches :: "nat \<Rightarrow> json \<Rightarrow> bool" where
  "touches idx v \<longleftrightarrow> block_index v = idx \<and> (event_type v = ''content_block_start'' \<or> event_type v = ''content_block_stop'')"

text \<open>The piece of the arguments of block \<open>idx\<close> that an event brings.\<close>

definition fragment :: "nat \<Rightarrow> json \<Rightarrow> string" where
  "fragment idx v =
     (if event_type v = ''content_block_delta'' \<and> block_index v = idx
         \<and> str_or [] (json_get ''type'' (json_get ''delta'' v)) = ''input_json_delta''
      then str_or [] (json_get ''partial_json'' (json_get ''delta'' v)) else [])"

definition same_block :: "block_state \<Rightarrow> block_state \<Rightarrow> bool" where
  "same_block b b' \<longleftrightarrow> bs_kind b' = bs_kind b \<and> bs_call_id b' = bs_call_id b \<and> bs_name b' = bs_name b"

lemma block_delta_block:
  "as_blocks s idx = Some b \<Longrightarrow>
     \<exists>b'. as_blocks (block_delta i d s) idx = Some b' \<and> same_block b b'
       \<and> bs_args_buf b' = bs_args_buf b @ (if i = idx \<and> str_or [] (json_get ''type'' d) = ''input_json_delta''
                                            then str_or [] (json_get ''partial_json'' d) else [])"
  by (auto simp: block_delta_def emit_event_def same_block_def Let_def split: option.splits)

lemma block_delta_sent: "\<exists>es. as_sent (block_delta i d s) = as_sent s @ es"
  by (auto simp: block_delta_def emit_event_def Let_def split: option.splits)

lemma stop_block_other: "idx \<noteq> i \<Longrightarrow> as_blocks (stop_block i s) idx = as_blocks s idx"
  by (auto simp: stop_block_def emit_event_def Let_def split: option.splits)

lemma stop_block_sent: "\<exists>es. as_sent (stop_block i s) = as_sent s @ es"
  by (auto simp: stop_block_def emit_event_def Let_def split: option.splits)

lemma event_keeps_block:
  assumes "as_blocks s idx = Some b" and "\<not> touches idx v" and "event_type v \<noteq> ''error''"
  shows "\<exists>s' b' es. anthropic_event v s = Reading s' \<and> as_blocks s' idx = Some b' \<and> same_block b b'
    \<and> bs_args_buf b' = bs_args_buf b @ fragment idx v \<and> as_sent s' = as_sent s @ es"
proof -
  have refl: "same_block b b" by (simp add: same_block_def)
  consider "event_type v = ''content_block_delta''" | "event_type v = ''content_block_stop''"
    | "event_type v \<noteq> ''content_block_delta''" "event_type v \<noteq> ''content_block_stop''" by blast
  then show ?thesis
  proof cases
    case 1
    then show ?thesis
      using block_delta_block [OF assms(1), of "block_index v" "json_get ''delta'' v"]
        block_delta_sent [of "block_index v" "json_get ''delta'' v" s]
      by (simp add: anthropic_event_def fragment_def event_type_def)
  next
    case 2
    then have "idx \<noteq> block_index v" using assms(2) by (auto simp: touches_def)
    with 2 show ?thesis
      using assms(1) stop_block_other [of idx "block_index v" s] stop_block_sent [of "block_index v" s] refl
      by (auto simp: anthropic_event_def fragment_def event_type_def)
  next
    case 3
    with assms refl show ?thesis
      by (auto simp: anthropic_event_def Let_def fragment_def event_type_def touches_def emit_event_def split: option.split)
  qed
qed

lemma events_keep_block:
  assumes "as_blocks s idx = Some b" and "\<forall>v\<in>set vs. \<not> touches idx v \<and> event_type v \<noteq> ''error''"
  shows "\<exists>s' b' es. run_events vs s = Reading s' \<and> as_blocks s' idx = Some b' \<and> same_block b b'
    \<and> bs_args_buf b' = bs_args_buf b @ concat (map (fragment idx) vs) \<and> as_sent s' = as_sent s @ es"
  using assms
proof (induction vs arbitrary: s b)
  case (Cons v vs)
  from Cons.prems event_keeps_block [of s idx b v] obtain s1 b1 es where 1: "anthropic_event v s = Reading s1"
      "as_blocks s1 idx = Some b1" "same_block b b1" "bs_args_buf b1 = bs_args_buf b @ fragment idx v" "as_sent s1 = as_sent s @ es"
    by auto
  from Cons.IH [OF 1(2)] Cons.prems obtain s2 b2 es2 where "run_events vs s1 = Reading s2" "as_blocks s2 idx = Some b2"
      "same_block b1 b2" "bs_args_buf b2 = bs_args_buf b1 @ concat (map (fragment idx) vs)" "as_sent s2 = as_sent s1 @ es2"
    by auto
  with 1 show ?case by (auto simp: same_block_def)
qed (auto simp: same_block_def)

lemma run_events_append:
  "run_events (us @ vs) s = (case run_events us s of Reading s' \<Rightarrow> run_events vs s' | r \<Rightarrow> r)"
  by (induction us arbitrary: s) (auto split: line_result.splits)

text \<open>(C13) A tool call is put together from the fragments of its own block, in their order, whatever
  events of other blocks come in between.\<close>

theorem call_assembled_from_fragments:
  assumes "event_type start = ''content_block_start''" and "block_index start = idx"
    and "start_block (json_get ''content_block'' start)
      = default_block\<lparr>bs_kind := ToolUseBlock, bs_call_id := i, bs_name := n\<rparr>" and "n \<noteq> []"
    and "\<forall>v\<in>set vs. \<not> touches idx v \<and> event_type v \<noteq> ''error''"
    and "event_type stop = ''content_block_stop''" and "block_index stop = idx"
  shows "\<exists>s' es. run_events (start # vs @ [stop]) s = Reading s' \<and> as_blocks s' idx = None
    \<and> as_sent s' = as_sent s @ es
        @ [ToolCallComplete \<lparr>tc_call_id = i, tc_name = n, tc_args_json = concat (map (fragment idx) vs)\<rparr>]"
proof -
  let ?b = "default_block\<lparr>bs_kind := ToolUseBlock, bs_call_id := i, bs_name := n\<rparr>"
  let ?s = "s\<lparr>as_blocks := (as_blocks s)(idx \<mapsto> ?b)\<rparr>"
  have start: "anthropic_event start s = Reading ?s"
    using assms(1-3) by (simp add: anthropic_event_def event_type_def)
  obtain s1 b1 es where mid: "run_events vs ?s = Reading s1" "as_blocks s1 idx = Some b1" "same_block ?b b1"
      "bs_args_buf b1 = concat (map (fragment idx) vs)" "as_sent s1 = as_sent s @ es"
    using events_keep_block [of ?s idx ?b vs] assms(5) by (auto simp: default_block_def)
  have "anthropic_event stop s1 = Reading (stop_block idx s1)"
    using assms(6,7) by (simp add: anthropic_event_def event_type_def)
  moreover have "as_sent (stop_block idx s1) = as_sent s1
      @ [ToolCallComplete \<lparr>tc_call_id = i, tc_name = n, tc_args_json = concat (map (fragment idx) vs)\<rparr>]"
    "as_blocks (stop_block idx s1) idx = None"
    using mid assms(4) by (simp_all add: stop_block_def emit_event_def same_block_def Let_def)
  ultimately show ?thesis using start mid by (simp add: run_events_append)
qed

definition demo_event :: "string \<Rightarrow> nat \<Rightarrow> string \<Rightarrow> json \<Rightarrow> json" where
  "demo_event t i k v = JObj [(''type'', JStr t), (''index'', JNum (show_nat i)), (k, v)]"

definition demo_start :: "nat \<Rightarrow> string \<Rightarrow> json" where
  "demo_start i name = demo_event ''content_block_start'' i ''content_block''
     (JObj [(''type'', JStr ''tool_use''), (''id'', JStr ''t1''), (''name'', JStr name)])"

definition demo_delta :: "nat \<Rightarrow> string \<Rightarrow> json" where
  "demo_delta i part = demo_event ''content_block_delta'' i ''delta''
     (JObj [(''type'', JStr ''input_json_delta''), (''partial_json'', JStr part)])"

definition demo_stop :: "nat \<Rightarrow> json" where
  "demo_stop i = demo_event ''content_block_stop'' i ''x'' JNull"

theorem call_assembled_from_fragments_witness:
  "\<exists>s' es. run_events (demo_start 1 ''fs_cat'' # [demo_delta 1 ''{'', demo_delta 2 ''x'', demo_delta 1 ''}''] @ [demo_stop 1]) anthropic_init
      = Reading s' \<and> as_sent s' = es @ [ToolCallComplete \<lparr>tc_call_id = ''t1'', tc_name = ''fs_cat'', tc_args_json = ''{}''\<rparr>]"
proof -
  let ?vs = "[demo_delta 1 ''{'', demo_delta 2 ''x'', demo_delta 1 ''}'']"
  have ev: "event_type (demo_start 1 ''fs_cat'') = ''content_block_start''" "block_index (demo_start 1 ''fs_cat'') = 1"
    "event_type (demo_stop 1) = ''content_block_stop''" "block_index (demo_stop 1) = 1" by code_simp+
  have sb: "start_block (json_get ''content_block'' (demo_start 1 ''fs_cat''))
      = default_block\<lparr>bs_kind := ToolUseBlock, bs_call_id := ''t1'', bs_name := ''fs_cat''\<rparr>" by code_simp
  have mid: "\<forall>v\<in>set ?vs. \<not> touches 1 v \<and> event_type v \<noteq> ''error''" by code_simp
  have fr: "concat (map (fragment 1) ?vs) = ''{}''" by code_simp
  from call_assembled_from_fragments [OF ev(1,2) sb _ mid ev(3,4), of anthropic_init] fr
  show ?thesis by (auto simp: anthropic_init_def)
qed

text \<open>A parser that knows the three events of one call.\<close>

definition demo_call_env :: stream_env where
  "demo_call_env = demo_stream_env\<lparr>se_parse := (\<lambda>s.
     if s = ''start'' then Some (demo_start 0 ''fs_write'') else if s = ''delta'' then Some (demo_delta 0 ''{}'')
     else if s = ''stop'' then Some (demo_stop 0) else None)\<rparr>"

definition demo_line :: "string \<Rightarrow> wall_item" where
  "demo_line s = Item (Chunk (''data: '' @ s @ [newline]))"

text \<open>A stream that closes before the message is complete is taken for a complete turn: the call
  whose block was not closed is dropped without an error.\<close>

theorem truncated_answer_accepted:
  "anthropic_stream demo_call_env [demo_line ''start'', demo_line ''delta'']
     = ([], Inr usage_default)
   \<and> anthropic_stream demo_call_env [demo_line ''start'', demo_line ''delta'', demo_line ''stop'']
     = ([ToolCallComplete \<lparr>tc_call_id = ''t1'', tc_name = ''fs_write'', tc_args_json = ''{}''\<rparr>], Inr usage_default)"
  by code_simp

section \<open>The kept WebSocket\<close>

lemma open_session: "wss_open st \<Longrightarrow> st\<lparr>wss_open := True\<rparr> = st"
  by (cases st) simp

lemma attempt_completes:
  assumes "wss_open st"
    and "send_and_read env se (request (drop (continued_from st messages) messages) (wss_previous st)) w = ((es, WsTurn u True i), w1)"
  shows "ws_attempt env se we api_key request messages retried st sent w
    = ((sent @ es, Some (Inr u)), st\<lparr>wss_previous := i, wss_messages_len := length messages\<rparr>, w1)"
  by (subst ws_attempt.simps) (simp add: assms open_session)

lemma attempt_lost:
  assumes "wss_open st"
    and "send_and_read env se (request (drop (continued_from st messages) messages) (wss_previous st)) w
      = ((es, WsFailure (Api (Some ''previous_response_not_found'') detail)), w1)"
  shows "ws_attempt env se we api_key request messages False st sent w
    = ws_attempt env se we api_key request messages True (forget_previous st) (sent @ es) w1"
  by (subst ws_attempt.simps) (simp add: assms open_session recoverable_def)

text \<open>(C22) When the server has lost the response that a turn continues from, the turn is asked again
  with the whole conversation, and the session is as after a turn that never continued.\<close>

theorem lost_response_is_resent:
  assumes "wss_open st"
    and "send_and_read env se (responses_ws_request we system (drop (continued_from st messages) messages) tools model max_tokens
           (wss_previous st)) w = ((es, WsFailure (Api (Some ''previous_response_not_found'') detail)), w1)"
    and "send_and_read env se (responses_ws_request we system messages tools model max_tokens None) w1
           = ((es', WsTurn u True i), w2)"
  shows "ws_persistent_turn env se we api_key model system messages tools max_tokens st w
    = ((es @ es', Some (Inr u)), \<lparr>wss_open = True, wss_previous = i, wss_messages_len = length messages\<rparr>, w2)"
proof -
  let ?request = "\<lambda>ms previous. responses_ws_request we system ms tools model max_tokens previous"
  have fresh: "wss_open (forget_previous st)" "wss_previous (forget_previous st) = None"
    "continued_from (forget_previous st) messages = 0" using assms(1) by (simp_all add: forget_previous_def continued_from_def)
  have "ws_attempt env se we api_key ?request messages False st [] w
      = ws_attempt env se we api_key ?request messages True (forget_previous st) ([] @ es) w1"
    using attempt_lost [OF assms(1), of env se ?request messages w es detail w1] assms(2) by blast
  also have "\<dots> = ((([] @ es) @ es', Some (Inr u)), (forget_previous st)\<lparr>wss_previous := i, wss_messages_len := length messages\<rparr>, w2)"
    by (rule attempt_completes [OF fresh(1)]) (simp add: fresh assms(3))
  finally show ?thesis using assms(1) by (simp add: ws_persistent_turn_def forget_previous_def)
qed

text \<open>A WebSocket with one answer for each text that is sent, which keeps the requests it got.\<close>

definition demo_ws :: "(json list \<times> ws_item list list) ws_env" where
  "demo_ws = \<lparr>ws_connect = (\<lambda>_ w. (Inr (), w)), ws_send = (\<lambda>v (sent, answers). (None, (sent @ [v], answers))),
     ws_items = (\<lambda>(sent, answers). case answers of [] \<Rightarrow> ([], (sent, [])) | a # as \<Rightarrow> (a, (sent, as))),
     ws_closed = (\<lambda>w. w)\<rparr>"

definition demo_ws_parse :: stream_env where
  "demo_ws_parse = demo_stream_env\<lparr>se_parse := (\<lambda>s.
     if s = ''lost'' then Some (JObj [(''type'', JStr ''error''),
       (''error'', JObj [(''code'', JStr ''previous_response_not_found''), (''message'', JStr ''gone'')])])
     else Some (JObj [(''type'', JStr ''response.completed''), (''response'', JObj [(''id'', JStr s)])]))\<rparr>"

definition demo_wire :: wire_env where
  "demo_wire = \<lparr>we_base64 = (\<lambda>s. s), we_parse = (\<lambda>_. None), we_print = (\<lambda>_. [])\<rparr>"

definition demo_session :: ws_state where
  "demo_session = \<lparr>wss_open = True, wss_previous = Some ''r1'', wss_messages_len = 1\<rparr>"

theorem lost_response_is_resent_witness:
  "fst (snd (ws_persistent_turn demo_ws demo_ws_parse demo_wire ''k'' ''m'' ''s'' [User ''a'' [], Assistant ''b'' [], User ''c'' []] [] 10
      demo_session ([], [[WsText ''lost''], [WsText ''r2'']])))
    = \<lparr>wss_open = True, wss_previous = Some ''r2'', wss_messages_len = 3\<rparr>"
proof -
  let ?ms = "[User ''a'' [], Assistant ''b'' [], User ''c'' []]"
  let ?q1 = "responses_ws_request demo_wire ''s'' (drop (continued_from demo_session ?ms) ?ms) [] ''m'' 10 (wss_previous demo_session)"
  let ?q2 = "responses_ws_request demo_wire ''s'' ?ms [] ''m'' 10 None"
  have hs: "handle_response_event demo_ws_parse ''lost'' stream_init
      = (stream_init, EventApiError (Some ''previous_response_not_found'') ''previous_response_not_found: gone'')"
    "handle_response_event demo_ws_parse ''r2'' stream_init
      = (send (TurnEnd [] usage_default) stream_init, EventCompleted (Some ''r2''))" by code_simp+
  have ev: "read_ws_turn demo_ws_parse stream_init [WsText ''lost'']
      = ([], WsFailure (Api (Some ''previous_response_not_found'') ''previous_response_not_found: gone''))"
    "read_ws_turn demo_ws_parse stream_init [WsText ''r2''] = ([TurnEnd [] usage_default], WsTurn usage_default True (Some ''r2''))"
    by (subst read_ws_turn.simps, subst hs, simp add: stream_init_def send_def)+
  have 1: "send_and_read demo_ws demo_ws_parse ?q1 ([], [[WsText ''lost''], [WsText ''r2'']])
      = (([], WsFailure (Api (Some ''previous_response_not_found'') ''previous_response_not_found: gone'')), ([?q1], [[WsText ''r2'']]))"
    by (simp add: send_and_read_def demo_ws_def ev del: read_ws_turn.simps)
  have 2: "send_and_read demo_ws demo_ws_parse ?q2 ([?q1], [[WsText ''r2'']])
      = (([TurnEnd [] usage_default], WsTurn usage_default True (Some ''r2'')), ([?q1, ?q2], []))"
    by (simp add: send_and_read_def demo_ws_def ev del: read_ws_turn.simps)
  have "wss_open demo_session" by (simp add: demo_session_def)
  from lost_response_is_resent [OF this 1 2] show ?thesis by simp
qed

text \<open>A usage object without the counters makes the task panic.\<close>

theorem usage_without_counters_panics:
  "handle_response_event (demo_ws_parse\<lparr>se_parse := \<lambda>_. Some (JObj [(''type'', JStr ''response.completed''),
      (''response'', JObj [(''id'', JStr ''r1''), (''usage'', JObj [(''total_tokens'', JNum ''7'')])])])\<rparr>) [] stream_init
    = (stream_init, EventPanic)"
  by code_simp

text \<open>A turn that continues from a response repeats that response: the input begins with the items
  of the assistant's message that the server produced itself.\<close>

theorem continuation_repeats_answer:
  assumes "wss_previous st = Some i" and "wss_messages_len st = length messages"
  shows "messages_to_responses_input we
      (drop (continued_from st (messages @ Assistant content calls # results)) (messages @ Assistant content calls # results))
    = (if content \<noteq> [] then [role_message ''assistant'' (JStr content)] else []) @ map function_call calls
      @ messages_to_responses_input we results"
  using assms by (simp add: continued_from_def messages_to_responses_input_def)

theorem continuation_repeats_answer_witness:
  "messages_to_responses_input demo_wire
      (drop (continued_from demo_session ([User ''a'' []] @ Assistant ''b'' [] # [User ''c'' []])) ([User ''a'' []] @ Assistant ''b'' [] # [User ''c'' []]))
    = [role_message ''assistant'' (JStr ''b''), role_message ''user'' (JStr ''c'')]"
  using continuation_repeats_answer [of demo_session "''r1''" "[User ''a'' []]" demo_wire "''b''" "[]" "[User ''c'' []]"]
  by (simp add: demo_session_def messages_to_responses_input_def url_content_def)

end
