(* ===== verification/Code_Parse.thy ===== *)
theory Code_Parse
  imports Encoding
begin

text \<open>
  Syntax trees and the symbols of a source file (\<open>tools/impls/code/parse.rs\<close>).

  A tree is what the tree-sitter parser gives: nodes with a kind, byte range, start position and
  row of the end, the marks for error and missing nodes, and children that may have a field name.
  The parser itself is a parameter of the theories that use it.
\<close>

datatype language = Rust | TypeScript | Python | Go | JsonLang

definition file_name_of :: "string \<Rightarrow> string" where
  "file_name_of path = last (split_char (CHR ''/'') path)"

text \<open>\<open>Path::extension\<close>: what is behind the last dot of a file name that does not only start with it.\<close>

definition extension :: "string \<Rightarrow> string option" where
  "extension path =
     (let parts = split_char (CHR ''.'') (file_name_of path) in
      if length parts < 2 \<or> (length parts = 2 \<and> hd parts = []) \<or> file_name_of path = ''..'' then None
      else Some (last parts))"

definition language_of_path :: "string \<Rightarrow> language option" where
  "language_of_path path =
     (case extension path of
        None \<Rightarrow> None
      | Some e \<Rightarrow>
          if e = ''rs'' then Some Rust
          else if e \<in> {''ts'', ''tsx'', ''js'', ''jsx''} then Some TypeScript
          else if e = ''py'' then Some Python
          else if e = ''go'' then Some Go
          else if e = ''json'' then Some JsonLang
          else None)"

datatype symbol_kind =
    KFunction | KStruct | KEnum | KTrait | KImpl | KClass | KInterface | KMethod | KModule | KConstant | KVariable | KType

record parsed_symbol =
  ps_name :: string
  ps_kind :: symbol_kind
  ps_line_start :: nat
  ps_line_end :: nat
  ps_byte_start :: nat
  ps_byte_end :: nat

record node_info =
  ni_kind :: string
  ni_start :: nat
  ni_end :: nat
  ni_row :: nat
  ni_column :: nat
  ni_end_row :: nat
  ni_error :: bool
  ni_missing :: bool

datatype syntax_node = Node node_info "(string option \<times> syntax_node) list"

fun info :: "syntax_node \<Rightarrow> node_info" where
  "info (Node i cs) = i"

fun node_children :: "syntax_node \<Rightarrow> syntax_node list" where
  "node_children (Node i cs) = map snd cs"

fun child_by_field :: "string \<Rightarrow> syntax_node \<Rightarrow> syntax_node option" where
  "child_by_field f (Node i cs) = map_option snd (find (\<lambda>c. fst c = Some f) cs)"

definition child_by_kind :: "syntax_node \<Rightarrow> string \<Rightarrow> syntax_node option" where
  "child_by_kind n k = find (\<lambda>c. ni_kind (info c) = k) (node_children n)"

text \<open>A node in the tree with the kinds of its parent and of the parent of that.\<close>

type_synonym placed = "string option \<times> string option \<times> syntax_node"

definition place_children :: "placed \<Rightarrow> placed list" where
  "place_children p = (case p of (parent, _, n) \<Rightarrow> map (\<lambda>c. (Some (ni_kind (info n)), parent, c)) (node_children n))"

section \<open>Classification\<close>

definition node_text :: "string \<Rightarrow> syntax_node \<Rightarrow> string option" where
  "node_text source n =
     (let s = take (ni_end (info n) - ni_start (info n)) (drop (ni_start (info n)) source) in
      if utf8_ok s then Some s else None)"

definition child_text :: "syntax_node \<Rightarrow> string \<Rightarrow> string \<Rightarrow> string option" where
  "child_text n f source = (case child_by_field f n of None \<Rightarrow> None | Some c \<Rightarrow> node_text source c)"

definition named :: "syntax_node \<Rightarrow> string \<Rightarrow> symbol_kind \<Rightarrow> (string \<times> symbol_kind) option" where
  "named n source k = map_option (\<lambda>name. (name, k)) (child_text n ''name'' source)"

definition classify_rust :: "syntax_node \<Rightarrow> string \<Rightarrow> (string \<times> symbol_kind) option" where
  "classify_rust n source =
     (let kind = ni_kind (info n) in
      if kind = ''function_item'' then named n source KFunction
      else if kind = ''struct_item'' then named n source KStruct
      else if kind = ''enum_item'' then named n source KEnum
      else if kind = ''trait_item'' then named n source KTrait
      else if kind = ''impl_item'' then
        Some (case child_by_kind n ''type_identifier'' of
                Some c \<Rightarrow> (case node_text source c of Some s \<Rightarrow> s | None \<Rightarrow> ''impl'')
              | None \<Rightarrow> ''impl'', KImpl)
      else if kind = ''const_item'' then named n source KConstant
      else if kind = ''type_item'' then named n source KType
      else if kind = ''mod_item'' then named n source KModule
      else None)"

definition classify_typescript :: "string option \<Rightarrow> syntax_node \<Rightarrow> string \<Rightarrow> (string \<times> symbol_kind) option" where
  "classify_typescript parent n source =
     (let kind = ni_kind (info n) in
      if kind = ''function_declaration'' then named n source KFunction
      else if kind = ''class_declaration'' then named n source KClass
      else if kind = ''interface_declaration'' then named n source KInterface
      else if kind = ''method_definition'' \<or> kind = ''public_field_definition'' then named n source KMethod
      else if kind = ''enum_declaration'' then named n source KEnum
      else if kind = ''type_alias_declaration'' then named n source KType
      else if kind = ''lexical_declaration'' \<or> kind = ''variable_declaration'' then
        (if parent = Some ''program'' \<or> parent = Some ''export_statement''
         then (case child_by_kind n ''variable_declarator'' of Some d \<Rightarrow> named d source KVariable | None \<Rightarrow> None)
         else None)
      else None)"

definition classify_python ::
  "string option \<Rightarrow> string option \<Rightarrow> syntax_node \<Rightarrow> string \<Rightarrow> (string \<times> symbol_kind) option" where
  "classify_python parent grandparent n source =
     (let kind = ni_kind (info n) in
      if kind = ''function_definition'' then
        named n source (if parent = Some ''block'' \<and> grandparent = Some ''class_definition'' then KMethod else KFunction)
      else if kind = ''class_definition'' then named n source KClass
      else None)"

definition classify_go :: "syntax_node \<Rightarrow> string \<Rightarrow> (string \<times> symbol_kind) option" where
  "classify_go n source =
     (let kind = ni_kind (info n) in
      if kind = ''function_declaration'' then named n source KFunction
      else if kind = ''method_declaration'' then named n source KMethod
      else if kind = ''type_spec'' then
        named n source
          (if child_by_kind n ''struct_type'' \<noteq> None then KStruct
           else if child_by_kind n ''interface_type'' \<noteq> None then KInterface else KType)
      else None)"

fun classify_node :: "language \<Rightarrow> placed \<Rightarrow> string \<Rightarrow> (string \<times> symbol_kind) option" where
  "classify_node Rust (parent, grandparent, n) source = classify_rust n source"
| "classify_node TypeScript (parent, grandparent, n) source = classify_typescript parent n source"
| "classify_node Python (parent, grandparent, n) source = classify_python parent grandparent n source"
| "classify_node Go (parent, grandparent, n) source = classify_go n source"
| "classify_node JsonLang (parent, grandparent, n) source = None"

definition symbol_at :: "language \<Rightarrow> string \<Rightarrow> placed \<Rightarrow> parsed_symbol list" where
  "symbol_at lang source p =
     (case classify_node lang p source of
        None \<Rightarrow> []
      | Some (name, kind) \<Rightarrow>
          (let i = info (snd (snd p)) in
           [\<lparr>ps_name = name, ps_kind = kind, ps_line_start = ni_row i + 1, ps_line_end = ni_end_row i + 1,
             ps_byte_start = ni_start i, ps_byte_end = ni_end i\<rparr>]))"

section \<open>Walking the tree\<close>

fun node_size :: "syntax_node \<Rightarrow> nat" where
  "node_size (Node i cs) = Suc (sum_list (map (node_size \<circ> snd) cs))"

lemma children_size: "sum_list (map (node_size \<circ> (\<lambda>p. snd (snd p))) (place_children p)) < node_size (snd (snd p))"
  by (cases p; cases "snd (snd p)") (simp add: place_children_def comp_def)

text \<open>The walk with an explicit stack.\<close>

function walk_symbols :: "language \<Rightarrow> string \<Rightarrow> placed list \<Rightarrow> parsed_symbol list" where
  "walk_symbols lang source [] = []"
| "walk_symbols lang source (p # stack) =
     symbol_at lang source p @ walk_symbols lang source (place_children p @ stack)"
  by pat_completeness auto
termination
  by (relation "measure (\<lambda>(_, _, stack). sum_list (map (node_size \<circ> (\<lambda>p. snd (snd p))) stack))")
    (use children_size in auto)

definition extract_symbols :: "syntax_node \<Rightarrow> string \<Rightarrow> language \<Rightarrow> parsed_symbol list" where
  "extract_symbols root source lang = walk_symbols lang source [(None, None, root)]"

text \<open>The nodes in document order.\<close>

function placed_nodes :: "placed \<Rightarrow> placed list" where
  "placed_nodes p = p # concat (map placed_nodes (place_children p))"
  by pat_completeness auto
termination
proof (relation "measure (\<lambda>p. node_size (snd (snd p)))")
  fix p x :: placed
  assume "x \<in> set (place_children p)"
  then have "node_size (snd (snd x)) \<le> sum_list (map (node_size \<circ> (\<lambda>p. snd (snd p))) (place_children p))"
    using member_le_sum_list [of "(node_size \<circ> (\<lambda>p. snd (snd p))) x" "map (node_size \<circ> (\<lambda>p. snd (snd p))) (place_children p)"]
    by auto
  then show "(x, p) \<in> measure (\<lambda>p. node_size (snd (snd p)))" using children_size [of p] by simp
qed simp

declare placed_nodes.simps [simp del]

text \<open>The walk reports the symbols of all nodes in document order.\<close>

lemma concat_maps: "concat (map f (concat (map g xs))) = concat (map (\<lambda>x. concat (map f (g x))) xs)"
  by (induction xs) auto

lemma walk_symbols_stack:
  "walk_symbols lang source stack = concat (map (\<lambda>p. concat (map (symbol_at lang source) (placed_nodes p))) stack)"
proof (induction lang source stack rule: walk_symbols.induct)
  case (2 lang source p stack)
  have "concat (map (symbol_at lang source) (placed_nodes p))
      = symbol_at lang source p @ concat (map (\<lambda>p. concat (map (symbol_at lang source) (placed_nodes p))) (place_children p))"
    by (subst placed_nodes.simps) (simp add: concat_maps)
  then show ?case using 2 by simp
qed simp

lemma extract_symbols_in_order:
  "extract_symbols root source lang = concat (map (symbol_at lang source) (placed_nodes (None, None, root)))"
  by (simp add: extract_symbols_def walk_symbols_stack)

end
