(* ===== verification/Code_Edit.thy ===== *)
theory Code_Edit
  imports Code_Parse Tool_Dispatch
begin

text \<open>
  Editing a source file (\<open>tools/impls/code/edit.rs\<close>): exact and fuzzy search and replace, replacing
  the body of a symbol, patches and whole files, with the check of the syntax before writing.

  The file is \<open>None\<close> when it does not exist, otherwise its text or the error of reading it.  The
  parser, the patch and diff libraries and standard input are the record \<open>edit_env\<close>.
\<close>

datatype edit_error =
    EditNotFound string
  | ValidationFailed string
  | FormatError string
  | SymbolNotFound string
  | EditIo string
  | PatchError string
  | EditPanicked

fun edit_error_text :: "edit_error \<Rightarrow> string" where
  "edit_error_text (EditNotFound p) = ''file not found: '' @ p"
| "edit_error_text (ValidationFailed m) = ''syntax validation failed: '' @ m"
| "edit_error_text (FormatError m) = ''edit format error: '' @ m"
| "edit_error_text (SymbolNotFound n) = ''symbol not found: '' @ n"
| "edit_error_text (EditIo e) = ''IO error: '' @ e"
| "edit_error_text (PatchError m) = ''patch error: '' @ m"
| "edit_error_text EditPanicked = []"

type_synonym edit_file = "(string + string) option"

text \<open>\<open>ee_write_failure\<close>: the error of the write, and what it leaves in the file.\<close>

record edit_env =
  ee_parse :: "string \<Rightarrow> language \<Rightarrow> string + syntax_node"
  ee_stdin :: "string + string"
  ee_patch_error :: "string \<Rightarrow> string option"
  ee_apply_patch :: "string \<Rightarrow> string \<Rightarrow> string + string"
  ee_diff :: "string \<Rightarrow> string \<Rightarrow> string \<Rightarrow> string"
  ee_write_failure :: "(string \<times> edit_file) option"
  ee_output :: output_env

record compute_result =
  co_content :: string
  co_replacements :: "nat option"

section \<open>Search and replace\<close>

text \<open>\<open>replacen(_, _, 1)\<close> and the number of \<open>matches\<close>.\<close>

definition replace_first :: "string \<Rightarrow> string \<Rightarrow> string \<Rightarrow> string" where
  "replace_first p r s = (case find_sub p s of None \<Rightarrow> s | Some i \<Rightarrow> take i s @ r @ drop (i + length p) s)"

definition match_count :: "string \<Rightarrow> string \<Rightarrow> nat" where
  "match_count p s = length (split_str p s) - 1"

definition replace_exact :: "string \<Rightarrow> string \<Rightarrow> string \<Rightarrow> bool \<Rightarrow> compute_result" where
  "replace_exact original search with all =
     (if all then \<lparr>co_content = replace_str search with original, co_replacements = Some (match_count search original)\<rparr>
      else \<lparr>co_content = replace_first search with original, co_replacements = None\<rparr>)"

text \<open>The similarity of a line: equal characters at equal positions, of the longer length.  The code
  divides floating-point numbers; fractions of line lengths below \<open>2 ^ 26\<close> compare alike.\<close>

definition similarity :: "string \<Rightarrow> string \<Rightarrow> nat \<times> nat" where
  "similarity search line =
     (length (filter (\<lambda>(a, b). a = b) (zip (chars line) (chars search))),
      max (max (char_count line) (char_count search)) 1)"

definition score_less :: "nat \<times> nat \<Rightarrow> nat \<times> nat \<Rightarrow> bool" where
  "score_less a b \<longleftrightarrow> fst a * snd b < fst b * snd a"

text \<open>\<open>max_by\<close> gives the last of several greatest elements.\<close>

definition better_line :: "(nat \<times> nat \<times> nat) option \<Rightarrow> nat \<times> nat \<times> nat \<Rightarrow> (nat \<times> nat \<times> nat) option" where
  "better_line best cand =
     (case best of None \<Rightarrow> Some cand | Some b \<Rightarrow> if score_less (snd cand) (snd b) then best else Some cand)"

definition best_line :: "string \<Rightarrow> string list \<Rightarrow> (nat \<times> nat \<times> nat) option" where
  "best_line search ls = foldl better_line None (List.enumerate 0 (map (similarity search) ls))"

definition replace_fuzzy :: "string \<Rightarrow> string \<Rightarrow> string \<Rightarrow> compute_result option" where
  "replace_fuzzy original search with =
     (let ls = str_lines original in
      if length (str_lines search) = 1 \<and> ls \<noteq> [] then
        (case best_line search ls of
           None \<Rightarrow> None
         | Some (idx, m, n) \<Rightarrow>
             if n \<le> 2 * m then Some \<lparr>co_content = join [newline] (ls[idx := with]), co_replacements = None\<rparr> else None)
      else None)"

definition backslash :: string where
  "backslash = [CHR 0x5C]"

definition not_found_text :: string where
  "not_found_text = ''search text not found in file (exact match failed, fuzzy match below similarity threshold)''"

definition apply_search_replace :: "string \<Rightarrow> string \<Rightarrow> string \<Rightarrow> bool \<Rightarrow> edit_error + compute_result" where
  "apply_search_replace original search with all =
     (if search = [] then Inl (FormatError ''search text cannot be empty'')
      else if contains_sub search original then Inr (replace_exact original search with all)
      else (case replace_fuzzy original search with of
              Some r \<Rightarrow> Inr r
            | None \<Rightarrow>
                (let normalized = replace_str (backslash @ backslash) backslash search in
                 if normalized \<noteq> search \<and> contains_sub normalized original
                 then Inr (replace_exact original normalized with all)
                 else Inl (FormatError not_found_text))))"

section \<open>Symbols\<close>

text \<open>\<open>&s[a..b]\<close>, which panics off a character boundary.\<close>

definition byte_slice :: "string \<Rightarrow> nat \<Rightarrow> nat \<Rightarrow> string option" where
  "byte_slice s a b =
     (if a \<le> b \<and> b \<le> length s \<and> at_char_boundary s a \<and> at_char_boundary s b then Some (take (b - a) (drop a s)) else None)"

lemma nodes_size: "sum_list (map node_size (node_children n)) < node_size n"
  by (cases n) (simp add: comp_def)

function body_walk :: "nat \<Rightarrow> syntax_node list \<Rightarrow> syntax_node option \<Rightarrow> syntax_node option" where
  "body_walk target [] best = best"
| "body_walk target (n # stack) best =
     body_walk target
       ((if ni_start (info n) \<le> target \<and> target < ni_end (info n) then node_children n else []) @ stack)
       (if ni_start (info n) = target \<and> child_by_field ''body'' n \<noteq> None then Some n else best)"
  by pat_completeness auto
termination
  by (relation "measure (\<lambda>(_, stack, _). sum_list (map node_size stack))")
    (use nodes_size in \<open>auto simp: less_imp_le intro: le_less_trans\<close>)

definition find_body_node :: "syntax_node \<Rightarrow> nat \<Rightarrow> syntax_node option" where
  "find_body_node root target =
     (case body_walk target [root] None of None \<Rightarrow> None | Some n \<Rightarrow> child_by_field ''body'' n)"

text \<open>The blanks between the start of the line and the symbol; none on the first line.\<close>

definition indent_of :: "string \<Rightarrow> string" where
  "indent_of before =
     (if newline \<in> set before
      then takeWhile (\<lambda>c. c = CHR '' '' \<or> c = CHR 0x09) (rev (takeWhile (\<lambda>c. c \<noteq> newline) (rev before)))
      else [])"

definition braced :: "string \<Rightarrow> string \<Rightarrow> string \<Rightarrow> string" where
  "braced signature new_body indent = signature @ [newline] @ new_body @ [newline] @ indent @ ''}''"

definition no_body_text :: string where
  "no_body_text = ''symbol has no body block (no '' @ [CHR 0x27] @ ''{'' @ [CHR 0x27]
     @ '' found) '' @ [CHR 0xE2, CHR 0x80, CHR 0x94] @ '' use --search/--replace instead''"

definition new_symbol_text ::
  "language \<Rightarrow> syntax_node \<Rightarrow> parsed_symbol \<Rightarrow> string \<Rightarrow> string \<Rightarrow> string \<Rightarrow> edit_error + string" where
  "new_symbol_text lang root target symbol_text indent new_body =
     (case find_body_node root (ps_byte_start target) of
        Some body \<Rightarrow>
          (let body_start = ni_start (info body) - ps_byte_start target in
           if lang = Python then
             (case byte_slice symbol_text 0 body_start of
                None \<Rightarrow> Inl EditPanicked | Some signature \<Rightarrow> Inr (signature @ new_body))
           else
             (case byte_slice symbol_text 0 (body_start + 1) of
                None \<Rightarrow> Inl EditPanicked | Some signature \<Rightarrow> Inr (braced signature new_body indent)))
      | None \<Rightarrow>
          (case find_sub ''{'' symbol_text of
             None \<Rightarrow> Inl (FormatError no_body_text)
           | Some i \<Rightarrow> Inr (braced (take (i + 1) symbol_text) new_body indent)))"

definition out_of_bounds_text :: "parsed_symbol \<Rightarrow> string \<Rightarrow> string" where
  "out_of_bounds_text target original =
     ''symbol byte range '' @ show_nat (ps_byte_start target) @ ''..'' @ show_nat (ps_byte_end target)
     @ '' out of bounds for file of '' @ show_nat (length original) @ '' bytes''"

definition apply_ast_node :: "edit_env \<Rightarrow> string \<Rightarrow> string \<Rightarrow> string \<Rightarrow> string \<Rightarrow> edit_error + string" where
  "apply_ast_node ee path original symbol_name new_body =
     (case language_of_path path of
        None \<Rightarrow> Inl (FormatError ''unsupported language for AST edit'')
      | Some lang \<Rightarrow>
          (case ee_parse ee original lang of
             Inl e \<Rightarrow> Inl (FormatError (''parse failed: '' @ e))
           | Inr root \<Rightarrow>
               (case find (\<lambda>s. ps_name s = symbol_name) (extract_symbols root original lang) of
                  None \<Rightarrow> Inl (SymbolNotFound symbol_name)
                | Some target \<Rightarrow>
                    if ps_byte_start target > length original \<or> ps_byte_end target > length original
                       \<or> ps_byte_start target > ps_byte_end target
                    then Inl (FormatError (out_of_bounds_text target original))
                    else (case byte_slice original (ps_byte_start target) (ps_byte_end target) of
                            None \<Rightarrow> Inl EditPanicked
                          | Some symbol_text \<Rightarrow>
                              bind_res (new_symbol_text lang root target symbol_text
                                          (indent_of (take (ps_byte_start target) original)) new_body)
                                (\<lambda>new_symbol. Inr (take (ps_byte_start target) original @ new_symbol
                                   @ drop (ps_byte_end target) original))))))"

section \<open>Patches, whole files and the choice of a format\<close>

definition read_stdin :: "edit_env \<Rightarrow> edit_error + string" where
  "read_stdin ee = (case ee_stdin ee of Inl e \<Rightarrow> Inl (EditIo e) | Inr s \<Rightarrow> Inr s)"

definition apply_unified_diff :: "edit_env \<Rightarrow> string \<Rightarrow> edit_error + string" where
  "apply_unified_diff ee original =
     bind_res (read_stdin ee) (\<lambda>patch.
       case ee_patch_error ee patch of
         Some e \<Rightarrow> Inl (PatchError (''invalid patch: '' @ e))
       | None \<Rightarrow> (case ee_apply_patch ee original patch of
                    Inl e \<Rightarrow> Inl (PatchError (''patch apply failed: '' @ e)) | Inr s \<Rightarrow> Inr s))"

definition whole :: "string \<Rightarrow> edit_error + compute_result" where
  "whole c = Inr \<lparr>co_content = c, co_replacements = None\<rparr>"

fun compute_new_content :: "edit_env \<Rightarrow> string \<Rightarrow> string \<Rightarrow> edit_format \<Rightarrow> edit_error + compute_result" where
  "compute_new_content ee path original UnifiedDiff = bind_res (apply_unified_diff ee original) whole"
| "compute_new_content ee path original (SearchReplace search with all) = apply_search_replace original search with all"
| "compute_new_content ee path original (AstNode name body) = bind_res (apply_ast_node ee path original name body) whole"
| "compute_new_content ee path original WholeFile = bind_res (read_stdin ee) whole"

section \<open>Validation\<close>

text \<open>A node has an error when it or a node below it is an error or is missing.\<close>

fun has_error :: "syntax_node \<Rightarrow> bool" where
  "has_error (Node i cs) = (ni_error i \<or> ni_missing i \<or> list_ex (has_error \<circ> snd) cs)"

function first_error :: "syntax_node list \<Rightarrow> syntax_node option" where
  "first_error [] = None"
| "first_error (n # stack) =
     (if ni_error (info n) \<or> ni_missing (info n) then Some n else first_error (node_children n @ stack))"
  by pat_completeness auto
termination
  by (relation "measure (\<lambda>stack. sum_list (map node_size stack))") (use nodes_size in auto)

definition find_first_error :: "syntax_node \<Rightarrow> syntax_node option" where
  "find_first_error root = first_error [root]"

definition error_location :: "syntax_node \<Rightarrow> string" where
  "error_location root =
     (case find_first_error root of
        Some n \<Rightarrow> ''line '' @ show_nat (ni_row (info n) + 1) @ '', column '' @ show_nat (ni_column (info n) + 1)
      | None \<Rightarrow> ''unknown location'')"

definition validate_syntax :: "edit_env \<Rightarrow> string \<Rightarrow> language \<Rightarrow> edit_error + unit" where
  "validate_syntax ee content lang =
     (case ee_parse ee content lang of
        Inl e \<Rightarrow> Inl (ValidationFailed (''parse error: '' @ e))
      | Inr root \<Rightarrow>
          if has_error root then Inl (ValidationFailed (''syntax error at '' @ error_location root)) else Inr ())"

section \<open>The edit\<close>

definition generate_diff :: "edit_env \<Rightarrow> string \<Rightarrow> string \<Rightarrow> string \<Rightarrow> string" where
  "generate_diff ee original new path = ee_diff ee path original new"

definition count_changed_lines :: "string \<Rightarrow> nat" where
  "count_changed_lines diff =
     length (filter (\<lambda>l. (prefix ''+'' l \<or> prefix ''-'' l) \<and> \<not> prefix ''+++'' l \<and> \<not> prefix ''---'' l) (str_lines diff))"

fun format_name :: "edit_format \<Rightarrow> string" where
  "format_name UnifiedDiff = ''unified-diff''"
| "format_name (SearchReplace _ _ _) = ''search-replace''"
| "format_name (AstNode _ _) = ''ast-node''"
| "format_name WholeFile = ''whole-file''"

record edit_result =
  er_path :: string
  er_format :: string
  er_applied :: bool
  er_validated :: bool
  er_diff :: string
  er_lines_changed :: nat
  er_replacements :: "nat option"

definition edit_result_json :: "edit_result \<Rightarrow> json" where
  "edit_result_json r =
     JObj ([(''path'', JStr (er_path r)), (''format'', JStr (er_format r)), (''applied'', JBool (er_applied r)),
       (''validated'', JBool (er_validated r)), (''diff'', JStr (er_diff r)), (''lines_changed'', JNum (show_nat (er_lines_changed r)))]
       @ (case er_replacements r of Some n \<Rightarrow> [(''replacements'', JNum (show_nat n))] | None \<Rightarrow> []))"

definition edit_result_of :: "edit_env \<Rightarrow> string \<Rightarrow> edit_format \<Rightarrow> bool \<Rightarrow> string \<Rightarrow> compute_result \<Rightarrow> edit_result" where
  "edit_result_of ee path fmt dry_run original c =
     (let diff = generate_diff ee original (co_content c) path in
      \<lparr>er_path = path, er_format = format_name fmt, er_applied = (\<not> dry_run),
       er_validated = (language_of_path path \<noteq> None), er_diff = diff, er_lines_changed = count_changed_lines diff,
       er_replacements = co_replacements c\<rparr>)"

definition validated :: "edit_env \<Rightarrow> string \<Rightarrow> string \<Rightarrow> edit_error + unit" where
  "validated ee path content =
     (case language_of_path path of Some lang \<Rightarrow> validate_syntax ee content lang | None \<Rightarrow> Inr ())"

definition code_edit ::
  "edit_env \<Rightarrow> string \<Rightarrow> edit_format \<Rightarrow> bool \<Rightarrow> nat option \<Rightarrow> edit_file \<Rightarrow> (edit_error + budgeted_output) \<times> edit_file" where
  "code_edit ee path fmt dry_run max_tokens file =
     (case file of
        None \<Rightarrow> (Inl (EditNotFound path), file)
      | Some (Inl e) \<Rightarrow> (Inl (EditIo e), file)
      | Some (Inr original) \<Rightarrow>
          (case compute_new_content ee path original fmt of
             Inl e \<Rightarrow> (Inl e, file)
           | Inr c \<Rightarrow>
               (case validated ee path (co_content c) of
                  Inl e \<Rightarrow> (Inl e, file)
                | Inr _ \<Rightarrow>
                    (let out = emit_json (ee_output ee) (edit_result_json (edit_result_of ee path fmt dry_run original c)) max_tokens in
                     if dry_run then (Inr out, file)
                     else (case ee_write_failure ee of
                             Some (e, left) \<Rightarrow> (Inl (EditIo e), left)
                           | None \<Rightarrow> (Inr out, Some (Inr (co_content c))))))))"

end
