(* ===== verification/Code_Edit_Props.thy ===== *)
theory Code_Edit_Props
  imports Code_Edit
begin

text \<open>
  What edits promise: a file changes only by a validated edit, exact replacements change just the
  occurrences, a symbol edit only the bytes of the symbol.  The closed theorems show what a fuzzy
  match does to the rest of the file.
\<close>

section \<open>Exact replacements\<close>

lemma find_sub_first_at:
  assumes "p \<noteq> []" and "\<forall>j<length a. \<not> prefix p (drop j (a @ p @ b))"
  shows "find_sub p (a @ p @ b) = Some (length a)"
proof (cases "find_sub p (a @ p @ b)")
  case None
  then have "\<not> prefix p (drop (length a) (a @ p @ b))" by (rule find_sub_None)
  then show ?thesis by simp
next
  case (Some i)
  have "\<not> i < length a" using find_sub_prefix [OF Some] assms(2) by blast
  moreover have "\<not> length a < i" using find_sub_first [OF Some, of "length a"] by auto
  ultimately show ?thesis using Some by simp
qed

text \<open>A single replacement replaces the first occurrence and nothing else.\<close>

theorem first_occurrence_replaced:
  assumes "search \<noteq> []" and "\<forall>j<length a. \<not> prefix search (drop j (a @ search @ b))"
  shows "apply_search_replace (a @ search @ b) search with False = Inr \<lparr>co_content = a @ with @ b, co_replacements = None\<rparr>"
  using find_sub_first_at [OF assms] assms(1)
  by (simp add: apply_search_replace_def replace_exact_def replace_first_def contains_sub_def)

theorem first_occurrence_replaced_witness:
  "apply_search_replace (''let '' @ ''x'' @ '' = x'') ''x'' ''y'' False = Inr \<lparr>co_content = ''let '' @ ''y'' @ '' = x'', co_replacements = None\<rparr>"
proof -
  have "\<forall>j<length ''let ''. \<not> prefix ''x'' (drop j (''let '' @ ''x'' @ '' = x''))" by code_simp
  then show ?thesis by (intro first_occurrence_replaced) simp
qed

lemma split_str_pieces:
  assumes "p \<noteq> []"
  shows "join p (split_str p s) = s \<and> (\<forall>x\<in>set (split_str p s). \<not> contains_sub p x) \<and> split_str p s \<noteq> []"
  using assms
proof (induction p s rule: split_str.induct)
  case (1 p s)
  show ?case
  proof (cases "find_sub p s")
    case None
    then show ?thesis using 1(2) by (subst (1 2 3) split_str.simps) (simp add: contains_sub_def)
  next
    case (Some i)
    have parts: "split_str p s = take i s # split_str p (drop (i + length p) s)"
      using 1(2) Some by (subst split_str.simps) simp
    have IH: "join p (split_str p (drop (i + length p) s)) = drop (i + length p) s"
      "\<forall>x\<in>set (split_str p (drop (i + length p) s)). \<not> contains_sub p x" "split_str p (drop (i + length p) s) \<noteq> []"
      using 1 Some by auto
    have "\<not> contains_sub p (take i s)"
    proof
      assume "contains_sub p (take i s)"
      then obtain j where j: "prefix p (drop j (take i s))" by (auto simp: contains_sub_iff)
      then have "j < i" using 1(2) by (cases "j < i") auto
      moreover have "prefix p (drop j s)"
        using j by (metis drop_take take_is_prefix prefix_order.trans)
      ultimately show False using find_sub_first [OF Some] by blast
    qed
    moreover have "join p (take i s # split_str p (drop (i + length p) s)) = s"
      using IH(1,3) find_sub_split [OF Some] by (cases "split_str p (drop (i + length p) s)") auto
    ultimately show ?thesis using parts IH by simp
  qed
qed

text \<open>(C25) Replacing all occurrences: the text is cut into pieces without the searched text, put together
  with the replacement between them, and every cut is counted.\<close>

theorem all_occurrences_replaced:
  assumes "contains_sub search original" and "search \<noteq> []"
  shows "\<exists>pieces. original = join search pieces \<and> (\<forall>x\<in>set pieces. \<not> contains_sub search x)
    \<and> apply_search_replace original search with True
        = Inr \<lparr>co_content = join with pieces, co_replacements = Some (length pieces - 1)\<rparr>"
  using assms split_str_pieces [OF assms(2), of original]
  by (intro exI [of _ "split_str search original"])
    (simp add: apply_search_replace_def replace_exact_def match_count_def replace_str_def)

theorem all_occurrences_replaced_witness:
  "\<exists>pieces. ''a,b,c'' = join '','' pieces \<and> (\<forall>x\<in>set pieces. \<not> contains_sub '','' x)
    \<and> apply_search_replace ''a,b,c'' '','' ''; '' True
        = Inr \<lparr>co_content = join ''; '' pieces, co_replacements = Some (length pieces - 1)\<rparr>"
proof -
  have "contains_sub '','' ''a,b,c''" by code_simp
  then show ?thesis by (intro all_occurrences_replaced) simp_all
qed

section \<open>Fuzzy replacements\<close>

text \<open>A fuzzy match rewrites the whole file from its lines: the last line feed is dropped, and all
  carriage returns before line feeds.\<close>

theorem fuzzy_match_rewrites_line_ends:
  "apply_search_replace (''let x = 1;'' @ [CHR 0x0D, newline] @ ''let y = 2;'' @ [CHR 0x0D, newline]) ''let x = 9;'' ''let x = 3;'' False
    = Inr \<lparr>co_content = ''let x = 3;'' @ [newline] @ ''let y = 2;'', co_replacements = None\<rparr>"
  by code_simp

text \<open>A search text with doubled backslashes: the fuzzy match comes before the match of the
  decoded text and replaces the whole line, where the decoded text occurs exactly.\<close>

theorem fuzzy_match_before_decoded_match:
  "let line = ''print(12'' @ backslash @ ''n); x = 1'';
       search = ''print(12'' @ backslash @ backslash @ ''n)''
   in apply_search_replace line search ''y'' False = Inr \<lparr>co_content = ''y'', co_replacements = None\<rparr>
    \<and> replace_exact line (replace_str (backslash @ backslash) backslash search) ''y'' False
      = \<lparr>co_content = ''y; x = 1'', co_replacements = None\<rparr>"
  by code_simp

section \<open>Symbols\<close>

text \<open>(C20) Replacing the body of a symbol leaves everything before and behind the symbol.\<close>

theorem symbol_edit_is_local:
  assumes "apply_ast_node ee path original name body = Inr new"
  shows "\<exists>lang root target middle. language_of_path path = Some lang \<and> ee_parse ee original lang = Inr root
    \<and> target \<in> set (extract_symbols root original lang) \<and> ps_name target = name
    \<and> ps_byte_start target \<le> ps_byte_end target \<and> ps_byte_end target \<le> length original
    \<and> new = take (ps_byte_start target) original @ middle @ drop (ps_byte_end target) original"
proof -
  obtain lang root target where l: "language_of_path path = Some lang" "ee_parse ee original lang = Inr root"
      "find (\<lambda>s. ps_name s = name) (extract_symbols root original lang) = Some target"
    using assms by (auto simp: apply_ast_node_def split: option.splits sum.splits)
  moreover have "\<not> (ps_byte_start target > length original \<or> ps_byte_end target > length original \<or> ps_byte_start target > ps_byte_end target)"
    using assms l by (auto simp: apply_ast_node_def split: if_splits)
  moreover from this obtain middle where "new = take (ps_byte_start target) original @ middle @ drop (ps_byte_end target) original"
    using assms l by (auto simp: apply_ast_node_def bind_res_def split: option.splits sum.splits)
  moreover have "target \<in> set (extract_symbols root original lang) \<and> ps_name target = name"
    using l(3) by (auto simp: find_Some_iff)
  ultimately show ?thesis by (metis linorder_not_less)
qed

definition demo_node :: "string \<Rightarrow> nat \<Rightarrow> nat \<Rightarrow> (string option \<times> syntax_node) list \<Rightarrow> syntax_node" where
  "demo_node k a b cs = Node \<lparr>ni_kind = k, ni_start = a, ni_end = b, ni_row = 0, ni_column = a, ni_end_row = 0,
     ni_error = False, ni_missing = False\<rparr> cs"

text \<open>The tree of \<open>fn f() {} //\<close>.\<close>

definition demo_tree :: syntax_node where
  "demo_tree = demo_node ''source_file'' 0 12 [(None, demo_node ''function_item'' 0 9
     [(Some ''name'', demo_node ''identifier'' 3 4 []), (Some ''body'', demo_node ''block'' 7 9 [])])]"

definition demo_edit_env :: edit_env where
  "demo_edit_env = \<lparr>ee_parse = (\<lambda>_ _. Inr demo_tree), ee_stdin = Inr [], ee_patch_error = (\<lambda>_. None),
     ee_apply_patch = (\<lambda>s _. Inr s), ee_diff = (\<lambda>_ _ _. []), ee_write_failure = None,
     ee_output = \<lparr>count_tokens = length, to_json_compact = (\<lambda>_. []), to_json_pretty = (\<lambda>_. []), from_json = (\<lambda>_. None)\<rparr>\<rparr>"

theorem symbol_edit_is_local_witness:
  "\<exists>(target::parsed_symbol) middle. ps_name target = ''f''
    \<and> ''fn f() {'' @ [newline] @ ''1'' @ [newline] @ ''} //'' = take (ps_byte_start target) ''fn f() {} //'' @ middle @ drop (ps_byte_end target) ''fn f() {} //''"
proof -
  have "apply_ast_node demo_edit_env ''a.rs'' ''fn f() {} //'' ''f'' ''1''
      = Inr (''fn f() {'' @ [newline] @ ''1'' @ [newline] @ ''} //'')" by code_simp
  from symbol_edit_is_local [OF this] show ?thesis by blast
qed

section \<open>Validation\<close>

lemma first_error_iff: "first_error stack \<noteq> None \<longleftrightarrow> list_ex has_error stack"
proof (induction stack rule: first_error.induct)
  case (2 n stack)
  then show ?case by (cases n) (auto simp: list_ex_iff)
qed simp

lemma error_has_location: "has_error root \<Longrightarrow> find_first_error root \<noteq> None"
  unfolding find_first_error_def first_error_iff by simp



end
