(* ===== verification/File_System.thy ===== *)
theory File_System
  imports Encoding
begin

text \<open>
  The file system as \<open>std::fs\<close> shows it: a tree of directories, files and symbolic links, with
  resolution of paths and the operations of the standard library that the tools call.

  A location is the list of names from the root.  Permissions, hard links and failures of the
  device are not part of the state.
\<close>

section \<open>Paths\<close>

text \<open>\<open>Path::components\<close>: empty and dot components are dropped; a path is absolute or relative.\<close>

record fs_path =
  fp_absolute :: bool
  fp_components :: "string list"

definition parse_path :: "string \<Rightarrow> fs_path" where
  "parse_path s =
     \<lparr>fp_absolute = prefix ''/'' s,
      fp_components = filter (\<lambda>c. c \<noteq> [] \<and> c \<noteq> ''.'') (split_char (CHR ''/'') s)\<rparr>"

definition path_parent :: "fs_path \<Rightarrow> fs_path option" where
  "path_parent p = (if fp_components p = [] then None else Some (p\<lparr>fp_components := butlast (fp_components p)\<rparr>))"

definition path_name :: "fs_path \<Rightarrow> string option" where
  "path_name p = (if fp_components p = [] \<or> last (fp_components p) = ''..'' then None else Some (last (fp_components p)))"

definition empty_path :: "fs_path \<Rightarrow> bool" where
  "empty_path p \<longleftrightarrow> \<not> fp_absolute p \<and> fp_components p = []"

section \<open>The tree\<close>

datatype fs_node = FileNode string | DirNode | LinkNode bool "string list"

type_synonym location = "string list"
type_synonym fs_tree = "(location \<times> fs_node) list"

datatype io_error =
    NotFoundError
  | NotADirectory
  | IsADirectory
  | AlreadyExistsError
  | NotEmpty
  | TooManyLinks
  | InvalidInput
  | InvalidData
  | OutsideRoot
  | HasParentDir

definition node_at :: "fs_tree \<Rightarrow> location \<Rightarrow> fs_node option" where
  "node_at fs l = (if l = [] then Some DirNode else map_of fs l)"

definition put_node :: "location \<Rightarrow> fs_node \<Rightarrow> fs_tree \<Rightarrow> fs_tree" where
  "put_node l n fs = (l, n) # filter (\<lambda>e. fst e \<noteq> l) fs"

definition drop_nodes :: "(location \<Rightarrow> bool) \<Rightarrow> fs_tree \<Rightarrow> fs_tree" where
  "drop_nodes P fs = filter (\<lambda>e. \<not> P (fst e)) fs"

lemma node_at_put [simp]: "l \<noteq> [] \<Longrightarrow> node_at (put_node l n fs) k = (if k = l then Some n else node_at fs k)"
  by (auto simp: node_at_def put_node_def map_of_eq_None_iff) (induction fs; auto)+

lemma node_at_drop: "\<not> P [] \<Longrightarrow> node_at (drop_nodes P fs) k = (if P k then None else node_at fs k)"
  by (induction fs) (auto simp: node_at_def drop_nodes_def)

section \<open>Resolution\<close>

text \<open>
  Walking from a directory along the components, following links: the location, and how many
  further links may be followed.  With \<open>create\<close> the last name need not exist yet.
\<close>

function resolve :: "fs_tree \<Rightarrow> bool \<Rightarrow> nat \<Rightarrow> location \<Rightarrow> string list \<Rightarrow> io_error + location \<times> nat" where
  "resolve fs create n base [] = Inr (base, n)"
| "resolve fs create n base (c # cs) =
     (if node_at fs base \<noteq> Some DirNode then Inl NotADirectory
      else if c = ''..'' then resolve fs create n (butlast base) cs
      else (case node_at fs (base @ [c]) of
              None \<Rightarrow> if create \<and> cs = [] then Inr (base @ [c], n) else Inl NotFoundError
            | Some (LinkNode absolute target) \<Rightarrow>
                (case n of
                   0 \<Rightarrow> Inl TooManyLinks
                 | Suc m \<Rightarrow> resolve fs create m (if absolute then [] else base) (target @ cs))
            | Some _ \<Rightarrow> resolve fs create n (base @ [c]) cs))"
  by pat_completeness auto
termination by (relation "measures [\<lambda>(_, _, n, _, _). n, \<lambda>(_, _, _, _, cs). length cs]") auto

declare resolve.simps(2) [simp del]

text \<open>The bound of the Linux kernel on the links of one path.\<close>

definition max_links :: nat where
  "max_links = 40"

text \<open>A path is looked up from the root or from the working directory; the empty path does not exist.\<close>

definition lookup :: "fs_tree \<Rightarrow> location \<Rightarrow> bool \<Rightarrow> fs_path \<Rightarrow> io_error + location" where
  "lookup fs cwd create p =
     (if empty_path p then Inl NotFoundError
      else (case resolve fs create max_links (if fp_absolute p then [] else cwd) (fp_components p) of
              Inl e \<Rightarrow> Inl e | Inr (l, _) \<Rightarrow> Inr l))"

lemma resolve_append:
  "ds \<noteq> [] \<Longrightarrow> resolve fs create n base (cs @ ds) =
     (case resolve fs False n base cs of Inl e \<Rightarrow> Inl e | Inr (l, m) \<Rightarrow> resolve fs create m l ds)"
proof (induction fs create n base cs rule: resolve.induct)
  case (2 fs create n base c cs)
  consider "node_at fs base \<noteq> Some DirNode" | "node_at fs base = Some DirNode" "c = ''..''"
    | "node_at fs base = Some DirNode" "c \<noteq> ''..''" "node_at fs (base @ [c]) = None"
    | x where "node_at fs base = Some DirNode" "c \<noteq> ''..''" "node_at fs (base @ [c]) = Some x" by blast
  then show ?case
  proof cases
    case (4 x)
    then show ?thesis using 2 by (cases x; cases n) (simp_all add: resolve.simps(2))
  qed (use 2 in \<open>simp_all add: resolve.simps(2)\<close>)
qed simp

section \<open>Operations\<close>

definition canonicalize :: "fs_tree \<Rightarrow> location \<Rightarrow> fs_path \<Rightarrow> io_error + location" where
  "canonicalize fs cwd p = lookup fs cwd False p"

definition path_exists :: "fs_tree \<Rightarrow> location \<Rightarrow> fs_path \<Rightarrow> bool" where
  "path_exists fs cwd p \<longleftrightarrow> (case lookup fs cwd False p of Inr _ \<Rightarrow> True | Inl _ \<Rightarrow> False)"

definition is_dir_at :: "fs_tree \<Rightarrow> location \<Rightarrow> bool" where
  "is_dir_at fs l \<longleftrightarrow> node_at fs l = Some DirNode"

definition is_dir :: "fs_tree \<Rightarrow> location \<Rightarrow> fs_path \<Rightarrow> bool" where
  "is_dir fs cwd p \<longleftrightarrow> (case lookup fs cwd False p of Inr l \<Rightarrow> is_dir_at fs l | Inl _ \<Rightarrow> False)"

definition read_file :: "fs_tree \<Rightarrow> location \<Rightarrow> fs_path \<Rightarrow> io_error + string" where
  "read_file fs cwd p =
     (case lookup fs cwd False p of
        Inl e \<Rightarrow> Inl e
      | Inr l \<Rightarrow> (case node_at fs l of Some (FileNode s) \<Rightarrow> Inr s | _ \<Rightarrow> Inl IsADirectory))"

definition read_to_string :: "fs_tree \<Rightarrow> location \<Rightarrow> fs_path \<Rightarrow> io_error + string" where
  "read_to_string fs cwd p =
     (case read_file fs cwd p of Inl e \<Rightarrow> Inl e | Inr s \<Rightarrow> if utf8_ok s then Inr s else Inl InvalidData)"

definition write_file :: "fs_path \<Rightarrow> string \<Rightarrow> location \<Rightarrow> fs_tree \<Rightarrow> (io_error + unit) \<times> fs_tree" where
  "write_file p content cwd fs =
     (case lookup fs cwd True p of
        Inl e \<Rightarrow> (Inl e, fs)
      | Inr l \<Rightarrow> if is_dir_at fs l then (Inl IsADirectory, fs) else (Inr (), put_node l (FileNode content) fs))"

definition copy_file :: "fs_path \<Rightarrow> fs_path \<Rightarrow> location \<Rightarrow> fs_tree \<Rightarrow> (io_error + unit) \<times> fs_tree" where
  "copy_file src dst cwd fs =
     (case read_file fs cwd src of
        Inl IsADirectory \<Rightarrow> (Inl InvalidInput, fs)
      | Inl e \<Rightarrow> (Inl e, fs)
      | Inr s \<Rightarrow> write_file dst s cwd fs)"

text \<open>\<open>mkdir\<close> does not follow a link in the last place.\<close>

definition create_dir :: "fs_path \<Rightarrow> location \<Rightarrow> fs_tree \<Rightarrow> (io_error + unit) \<times> fs_tree" where
  "create_dir p cwd fs =
     (case path_parent p of
        None \<Rightarrow> (Inl (if empty_path p then NotFoundError else AlreadyExistsError), fs)
      | Some parent \<Rightarrow>
          (case (if empty_path parent then Inr cwd else lookup fs cwd False parent) of
             Inl e \<Rightarrow> (Inl e, fs)
           | Inr l \<Rightarrow>
               (let name = last (fp_components p) in
                if \<not> is_dir_at fs l then (Inl NotADirectory, fs)
                else if name = ''..'' \<or> node_at fs (l @ [name]) \<noteq> None then (Inl AlreadyExistsError, fs)
                else (Inr (), put_node (l @ [name]) DirNode fs))))"

text \<open>\<open>create_dir_all\<close> on the components: the parent is made when the directory cannot be.\<close>

function create_components ::
  "bool \<Rightarrow> string list \<Rightarrow> location \<Rightarrow> fs_tree \<Rightarrow> (io_error + unit) \<times> fs_tree" where
  "create_components absolute cs cwd fs =
     (let p = \<lparr>fp_absolute = absolute, fp_components = cs\<rparr> in
      if empty_path p then (Inr (), fs)
      else (case create_dir p cwd fs of
              (Inr _, fs1) \<Rightarrow> (Inr (), fs1)
            | (Inl e, _) \<Rightarrow>
                if e \<noteq> NotFoundError then (if is_dir fs cwd p then (Inr (), fs) else (Inl e, fs))
                else if cs = [] then (Inl NotFoundError, fs)
                else (case create_components absolute (butlast cs) cwd fs of
                        (Inl e1, fs1) \<Rightarrow> (Inl e1, fs1)
                      | (Inr _, fs1) \<Rightarrow>
                          (case create_dir p cwd fs1 of
                             (Inr _, fs2) \<Rightarrow> (Inr (), fs2)
                           | (Inl e2, _) \<Rightarrow> if is_dir fs1 cwd p then (Inr (), fs1) else (Inl e2, fs1)))))"
  by pat_completeness auto
termination by (relation "measure (\<lambda>(_, cs, _, _). length cs)") auto

declare create_components.simps [simp del]

definition create_dir_all :: "fs_path \<Rightarrow> location \<Rightarrow> fs_tree \<Rightarrow> (io_error + unit) \<times> fs_tree" where
  "create_dir_all p cwd fs = create_components (fp_absolute p) (fp_components p) cwd fs"

text \<open>Removal at a canonical location.\<close>

definition remove_file :: "location \<Rightarrow> fs_tree \<Rightarrow> (io_error + unit) \<times> fs_tree" where
  "remove_file l fs =
     (case node_at fs l of
        None \<Rightarrow> (Inl NotFoundError, fs)
      | Some DirNode \<Rightarrow> (Inl IsADirectory, fs)
      | Some _ \<Rightarrow> (Inr (), drop_nodes (\<lambda>k. k = l) fs))"

definition remove_dir :: "location \<Rightarrow> fs_tree \<Rightarrow> (io_error + unit) \<times> fs_tree" where
  "remove_dir l fs =
     (if node_at fs l = None then (Inl NotFoundError, fs)
      else if \<not> is_dir_at fs l then (Inl NotADirectory, fs)
      else if l = [] \<or> list_ex (\<lambda>e. strict_prefix l (fst e)) fs then (Inl NotEmpty, fs)
      else (Inr (), drop_nodes (\<lambda>k. k = l) fs))"

definition remove_dir_all :: "location \<Rightarrow> fs_tree \<Rightarrow> (io_error + unit) \<times> fs_tree" where
  "remove_dir_all l fs =
     (if node_at fs l = None then (Inl NotFoundError, fs)
      else if l = [] then (Inl InvalidInput, drop_nodes (\<lambda>k. k \<noteq> []) fs)
      else (Inr (), drop_nodes (prefix l) fs))"

section \<open>Where operations change the tree\<close>

text \<open>Two trees agree outside a directory.\<close>

definition same_outside :: "location \<Rightarrow> fs_tree \<Rightarrow> fs_tree \<Rightarrow> bool" where
  "same_outside root fs fs' \<longleftrightarrow> (\<forall>l. \<not> prefix root l \<longrightarrow> node_at fs' l = node_at fs l)"

lemma same_outside_refl [simp]: "same_outside root fs fs"
  by (simp add: same_outside_def)

lemma same_outside_put: "prefix root l \<Longrightarrow> l \<noteq> [] \<Longrightarrow> same_outside root fs (put_node l n fs)"
  by (auto simp: same_outside_def)

lemma same_outside_drop: "(\<And>k. P k \<Longrightarrow> prefix root k) \<Longrightarrow> \<not> P [] \<Longrightarrow> same_outside root fs (drop_nodes P fs)"
  by (auto simp: same_outside_def node_at_drop)

lemma remove_file_outside: "prefix root l \<Longrightarrow> same_outside root fs (snd (remove_file l fs))"
  by (auto simp: remove_file_def node_at_def intro!: same_outside_drop split: option.splits fs_node.splits)

lemma remove_dir_outside: "prefix root l \<Longrightarrow> same_outside root fs (snd (remove_dir l fs))"
  by (auto simp: remove_dir_def intro!: same_outside_drop)

lemma remove_dir_all_outside: "prefix root l \<Longrightarrow> same_outside root fs (snd (remove_dir_all l fs))"
  by (auto simp: remove_dir_all_def intro!: same_outside_drop intro: prefix_order.trans)

lemma lookup_parent:
  assumes "\<not> empty_path p" "fp_components p \<noteq> []" "path_parent p = Some q" "\<not> empty_path q"
  shows "lookup fs cwd create p =
    (case resolve fs False max_links (if fp_absolute p then [] else cwd) (fp_components q) of
       Inl e \<Rightarrow> Inl e
     | Inr (l, m) \<Rightarrow> (case resolve fs create m l [last (fp_components p)] of Inl e \<Rightarrow> Inl e | Inr (k, _) \<Rightarrow> Inr k))"
proof -
  have "fp_components p = fp_components q @ [last (fp_components p)]" "fp_absolute q = fp_absolute p"
    using assms by (auto simp: path_parent_def)
  then show ?thesis
    using assms(1) resolve_append [of "[last (fp_components p)]" fs create max_links "if fp_absolute p then [] else cwd" "fp_components q"]
    by (auto simp: lookup_def split: sum.splits)
qed

end
