(* ===== verification/Fs_Tools.thy ===== *)
theory Fs_Tools
  imports File_System Output_Budget
begin

text \<open>
  The file tools (\<open>tools/impls/fs/mod.rs\<close>) and the guard of the workspace boundary
  (\<open>tools/impls/path_guard.rs\<close>), on the file system of \<open>File_System\<close>.

  \<open>fc_root\<close> is the environment variable \<open>THAT_WORKSPACE_ROOT\<close>, \<open>fc_walk\<close> the walker of the ignore
  crate: what it gives below a location up to a depth.
\<close>

record fs_entry =
  fe_name :: string
  fe_path :: string
  fe_type :: string
  fe_size :: "nat option"

record fs_context =
  fc_root :: "string option"
  fc_cwd :: location
  fc_walk :: "fs_tree \<Rightarrow> location \<Rightarrow> nat \<Rightarrow> fs_entry list"
  fc_output :: output_env

datatype fs_error =
    FsNotFound string
  | FsPermissionDenied string
  | FsAlreadyExists string
  | FsDirectoryNotEmpty string
  | FsIo io_error

type_synonym 'a fs_result = "fs_error + 'a"

section \<open>The guard\<close>

definition render :: "location \<Rightarrow> string" where
  "render l = ''/'' @ join ''/'' l"

definition safe_path :: "fs_context \<Rightarrow> fs_tree \<Rightarrow> fs_path \<Rightarrow> fs_path \<Rightarrow> io_error + location" where
  "safe_path ctx fs root target =
     (case canonicalize fs (fc_cwd ctx) root of
        Inl e \<Rightarrow> Inl e
      | Inr r \<Rightarrow>
          (case canonicalize fs (fc_cwd ctx) target of
             Inl e \<Rightarrow> Inl e
           | Inr l \<Rightarrow> if prefix r l then Inr l else Inl OutsideRoot))"

definition reject_traversal :: "fs_path \<Rightarrow> io_error + unit" where
  "reject_traversal target = (if ''..'' \<in> set (fp_components target) then Inl HasParentDir else Inr ())"

definition workspace_root :: "fs_context \<Rightarrow> fs_tree \<Rightarrow> fs_path option" where
  "workspace_root ctx fs =
     (case fc_root ctx of
        None \<Rightarrow> None
      | Some r \<Rightarrow> if is_dir fs (fc_cwd ctx) (parse_path r) then Some (parse_path r) else None)"

definition guard :: "fs_context \<Rightarrow> fs_tree \<Rightarrow> fs_path \<Rightarrow> io_error + location" where
  "guard ctx fs target =
     (case workspace_root ctx fs of
        Some root \<Rightarrow> safe_path ctx fs root target
      | None \<Rightarrow> bind_res (reject_traversal target) (\<lambda>_. canonicalize fs (fc_cwd ctx) target))"

definition located :: "location \<Rightarrow> fs_path" where
  "located l = \<lparr>fp_absolute = True, fp_components = l\<rparr>"

definition io :: "io_error + 'a \<Rightarrow> 'a fs_result" where
  "io r = (case r of Inl e \<Rightarrow> Inl (FsIo e) | Inr x \<Rightarrow> Inr x)"

section \<open>Listing and reading\<close>

definition entry_json :: "fs_entry \<Rightarrow> json" where
  "entry_json e =
     JObj ([(''name'', JStr (fe_name e)), (''path'', JStr (fe_path e)), (''type'', JStr (fe_type e))]
       @ (case fe_size e of Some n \<Rightarrow> [(''size'', JNum (show_nat n))] | None \<Rightarrow> []))"

definition fs_ls :: "fs_context \<Rightarrow> string \<Rightarrow> nat option \<Rightarrow> nat option \<Rightarrow> fs_tree \<Rightarrow> budgeted_output fs_result" where
  "fs_ls ctx path max_depth max_tokens fs =
     (if \<not> path_exists fs (fc_cwd ctx) (parse_path path) then Inl (FsNotFound path)
      else bind_res (io (guard ctx fs (parse_path path))) (\<lambda>l.
        let entries = fc_walk ctx fs l (case max_depth of Some d \<Rightarrow> d | None \<Rightarrow> 2) in
        Inr (emit_json (fc_output ctx)
          (JObj [(''entries'', JArr (map entry_json entries)), (''total'', JNum (show_nat (length entries)))]) max_tokens)))"

definition cat_json :: "output_env \<Rightarrow> location \<Rightarrow> string \<Rightarrow> json" where
  "cat_json oe l content =
     JObj [(''path'', JStr (render l)), (''content'', JStr content), (''lines'', JNum (show_nat (length (str_lines content)))),
       (''tokens'', JNum (show_nat (count_tokens oe content))), (''truncated'', JBool False)]"

definition fs_cat :: "fs_context \<Rightarrow> string \<Rightarrow> nat option \<Rightarrow> fs_tree \<Rightarrow> budgeted_output fs_result" where
  "fs_cat ctx path max_tokens fs =
     (if \<not> path_exists fs (fc_cwd ctx) (parse_path path) then Inl (FsNotFound path)
      else bind_res (io (guard ctx fs (parse_path path))) (\<lambda>l.
        bind_res (io (read_to_string fs (fc_cwd ctx) (located l))) (\<lambda>content.
          Inr (emit_json (fc_output ctx) (cat_json (fc_output ctx) l content) None))))"

section \<open>Writing\<close>

text \<open>The checks of \<open>write\<close> and \<open>mkdir\<close> before the target exists: only an existing parent is looked at.\<close>

definition check_parent :: "fs_context \<Rightarrow> fs_tree \<Rightarrow> fs_path \<Rightarrow> io_error + unit" where
  "check_parent ctx fs p =
     (case workspace_root ctx fs of
        None \<Rightarrow> Inr ()
      | Some root \<Rightarrow>
          (case path_parent p of
             None \<Rightarrow> Inr ()
           | Some parent \<Rightarrow>
               if path_exists fs (fc_cwd ctx) parent
               then bind_res (safe_path ctx fs root parent) (\<lambda>_. Inr ()) else Inr ()))"

definition check_write :: "fs_context \<Rightarrow> fs_tree \<Rightarrow> fs_path \<Rightarrow> io_error + unit" where
  "check_write ctx fs p =
     bind_res (reject_traversal p) (\<lambda>_.
       if path_exists fs (fc_cwd ctx) p then bind_res (guard ctx fs p) (\<lambda>_. Inr ())
       else check_parent ctx fs p)"

text \<open>\<open>with_extension\<close> on the last name.\<close>

definition name_extension :: "string \<Rightarrow> string option" where
  "name_extension name =
     (let parts = split_char (CHR ''.'') name in
      if length parts < 2 \<or> (length parts = 2 \<and> hd parts = []) then None else Some (last parts))"

definition name_stem :: "string \<Rightarrow> string" where
  "name_stem name = (case name_extension name of None \<Rightarrow> name | Some e \<Rightarrow> take (length name - length e - 1) name)"

definition backup_path :: "fs_path \<Rightarrow> fs_path" where
  "backup_path p =
     (case path_name p of
        None \<Rightarrow> p
      | Some name \<Rightarrow>
          p\<lparr>fp_components := butlast (fp_components p)
              @ [name_stem name @ ''.'' @ (case name_extension name of Some e \<Rightarrow> e | None \<Rightarrow> []) @ ''.bak'']\<rparr>)"

definition path_text :: "fs_path \<Rightarrow> string" where
  "path_text p = (if fp_absolute p then ''/'' else []) @ join ''/'' (fp_components p)"

definition make_parent :: "fs_path \<Rightarrow> location \<Rightarrow> fs_tree \<Rightarrow> (io_error + unit) \<times> fs_tree" where
  "make_parent p cwd fs =
     (case path_parent p of
        Some parent \<Rightarrow> if path_exists fs cwd parent then (Inr (), fs) else create_dir_all parent cwd fs
      | None \<Rightarrow> (Inr (), fs))"

definition make_backup :: "bool \<Rightarrow> fs_path \<Rightarrow> location \<Rightarrow> fs_tree \<Rightarrow> (io_error + string option) \<times> fs_tree" where
  "make_backup backup p cwd fs =
     (if backup \<and> path_exists fs cwd p then
        (case copy_file p (backup_path p) cwd fs of
           (Inl e, fs') \<Rightarrow> (Inl e, fs') | (Inr _, fs') \<Rightarrow> (Inr (Some (path_text (backup_path p))), fs'))
      else (Inr None, fs))"

definition write_steps :: "bool \<Rightarrow> fs_path \<Rightarrow> string \<Rightarrow> location \<Rightarrow> fs_tree \<Rightarrow> (io_error + string option) \<times> fs_tree" where
  "write_steps backup p content cwd fs =
     (case make_parent p cwd fs of
        (Inl e, fs1) \<Rightarrow> (Inl e, fs1)
      | (Inr _, fs1) \<Rightarrow>
          (case make_backup backup p cwd fs1 of
             (Inl e, fs2) \<Rightarrow> (Inl e, fs2)
           | (Inr bak, fs2) \<Rightarrow>
               (case write_file p content cwd fs2 of
                  (Inl e, fs3) \<Rightarrow> (Inl e, fs3) | (Inr _, fs3) \<Rightarrow> (Inr bak, fs3))))"

definition write_json :: "string \<Rightarrow> string \<Rightarrow> bool \<Rightarrow> string option \<Rightarrow> bool \<Rightarrow> json" where
  "write_json path content created bak dry_run =
     JObj [(''path'', JStr path), (''bytes_written'', JNum (show_nat (length content))), (''created'', JBool created),
       (''backup'', case bak of Some b \<Rightarrow> JStr b | None \<Rightarrow> JNull), (''dry_run'', JBool dry_run)]"

definition fs_write ::
  "fs_context \<Rightarrow> string \<Rightarrow> string \<Rightarrow> bool \<Rightarrow> bool \<Rightarrow> nat option \<Rightarrow> fs_tree \<Rightarrow> budgeted_output fs_result \<times> fs_tree" where
  "fs_write ctx path content dry_run backup max_tokens fs =
     (let p = parse_path path; created = (\<not> path_exists fs (fc_cwd ctx) p);
          out = (\<lambda>bak. emit_json (fc_output ctx) (write_json path content created bak dry_run) max_tokens)
      in case check_write ctx fs p of
           Inl e \<Rightarrow> (Inl (FsIo e), fs)
         | Inr _ \<Rightarrow>
             if dry_run then (Inr (out None), fs)
             else (case write_steps backup p content (fc_cwd ctx) fs of
                     (Inl e, fs') \<Rightarrow> (Inl (FsIo e), fs') | (Inr bak, fs') \<Rightarrow> (Inr (out bak), fs')))"

definition fs_mkdir ::
  "fs_context \<Rightarrow> string \<Rightarrow> bool \<Rightarrow> nat option \<Rightarrow> fs_tree \<Rightarrow> budgeted_output fs_result \<times> fs_tree" where
  "fs_mkdir ctx path parents max_tokens fs =
     (let p = parse_path path in
      case bind_res (reject_traversal p) (\<lambda>_. check_parent ctx fs p) of
        Inl e \<Rightarrow> (Inl (FsIo e), fs)
      | Inr _ \<Rightarrow>
          if path_exists fs (fc_cwd ctx) p then (Inl (FsAlreadyExists path), fs)
          else (case (if parents then create_dir_all p (fc_cwd ctx) fs else create_dir p (fc_cwd ctx) fs) of
                  (Inl e, fs') \<Rightarrow> (Inl (FsIo e), fs')
                | (Inr _, fs') \<Rightarrow>
                    (Inr (emit_json (fc_output ctx) (JObj [(''path'', JStr path), (''created'', JBool True)]) max_tokens), fs')))"

section \<open>Removing\<close>

definition removal_error :: "location \<Rightarrow> io_error \<Rightarrow> fs_error" where
  "removal_error l e = (if e = NotEmpty then FsDirectoryNotEmpty (render l) else FsIo e)"

definition remove_at :: "bool \<Rightarrow> location \<Rightarrow> fs_tree \<Rightarrow> (fs_error + unit) \<times> fs_tree" where
  "remove_at recursive l fs =
     (if is_dir_at fs l then
        (if recursive then (case remove_dir_all l fs of (r, fs') \<Rightarrow> (io r, fs'))
         else (case remove_dir l fs of (Inl e, fs') \<Rightarrow> (Inl (removal_error l e), fs') | (Inr _, fs') \<Rightarrow> (Inr (), fs')))
      else (case remove_file l fs of (r, fs') \<Rightarrow> (io r, fs')))"

definition rm_json :: "location \<Rightarrow> bool \<Rightarrow> bool \<Rightarrow> json" where
  "rm_json l was_dir dry_run =
     JObj [(''path'', JStr (render l)), (''removed'', JBool (\<not> dry_run)), (''was_dir'', JBool was_dir), (''dry_run'', JBool dry_run)]"

definition fs_rm ::
  "fs_context \<Rightarrow> string \<Rightarrow> bool \<Rightarrow> bool \<Rightarrow> nat option \<Rightarrow> fs_tree \<Rightarrow> budgeted_output fs_result \<times> fs_tree" where
  "fs_rm ctx path recursive dry_run max_tokens fs =
     (if \<not> path_exists fs (fc_cwd ctx) (parse_path path) then (Inl (FsNotFound path), fs)
      else (case io (guard ctx fs (parse_path path)) of
              Inl e \<Rightarrow> (Inl e, fs)
            | Inr l \<Rightarrow>
                (let out = emit_json (fc_output ctx) (rm_json l (is_dir_at fs l) dry_run) max_tokens in
                 if dry_run then (Inr out, fs)
                 else (case remove_at recursive l fs of
                         (Inl e, fs') \<Rightarrow> (Inl e, fs') | (Inr _, fs') \<Rightarrow> (Inr out, fs')))))"

end
