(* ===== verification/Fs_Props.thy ===== *)
theory Fs_Props
  imports Fs_Tools
begin

text \<open>
  What the workspace boundary promises: reading and removing stay below the root whatever links
  there are, writing does so when the target or its directory exists.  The closed theorems show
  the ways around it, and what removing a link removes.
\<close>

section \<open>Canonical locations\<close>

text \<open>A location with no link on the way and no parent component.\<close>

definition canonical :: "fs_tree \<Rightarrow> location \<Rightarrow> bool" where
  "canonical fs l \<longleftrightarrow>
     ''..'' \<notin> set l \<and> (\<forall>k. strict_prefix k l \<longrightarrow> node_at fs k = Some DirNode)
     \<and> (node_at fs l = Some DirNode \<or> (\<exists>s. node_at fs l = Some (FileNode s)))"

lemma canonical_Nil [simp]: "canonical fs []"
  by (simp add: canonical_def node_at_def)

lemma canonical_snoc:
  "canonical fs (l @ [c]) \<longleftrightarrow>
     canonical fs l \<and> node_at fs l = Some DirNode \<and> c \<noteq> ''..''
     \<and> (node_at fs (l @ [c]) = Some DirNode \<or> (\<exists>s. node_at fs (l @ [c]) = Some (FileNode s)))"
proof -
  have "strict_prefix k (l @ [c]) \<longleftrightarrow> strict_prefix k l \<or> k = l" for k
    by (auto simp: strict_prefix_def prefix_snoc dest: prefix_length_le)
  then show ?thesis by (auto simp: canonical_def)
qed

lemma canonical_butlast: "canonical fs l \<Longrightarrow> canonical fs (butlast l)"
  by (cases l rule: rev_cases) (auto simp: canonical_snoc)

lemma resolve_canonical:
  "resolve fs False n base cs = Inr (l, m) \<Longrightarrow> canonical fs base \<Longrightarrow> canonical fs l"
proof (induction fs "False" n base cs arbitrary: l m rule: resolve.induct)
  case (2 fs n base c cs)
  then show ?case
    by (auto simp: resolve.simps(2) canonical_butlast canonical_snoc split: if_splits option.splits fs_node.splits nat.splits)
qed simp

lemma resolve_down:
  "canonical fs (base @ l) \<Longrightarrow> resolve fs create n base l = Inr (base @ l, n)"
proof (induction l arbitrary: base)
  case (Cons c l)
  then have "canonical fs ((base @ [c]) @ l)" by simp
  moreover have "node_at fs base = Some DirNode" "c \<noteq> ''..''" using Cons.prems
    by (auto simp: canonical_def strict_prefix_def)
  moreover have "node_at fs (base @ [c]) = Some DirNode \<or> (\<exists>s. node_at fs (base @ [c]) = Some (FileNode s))"
    using Cons.prems by (cases l) (auto simp: canonical_def strict_prefix_def)
  ultimately show ?case using Cons.IH [of "base @ [c]"] by (auto simp: resolve.simps(2))
qed simp

lemma lookup_located: "canonical fs l \<Longrightarrow> lookup fs cwd create (located l) = Inr l"
  using resolve_down [of fs "[]" l create max_links] by (simp add: lookup_def located_def empty_path_def)

lemma lookup_canonical:
  "lookup fs cwd False p = Inr l \<Longrightarrow> canonical fs cwd \<Longrightarrow> canonical fs l"
  by (auto simp: lookup_def split: if_splits sum.splits intro: resolve_canonical)

section \<open>The boundary\<close>

lemma guard_inside:
  assumes "workspace_root ctx fs = Some root" and "canonicalize fs (fc_cwd ctx) root = Inr r" and "guard ctx fs p = Inr l"
  shows "prefix r l \<and> lookup fs (fc_cwd ctx) False p = Inr l"
  using assms by (auto simp: guard_def safe_path_def canonicalize_def split: sum.splits if_splits)



text \<open>A workspace with a file, a link to it, a link to nowhere outside, and a secret outside.\<close>

definition demo_fs :: fs_tree where
  "demo_fs = [([''ws''], DirNode), ([''ws'', ''a''], FileNode ''text''), ([''ws'', ''link''], LinkNode False [''a'']),
     ([''ws'', ''hole''], LinkNode True [''out'', ''x'']), ([''out''], DirNode), ([''out'', ''secret''], FileNode ''key'')]"

definition demo_ctx :: fs_context where
  "demo_ctx = \<lparr>fc_root = Some ''/ws'', fc_cwd = [], fc_walk = (\<lambda>_ _ _. []),
     fc_output = \<lparr>count_tokens = length, to_json_compact = (\<lambda>_. []), to_json_pretty = (\<lambda>_. []), from_json = (\<lambda>_. None)\<rparr>\<rparr>"

lemma demo_root:
  "workspace_root demo_ctx demo_fs = Some (parse_path ''/ws'')" "canonicalize demo_fs (fc_cwd demo_ctx) (parse_path ''/ws'') = Inr [''ws'']"
  by code_simp+


text \<open>(C14) What is read is a file of the workspace.\<close>

theorem reading_confined:
  assumes "workspace_root ctx fs = Some root" and "canonicalize fs (fc_cwd ctx) root = Inr r"
    and "canonical fs (fc_cwd ctx)" and "fs_cat ctx path max_tokens fs = Inr out"
  shows "\<exists>l content. prefix r l \<and> node_at fs l = Some (FileNode content)
    \<and> out = emit_json (fc_output ctx) (cat_json (fc_output ctx) l content) None"
proof -
  obtain l content where l: "guard ctx fs (parse_path path) = Inr l" "read_to_string fs (fc_cwd ctx) (located l) = Inr content"
      "out = emit_json (fc_output ctx) (cat_json (fc_output ctx) l content) None"
    using assms(4) by (auto simp: fs_cat_def io_def bind_res_def split: if_splits sum.splits)
  have "prefix r l" "lookup fs (fc_cwd ctx) False (parse_path path) = Inr l" using guard_inside [OF assms(1,2) l(1)] by auto
  moreover from this(2) have "canonical fs l" using assms(3) by (rule lookup_canonical)
  then have "node_at fs l = Some (FileNode content)"
    using l(2) by (auto simp: read_to_string_def read_file_def lookup_located split: sum.splits if_splits option.splits fs_node.splits)
  ultimately show ?thesis using l(3) by blast
qed

theorem reading_confined_witness:
  "\<exists>l content. prefix [''ws''] l \<and> node_at demo_fs l = Some (FileNode content)
    \<and> fs_cat demo_ctx ''/ws/link'' None demo_fs = Inr (emit_json (fc_output demo_ctx) (cat_json (fc_output demo_ctx) l content) None)"
proof -
  have "canonical demo_fs (fc_cwd demo_ctx)" by (simp add: demo_ctx_def)
  moreover have "guard demo_ctx demo_fs (parse_path ''/ws/link'') = Inr [''ws'', ''a'']"
    "path_exists demo_fs (fc_cwd demo_ctx) (parse_path ''/ws/link'')"
    "read_to_string demo_fs (fc_cwd demo_ctx) (located [''ws'', ''a'']) = Inr ''text''" by code_simp+
  then have "fs_cat demo_ctx ''/ws/link'' None demo_fs
      = Inr (emit_json (fc_output demo_ctx) (cat_json (fc_output demo_ctx) [''ws'', ''a''] ''text'') None)"
    by (simp add: fs_cat_def io_def bind_res_def)
  ultimately show ?thesis using reading_confined [OF demo_root] by metis
qed

text \<open>Removing a link removes the file behind it, and the link stays.\<close>

theorem removing_link_removes_target:
  "let fs' = snd (fs_rm demo_ctx ''/ws/link'' False False None demo_fs)
   in node_at fs' [''ws'', ''a''] = None \<and> node_at fs' [''ws'', ''link''] = Some (LinkNode False [''a''])"
  by code_simp


section \<open>Writing\<close>

lemma write_file_outside:
  assumes "lookup fs cwd True p = Inr l" "prefix root l"
  shows "same_outside root fs (snd (write_file p content cwd fs))"
  using assms same_outside_put [of root l] by (cases "l = []") (auto simp: write_file_def is_dir_at_def node_at_def)

lemma resolve_create:
  "resolve fs False n base cs = Inr (l, m) \<Longrightarrow> resolve fs True n base cs = Inr (l, m)"
proof (induction fs "False" n base cs arbitrary: l m rule: resolve.induct)
  case (2 fs n base c cs)
  then show ?case by (auto simp: resolve.simps(2) split: if_splits option.splits fs_node.splits nat.splits)
qed simp

lemma lookup_create: "lookup fs cwd False p = Inr l \<Longrightarrow> lookup fs cwd True p = Inr l"
  by (auto simp: lookup_def split: if_splits sum.splits dest: resolve_create)

text \<open>With an existing target, or an existing directory in which the name is free, writing without a
  backup changes nothing outside the workspace.\<close>

lemma parent_resolved:
  assumes "path_parent p = Some q" "\<not> empty_path q"
  shows "lookup fs cwd create p =
    (case resolve fs False max_links (if fp_absolute p then [] else cwd) (fp_components q) of
       Inl e \<Rightarrow> Inl e
     | Inr (l, m) \<Rightarrow> (case resolve fs create m l [last (fp_components p)] of Inl e \<Rightarrow> Inl e | Inr (k, _) \<Rightarrow> Inr k))"
  using assms by (intro lookup_parent) (auto simp: path_parent_def empty_path_def split: if_splits)

lemma existing_parent: "path_exists fs cwd p \<Longrightarrow> make_parent p cwd fs = (Inr (), fs)"
proof (cases "path_parent p")
  case (Some q)
  assume p: "path_exists fs cwd p"
  show ?thesis
  proof (cases "empty_path q")
    case True
    then show ?thesis using Some
      by (auto simp: make_parent_def create_dir_all_def create_components.simps empty_path_def Let_def)
  next
    case False
    then have "path_exists fs cwd q"
      using p parent_resolved [OF Some False, of fs cwd False] Some
      by (auto simp: path_exists_def lookup_def path_parent_def split: sum.splits if_splits)
    then show ?thesis using Some by (simp add: make_parent_def)
  qed
qed (simp add: make_parent_def)

lemma free_name:
  assumes "path_parent p = Some q" and "lookup fs cwd False q = Inr l" and "''..'' \<notin> set (fp_components p)"
    and "node_at fs (l @ [last (fp_components p)]) = None"
  shows "lookup fs cwd True p = Inl NotADirectory \<or> lookup fs cwd True p = Inr (l @ [last (fp_components p)])"
proof -
  have "last (fp_components p) \<noteq> ''..''"
    using assms(1,3) last_in_set [of "fp_components p"] by (metis option.distinct(1) path_parent_def)
  then have q: "\<not> empty_path q" "last (fp_components p) \<noteq> ''..''" "fp_absolute q = fp_absolute p"
    using assms(1,2) by (auto simp: lookup_def path_parent_def split: if_splits)
  show ?thesis
    using assms(2,4) q unfolding parent_resolved [OF assms(1) q(1)]
    by (auto simp: lookup_def resolve.simps(2) split: sum.splits if_splits)
qed

lemma write_inside:
  assumes "make_parent p cwd fs = (Inr (), fs)"
    and "\<And>l. lookup fs cwd True p = Inr l \<Longrightarrow> prefix root l"
  shows "same_outside root fs (snd (write_steps False p content cwd fs))"
proof (cases "lookup fs cwd True p")
  case (Inl e)
  then show ?thesis using assms(1) by (simp add: write_steps_def make_backup_def write_file_def)
next
  case (Inr l)
  then have "same_outside root fs (snd (write_file p content cwd fs))" using assms(2) by (intro write_file_outside)
  then show ?thesis using assms(1) by (auto simp: write_steps_def make_backup_def split: prod.splits sum.splits)
qed

theorem writing_confined:
  assumes "workspace_root ctx fs = Some root" and "canonicalize fs (fc_cwd ctx) root = Inr r"
    and "path_exists fs (fc_cwd ctx) (parse_path path)
      \<or> (\<exists>q l. path_parent (parse_path path) = Some q \<and> lookup fs (fc_cwd ctx) False q = Inr l
           \<and> node_at fs (l @ [last (fp_components (parse_path path))]) = None)"
  shows "same_outside r fs (snd (fs_write ctx path content dry_run False max_tokens fs))"
proof (cases "check_write ctx fs (parse_path path)")
  case (Inl e)
  then show ?thesis by (simp add: fs_write_def)
next
  case (Inr u)
  let ?p = "parse_path path" let ?cwd = "fc_cwd ctx"
  have no_dots: "''..'' \<notin> set (fp_components ?p)"
    using Inr by (auto simp: check_write_def reject_traversal_def bind_res_def split: if_splits)
  have "make_parent ?p ?cwd fs = (Inr (), fs) \<and> (\<forall>l. lookup fs ?cwd True ?p = Inr l \<longrightarrow> prefix r l)"
  proof (cases "path_exists fs ?cwd ?p")
    case True
    then obtain l where l: "guard ctx fs ?p = Inr l"
      using Inr by (auto simp: check_write_def bind_res_def split: if_splits sum.splits)
    from guard_inside [OF assms(1,2) l] have "prefix r l" "lookup fs ?cwd True ?p = Inr l" by (auto dest: lookup_create)
    then show ?thesis using existing_parent [OF True] by simp
  next
    case False
    then obtain q l where q: "path_parent ?p = Some q" "lookup fs ?cwd False q = Inr l"
        "node_at fs (l @ [last (fp_components ?p)]) = None" using assms(3) by blast
    then have "path_exists fs ?cwd q" by (simp add: path_exists_def)
    moreover from this have "prefix r l" using Inr False q assms(1,2)
      by (auto simp: check_write_def check_parent_def bind_res_def safe_path_def canonicalize_def split: if_splits sum.splits)
    moreover have "lookup fs ?cwd True ?p = Inr k \<Longrightarrow> prefix l k" for k
      using free_name [OF q(1,2) no_dots q(3)] by auto
    ultimately show ?thesis using q(1) prefix_order.trans by (fastforce simp: make_parent_def)
  qed
  then have "same_outside r fs (snd (write_steps False ?p content ?cwd fs))" by (intro write_inside) auto
  then show ?thesis using Inr by (auto simp: fs_write_def Let_def split: prod.splits sum.splits)
qed

theorem writing_confined_witness:
  "node_at (snd (fs_write demo_ctx ''/ws/b'' ''text'' False False None demo_fs)) [''out'', ''secret''] = Some (FileNode ''key'')"
proof -
  have "lookup demo_fs (fc_cwd demo_ctx) False (parse_path ''/ws'') = Inr [''ws'']"
    "path_parent (parse_path ''/ws/b'') = Some (parse_path ''/ws'')"
    "node_at demo_fs ([''ws''] @ [last (fp_components (parse_path ''/ws/b''))]) = None"
    "node_at demo_fs [''out'', ''secret''] = Some (FileNode ''key'')" by code_simp+
  then show ?thesis
    using writing_confined [OF demo_root, of "''/ws/b''" "''text''" False None] by (auto simp: same_outside_def)
qed

section \<open>Written files are read back\<close>

lemma resolve_end:
  "resolve fs True n base cs = Inr (l, m) \<Longrightarrow> canonical fs base \<Longrightarrow> node_at fs l \<noteq> Some (LinkNode a t)"
proof (induction fs "True" n base cs arbitrary: l m rule: resolve.induct)
  case (2 fs n base c cs)
  then show ?case
    by (auto simp: resolve.simps(2) canonical_butlast canonical_snoc split: if_splits option.splits fs_node.splits nat.splits)
qed (auto simp: canonical_def)

lemma resolve_written:
  "resolve fs True n base cs = Inr (l, m) \<Longrightarrow> node_at fs l \<noteq> Some DirNode \<Longrightarrow> l \<noteq> [] \<Longrightarrow> canonical fs base \<Longrightarrow>
     resolve (put_node l (FileNode s) fs) False n base cs = Inr (l, m)"
proof (induction fs "True" n base cs arbitrary: l m rule: resolve.induct)
  case (2 fs n base c cs)
  let ?fs = "put_node l (FileNode s) fs"
  note goes = "2.prems"(1) note new = "2.prems"(2,3) note base = "2.prems"(4)
  have dir: "node_at fs base = Some DirNode" "node_at ?fs base = Some DirNode"
    using goes new by (auto simp: resolve.simps(2) split: if_splits)
  show ?case
  proof (cases "c = ''..''")
    case True
    then show ?thesis using dir goes new base 2(1) by (auto simp: resolve.simps(2) canonical_butlast)
  next
    case False
    show ?thesis
    proof (cases "node_at fs (base @ [c])")
      case None
      then show ?thesis using dir goes new False by (auto simp: resolve.simps(2) split: if_splits)
    next
      case (Some x)
      have end_no_link: "node_at fs l \<noteq> Some (LinkNode a t)" for a t
        using goes base by (rule resolve_end)
      show ?thesis
      proof (cases x)
        case (FileNode y)
        then have "cs = []" "l = base @ [c]" "m = n"
          using goes dir False Some by (cases cs; auto simp: resolve.simps(2))+
        then show ?thesis using dir new False by (simp add: resolve.simps(2))
      next
        case DirNode
        then have next_step: "resolve fs True n (base @ [c]) cs = Inr (l, m)" "canonical fs (base @ [c])"
          using goes dir False Some base by (auto simp: resolve.simps(2) canonical_snoc)
        moreover have "l \<noteq> base @ [c]" using new(1) Some DirNode by auto
        ultimately show ?thesis
          using 2(3) [OF _ False Some DirNode next_step(1) new next_step(2)] dir False Some DirNode new(2)
          by (auto simp: resolve.simps(2))
      next
        case (LinkNode a t)
        then obtain k where k: "n = Suc k" "resolve fs True k (if a then [] else base) (t @ cs) = Inr (l, m)"
          using goes dir False Some by (auto simp: resolve.simps(2) split: nat.splits)
        moreover have "l \<noteq> base @ [c]" using end_no_link Some LinkNode by auto
        moreover have "canonical fs (if a then [] else base)" using base by simp
        ultimately show ?thesis
          using 2(4) dir False Some LinkNode new by (auto simp: resolve.simps(2))
      qed
    qed
  qed
qed auto

lemma canonical_put:
  assumes "canonical fs k" "node_at fs l \<noteq> Some DirNode" "l \<noteq> []" "n = DirNode \<or> (\<exists>s. n = FileNode s)"
  shows "canonical (put_node l n fs) k"
  using assms by (auto simp: canonical_def)

lemma write_file_canonical: "canonical fs k \<Longrightarrow> canonical (snd (write_file p content cwd fs)) k"
  by (auto simp: write_file_def is_dir_at_def node_at_def split: sum.splits intro!: canonical_put)

lemma copy_file_canonical: "canonical fs k \<Longrightarrow> canonical (snd (copy_file src dst cwd fs)) k"
  by (auto simp: copy_file_def write_file_canonical split: sum.splits io_error.splits)

lemma create_dir_canonical: "canonical fs k \<Longrightarrow> canonical (snd (create_dir p cwd fs)) k"
  by (auto simp: create_dir_def Let_def split: option.splits sum.splits intro!: canonical_put)

lemma create_components_canonical: "canonical fs k \<Longrightarrow> canonical (snd (create_components absolute cs cwd fs)) k"
proof (induction absolute cs cwd fs rule: create_components.induct)
  case (1 absolute cs cwd fs)
  let ?p = "\<lparr>fp_absolute = absolute, fp_components = cs\<rparr>"
  show ?case
    using 1 create_dir_canonical [of fs k ?p cwd] create_dir_canonical [of "snd (create_components absolute (butlast cs) cwd fs)" k ?p cwd]
    by (subst create_components.simps) (auto simp: Let_def split: prod.splits sum.splits)
qed

lemma make_parent_canonical: "canonical fs k \<Longrightarrow> canonical (snd (make_parent p cwd fs)) k"
  by (auto simp: make_parent_def create_dir_all_def create_components_canonical split: option.splits)

lemma make_backup_canonical: "canonical fs k \<Longrightarrow> canonical (snd (make_backup backup p cwd fs)) k"
  using copy_file_canonical [of fs k p "backup_path p" cwd] by (auto simp: make_backup_def split: prod.splits sum.splits)

lemma write_file_reads_back:
  assumes "write_file p content cwd fs = (Inr (), fs')" and "canonical fs cwd" and "utf8_ok content"
  shows "read_to_string fs' cwd p = Inr content"
proof -
  obtain l where l: "lookup fs cwd True p = Inr l" "\<not> is_dir_at fs l" "fs' = put_node l (FileNode content) fs"
    using assms(1) by (auto simp: write_file_def split: sum.splits if_splits)
  then have "l \<noteq> []" by (auto simp: is_dir_at_def node_at_def)
  moreover have "lookup fs' cwd False p = Inr l"
    using l \<open>l \<noteq> []\<close> assms(2) resolve_written [of fs max_links "if fp_absolute p then [] else cwd" "fp_components p" l]
    by (auto simp: lookup_def is_dir_at_def split: if_splits sum.splits)
  ultimately show ?thesis using l(3) assms(3) by (simp add: read_to_string_def read_file_def)
qed

text \<open>(C31) A text that was written is what the path reads afterwards, with directories made and a backup
  taken on the way, and through links.\<close>

theorem written_text_reads_back:
  assumes "fs_write ctx path content False backup max_tokens fs = (Inr out, fs')"
    and "canonical fs (fc_cwd ctx)" and "utf8_ok content"
  shows "read_to_string fs' (fc_cwd ctx) (parse_path path) = Inr content"
proof -
  let ?p = "parse_path path" let ?cwd = "fc_cwd ctx"
  obtain bak where "write_steps backup ?p content ?cwd fs = (Inr bak, fs')"
    using assms(1) by (auto simp: fs_write_def Let_def split: sum.splits prod.splits)
  then obtain fs1 fs2 where s: "make_parent ?p ?cwd fs = (Inr (), fs1)" "make_backup backup ?p ?cwd fs1 = (Inr bak, fs2)"
      "write_file ?p content ?cwd fs2 = (Inr (), fs')"
    by (auto simp: write_steps_def split: prod.splits sum.splits)
  have "canonical fs2 ?cwd"
    using make_parent_canonical [OF assms(2), of ?p ?cwd] make_backup_canonical [of fs1 ?cwd backup ?p ?cwd] s by simp
  then show ?thesis using write_file_reads_back s(3) assms(3) by blast
qed

theorem written_text_reads_back_witness:
  "read_to_string (snd (fs_write demo_ctx ''/ws/new/b.txt'' ''text'' False True None demo_fs)) [] (parse_path ''/ws/new/b.txt'') = Inr ''text''"
proof -
  have "ok (fst (fs_write demo_ctx ''/ws/new/b.txt'' ''text'' False True None demo_fs))" by code_simp
  then obtain out where "fs_write demo_ctx ''/ws/new/b.txt'' ''text'' False True None demo_fs
      = (Inr out, snd (fs_write demo_ctx ''/ws/new/b.txt'' ''text'' False True None demo_fs))"
    by (cases "fs_write demo_ctx ''/ws/new/b.txt'' ''text'' False True None demo_fs") (auto simp: ok_def split: sum.splits)
  from written_text_reads_back [OF this] show ?thesis by (simp add: demo_ctx_def utf8_ok_ascii is_ascii_def)
qed

end
