(* ===== verification/Secrets.thy ===== *)
theory Secrets
  imports Encoding Interfaces "HOL-Library.List_Lexorder" "HOL-Library.Char_ord"
begin

text \<open>
  The secrets of an agent (\<open>commands/secrets.rs\<close>): an encrypted file with its key file, the
  migration from the block in \<open>.bashrc\<close> that older versions kept, and the two commands.

  An agent's home is the record \<open>secret_home\<close>.  Cipher, base64, the JSON codec of the file and the
  random bytes (numbered as they are drawn) are the record \<open>secret_env\<close>.
\<close>

type_synonym secrets = "(string \<times> string) list"

record secret_env =
  sv_random_key :: "nat \<Rightarrow> string"
  sv_nonce :: "nat \<Rightarrow> string"
  sv_seal :: "string \<Rightarrow> string \<Rightarrow> string \<Rightarrow> string"
  sv_open :: "string \<Rightarrow> string \<Rightarrow> string \<Rightarrow> string option"
  sv_encode :: "string \<Rightarrow> string"
  sv_decode :: "string \<Rightarrow> string option"
  sv_print :: "secrets \<Rightarrow> string"
  sv_parse :: "string \<Rightarrow> secrets option"

record secret_home =
  sh_exists :: bool
  sh_key :: "string option"
  sh_secrets :: "string option"
  sh_bashrc :: "string option"
  sh_drawn :: nat

datatype secret_error =
    EmptySecretKey
  | BadKeyStart string
  | BadKeyChars string
  | CorruptKeyFile nat
  | SecretNotUtf8
  | SecretBadJson

section \<open>Keys and encryption\<close>

definition key_start :: "char \<Rightarrow> bool" where
  "key_start c \<longleftrightarrow> is_upper c \<or> is_lower c \<or> c = CHR ''_''"

definition key_char :: "char \<Rightarrow> bool" where
  "key_char c \<longleftrightarrow> is_ascii_alnum c \<or> c = CHR ''_''"

definition validate_secret_key :: "string \<Rightarrow> secret_error + unit" where
  "validate_secret_key k =
     (case k of
        [] \<Rightarrow> Inl EmptySecretKey
      | c # cs \<Rightarrow>
          if \<not> key_start c then Inl (BadKeyStart k)
          else if \<not> list_all key_char cs then Inl (BadKeyChars k)
          else Inr ())"

definition get_or_create_key :: "secret_env \<Rightarrow> secret_home \<Rightarrow> (secret_error + string) \<times> secret_home" where
  "get_or_create_key env h =
     (case sh_key h of
        Some data \<Rightarrow> (if length data \<noteq> 32 then (Inl (CorruptKeyFile (length data)), h) else (Inr data, h))
      | None \<Rightarrow>
          (let key = sv_random_key env (sh_drawn h) in
           (Inr key, h\<lparr>sh_exists := True, sh_key := Some key, sh_drawn := sh_drawn h + 1\<rparr>)))"

definition encrypt_secret :: "secret_env \<Rightarrow> string \<Rightarrow> nat \<Rightarrow> string \<Rightarrow> string" where
  "encrypt_secret env key i plain = sv_encode env (sv_nonce env i @ sv_seal env key (sv_nonce env i) plain)"

definition decrypt_secret :: "secret_env \<Rightarrow> string \<Rightarrow> string \<Rightarrow> string option" where
  "decrypt_secret env key encoded =
     (case sv_decode env encoded of
        None \<Rightarrow> None
      | Some combined \<Rightarrow>
          if length combined < 12 then None
          else (case sv_open env key (take 12 combined) (drop 12 combined) of
                  None \<Rightarrow> None
                | Some plain \<Rightarrow> if utf8_ok plain then Some plain else None))"

section \<open>The encrypted file\<close>

definition decrypted :: "secret_env \<Rightarrow> string \<Rightarrow> secrets \<Rightarrow> secrets" where
  "decrypted env key es =
     concat (map (\<lambda>(k, v). case decrypt_secret env key v of Some p \<Rightarrow> [(k, p)] | None \<Rightarrow> []) es)"

definition load_encrypted_secrets :: "secret_env \<Rightarrow> string \<Rightarrow> secret_home \<Rightarrow> secret_error + secrets" where
  "load_encrypted_secrets env key h =
     (case sh_secrets h of
        None \<Rightarrow> Inr []
      | Some data \<Rightarrow>
          if \<not> utf8_ok data then Inl SecretNotUtf8
          else (case sv_parse env data of None \<Rightarrow> Inl SecretBadJson | Some es \<Rightarrow> Inr (decrypted env key es)))"

definition encrypted :: "secret_env \<Rightarrow> string \<Rightarrow> nat \<Rightarrow> secrets \<Rightarrow> secrets" where
  "encrypted env key i m = map (\<lambda>(j, k, v). (k, encrypt_secret env key j v)) (List.enumerate i m)"

definition save_encrypted_secrets :: "secret_env \<Rightarrow> string \<Rightarrow> secrets \<Rightarrow> secret_home \<Rightarrow> secret_home" where
  "save_encrypted_secrets env key m h =
     h\<lparr>sh_secrets := Some (sv_print env (encrypted env key (sh_drawn h) m)), sh_drawn := sh_drawn h + length m\<rparr>"

section \<open>The block in the shell profile\<close>

definition block_start :: string where "block_start = ''# >>> that-managed-secrets >>>''"
definition block_end :: string where "block_end = ''# <<< that-managed-secrets <<<''"

definition quote :: string where "quote = [CHR 0x27]"

definition quoted_quote :: string where
  "quoted_quote = [CHR 0x27, CHR 0x22, CHR 0x27, CHR 0x22, CHR 0x27]"

definition unquote_bash_single :: "string \<Rightarrow> string" where
  "unquote_bash_single v =
     (if length v \<ge> 2 \<and> prefix quote v \<and> suffix quote v
      then replace_str quoted_quote quote (take (length v - 2) (drop 1 v)) else v)"

definition parse_export_line :: "string \<Rightarrow> (string \<times> string) option" where
  "parse_export_line line =
     (case strip_prefix ''export '' (trim line) of
        None \<Rightarrow> None
      | Some r \<Rightarrow>
          (case split_once (CHR ''='') r of
             None \<Rightarrow> None
           | Some (k, raw) \<Rightarrow> if trim k = [] then None else Some (trim k, unquote_bash_single (trim raw))))"

definition insert_export :: "secrets \<Rightarrow> string \<Rightarrow> secrets" where
  "insert_export m line = (case parse_export_line line of Some e \<Rightarrow> sorted_put fst m e | None \<Rightarrow> m)"

fun block_secrets :: "bool \<Rightarrow> secrets \<Rightarrow> string list \<Rightarrow> secrets" where
  "block_secrets in_block m [] = m"
| "block_secrets in_block m (l # ls) =
     (if trim l = block_start then block_secrets True m ls
      else if trim l = block_end then m
      else block_secrets in_block (if in_block then insert_export m l else m) ls)"

definition load_secrets_from_bashrc :: "string \<Rightarrow> secrets" where
  "load_secrets_from_bashrc content = block_secrets False [] (str_lines content)"

definition load_exports_from_bashrc :: "string \<Rightarrow> secrets" where
  "load_exports_from_bashrc content = foldl insert_export [] (str_lines content)"

fun outside_block :: "bool \<Rightarrow> string list \<Rightarrow> string list" where
  "outside_block in_block [] = []"
| "outside_block in_block (l # ls) =
     (if trim l = block_start then outside_block True ls
      else if trim l = block_end then outside_block False ls
      else if in_block then outside_block in_block ls else l # outside_block in_block ls)"

definition remove_secrets_block :: "string \<Rightarrow> string" where
  "remove_secrets_block content = join [newline] (outside_block False (str_lines content))"

definition migrate_from_bashrc :: "secret_env \<Rightarrow> string \<Rightarrow> secret_home \<Rightarrow> (secret_error + secrets) \<times> secret_home" where
  "migrate_from_bashrc env key h =
     (case sh_bashrc h of
        None \<Rightarrow> (Inr [], h)
      | Some content \<Rightarrow>
          if \<not> utf8_ok content then (Inl SecretNotUtf8, h)
          else (let legacy = load_secrets_from_bashrc content in
                if legacy = [] then (Inr [], h)
                else (Inr legacy, (save_encrypted_secrets env key legacy h)\<lparr>sh_bashrc := Some (remove_secrets_block content)\<rparr>)))"

section \<open>Operations\<close>

definition load_agent_secrets :: "secret_env \<Rightarrow> secret_home \<Rightarrow> (secret_error + secrets) \<times> secret_home" where
  "load_agent_secrets env h =
     (if \<not> sh_exists h then (Inr [], h)
      else (case get_or_create_key env h of
              (Inl e, h1) \<Rightarrow> (Inl e, h1)
            | (Inr key, h1) \<Rightarrow>
                if sh_secrets h1 \<noteq> None then (load_encrypted_secrets env key h1, h1)
                else (case migrate_from_bashrc env key h1 of
                        (Inl e, h2) \<Rightarrow> (Inl e, h2)
                      | (Inr m, h2) \<Rightarrow> if m \<noteq> [] then (Inr m, h2) else (load_encrypted_secrets env key h2, h2))))"

datatype secret_command = AddSecret string string | DeleteSecret string

definition command_key :: "secret_command \<Rightarrow> string" where
  "command_key c = (case c of AddSecret k _ \<Rightarrow> k | DeleteSecret k \<Rightarrow> k)"

definition change_secrets :: "secret_command \<Rightarrow> secrets \<Rightarrow> secrets" where
  "change_secrets c m = (case c of AddSecret k v \<Rightarrow> sorted_put fst m (k, v) | DeleteSecret k \<Rightarrow> drop_key fst m k)"

text \<open>The texts that are printed do not matter here.\<close>

definition handle_secrets_command :: "secret_env \<Rightarrow> secret_command \<Rightarrow> secret_home \<Rightarrow> (secret_error + unit) \<times> secret_home" where
  "handle_secrets_command env c h =
     (case get_or_create_key env (h\<lparr>sh_exists := True\<rparr>) of
        (Inl e, h1) \<Rightarrow> (Inl e, h1)
      | (Inr key, h1) \<Rightarrow>
          (case (if sh_secrets h1 = None then migrate_from_bashrc env key h1 else (Inr [], h1)) of
             (Inl e, h2) \<Rightarrow> (Inl e, h2)
           | (Inr _, h2) \<Rightarrow>
               (case load_encrypted_secrets env key h2 of
                  Inl e \<Rightarrow> (Inl e, h2)
                | Inr m \<Rightarrow>
                    (case validate_secret_key (command_key c) of
                       Inl e \<Rightarrow> (Inl e, h2)
                     | Inr _ \<Rightarrow> (Inr (), save_encrypted_secrets env key (change_secrets c m) h2)))))"

end
