(* ===== verification/Demo_Codecs.thy ===== *)
theory Demo_Codecs
  imports Encoding
begin

text \<open>
  A printer and parser of string lists that are inverse to each other on every input and print
  ASCII only: concrete instances for the codecs that are parameters of the components.
\<close>

definition unary_char :: "char \<Rightarrow> string" where
  "unary_char c = replicate (of_char c) (CHR ''i'') @ ''.''"

definition unary_string :: "string \<Rightarrow> string" where
  "unary_string s = concat (map unary_char s) @ ''/''"

definition print_strings :: "string list \<Rightarrow> string" where
  "print_strings ss = concat (map unary_string ss)"

fun parse_unary :: "nat \<Rightarrow> string \<Rightarrow> string \<Rightarrow> string list" where
  "parse_unary n acc [] = []"
| "parse_unary n acc (c # cs) =
     (if c = CHR ''i'' then parse_unary (Suc n) acc cs
      else if c = CHR ''.'' then parse_unary 0 (acc @ [char_of n]) cs
      else acc # parse_unary 0 [] cs)"

definition parse_strings :: "string \<Rightarrow> string list" where
  "parse_strings s = parse_unary 0 [] s"

lemma parse_unary_digits: "parse_unary n acc (replicate k (CHR ''i'') @ s) = parse_unary (n + k) acc s"
  by (induction k arbitrary: n) auto

lemma parse_unary_char: "parse_unary 0 acc (unary_char c @ s) = parse_unary 0 (acc @ [c]) s"
  by (simp add: unary_char_def parse_unary_digits)

lemma parse_unary_chars: "parse_unary 0 acc (concat (map unary_char cs) @ s) = parse_unary 0 (acc @ cs) s"
  by (induction cs arbitrary: acc) (simp_all add: parse_unary_char)

lemma parse_print_strings [simp]: "parse_strings (print_strings ss) = ss"
  unfolding parse_strings_def print_strings_def
  by (induction ss) (simp_all add: unary_string_def parse_unary_chars)

lemma print_strings_utf8 [simp]: "utf8_ok (print_strings ss)"
proof (rule utf8_ok_ascii)
  show "list_all is_ascii (print_strings ss)"
    by (auto simp: print_strings_def unary_string_def unary_char_def list_all_iff is_ascii_def)
qed

fun pairs_of :: "string list \<Rightarrow> (string \<times> string) list" where
  "pairs_of (a # b # ss) = (a, b) # pairs_of ss"
| "pairs_of _ = []"

definition print_pairs :: "(string \<times> string) list \<Rightarrow> string" where
  "print_pairs ps = print_strings (concat (map (\<lambda>(a, b). [a, b]) ps))"

definition parse_pairs :: "string \<Rightarrow> (string \<times> string) list" where
  "parse_pairs s = pairs_of (parse_strings s)"

lemma parse_print_pairs [simp]: "parse_pairs (print_pairs ps) = ps"
proof -
  have "pairs_of (concat (map (\<lambda>(a, b). [a, b]) ps)) = ps" by (induction ps) auto
  then show ?thesis by (simp add: parse_pairs_def print_pairs_def)
qed

lemma print_pairs_utf8 [simp]: "utf8_ok (print_pairs ps)"
  by (simp add: print_pairs_def)

end
