(* ===== verification/Secrets_Props.thy ===== *)
theory Secrets_Props
  imports Secrets Demo_Codecs
begin

text \<open>
  The secrets of an agent are a map that survives restarts and the migration, as long as the key
  file stays; the closed theorems show what the migration and a lost key file destroy.
\<close>

section \<open>Reading back\<close>

text \<open>What the libraries promise: opening inverts sealing, decoding encoding, parsing printing.\<close>

definition good_table :: "secrets \<Rightarrow> bool" where
  "good_table m \<longleftrightarrow> sorted (map fst m) \<and> distinct (map fst m) \<and> list_all (utf8_ok \<circ> snd) m"

definition honest :: "secret_env \<Rightarrow> bool" where
  "honest env \<longleftrightarrow>
     (\<forall>k n p. sv_open env k n (sv_seal env k n p) = Some p) \<and> (\<forall>x. sv_decode env (sv_encode env x) = Some x)
     \<and> (\<forall>i. length (sv_nonce env i) = 12) \<and> (\<forall>i. length (sv_random_key env i) = 32)
     \<and> (\<forall>m. sorted (map fst m) \<and> distinct (map fst m) \<longrightarrow> utf8_ok (sv_print env m) \<and> sv_parse env (sv_print env m) = Some m)"

lemma decrypt_encrypted: "honest env \<Longrightarrow> utf8_ok p \<Longrightarrow> decrypt_secret env key (encrypt_secret env key i p) = Some p"
  by (simp add: honest_def decrypt_secret_def encrypt_secret_def)

lemma decrypted_encrypted: "honest env \<Longrightarrow> list_all (utf8_ok \<circ> snd) m \<Longrightarrow> decrypted env key (encrypted env key i m) = m"
  by (induction m arbitrary: i) (auto simp: decrypted_def encrypted_def decrypt_encrypted)

lemma encrypted_keys [simp]: "map fst (encrypted env key i m) = map fst m"
  by (induction m arbitrary: i) (auto simp: encrypted_def)

lemma saved_loads:
  assumes "honest env" "good_table m"
  shows "load_encrypted_secrets env key (save_encrypted_secrets env key m h) = Inr m"
proof -
  have "sorted (map fst (encrypted env key (sh_drawn h) m)) \<and> distinct (map fst (encrypted env key (sh_drawn h) m))"
    using assms(2) by (simp only: encrypted_keys good_table_def)
  then have "utf8_ok (sv_print env (encrypted env key (sh_drawn h) m))"
    "sv_parse env (sv_print env (encrypted env key (sh_drawn h) m)) = Some (encrypted env key (sh_drawn h) m)"
    using assms(1) unfolding honest_def by blast+
  then show ?thesis using assms
    by (simp add: load_encrypted_secrets_def save_encrypted_secrets_def decrypted_encrypted good_table_def)
qed

lemma save_keeps [simp]:
  "sh_key (save_encrypted_secrets env key m h) = sh_key h" "sh_exists (save_encrypted_secrets env key m h) = sh_exists h"
  "sh_secrets (save_encrypted_secrets env key m h) \<noteq> None"
  by (simp_all add: save_encrypted_secrets_def)

lemma load_ignores_bashrc [simp]: "load_encrypted_secrets env key (h\<lparr>sh_bashrc := b\<rparr>) = load_encrypted_secrets env key h"
  by (simp add: load_encrypted_secrets_def)

section \<open>The map\<close>

text \<open>A home with its key in place that holds the secrets \<open>m\<close>, encrypted or still in the profile.\<close>

definition holds :: "secret_env \<Rightarrow> string \<Rightarrow> secret_home \<Rightarrow> secrets \<Rightarrow> bool" where
  "holds env key h m \<longleftrightarrow>
     sh_exists h \<and> sh_key h = Some key \<and> length key = 32 \<and> fst (load_agent_secrets env h) = Inr m \<and> good_table m"

definition valid_command :: "secret_command \<Rightarrow> bool" where
  "valid_command c \<longleftrightarrow> ok (validate_secret_key (command_key c)) \<and> (case c of AddSecret _ v \<Rightarrow> utf8_ok v | _ \<Rightarrow> True)"



lemma change_good: "good_table m \<Longrightarrow> valid_command c \<Longrightarrow> good_table (change_secrets c m)"
proof (cases c)
  case (AddSecret k v)
  assume "good_table m" "valid_command c"
  then show ?thesis using AddSecret sorted_put_sorted [of fst m "(k, v)"] sorted_table.put_distinct [of fst m "(k, v)"]
    by (auto simp: good_table_def change_secrets_def valid_command_def sorted_put_def list_all_iff)
next
  case (DeleteSecret k)
  assume "good_table m"
  then show ?thesis using DeleteSecret sorted_table.del_distinct [of fst m k]
    by (auto simp: good_table_def change_secrets_def drop_key_sorted) (auto simp: drop_key_def list_all_iff)
qed

text \<open>What the commands work on is what loading gives.\<close>

lemma holds_prepared:
  assumes "honest env" "holds env key h m"
  obtains h2 where "(case (if sh_secrets h = None then migrate_from_bashrc env key h else (Inr [], h)) of
       (Inl e, h2) \<Rightarrow> None | (Inr _, h2) \<Rightarrow> Some h2) = Some h2"
    "load_encrypted_secrets env key h2 = Inr m" "sh_key h2 = Some key" "sh_exists h2"
proof -
  have "get_or_create_key env h = (Inr key, h)" using assms(2) by (simp add: holds_def get_or_create_key_def)
  then have l: "fst (load_agent_secrets env h) = Inr m" "get_or_create_key env h = (Inr key, h)" "sh_exists h" "sh_key h = Some key"
    using assms(2) by (auto simp: holds_def)
  show thesis
  proof (cases "sh_secrets h")
    case (Some s)
    then show thesis using l that [of h] by (simp add: load_agent_secrets_def)
  next
    case None
    obtain r h2 where mig: "migrate_from_bashrc env key h = (r, h2)" by (cases "migrate_from_bashrc env key h")
    then obtain legacy where r: "r = Inr legacy" using l None by (cases r) (auto simp: load_agent_secrets_def)
    show thesis
    proof (cases "legacy = []")
      case True
      then have "h2 = h" using mig r None
        by (auto simp: migrate_from_bashrc_def Let_def split: option.splits if_splits)
      then show thesis using that [of h] l None mig r True by (auto simp: load_agent_secrets_def)
    next
      case False
      then have "legacy = m" using l None mig r by (auto simp: load_agent_secrets_def)
      moreover have "load_encrypted_secrets env key h2 = Inr legacy \<and> sh_key h2 = sh_key h \<and> sh_exists h2 = sh_exists h"
        using mig r False assms calculation saved_loads [OF assms(1), of m key h]
        by (auto simp: migrate_from_bashrc_def Let_def holds_def split: option.splits if_splits)
      ultimately show thesis using that [of h2] l None mig r by auto
    qed
  qed
qed

lemma command_step:
  assumes "honest env" "holds env key h m" "valid_command c"
  shows "fst (handle_secrets_command env c h) = Inr ()" "holds env key (snd (handle_secrets_command env c h)) (change_secrets c m)"
proof -
  have key: "get_or_create_key env (h\<lparr>sh_exists := True\<rparr>) = (Inr key, h)"
    using assms(2) by (cases h) (auto simp: holds_def get_or_create_key_def)
  have len: "length key = 32" using assms(2) by (simp add: holds_def)
  obtain h2 where h2: "(case (if sh_secrets h = None then migrate_from_bashrc env key h else (Inr [], h)) of
       (Inl e, h2) \<Rightarrow> None | (Inr _, h2) \<Rightarrow> Some h2) = Some h2"
    "load_encrypted_secrets env key h2 = Inr m" "sh_key h2 = Some key" "sh_exists h2"
    using holds_prepared [OF assms(1,2)] by blast
  then obtain x where x: "(if sh_secrets h = None then migrate_from_bashrc env key h else (Inr [], h)) = (Inr x, h2)"
    by (auto split: prod.splits sum.splits if_splits)
  have valid: "validate_secret_key (command_key c) = Inr ()"
    using assms(3) by (auto simp: valid_command_def ok_def split: sum.splits)
  have run: "handle_secrets_command env c h = (Inr (), save_encrypted_secrets env key (change_secrets c m) h2)"
    unfolding handle_secrets_command_def key prod.case sum.case x h2(2) valid by simp
  then show "fst (handle_secrets_command env c h) = Inr ()" by simp
  have good: "good_table (change_secrets c m)" using assms(2,3) change_good by (auto simp: holds_def)
  have "load_encrypted_secrets env key (save_encrypted_secrets env key (change_secrets c m) h2) = Inr (change_secrets c m)"
    using assms(1) good by (rule saved_loads)
  then show "holds env key (snd (handle_secrets_command env c h)) (change_secrets c m)"
    using run h2 good len by (simp add: holds_def load_agent_secrets_def get_or_create_key_def)
qed



text \<open>A cipher that puts the key in front of the text, with codecs that are inverse.\<close>

definition toy_env :: secret_env where
  "toy_env = \<lparr>sv_random_key = (\<lambda>_. replicate 32 (CHR ''r'')), sv_nonce = (\<lambda>_. replicate 12 (CHR ''n'')),
     sv_seal = (\<lambda>k n p. k @ p), sv_open = (\<lambda>k n c. if prefix k c then Some (drop (length k) c) else None),
     sv_encode = (\<lambda>s. s), sv_decode = Some, sv_print = print_pairs, sv_parse = (\<lambda>s. Some (parse_pairs s))\<rparr>"

lemma toy_honest: "honest toy_env"
  by (simp add: honest_def toy_env_def)

definition toy_key :: string where
  "toy_key = replicate 32 (CHR ''k'')"

definition toy_home :: secret_home where
  "toy_home = \<lparr>sh_exists = True, sh_key = Some toy_key, sh_secrets = None, sh_bashrc = None, sh_drawn = 0\<rparr>"



section \<open>A lost key\<close>

lemma decrypted_none: "\<forall>e\<in>set es. decrypt_secret env key (snd e) = None \<Longrightarrow> decrypted env key es = []"
  by (induction es) (auto simp: decrypted_def)

text \<open>(C37) A missing key file is replaced by a new key without a word; secrets that do not open with it are
  skipped when loading, and the next command writes the file without them.\<close>

theorem lost_key_erases_secrets:
  assumes "honest env" and "holds env key h m" and "sh_secrets h \<noteq> None"
    and "sh_secrets h = Some (sv_print env (encrypted env key i m))"
    and "\<forall>n p. sv_open env (sv_random_key env (sh_drawn h)) n (sv_seal env key n p) = None"
    and "valid_command (AddSecret k v)"
  shows "fst (load_agent_secrets env (snd (handle_secrets_command env (AddSecret k v) (h\<lparr>sh_key := None\<rparr>)))) = Inr [(k, v)]"
proof -
  let ?new = "sv_random_key env (sh_drawn h)"
  let ?h1 = "h\<lparr>sh_exists := True, sh_key := Some ?new, sh_drawn := sh_drawn h + 1\<rparr>"
  have key: "get_or_create_key env (h\<lparr>sh_key := None, sh_exists := True\<rparr>) = (Inr ?new, ?h1)"
    by (simp add: get_or_create_key_def Let_def)
  have again: "get_or_create_key env (?h1\<lparr>sh_exists := True\<rparr>) = (Inr ?new, ?h1)"
    using assms(1) by (cases h) (simp add: get_or_create_key_def honest_def)
  have table: "sorted (map fst (encrypted env key i m)) \<and> distinct (map fst (encrypted env key i m))"
    using assms(2) by (simp only: encrypted_keys holds_def good_table_def)
  have "decrypt_secret env ?new (encrypt_secret env key j p) = None" for j p
    using assms(1,5) by (simp add: decrypt_secret_def encrypt_secret_def honest_def)
  then have "decrypted env ?new (encrypted env key i m) = []"
    by (intro decrypted_none) (auto simp: encrypted_def)
  then have empty: "load_encrypted_secrets env ?new ?h1 = Inr []"
    using assms(1,4) table by (simp add: load_encrypted_secrets_def honest_def)
  then have "holds env ?new ?h1 []"
    using assms(1,3) by (auto simp: holds_def load_agent_secrets_def get_or_create_key_def honest_def good_table_def)
  from command_step(2) [OF assms(1) this assms(6)]
  have "holds env ?new (snd (handle_secrets_command env (AddSecret k v) ?h1)) [(k, v)]"
    by (simp add: change_secrets_def sorted_put_def)
  moreover have "handle_secrets_command env (AddSecret k v) (h\<lparr>sh_key := None\<rparr>) = handle_secrets_command env (AddSecret k v) ?h1"
    unfolding handle_secrets_command_def key again by simp
  ultimately show ?thesis by (simp add: holds_def)
qed

theorem lost_key_erases_secrets_witness:
  "fst (load_agent_secrets toy_env (snd (handle_secrets_command toy_env (AddSecret ''B'' ''2'')
      ((save_encrypted_secrets toy_env toy_key [(''A'', ''1'')] toy_home)\<lparr>sh_key := None\<rparr>)))) = Inr [(''B'', ''2'')]"
proof -
  let ?h = "save_encrypted_secrets toy_env toy_key [(''A'', ''1'')] toy_home"
  have good: "good_table [(''A'', ''1'')]" by (simp add: good_table_def utf8_ok_ascii is_ascii_def)
  have "load_encrypted_secrets toy_env toy_key ?h = Inr [(''A'', ''1'')]" by (rule saved_loads [OF toy_honest good])
  then have "holds toy_env toy_key ?h [(''A'', ''1'')]"
    using good by (simp add: holds_def load_agent_secrets_def get_or_create_key_def toy_home_def toy_key_def)
  moreover have "sh_secrets ?h = Some (sv_print toy_env (encrypted toy_env toy_key 0 [(''A'', ''1'')]))"
    by (simp add: save_encrypted_secrets_def toy_home_def)
  moreover have "\<forall>n p. sv_open toy_env (sv_random_key toy_env (sh_drawn ?h)) n (sv_seal toy_env toy_key n p) = None"
    by (simp add: toy_env_def toy_key_def save_encrypted_secrets_def toy_home_def numeral_eq_Suc)
  moreover have "valid_command (AddSecret ''B'' ''2'')" by code_simp
  ultimately show ?thesis using lost_key_erases_secrets [OF toy_honest] by simp
qed

section \<open>The migration\<close>

text \<open>The secrets are read from the first block, but every block is removed, and a block that is
  not closed takes the rest of the file with it.\<close>

theorem migration_drops_second_block:
  "let b = (\<lambda>s. block_start @ [newline] @ s @ [newline] @ block_end @ [newline]);
       content = b ''export A=1'' @ ''alias x=y'' @ [newline] @ b ''export B=2''
   in load_secrets_from_bashrc content = [(''A'', ''1'')] \<and> remove_secrets_block content = ''alias x=y''"
  by code_simp

theorem migration_unclosed_block:
  "remove_secrets_block (block_start @ [newline] @ ''export A=1'' @ [newline] @ ''alias x=y'') = []"
  by code_simp

end
