(* ===== verification/Http_Tasks.thy ===== *)
theory Http_Tasks
  imports TaskRegistry Encoding
begin

text \<open>
  The HTTP adapter's own view of the task registry (\<open>channels/adapters/http.rs\<close>): it replays the
  journal on JSON values instead of the typed tasks of \<open>agents/mod.rs\<close>, and appends scratchpad
  notes.  The derived serde instances of the typed tasks are written out, so that the two
  replays can be compared; of the forms serde reads, a struct is an object and a unit variant a
  string (the sequence form of a struct is not modelled).
\<close>

section \<open>The derived JSON form of a task\<close>

definition message_to_json :: "task_message \<Rightarrow> json" where
  "message_to_json m = JObj [(''from'', JStr (tm_from m)), (''text'', JStr (tm_text m)), (''timestamp'', JStr (tm_timestamp m))]"

definition entry_to_json :: "scratchpad_entry \<Rightarrow> json" where
  "entry_to_json e = JObj [(''from'', JStr (sp_from e)), (''note'', JStr (sp_note e)),
     (''timestamp'', JStr (sp_timestamp e)), (''kind'', JStr (sp_kind e))]"

definition task_to_json :: "agent_task \<Rightarrow> json" where
  "task_to_json t = JObj
     [(''id'', JStr (task_id t)), (''agent'', JStr (task_agent t)), (''owner'', JStr (task_owner t)),
      (''participants'', JArr (map JStr (task_participants t))),
      (''state'', JStr (state_to_string (task_state t))),
      (''created_at'', JStr (task_created_at t)), (''updated_at'', JStr (task_updated_at t)),
      (''result'', case task_result t of None \<Rightarrow> JNull | Some r \<Rightarrow> JStr r),
      (''messages'', JArr (map message_to_json (task_messages t))),
      (''scratchpad_header'', JArr (map entry_to_json (task_header t))),
      (''scratchpad'', JArr (map entry_to_json (task_scratchpad t))),
      (''scratchpad_revision'', JNum (show_nat (unat (task_revision t))))]"

text \<open>A field with \<open>#[serde(default)]\<close> may be missing; an optional one may be missing or null.\<close>

definition default_field :: "'a \<Rightarrow> (json \<Rightarrow> 'a option) \<Rightarrow> string \<Rightarrow> json \<Rightarrow> 'a option" where
  "default_field d dec k v = (case json_member k v of None \<Rightarrow> Some d | Some w \<Rightarrow> dec w)"

definition optional_str :: "string \<Rightarrow> json \<Rightarrow> string option option" where
  "optional_str k v =
     (case json_member k v of
        None \<Rightarrow> Some None
      | Some JNull \<Rightarrow> Some None
      | Some (JStr s) \<Rightarrow> Some (Some s)
      | Some _ \<Rightarrow> None)"

definition json_list :: "(json \<Rightarrow> 'a option) \<Rightarrow> json \<Rightarrow> 'a list option" where
  "json_list dec v = (case v of JArr xs \<Rightarrow> those (map dec xs) | _ \<Rightarrow> None)"

definition message_of_json :: "json \<Rightarrow> task_message option" where
  "message_of_json v =
     (case (member_str ''from'' v, member_str ''text'' v, member_str ''timestamp'' v) of
        (Some a, Some b, Some c) \<Rightarrow> Some \<lparr>tm_from = a, tm_text = b, tm_timestamp = c\<rparr>
      | _ \<Rightarrow> None)"

definition entry_of_json :: "json \<Rightarrow> scratchpad_entry option" where
  "entry_of_json v =
     (case (member_str ''from'' v, member_str ''note'' v, member_str ''timestamp'' v, default_field [] json_str ''kind'' v) of
        (Some a, Some b, Some c, Some d) \<Rightarrow> Some \<lparr>sp_from = a, sp_note = b, sp_timestamp = c, sp_kind = d\<rparr>
      | _ \<Rightarrow> None)"

definition task_of_json :: "json \<Rightarrow> agent_task option" where
  "task_of_json v =
     (case (member_str ''id'' v, member_str ''agent'' v, default_field [] json_str ''owner'' v,
            default_field [] (json_list json_str) ''participants'' v,
            (case member_str ''state'' v of None \<Rightarrow> None | Some s \<Rightarrow> state_of_string s)) of
        (Some i, Some a, Some ow, Some ps, Some st) \<Rightarrow>
          (case (member_str ''created_at'' v, member_str ''updated_at'' v, optional_str ''result'' v,
                 (case json_member ''messages'' v of None \<Rightarrow> None | Some w \<Rightarrow> json_list message_of_json w)) of
             (Some ca, Some ua, Some r, Some ms) \<Rightarrow>
               (case (default_field [] (json_list entry_of_json) ''scratchpad_header'' v,
                      default_field [] (json_list entry_of_json) ''scratchpad'' v,
                      default_field 0 (\<lambda>w. as_u64 (Some w)) ''scratchpad_revision'' v) of
                  (Some h, Some sp, Some rv) \<Rightarrow> Some
                    \<lparr>task_id = i, task_agent = a, task_owner = ow, task_participants = ps, task_state = st,
                     task_created_at = ca, task_updated_at = ua, task_result = r, task_messages = ms,
                     task_header = h, task_scratchpad = sp, task_revision = rv\<rparr>
                | _ \<Rightarrow> None)
           | _ \<Rightarrow> None)
      | _ \<Rightarrow> None)"

definition tasks_of_json :: "json \<Rightarrow> agent_task list option" where
  "tasks_of_json v = json_list task_of_json v"

text \<open>The registry's codec over JSON values; the text of a value and of an event are parameters.\<close>

definition json_codec ::
  "(json \<Rightarrow> string) \<Rightarrow> (string \<Rightarrow> json option) \<Rightarrow> (json task_journal_event \<Rightarrow> string)
     \<Rightarrow> (string \<Rightarrow> json task_journal_event option) \<Rightarrow> json codec" where
  "json_codec pr pa enc dec =
     \<lparr>enc_event = enc, dec_event = dec, to_value = task_to_json, task_from_value = task_of_json,
      tasks_from_value = tasks_of_json, value_from_str = pa,
      tasks_to_str = (\<lambda>ts. pr (JArr (map task_to_json ts))),
      tasks_from_str = (\<lambda>s. case pa s of None \<Rightarrow> None | Some v \<Rightarrow> tasks_of_json v)\<rparr>"

section \<open>Events on raw JSON tasks\<close>

text \<open>\<open>entry(k).or_insert_with(|| json!([]))\<close>.\<close>

definition ensure_list :: "string \<Rightarrow> json \<Rightarrow> json" where
  "ensure_list k task = (if json_member k task = None then json_set k (JArr []) task else task)"

text \<open>The update of that member when it is an array.\<close>

definition update_list :: "string \<Rightarrow> (json list \<Rightarrow> json list) \<Rightarrow> json \<Rightarrow> json" where
  "update_list k f task0 =
     (let task = ensure_list k task0 in
      case json_member k task of Some (JArr xs) \<Rightarrow> json_set k (JArr (f xs)) task | _ \<Rightarrow> task)"

definition add_raw_participant :: "string \<Rightarrow> json \<Rightarrow> json" where
  "add_raw_participant participant task =
     (let p = trim participant in
      if p = [] then task
      else update_list ''participants''
        (\<lambda>xs. if list_ex (\<lambda>item. json_str item = Some p) xs then xs else xs @ [JStr p]) task)"

text \<open>\<open>push\<close> and the slice from \<open>len - n\<close> under the guard on the length.\<close>

definition push_capped :: "nat \<Rightarrow> json \<Rightarrow> json list \<Rightarrow> json list" where
  "push_capped n v xs =
     (let ys = xs @ [v] in if length ys > n then drop (length ys - n) ys else ys)"

definition raw_message :: "string \<Rightarrow> string \<Rightarrow> string \<Rightarrow> json" where
  "raw_message from txt ts = JObj [(''from'', JStr from), (''text'', JStr txt), (''timestamp'', JStr ts)]"

definition raw_terminal :: "json \<Rightarrow> bool" where
  "raw_terminal task =
     ((case member_str ''state'' task of None \<Rightarrow> [] | Some s \<Rightarrow> s) \<in> {''completed'', ''failed'', ''canceled''})"

definition raw_state_update ::
  "string \<Rightarrow> string option \<Rightarrow> string option \<Rightarrow> string \<Rightarrow> json \<Rightarrow> json" where
  "raw_state_update st from message ts task =
     (let t1 = json_set ''updated_at'' (JStr ts) (json_set ''state'' (JStr st) task) in
      case message of
        None \<Rightarrow> t1
      | Some msg \<Rightarrow>
          (let actor = (case from of Some a \<Rightarrow> a | None \<Rightarrow> case member_str ''agent'' t1 of None \<Rightarrow> [] | Some a \<Rightarrow> a);
               t2 = add_raw_participant actor t1;
               t3 = (if raw_terminal t2 then json_set ''result'' (JStr msg) t2 else t2)
           in update_list ''messages'' (push_capped 30 (raw_message actor msg ts)) t3))"

definition raw_append_message :: "string \<Rightarrow> string \<Rightarrow> string \<Rightarrow> json \<Rightarrow> json" where
  "raw_append_message from txt ts task =
     update_list ''messages'' (push_capped 30 (raw_message from txt ts))
       (add_raw_participant from (json_set ''updated_at'' (JStr ts) task))"

definition raw_entry :: "string \<Rightarrow> string \<Rightarrow> string \<Rightarrow> string \<Rightarrow> json" where
  "raw_entry from note ts kind =
     JObj [(''from'', JStr from), (''note'', JStr note), (''timestamp'', JStr ts), (''kind'', JStr kind)]"

definition raw_header_push :: "string \<Rightarrow> json \<Rightarrow> json list \<Rightarrow> json list" where
  "raw_header_push kind v xs =
     push_capped max_scratchpad_header_entries v (filter (\<lambda>x. member_str ''kind'' x \<noteq> Some kind) xs)"

definition raw_scratchpad_append ::
  "string \<Rightarrow> string \<Rightarrow> string \<Rightarrow> string \<Rightarrow> string \<Rightarrow> json \<Rightarrow> json" where
  "raw_scratchpad_append from note kind sect ts task =
     (let t1 = add_raw_participant from task;
          revision = (case as_u64 (json_member ''scratchpad_revision'' t1) of None \<Rightarrow> 0 | Some r \<Rightarrow> r) + 1;
          t2 = json_set ''updated_at'' (JStr ts)
                 (json_set ''scratchpad_revision'' (JNum (show_nat (unat (revision :: u64)))) t1);
          entry = raw_entry from note ts kind
      in if sect = ''header'' then update_list ''scratchpad_header'' (raw_header_push kind entry) t2
         else update_list ''scratchpad'' (push_capped max_scratchpad_entries entry) t2)"

definition raw_id :: "json \<Rightarrow> string option" where
  "raw_id task = member_str ''id'' task"

fun apply_raw_event :: "json list \<Rightarrow> json task_journal_event \<Rightarrow> registry_error + json list" where
  "apply_raw_event tasks (Snapshot v) = (case v of JArr xs \<Rightarrow> Inr xs | _ \<Rightarrow> Inl SerdeError)"
| "apply_raw_event tasks (Created task) =
     (let i = (case raw_id task of None \<Rightarrow> [] | Some s \<Rightarrow> s)
      in Inr (filter (\<lambda>existing. raw_id existing \<noteq> Some i) tasks @ [task]))"
| "apply_raw_event tasks (StateUpdated i st from message ts) =
     update_first (\<lambda>t. raw_id t = Some i) (\<lambda>t. Inr (raw_state_update st from message ts t)) tasks"
| "apply_raw_event tasks (MessageAppended i from txt ts) =
     update_first (\<lambda>t. raw_id t = Some i) (\<lambda>t. Inr (raw_append_message from txt ts t)) tasks"
| "apply_raw_event tasks (ScratchpadAppended i from note kind sect ts) =
     update_first (\<lambda>t. raw_id t = Some i) (\<lambda>t. Inr (raw_scratchpad_append from note kind sect ts t)) tasks"
| "apply_raw_event tasks (ParticipantAdded i participant ts) =
     update_first (\<lambda>t. raw_id t = Some i)
       (\<lambda>t. Inr (add_raw_participant participant (json_set ''updated_at'' (JStr ts) t))) tasks"

definition load_raw_tasks :: "json codec \<Rightarrow> task_files \<Rightarrow> registry_error + json list" where
  "load_raw_tasks c fs =
     bind_res (read_task_journal_events c fs) (\<lambda>journal.
       if journal \<noteq> [] then fold_res apply_raw_event [] journal
       else case snapshot_file fs of
         None \<Rightarrow> Inr []
       | Some data \<Rightarrow> Inr (case value_from_str c data of Some (JArr xs) \<Rightarrow> xs | _ \<Rightarrow> []))"


section \<open>The two replays agree\<close>

text \<open>A JSON task stands for the typed task that serde reads from it.\<close>

definition decodes :: "json \<Rightarrow> agent_task \<Rightarrow> bool" where
  "decodes v t \<longleftrightarrow> task_of_json v = Some t"

lemma task_of_json_iff:
  "decodes v t \<longleftrightarrow>
     member_str ''id'' v = Some (task_id t) \<and> member_str ''agent'' v = Some (task_agent t) \<and>
     default_field [] json_str ''owner'' v = Some (task_owner t) \<and>
     default_field [] (json_list json_str) ''participants'' v = Some (task_participants t) \<and>
     member_str ''state'' v \<noteq> None \<and> state_of_string (the (member_str ''state'' v)) = Some (task_state t) \<and>
     member_str ''created_at'' v = Some (task_created_at t) \<and> member_str ''updated_at'' v = Some (task_updated_at t) \<and>
     optional_str ''result'' v = Some (task_result t) \<and>
     json_member ''messages'' v \<noteq> None \<and> json_list message_of_json (the (json_member ''messages'' v)) = Some (task_messages t) \<and>
     default_field [] (json_list entry_of_json) ''scratchpad_header'' v = Some (task_header t) \<and>
     default_field [] (json_list entry_of_json) ''scratchpad'' v = Some (task_scratchpad t) \<and>
     default_field 0 (\<lambda>w. as_u64 (Some w)) ''scratchpad_revision'' v = Some (task_revision t)"
  by (cases t) (auto simp: decodes_def task_of_json_def split: option.splits)

lemma decodes_obj: "decodes v t \<Longrightarrow> \<exists>ms. v = JObj ms"
  by (cases v) (auto simp: task_of_json_iff member_str_def)

lemma state_strings:
  "state_of_string s = Some st \<Longrightarrow> s = state_to_string st"
  by (auto simp: state_of_string_def state_to_string_def split: if_splits)

lemma those_append: "those (xs @ ys) = (case those xs of None \<Rightarrow> None | Some as \<Rightarrow> (case those ys of None \<Rightarrow> None | Some bs \<Rightarrow> Some (as @ bs)))"
  by (induction xs) (auto split: option.splits)

lemma those_drop: "those xs = Some ys \<Longrightarrow> those (drop n xs) = Some (drop n ys)"
  by (induction xs arbitrary: n ys) (auto simp: drop_Cons split: option.splits nat.splits)

lemma those_length: "those xs = Some ys \<Longrightarrow> length ys = length xs"
  by (induction xs arbitrary: ys) (auto split: option.splits)

lemma push_capped_keep: "push_capped n v xs = keep_last n (xs @ [v])"
  by (simp add: push_capped_def keep_last_def Let_def)

lemma those_keep_last: "those xs = Some ys \<Longrightarrow> those (keep_last n xs) = Some (keep_last n ys)"
  using those_length [of xs ys] by (simp add: keep_last_drop those_drop)

lemma member_set [simp]:
  "json_member l (json_set k x (JObj ms)) = (if l = k then Some x else map_of ms l)"
  using json_member_set [of l k x ms] by simp

lemmas field_defs = default_field_def optional_str_def member_str_def json_str_def

lemma decodes_set:
  assumes "decodes v t"
  shows "decodes (json_set ''updated_at'' (JStr ts) v) (t\<lparr>task_updated_at := ts\<rparr>)"
    and "state_of_string st = Some sv \<Longrightarrow> decodes (json_set ''state'' (JStr st) v) (t\<lparr>task_state := sv\<rparr>)"
    and "decodes (json_set ''result'' (JStr r) v) (t\<lparr>task_result := Some r\<rparr>)"
    and "decodes (json_set ''scratchpad_revision'' (JNum (show_nat (unat rv))) v) (t\<lparr>task_revision := rv\<rparr>)"
proof -
  obtain ms where v: "v = JObj ms" using decodes_obj [OF assms] by blast
  note facts = assms [unfolded v, unfolded task_of_json_iff]
  show "decodes (json_set ''updated_at'' (JStr ts) v) (t\<lparr>task_updated_at := ts\<rparr>)"
    using facts unfolding v task_of_json_iff by (simp del: json_set.simps add: field_defs)
  show "decodes (json_set ''state'' (JStr st) v) (t\<lparr>task_state := sv\<rparr>)" if "state_of_string st = Some sv"
    using facts that unfolding v task_of_json_iff by (simp del: json_set.simps add: field_defs)
  show "decodes (json_set ''result'' (JStr r) v) (t\<lparr>task_result := Some r\<rparr>)"
    using facts unfolding v task_of_json_iff by (simp del: json_set.simps add: field_defs)
  show "decodes (json_set ''scratchpad_revision'' (JNum (show_nat (unat rv))) v) (t\<lparr>task_revision := rv\<rparr>)"
    using facts unfolding v task_of_json_iff by (simp del: json_set.simps add: field_defs)
qed

lemma ensure_list_obj: "\<exists>ms'. ensure_list k (JObj ms) = JObj ms' \<and>
    (\<forall>l. map_of ms' l = (if l = k \<and> map_of ms k = None then Some (JArr []) else map_of ms l))"
proof (cases "map_of ms k = None")
  case True
  obtain ms' where "json_set k (JArr []) (JObj ms) = JObj ms'" by simp
  moreover from this have "map_of ms' l = (if l = k then Some (JArr []) else map_of ms l)" for l
    by (metis json_member.simps(1) member_set)
  ultimately show ?thesis using True by (auto simp: ensure_list_def)
qed (auto simp: ensure_list_def)

text \<open>Changing a list member of the JSON task as the typed list is changed.\<close>

lemma json_list_arr: "json_list dec w = Some as \<Longrightarrow> \<exists>xs. w = JArr xs \<and> those (map dec xs) = Some as"
  by (cases w) (auto simp: json_list_def)

lemma update_list_members:
  assumes "v = JObj ms" and "map_of ms k = None \<and> xs = [] \<or> map_of ms k = Some (JArr xs)"
  shows "\<exists>ms'. update_list k f v = JObj ms' \<and> (\<forall>l. map_of ms' l = (if l = k then Some (JArr (f xs)) else map_of ms l))"
proof -
  obtain ns where ns: "ensure_list k (JObj ms) = JObj ns"
    "\<And>l. map_of ns l = (if l = k \<and> map_of ms k = None then Some (JArr []) else map_of ms l)"
    using ensure_list_obj by blast
  obtain ms' where ms': "json_set k (JArr (f xs)) (JObj ns) = JObj ms'" by simp
  have "map_of ms' l = (if l = k then Some (JArr (f xs)) else map_of ns l)" for l
    by (metis json_member.simps(1) member_set ms')
  moreover have "update_list k f v = JObj ms'"
    using assms ns(2) [of k] ms' by (auto simp: update_list_def ns(1) Let_def simp del: json_set.simps)
  ultimately show ?thesis using ns(2) assms(2) by auto
qed

lemma default_list_update:
  assumes "v = JObj os" and "default_field [] (json_list dec) k v = Some as"
    and "\<And>xs. those (map dec xs) = Some as \<Longrightarrow> those (map dec (f xs)) = Some bs"
  shows "\<exists>ns xs. update_list k f v = JObj ns \<and> those (map dec xs) = Some bs
    \<and> (\<forall>l. map_of ns l = (if l = k then Some (JArr xs) else map_of os l))"
proof -
  obtain xs where xs: "map_of os k = None \<and> xs = [] \<or> map_of os k = Some (JArr xs)" "those (map dec xs) = Some as"
    using assms(1,2) by (auto simp: default_field_def dest!: json_list_arr split: option.splits)
  show ?thesis using update_list_members [OF assms(1) xs(1), of f] assms(3) [OF xs(2)] by blast
qed

lemma decodes_update_list:
  assumes "decodes v t"
  shows "(\<And>xs. those (map json_str xs) = Some (task_participants t) \<Longrightarrow> those (map json_str (f xs)) = Some ps) \<Longrightarrow>
      decodes (update_list ''participants'' f v) (t\<lparr>task_participants := ps\<rparr>)"
    and "(\<And>xs. those (map message_of_json xs) = Some (task_messages t) \<Longrightarrow> those (map message_of_json (f xs)) = Some ms) \<Longrightarrow>
      decodes (update_list ''messages'' f v) (t\<lparr>task_messages := ms\<rparr>)"
    and "(\<And>xs. those (map entry_of_json xs) = Some (task_header t) \<Longrightarrow> those (map entry_of_json (f xs)) = Some h) \<Longrightarrow>
      decodes (update_list ''scratchpad_header'' f v) (t\<lparr>task_header := h\<rparr>)"
    and "(\<And>xs. those (map entry_of_json xs) = Some (task_scratchpad t) \<Longrightarrow> those (map entry_of_json (f xs)) = Some h) \<Longrightarrow>
      decodes (update_list ''scratchpad'' f v) (t\<lparr>task_scratchpad := h\<rparr>)"
proof -
  obtain os where v: "v = JObj os" using decodes_obj [OF assms] by blast
  note facts = assms [unfolded task_of_json_iff]
  have fields: "default_field [] (json_list json_str) ''participants'' v = Some (task_participants t)"
    "default_field [] (json_list message_of_json) ''messages'' v = Some (task_messages t)"
    "default_field [] (json_list entry_of_json) ''scratchpad_header'' v = Some (task_header t)"
    "default_field [] (json_list entry_of_json) ''scratchpad'' v = Some (task_scratchpad t)"
    using facts by (auto simp: default_field_def)
  note unfolded_fields = task_of_json_iff field_defs json_list_def v
  show "decodes (update_list ''participants'' f v) (t\<lparr>task_participants := ps\<rparr>)"
    if hyp: "\<And>xs. those (map json_str xs) = Some (task_participants t) \<Longrightarrow> those (map json_str (f xs)) = Some ps"
  proof -
    obtain ns xs where "update_list ''participants'' f v = JObj ns" "those (map json_str xs) = Some ps"
      "\<And>l. map_of ns l = (if l = ''participants'' then Some (JArr xs) else map_of os l)"
      using default_list_update [where f = f, OF v fields(1) hyp] by blast
    then show ?thesis using facts by (simp add: unfolded_fields)
  qed
  show "decodes (update_list ''messages'' f v) (t\<lparr>task_messages := ms\<rparr>)"
    if hyp: "\<And>xs. those (map message_of_json xs) = Some (task_messages t) \<Longrightarrow> those (map message_of_json (f xs)) = Some ms"
  proof -
    obtain ns xs where "update_list ''messages'' f v = JObj ns" "those (map message_of_json xs) = Some ms"
      "\<And>l. map_of ns l = (if l = ''messages'' then Some (JArr xs) else map_of os l)"
      using default_list_update [where f = f, OF v fields(2) hyp] by blast
    then show ?thesis using facts by (simp add: unfolded_fields)
  qed
  show "decodes (update_list ''scratchpad_header'' f v) (t\<lparr>task_header := h\<rparr>)"
    if hyp: "\<And>xs. those (map entry_of_json xs) = Some (task_header t) \<Longrightarrow> those (map entry_of_json (f xs)) = Some h"
  proof -
    obtain ns xs where "update_list ''scratchpad_header'' f v = JObj ns" "those (map entry_of_json xs) = Some h"
      "\<And>l. map_of ns l = (if l = ''scratchpad_header'' then Some (JArr xs) else map_of os l)"
      using default_list_update [where f = f, OF v fields(3) hyp] by blast
    then show ?thesis using facts by (simp add: unfolded_fields)
  qed
  show "decodes (update_list ''scratchpad'' f v) (t\<lparr>task_scratchpad := h\<rparr>)"
    if hyp: "\<And>xs. those (map entry_of_json xs) = Some (task_scratchpad t) \<Longrightarrow> those (map entry_of_json (f xs)) = Some h"
  proof -
    obtain ns xs where "update_list ''scratchpad'' f v = JObj ns" "those (map entry_of_json xs) = Some h"
      "\<And>l. map_of ns l = (if l = ''scratchpad'' then Some (JArr xs) else map_of os l)"
      using default_list_update [where f = f, OF v fields(4) hyp] by blast
    then show ?thesis using facts by (simp add: unfolded_fields)
  qed
qed

lemma those_json_str: "those (map json_str xs) = Some ps \<Longrightarrow> xs = map JStr ps"
  by (induction xs arbitrary: ps) (auto simp: json_str_def split: option.splits json.splits)

lemma decodes_add_participant:
  assumes "decodes v t"
  shows "decodes (add_raw_participant p v) (add_participant_name p t)"
proof (cases "trim p = []")
  case True
  then show ?thesis using assms by (simp add: add_raw_participant_def add_participant_name_def)
next
  case False
  let ?ps = "if list_ex (\<lambda>q. q = trim p) (task_participants t) then task_participants t else task_participants t @ [trim p]"
  have eq: "add_participant_name p t = t\<lparr>task_participants := ?ps\<rparr>"
    using False by (simp add: add_participant_name_def Let_def)
  have "those (map json_str (if list_ex (\<lambda>item. json_str item = Some (trim p)) xs then xs else xs @ [JStr (trim p)])) = Some ?ps"
    if "those (map json_str xs) = Some (task_participants t)" for xs
    using that those_json_str [OF that] by (auto simp: json_str_def list_ex_iff those_append)
  then show ?thesis
    using False by (simp add: add_raw_participant_def Let_def eq decodes_update_list(1) [OF assms])
qed

lemma those_push:
  assumes "those (map dec xs) = Some as" and "dec e = Some a"
  shows "those (map dec (push_capped n e xs)) = Some (keep_last n (as @ [a]))"
proof -
  have "those (map dec (xs @ [e])) = Some (as @ [a])" using assms by (simp add: those_append)
  then have "those (keep_last n (map dec (xs @ [e]))) = Some (keep_last n (as @ [a]))" by (rule those_keep_last)
  then show ?thesis by (simp only: push_capped_keep keep_last_drop drop_map length_map)
qed

lemma message_decoded [simp]:
  "message_of_json (raw_message a b c) = Some \<lparr>tm_from = a, tm_text = b, tm_timestamp = c\<rparr>"
  by (simp add: message_of_json_def raw_message_def member_str_def json_str_def)

lemma entry_decoded [simp]:
  "entry_of_json (raw_entry a b c d) = Some \<lparr>sp_from = a, sp_note = b, sp_timestamp = c, sp_kind = d\<rparr>"
  by (simp add: entry_of_json_def raw_entry_def field_defs)

lemma decodes_push_message:
  "decodes v t \<Longrightarrow> decodes (update_list ''messages'' (push_capped 30 (raw_message a b c)) v)
     (t\<lparr>task_messages := push_message (task_messages t) \<lparr>tm_from = a, tm_text = b, tm_timestamp = c\<rparr>\<rparr>)"
  by (rule decodes_update_list(2))
    (auto dest: those_push [where e = "raw_message a b c" and n = 30] simp: messages.push_keeps_last max_messages_per_task_def)

text \<open>A header entry without a kind is read as one of the empty kind.\<close>

lemma those_header_filter:
  assumes "those (map entry_of_json xs) = Some es" and "kind \<noteq> []"
  shows "those (map entry_of_json (filter (\<lambda>x. member_str ''kind'' x \<noteq> Some kind) xs)) = Some (filter (\<lambda>e. sp_kind e \<noteq> kind) es)"
  using assms(1)
proof (induction xs arbitrary: es)
  case (Cons x xs)
  then obtain e es' where e: "entry_of_json x = Some e" "those (map entry_of_json xs) = Some es'" "es = e # es'"
    by (auto split: option.splits)
  have "member_str ''kind'' x = Some kind \<longleftrightarrow> sp_kind e = kind"
    using e(1) assms(2) by (auto simp: entry_of_json_def default_field_def member_str_def split: option.splits)
  then show ?case using Cons.IH [OF e(2)] e by simp
qed simp

lemma decodes_push_header:
  assumes "decodes v t" and "kind \<noteq> []"
  shows "decodes (update_list ''scratchpad_header'' (raw_header_push kind (raw_entry a b c kind)) v)
     (t\<lparr>task_header := push_header (task_header t) \<lparr>sp_from = a, sp_note = b, sp_timestamp = c, sp_kind = kind\<rparr>\<rparr>)"
proof (rule decodes_update_list(3) [OF assms(1)])
  fix xs assume "those (map entry_of_json xs) = Some (task_header t)"
  from those_header_filter [OF this assms(2)]
  show "those (map entry_of_json (raw_header_push kind (raw_entry a b c kind) xs))
      = Some (push_header (task_header t) \<lparr>sp_from = a, sp_note = b, sp_timestamp = c, sp_kind = kind\<rparr>)"
    unfolding raw_header_push_def push_header_eq by (rule those_push [THEN trans]) simp_all
qed

lemma decodes_push_scratchpad:
  "decodes v t \<Longrightarrow> decodes (update_list ''scratchpad'' (push_capped max_scratchpad_entries (raw_entry a b c d)) v)
     (t\<lparr>task_scratchpad := push_scratchpad (task_scratchpad t) \<lparr>sp_from = a, sp_note = b, sp_timestamp = c, sp_kind = d\<rparr>\<rparr>)"
  by (rule decodes_update_list(4))
    (auto dest: those_push [where e = "raw_entry a b c d" and n = max_scratchpad_entries] simp: scratch.push_keeps_last)

lemma decodes_id: "decodes v t \<Longrightarrow> raw_id v = Some (task_id t)"
  by (simp add: task_of_json_iff raw_id_def)

text \<open>The update of the first element found, in related lists.\<close>

lemma update_first_related:
  assumes "list_all2 R xs ys" and "\<And>x y. R x y \<Longrightarrow> p x = q y"
    and "\<And>x y. R x y \<Longrightarrow> q y \<Longrightarrow> \<exists>y'. g y = Inr y' \<and> R (f x) y'"
  shows "\<exists>xs' ys'. update_first p (\<lambda>x. Inr (f x)) xs = Inr xs' \<and> update_first q g ys = Inr ys' \<and> list_all2 R xs' ys'"
  using assms(1)
proof (induction rule: list_all2_induct)
  case (Cons x xs y ys)
  show ?case
  proof (cases "q y")
    case True
    then obtain y' where "g y = Inr y'" "R (f x) y'" using assms(3) Cons.hyps(1) by blast
    then show ?thesis using True Cons.hyps assms(2) [OF Cons.hyps(1)] by simp
  next
    case False
    then show ?thesis using Cons assms(2) [OF Cons.hyps(1)] by auto
  qed
qed simp

text \<open>The events on which the two replays are compared: values that are tasks in the form the registry
  itself writes, known states, and header entries with a kind.\<close>

definition agreeing :: "json task_journal_event \<Rightarrow> bool" where
  "agreeing ev =
     (case ev of
        Snapshot v \<Rightarrow> (case tasks_of_json v of None \<Rightarrow> False | Some ts \<Rightarrow> list_all (\<lambda>t. normalize_task t = t) ts)
      | Created v \<Rightarrow> (case task_of_json v of None \<Rightarrow> False | Some t \<Rightarrow> normalize_task t = t)
      | StateUpdated i st from message ts \<Rightarrow> state_of_string st \<noteq> None
      | ScratchpadAppended i from note kind sect ts \<Rightarrow> sect = ''header'' \<longrightarrow> kind \<noteq> []
      | _ \<Rightarrow> True)"

definition reads_tasks :: "json codec \<Rightarrow> bool" where
  "reads_tasks c \<longleftrightarrow> task_from_value c = task_of_json \<and> tasks_from_value c = tasks_of_json"

lemma json_codec_reads [simp]: "reads_tasks (json_codec pr pa enc dec)"
  by (simp add: reads_tasks_def json_codec_def)

lemma those_decodes: "those (map task_of_json xs) = Some ts \<Longrightarrow> list_all2 decodes xs ts"
  by (induction xs arbitrary: ts) (auto simp: decodes_def split: option.splits)

lemma filter_related:
  assumes "list_all2 R xs ys" and "\<And>x y. R x y \<Longrightarrow> p x = q y"
  shows "list_all2 R (filter p xs) (filter q ys)"
  using assms(1) by (induction rule: list_all2_induct) (auto simp: assms(2))

lemma raw_terminal_decodes: "decodes v t \<Longrightarrow> raw_terminal v = task_terminal t"
  using state_strings by (cases "task_state t")
    (fastforce simp: task_of_json_iff raw_terminal_def state_to_string_def is_terminal_def)+

lemma decodes_state_update:
  assumes "decodes v t" and "state_of_string st = Some sv"
  shows "\<exists>t'. (case state_of_string st of
          None \<Rightarrow> Inl (UnknownTaskState st)
        | Some s \<Rightarrow>
            let t1 = t\<lparr>task_state := s, task_updated_at := ts\<rparr> in
            (case message of
               None \<Rightarrow> Inr t1
             | Some msg \<Rightarrow>
                 let actor = (case from of None \<Rightarrow> task_agent t1 | Some a \<Rightarrow> a);
                     t2 = add_participant_name actor t1;
                     t3 = (if task_terminal t2 then t2\<lparr>task_result := Some msg\<rparr> else t2)
                 in Inr (t3\<lparr>task_messages := push_message (task_messages t3)
                        \<lparr>tm_from = actor, tm_text = msg, tm_timestamp = ts\<rparr>\<rparr>))) = Inr t'
     \<and> decodes (raw_state_update st from message ts v) t'"
proof -
  let ?v1 = "json_set ''updated_at'' (JStr ts) (json_set ''state'' (JStr st) v)"
  let ?t1 = "t\<lparr>task_state := sv, task_updated_at := ts\<rparr>"
  have d1: "decodes ?v1 ?t1"
    by (rule decodes_set(1) [OF decodes_set(2) [OF assms]])
  show ?thesis
  proof (cases message)
    case None
    then show ?thesis using d1 assms(2) by (simp add: raw_state_update_def)
  next
    case (Some msg)
    define actor where "actor = (case from of None \<Rightarrow> task_agent ?t1 | Some a \<Rightarrow> a)"
    have actor: "(case from of Some a \<Rightarrow> a | None \<Rightarrow> case member_str ''agent'' ?v1 of None \<Rightarrow> [] | Some a \<Rightarrow> a) = actor"
      using d1 by (cases "from") (simp_all add: actor_def task_of_json_iff)
    have d2: "decodes (add_raw_participant actor ?v1) (add_participant_name actor ?t1)"
      by (rule decodes_add_participant [OF d1])
    let ?v3 = "if raw_terminal (add_raw_participant actor ?v1)
        then json_set ''result'' (JStr msg) (add_raw_participant actor ?v1) else add_raw_participant actor ?v1"
    let ?t3 = "if task_terminal (add_participant_name actor ?t1)
        then (add_participant_name actor ?t1)\<lparr>task_result := Some msg\<rparr> else add_participant_name actor ?t1"
    have d3: "decodes ?v3 ?t3"
      using decodes_set(3) [OF d2, of msg] d2 raw_terminal_decodes [OF d2] by auto
    have raw: "raw_state_update st from message ts v = update_list ''messages'' (push_capped 30 (raw_message actor msg ts)) ?v3"
      unfolding raw_state_update_def Some Let_def option.case actor ..
    show ?thesis unfolding raw
      by (rule exI, rule conjI [OF _ decodes_push_message [OF d3]]) (simp add: assms(2) Some Let_def actor_def)
  qed
qed

lemma raw_event_refines:
  assumes "list_all2 decodes raws ts" and "agreeing ev" and "reads_tasks c"
  shows "\<exists>raws' ts'. apply_raw_event raws ev = Inr raws' \<and> apply_event c ts ev = Inr ts' \<and> list_all2 decodes raws' ts'"
proof (cases ev)
  case (Snapshot v)
  with assms(2) obtain us where us: "tasks_of_json v = Some us" "list_all (\<lambda>t. normalize_task t = t) us"
    by (auto simp: agreeing_def split: option.splits)
  from us(2) have "map normalize_task us = us" by (simp add: map_idI list_all_iff)
  with us(1) Snapshot assms(3) show ?thesis
    by (auto simp: tasks_of_json_def json_list_def reads_tasks_def those_decodes split: json.splits)
next
  case (Created v)
  with assms(2) obtain u where u: "task_of_json v = Some u" "normalize_task u = u"
    by (auto simp: agreeing_def split: option.splits)
  then have d: "decodes v u" by (simp add: decodes_def)
  have "list_all2 decodes (filter (\<lambda>e. raw_id e \<noteq> Some (task_id u)) raws) (filter (\<lambda>x. task_id x \<noteq> task_id u) ts)"
    by (rule filter_related [OF assms(1)]) (simp add: decodes_id)
  then show ?thesis
    using Created u d assms(3) by (simp add: decodes_id reads_tasks_def list_all2_appendI)
next
  case (StateUpdated i st who message tm)
  with assms(2) obtain sv where sv: "state_of_string st = Some sv" by (auto simp: agreeing_def)
  show ?thesis unfolding StateUpdated apply_raw_event.simps apply_event.simps
    by (rule update_first_related [OF assms(1)]) (simp add: decodes_id, rule decodes_state_update [OF _ sv])
next
  case (MessageAppended i who body tm)
  show ?thesis unfolding MessageAppended apply_raw_event.simps apply_event.simps
    by (rule update_first_related [OF assms(1)])
      (simp_all add: decodes_id Let_def raw_append_message_def decodes_push_message [OF decodes_add_participant [OF decodes_set(1)], simplified])
next
  case (ScratchpadAppended i who remark kind sect tm)
  then have kind: "sect = ''header'' \<Longrightarrow> kind \<noteq> []" using assms(2) by (simp add: agreeing_def)
  show ?thesis unfolding ScratchpadAppended apply_raw_event.simps apply_event.simps
  proof (rule update_first_related [OF assms(1)])
    fix v t assume d: "decodes v t"
    then show "(raw_id v = Some i) = (task_id t = i)" by (simp add: decodes_id)
    let ?t1 = "add_participant_name who t" and ?v1 = "add_raw_participant who v"
    have d1: "decodes ?v1 ?t1" by (rule decodes_add_participant [OF d])
    then have rev_eq: "(case as_u64 (json_member ''scratchpad_revision'' ?v1) of None \<Rightarrow> 0 | Some r \<Rightarrow> r) = task_revision ?t1"
      by (auto simp: task_of_json_iff default_field_def as_u64_def split: option.splits)
    let ?v2 = "json_set ''updated_at'' (JStr tm)
        (json_set ''scratchpad_revision'' (JNum (show_nat (unat (task_revision ?t1 + 1)))) ?v1)"
    let ?t2 = "?t1\<lparr>task_updated_at := tm, task_revision := task_revision ?t1 + 1\<rparr>"
    have t2: "?t2 = ?t1\<lparr>task_revision := task_revision ?t1 + 1, task_updated_at := tm\<rparr>" by (cases ?t1) simp
    have d2: "decodes ?v2 ?t2" unfolding t2 by (rule decodes_set(1) [OF decodes_set(4) [OF d1]])
    have raw: "raw_scratchpad_append who remark kind sect tm v =
        (if sect = ''header'' then update_list ''scratchpad_header'' (raw_header_push kind (raw_entry who remark tm kind)) ?v2
         else update_list ''scratchpad'' (push_capped max_scratchpad_entries (raw_entry who remark tm kind)) ?v2)"
      unfolding raw_scratchpad_append_def Let_def rev_eq by simp
    show "\<exists>t'. (let t1 = ?t1; entry = \<lparr>sp_from = who, sp_note = remark, sp_timestamp = tm, sp_kind = kind\<rparr>;
               t2 = t1\<lparr>task_updated_at := tm, task_revision := task_revision t1 + 1\<rparr>
           in if sect = ''header''
              then Inr (t2\<lparr>task_header := push_header (task_header t2) entry\<rparr>)
              else Inr (t2\<lparr>task_scratchpad := push_scratchpad (task_scratchpad t2) entry\<rparr>)) = Inr t'
        \<and> decodes (raw_scratchpad_append who remark kind sect tm v) t'"
    proof (cases "sect = ''header''")
      case True
      then show ?thesis using decodes_push_header [OF d2 kind [OF True], of who remark tm] raw [unfolded True] by (simp add: True Let_def)
    next
      case False
      then show ?thesis using decodes_push_scratchpad [OF d2, of who remark tm kind] by (simp add: raw Let_def)
    qed
  qed
next
  case (ParticipantAdded i participant tm)
  show ?thesis unfolding ParticipantAdded apply_raw_event.simps apply_event.simps
    by (rule update_first_related [OF assms(1)]) (simp_all add: decodes_id decodes_add_participant decodes_set)
qed

lemma raw_replay_refines:
  assumes "list_all2 decodes raws ts" and "list_all agreeing es" and "reads_tasks c"
  shows "\<exists>raws' ts'. fold_res apply_raw_event raws es = Inr raws' \<and> fold_res (apply_event c) ts es = Inr ts'
    \<and> list_all2 decodes raws' ts'"
  using assms(1,2)
proof (induction es arbitrary: raws ts)
  case (Cons ev es)
  then obtain raws1 ts1 where "apply_raw_event raws ev = Inr raws1" "apply_event c ts ev = Inr ts1"
    "list_all2 decodes raws1 ts1" using raw_event_refines [OF Cons.prems(1) _ assms(3), of ev] Cons.prems(2) by auto
  then show ?case using Cons.IH [of raws1 ts1] Cons.prems(2) by auto
qed auto

lemma raw_load_refines:
  assumes "read_task_journal_events c fs = Inr es" and "es \<noteq> []" and "list_all agreeing es" and "reads_tasks c"
  shows "\<exists>raws ts. load_raw_tasks c fs = Inr raws \<and> list_all2 decodes raws ts \<and> fold_res (apply_event c) [] es = Inr ts
    \<and> load_unlocked c fs = Inr (settle ts)"
proof -
  obtain raws ts where "fold_res apply_raw_event [] es = Inr raws" "fold_res (apply_event c) [] es = Inr ts"
    "list_all2 decodes raws ts"
    using raw_replay_refines [OF _ assms(3,4), of "[]" "[]"] by auto
  then show ?thesis using assms(1,2) by (auto simp: load_raw_tasks_def load_unlocked_def settle_def)
qed

section \<open>The scratchpad endpoints' access to the files\<close>

record gateway_files =
  gf_codec :: "json codec"
  gf_print :: "json \<Rightarrow> string"
  gf_error_text :: "registry_error \<Rightarrow> string"
  gf_lock_error :: "string option"

record scratchpad_note =
  sn_note :: string
  sn_from :: string
  sn_section :: "string option"
  sn_kind :: "string option"

definition task_not_found :: "string \<Rightarrow> string" where
  "task_not_found i = ''task '' @ [CHR 0x27] @ i @ [CHR 0x27] @ '' not found''"

definition kind_required :: string where
  "kind_required = ''kind is required when writing scratchpad header''"

definition note_section :: "scratchpad_note \<Rightarrow> string" where
  "note_section b = (case sn_section b of None \<Rightarrow> ''activity'' | Some s \<Rightarrow> s)"

definition note_event :: "string \<Rightarrow> string \<Rightarrow> scratchpad_note \<Rightarrow> json task_journal_event" where
  "note_event now i b =
     ScratchpadAppended i (sn_from b) (sn_note b) (case sn_kind b of None \<Rightarrow> [] | Some s \<Rightarrow> s) (note_section b) now"

text \<open>The closure run under the path lock, with the files it leaves, and the errors as their texts.\<close>

definition scratchpad_write ::
  "gateway_files \<Rightarrow> string \<Rightarrow> string \<Rightarrow> scratchpad_note \<Rightarrow> task_files \<Rightarrow> task_files \<times> (string + string)" where
  "scratchpad_write g now i b fs =
     (case gf_lock_error g of
        Some e \<Rightarrow> (fs, Inl e)
      | None \<Rightarrow>
      (case seed_task_journal_from_snapshot (gf_codec g) fs of
        Inl e \<Rightarrow> (fs, Inl (gf_error_text g e))
      | Inr fs1 \<Rightarrow>
      (case load_raw_tasks (gf_codec g) fs1 of
        Inl e \<Rightarrow> (fs1, Inl (gf_error_text g e))
      | Inr tasks \<Rightarrow>
          if \<not> list_ex (\<lambda>t. raw_id t = Some i) tasks then (fs1, Inl (task_not_found i))
          else if note_section b = ''header'' \<and> is_blank (case sn_kind b of None \<Rightarrow> [] | Some s \<Rightarrow> s)
          then (fs1, Inl kind_required)
          else
            (case apply_raw_event tasks (note_event now i b) of
               Inl e \<Rightarrow> (fs1, Inl (gf_error_text g e))
             | Inr tasks1 \<Rightarrow>
                 (let fs2 = append_task_journal_event (gf_codec g) (note_event now i b) fs1
                  in (fs2\<lparr>snapshot_file := Some (gf_print g (JArr tasks1))\<rparr>, Inr (note_section b)))))))"

definition scratchpad_json :: "string \<Rightarrow> json \<Rightarrow> json" where
  "scratchpad_json i t =
     JObj [(''task_id'', JStr i),
       (''revision'', JNum (show_nat (unat (case as_u64 (json_member ''scratchpad_revision'' t) of None \<Rightarrow> 0 | Some r \<Rightarrow> r)))),
       (''header'', case json_member ''scratchpad_header'' t of None \<Rightarrow> JArr [] | Some v \<Rightarrow> v),
       (''entries'', case json_member ''scratchpad'' t of None \<Rightarrow> JArr [] | Some v \<Rightarrow> v),
       (''cache_hint'', JStr (''Treat header as the stable shared contract and entries as the live ''
          @ ''coordination/activity tail.''))]"

definition scratchpad_read :: "gateway_files \<Rightarrow> string \<Rightarrow> task_files \<Rightarrow> string + json option" where
  "scratchpad_read g i fs =
     (case load_raw_tasks (gf_codec g) fs of
        Inl e \<Rightarrow> Inl (''read failed: '' @ gf_error_text g e)
      | Inr tasks \<Rightarrow> Inr (case find (\<lambda>t. raw_id t = Some i) tasks of
          None \<Rightarrow> None | Some t \<Rightarrow> Some (scratchpad_json i t)))"

section \<open>The gateway and the registry\<close>

lemma find_related:
  assumes "list_all2 decodes raws ts"
  shows "rel_option decodes (find (\<lambda>v. raw_id v = Some i) raws) (find (\<lambda>t. task_id t = i) ts)"
  using assms by (induction rule: list_all2_induct) (auto simp: decodes_id)

lemma blank_Nil [simp]: "is_blank []"
  by code_simp

lemma note_agreeing:
  "note_section b = ''header'' \<longrightarrow> \<not> is_blank (case sn_kind b of None \<Rightarrow> [] | Some s \<Rightarrow> s) \<Longrightarrow> agreeing (note_event now i b)"
  by (cases "sn_kind b") (auto simp: agreeing_def note_event_def)

lemma update_first_find:
  assumes "update_first (\<lambda>t. task_id t = i) f ts = Inr ts'" and "find (\<lambda>t. task_id t = i) ts = Some t"
    and "\<And>t t'. f t = Inr t' \<Longrightarrow> task_id t' = task_id t"
  shows "\<exists>t'. f t = Inr t' \<and> find (\<lambda>t. task_id t = i) ts' = Some t'"
  using assms(1,2)
proof (induction ts arbitrary: ts')
  case (Cons x xs)
  show ?case
  proof (cases "task_id x = i")
    case True
    with Cons.prems(1) obtain y where "f x = Inr y" "ts' = y # xs" by (auto elim: bind_res_InrD)
    then show ?thesis using True Cons.prems(2) assms(3) [of x y] by simp
  next
    case False
    with Cons.prems(1) obtain ys where "update_first (\<lambda>t. task_id t = i) f xs = Inr ys" "ts' = x # ys"
      by (auto elim: bind_res_InrD)
    then show ?thesis using False Cons.IH [of ys] Cons.prems(2) by simp
  qed
qed simp

text \<open>The entry a note becomes, and where it goes.\<close>

definition note_entry :: "string \<Rightarrow> scratchpad_note \<Rightarrow> scratchpad_entry" where
  "note_entry now b = \<lparr>sp_from = sn_from b, sp_note = sn_note b, sp_timestamp = now,
     sp_kind = (case sn_kind b of None \<Rightarrow> [] | Some s \<Rightarrow> s)\<rparr>"

lemma note_applied:
  assumes "apply_event c ts (note_event now i b) = Inr ts'" and "find (\<lambda>t. task_id t = i) ts = Some t"
  shows "\<exists>t'. find (\<lambda>t. task_id t = i) ts' = Some t' \<and> task_revision t' = task_revision t + 1 \<and>
     note_entry now b = last (if note_section b = ''header'' then task_header t' else task_scratchpad t')"
proof -
  define f where "f = (\<lambda>t. let t1 = add_participant_name (sn_from b) t;
               entry = note_entry now b;
               t2 = t1\<lparr>task_updated_at := now, task_revision := task_revision t1 + 1\<rparr>
           in if note_section b = ''header''
              then (Inr (t2\<lparr>task_header := push_header (task_header t2) entry\<rparr>) :: registry_error + agent_task)
              else Inr (t2\<lparr>task_scratchpad := push_scratchpad (task_scratchpad t2) entry\<rparr>))"
  have last: "last (push_header es (note_entry now b)) = note_entry now b"
    "last (push_scratchpad es' (note_entry now b)) = note_entry now b" for es es'
    by (simp_all add: push_header_eq scratch.push_keeps_last keep_last_drop max_scratchpad_header_entries_def
        max_scratchpad_entries_def)
  have ids: "task_id t' = task_id t" if "f t = Inr t'" for t t'
    using that by (auto simp: f_def Let_def split: if_splits)
  have "update_first (\<lambda>t. task_id t = i) f ts = Inr ts'"
    using assms(1) by (simp add: note_event_def f_def note_entry_def)
  from update_first_find [OF this assms(2) ids] obtain t' where "f t = Inr t'" "find (\<lambda>t. task_id t = i) ts' = Some t'"
    by blast
  then show ?thesis by (auto simp: f_def Let_def last split: if_splits)
qed

text \<open>A note that the gateway accepts is recorded as if the registry had recorded the event: the registry
  then loads the replayed tasks with the note as the newest entry of its section and the next
  revision, and the gateway reads the same task.\<close>

theorem gateway_note_recorded:
  assumes "reads_tasks (gf_codec g)" and "journal_file fs \<noteq> None" and "whole_lines fs"
    and "read_task_journal_events (gf_codec g) fs = Inr es" and "es \<noteq> []" and "list_all agreeing es"
    and "line_ok (gf_codec g) (note_event now i b)"
    and "scratchpad_write g now i b fs = (fs', Inr sect)"
  shows "\<exists>ts ts' t t' v. fold_res (apply_event (gf_codec g)) [] es = Inr ts
    \<and> apply_event (gf_codec g) ts (note_event now i b) = Inr ts'
    \<and> load_unlocked (gf_codec g) fs' = Inr (settle ts')
    \<and> find (\<lambda>t. task_id t = i) ts = Some t \<and> find (\<lambda>t. task_id t = i) ts' = Some t'
    \<and> task_revision t' = task_revision t + 1
    \<and> note_entry now b = last (if sect = ''header'' then task_header t' else task_scratchpad t')
    \<and> scratchpad_read g i fs' = Inr (Some (scratchpad_json i v)) \<and> task_of_json v = Some t'"
proof -
  let ?c = "gf_codec g" and ?ev = "note_event now i b"
  obtain raws ts where load: "load_raw_tasks ?c fs = Inr raws" "list_all2 decodes raws ts"
    "fold_res (apply_event ?c) [] es = Inr ts"
    using raw_load_refines [OF assms(4,5,6,1)] by blast
  have seed: "seed_task_journal_from_snapshot ?c fs = Inr fs"
    using assms(2) by (auto simp: seed_task_journal_from_snapshot_def)
  have guards: "list_ex (\<lambda>t. raw_id t = Some i) raws" "sect = note_section b"
    "note_section b = ''header'' \<longrightarrow> \<not> is_blank (case sn_kind b of None \<Rightarrow> [] | Some s \<Rightarrow> s)"
    and fs': "journal_file fs' = journal_file (append_task_journal_event ?c ?ev fs)"
    using assms(8) by (simp_all add: scratchpad_write_def seed load(1) Let_def split: option.splits if_splits sum.splits) auto
  from note_agreeing [OF guards(3)] have ok: "list_all agreeing (es @ [?ev])" using assms(6) by simp
  have "read_task_journal_events ?c fs' = Inr (es @ [?ev])"
    using read_append [OF assms(3,7,4)] fs' by (simp add: read_task_journal_events_def)
  from raw_load_refines [OF this _ ok assms(1)] obtain raws' ts' where after:
    "load_raw_tasks ?c fs' = Inr raws'" "list_all2 decodes raws' ts'"
    "fold_res (apply_event ?c) [] (es @ [?ev]) = Inr ts'" "load_unlocked ?c fs' = Inr (settle ts')" by auto
  have step: "apply_event ?c ts ?ev = Inr ts'"
    using after(3) load(3) by (simp add: fold_res_append bind_res_def split: sum.splits)
  have "find (\<lambda>v. raw_id v = Some i) raws \<noteq> None" using guards(1) by (auto simp: find_None_iff list_ex_iff)
  then obtain t where t: "find (\<lambda>t. task_id t = i) ts = Some t"
    using find_related [OF load(2), of i] by (auto simp: option_rel_Some1)
  from note_applied [OF step t] obtain t' where t': "find (\<lambda>t. task_id t = i) ts' = Some t'"
    "task_revision t' = task_revision t + 1"
    "note_entry now b = last (if note_section b = ''header'' then task_header t' else task_scratchpad t')" by blast
  from find_related [OF after(2), of i] t'(1) obtain v where "find (\<lambda>v. raw_id v = Some i) raws' = Some v" "decodes v t'"
    by (auto simp: option_rel_Some2)
  then have "scratchpad_read g i fs' = Inr (Some (scratchpad_json i v))" "task_of_json v = Some t'"
    using after(1) by (simp_all add: scratchpad_read_def decodes_def)
  with load(3) step after(4) t t' guards(2) show ?thesis by blast
qed

definition demo_note :: scratchpad_note where
  "demo_note = \<lparr>sn_note = ''use v2'', sn_from = ''w'', sn_section = Some ''header'', sn_kind = Some ''goal''\<rparr>"

definition demo_gateway :: "json \<Rightarrow> gateway_files" where
  "demo_gateway task =
     \<lparr>gf_codec = json_codec (\<lambda>_. ''[]'') (\<lambda>_. None) (\<lambda>e. case e of Created _ \<Rightarrow> ''c'' | _ \<Rightarrow> ''n'')
        (\<lambda>l. if l = ''c'' then Some (Created task) else if l = ''n'' then Some (note_event ''2'' ''t1'' demo_note) else None),
      gf_print = (\<lambda>_. ''[]''), gf_error_text = (\<lambda>_. ''error''), gf_lock_error = None\<rparr>"

definition demo_journal :: task_files where
  "demo_journal = \<lparr>snapshot_file = None, journal_file = Some (''c'' @ [newline])\<rparr>"

abbreviation working_gateway :: gateway_files where
  "working_gateway \<equiv> demo_gateway (task_to_json (demo_task ''t1'' Working))"

theorem gateway_note_recorded_witness:
  "\<exists>ts' t'. load_unlocked (gf_codec working_gateway)
        (fst (scratchpad_write working_gateway ''2'' ''t1'' demo_note demo_journal)) = Inr (settle ts')
    \<and> find (\<lambda>t. task_id t = ''t1'') ts' = Some t' \<and> task_revision t' = 1
    \<and> last (task_header t') = note_entry ''2'' demo_note"
proof -
  let ?g = working_gateway and ?fs' = "fst (scratchpad_write working_gateway ''2'' ''t1'' demo_note demo_journal)"
  have "\<exists>ts ts' t t' v. fold_res (apply_event (gf_codec ?g)) [] [Created (task_to_json (demo_task ''t1'' Working))] = Inr ts
    \<and> apply_event (gf_codec ?g) ts (note_event ''2'' ''t1'' demo_note) = Inr ts'
    \<and> load_unlocked (gf_codec ?g) ?fs' = Inr (settle ts')
    \<and> find (\<lambda>t. task_id t = ''t1'') ts = Some t \<and> find (\<lambda>t. task_id t = ''t1'') ts' = Some t'
    \<and> task_revision t' = task_revision t + 1
    \<and> note_entry ''2'' demo_note = last (if ''header'' = ''header'' then task_header t' else task_scratchpad t')
    \<and> scratchpad_read ?g ''t1'' ?fs' = Inr (Some (scratchpad_json ''t1'' v)) \<and> task_of_json v = Some t'"
  proof (rule gateway_note_recorded)
    show "reads_tasks (gf_codec ?g)" by (simp add: demo_gateway_def)
    show "journal_file demo_journal \<noteq> None" "whole_lines demo_journal" by (simp_all add: demo_journal_def whole_lines_def)
    show "read_task_journal_events (gf_codec ?g) demo_journal = Inr [Created (task_to_json (demo_task ''t1'' Working))]"
      by code_simp
    show "[Created (task_to_json (demo_task ''t1'' Working))] \<noteq> []" by simp
    show "list_all agreeing [Created (task_to_json (demo_task ''t1'' Working))]" by code_simp
    show "line_ok (gf_codec ?g) (note_event ''2'' ''t1'' demo_note)" by code_simp
    have "snd (scratchpad_write ?g ''2'' ''t1'' demo_note demo_journal) = Inr ''header''" by code_simp
    then show "scratchpad_write ?g ''2'' ''t1'' demo_note demo_journal = (?fs', Inr ''header'')" by (metis prod.collapse)
  qed
  moreover have "fold_res (apply_event (gf_codec ?g)) [] [Created (task_to_json (demo_task ''t1'' Working))]
      = Inr [demo_task ''t1'' Working]" by code_simp
  ultimately show ?thesis by (auto simp: demo_task_def)
qed

text \<open>A task of an older version, without the revision: the registry counts its notes, the gateway
  reports revision 0 for the same file.\<close>

definition legacy_task_json :: json where
  "legacy_task_json = JObj [(''id'', JStr ''t1''), (''agent'', JStr ''w''), (''owner'', JStr ''p''), (''state'', JStr ''working''),
     (''created_at'', JStr ''0''), (''updated_at'', JStr ''0''), (''messages'', JArr []),
     (''scratchpad'', JArr [raw_entry ''w'' ''a'' ''0'' [], raw_entry ''w'' ''b'' ''0'' []])]"

theorem legacy_revision_differs:
  "map_sum id (map task_revision) (load_unlocked (gf_codec (demo_gateway legacy_task_json)) demo_journal) = Inr [2]
   \<and> map_sum id (map_option (json_member ''revision'')) (scratchpad_read (demo_gateway legacy_task_json) ''t1'' demo_journal)
     = Inr (Some (Some (JNum ''0'')))"
  by code_simp

end
