(* ===== verification/Http_Gateway.thy ===== *)
theory Http_Gateway
  imports Channel_Router Http_Tasks
begin

text \<open>
  The HTTP gateway (\<open>channels/adapters/http.rs\<close>), the routes agents add to it
  (\<open>channels/adapters/gateway_routes.rs\<close>), the outbound callback channel
  (\<open>channels/adapters/gateway.rs\<close>) and the check of callback addresses
  (\<open>channels/adapters/mod.rs\<close>).

  The state of the adapter is explicit.  The event channel of a request is a queue with a number;
  its only sender is the entry of \<open>active_requests\<close>, so the channel is closed when that entry is
  gone.  Handlers are split where they wait.  URL parsing, base64, the text of JSON values, the
  extraction of request bodies, the shell and fresh identifiers are parameters.
\<close>

section \<open>Callback addresses\<close>

text \<open>\<open>url::Url::parse\<close> with \<open>scheme\<close> and \<open>host_str\<close>.\<close>

record url_env =
  ue_parse :: "string \<Rightarrow> string + string \<times> string option"
  ue_allow_internal :: bool

definition apostrophes :: "string \<Rightarrow> string" where
  "apostrophes s = [CHR 0x27] @ s @ [CHR 0x27]"

definition validate_callback_url :: "url_env \<Rightarrow> string \<Rightarrow> string + unit" where
  "validate_callback_url u url =
     (case ue_parse u url of
        Inl e \<Rightarrow> Inl (''invalid callback URL: '' @ e)
      | Inr (scheme, host) \<Rightarrow>
          if scheme \<noteq> ''http'' \<and> scheme \<noteq> ''https''
          then Inl (''callback URL scheme '' @ apostrophes scheme @ '' not allowed, must be http or https'')
          else if ue_allow_internal u then Inr ()
          else case host of
            None \<Rightarrow> Inr ()
          | Some h \<Rightarrow>
              if h = ''localhost'' \<or> h = ''127.0.0.1'' \<or> h = ''::1''
              then Inl (''callback URL host '' @ apostrophes h
                @ '' is loopback; set THAT_ALLOW_INTERNAL_CALLBACKS=1 to allow'')
              else Inr ())"

text \<open>The callback channel: the posts it makes are logged; their outcome is ignored.\<close>

definition num_json :: "u64 \<Rightarrow> json" where
  "num_json w = JNum (show_nat (unat w))"

definition gateway_send_event ::
  "url_env \<Rightarrow> string \<Rightarrow> channel_event \<Rightarrow> (string \<times> json) list \<Rightarrow> (string + message_handle) \<times> (string \<times> json) list" where
  "gateway_send_event u url event posts =
     (case validate_callback_url u url of
        Inl e \<Rightarrow> (Inl e, posts)
      | Inr _ \<Rightarrow>
          (Inr default_handle,
           case event of
             Done txt i out _ _ \<Rightarrow>
               posts @ [(url, JObj [(''event'', JStr ''done''), (''text'', JStr txt), (''tokens'', num_json (i + out))])]
           | ErrorEvent msg \<Rightarrow> posts @ [(url, JObj [(''event'', JStr ''error''), (''text'', JStr msg)])]
           | _ \<Rightarrow> posts))"

section \<open>Dynamic routes\<close>

datatype route_handler = StaticRoute json | ShellRoute string u64

record dynamic_route =
  dr_method :: string
  dr_path :: string
  dr_handler :: route_handler
  dr_registered_at :: string

text \<open>The registry file with its codec; the error of the atomic write.\<close>

record routes_env =
  re_print :: "dynamic_route list \<Rightarrow> string"
  re_parse :: "string \<Rightarrow> dynamic_route list option"
  re_write_error :: "string option"

definition route_key :: "dynamic_route \<Rightarrow> string \<times> string" where
  "route_key r = (dr_method r, dr_path r)"

definition load_routes :: "routes_env \<Rightarrow> string option \<Rightarrow> registry_failure + dynamic_route list" where
  "load_routes e f =
     (case f of
        None \<Rightarrow> Inr []
      | Some s \<Rightarrow> if \<not> utf8_ok s then Inl ReadFailed
          else (case re_parse e s of None \<Rightarrow> Inl BadJson | Some rs \<Rightarrow> Inr rs))"

definition save_routes :: "routes_env \<Rightarrow> dynamic_route list \<Rightarrow> string option \<Rightarrow> (registry_failure + unit) \<times> string option" where
  "save_routes e rs f =
     (case re_write_error e of Some msg \<Rightarrow> (Inl (WriteFailed msg), f) | None \<Rightarrow> (Inr (), Some (re_print e rs)))"

definition put_route :: "dynamic_route list \<Rightarrow> dynamic_route \<Rightarrow> dynamic_route list" where
  "put_route rs r = filter (\<lambda>x. \<not> (dr_method x = dr_method r \<and> dr_path x = dr_path r)) rs @ [r]"

definition drop_route :: "dynamic_route list \<Rightarrow> string \<times> string \<Rightarrow> dynamic_route list" where
  "drop_route rs k = filter (\<lambda>x. \<not> (dr_method x = fst k \<and> dr_path x = snd k)) rs"

definition register_route :: "routes_env \<Rightarrow> dynamic_route \<Rightarrow> string option \<Rightarrow> (registry_failure + unit) \<times> string option" where
  "register_route e r f =
     (case load_routes e f of Inl err \<Rightarrow> (Inl err, f) | Inr rs \<Rightarrow> save_routes e (put_route rs r) f)"

definition unregister_route :: "routes_env \<Rightarrow> string \<Rightarrow> string \<Rightarrow> string option \<Rightarrow> (registry_failure + unit) \<times> string option" where
  "unregister_route e meth path f =
     (case load_routes e f of Inl err \<Rightarrow> (Inl err, f) | Inr rs \<Rightarrow> save_routes e (drop_route rs (meth, path)) f)"

definition lookup_route :: "routes_env \<Rightarrow> string option \<Rightarrow> string \<Rightarrow> string \<Rightarrow> registry_failure + dynamic_route option" where
  "lookup_route e f meth path =
     bind_res (load_routes e f) (\<lambda>rs.
       Inr (find (\<lambda>r. to_ascii_lower (dr_method r) = to_ascii_lower meth \<and> dr_path r = path) rs))"

text \<open>What running \<open>sh -c\<close> under the time-out gives, both streams decoded lossily.\<close>

datatype shell_outcome = ShellExit bool string string | ShellFailed string | ShellTimedOut

definition shell_answer :: "(json \<Rightarrow> string) \<Rightarrow> shell_outcome \<Rightarrow> nat \<times> string" where
  "shell_answer pr res =
     (case res of
        ShellExit success out err \<Rightarrow> if success then (200, out) else (500, pr (JObj [(''error'', JStr (trim err))]))
      | ShellFailed e \<Rightarrow> (500, pr (JObj [(''error'', JStr e)]))
      | ShellTimedOut \<Rightarrow> (500, pr (JObj [(''error'', JStr ''timed out'')])))"

interpretation routes: keyed_table route_key put_route drop_route
proof unfold_locales
  fix xs :: "dynamic_route list" and a k k'
  have eq: "(\<lambda>x. \<not> (dr_method x = m \<and> dr_path x = p)) = (\<lambda>x. route_key x \<noteq> (m, p))" for m p
    by (auto simp: route_key_def)
  note table = put_route_def drop_route_def eq
  show "lookup_by route_key (put_route xs a) k = (if k = route_key a then Some a else lookup_by route_key xs k)"
    unfolding table lookup_by_append route_key_def [symmetric] lookup_by_filter_neq
    by (auto simp: lookup_by_def split: option.splits)
  show "lookup_by route_key (drop_route xs k') k = (if k = k' then None else lookup_by route_key xs k)"
    unfolding table by (simp add: lookup_by_filter_neq)
  show "distinct (map route_key (put_route xs a))" if "distinct (map route_key xs)"
    using that unfolding table by (auto simp: distinct_map route_key_def intro: inj_on_subset)
  show "distinct (map route_key (drop_route xs k))" if "distinct (map route_key xs)"
    using that unfolding table by (auto simp: distinct_map intro: inj_on_subset)
qed

section \<open>The state of the adapter\<close>

definition notify_sender_id :: string where "notify_sender_id = ''__notify__''"

record pairing_state =
  ps_code :: string
  ps_token :: string
  ps_used :: bool

text \<open>
  \<open>hs_listener\<close> is the stored inbound sender: absent, or present with its receiver alive or gone;
  \<open>hs_inbound\<close> is what it has carried.  \<open>hs_pending\<close> holds the numbers of the one-shot senders,
  \<open>hs_asking\<close> those whose receiver still waits, \<open>hs_replies\<close> what they were sent.
\<close>

record http_state =
  hs_active :: "string \<Rightarrow> nat option"
  hs_queue :: "nat \<Rightarrow> channel_event list"
  hs_next :: nat
  hs_pending :: "string \<Rightarrow> nat option"
  hs_asking :: "nat list"
  hs_replies :: "nat \<Rightarrow> string option"
  hs_listener :: "bool option"
  hs_inbound :: "inbound_message list"
  hs_auth_token :: "string option"
  hs_pairing :: "pairing_state option"
  hs_token_file :: "string option"
  hs_task_files :: task_files
  hs_commands :: "(string \<times> string option) list"

record http_config =
  hc_adapter_id :: string
  hc_timeout_secs :: u64
  hc_pairing :: bool
  hc_cluster_dir :: bool
  hc_token_path :: bool
  hc_urls :: url_env
  hc_routes :: "(routes_env \<times> string option) option"
  hc_b64_decode :: "string \<Rightarrow> string + string"
  hc_b64_encode :: "string \<Rightarrow> string"
  hc_print :: "json \<Rightarrow> string"
  hc_gateway_files :: gateway_files
  hc_failure_text :: "registry_failure \<Rightarrow> string"
  hc_shell :: "string \<Rightarrow> u64 \<Rightarrow> string option \<Rightarrow> shell_outcome"

text \<open>\<open>HttpAdapter::new\<close> with the feature \<open>pairing\<close>: a configured token, the persisted one, or a fresh
  pairing code.  The second component is the content of the token file, if it can be read.\<close>

definition load_persisted_token :: "string option \<Rightarrow> string option" where
  "load_persisted_token f =
     (case f of
        None \<Rightarrow> None
      | Some s \<Rightarrow> if utf8_ok s \<and> trim s \<noteq> [] then Some (trim s) else None)"

definition initial_auth ::
  "bool \<Rightarrow> string option \<Rightarrow> string option \<Rightarrow> string \<Rightarrow> string \<Rightarrow> string option \<times> pairing_state option" where
  "initial_auth pairing auth_token token_file code token =
     (if \<not> pairing then (auth_token, None)
      else case auth_token of
        Some tok \<Rightarrow> (Some tok, None)
      | None \<Rightarrow> (case load_persisted_token token_file of
          Some tok \<Rightarrow> (Some tok, None)
        | None \<Rightarrow> (None, Some \<lparr>ps_code = code, ps_token = token, ps_used = False\<rparr>)))"

definition http_new ::
  "bool \<Rightarrow> string option \<Rightarrow> string option \<Rightarrow> string \<Rightarrow> string \<Rightarrow> task_files \<Rightarrow> http_state" where
  "http_new pairing auth_token token_file code token files =
     \<lparr>hs_active = (\<lambda>_. None), hs_queue = (\<lambda>_. []), hs_next = 0, hs_pending = (\<lambda>_. None), hs_asking = [],
      hs_replies = (\<lambda>_. None), hs_listener = None, hs_inbound = [],
      hs_auth_token = fst (initial_auth pairing auth_token token_file code token),
      hs_pairing = snd (initial_auth pairing auth_token token_file code token),
      hs_token_file = token_file, hs_task_files = files, hs_commands = []\<rparr>"

definition http_capabilities :: channel_capabilities where
  "http_capabilities =
     \<lparr>cap_inbound = True, cap_ask_human = True, cap_typing_indicator = False, cap_command_menu = False,
      cap_max_message_len = 2 ^ 64 - 1, cap_message_edit = False, cap_attachments = True, cap_inbound_images = True,
      cap_inbound_audio = True, cap_rich_messages = False, cap_reactions = False, cap_native_api = False,
      cap_deferred_start = False\<rparr>"

definition http_start_listener :: "http_state \<Rightarrow> http_state" where
  "http_start_listener st = st\<lparr>hs_listener := Some True\<rparr>"

section \<open>Requests and answers\<close>

datatype http_body = JsonBody json | TextBody string

type_synonym http_response = "nat \<times> http_body"

definition error_body :: "string \<Rightarrow> http_body" where
  "error_body e = JsonBody (JObj [(''error'', JStr e)])"

definition status_body :: "string \<Rightarrow> http_body" where
  "status_body e = JsonBody (JObj [(''status'', JStr e)])"

definition is_terminal_event :: "channel_event \<Rightarrow> bool" where
  "is_terminal_event ev = (case ev of Done _ _ _ _ _ \<Rightarrow> True | ErrorEvent _ \<Rightarrow> True | _ \<Rightarrow> False)"

text \<open>\<open>send\<close> on the sink of a request that is still active.\<close>

definition push_event :: "string \<Rightarrow> channel_event \<Rightarrow> http_state \<Rightarrow> http_state" where
  "push_event rid ev st =
     (case hs_active st rid of
        None \<Rightarrow> st
      | Some n \<Rightarrow> st\<lparr>hs_queue := (hs_queue st)(n := hs_queue st n @ [ev])\<rparr>)"

definition deactivate :: "string \<Rightarrow> http_state \<Rightarrow> http_state" where
  "deactivate rid st = st\<lparr>hs_active := (hs_active st)(rid := None)\<rparr>"

definition http_send_event :: "channel_event \<Rightarrow> outbound_target option \<Rightarrow> http_state \<Rightarrow> http_state" where
  "http_send_event ev target st =
     (let rid = (case target of None \<Rightarrow> [] | Some t \<Rightarrow> (case ot_request_id t of None \<Rightarrow> [] | Some r \<Rightarrow> r)) in
      if rid = [] then st
      else let st1 = push_event rid ev st in if is_terminal_event ev then deactivate rid st1 else st1)"

definition acquire_inbound_tx :: "http_state \<Rightarrow> http_response + unit" where
  "acquire_inbound_tx st =
     (case hs_listener st of
        None \<Rightarrow> Inl (503, error_body ''Inbound listener not yet registered'')
      | Some _ \<Rightarrow> Inr ())"

text \<open>\<open>tx.send(msg)\<close>: fails when the receiver is gone.\<close>

definition send_inbound :: "inbound_message \<Rightarrow> http_state \<Rightarrow> bool \<times> http_state" where
  "send_inbound msg st =
     (if hs_listener st = Some True then (True, st\<lparr>hs_inbound := hs_inbound st @ [msg]\<rparr>) else (False, st))"

definition push_inbound ::
  "http_config \<Rightarrow> string \<Rightarrow> string \<Rightarrow> string \<Rightarrow> string option \<Rightarrow> http_state \<Rightarrow> (string + unit) \<times> http_state" where
  "push_inbound cfg rid message sender conversation st =
     (if hs_listener st = None then (Inl ''HTTP adapter: inbound listener not yet registered'', st)
      else let (sent, st1) = send_inbound
                 \<lparr>im_channel_id = hc_adapter_id cfg, im_sender_id = sender, im_text = message, im_message_id = None,
                  im_conversation_id = conversation, im_session_hint = Some rid, im_callback_url = None,
                  im_deferred = False, im_attachments = [], im_metadata = None\<rparr> st
           in (if sent then Inr () else Inl ''HTTP adapter: inbound channel closed'', st1))"

section \<open>Chat requests\<close>

record chat_request =
  cr_message :: string
  cr_conversation_id :: "string option"
  cr_sender_id :: "string option"

text \<open>The first part of \<open>handle_chat\<close> and \<open>handle_chat_stream\<close>: an answer at once, or the number of the
  event channel the handler waits on.\<close>

definition chat_open ::
  "http_config \<Rightarrow> string \<Rightarrow> chat_request \<Rightarrow> http_state \<Rightarrow> (http_response + nat) \<times> http_state" where
  "chat_open cfg rid req st0 =
     (let n = hs_next st0;
          st1 = st0\<lparr>hs_active := (hs_active st0)(rid \<mapsto> n), hs_queue := (hs_queue st0)(n := []), hs_next := n + 1\<rparr>;
          (pushed, st2) = push_inbound cfg rid (cr_message req)
            (case cr_sender_id req of None \<Rightarrow> ''api-client'' | Some x \<Rightarrow> x) (cr_conversation_id req) st1
      in case pushed of
           Inl e \<Rightarrow> (Inl (503, error_body e), deactivate rid st2)
         | Inr _ \<Rightarrow> (Inr n, st2))"

text \<open>The loop of \<open>handle_chat\<close> over the events that have arrived: an answer, or nothing yet.  An empty
  queue whose sender is gone ends the loop.\<close>

fun sync_answer :: "string \<Rightarrow> bool \<Rightarrow> channel_event list \<Rightarrow> http_response option" where
  "sync_answer rid open [] =
     (if open then None else Some (500, error_body ''Event channel closed without terminal event''))"
| "sync_answer rid open (ev # evs) =
     (case ev of
        Done txt i out _ _ \<Rightarrow>
          Some (200, JsonBody (JObj [(''text'', JStr txt), (''conversation_id'', JStr rid),
            (''input_tokens'', num_json i), (''output_tokens'', num_json out)]))
      | ErrorEvent e \<Rightarrow> Some (500, error_body e)
      | _ \<Rightarrow> sync_answer rid open evs)"

definition chat_resume :: "string \<Rightarrow> nat \<Rightarrow> http_state \<Rightarrow> http_response option \<times> http_state" where
  "chat_resume rid n st =
     (case sync_answer rid (hs_active st rid = Some n) (hs_queue st n) of
        None \<Rightarrow> (None, st\<lparr>hs_queue := (hs_queue st)(n := [])\<rparr>)
      | Some r \<Rightarrow> (Some r, deactivate rid (st\<lparr>hs_queue := (hs_queue st)(n := [])\<rparr>)))"

definition chat_timed_out :: "string \<Rightarrow> http_state \<Rightarrow> http_response \<times> http_state" where
  "chat_timed_out rid st = ((504, error_body ''Request timed out''), deactivate rid st)"

text \<open>An event as one of the stream, with its name and data.\<close>

definition strip_ask :: "string \<Rightarrow> string option" where
  "strip_ask msg = strip_prefix ''__ask_human__:'' msg"

definition channel_event_to_sse :: "http_config \<Rightarrow> channel_event \<Rightarrow> (string \<times> string) option" where
  "channel_event_to_sse cfg ev =
     (let data = (\<lambda>ms. hc_print cfg (JObj ms)); opt = (\<lambda>v. case v of None \<Rightarrow> JNull | Some s \<Rightarrow> JStr s) in
      case ev of
        StreamToken token \<Rightarrow> Some (''stream_token'', data [(''token'', JStr token)])
      | ToolCallEvent call_id name args \<Rightarrow>
          Some (''tool_call'', data [(''call_id'', JStr call_id), (''name'', JStr name), (''args'', JStr args)])
      | ToolResultEvent call_id name result \<Rightarrow>
          Some (''tool_result'', data [(''call_id'', JStr call_id), (''name'', JStr name), (''result'', JStr result)])
      | Done txt i out _ _ \<Rightarrow>
          Some (''done'', data [(''text'', JStr txt), (''input_tokens'', num_json i), (''output_tokens'', num_json out)])
      | ErrorEvent err \<Rightarrow> Some (''error'', data [(''error'', JStr err)])
      | Notify msg \<Rightarrow>
          (case strip_ask msg of
             Some payload \<Rightarrow> Some (''ask_human'', payload)
           | None \<Rightarrow> Some (''notify'', data [(''message'', JStr msg)]))
      | Attachment filename bytes caption mime \<Rightarrow>
          Some (''attachment'', data [(''filename'', JStr filename), (''mime_type'', opt mime), (''caption'', opt caption),
            (''size_bytes'', JNum (show_nat (length bytes))), (''data_base64'', JStr (hc_b64_encode cfg bytes))])
      | TypingIndicator \<Rightarrow> None
      | ThinkingDelta _ \<Rightarrow> None
      | Retrying _ _ _ \<Rightarrow> None
      | ResetEvent \<Rightarrow> None)"

text \<open>The stream of \<open>handle_chat_stream\<close>: the events that have arrived as server-sent events; the request
  stops being active with its terminal event or when nothing arrived in time.\<close>

definition stream_resume ::
  "http_config \<Rightarrow> string \<Rightarrow> nat \<Rightarrow> http_state \<Rightarrow> (string \<times> string) list \<times> http_state" where
  "stream_resume cfg rid n st =
     (let evs = hs_queue st n; st1 = st\<lparr>hs_queue := (hs_queue st)(n := [])\<rparr>
      in (List.map_filter (channel_event_to_sse cfg) evs,
          if list_ex is_terminal_event evs then deactivate rid st1 else st1))"

definition stream_timed_out :: "http_config \<Rightarrow> string \<Rightarrow> http_state \<Rightarrow> (string \<times> string) list \<times> http_state" where
  "stream_timed_out cfg rid st =
     ([(''error'', hc_print cfg (JObj [(''error'', JStr ''Stream timed out'')]))], deactivate rid st)"

section \<open>Questions to the human\<close>

text \<open>\<open>ask_human\<close> up to its wait, with a fresh number for its one-shot channel: inserting a sender drops
  the one it replaces.\<close>

definition ask_open ::
  "http_config \<Rightarrow> nat \<Rightarrow> string \<Rightarrow> outbound_target option \<Rightarrow> http_state \<Rightarrow> (string + string) \<times> http_state" where
  "ask_open cfg a message target st =
     (case (case target of None \<Rightarrow> None | Some t \<Rightarrow> ot_request_id t) of
        None \<Rightarrow> (Inl ''HTTP ask_human: no request_id in target'', st)
      | Some rid \<Rightarrow>
          (let st1 = st\<lparr>hs_pending := (hs_pending st)(rid \<mapsto> a), hs_asking := a # hs_asking st\<rparr>
           in (Inr rid, push_event rid (Notify (''__ask_human__:''
                @ hc_print cfg (JObj [(''request_id'', JStr rid), (''message'', JStr message)]))) st1)))"

text \<open>What the waiting side sees: a reply, that its sender is gone, or the end of its time.\<close>

definition ask_resume :: "string \<Rightarrow> nat \<Rightarrow> http_state \<Rightarrow> (string + string) option \<times> http_state" where
  "ask_resume rid a st =
     (let st1 = st\<lparr>hs_asking := remove1 a (hs_asking st)\<rparr> in
      case hs_replies st a of
        Some r \<Rightarrow> (Some (Inr r), st1)
      | None \<Rightarrow>
          if hs_pending st rid = Some a then (None, st)
          else (Some (Inl (''HTTP ask_human: response channel closed for request '' @ rid)),
                st1\<lparr>hs_pending := (hs_pending st)(rid := None)\<rparr>))"

definition ask_timed_out :: "u64 \<Rightarrow> string \<Rightarrow> nat \<Rightarrow> http_state \<Rightarrow> string \<times> http_state" where
  "ask_timed_out secs rid a st =
     (''HTTP ask_human timed out after '' @ show_nat (unat secs) @ ''s for request '' @ rid,
      st\<lparr>hs_asking := remove1 a (hs_asking st), hs_pending := (hs_pending st)(rid := None)\<rparr>)"

definition handle_chat_respond :: "string \<Rightarrow> string \<Rightarrow> http_state \<Rightarrow> http_response \<times> http_state" where
  "handle_chat_respond rid response st =
     (case hs_pending st rid of
        Some a \<Rightarrow>
          (let st1 = st\<lparr>hs_pending := (hs_pending st)(rid := None)\<rparr> in
           if a \<in> set (hs_asking st)
           then ((200, status_body ''delivered''), st1\<lparr>hs_replies := (hs_replies st1)(a \<mapsto> response)\<rparr>)
           else ((410, error_body ''Request is no longer waiting for a response''), st1))
      | None \<Rightarrow> ((404, error_body (''No pending ask_human for request_id '' @ apostrophes rid)), st))"

section \<open>Messages from outside\<close>

record attachment_payload =
  ap_data :: string
  ap_mime_type :: string

record inbound_request =
  ir_message :: string
  ir_sender_id :: string
  ir_channel_id :: "string option"
  ir_callback_url :: "string option"
  ir_attachments :: "attachment_payload list"

definition classify_attachment :: "string \<Rightarrow> string \<Rightarrow> inbound_attachment" where
  "classify_attachment bytes mime =
     (if prefix ''audio/'' mime then AudioAttachment bytes mime None
      else if prefix ''image/'' mime then ImageAttachment bytes mime
      else DocumentAttachment bytes mime None)"

fun decode_attachments :: "http_config \<Rightarrow> nat \<Rightarrow> attachment_payload list \<Rightarrow> string + inbound_attachment list" where
  "decode_attachments cfg i [] = Inr []"
| "decode_attachments cfg i (a # as) =
     (case hc_b64_decode cfg (ap_data a) of
        Inl e \<Rightarrow> Inl (''Invalid base64 in attachment '' @ show_nat i @ '': '' @ e)
      | Inr bytes \<Rightarrow>
          bind_res (decode_attachments cfg (i + 1) as) (\<lambda>rest.
            Inr (classify_attachment bytes (ap_mime_type a) # rest)))"

definition inbound_closed :: http_response where
  "inbound_closed = (503, error_body ''Inbound channel closed'')"

definition handle_inbound :: "http_config \<Rightarrow> inbound_request \<Rightarrow> http_state \<Rightarrow> http_response \<times> http_state" where
  "handle_inbound cfg req st =
     (case (case ir_callback_url req of None \<Rightarrow> Inr () | Some url \<Rightarrow> validate_callback_url (hc_urls cfg) url) of
        Inl e \<Rightarrow> ((400, error_body e), st)
      | Inr _ \<Rightarrow>
      (case acquire_inbound_tx st of
        Inl r \<Rightarrow> (r, st)
      | Inr _ \<Rightarrow>
      (case decode_attachments cfg 0 (ir_attachments req) of
        Inl e \<Rightarrow> ((400, error_body e), st)
      | Inr as \<Rightarrow>
          (let (sent, st1) = send_inbound
                 \<lparr>im_channel_id = (case ir_channel_id req of None \<Rightarrow> hc_adapter_id cfg | Some c \<Rightarrow> c),
                  im_sender_id = ir_sender_id req, im_text = ir_message req, im_message_id = None,
                  im_conversation_id = None, im_session_hint = None, im_callback_url = ir_callback_url req,
                  im_deferred = (ir_callback_url req = None), im_attachments = as, im_metadata = None\<rparr> st
           in if sent then ((202, status_body ''accepted''), st1) else (inbound_closed, st1)))))"

record notify_request =
  nr_message :: string
  nr_agent :: "string option"
  nr_sender_id :: "string option"
  nr_metadata :: "(string \<times> json) list"

definition or_insert :: "string \<Rightarrow> string option \<Rightarrow> (string \<times> json) list \<Rightarrow> (string \<times> json) list" where
  "or_insert k v ms = (case v of None \<Rightarrow> ms | Some s \<Rightarrow> if map_of ms k = None then ms @ [(k, JStr s)] else ms)"

definition notify_message :: "http_config \<Rightarrow> string \<Rightarrow> json option \<Rightarrow> inbound_message" where
  "notify_message cfg txt meta =
     \<lparr>im_channel_id = hc_adapter_id cfg, im_sender_id = notify_sender_id, im_text = txt, im_message_id = None,
      im_conversation_id = None, im_session_hint = None, im_callback_url = None, im_deferred = False,
      im_attachments = [], im_metadata = meta\<rparr>"

definition handle_notify :: "http_config \<Rightarrow> notify_request \<Rightarrow> http_state \<Rightarrow> http_response \<times> http_state" where
  "handle_notify cfg req st =
     (case acquire_inbound_tx st of
        Inl r \<Rightarrow> (r, st)
      | Inr _ \<Rightarrow>
          (let sender = (case nr_agent req of Some a \<Rightarrow> Some a | None \<Rightarrow> nr_sender_id req);
               txt = (case sender of Some x \<Rightarrow> ''['' @ x @ ''] '' @ nr_message req | None \<Rightarrow> nr_message req);
               ms = or_insert ''sender_id'' (nr_sender_id req) (or_insert ''agent'' (nr_agent req) (nr_metadata req));
               (sent, st1) = send_inbound (notify_message cfg txt (if ms = [] then None else Some (JObj ms))) st
           in if sent then ((202, status_body ''queued''), st1) else (inbound_closed, st1)))"

section \<open>Task updates and the scratchpad\<close>

record task_update =
  tu_state :: "string option"
  tu_message :: "string option"
  tu_text :: "string option"
  tu_agent :: "string option"

definition update_state_of :: "string \<Rightarrow> agent_task_state option" where
  "update_state_of s =
     (if s = ''completed'' then Some Completed
      else if s = ''failed'' then Some Failed
      else if s = ''working'' then Some Working
      else if s = ''input_required'' then Some InputRequired
      else if s = ''canceled'' then Some Canceled
      else None)"

text \<open>An error of the registry is only logged.\<close>

definition handle_task_update ::
  "http_config \<Rightarrow> string \<Rightarrow> (string \<times> string) list \<Rightarrow> task_update \<Rightarrow> http_state \<Rightarrow> http_response \<times> http_state" where
  "handle_task_update cfg now params req st =
     (case acquire_inbound_tx st of
        Inl r \<Rightarrow> (r, st)
      | Inr _ \<Rightarrow>
          (let tid = (case map_of params ''task_id'' of None \<Rightarrow> [] | Some i \<Rightarrow> i);
               agent = (case tu_agent req of None \<Rightarrow> ''unknown'' | Some a \<Rightarrow> a);
               ts = (case tu_state req of None \<Rightarrow> ''completed'' | Some x \<Rightarrow> x);
               message = (case tu_message req of Some m \<Rightarrow> m | None \<Rightarrow> (case tu_text req of Some t \<Rightarrow> t | None \<Rightarrow> []));
               st1 = (if tid \<noteq> [] \<and> hc_cluster_dir cfg
                      then (case update_state_of ts of
                              None \<Rightarrow> st
                            | Some s \<Rightarrow> st\<lparr>hs_task_files :=
                                fst (update_state (gf_codec (hc_gateway_files cfg)) now tid s (Some agent)
                                       (if message = [] then None else Some message) (hs_task_files st))\<rparr>)
                      else st);
               (sent, st2) = send_inbound
                 (notify_message cfg
                    (''[task:'' @ tid @ ''/'' @ agent @ ''] '' @ ts @ '': '' @ take_chars 300 message)
                    (Some (JObj [(''task_id'', JStr tid), (''task_state'', JStr ts), (''agent'', JStr agent),
                       (''full_message'', JStr message)]))) st1
           in if sent
              then ((202, JsonBody (JObj [(''status'', JStr ''updated''), (''task_id'', JStr tid)])), st2)
              else (inbound_closed, st2)))"

definition no_cluster_dir :: string where
  "no_cluster_dir = ''scratchpad unavailable '' @ [CHR 0xE2, CHR 0x80, CHR 0x94] @ '' no cluster_dir''"

definition handle_scratchpad_read :: "http_config \<Rightarrow> (string \<times> string) list \<Rightarrow> http_state \<Rightarrow> http_response \<times> http_state" where
  "handle_scratchpad_read cfg params st =
     (case map_of params ''task_id'' of
        None \<Rightarrow> ((400, error_body ''missing task_id query parameter''), st)
      | Some i \<Rightarrow>
          if \<not> hc_cluster_dir cfg then ((404, error_body no_cluster_dir), st)
          else case scratchpad_read (hc_gateway_files cfg) i (hs_task_files st) of
            Inl e \<Rightarrow> ((500, error_body e), st)
          | Inr None \<Rightarrow> ((404, error_body (task_not_found i)), st)
          | Inr (Some body) \<Rightarrow> ((200, JsonBody body), st))"

definition handle_scratchpad_write ::
  "http_config \<Rightarrow> string \<Rightarrow> (string \<times> string) list \<Rightarrow> scratchpad_note \<Rightarrow> http_state \<Rightarrow> http_response \<times> http_state" where
  "handle_scratchpad_write cfg now params b st =
     (case map_of params ''task_id'' of
        None \<Rightarrow> ((400, error_body ''missing task_id query parameter''), st)
      | Some i \<Rightarrow>
          if \<not> hc_cluster_dir cfg then ((404, error_body no_cluster_dir), st)
          else (let (files, r) = scratchpad_write (hc_gateway_files cfg) now i b (hs_task_files st);
                    st1 = st\<lparr>hs_task_files := files\<rparr>
                in (case r of
                      Inr sect \<Rightarrow> (200, JsonBody (JObj [(''ok'', JBool True), (''section'', JStr sect)]))
                    | Inl e \<Rightarrow>
                        if contains_sub kind_required e then (400, error_body e)
                        else if contains_sub ''not found'' e then (404, error_body e)
                        else (500, error_body (''write failed: '' @ e)), st1)))"

section \<open>Pairing and authorisation\<close>

definition handle_pair :: "http_config \<Rightarrow> string \<Rightarrow> http_state \<Rightarrow> http_response \<times> http_state" where
  "handle_pair cfg code st =
     (case hs_pairing st of
        None \<Rightarrow> ((403, error_body ''already paired''), st)
      | Some ps \<Rightarrow>
          if ps_used ps then ((403, error_body ''already paired''), st)
          else if code \<noteq> ps_code ps then ((401, error_body ''invalid code''), st)
          else ((200, JsonBody (JObj [(''token'', JStr (ps_token ps))])),
                st\<lparr>hs_pairing := Some (ps\<lparr>ps_used := True\<rparr>), hs_auth_token := Some (ps_token ps),
                   hs_token_file := (if hc_token_path cfg then Some (ps_token ps) else hs_token_file st)\<rparr>))"

text \<open>The header is present when it is valid text (\<open>to_str\<close>).\<close>

definition auth_check :: "http_config \<Rightarrow> http_state \<Rightarrow> string option \<Rightarrow> http_response + unit" where
  "auth_check cfg st authorization =
     (case hs_auth_token st of
        None \<Rightarrow>
          if hc_pairing cfg
          then Inl (401, TextBody ''Gateway not yet paired. POST /pair with your pairing code first.'')
          else Inr ()
      | Some expected \<Rightarrow>
          (case authorization of
             Some value \<Rightarrow>
               (case strip_prefix ''Bearer '' value of
                  Some token \<Rightarrow> if token = expected then Inr () else Inl (401, TextBody ''Invalid bearer token'')
                | None \<Rightarrow> Inl (401, TextBody ''Missing or invalid Authorization header''))
           | None \<Rightarrow> Inl (401, TextBody ''Missing or invalid Authorization header'')))"

section \<open>The routes\<close>

definition handle_health :: http_response where
  "handle_health = (200, status_body ''ok'')"

definition schema_field :: "string \<Rightarrow> bool \<Rightarrow> string \<Rightarrow> json" where
  "schema_field ty required description =
     JObj [(''type'', JStr ty), (''required'', JBool required), (''description'', JStr description)]"

definition handle_schema :: http_response where
  "handle_schema =
     (200, JsonBody (JObj
       [(''endpoint'', JStr ''/v1/inbound''), (''method'', JStr ''POST''), (''content_type'', JStr ''application/json''),
        (''body'', JObj
          [(''message'', schema_field ''string'' True ''The message text''),
           (''sender_id'', schema_field ''string'' True ''Sender identifier''),
           (''channel_id'', schema_field ''string'' False ''Override channel ID (defaults to adapter ID)''),
           (''callback_url'', schema_field ''string'' False ''URL for async response delivery''),
           (''attachments'', JObj
             [(''type'', JStr ''array''), (''required'', JBool False), (''description'', JStr ''Base64-encoded file attachments''),
              (''items'', JObj
                [(''data'', JObj [(''type'', JStr ''string''), (''description'', JStr ''Base64-encoded file bytes'')]),
                 (''mime_type'', JObj [(''type'', JStr ''string''),
                    (''description'', JStr ''MIME type (e.g. image/png, audio/ogg)'')])])])])]))"

record http_request =
  rq_method :: string
  rq_path :: string
  rq_authorization :: "string option"
  rq_query :: string
  rq_body :: string

text \<open>The extractors of axum: the rejection or the value of the handler's argument.\<close>

record http_extract =
  ex_query :: "http_request \<Rightarrow> http_response + (string \<times> string) list"
  ex_pair :: "http_request \<Rightarrow> http_response + string"
  ex_chat :: "http_request \<Rightarrow> http_response + chat_request"
  ex_respond :: "http_request \<Rightarrow> http_response + string \<times> string"
  ex_inbound :: "http_request \<Rightarrow> http_response + inbound_request"
  ex_notify :: "http_request \<Rightarrow> http_response + notify_request"
  ex_update :: "http_request \<Rightarrow> http_response + task_update"
  ex_note :: "http_request \<Rightarrow> http_response + scratchpad_note"

text \<open>What a request comes to: an answer, or a handler that waits on an event channel.\<close>

datatype served = Answer http_response | WaitChat string nat | WaitStream string nat

definition extracted :: "http_response + 'a \<Rightarrow> ('a \<Rightarrow> served \<times> http_state) \<Rightarrow> http_state \<Rightarrow> served \<times> http_state" where
  "extracted x f st = (case x of Inl r \<Rightarrow> (Answer r, st) | Inr a \<Rightarrow> f a)"

definition answered :: "http_response \<times> http_state \<Rightarrow> served \<times> http_state" where
  "answered r = (Answer (fst r), snd r)"

definition upper_char :: "char \<Rightarrow> char" where
  "upper_char c = (if is_lower c then char_of (of_char c - (32 :: nat)) else c)"

definition handle_dynamic :: "http_config \<Rightarrow> http_request \<Rightarrow> http_state \<Rightarrow> http_response \<times> http_state" where
  "handle_dynamic cfg req st =
     (case hc_routes cfg of
        None \<Rightarrow> ((404, error_body ''not found''), st)
      | Some (e, f) \<Rightarrow>
          (case lookup_route e f (map upper_char (rq_method req)) (rq_path req) of
             Inl err \<Rightarrow> ((500, error_body (hc_failure_text cfg err)), st)
           | Inr None \<Rightarrow> ((404, error_body ''not found''), st)
           | Inr (Some r) \<Rightarrow>
               (case dr_handler r of
                  StaticRoute body \<Rightarrow> ((200, JsonBody body), st)
                | ShellRoute command secs \<Rightarrow>
                    (let b = rq_body req;
                         arg = (if length b \<le> 1024 * 1024 \<and> utf8_ok b \<and> b \<noteq> [] then Some b else None);
                         (code, out) = shell_answer (hc_print cfg) (hc_shell cfg command secs arg)
                     in ((code, TextBody out), st\<lparr>hs_commands := hs_commands st @ [(command, arg)]\<rparr>)))))"

definition method_not_allowed :: http_response where
  "method_not_allowed = (405, TextBody [])"

definition is_get :: "http_request \<Rightarrow> bool" where
  "is_get req \<longleftrightarrow> rq_method req = ''GET'' \<or> rq_method req = ''HEAD''"

definition is_post :: "http_request \<Rightarrow> bool" where
  "is_post req \<longleftrightarrow> rq_method req = ''POST''"

definition api_paths :: "string list" where
  "api_paths = [''/v1/chat'', ''/v1/chat/stream'', ''/v1/chat/respond'', ''/v1/inbound'', ''/v1/notify'', ''/v1/task_update'',
     ''/v1/scratchpad'', ''/v1/schema'']"

text \<open>The routes behind the middleware, with the fresh identifier and the time of a request.\<close>

definition serve_api ::
  "http_config \<Rightarrow> http_extract \<Rightarrow> string \<Rightarrow> string \<Rightarrow> http_request \<Rightarrow> http_state \<Rightarrow> served \<times> http_state" where
  "serve_api cfg ex rid now req st =
     (let path = rq_path req; post = is_post req; no = (Answer method_not_allowed, st);
          wait = (\<lambda>w (r, st'). (case r of Inl a \<Rightarrow> Answer a | Inr n \<Rightarrow> w rid n, st'))
      in if path = ''/v1/chat'' then
           (if post then extracted (ex_chat ex req) (\<lambda>b. wait WaitChat (chat_open cfg rid b st)) st else no)
         else if path = ''/v1/chat/stream'' then
           (if post then extracted (ex_chat ex req) (\<lambda>b. wait WaitStream (chat_open cfg rid b st)) st else no)
         else if path = ''/v1/chat/respond'' then
           (if post then extracted (ex_respond ex req) (\<lambda>b. answered (handle_chat_respond (fst b) (snd b) st)) st else no)
         else if path = ''/v1/inbound'' then
           (if post then extracted (ex_inbound ex req) (\<lambda>b. answered (handle_inbound cfg b st)) st else no)
         else if path = ''/v1/notify'' then
           (if post then extracted (ex_notify ex req) (\<lambda>b. answered (handle_notify cfg b st)) st else no)
         else if path = ''/v1/task_update'' then
           (if post then extracted (ex_query ex req) (\<lambda>q.
              extracted (ex_update ex req) (\<lambda>b. answered (handle_task_update cfg now q b st)) st) st else no)
         else if path = ''/v1/scratchpad'' then
           (if is_get req then extracted (ex_query ex req) (\<lambda>q. answered (handle_scratchpad_read cfg q st)) st
            else if post then extracted (ex_query ex req) (\<lambda>q.
              extracted (ex_note ex req) (\<lambda>b. answered (handle_scratchpad_write cfg now q b st)) st) st
            else no)
         else (if is_get req then (Answer handle_schema, st) else no))"

text \<open>The application of \<open>on_start\<close>: public routes, the routes behind the middleware, and the fallback.\<close>

definition serve ::
  "http_config \<Rightarrow> http_extract \<Rightarrow> string \<Rightarrow> string \<Rightarrow> http_request \<Rightarrow> http_state \<Rightarrow> served \<times> http_state" where
  "serve cfg ex rid now req st =
     (if rq_path req = ''/health''
      then (Answer (if is_get req then handle_health else method_not_allowed), st)
      else if hc_pairing cfg \<and> rq_path req = ''/pair''
      then (if is_post req then extracted (ex_pair ex req) (\<lambda>code. answered (handle_pair cfg code st)) st
            else (Answer method_not_allowed, st))
      else if rq_path req \<in> set api_paths
      then (case auth_check cfg st (rq_authorization req) of
              Inl r \<Rightarrow> (Answer r, st)
            | Inr _ \<Rightarrow> serve_api cfg ex rid now req st)
      else answered (handle_dynamic cfg req st))"

end
