(* ===== verification/Http_Props.thy ===== *)
theory Http_Props
  imports Http_Gateway
begin

text \<open>
  What the HTTP gateway promises: no API request without the token has an effect, a chat request is
  answered by the first final event addressed to it and by nothing else, a pairing code gives its
  token once.  The closed theorems show what the token does not protect and which addresses,
  routes and questions slip through.
\<close>

section \<open>The token\<close>

definition authorized :: "http_state \<Rightarrow> http_request \<Rightarrow> bool" where
  "authorized st req \<longleftrightarrow>
     (case hs_auth_token st of None \<Rightarrow> False | Some tok \<Rightarrow> rq_authorization req = Some (''Bearer '' @ tok))"

lemma strip_prefix_Some: "strip_prefix p s = Some t \<longleftrightarrow> s = p @ t"
  by (auto simp: strip_prefix_def prefix_def)

lemma auth_check_refuses:
  assumes "hs_auth_token st \<noteq> None \<or> hc_pairing cfg" and "\<not> authorized st req"
  shows "\<exists>b. auth_check cfg st (rq_authorization req) = Inl (401, b)"
  using assms by (auto simp: auth_check_def authorized_def strip_prefix_Some split: option.splits)

text \<open>With a token configured, or with pairing, a request to the API that does not carry the token is
  answered with 401 and leaves the state of the gateway as it was.\<close>

theorem api_requires_token:
  assumes "hs_auth_token st \<noteq> None \<or> hc_pairing cfg" and "\<not> authorized st req" and "rq_path req \<in> set api_paths"
  shows "\<exists>b. serve cfg ex rid now req st = (Answer (401, b), st)"
proof -
  have "rq_path req \<noteq> ''/health''" "rq_path req \<noteq> ''/pair''" using assms(3) by (auto simp: api_paths_def)
  then show ?thesis using auth_check_refuses [OF assms(1,2)] assms(3) by (auto simp: serve_def)
qed

text \<open>The fallback is not behind the middleware: a shell route that an agent registered runs its command
  for everybody, whatever token is configured.\<close>

theorem dynamic_routes_need_no_token:
  assumes "hc_routes cfg = Some (e, f)" and "lookup_route e f (map upper_char (rq_method req)) (rq_path req) = Inr (Some r)"
    and "dr_handler r = ShellRoute command secs"
    and "rq_path req \<notin> set (''/health'' # ''/pair'' # api_paths)"
  shows "\<exists>arg. hs_commands (snd (serve cfg ex rid now req st)) = hs_commands st @ [(command, arg)]"
  using assms by (auto simp: serve_def answered_def handle_dynamic_def Let_def split: prod.split)

text \<open>The callback channel posts only to web addresses, and not to the loopback names it knows.\<close>

theorem callback_posts_guarded:
  assumes "snd (gateway_send_event u url ev posts) \<noteq> posts"
  shows "\<exists>scheme host. ue_parse u url = Inr (scheme, host) \<and> scheme \<in> {''http'', ''https''}
    \<and> (ue_allow_internal u \<or> host \<notin> {Some ''localhost'', Some ''127.0.0.1'', Some ''::1''})"
  using assms by (auto simp: gateway_send_event_def validate_callback_url_def split: sum.splits prod.splits option.splits if_splits)

section \<open>Pairing\<close>

text \<open>Of any sequence of pairing attempts at most one is given the token, and it presented the code.\<close>

fun pair_attempts :: "http_config \<Rightarrow> string list \<Rightarrow> http_state \<Rightarrow> (string \<times> http_response) list \<times> http_state" where
  "pair_attempts cfg [] st = ([], st)"
| "pair_attempts cfg (code # codes) st =
     (let (r, st1) = handle_pair cfg code st; (rs, st2) = pair_attempts cfg codes st1 in ((code, r) # rs, st2))"

definition granted :: "(string \<times> http_response) list \<Rightarrow> string list" where
  "granted rs = map fst (filter (\<lambda>(c, r). fst r = 200) rs)"

lemma pair_used:
  "hs_pairing st = None \<or> (\<exists>ps. hs_pairing st = Some ps \<and> ps_used ps) \<Longrightarrow>
   granted (fst (pair_attempts cfg codes st)) = [] \<and> hs_auth_token (snd (pair_attempts cfg codes st)) = hs_auth_token st"
proof (induction codes arbitrary: st)
  case (Cons code codes)
  then have "handle_pair cfg code st = ((403, error_body ''already paired''), st)" by (auto simp: handle_pair_def)
  then show ?case using Cons by (simp add: granted_def case_prod_beta Let_def)
qed (simp add: granted_def)

theorem pairing_grants_once:
  assumes "hs_pairing st = Some ps" and "\<not> ps_used ps"
  shows "granted (fst (pair_attempts cfg codes st)) = (if ps_code ps \<in> set codes then [ps_code ps] else [])
    \<and> hs_auth_token (snd (pair_attempts cfg codes st))
        = (if ps_code ps \<in> set codes then Some (ps_token ps) else hs_auth_token st)"
  using assms
proof (induction codes arbitrary: st)
  case (Cons code codes)
  show ?case
  proof (cases "code = ps_code ps")
    case True
    define st1 where "st1 = snd (handle_pair cfg code st)"
    have step: "handle_pair cfg code st = ((200, JsonBody (JObj [(''token'', JStr (ps_token ps))])), st1)"
      "hs_auth_token st1 = Some (ps_token ps)" "hs_pairing st1 = Some (ps\<lparr>ps_used := True\<rparr>)"
      using Cons.prems True by (simp_all add: handle_pair_def st1_def)
    have "hs_pairing st1 = None \<or> (\<exists>ps. hs_pairing st1 = Some ps \<and> ps_used ps)" using step(3) by auto
    from pair_used [OF this] show ?thesis
      using True step by (auto simp: granted_def case_prod_beta Let_def)
  next
    case False
    then have "handle_pair cfg code st = ((401, error_body ''invalid code''), st)"
      using Cons.prems by (simp add: handle_pair_def)
    then show ?thesis using False Cons.IH [OF Cons.prems] by (auto simp: granted_def case_prod_beta Let_def)
  qed
qed (simp add: granted_def)

text \<open>After a restart the gateway knows the token it gave out.\<close>

theorem paired_token_survives_restart:
  assumes "hs_pairing st = Some ps" and "\<not> ps_used ps" and "hc_token_path cfg"
    and "utf8_ok (ps_token ps)" and "trim (ps_token ps) = ps_token ps" and "ps_token ps \<noteq> []"
  shows "hs_auth_token (http_new True None (hs_token_file (snd (handle_pair cfg (ps_code ps) st))) code token files)
    = Some (ps_token ps)"
  using assms by (simp add: handle_pair_def http_new_def initial_auth_def load_persisted_token_def)

section \<open>Chat requests do not mix\<close>

text \<open>What happens between the start of a chat request and its answer: events of the agent, other
  requests at their various points, questions and replies.\<close>

datatype gateway_op =
    SendOp channel_event "outbound_target option"
  | OpenOp string chat_request
  | ResumeOp string nat
  | StreamOp string nat
  | TimeoutOp string
  | AskOp nat string "outbound_target option"
  | RespondOp string string

fun run_op :: "http_config \<Rightarrow> http_state \<Rightarrow> gateway_op \<Rightarrow> http_state" where
  "run_op cfg st (SendOp ev t) = http_send_event ev t st"
| "run_op cfg st (OpenOp r req) = snd (chat_open cfg r req st)"
| "run_op cfg st (ResumeOp r m) = snd (chat_resume r m st)"
| "run_op cfg st (StreamOp r m) = snd (stream_resume cfg r m st)"
| "run_op cfg st (TimeoutOp r) = snd (chat_timed_out r st)"
| "run_op cfg st (AskOp a msg t) = snd (ask_open cfg a msg t st)"
| "run_op cfg st (RespondOp r x) = snd (handle_chat_respond r x st)"

definition target_request :: "outbound_target option \<Rightarrow> string" where
  "target_request t = (case t of None \<Rightarrow> [] | Some x \<Rightarrow> (case ot_request_id x of None \<Rightarrow> [] | Some r \<Rightarrow> r))"

text \<open>The final events sent to a request, and the operations of the other requests.\<close>

fun final_for :: "string \<Rightarrow> gateway_op \<Rightarrow> channel_event list" where
  "final_for rid (SendOp ev t) = (if target_request t = rid \<and> is_terminal_event ev then [ev] else [])"
| "final_for rid _ = []"

fun foreign :: "string \<Rightarrow> nat \<Rightarrow> gateway_op \<Rightarrow> bool" where
  "foreign rid n (OpenOp r req) = (r \<noteq> rid)"
| "foreign rid n (ResumeOp r m) = (r \<noteq> rid \<and> m \<noteq> n)"
| "foreign rid n (StreamOp r m) = (r \<noteq> rid \<and> m \<noteq> n)"
| "foreign rid n (TimeoutOp r) = (r \<noteq> rid)"
| "foreign rid n _ = True"

definition waits_for :: "string \<Rightarrow> nat \<Rightarrow> channel_event list \<Rightarrow> http_state \<Rightarrow> bool" where
  "waits_for rid n finals st \<longleftrightarrow>
     n < hs_next st \<and> (\<forall>r. hs_active st r = Some n \<longrightarrow> r = rid) \<and>
     (case finals of
        [] \<Rightarrow> hs_active st rid = Some n \<and> filter is_terminal_event (hs_queue st n) = []
      | e # _ \<Rightarrow> hs_active st rid = None \<and> filter is_terminal_event (hs_queue st n) = [e])"

lemma sync_answer_final:
  "sync_answer rid op q = (case filter is_terminal_event q of
      [] \<Rightarrow> if op then None else Some (500, error_body ''Event channel closed without terminal event'')
    | e # _ \<Rightarrow> sync_answer rid True [e])"
proof (induction q)
  case (Cons ev q)
  then show ?case by (cases ev) (simp_all add: is_terminal_event_def)
qed simp

lemma waits_push:
  assumes "waits_for rid n finals st" and "\<not> is_terminal_event ev \<or> r \<noteq> rid"
  shows "waits_for rid n finals (push_event r ev st)"
  using assms by (auto simp: waits_for_def push_event_def split: option.splits list.splits)

lemma waits_deactivate:
  "waits_for rid n finals st \<Longrightarrow> r \<noteq> rid \<Longrightarrow> waits_for rid n finals (deactivate r st)"
  by (auto simp: waits_for_def deactivate_def split: list.splits)

lemma waits_send:
  assumes "waits_for rid n finals st" and "rid \<noteq> []"
  shows "waits_for rid n (finals @ final_for rid (SendOp ev t)) (http_send_event ev t st)"
proof (cases "target_request t = rid \<and> is_terminal_event ev")
  case True
  then show ?thesis
    using assms by (cases finals)
      (auto simp: http_send_event_def target_request_def waits_for_def push_event_def deactivate_def Let_def)
next
  case False
  then show ?thesis
    using assms waits_push [OF assms(1), of ev "target_request t"] waits_deactivate
    by (auto simp: http_send_event_def target_request_def Let_def split: option.splits)
qed

lemma active_changes:
  "hs_active (snd (push_inbound cfg a b c d st)) = hs_active st"
  "hs_queue (snd (push_inbound cfg a b c d st)) = hs_queue st"
  "hs_next (snd (push_inbound cfg a b c d st)) = hs_next st"
  by (auto simp: push_inbound_def send_inbound_def)

lemma waits_same:
  "waits_for rid n finals st \<Longrightarrow> hs_active st' rid = hs_active st rid \<Longrightarrow> hs_queue st' n = hs_queue st n \<Longrightarrow>
   n < hs_next st' \<Longrightarrow> (\<And>r. hs_active st' r = Some n \<Longrightarrow> hs_active st r = Some n) \<Longrightarrow> waits_for rid n finals st'"
  by (auto simp: waits_for_def split: list.splits)

lemma waits_other [simp]:
  "waits_for rid n finals (st\<lparr>hs_pending := p\<rparr>) = waits_for rid n finals st"
  "waits_for rid n finals (st\<lparr>hs_asking := q\<rparr>) = waits_for rid n finals st"
  "waits_for rid n finals (st\<lparr>hs_replies := r\<rparr>) = waits_for rid n finals st"
  by (cases finals; simp add: waits_for_def)+

lemma waits_push_inbound:
  "waits_for rid n finals st \<Longrightarrow> waits_for rid n finals (snd (push_inbound cfg a b c d st))"
  by (rule waits_same) (auto simp: active_changes waits_for_def)

lemma waits_run_op:
  assumes "waits_for rid n finals st" and "rid \<noteq> []" and "foreign rid n op"
  shows "waits_for rid n (finals @ final_for rid op) (run_op cfg st op)"
proof (cases op)
  case (SendOp ev t)
  then show ?thesis using waits_send [OF assms(1,2)] by simp
next
  case (OpenOp r req)
  let ?st1 = "st\<lparr>hs_active := (hs_active st)(r \<mapsto> hs_next st), hs_queue := (hs_queue st)(hs_next st := []), hs_next := hs_next st + 1\<rparr>"
  have "waits_for rid n finals ?st1"
    by (rule waits_same [OF assms(1)]) (use assms OpenOp in \<open>auto simp: waits_for_def split: if_splits\<close>)
  then have "waits_for rid n finals (snd (push_inbound cfg a b c d ?st1))" for a b c d
    by (rule waits_push_inbound)
  then show ?thesis
    using OpenOp assms(3) waits_deactivate
    by (auto simp: chat_open_def Let_def case_prod_beta split: sum.splits)
next
  case (ResumeOp r m)
  have "waits_for rid n finals (st\<lparr>hs_queue := (hs_queue st)(m := [])\<rparr>)"
    by (rule waits_same [OF assms(1)]) (use assms ResumeOp in \<open>auto simp: waits_for_def\<close>)
  then show ?thesis using ResumeOp assms(3) waits_deactivate by (auto simp: chat_resume_def split: option.splits)
next
  case (StreamOp r m)
  have "waits_for rid n finals (st\<lparr>hs_queue := (hs_queue st)(m := [])\<rparr>)"
    by (rule waits_same [OF assms(1)]) (use assms StreamOp in \<open>auto simp: waits_for_def\<close>)
  then show ?thesis using StreamOp assms(3) waits_deactivate by (auto simp: stream_resume_def Let_def)
next
  case (TimeoutOp r)
  then show ?thesis using assms waits_deactivate by (simp add: chat_timed_out_def)
next
  case (AskOp a msg t)
  then show ?thesis
    using AskOp assms(1) by (auto simp: ask_open_def is_terminal_event_def Let_def intro!: waits_push split: option.splits)
next
  case (RespondOp r x)
  then show ?thesis using RespondOp assms(1) by (auto simp: handle_chat_respond_def Let_def split: option.splits)
qed

lemma waits_run_ops:
  assumes "waits_for rid n finals st" and "rid \<noteq> []" and "list_all (foreign rid n) ops"
  shows "waits_for rid n (finals @ concat (map (final_for rid) ops)) (foldl (run_op cfg) st ops)"
  using assms(1,3)
proof (induction ops arbitrary: st finals)
  case (Cons op ops)
  then have "waits_for rid n (finals @ final_for rid op) (run_op cfg st op)"
    using waits_run_op [OF _ assms(2)] by simp
  then show ?case using Cons.IH [of "finals @ final_for rid op"] Cons.prems(2) by simp
qed simp

definition numbers_fresh :: "http_state \<Rightarrow> bool" where
  "numbers_fresh st \<longleftrightarrow> (\<forall>r m. hs_active st r = Some m \<longrightarrow> m < hs_next st)"

text \<open>Whatever else goes through the gateway, a chat request is answered by the first final event that is
  sent to its own identifier, and it waits as long as there is none: other requests' events never
  reach it, and its channel is never closed early.\<close>

theorem chat_answered_by_own_final_event:
  assumes "numbers_fresh st" and "chat_open cfg rid req st = (Inr n, st1)" and "rid \<noteq> []"
    and "list_all (foreign rid n) ops"
  shows "fst (chat_resume rid n (foldl (run_op cfg) st1 ops))
    = (case concat (map (final_for rid) ops) of [] \<Rightarrow> None | e # _ \<Rightarrow> sync_answer rid True [e])"
proof -
  let ?st = "st\<lparr>hs_active := (hs_active st)(rid \<mapsto> hs_next st), hs_queue := (hs_queue st)(hs_next st := []), hs_next := hs_next st + 1\<rparr>"
  have n: "n = hs_next st" and st1: "\<exists>a b c d. st1 = snd (push_inbound cfg a b c d ?st)"
    using assms(2) by (auto simp: chat_open_def Let_def case_prod_beta split: sum.splits)
  have "waits_for rid n [] ?st"
    using assms(1) by (auto simp: waits_for_def n numbers_fresh_def split: if_splits)
  then have start: "waits_for rid n [] st1"
    using st1 waits_push_inbound [of rid n "[]" ?st] by auto
  from waits_run_ops [OF this assms(3,4), of cfg]
  obtain fin where fin: "fin = concat (map (final_for rid) ops)" "waits_for rid n fin (foldl (run_op cfg) st1 ops)"
    using waits_run_ops [OF start assms(3,4), of cfg] by simp
  show ?thesis
    using sync_answer_final [of rid _ "hs_queue (foldl (run_op cfg) st1 ops) n"] fin(2)
    unfolding fin(1) [symmetric]
    by (cases fin) (simp_all add: chat_resume_def waits_for_def split: option.split)
qed

section \<open>Where the promises end\<close>

definition demo_cfg :: http_config where
  "demo_cfg = \<lparr>hc_adapter_id = ''http'', hc_timeout_secs = 300, hc_pairing = False, hc_cluster_dir = False, hc_token_path = True,
     hc_urls = \<lparr>ue_parse = (\<lambda>u. if u = ''http://[::1]:8080/cb'' then Inr (''http'', Some ''[::1]'') else Inl ''relative URL without a base''),
       ue_allow_internal = False\<rparr>,
     hc_routes = Some (\<lparr>re_print = (\<lambda>_. ''[]''), re_parse = (\<lambda>_. Some
       [\<lparr>dr_method = ''POST'', dr_path = ''/hook'', dr_handler = ShellRoute ''./deploy.sh'' 30, dr_registered_at = ''0''\<rparr>]),
       re_write_error = None\<rparr>, Some ''[]''),
     hc_b64_decode = Inr, hc_b64_encode = id, hc_print = (\<lambda>_. []),
     hc_gateway_files = demo_gateway JNull, hc_failure_text = (\<lambda>_. []), hc_shell = (\<lambda>_ _ _. ShellExit True [] [])\<rparr>"

abbreviation demo_extract :: http_extract where
  "demo_extract \<equiv> \<lparr>ex_query = (\<lambda>_. Inr []), ex_pair = (\<lambda>_. Inl (400, TextBody [])), ex_chat = (\<lambda>_. Inl (400, TextBody [])),
     ex_respond = (\<lambda>_. Inl (400, TextBody [])), ex_inbound = (\<lambda>_. Inl (400, TextBody [])),
     ex_notify = (\<lambda>_. Inl (400, TextBody [])), ex_update = (\<lambda>_. Inl (400, TextBody [])), ex_note = (\<lambda>_. Inl (400, TextBody []))\<rparr>"

definition demo_http :: http_state where
  "demo_http = http_new False (Some ''secret'') None [] [] no_files"

definition demo_request :: "string \<Rightarrow> http_request" where
  "demo_request path = \<lparr>rq_method = ''POST'', rq_path = path, rq_authorization = None, rq_query = [], rq_body = []\<rparr>"

theorem api_requires_token_witness:
  "\<exists>b. serve demo_cfg demo_extract ''r1'' ''now'' (demo_request ''/v1/chat'') demo_http = (Answer (401, b), demo_http)"
  by (rule api_requires_token) (simp_all add: demo_http_def http_new_def initial_auth_def authorized_def demo_request_def api_paths_def)

theorem callback_posts_guarded_witness:
  "\<exists>scheme host. ue_parse (hc_urls demo_cfg) ''http://[::1]:8080/cb'' = Inr (scheme, host) \<and> scheme \<in> {''http'', ''https''}
    \<and> (ue_allow_internal (hc_urls demo_cfg) \<or> host \<notin> {Some ''localhost'', Some ''127.0.0.1'', Some ''::1''})"
  by (rule callback_posts_guarded [where ev = "ErrorEvent []" and posts = "[]"])
    (simp add: gateway_send_event_def validate_callback_url_def demo_cfg_def)

theorem dynamic_routes_need_no_token_witness:
  "hs_auth_token demo_http = Some ''secret'' \<and>
   (\<exists>arg. hs_commands (snd (serve demo_cfg demo_extract ''r1'' ''now'' (demo_request ''/hook'') demo_http))
     = hs_commands demo_http @ [(''./deploy.sh'', arg)])"
proof
  show "hs_auth_token demo_http = Some ''secret''" by (simp add: demo_http_def http_new_def initial_auth_def)
  let ?env = "fst (the (hc_routes demo_cfg))"
  let ?route = "\<lparr>dr_method = ''POST'', dr_path = ''/hook'', dr_handler = ShellRoute ''./deploy.sh'' 30, dr_registered_at = ''0''\<rparr>"
  show "\<exists>arg. hs_commands (snd (serve demo_cfg demo_extract ''r1'' ''now'' (demo_request ''/hook'') demo_http))
     = hs_commands demo_http @ [(''./deploy.sh'', arg)]"
  proof (rule dynamic_routes_need_no_token)
    show "hc_routes demo_cfg = Some (?env, Some ''[]'')" by (simp add: demo_cfg_def)
    show "lookup_route ?env (Some ''[]'') (map upper_char (rq_method (demo_request ''/hook''))) (rq_path (demo_request ''/hook'')) = Inr (Some ?route)"
      by code_simp
    show "dr_handler ?route = ShellRoute ''./deploy.sh'' 30" by simp
    show "rq_path (demo_request ''/hook'') \<notin> set (''/health'' # ''/pair'' # api_paths)" by (simp add: demo_request_def api_paths_def)
  qed
qed

definition demo_pairing :: http_state where
  "demo_pairing = http_new True None None ''123456'' ''tok'' no_files"

theorem pairing_grants_once_witness:
  "granted (fst (pair_attempts demo_cfg [''000000'', ''123456'', ''123456''] demo_pairing)) = [''123456'']"
  using pairing_grants_once [of demo_pairing "\<lparr>ps_code = ''123456'', ps_token = ''tok'', ps_used = False\<rparr>" demo_cfg
      "[''000000'', ''123456'', ''123456'']"]
  by (simp add: demo_pairing_def http_new_def initial_auth_def load_persisted_token_def)

theorem paired_token_survives_restart_witness:
  "hs_auth_token (http_new True None (hs_token_file (snd (handle_pair demo_cfg ''123456'' demo_pairing))) [] [] no_files) = Some ''tok''"
proof -
  have "hs_auth_token (http_new True None (hs_token_file (snd (handle_pair demo_cfg
      (ps_code \<lparr>ps_code = ''123456'', ps_token = ''tok'', ps_used = False\<rparr>) demo_pairing))) [] [] no_files)
      = Some (ps_token \<lparr>ps_code = ''123456'', ps_token = ''tok'', ps_used = False\<rparr>)"
  proof (rule paired_token_survives_restart)
    show "utf8_ok (ps_token \<lparr>ps_code = ''123456'', ps_token = ''tok'', ps_used = False\<rparr>)" by code_simp
    show "trim (ps_token \<lparr>ps_code = ''123456'', ps_token = ''tok'', ps_used = False\<rparr>)
        = ps_token \<lparr>ps_code = ''123456'', ps_token = ''tok'', ps_used = False\<rparr>" by code_simp
  qed (simp_all add: demo_pairing_def http_new_def initial_auth_def load_persisted_token_def demo_cfg_def)
  then show ?thesis by simp
qed

definition demo_target :: "string \<Rightarrow> outbound_target option" where
  "demo_target rid = Some \<lparr>ot_recipient_id = None, ot_sender_id = None, ot_thread_id = None, ot_session_id = None,
     ot_reply_to_message_id = None, ot_request_id = Some rid, ot_status_update = False\<rparr>"

definition listening :: http_state where
  "listening = http_start_listener demo_http"

definition demo_chat :: chat_request where
  "demo_chat = \<lparr>cr_message = ''hi'', cr_conversation_id = None, cr_sender_id = None\<rparr>"

theorem chat_answered_by_own_final_event_witness:
  "fst (chat_resume ''r1'' 0 (foldl (run_op demo_cfg) (snd (chat_open demo_cfg ''r1'' demo_chat listening))
      [OpenOp ''r2'' demo_chat, SendOp (ErrorEvent ''other'') (demo_target ''r2''), SendOp (StreamToken ''a'') (demo_target ''r1''),
       TimeoutOp ''r2'', SendOp (ErrorEvent ''own'') (demo_target ''r1'')]))
   = Some (500, error_body ''own'')"
proof -
  let ?ops = "[OpenOp ''r2'' demo_chat, SendOp (ErrorEvent ''other'') (demo_target ''r2''), SendOp (StreamToken ''a'') (demo_target ''r1''),
       TimeoutOp ''r2'', SendOp (ErrorEvent ''own'') (demo_target ''r1'')]"
  have "fst (chat_resume ''r1'' 0 (foldl (run_op demo_cfg) (snd (chat_open demo_cfg ''r1'' demo_chat listening)) ?ops))
    = (case concat (map (final_for ''r1'') ?ops) of [] \<Rightarrow> None | e # _ \<Rightarrow> sync_answer ''r1'' True [e])"
  proof (rule chat_answered_by_own_final_event)
    show "numbers_fresh listening" by (simp add: numbers_fresh_def listening_def http_start_listener_def demo_http_def http_new_def)
    show "chat_open demo_cfg ''r1'' demo_chat listening = (Inr 0, snd (chat_open demo_cfg ''r1'' demo_chat listening))"
      by (simp add: chat_open_def push_inbound_def send_inbound_def listening_def http_start_listener_def demo_http_def http_new_def)
  qed simp_all
  then show ?thesis by (simp add: target_request_def demo_target_def is_terminal_event_def)
qed

text \<open>\<open>host_str\<close> gives an IPv6 address in brackets, so the loopback address \<open>::1\<close> is never recognised.\<close>

theorem ipv6_loopback_accepted:
  "ue_parse (hc_urls demo_cfg) ''http://[::1]:8080/cb'' = Inr (''http'', Some ''[::1]'')
   \<and> validate_callback_url (hc_urls demo_cfg) ''http://[::1]:8080/cb'' = Inr ()"
  by (simp add: demo_cfg_def validate_callback_url_def)

text \<open>A second question for the same request closes the channel of the first, whose clean-up then removes
  the second: the human's reply finds no question.\<close>

theorem second_question_is_lost:
  "let st1 = snd (ask_open demo_cfg 1 ''first?'' (demo_target ''r1'') listening);
       st2 = snd (ask_open demo_cfg 2 ''second?'' (demo_target ''r1'') st1);
       (first, st3) = ask_resume ''r1'' 1 st2
   in first = Some (Inl ''HTTP ask_human: response channel closed for request r1'')
      \<and> fst (fst (handle_chat_respond ''r1'' ''yes'' st3)) = 404"
  by (simp add: ask_open_def ask_resume_def handle_chat_respond_def push_event_def demo_target_def listening_def
      http_start_listener_def demo_http_def http_new_def Let_def)

text \<open>Registration compares methods exactly, the lookup ignores case: a route registered again with another
  spelling is stored behind the old one, which keeps answering.\<close>

definition demo_route :: "string \<Rightarrow> string \<Rightarrow> dynamic_route" where
  "demo_route meth body = \<lparr>dr_method = meth, dr_path = ''/x'', dr_handler = StaticRoute (JStr body), dr_registered_at = ''0''\<rparr>"

theorem respelled_route_is_shadowed:
  "let rs = put_route [demo_route ''GET'' ''old''] (demo_route ''get'' ''new'');
       e = \<lparr>re_print = (\<lambda>_. []), re_parse = (\<lambda>_. Some rs), re_write_error = None\<rparr>
   in lookup_route e (Some []) ''GET'' ''/x'' = Inr (Some (demo_route ''GET'' ''old''))"
  by code_simp

end
