(* ===== verification/Telegram.thy ===== *)
theory Telegram
  imports Channel_Router
begin

text \<open>
  The Telegram adapter (\<open>channels/adapters/telegram.rs\<close>): splitting of long messages, streaming
  buffers, the editable status messages, questions to the human, and the handling of the updates of
  a poll with its lists of allowed chats and senders.

  Every request to the Bot API is appended to a log; what the server answers is a function of the
  log up to that request.  Times are milliseconds, given with the event.
\<close>

section \<open>Splitting and plain text\<close>

definition telegram_max_chars :: nat where "telegram_max_chars = 4096"

text \<open>\<open>rfind\<close> of a nonempty pattern.\<close>

fun rfind_sub :: "string \<Rightarrow> string \<Rightarrow> nat option" where
  "rfind_sub p [] = None"
| "rfind_sub p (c # cs) =
     (case rfind_sub p cs of Some i \<Rightarrow> Some (i + 1) | None \<Rightarrow> if prefix p (c # cs) then Some 0 else None)"

function advance_to_char_boundary :: "string \<Rightarrow> nat \<Rightarrow> nat" where
  "advance_to_char_boundary s pos =
     (if pos < length s \<and> \<not> at_char_boundary s pos then advance_to_char_boundary s (pos + 1) else min pos (length s))"
  by pat_completeness auto
termination by (relation "measure (\<lambda>(s, pos). length s - pos)") auto

declare advance_to_char_boundary.simps [simp del]

definition or_else :: "'a option \<Rightarrow> 'a option \<Rightarrow> 'a option" where
  "or_else x y = (case x of None \<Rightarrow> y | Some a \<Rightarrow> Some a)"

text \<open>Where the next chunk ends: after the last blank line, line or word of the first \<open>n\<close> characters.\<close>

definition chunk_split :: "nat \<Rightarrow> string \<Rightarrow> nat" where
  "chunk_split n s =
     (let byte_limit = (if n < char_count s then length (take_chars n s) else length s);
          candidate = take byte_limit s
      in advance_to_char_boundary s
           (case or_else (map_option (\<lambda>i. i + 2) (rfind_sub [newline, newline] candidate))
                  (or_else (map_option (\<lambda>i. i + 1) (rfind_sub [newline] candidate))
                    (map_option (\<lambda>i. i + 1) (rfind_sub '' '' candidate))) of
              Some i \<Rightarrow> i | None \<Rightarrow> byte_limit))"

text \<open>The loop; it need not end for a limit of 0.\<close>

partial_function (option) chunk_loop :: "nat \<Rightarrow> string \<Rightarrow> string list option" where
  "chunk_loop n s =
     (if s = [] then Some []
      else if char_count s \<le> n then Some [s]
      else Option.bind (chunk_loop n (trim_start (dropWhile (\<lambda>c. c = newline) (drop (chunk_split n s) s))))
        (\<lambda>rest. Some (if trim_end (take (chunk_split n s) s) = [] then rest
                      else trim_end (take (chunk_split n s) s) # rest)))"

definition chunk_message :: "string \<Rightarrow> nat \<Rightarrow> string list option" where
  "chunk_message s n = (if char_count s \<le> n then Some [s] else chunk_loop n s)"

definition ascii_punctuation :: "char \<Rightarrow> bool" where
  "ascii_punctuation c =
     (let n = of_char c :: nat in 33 \<le> n \<and> n \<le> 47 \<or> 58 \<le> n \<and> n \<le> 64 \<or> 91 \<le> n \<and> n \<le> 96 \<or> 123 \<le> n \<and> n \<le> 126)"

fun markdown_v2_to_plain :: "string \<Rightarrow> string" where
  "markdown_v2_to_plain [] = []"
| "markdown_v2_to_plain [c] = [c]"
| "markdown_v2_to_plain (c # d # cs) =
     (if c = CHR 0x5C \<and> ascii_punctuation d then d # markdown_v2_to_plain cs
      else c # markdown_v2_to_plain (d # cs))"

definition is_markdown_parse_error :: "nat \<Rightarrow> string \<Rightarrow> bool" where
  "is_markdown_parse_error status body =
     (if status \<noteq> 400 then False
      else let b = to_ascii_lower body in
        contains_sub ''parse entities'' b \<or> contains_sub (''can'' @ [CHR 0x27] @ ''t parse entities'') b
        \<or> contains_sub (''can'' @ [CHR 0x27] @ ''t find end'') b)"

definition file_mime_types :: "(string \<times> string) list" where
  "file_mime_types =
     [(''pdf'', ''application/pdf''), (''png'', ''image/png''), (''jpg'', ''image/jpeg''), (''jpeg'', ''image/jpeg''),
      (''gif'', ''image/gif''), (''webp'', ''image/webp''), (''mp4'', ''video/mp4''), (''mp3'', ''audio/mpeg''),
      (''ogg'', ''audio/ogg''), (''csv'', ''text/csv''), (''txt'', ''text/plain''), (''md'', ''text/markdown''),
      (''json'', ''application/json''), (''zip'', ''application/zip''), (''tar'', ''application/x-tar''), (''gz'', ''application/gzip'')]"

definition mime_type_from_filename :: "string \<Rightarrow> string option" where
  "mime_type_from_filename name = map_of file_mime_types (to_ascii_lower (last (split_char (CHR ''.'') name)))"

definition ask_key :: "string \<Rightarrow> string option \<Rightarrow> string" where
  "ask_key chat sender =
     (case sender of
        Some s \<Rightarrow> if s \<noteq> [] then ''chat:'' @ chat @ '':sender:'' @ s else ''chat:'' @ chat @ '':sender:*''
      | None \<Rightarrow> ''chat:'' @ chat @ '':sender:*'')"

section \<open>State\<close>

record tool_status =
  tt_message_id :: int
  tt_completed :: "string list"
  tt_current :: "string option"

definition tool_status_max_history :: nat where "tool_status_max_history = 8"

definition render_tools :: "tool_status \<Rightarrow> string" where
  "render_tools t =
     join [newline]
       ((case tt_current t of None \<Rightarrow> [] | Some c \<Rightarrow> [[CHR 0xE2, CHR 0x9A, CHR 0x99, CHR 0xEF, CHR 0xB8, CHR 0x8F] @ '' '' @ c])
        @ map (\<lambda>name. ''  '' @ [CHR 0xC2, CHR 0xB7] @ '' '' @ name) (take tool_status_max_history (List.rev (tt_completed t)))
        @ (let hidden = length (tt_completed t) - tool_status_max_history in
           if hidden > 0 then [''  + '' @ show_nat hidden @ '' more''] else []))"

record notify_status =
  ns_message_id :: int
  ns_agents :: "(string \<times> string) list"
  ns_last_edit :: "nat option"

definition notify_new :: notify_status where
  "notify_new = \<lparr>ns_message_id = 0, ns_agents = [], ns_last_edit = None\<rparr>"

definition notify_upsert :: "string \<Rightarrow> string \<Rightarrow> notify_status \<Rightarrow> notify_status" where
  "notify_upsert k v t =
     t\<lparr>ns_agents := (if list_ex (\<lambda>(a, _). a = k) (ns_agents t)
        then (case update_first (\<lambda>(a, _). a = k) (\<lambda>(a, _). Inr (a, v) :: unit + string \<times> string) (ns_agents t) of
                Inr as \<Rightarrow> as | Inl _ \<Rightarrow> ns_agents t)
        else ns_agents t @ [(k, v)])\<rparr>"

definition notify_edit_throttle_secs :: nat where "notify_edit_throttle_secs = 5"

definition ready_to_edit :: "nat \<Rightarrow> notify_status \<Rightarrow> bool" where
  "ready_to_edit now t = (case ns_last_edit t of None \<Rightarrow> True | Some e \<Rightarrow> (now - e) div 1000 \<ge> notify_edit_throttle_secs)"

definition render_notify :: "notify_status \<Rightarrow> string" where
  "render_notify t =
     foldl (\<lambda>out (name, status). out @ [newline] @ [CHR 0xE2, CHR 0x80, CHR 0xA2] @ '' '' @ name @ '': '' @ status)
       ([CHR 0xF0, CHR 0x9F, CHR 0xA4, CHR 0x96] @ '' Cluster status:'') (ns_agents t)"

definition draft_throttle_ms :: nat where "draft_throttle_ms = 300"

datatype tg_call =
    ApiPost string json
  | ApiGet string "(string \<times> string) list"
  | SendDocument string string string string "string option"
  | FileGet string

text \<open>An answer has its status, its text, and the JSON value the text is read as.\<close>

datatype tg_reply = NoReply | TgReply nat string "json option"

record tg_env =
  te_id :: string
  te_token :: string
  te_default_chat_id :: string
  te_reply :: "tg_call list \<Rightarrow> tg_reply"
  te_status_text :: "nat \<Rightarrow> string"

record tg_state =
  ts_token_buffers :: "string \<Rightarrow> string option"
  ts_draft_last_sent :: "string \<Rightarrow> nat option"
  ts_update_offset :: int
  ts_pending_asks :: "string \<Rightarrow> nat option"
  ts_allowed_chats :: "string list"
  ts_allowed_senders :: "string list"
  ts_tool_status :: "string \<Rightarrow> tool_status option"
  ts_notify_status :: "string \<Rightarrow> notify_status option"
  ts_calls :: "tg_call list"
  ts_replies :: "nat \<Rightarrow> string option"
  ts_inbound :: "inbound_message list"

definition telegram_new :: "string list \<Rightarrow> string list \<Rightarrow> tg_state" where
  "telegram_new chats senders =
     \<lparr>ts_token_buffers = (\<lambda>_. None), ts_draft_last_sent = (\<lambda>_. None), ts_update_offset = 0,
      ts_pending_asks = (\<lambda>_. None), ts_allowed_chats = chats, ts_allowed_senders = senders,
      ts_tool_status = (\<lambda>_. None), ts_notify_status = (\<lambda>_. None), ts_calls = [], ts_replies = (\<lambda>_. None),
      ts_inbound = []\<rparr>"

definition telegram_config_update :: "string list \<Rightarrow> string list \<Rightarrow> tg_state \<Rightarrow> tg_state" where
  "telegram_config_update chats senders st =
     (let st1 = (if ts_allowed_chats st \<noteq> chats then st\<lparr>ts_allowed_chats := chats\<rparr> else st)
      in if ts_allowed_senders st1 \<noteq> senders then st1\<lparr>ts_allowed_senders := senders\<rparr> else st1)"

definition telegram_capabilities :: channel_capabilities where
  "telegram_capabilities =
     \<lparr>cap_inbound = True, cap_ask_human = True, cap_typing_indicator = True, cap_command_menu = True,
      cap_max_message_len = telegram_max_chars, cap_message_edit = True, cap_attachments = True, cap_inbound_images = True,
      cap_inbound_audio = True, cap_rich_messages = True, cap_reactions = True, cap_native_api = True,
      cap_deferred_start = True\<rparr>"

definition nonempty :: "string option \<Rightarrow> string option" where
  "nonempty x = (case x of Some s \<Rightarrow> if s = [] then None else Some s | None \<Rightarrow> None)"

definition target_chat_id :: "tg_env \<Rightarrow> outbound_target option \<Rightarrow> string" where
  "target_chat_id env target =
     (case nonempty (case target of None \<Rightarrow> None | Some t \<Rightarrow> ot_recipient_id t) of Some c \<Rightarrow> c | None \<Rightarrow> te_default_chat_id env)"

definition stream_key :: "tg_env \<Rightarrow> outbound_target option \<Rightarrow> string" where
  "stream_key env target =
     (case nonempty (case target of None \<Rightarrow> None | Some t \<Rightarrow> ot_session_id t) of
        Some s \<Rightarrow> ''session:'' @ s
      | None \<Rightarrow>
          (case nonempty (case target of None \<Rightarrow> None | Some t \<Rightarrow> ot_recipient_id t) of
             Some c \<Rightarrow>
               (case nonempty (case target of None \<Rightarrow> None | Some t \<Rightarrow> ot_sender_id t) of
                  Some s \<Rightarrow> ''chat:'' @ c @ '':sender:'' @ s
                | None \<Rightarrow> ''chat:'' @ c)
           | None \<Rightarrow> ''chat:'' @ te_default_chat_id env))"

section \<open>Requests to the Bot API\<close>

type_synonym 'a tg_result = "(string + 'a) \<times> tg_state"

definition tg_do :: "tg_env \<Rightarrow> tg_call \<Rightarrow> tg_state \<Rightarrow> tg_reply \<times> tg_state" where
  "tg_do env call st =
     (let st1 = st\<lparr>ts_calls := ts_calls st @ [call]\<rparr> in (te_reply env (ts_calls st1), st1))"

definition status_ok :: "nat \<Rightarrow> bool" where
  "status_ok n \<longleftrightarrow> 200 \<le> n \<and> n < 300"

definition chat_text :: "string \<Rightarrow> string \<Rightarrow> (string \<times> json) list" where
  "chat_text chat txt = [(''chat_id'', JStr chat), (''text'', JStr txt)]"

text \<open>A request whose answer must be JSON with \<open>ok\<close>: the errors of sending, of reading, and the described
  one.\<close>

definition api_error :: "string \<Rightarrow> string \<Rightarrow> json \<Rightarrow> string" where
  "api_error d what v = what @ '' failed: '' @ (case json_str (json_get ''description'' v) of Some x \<Rightarrow> x | None \<Rightarrow> d)"

definition api_json :: "tg_env \<Rightarrow> tg_call \<Rightarrow> string \<Rightarrow> tg_state \<Rightarrow> json tg_result" where
  "api_json env call what st =
     (case tg_do env call st of (r, st1) \<Rightarrow>
        (case r of
           NoReply \<Rightarrow> Inl (what @ '' request failed'')
         | TgReply _ _ None \<Rightarrow> Inl (what @ '' JSON parse failed'')
         | TgReply _ _ (Some v) \<Rightarrow>
             if json_bool (json_member ''ok'' v) \<noteq> Some True then Inl (api_error ''unknown error'' what v) else Inr v, st1))"

text \<open>A request of which only the status is read.\<close>

definition api_status :: "tg_env \<Rightarrow> tg_call \<Rightarrow> string \<Rightarrow> string \<Rightarrow> tg_state \<Rightarrow> unit tg_result" where
  "api_status env call request_error what st =
     (case tg_do env call st of (r, st1) \<Rightarrow>
        (case r of
           NoReply \<Rightarrow> Inl request_error
         | TgReply code body _ \<Rightarrow>
             if status_ok code then Inr () else Inl (what @ '' failed ('' @ te_status_text env code @ ''): '' @ body), st1))"

fun send_plain_chunks :: "tg_env \<Rightarrow> string \<Rightarrow> string list \<Rightarrow> tg_state \<Rightarrow> unit tg_result" where
  "send_plain_chunks env chat [] st = (Inr (), st)"
| "send_plain_chunks env chat (c # cs) st =
     (case api_status env (ApiPost ''sendMessage'' (JObj (chat_text chat c)))
        ''Telegram sendMessage (plain) request failed'' ''Telegram sendMessage plain'' st of
        (Inl e, st1) \<Rightarrow> (Inl e, st1)
      | (Inr _, st1) \<Rightarrow> send_plain_chunks env chat cs st1)"

definition chunks_of :: "string \<Rightarrow> string list" where
  "chunks_of txt = (case chunk_message txt telegram_max_chars of Some cs \<Rightarrow> cs | None \<Rightarrow> [])"

definition send_plain :: "tg_env \<Rightarrow> string \<Rightarrow> string \<Rightarrow> tg_state \<Rightarrow> unit tg_result" where
  "send_plain env chat txt st = send_plain_chunks env chat (chunks_of txt) st"

fun send_text_chunks :: "tg_env \<Rightarrow> string \<Rightarrow> string list \<Rightarrow> tg_state \<Rightarrow> unit tg_result" where
  "send_text_chunks env chat [] st = (Inr (), st)"
| "send_text_chunks env chat (c # cs) st =
     (case tg_do env (ApiPost ''sendMessage'' (JObj (chat_text chat c @ [(''parse_mode'', JStr ''MarkdownV2'')]))) st of
        (NoReply, st1) \<Rightarrow> (Inl ''Telegram sendMessage request failed'', st1)
      | (TgReply code body _, st1) \<Rightarrow>
          if status_ok code then send_text_chunks env chat cs st1
          else if is_markdown_parse_error code body
          then (case send_plain env chat (markdown_v2_to_plain c) st1 of
                  (Inl e, st2) \<Rightarrow> (Inl e, st2)
                | (Inr _, st2) \<Rightarrow> send_text_chunks env chat cs st2)
          else (Inl (''Telegram sendMessage failed ('' @ te_status_text env code @ ''): '' @ body), st1))"

definition send_text :: "tg_env \<Rightarrow> string \<Rightarrow> string \<Rightarrow> tg_state \<Rightarrow> unit tg_result" where
  "send_text env chat txt st = send_text_chunks env chat (chunks_of txt) st"

text \<open>Two requests whose answer is only logged when it is not a success.\<close>

definition api_ignored :: "tg_env \<Rightarrow> tg_call \<Rightarrow> string \<Rightarrow> tg_state \<Rightarrow> unit tg_result" where
  "api_ignored env call request_error st =
     (case tg_do env call st of (r, st1) \<Rightarrow> (case r of NoReply \<Rightarrow> Inl request_error | _ \<Rightarrow> Inr (), st1))"

definition send_typing :: "tg_env \<Rightarrow> string \<Rightarrow> tg_state \<Rightarrow> unit tg_result" where
  "send_typing env chat st =
     api_ignored env (ApiPost ''sendChatAction'' (JObj [(''chat_id'', JStr chat), (''action'', JStr ''typing'')]))
       ''Telegram sendChatAction request failed'' st"

definition set_reaction :: "tg_env \<Rightarrow> string \<Rightarrow> int \<Rightarrow> string \<Rightarrow> tg_state \<Rightarrow> unit tg_result" where
  "set_reaction env chat mid emoji st =
     api_ignored env (ApiPost ''setMessageReaction'' (JObj [(''chat_id'', JStr chat), (''message_id'', JNum (show_int mid)),
         (''reaction'', JArr [JObj [(''type'', JStr ''emoji''), (''emoji'', JStr emoji)]])]))
       ''Telegram setMessageReaction request failed'' st"

definition send_plain_get_id :: "tg_env \<Rightarrow> string \<Rightarrow> string \<Rightarrow> tg_state \<Rightarrow> int option tg_result" where
  "send_plain_get_id env chat txt st =
     (case api_json env (ApiPost ''sendMessage'' (JObj (chat_text chat txt))) ''Telegram sendMessage'' st of
        (Inl e, st1) \<Rightarrow> (Inl e, st1)
      | (Inr v, st1) \<Rightarrow> (Inr (json_i64 (json_member ''message_id'' (json_get ''result'' v))), st1))"

definition send_message_draft :: "tg_env \<Rightarrow> string \<Rightarrow> string \<Rightarrow> tg_state \<Rightarrow> unit tg_result" where
  "send_message_draft env chat txt st =
     api_status env (ApiPost ''sendMessageDraft'' (JObj (chat_text chat txt)))
       ''sendMessageDraft request failed'' ''sendMessageDraft'' st"

definition discard :: "'a tg_result \<Rightarrow> unit tg_result" where
  "discard r = (case fst r of Inl e \<Rightarrow> Inl e | Inr _ \<Rightarrow> Inr (), snd r)"

definition edit_message_text :: "tg_env \<Rightarrow> string \<Rightarrow> int \<Rightarrow> string \<Rightarrow> tg_state \<Rightarrow> unit tg_result" where
  "edit_message_text env chat mid txt st =
     discard (api_json env (ApiPost ''editMessageText''
       (JObj [(''chat_id'', JStr chat), (''message_id'', JNum (show_int mid)), (''text'', JStr txt)]))
       ''Telegram editMessageText'' st)"

definition send_document :: "tg_env \<Rightarrow> string \<Rightarrow> string \<Rightarrow> string \<Rightarrow> string option \<Rightarrow> tg_state \<Rightarrow> unit tg_result" where
  "send_document env chat filename bytes caption st =
     discard (api_json env (SendDocument chat filename
       (case mime_type_from_filename filename of Some m \<Rightarrow> m | None \<Rightarrow> ''application/octet-stream'') bytes (nonempty caption))
       ''Telegram sendDocument'' st)"

definition delete_message :: "tg_env \<Rightarrow> string \<Rightarrow> int \<Rightarrow> tg_state \<Rightarrow> unit tg_result" where
  "delete_message env chat mid st =
     discard (api_json env (ApiPost ''deleteMessage''
       (JObj [(''chat_id'', JStr chat), (''message_id'', JNum (show_int mid))])) ''Telegram deleteMessage'' st)"

definition poll_updates :: "tg_env \<Rightarrow> int \<Rightarrow> nat \<Rightarrow> tg_state \<Rightarrow> json list tg_result" where
  "poll_updates env offset secs st =
     (case api_json env (ApiGet ''getUpdates'' [(''offset'', show_int offset), (''timeout'', show_nat secs),
         (''allowed_updates'', ''[\"message\",\"callback_query\"]'')]) ''Telegram getUpdates'' st of
        (Inl e, st1) \<Rightarrow> (Inl e, st1)
      | (Inr v, st1) \<Rightarrow> (Inr (case json_get ''result'' v of JArr us \<Rightarrow> us | _ \<Rightarrow> []), st1))"

definition download_file :: "tg_env \<Rightarrow> string \<Rightarrow> tg_state \<Rightarrow> string tg_result" where
  "download_file env file_id st =
     (case api_json env (ApiGet ''getFile'' [(''file_id'', file_id)]) ''Telegram getFile'' st of
        (Inl e, st1) \<Rightarrow> (Inl e, st1)
      | (Inr v, st1) \<Rightarrow>
          (case json_str (json_get ''file_path'' (json_get ''result'' v)) of
             None \<Rightarrow> (Inl ''Telegram getFile: missing file_path'', st1)
           | Some path \<Rightarrow>
               (case tg_do env (FileGet path) st1 of
                  (NoReply, st2) \<Rightarrow> (Inl ''Telegram file download failed'', st2)
                | (TgReply _ body _, st2) \<Rightarrow> (Inr body, st2))))"

section \<open>Events of the agent\<close>

definition buffer_token :: "string \<Rightarrow> string \<Rightarrow> tg_state \<Rightarrow> tg_state" where
  "buffer_token key token st =
     st\<lparr>ts_token_buffers := (ts_token_buffers st)(key \<mapsto>
       (case ts_token_buffers st key of None \<Rightarrow> [] | Some b \<Rightarrow> b) @ token)\<rparr>"

definition on_stream_token :: "tg_env \<Rightarrow> nat \<Rightarrow> string \<Rightarrow> string \<Rightarrow> string \<Rightarrow> tg_state \<Rightarrow> tg_state" where
  "on_stream_token env now chat key token st =
     (let is_dm = (case parse_i64 chat of Some i \<Rightarrow> i > 0 | None \<Rightarrow> False);
          st1 = buffer_token key token st;
          due = (case ts_draft_last_sent st1 key of None \<Rightarrow> True | Some t \<Rightarrow> now - t \<ge> draft_throttle_ms)
      in if is_dm \<and> due
         then (let st2 = st1\<lparr>ts_draft_last_sent := (ts_draft_last_sent st1)(key \<mapsto> now)\<rparr>
               in case ts_token_buffers st2 key of
                    Some txt \<Rightarrow> snd (send_message_draft env chat txt st2)
                  | None \<Rightarrow> st2)
         else st1)"

definition forget_stream :: "string \<Rightarrow> tg_state \<Rightarrow> tg_state" where
  "forget_stream key st =
     st\<lparr>ts_token_buffers := (ts_token_buffers st)(key := None), ts_draft_last_sent := (ts_draft_last_sent st)(key := None)\<rparr>"

definition set_tools :: "string \<Rightarrow> tool_status option \<Rightarrow> tg_state \<Rightarrow> tg_state" where
  "set_tools chat t st = st\<lparr>ts_tool_status := (ts_tool_status st)(chat := t)\<rparr>"

definition set_notify :: "string \<Rightarrow> notify_status option \<Rightarrow> tg_state \<Rightarrow> tg_state" where
  "set_notify chat t st = st\<lparr>ts_notify_status := (ts_notify_status st)(chat := t)\<rparr>"

definition on_reset :: "string \<Rightarrow> string \<Rightarrow> tg_state \<Rightarrow> tg_state" where
  "on_reset chat key st = set_tools chat None (forget_stream key st)"

definition next_tool :: "string \<Rightarrow> tool_status \<Rightarrow> tool_status" where
  "next_tool line t =
     t\<lparr>tt_completed := (case tt_current t of
          Some prev \<Rightarrow> tt_completed t @ [trim (hd (split_char (CHR '':'') prev))]
        | None \<Rightarrow> tt_completed t),
       tt_current := Some line\<rparr>"

definition on_tool_call :: "tg_env \<Rightarrow> string \<Rightarrow> string \<Rightarrow> string \<Rightarrow> string \<Rightarrow> tg_state \<Rightarrow> unit tg_result" where
  "on_tool_call env chat key name args st =
     (let st1 = forget_stream key st;
          t0 = (case ts_tool_status st1 chat of Some t \<Rightarrow> t | None \<Rightarrow> \<lparr>tt_message_id = 0, tt_completed = [], tt_current = None\<rparr>);
          t1 = next_tool (name @ '': '' @ args) t0;
          st2 = set_tools chat (Some t1) st1
      in if tt_message_id t1 = 0
         then (case send_plain_get_id env chat (render_tools t1) st2 of
                 (Inl e, st3) \<Rightarrow> (Inl e, st3)
               | (Inr mid, st3) \<Rightarrow>
                   (Inr (), case mid of
                      None \<Rightarrow> st3
                    | Some m \<Rightarrow> (case ts_tool_status st3 chat of
                        Some t \<Rightarrow> set_tools chat (Some (t\<lparr>tt_message_id := m\<rparr>)) st3
                      | None \<Rightarrow> st3)))
         else (Inr (), snd (edit_message_text env chat (tt_message_id t1) (render_tools t1) st2)))"

definition on_tool_result :: "string \<Rightarrow> string \<Rightarrow> tg_state \<Rightarrow> tg_state" where
  "on_tool_result chat name st =
     (case ts_tool_status st chat of
        Some t \<Rightarrow>
          if tt_current t \<noteq> None
          then set_tools chat (Some (t\<lparr>tt_completed := tt_completed t @ [name], tt_current := None\<rparr>)) st
          else st
      | None \<Rightarrow> st)"

text \<open>The tool status message is removed and deleted.\<close>

definition drop_tool_status :: "tg_env \<Rightarrow> string \<Rightarrow> tg_state \<Rightarrow> tg_state" where
  "drop_tool_status env chat st =
     (case ts_tool_status st chat of
        Some t \<Rightarrow>
          if tt_message_id t > 0 then snd (delete_message env chat (tt_message_id t) (set_tools chat None st))
          else set_tools chat None st
      | None \<Rightarrow> set_tools chat None st)"

text \<open>The cluster status message is sent or edited; after a failed edit it is forgotten.\<close>

definition show_notify :: "tg_env \<Rightarrow> string \<Rightarrow> notify_status \<Rightarrow> tg_state \<Rightarrow> tg_state" where
  "show_notify env chat t st =
     (if ns_message_id t = 0
      then (case send_plain_get_id env chat (render_notify t) st of
              (Inr (Some mid), st1) \<Rightarrow>
                (case ts_notify_status st1 chat of
                   Some u \<Rightarrow> set_notify chat (Some (u\<lparr>ns_message_id := mid\<rparr>)) st1
                 | None \<Rightarrow> st1)
            | (_, st1) \<Rightarrow> st1)
      else (case edit_message_text env chat (ns_message_id t) (render_notify t) st of
              (Inl _, st1) \<Rightarrow> set_notify chat None st1
            | (Inr _, st1) \<Rightarrow> st1))"

definition done_message :: "string \<Rightarrow> string option \<Rightarrow> string" where
  "done_message txt buffered = (if txt \<noteq> [] then txt else case nonempty buffered of Some b \<Rightarrow> b | None \<Rightarrow> [])"

definition on_done :: "tg_env \<Rightarrow> nat \<Rightarrow> string \<Rightarrow> string \<Rightarrow> bool \<Rightarrow> string \<Rightarrow> tg_state \<Rightarrow> unit tg_result" where
  "on_done env now chat key status_update txt st =
     (let st1 = drop_tool_status env chat st;
          message = done_message txt (ts_token_buffers st1 key);
          st2 = st1\<lparr>ts_token_buffers := (ts_token_buffers st1)(key := None)\<rparr>
      in if message = [] then (Inr (), st2)
         else if status_update
         then (let t0 = (case ts_notify_status st2 chat of Some t \<Rightarrow> t | None \<Rightarrow> notify_new);
                   t1 = (notify_upsert ''parent'' message t0)\<lparr>ns_last_edit := Some now\<rparr>
               in (Inr (), show_notify env chat t1 (set_notify chat (Some t1) st2)))
         else send_text env chat message st2)"

definition on_error :: "tg_env \<Rightarrow> string \<Rightarrow> string \<Rightarrow> string \<Rightarrow> tg_state \<Rightarrow> unit tg_result" where
  "on_error env chat key err st =
     send_plain env chat ([CHR 0xE2, CHR 0x9D, CHR 0x8C] @ '' Error: '' @ err)
       (drop_tool_status env chat (st\<lparr>ts_token_buffers := (ts_token_buffers st)(key := None)\<rparr>))"

definition retry_note :: "32 word \<Rightarrow> 32 word \<Rightarrow> u64 \<Rightarrow> string" where
  "retry_note attempt max_attempts delay =
     [CHR 0xE2, CHR 0x8F, CHR 0xB3] @ '' Network error '' @ [CHR 0xE2, CHR 0x80, CHR 0x94] @ '' retrying (''
       @ show_nat (unat attempt) @ ''/'' @ show_nat (unat max_attempts) @ '') in '' @ show_nat (unat delay) @ ''s''
       @ [CHR 0xE2, CHR 0x80, CHR 0xA6]"

definition on_notify :: "tg_env \<Rightarrow> nat \<Rightarrow> string \<Rightarrow> string \<Rightarrow> tg_state \<Rightarrow> unit tg_result" where
  "on_notify env now chat msg st =
     (if prefix ''['' msg
      then (let (agent, status) = (case split_once (CHR '']'') (tl msg) of
                  Some (k, rest) \<Rightarrow> (k, trim rest)
                | None \<Rightarrow> (''system'', msg));
                t0 = (case ts_notify_status st chat of Some t \<Rightarrow> t | None \<Rightarrow> notify_new);
                t1 = notify_upsert agent status t0;
                ready = ready_to_edit now t1;
                t2 = (if ready then t1\<lparr>ns_last_edit := Some now\<rparr> else t1);
                st1 = set_notify chat (Some t2) st
            in (Inr (), if \<not> ready then st1 else show_notify env chat t2 st1))
      else send_text env chat msg st)"

definition telegram_send_event ::
  "tg_env \<Rightarrow> nat \<Rightarrow> channel_event \<Rightarrow> outbound_target option \<Rightarrow> tg_state \<Rightarrow> message_handle tg_result" where
  "telegram_send_event env now event target st =
     (let chat = target_chat_id env target; key = stream_key env target;
          status_update = (case target of None \<Rightarrow> False | Some t \<Rightarrow> ot_status_update t);
          (r, st1) = (case event of
              StreamToken token \<Rightarrow> (Inr (), on_stream_token env now chat key token st)
            | TypingIndicator \<Rightarrow> send_typing env chat st
            | ThinkingDelta _ \<Rightarrow> (Inr (), st)
            | ResetEvent \<Rightarrow> (Inr (), on_reset chat key st)
            | ToolCallEvent _ name args \<Rightarrow> on_tool_call env chat key name args st
            | ToolResultEvent _ name _ \<Rightarrow> (Inr (), on_tool_result chat name st)
            | Done txt _ _ _ _ \<Rightarrow> on_done env now chat key status_update txt st
            | ErrorEvent err \<Rightarrow> on_error env chat key err st
            | Retrying attempt max_attempts delay \<Rightarrow> send_plain env chat (retry_note attempt max_attempts delay) st
            | Notify msg \<Rightarrow> on_notify env now chat msg st
            | Attachment filename bytes caption _ \<Rightarrow> send_document env chat filename bytes caption st)
      in (map_sum id (\<lambda>_. default_handle) r, st1))"

section \<open>Questions, reactions and rich messages\<close>

definition telegram_update_message :: "tg_env \<Rightarrow> message_handle \<Rightarrow> string \<Rightarrow> tg_state \<Rightarrow> tg_state" where
  "telegram_update_message env h content st =
     (let chat = (case mh_conversation_id h of Some c \<Rightarrow> c | None \<Rightarrow> te_default_chat_id env) in
      case (case mh_message_id h of None \<Rightarrow> None | Some i \<Rightarrow> parse_i64 i) of
        None \<Rightarrow> st
      | Some mid \<Rightarrow> snd (edit_message_text env chat mid content st))"

definition ask_sender :: "outbound_target option \<Rightarrow> string option" where
  "ask_sender target = nonempty (case target of None \<Rightarrow> None | Some t \<Rightarrow> ot_sender_id t)"

text \<open>\<open>ask_human\<close> up to its wait, with a fresh number for its one-shot channel: the key under which the
  answer is awaited.\<close>

definition telegram_ask :: "tg_env \<Rightarrow> nat \<Rightarrow> string \<Rightarrow> outbound_target option \<Rightarrow> tg_state \<Rightarrow> string tg_result" where
  "telegram_ask env a message target st =
     (let chat = target_chat_id env target; key = ask_key chat (ask_sender target) in
      if ts_pending_asks st key \<noteq> None
      then (Inl (''Telegram ask_human already pending for chat '' @ chat
              @ (case ask_sender target of Some s \<Rightarrow> '', sender '' @ s | None \<Rightarrow> [])), st)
      else (case send_text env chat message (st\<lparr>ts_pending_asks := (ts_pending_asks st)(key \<mapsto> a)\<rparr>) of
              (Inl e, st1) \<Rightarrow> (Inl e, st1\<lparr>ts_pending_asks := (ts_pending_asks st1)(key := None)\<rparr>)
            | (Inr _, st1) \<Rightarrow> (Inr key, st1)))"

text \<open>What the waiting side finds: the reply, or that its sender is gone.\<close>

definition telegram_ask_resume :: "string \<Rightarrow> nat \<Rightarrow> tg_state \<Rightarrow> (string + string) option \<times> tg_state" where
  "telegram_ask_resume key a st =
     (case ts_replies st a of
        Some r \<Rightarrow> (Some (Inr r), st)
      | None \<Rightarrow>
          if ts_pending_asks st key = Some a then (None, st)
          else (Some (Inl ''Telegram ask_human: response channel closed''),
                st\<lparr>ts_pending_asks := (ts_pending_asks st)(key := None)\<rparr>))"

definition telegram_ask_timed_out :: "nat \<Rightarrow> string \<Rightarrow> tg_state \<Rightarrow> string \<times> tg_state" where
  "telegram_ask_timed_out secs key st =
     (''Telegram ask_human timed out after '' @ show_nat secs @ ''s'',
      st\<lparr>ts_pending_asks := (ts_pending_asks st)(key := None)\<rparr>)"

definition telegram_react :: "tg_env \<Rightarrow> string \<Rightarrow> string \<Rightarrow> string \<Rightarrow> tg_state \<Rightarrow> unit tg_result" where
  "telegram_react env chat message_id emoji st =
     (case parse_i64 message_id of
        None \<Rightarrow> (Inl (''invalid Telegram message_id: '' @ message_id), st)
      | Some mid \<Rightarrow> set_reaction env (if chat = [] then te_default_chat_id env else chat) mid emoji st)"

definition markup_json :: "reply_markup \<Rightarrow> json" where
  "markup_json m =
     (case m of
        InlineKeyboard rows \<Rightarrow>
          JObj [(''inline_keyboard'', JArr (map (\<lambda>row. JArr (map (\<lambda>b.
            JObj [(''text'', JStr (ib_text b)), (''callback_data'', JStr (ib_callback_data b))]) row)) rows))]
      | ReplyKeyboard keyboard resize one_time \<Rightarrow>
          JObj [(''keyboard'', JArr (map (\<lambda>row. JArr (map (\<lambda>b. JObj [(''text'', JStr (kb_text b))]) row)) keyboard)),
            (''resize_keyboard'', JBool resize), (''one_time_keyboard'', JBool one_time)]
      | RemoveKeyboard \<Rightarrow> JObj [(''remove_keyboard'', JBool True)]
      | ForceReply placeholder \<Rightarrow>
          JObj ([(''force_reply'', JBool True), (''selective'', JBool True)]
            @ (case placeholder of Some p \<Rightarrow> [(''input_field_placeholder'', JStr p)] | None \<Rightarrow> [])))"

definition rich_body :: "string \<Rightarrow> outbound_message \<Rightarrow> json" where
  "rich_body chat msg =
     JObj (chat_text chat (om_text msg)
       @ (case om_parse_mode msg of
            Some MarkdownV2 \<Rightarrow> [(''parse_mode'', JStr ''MarkdownV2'')]
          | Some HTML \<Rightarrow> [(''parse_mode'', JStr ''HTML'')]
          | _ \<Rightarrow> [])
       @ (case (case om_reply_to_message_id msg of None \<Rightarrow> None | Some i \<Rightarrow> parse_i64 i) of
            Some i \<Rightarrow> [(''reply_to_message_id'', JNum (show_int i))] | None \<Rightarrow> [])
       @ (case om_reply_markup msg of Some m \<Rightarrow> [(''reply_markup'', markup_json m)] | None \<Rightarrow> []))"

definition telegram_send_message ::
  "tg_env \<Rightarrow> outbound_message \<Rightarrow> outbound_target option \<Rightarrow> tg_state \<Rightarrow> message_handle tg_result" where
  "telegram_send_message env msg target st =
     (let chat = target_chat_id env target in
      case api_json env (ApiPost ''sendMessage'' (rich_body chat msg)) ''Telegram sendMessage (rich)'' st of
        (Inl e, st1) \<Rightarrow> (Inl e, st1)
      | (Inr v, st1) \<Rightarrow>
          (Inr \<lparr>mh_message_id = map_option show_int (json_i64 (json_member ''message_id'' (json_get ''result'' v))),
             mh_channel_id = Some (te_id env), mh_conversation_id = Some chat\<rparr>, st1))"

definition telegram_send_raw :: "tg_env \<Rightarrow> string \<Rightarrow> json \<Rightarrow> tg_state \<Rightarrow> json tg_result" where
  "telegram_send_raw env meth payload st =
     (case tg_do env (ApiPost meth payload) st of (r, st1) \<Rightarrow>
        (case r of
           NoReply \<Rightarrow> Inl (''Telegram '' @ meth @ '' request failed'')
         | TgReply _ _ None \<Rightarrow> Inl (''Telegram '' @ meth @ '' JSON parse failed'')
         | TgReply _ _ (Some v) \<Rightarrow> Inr v, st1))"

definition telegram_register_commands :: "tg_env \<Rightarrow> bot_command list \<Rightarrow> tg_state \<Rightarrow> unit tg_result" where
  "telegram_register_commands env commands st =
     api_status env (ApiPost ''setMyCommands'' (JObj [(''commands'', JArr (map (\<lambda>c.
         JObj [(''command'', JStr (bc_command c)), (''description'', JStr (take_chars 256 (bc_description c)))]) commands))]))
       ''Telegram setMyCommands request failed'' ''Telegram setMyCommands'' st"

text \<open>\<open>on_start\<close>: the token is checked and a webhook is removed.\<close>

definition api_plain :: "tg_env \<Rightarrow> tg_call \<Rightarrow> string \<Rightarrow> tg_state \<Rightarrow> json tg_result" where
  "api_plain env call what st =
     (case tg_do env call st of (r, st1) \<Rightarrow>
        (case r of
           NoReply \<Rightarrow> Inl (''Telegram on_start: '' @ what @ '' request failed'')
         | TgReply _ _ None \<Rightarrow> Inl (''Telegram on_start: '' @ what @ '' response parse failed'')
         | TgReply _ _ (Some v) \<Rightarrow> Inr v, st1))"

definition told_ok :: "json \<Rightarrow> bool" where
  "told_ok v \<longleftrightarrow> json_bool (json_member ''ok'' v) = Some True"

definition telegram_start :: "tg_env \<Rightarrow> tg_state \<Rightarrow> unit tg_result" where
  "telegram_start env st =
     (case api_plain env (ApiGet ''getMe'' []) ''getMe'' st of
        (Inl e, st1) \<Rightarrow> (Inl e, st1)
      | (Inr me, st1) \<Rightarrow>
          if \<not> told_ok me
          then (Inl (''Telegram bot token validation failed: ''
                  @ (case json_str (json_get ''description'' me) of Some d \<Rightarrow> d | None \<Rightarrow> ''unknown error'')), st1)
          else (case api_plain env (ApiGet ''getWebhookInfo'' []) ''getWebhookInfo'' st1 of
                  (Inl e, st2) \<Rightarrow> (Inl e, st2)
                | (Inr wh, st2) \<Rightarrow>
                    (case nonempty (json_str (json_get ''url'' (json_get ''result'' wh))) of
                       None \<Rightarrow> (Inr (), st2)
                     | Some _ \<Rightarrow>
                         (case api_plain env (ApiPost ''deleteWebhook'' (JObj [(''drop_pending_updates'', JBool False)]))
                                ''deleteWebhook'' st2 of
                            (Inl e, st3) \<Rightarrow> (Inl e, st3)
                          | (Inr del, st3) \<Rightarrow>
                              (if told_ok del then Inr ()
                               else Inl (''Telegram deleteWebhook failed: ''
                                 @ (case json_str (json_get ''description'' del) of Some d \<Rightarrow> d | None \<Rightarrow> ''unknown error'')), st3)))))"

section \<open>The listener\<close>

definition id_text :: "json \<Rightarrow> string" where
  "id_text v = (case json_i64 (Some v) of Some i \<Rightarrow> show_int i | None \<Rightarrow> [])"

definition update_id :: "json \<Rightarrow> int" where
  "update_id u = (case json_i64 (json_member ''update_id'' u) of Some i \<Rightarrow> i | None \<Rightarrow> 0)"

definition str_or_empty :: "json \<Rightarrow> string" where
  "str_or_empty v = (case json_str v of Some s \<Rightarrow> s | None \<Rightarrow> [])"

text \<open>A message is handed to the inbound channel; \<open>receiving\<close> tells whether its receiver is alive.\<close>

definition dispatch_inbound :: "bool \<Rightarrow> inbound_message \<Rightarrow> tg_state \<Rightarrow> bool \<times> tg_state" where
  "dispatch_inbound receiving msg st =
     (if receiving then (True, st\<lparr>ts_inbound := ts_inbound st @ [msg]\<rparr>) else (False, st))"

definition callback_message :: "tg_env \<Rightarrow> json \<Rightarrow> inbound_message" where
  "callback_message env cb =
     (let cb_id = str_or_empty (json_get ''id'' cb); data = str_or_empty (json_get ''data'' cb);
          message = json_get ''message'' cb
      in \<lparr>im_channel_id = te_id env, im_sender_id = id_text (json_get ''id'' (json_get ''from'' cb)), im_text = data,
          im_message_id = map_option show_int (json_i64 (json_member ''message_id'' message)),
          im_conversation_id = Some (id_text (json_get ''id'' (json_get ''chat'' message))),
          im_session_hint = None, im_callback_url = None, im_deferred = False, im_attachments = [],
          im_metadata = Some (JObj [(''type'', JStr ''callback_query''), (''callback_query_id'', JStr cb_id), (''data'', JStr data)])\<rparr>)"

definition process_callback :: "tg_env \<Rightarrow> bool \<Rightarrow> json \<Rightarrow> tg_state \<Rightarrow> bool \<times> tg_state" where
  "process_callback env receiving cb st =
     (let st1 = snd (tg_do env (ApiPost ''answerCallbackQuery''
            (JObj [(''callback_query_id'', JStr (str_or_empty (json_get ''id'' cb)))])) st)
      in if str_or_empty (json_get ''data'' cb) = [] then (True, st1)
         else dispatch_inbound receiving (callback_message env cb) st1)"

definition update_chat :: "json \<Rightarrow> string" where
  "update_chat u = id_text (json_get ''id'' (json_get ''chat'' (json_get ''message'' u)))"

definition update_sender :: "json \<Rightarrow> string" where
  "update_sender u = id_text (json_get ''id'' (json_get ''from'' (json_get ''message'' u)))"

definition chat_accepted :: "tg_env \<Rightarrow> tg_state \<Rightarrow> string \<Rightarrow> bool" where
  "chat_accepted env st chat \<longleftrightarrow> chat = te_default_chat_id env \<or> chat \<in> set (ts_allowed_chats st)"

definition sender_allowed :: "tg_state \<Rightarrow> string \<Rightarrow> bool" where
  "sender_allowed st sender \<longleftrightarrow> ts_allowed_senders st = [] \<or> sender \<in> set (ts_allowed_senders st)"

text \<open>The text of a message, with the message it replies to in front.\<close>

definition update_text :: "json \<Rightarrow> string" where
  "update_text u =
     (let m = json_get ''message'' u;
          raw = (case json_str (json_get ''caption'' m) of Some c \<Rightarrow> c | None \<Rightarrow> str_or_empty (json_get ''text'' m));
          reply = json_get ''reply_to_message'' m
      in case nonempty (json_str (json_get ''text'' reply)) of
           Some quoted \<Rightarrow>
             ''[Replying to '' @ (case json_str (json_get ''first_name'' (json_get ''from'' reply)) of Some n \<Rightarrow> n | None \<Rightarrow> ''Someone'')
               @ '': \"'' @ quoted @ ''\"]'' @ [newline, newline] @ raw
         | None \<Rightarrow> raw)"

text \<open>One kind of attachment: the file, if the message names one and its download succeeds.\<close>

definition fetch_attachment ::
  "tg_env \<Rightarrow> json \<Rightarrow> (string \<Rightarrow> inbound_attachment) \<Rightarrow> inbound_attachment list \<times> tg_state \<Rightarrow> inbound_attachment list \<times> tg_state" where
  "fetch_attachment env holder build s =
     (case json_str (json_get ''file_id'' holder) of
        None \<Rightarrow> s
      | Some i \<Rightarrow>
          (case download_file env i (snd s) of
             (Inr bytes, st1) \<Rightarrow> (fst s @ [build bytes], st1)
           | (Inl _, st1) \<Rightarrow> (fst s, st1)))"

definition duration_secs :: "json \<Rightarrow> nat option" where
  "duration_secs v = map_option (\<lambda>d. unat d mod 2 ^ 32) (as_u64 (json_member ''duration'' v))"

definition update_attachments :: "tg_env \<Rightarrow> json \<Rightarrow> tg_state \<Rightarrow> inbound_attachment list \<times> tg_state" where
  "update_attachments env u st =
     (let m = json_get ''message'' u; voice = json_get ''voice'' m; audio = json_get ''audio'' m; doc = json_get ''document'' m;
          photo = (case json_get ''photo'' m of JArr ps \<Rightarrow> if ps = [] then JNull else last ps | _ \<Rightarrow> JNull);
          mime = (\<lambda>d v. case json_str (json_get ''mime_type'' v) of Some x \<Rightarrow> x | None \<Rightarrow> d)
      in fetch_attachment env doc (\<lambda>b. DocumentAttachment b (mime ''application/octet-stream'' doc) (json_str (json_get ''file_name'' doc)))
         (fetch_attachment env audio (\<lambda>b. AudioAttachment b (mime ''audio/mpeg'' audio) (duration_secs audio))
         (fetch_attachment env voice (\<lambda>b. AudioAttachment b ''audio/ogg'' (duration_secs voice))
         (fetch_attachment env photo (\<lambda>b. ImageAttachment b ''image/jpeg'') ([], st)))))"

text \<open>A reply to a pending question, under the sender's own key or the one for everybody in the chat.\<close>

definition answer_pending :: "string \<Rightarrow> string \<Rightarrow> string \<Rightarrow> tg_state \<Rightarrow> tg_state option" where
  "answer_pending chat sender txt st =
     (let take = (\<lambda>key. case ts_pending_asks st key of
            None \<Rightarrow> None
          | Some a \<Rightarrow> Some (st\<lparr>ts_pending_asks := (ts_pending_asks st)(key := None), ts_replies := (ts_replies st)(a \<mapsto> txt)\<rparr>))
      in or_else (take (ask_key chat (Some sender))) (take (ask_key chat None)))"

definition message_of_update :: "tg_env \<Rightarrow> json \<Rightarrow> inbound_attachment list \<Rightarrow> inbound_message" where
  "message_of_update env u as =
     \<lparr>im_channel_id = te_id env, im_sender_id = update_sender u, im_text = update_text u,
      im_message_id = map_option show_int (json_i64 (json_member ''message_id'' (json_get ''message'' u))),
      im_conversation_id = Some (update_chat u), im_session_hint = None, im_callback_url = None, im_deferred = False,
      im_attachments = as, im_metadata = None\<rparr>"

definition process_message :: "tg_env \<Rightarrow> bool \<Rightarrow> json \<Rightarrow> tg_state \<Rightarrow> bool \<times> tg_state" where
  "process_message env receiving u st =
     (let chat = update_chat u in
      if \<not> chat_accepted env st chat then (True, st)
      else
        (let txt = update_text u; (as, st1) = update_attachments env u st; sender = update_sender u in
         if txt = [] \<and> as = [] then (True, st1)
         else if \<not> sender_allowed st1 sender
         then (True, snd (send_plain env chat ''You are not authorized to use this bot.'' st1))
         else
           (let st2 = st1\<lparr>ts_update_offset := update_id u + 1\<rparr> in
            case answer_pending chat sender txt st2 of
              Some st3 \<Rightarrow> (True, st3)
            | None \<Rightarrow> dispatch_inbound receiving (message_of_update env u as) st2)))"

definition process_update :: "tg_env \<Rightarrow> bool \<Rightarrow> json \<Rightarrow> tg_state \<Rightarrow> bool \<times> tg_state" where
  "process_update env receiving u st =
     (case json_member ''callback_query'' u of
        Some cb \<Rightarrow> process_callback env receiving cb st
      | None \<Rightarrow> process_message env receiving u st)"

fun process_updates :: "tg_env \<Rightarrow> bool \<Rightarrow> json list \<Rightarrow> int \<Rightarrow> tg_state \<Rightarrow> (bool \<times> int) \<times> tg_state" where
  "process_updates env receiving [] offset st = ((True, offset), st)"
| "process_updates env receiving (u # us) offset st =
     (case process_update env receiving u st of
        (True, st1) \<Rightarrow> process_updates env receiving us (update_id u + 1) st1
      | (False, st1) \<Rightarrow> ((False, update_id u + 1), st1))"

text \<open>One round of the polling loop with its back-off: whether it goes on, the next offset and pause.\<close>

definition backoff_initial_secs :: nat where "backoff_initial_secs = 1"
definition backoff_max_secs :: nat where "backoff_max_secs = 60"

record listener =
  li_offset :: int
  li_backoff :: nat
  li_errors :: nat

definition listener_new :: "tg_state \<Rightarrow> listener" where
  "listener_new st = \<lparr>li_offset = ts_update_offset st, li_backoff = backoff_initial_secs, li_errors = 0\<rparr>"

definition listen_round :: "tg_env \<Rightarrow> bool \<Rightarrow> listener \<Rightarrow> tg_state \<Rightarrow> (bool \<times> listener) \<times> tg_state" where
  "listen_round env receiving l st =
     (case poll_updates env (li_offset l) 30 st of
        (Inl e, st1) \<Rightarrow>
          ((True, l\<lparr>li_errors := li_errors l + 1, li_backoff := min (li_backoff l * 2) backoff_max_secs\<rparr>), st1)
      | (Inr us, st1) \<Rightarrow>
          (case process_updates env receiving us (li_offset l) st1 of
             ((go, offset), st2) \<Rightarrow>
               ((go, \<lparr>li_offset = offset, li_backoff = backoff_initial_secs, li_errors = 0\<rparr>), st2)))"

end
