(* ===== verification/Telegram_Props.thy ===== *)
theory Telegram_Props
  imports Telegram
begin

text \<open>
  What the Telegram adapter promises: the parts of a long message, who can reach the agent, where a
  reply goes, what the final message holds and how long the listener pauses after failed polls.
\<close>

section \<open>Counting characters\<close>

lemma char_count_eq:
  "char_count s = (case s of [] \<Rightarrow> 0 | _ # cs \<Rightarrow> Suc (length (filter (\<lambda>c. \<not> is_cont c) cs)))"
proof (induction s)
  case (Cons c s)
  show ?case
  proof (cases s)
    case (Cons d t)
    have "chars s \<noteq> []" using Cons concat_chars [of s] by fastforce
    then obtain e es where ch: "chars s = e # es" by (cases "chars s") auto
    then have "e \<noteq> []" using chars_nonempty [of e s] by simp
    moreover have "hd e = d" using concat_chars [of s] ch Cons calculation by (cases e) auto
    ultimately show ?thesis using Cons.IH ch Cons by (auto simp: char_count_def)
  qed (simp add: char_count_def)
qed (simp add: char_count_def)

lemma char_count_prefix: "prefix p s \<Longrightarrow> char_count p \<le> char_count s"
  by (auto simp: char_count_eq prefix_def split: list.splits)

lemma char_count_le_length: "char_count s \<le> length s"
  using length_chars_le by (simp add: char_count_def)

lemma chars_snoc: "xs = chars s \<Longrightarrow> chars (concat xs) = xs"
  by simp

lemma chars_take: "chars (concat (take n (chars s))) = take n (chars s)"
proof (induction s arbitrary: n)
  case (Cons c s)
  show ?case
  proof (cases "chars s")
    case Nil
    then show ?thesis by (cases n) auto
  next
    case (Cons d ds)
    then have d: "d \<noteq> []" using chars_nonempty [of d s] by simp
    show ?thesis
    proof (cases n)
      case (Suc m)
      show ?thesis
      proof (cases "is_cont (hd d)")
        case True
        have "chars (d @ concat (take m ds)) = d # take m ds" using Cons.IH [of "Suc m"] Cons by simp
        with True d Suc Cons show ?thesis by simp
      next
        case False
        show ?thesis
        proof (cases m)
          case (Suc k)
          have "chars (d @ concat (take k ds)) = d # take k ds" using Cons.IH [of "Suc k"] Cons by simp
          with False d \<open>n = Suc m\<close> Suc Cons show ?thesis by simp
        qed (use False d Suc Cons in simp)
      qed
    qed simp
  qed
qed simp

lemma char_count_take_chars: "char_count (take_chars n s) \<le> n"
  by (simp add: char_count_def take_chars_def chars_take)

text \<open>The first character after \<open>take_chars\<close> starts a new scalar.\<close>

lemma chars_heads:
  assumes "0 < i" "i < length (chars s)" shows "\<not> is_cont (hd (chars s ! i))"
  using assms
proof (induction s arbitrary: i)
  case (Cons c s)
  show ?case
  proof (cases "chars s")
    case (Cons d ds)
    then have d: "d \<noteq> []" using chars_nonempty [of d s] by simp
    show ?thesis
    proof (cases "is_cont (hd d)")
      case True
      then show ?thesis using Cons.prems Cons d Cons.IH [of i] by (cases i) auto
    next
      case False
      then show ?thesis using Cons.prems Cons d Cons.IH [of "i - 1"] by (cases i; cases "i - 1") auto
    qed
  qed (use Cons.prems in auto)
qed simp

lemma take_chars_boundary:
  assumes "0 < n" "n < char_count s"
  shows "0 < length (take_chars n s)" "length (take_chars n s) < length s"
    and "at_char_boundary s (length (take_chars n s))"
proof -
  let ?p = "take_chars n s" and ?r = "concat (drop n (chars s))"
  have s: "s = ?p @ ?r"
    unfolding take_chars_def by (metis append_take_drop_id concat_append concat_chars)
  have n: "n < length (chars s)" using assms by (simp add: char_count_def)
  have ne: "chars s ! n \<noteq> []" using n chars_nonempty nth_mem by blast
  have r: "?r = chars s ! n @ concat (drop (Suc n) (chars s))"
    using n by (metis Cons_nth_drop_Suc concat.simps(2))
  have "chars s ! 0 \<noteq> []" using n chars_nonempty nth_mem by (metis gr_zeroI less_nat_zero_code)
  moreover have "chars s ! 0 \<in> set (take n (chars s))"
    using n assms by (metis in_set_conv_nth length_take min.absorb4 nth_take)
  ultimately have "take_chars n s \<noteq> []" by (auto simp: take_chars_def)
  then show "0 < length ?p" by simp
  have hd: "?r \<noteq> []" "\<not> is_cont (hd ?r)" using r ne chars_heads [of n s] n assms by auto
  have "length s = length ?p + length ?r" using arg_cong [OF s, of length] by simp
  then show lt: "length ?p < length s" using hd by simp
  have "s ! length ?p = hd ?r" using s hd by (metis hd_conv_nth nth_append_length_plus add_0_right)
  then show "at_char_boundary s (length ?p)" using lt hd by (simp add: at_char_boundary_def)
qed

lemma advance_le:
  "pos \<le> b \<Longrightarrow> b \<le> length s \<Longrightarrow> at_char_boundary s b \<Longrightarrow>
     advance_to_char_boundary s pos \<le> b \<and> pos \<le> advance_to_char_boundary s pos"
proof (induction s pos rule: advance_to_char_boundary.induct)
  case (1 s pos)
  show ?case
  proof (cases "pos < length s \<and> \<not> at_char_boundary s pos")
    case True
    then have "pos + 1 \<le> b" using 1 by (metis Suc_eq_plus1 Suc_leI le_neq_implies_less)
    then have "advance_to_char_boundary s (pos + 1) \<le> b \<and> pos + 1 \<le> advance_to_char_boundary s (pos + 1)"
      using 1 True by blast
    with True show ?thesis by (subst (1 2) advance_to_char_boundary.simps) simp
  next
    case False
    then have "advance_to_char_boundary s pos = min pos (length s)"
      by (subst advance_to_char_boundary.simps) (rule if_not_P)
    with 1 show ?thesis by simp
  qed
qed

lemma rfind_sub_bound: "rfind_sub p s = Some i \<Longrightarrow> p \<noteq> [] \<Longrightarrow> i + length p \<le> length s"
proof (induction s arbitrary: i)
  case (Cons c s)
  then show ?case by (fastforce split: option.splits if_splits dest: prefix_length_le)
qed simp

lemma chunk_split_bounds:
  assumes "0 < n" "n < char_count s"
  shows "0 < chunk_split n s" "chunk_split n s \<le> length (take_chars n s)"
proof -
  let ?b = "length (take_chars n s)"
  note b = take_chars_boundary [OF assms]
  have cand: "take ?b s = take_chars n s"
    using take_chars_prefix by (metis append_eq_conv_conj prefix_def)
  have pos: "\<exists>p. chunk_split n s = advance_to_char_boundary s p \<and> 0 < p \<and> p \<le> ?b"
    using assms b rfind_sub_bound [of "[newline, newline]" "take_chars n s"]
      rfind_sub_bound [of "[newline]" "take_chars n s"] rfind_sub_bound [of "'' ''" "take_chars n s"]
    by (auto simp: chunk_split_def Let_def or_else_def cand intro!: exI split: option.splits)
  then obtain p where p: "chunk_split n s = advance_to_char_boundary s p" "0 < p" "p \<le> ?b" by blast
  from advance_le [OF p(3) less_imp_le [OF b(2)] b(3)] p
  show "0 < chunk_split n s" "chunk_split n s \<le> ?b" by auto
qed

section \<open>The parts of a message\<close>

text \<open>Text that is only white space, and texts found in order within another with only white space
  before, between and after them.\<close>

definition blank_run :: "string \<Rightarrow> bool" where
  "blank_run g \<longleftrightarrow> (\<exists>ws. set ws \<subseteq> set space_seqs \<and> concat ws = g)"

fun woven :: "string list \<Rightarrow> string \<Rightarrow> bool" where
  "woven [] s = blank_run s"
| "woven (c # cs) s = (\<exists>g r. blank_run g \<and> s = g @ c @ r \<and> woven cs r)"

lemma blank_run_Nil [simp]: "blank_run []"
  by (auto simp: blank_run_def intro: exI [of _ "[]"])

lemma blank_run_append: "blank_run a \<Longrightarrow> blank_run b \<Longrightarrow> blank_run (a @ b)"
  unfolding blank_run_def by (metis concat_append set_append Un_least)

lemma blank_run_seq: "w \<in> set space_seqs \<Longrightarrow> blank_run w"
  unfolding blank_run_def by (rule exI [of _ "[w]"]) simp

lemma blank_newlines: "blank_run (takeWhile (\<lambda>c. c = newline) s)"
proof (induction s)
  case (Cons c s)
  have "blank_run [newline]"
    by (rule blank_run_seq) (simp add: space_seqs_def ascii_space_def newline_def)
  from blank_run_append [OF this Cons] show ?case by simp
qed simp

lemma trim_end_gap: "\<exists>g. blank_run g \<and> s = trim_end s @ g"
proof (induction s rule: trim_end.induct)
  case (1 s)
  show ?case
  proof (cases "space_before s")
    case None
    then show ?thesis by (auto simp: trim_end_id intro: exI [of _ "[]"])
  next
    case (Some w)
    let ?t = "take (length s - length w) s"
    from 1 [OF Some] obtain g where g: "blank_run g" "?t = trim_end ?t @ g" by blast
    have w: "suffix w s" "w \<in> set space_seqs" using space_before_Some [OF Some] by auto
    then have "s = ?t @ w" by (auto simp: suffix_def)
    then have "s = trim_end ?t @ g @ w" using g by (metis append_assoc)
    moreover have "trim_end s = trim_end ?t" using Some by (subst trim_end.simps) simp
    ultimately show ?thesis using blank_run_append [OF g(1) blank_run_seq [OF w(2)]] by auto
  qed
qed

lemma trim_start_gap: "\<exists>g. blank_run g \<and> s = g @ trim_start s"
proof (induction s rule: trim_start.induct)
  case (1 s)
  show ?case
  proof (cases "space_at s")
    case None
    then show ?thesis by (auto simp: trim_start_id intro: exI [of _ "[]"])
  next
    case (Some w)
    let ?t = "drop (length w) s"
    from 1 [OF Some] obtain g where g: "blank_run g" "?t = g @ trim_start ?t" by blast
    have w: "prefix w s" "w \<in> set space_seqs" using space_at_Some [OF Some] by auto
    then have "s = w @ ?t" by (auto simp: prefix_def)
    then have "s = (w @ g) @ trim_start ?t" using g by (metis append_assoc)
    moreover have "trim_start s = trim_start ?t" using Some by (subst trim_start.simps) simp
    ultimately show ?thesis using blank_run_append [OF blank_run_seq [OF w(2)] g(1)] by metis
  qed
qed

lemma woven_gap: "blank_run g \<Longrightarrow> woven cs s \<Longrightarrow> woven cs (g @ s)"
proof (cases cs)
  case (Cons c cs')
  assume "blank_run g" "woven cs s"
  then obtain h r where "blank_run h" "s = h @ c @ r" "woven cs' r" using Cons by auto
  then have "blank_run (g @ h)" "g @ s = (g @ h) @ c @ r" using blank_run_append [OF \<open>blank_run g\<close>] by auto
  then show ?thesis using Cons \<open>woven cs' r\<close> by (metis woven.simps(2))
qed (auto intro: blank_run_append)

definition next_rest :: "nat \<Rightarrow> string \<Rightarrow> string" where
  "next_rest n s = trim_start (dropWhile (\<lambda>c. c = newline) (drop (chunk_split n s) s))"

lemma next_rest_gap:
  "\<exists>g. blank_run g \<and> s = trim_end (take (chunk_split n s) s) @ g @ next_rest n s"
proof -
  let ?c = "take (chunk_split n s) s" and ?d = "drop (chunk_split n s) s"
  obtain g1 where g1: "blank_run g1" "?c = trim_end ?c @ g1" using trim_end_gap by blast
  obtain g3 where g3: "blank_run g3" "dropWhile (\<lambda>c. c = newline) ?d = g3 @ next_rest n s"
    using trim_start_gap [of "dropWhile (\<lambda>c. c = newline) ?d"] unfolding next_rest_def by blast
  let ?g2 = "takeWhile (\<lambda>c. c = newline) ?d"
  have "s = ?c @ ?d" by simp
  also have "\<dots> = (trim_end ?c @ g1) @ ?g2 @ g3 @ next_rest n s"
    using g1(2) g3(2) by (metis takeWhile_dropWhile_id)
  finally have "s = trim_end ?c @ (g1 @ ?g2 @ g3) @ next_rest n s" by simp
  moreover have "blank_run (g1 @ ?g2 @ g3)" using g1 g3 blank_newlines blank_run_append by blast
  ultimately show ?thesis by blast
qed

lemma next_rest_shorter:
  assumes "0 < n" "n < char_count s" shows "length (next_rest n s) < length s"
proof -
  have "length (next_rest n s) \<le> length (dropWhile (\<lambda>c. c = newline) (drop (chunk_split n s) s))"
    unfolding next_rest_def by (rule suffix_length_le [OF suffix_trim_start])
  also have "\<dots> \<le> length (drop (chunk_split n s) s)" by (rule length_dropWhile_le)
  also have "\<dots> < length s" using chunk_split_bounds [OF assms] char_count_le_length [of s] assms by simp
  finally show ?thesis .
qed

lemma take_of_prefix: "prefix p s \<Longrightarrow> k \<le> length p \<Longrightarrow> take k s = take k p"
  by (auto simp: prefix_def)

lemma chunk_fits:
  assumes "0 < n" "n < char_count s" shows "char_count (trim_end (take (chunk_split n s) s)) \<le> n"
proof -
  have "take (chunk_split n s) s = take (chunk_split n s) (take_chars n s)"
    by (rule take_of_prefix [OF take_chars_prefix chunk_split_bounds(2) [OF assms]])
  then have "prefix (take (chunk_split n s) s) (take_chars n s)" using take_is_prefix by metis
  then have "prefix (trim_end (take (chunk_split n s) s)) (take_chars n s)"
    by (meson prefix_trim_end prefix_order.trans)
  then show ?thesis using char_count_prefix char_count_take_chars le_trans by blast
qed

lemma chunk_loop_parts:
  "0 < n \<Longrightarrow> \<exists>cs. chunk_loop n s = Some cs \<and> (\<forall>c\<in>set cs. char_count c \<le> n) \<and> woven cs s"
proof (induction s rule: length_induct)
  case (1 s)
  show ?case
  proof (cases "s = [] \<or> char_count s \<le> n")
    case True
    then show ?thesis by (subst chunk_loop.simps) (auto intro: exI [of _ "[]"])
  next
    case False
    then have big: "n < char_count s" "s \<noteq> []" by auto
    let ?c = "trim_end (take (chunk_split n s) s)"
    obtain cs where cs: "chunk_loop n (next_rest n s) = Some cs" "\<forall>c\<in>set cs. char_count c \<le> n"
        "woven cs (next_rest n s)"
      using 1 next_rest_shorter [OF \<open>0 < n\<close> big(1)] by blast
    obtain g where g: "blank_run g" "s = ?c @ g @ next_rest n s" using next_rest_gap by blast
    have w: "woven cs (g @ next_rest n s)" by (rule woven_gap [OF g(1) cs(3)])
    have loop: "chunk_loop n s = Some (if ?c = [] then cs else ?c # cs)"
      using big cs(1) by (subst chunk_loop.simps) (simp add: next_rest_def)
    show ?thesis
    proof (cases "?c = []")
      case True
      then have "s = g @ next_rest n s" using g(2) by simp
      then show ?thesis using loop True cs w by auto
    next
      case False
      have "s = [] @ ?c @ (g @ next_rest n s)" using g(2) by simp
      with w blank_run_Nil have "woven (?c # cs) s" by (metis woven.simps(2))
      then show ?thesis using loop False cs chunk_fits [OF \<open>0 < n\<close> big(1)] by auto
    qed
  qed
qed

text \<open>C0: a message is split for every positive limit; every part fits the limit, and the parts are the
  message in order with nothing but white space left out.\<close>

theorem chunk_message_parts:
  assumes "0 < n"
  shows "\<exists>cs. chunk_message s n = Some cs \<and> (\<forall>c\<in>set cs. char_count c \<le> n) \<and> woven cs s"
proof (cases "char_count s \<le> n")
  case True
  then show ?thesis by (auto simp: chunk_message_def intro!: exI [of _ "[]"])
next
  case False
  then show ?thesis using chunk_loop_parts [OF assms] by (simp add: chunk_message_def)
qed

lemma chunk_message_parts_witness:
  "\<exists>cs. chunk_message ''deploy the new build'' 9 = Some cs \<and> (\<forall>c\<in>set cs. char_count c \<le> 9)
     \<and> woven cs ''deploy the new build''"
  by (rule chunk_message_parts) simp

section \<open>What a round of updates changes\<close>

text \<open>A request to the server changes nothing but the log of requests.\<close>

definition only_calls :: "tg_state \<Rightarrow> tg_state \<Rightarrow> bool" where
  "only_calls st st' \<longleftrightarrow> st' = st\<lparr>ts_calls := ts_calls st'\<rparr>"

lemma only_calls_refl [simp]: "only_calls st st"
  by (simp add: only_calls_def)

lemma only_calls_trans [trans]: "only_calls a b \<Longrightarrow> only_calls b c \<Longrightarrow> only_calls a c"
  by (cases a; cases b; cases c) (simp add: only_calls_def)

lemma only_callsD:
  assumes "only_calls st st'"
  shows "ts_inbound st' = ts_inbound st" "ts_replies st' = ts_replies st" "ts_pending_asks st' = ts_pending_asks st"
    "ts_allowed_senders st' = ts_allowed_senders st" "ts_allowed_chats st' = ts_allowed_chats st"
    "ts_token_buffers st' = ts_token_buffers st" "ts_tool_status st' = ts_tool_status st"
    "ts_update_offset st' = ts_update_offset st"
  using assms by (cases st; cases st'; simp add: only_calls_def)+

lemma tg_do_only: "tg_do env call st = (r, st1) \<Longrightarrow> only_calls st st1"
  by (cases st) (auto simp: tg_do_def only_calls_def Let_def)

lemma api_json_only: "only_calls st (snd (api_json env call what st))"
  by (auto simp: api_json_def split: prod.split intro: tg_do_only)

lemma api_status_only: "only_calls st (snd (api_status env call e what st))"
  by (auto simp: api_status_def split: prod.split intro: tg_do_only)

lemma send_plain_chunks_only: "only_calls st (snd (send_plain_chunks env chat cs st))"
proof (induction cs arbitrary: st)
  case (Cons c cs)
  obtain r st1 where r: "api_status env (ApiPost ''sendMessage'' (JObj (chat_text chat c)))
      ''Telegram sendMessage (plain) request failed'' ''Telegram sendMessage plain'' st = (r, st1)"
    by fastforce
  then have "only_calls st st1" using api_status_only by (metis snd_conv)
  with r Cons show ?case by (cases r) (simp_all add: only_calls_trans)
qed simp

lemma send_plain_only: "only_calls st (snd (send_plain env chat s st))"
  by (simp add: send_plain_def send_plain_chunks_only)

lemma download_only: "only_calls st (snd (download_file env i st))"
  using api_json_only [of st env "ApiGet ''getFile'' [(''file_id'', i)]" "''Telegram getFile''"]
  by (auto simp: download_file_def split: prod.split sum.split option.split tg_reply.split
        dest!: tg_do_only intro: only_calls_trans)

lemma fetch_attachment_only: "only_calls (snd s) (snd (fetch_attachment env holder build s))"
proof (cases "json_str (json_get ''file_id'' holder)")
  case (Some i)
  obtain r st1 where r: "download_file env i (snd s) = (r, st1)" by fastforce
  then have "only_calls (snd s) st1" using download_only by (metis snd_conv)
  with r Some show ?thesis by (cases r) (simp_all add: fetch_attachment_def)
qed (simp add: fetch_attachment_def)

lemma update_attachments_only: "only_calls st (snd (update_attachments env u st))"
  unfolding update_attachments_def Let_def
  by (rule only_calls_trans, rule only_calls_trans, rule only_calls_trans, rule fetch_attachment_only [of "([], st)", simplified])
     (rule fetch_attachment_only)+

text \<open>What one update does to the adapter, apart from requests.\<close>

definition from_allowed :: "tg_env \<Rightarrow> tg_state \<Rightarrow> json \<Rightarrow> bool" where
  "from_allowed env st u \<longleftrightarrow>
     json_member ''callback_query'' u = None \<and> chat_accepted env st (update_chat u) \<and> sender_allowed st (update_sender u)"

inductive update_effect :: "tg_env \<Rightarrow> json \<Rightarrow> tg_state \<Rightarrow> tg_state \<Rightarrow> bool" for env u st where
  nothing: "only_calls st st' \<Longrightarrow> update_effect env u st st'"
| button: "json_member ''callback_query'' u = Some cb \<Longrightarrow> only_calls st st1 \<Longrightarrow>
     update_effect env u st (st1\<lparr>ts_inbound := ts_inbound st1 @ [callback_message env cb]\<rparr>)"
| answer: "from_allowed env st u \<Longrightarrow> only_calls st st1 \<Longrightarrow> key \<in> {ask_key (update_chat u) (Some (update_sender u)), ask_key (update_chat u) None} \<Longrightarrow>
     ts_pending_asks st1 key = Some a \<Longrightarrow>
     update_effect env u st (st1\<lparr>ts_update_offset := update_id u + 1, ts_pending_asks := (ts_pending_asks st1)(key := None),
       ts_replies := (ts_replies st1)(a \<mapsto> update_text u)\<rparr>)"
| deliver: "from_allowed env st u \<Longrightarrow> only_calls st st1 \<Longrightarrow>
     ts_pending_asks st1 (ask_key (update_chat u) (Some (update_sender u))) = None \<Longrightarrow>
     ts_pending_asks st1 (ask_key (update_chat u) None) = None \<Longrightarrow>
     set new \<subseteq> {message_of_update env u as} \<Longrightarrow>
     update_effect env u st (st1\<lparr>ts_update_offset := update_id u + 1, ts_inbound := ts_inbound st1 @ new\<rparr>)"

lemma process_update_effect: "process_update env receiving u st = (g, st') \<Longrightarrow> update_effect env u st st'"
proof (cases "json_member ''callback_query'' u")
  case (Some cb)
  obtain r st1 where r: "tg_do env (ApiPost ''answerCallbackQuery''
      (JObj [(''callback_query_id'', JStr (str_or_empty (json_get ''id'' cb)))])) st = (r, st1)" by fastforce
  assume "process_update env receiving u st = (g, st')"
  with Some r tg_do_only [OF r] show ?thesis
    by (auto simp: process_update_def process_callback_def dispatch_inbound_def split: if_splits
        intro: update_effect.intros)
next
  case None
  assume "process_update env receiving u st = (g, st')"
  with None have p: "process_message env receiving u st = (g, st')" by (simp add: process_update_def)
  obtain as st1 where a: "update_attachments env u st = (as, st1)" by fastforce
  then have o1: "only_calls st st1" using update_attachments_only by (metis snd_conv)
  have senders: "sender_allowed st1 x = sender_allowed st x" for x
    using only_callsD [OF o1] by (simp add: sender_allowed_def)
  show ?thesis
  proof (cases "chat_accepted env st (update_chat u) \<and> \<not> (update_text u = [] \<and> as = []) \<and> sender_allowed st (update_sender u)")
    case False
    then have "only_calls st st'" using p a o1 senders
      by (auto simp: process_message_def Let_def split: if_splits intro: only_calls_trans [OF o1 send_plain_only])
    then show ?thesis by (rule nothing)
  next
    case ok: True
    then have al: "from_allowed env st u" using None by (simp add: from_allowed_def)
    let ?st2 = "st1\<lparr>ts_update_offset := update_id u + 1\<rparr>"
    show ?thesis
    proof (cases "answer_pending (update_chat u) (update_sender u) (update_text u) ?st2")
      case (Some st3)
      then have "st' = st3" using p a ok senders by (simp add: process_message_def Let_def)
      with Some obtain key k where k: "key \<in> {ask_key (update_chat u) (Some (update_sender u)), ask_key (update_chat u) None}"
        "ts_pending_asks st1 key = Some k"
        "st' = ?st2\<lparr>ts_pending_asks := (ts_pending_asks st1)(key := None), ts_replies := (ts_replies st1)(k \<mapsto> update_text u)\<rparr>"
        by (auto simp: answer_pending_def or_else_def Let_def split: option.splits)
      show ?thesis using answer [OF al o1 k(1,2)] k(3) by simp
    next
      case n: None
      then have n2: "ts_pending_asks st1 (ask_key (update_chat u) (Some (update_sender u))) = None"
          "ts_pending_asks st1 (ask_key (update_chat u) None) = None"
        by (auto simp: answer_pending_def or_else_def Let_def split: option.splits)
      obtain new where "set new \<subseteq> {message_of_update env u as}"
          "st' = st1\<lparr>ts_update_offset := update_id u + 1, ts_inbound := ts_inbound st1 @ new\<rparr>"
      proof (cases receiving)
        case True
        with p a ok senders n that [of "[message_of_update env u as]"] show thesis
          by (simp add: process_message_def Let_def dispatch_inbound_def split: if_splits)
      next
        case False
        with p a ok senders n have "st' = ?st2"
          by (simp add: process_message_def Let_def dispatch_inbound_def split: if_splits)
        then show thesis using that [of "[]"] by (cases st1) simp
      qed
      with deliver [OF al o1 n2] show ?thesis by blast
    qed
  qed
qed


lemma effect_lists:
  "update_effect env u st st' \<Longrightarrow>
     ts_allowed_senders st' = ts_allowed_senders st \<and> ts_allowed_chats st' = ts_allowed_chats st"
  by (induction rule: update_effect.induct) (auto simp: only_callsD)

lemma effect_from_allowed:
  "update_effect env u st st' \<Longrightarrow> from_allowed env st' v = from_allowed env st v"
  by (drule effect_lists) (simp add: from_allowed_def chat_accepted_def sender_allowed_def)

section \<open>Who reaches the agent\<close>

text \<open>C0: every message of a round that reaches the agent, other than the press of a button, was sent by a
  listed sender in an accepted chat.\<close>

theorem inbound_from_allowed:
  assumes "process_updates env receiving us offset st = (r, st')"
  shows "\<exists>new. ts_inbound st' = ts_inbound st @ new
     \<and> (\<forall>m\<in>set new. im_metadata m = None \<longrightarrow>
          (\<exists>chat. im_conversation_id m = Some chat \<and> chat_accepted env st chat) \<and> sender_allowed st (im_sender_id m))"
  using assms
proof (induction us arbitrary: offset st)
  case (Cons u us)
  obtain g st1 where g: "process_update env receiving u st = (g, st1)" by fastforce
  note e = process_update_effect [OF g]
  have "\<exists>new. ts_inbound st1 = ts_inbound st @ new \<and> (\<forall>m\<in>set new. im_metadata m = None \<longrightarrow>
      (\<exists>chat. im_conversation_id m = Some chat \<and> chat_accepted env st chat) \<and> sender_allowed st (im_sender_id m))"
    using e
  proof cases
    case (button cb st2)
    then show ?thesis by (auto simp: only_callsD callback_message_def Let_def)
  next
    case (deliver st2 new)
    then show ?thesis
      by (auto simp: only_callsD message_of_update_def from_allowed_def intro!: exI [of _ new])
  qed (auto simp: only_callsD)
  then obtain n1 where n1: "ts_inbound st1 = ts_inbound st @ n1"
    "\<forall>m\<in>set n1. im_metadata m = None \<longrightarrow>
      (\<exists>chat. im_conversation_id m = Some chat \<and> chat_accepted env st chat) \<and> sender_allowed st (im_sender_id m)" by blast
  show ?case
  proof (cases g)
    case True
    with g Cons.prems have "process_updates env receiving us (update_id u + 1) st1 = (r, st')" by simp
    from Cons.IH [OF this] obtain n2 where "ts_inbound st' = ts_inbound st1 @ n2"
      "\<forall>m\<in>set n2. im_metadata m = None \<longrightarrow>
        (\<exists>chat. im_conversation_id m = Some chat \<and> chat_accepted env st1 chat) \<and> sender_allowed st1 (im_sender_id m)" by blast
    moreover have "chat_accepted env st1 c = chat_accepted env st c" "sender_allowed st1 x = sender_allowed st x" for c x
      using effect_lists [OF e] by (simp_all add: chat_accepted_def sender_allowed_def)
    ultimately show ?thesis using n1 by (auto intro!: exI [of _ "n1 @ n2"])
  next
    case False
    with g Cons.prems n1 show ?thesis by auto
  qed
qed simp

text \<open>C0: a pending question is answered only by the text of a message from a listed sender in an accepted
  chat.\<close>

theorem replies_from_allowed:
  assumes "process_updates env receiving us offset st = (r, st')"
    and "ts_replies st' a = Some t" "ts_replies st a \<noteq> Some t"
  shows "\<exists>u\<in>set us. from_allowed env st u \<and> t = update_text u"
  using assms
proof (induction us arbitrary: offset st)
  case (Cons u us)
  obtain g st1 where g: "process_update env receiving u st = (g, st1)" by fastforce
  note e = process_update_effect [OF g]
  show ?case
  proof (cases "ts_replies st1 a = Some t")
    case True
    show ?thesis using e
    proof cases
      case (answer st2 key k)
      then show ?thesis using True Cons.prems(3) by (auto simp: only_callsD split: if_splits)
    qed (use True Cons.prems(3) in \<open>auto simp: only_callsD\<close>)
  next
    case False
    then have "g" using g Cons.prems by (cases g) auto
    with g Cons.prems have "process_updates env receiving us (update_id u + 1) st1 = (r, st')" by simp
    from Cons.IH [OF this Cons.prems(2) False] show ?thesis using effect_from_allowed [OF e] by auto
  qed
qed simp

section \<open>Questions\<close>

text \<open>An update that does not come from the sender a question waits for leaves the question.\<close>

definition key_touched :: "string \<Rightarrow> json \<Rightarrow> bool" where
  "key_touched key u \<longleftrightarrow> json_member ''callback_query'' u = None
     \<and> key \<in> {ask_key (update_chat u) (Some (update_sender u)), ask_key (update_chat u) None}"

lemma effect_keeps_question:
  "update_effect env u st st' \<Longrightarrow> \<not> key_touched key u \<Longrightarrow> ts_pending_asks st' key = ts_pending_asks st key"
  by (induction rule: update_effect.induct)
     (auto simp: only_callsD key_touched_def from_allowed_def split: if_splits)

lemma updates_keep_question:
  "process_updates env receiving us offset st = (r, st') \<Longrightarrow> \<forall>u\<in>set us. \<not> key_touched key u \<Longrightarrow>
     ts_pending_asks st' key = ts_pending_asks st key \<and> (\<forall>v. from_allowed env st' v = from_allowed env st v)"
proof (induction us arbitrary: offset st)
  case (Cons u us)
  obtain g st1 where g: "process_update env receiving u st = (g, st1)" by fastforce
  note e = process_update_effect [OF g]
  have k: "ts_pending_asks st1 key = ts_pending_asks st key" using effect_keeps_question [OF e] Cons.prems by simp
  show ?case
  proof (cases g)
    case True
    then have "process_updates env receiving us (update_id u + 1) st1 = (r, st')" using g Cons.prems by simp
    from Cons.IH [OF this] Cons.prems k effect_from_allowed [OF e] show ?thesis by simp
  qed (use g Cons.prems k effect_from_allowed [OF e] in auto)
qed simp

lemma send_text_chunks_only: "only_calls st (snd (send_text_chunks env chat cs st))"
proof (induction cs arbitrary: st)
  case (Cons c cs)
  obtain r st1 where r: "tg_do env (ApiPost ''sendMessage'' (JObj (chat_text chat c @ [(''parse_mode'', JStr ''MarkdownV2'')]))) st = (r, st1)"
    by fastforce
  note o = tg_do_only [OF r]
  obtain q st2 where q: "send_plain env chat (markdown_v2_to_plain c) st1 = (q, st2)" by fastforce
  then have o2: "only_calls st st2" using send_plain_only o by (metis only_calls_trans snd_conv)
  show ?case
    using r o q o2 Cons only_calls_trans by (cases r; cases q) (auto split: if_splits)
qed simp

lemma ask_pending: 
  assumes "telegram_ask env a question target st = (Inr key, st1)" shows "ts_pending_asks st1 key = Some a"
proof -
  let ?chat = "target_chat_id env target"
  let ?key = "ask_key ?chat (ask_sender target)"
  let ?st = "st\<lparr>ts_pending_asks := (ts_pending_asks st)(?key \<mapsto> a)\<rparr>"
  obtain r st2 where r: "send_text env ?chat question ?st = (r, st2)" by fastforce
  then have "only_calls ?st st2" unfolding send_text_def using send_text_chunks_only by (metis snd_conv)
  from only_callsD(3) [OF this] have "ts_pending_asks st2 ?key = Some a" by simp
  moreover have "key = ?key \<and> st1 = st2" using assms r by (cases r) (auto simp: telegram_ask_def Let_def split: if_splits)
  ultimately show ?thesis by simp
qed

text \<open>C0: after a question was sent, whatever updates of other senders and chats come first, the message of the
  asked sender is the answer and is not handed to the agent.\<close>

theorem reply_answers_question:
  assumes "telegram_ask env a question target st = (Inr key, st1)"
    and "process_updates env True us offset st1 = ((True, n), st2)" "\<forall>v\<in>set us. \<not> key_touched key v"
    and "key = ask_key (update_chat u) (Some (update_sender u))" "from_allowed env st2 u" "update_text u \<noteq> []"
  shows "\<exists>st3. process_update env True u st2 = (True, st3)
     \<and> fst (telegram_ask_resume key a st3) = Some (Inr (update_text u)) \<and> ts_inbound st3 = ts_inbound st2"
proof -
  have p: "ts_pending_asks st1 key = Some a" by (rule ask_pending [OF assms(1)])
  then have p2: "ts_pending_asks st2 key = Some a" using updates_keep_question [OF assms(2,3)] by simp
  obtain as st where as: "update_attachments env u st2 = (as, st)" by fastforce
  then have o: "only_calls st2 st" using update_attachments_only by (metis snd_conv)
  let ?st3 = "st\<lparr>ts_update_offset := update_id u + 1, ts_pending_asks := (ts_pending_asks st)(key := None),
      ts_replies := (ts_replies st)(a \<mapsto> update_text u)\<rparr>"
  have "answer_pending (update_chat u) (update_sender u) (update_text u) (st\<lparr>ts_update_offset := update_id u + 1\<rparr>) = Some ?st3"
    using p2 only_callsD [OF o] assms(4) by (simp add: answer_pending_def or_else_def Let_def)
  then have "process_update env True u st2 = (True, ?st3)"
    using as only_callsD [OF o] assms(5,6)
    by (simp add: process_update_def process_message_def from_allowed_def sender_allowed_def Let_def)
  moreover have "fst (telegram_ask_resume key a ?st3) = Some (Inr (update_text u))" by (simp add: telegram_ask_resume_def)
  ultimately show ?thesis using only_callsD [OF o] by auto
qed

section \<open>Pauses\<close>

fun rounds :: "tg_env \<Rightarrow> bool \<Rightarrow> nat \<Rightarrow> listener \<Rightarrow> tg_state \<Rightarrow> listener \<times> tg_state" where
  "rounds env receiving 0 l st = (l, st)"
| "rounds env receiving (Suc k) l st =
     (case listen_round env receiving l st of ((_, l1), st1) \<Rightarrow> rounds env receiving k l1 st1)"

lemma failed_round:
  assumes "\<And>log. te_reply env log = NoReply"
  shows "\<exists>st1. listen_round env receiving l st
     = ((True, l\<lparr>li_errors := li_errors l + 1, li_backoff := min (li_backoff l * 2) backoff_max_secs\<rparr>), st1)"
  by (simp add: listen_round_def poll_updates_def api_json_def tg_do_def assms Let_def)

lemma failed_rounds:
  assumes "\<And>log. te_reply env log = NoReply" and "li_backoff l = min (2 ^ j) backoff_max_secs"
  shows "li_backoff (fst (rounds env receiving k l st)) = min (2 ^ (j + k)) backoff_max_secs
     \<and> li_errors (fst (rounds env receiving k l st)) = li_errors l + k \<and> li_offset (fst (rounds env receiving k l st)) = li_offset l"
  using assms(2)
proof (induction k arbitrary: l st j)
  case (Suc k)
  let ?l = "l\<lparr>li_errors := li_errors l + 1, li_backoff := min (li_backoff l * 2) backoff_max_secs\<rparr>"
  obtain st1 where st1: "listen_round env receiving l st = ((True, ?l), st1)"
    using failed_round [OF assms(1)] by blast
  have "li_backoff ?l = min (2 ^ Suc j) backoff_max_secs" using Suc.prems by (simp add: backoff_max_secs_def min_def)
  from Suc.IH [OF this, of st1] st1 show ?case by simp
qed simp

text \<open>C0: while the server does not answer, the listener after \<open>k\<close> failed polls pauses \<open>2\<^sup>k\<close> seconds, at most
  60, has counted the failures and asks again for the same updates.\<close>

theorem unreachable_server_backs_off:
  assumes "\<And>log. te_reply env log = NoReply"
  shows "fst (rounds env receiving k (listener_new st) st)
     = \<lparr>li_offset = ts_update_offset st, li_backoff = min (2 ^ k) 60, li_errors = k\<rparr>"
proof -
  have "li_backoff (listener_new st) = min (2 ^ 0) backoff_max_secs"
    by (simp add: listener_new_def backoff_initial_secs_def backoff_max_secs_def)
  from failed_rounds [OF assms this, of receiving k st] show ?thesis
    by (cases "fst (rounds env receiving k (listener_new st) st)") (simp add: listener_new_def backoff_max_secs_def)
qed

definition silent_env :: tg_env where
  "silent_env = \<lparr>te_id = ''tg'', te_token = ''t'', te_default_chat_id = ''7'', te_reply = (\<lambda>_. NoReply), te_status_text = show_nat\<rparr>"

lemma unreachable_server_backs_off_witness:
  "fst (rounds silent_env True 10 (listener_new (telegram_new [] [])) (telegram_new [] []))
     = \<lparr>li_offset = 0, li_backoff = 60, li_errors = 10\<rparr>"
proof -
  have "te_reply silent_env log = NoReply" for log by (simp add: silent_env_def)
  from unreachable_server_backs_off [OF this, of True 10 "telegram_new [] []"] show ?thesis
    by (simp add: telegram_new_def)
qed


section \<open>Messages sent\<close>

definition sends_fitting :: "tg_call \<Rightarrow> bool" where
  "sends_fitting call \<longleftrightarrow> (\<exists>chat t extra. call = ApiPost ''sendMessage'' (JObj (chat_text chat t @ extra)) \<and> char_count t \<le> telegram_max_chars)"

definition adds_fitting :: "tg_state \<Rightarrow> tg_state \<Rightarrow> bool" where
  "adds_fitting st st' \<longleftrightarrow> (\<exists>cs. ts_calls st' = ts_calls st @ cs \<and> (\<forall>c\<in>set cs. sends_fitting c))"

lemma adds_fitting_refl [simp]: "adds_fitting st st"
  by (simp add: adds_fitting_def)

lemma adds_fitting_trans: "adds_fitting a b \<Longrightarrow> adds_fitting b c \<Longrightarrow> adds_fitting a c"
  unfolding adds_fitting_def by (metis Un_iff append_assoc set_append)

lemma tg_do_fitting: "tg_do env call st = (r, st1) \<Longrightarrow> sends_fitting call \<Longrightarrow> adds_fitting st st1"
  by (auto simp: tg_do_def Let_def adds_fitting_def)

lemma chunk_sends_fitting:
  "char_count c \<le> telegram_max_chars \<Longrightarrow> sends_fitting (ApiPost ''sendMessage'' (JObj (chat_text chat c @ extra)))"
  unfolding sends_fitting_def by blast

lemma chunks_of_fit: "c \<in> set (chunks_of t) \<Longrightarrow> char_count c \<le> telegram_max_chars"
  using chunk_message_parts [of telegram_max_chars t] by (auto simp: chunks_of_def telegram_max_chars_def)

lemma send_plain_chunks_fit:
  "\<forall>c\<in>set cs. char_count c \<le> telegram_max_chars \<Longrightarrow> adds_fitting st (snd (send_plain_chunks env chat cs st))"
proof (induction cs arbitrary: st)
  case (Cons c cs)
  obtain r st1 where r: "tg_do env (ApiPost ''sendMessage'' (JObj (chat_text chat c @ []))) st = (r, st1)" by fastforce
  with Cons.prems have f: "adds_fitting st st1" using tg_do_fitting chunk_sends_fitting by (metis list.set_intros(1))
  obtain q where q: "api_status env (ApiPost ''sendMessage'' (JObj (chat_text chat c)))
      ''Telegram sendMessage (plain) request failed'' ''Telegram sendMessage plain'' st = (q, st1)"
    using r by (simp add: api_status_def)
  show ?case using q f Cons adds_fitting_trans [OF f] by (cases q) auto
qed simp

lemma send_text_chunks_fit:
  "\<forall>c\<in>set cs. char_count c \<le> telegram_max_chars \<Longrightarrow> adds_fitting st (snd (send_text_chunks env chat cs st))"
proof (induction cs arbitrary: st)
  case (Cons c cs)
  obtain r st1 where r: "tg_do env (ApiPost ''sendMessage'' (JObj (chat_text chat c @ [(''parse_mode'', JStr ''MarkdownV2'')]))) st = (r, st1)"
    by fastforce
  with Cons.prems have f: "adds_fitting st st1" using tg_do_fitting chunk_sends_fitting by (metis list.set_intros(1))
  obtain q st2 where q: "send_plain env chat (markdown_v2_to_plain c) st1 = (q, st2)" by fastforce
  have "adds_fitting st1 st2"
    using send_plain_chunks_fit [of "chunks_of (markdown_v2_to_plain c)" st1 env chat] chunks_of_fit q
    by (auto simp: send_plain_def)
  then have f2: "adds_fitting st st2" by (rule adds_fitting_trans [OF f])
  show ?case using r f q f2 Cons adds_fitting_trans [OF f] adds_fitting_trans [OF f2] by (cases r; cases q) auto
qed simp

text \<open>C0: whatever the text and whatever the server answers, every message sent for a text fits the limit of
  4096 characters, the plain versions that replace refused ones too.\<close>

theorem sent_messages_fit:
  "\<exists>cs. ts_calls (snd (send_text env chat t st)) = ts_calls st @ cs \<and> (\<forall>c\<in>set cs. sends_fitting c)"
  using send_text_chunks_fit [of "chunks_of t" st env chat] chunks_of_fit
  by (auto simp: send_text_def adds_fitting_def)

section \<open>The final message\<close>

fun stream_tokens :: "tg_env \<Rightarrow> outbound_target option \<Rightarrow> (nat \<times> string) list \<Rightarrow> tg_state \<Rightarrow> tg_state" where
  "stream_tokens env target [] st = st"
| "stream_tokens env target ((now, token) # ts) st =
     stream_tokens env target ts (snd (telegram_send_event env now (StreamToken token) target st))"

lemma draft_only: "only_calls st (snd (send_message_draft env chat t st))"
  by (simp add: send_message_draft_def api_status_only)

lemma stream_token_buffer:
  "ts_token_buffers (on_stream_token env now chat key token st) = ts_token_buffers (buffer_token key token st)"
  using only_callsD(6) [OF draft_only]
  by (simp add: on_stream_token_def Let_def split: option.split)

lemma stream_tokens_buffer:
  "ts_token_buffers st (stream_key env target) = Some b \<Longrightarrow>
     ts_token_buffers (stream_tokens env target ts st) (stream_key env target) = Some (b @ concat (map snd ts))"
proof (induction ts arbitrary: st b)
  case (Cons t ts)
  obtain now token where t: "t = (now, token)" by fastforce
  let ?st = "snd (telegram_send_event env now (StreamToken token) target st)"
  have "ts_token_buffers ?st (stream_key env target) = Some (b @ token)"
    using Cons.prems by (simp add: telegram_send_event_def Let_def stream_token_buffer buffer_token_def)
  from Cons.IH [OF this] t show ?case by simp
qed simp

lemma stream_tokens_fresh:
  assumes "ts_token_buffers st (stream_key env target) = None" "ts \<noteq> []"
  shows "ts_token_buffers (stream_tokens env target ts st) (stream_key env target) = Some (concat (map snd ts))"
proof -
  obtain now token rest where ts: "ts = (now, token) # rest" using assms by (cases ts) auto
  have "ts_token_buffers (snd (telegram_send_event env now (StreamToken token) target st)) (stream_key env target) = Some token"
    using assms by (simp add: telegram_send_event_def Let_def stream_token_buffer buffer_token_def)
  from stream_tokens_buffer [OF this] ts show ?thesis by simp
qed

lemma drop_tool_status_buffers: "ts_token_buffers (drop_tool_status env chat st) = ts_token_buffers st"
proof -
  have "only_calls s (snd (delete_message env chat m s))" for m s
    by (simp add: delete_message_def discard_def api_json_only)
  from only_callsD(6) [OF this] show ?thesis
    by (simp add: drop_tool_status_def set_tools_def split: option.split)
qed

text \<open>C0: when the final event has no text, the message sent is all the text streamed to that conversation since
  its buffer was last dropped.\<close>

theorem streamed_text_is_sent:
  assumes "ts_token_buffers st (stream_key env target) = None" "concat (map snd tokens) \<noteq> []"
    and "\<And>t. target = Some t \<Longrightarrow> \<not> ot_status_update t"
  shows "\<exists>st1. ts_token_buffers st1 (stream_key env target) = None
     \<and> telegram_send_event env now (Done [] a b c d) target (stream_tokens env target tokens st)
        = (map_sum id (\<lambda>_. default_handle) (fst (send_text env (target_chat_id env target) (concat (map snd tokens)) st1)),
           snd (send_text env (target_chat_id env target) (concat (map snd tokens)) st1))"
proof -
  let ?key = "stream_key env target" and ?chat = "target_chat_id env target" and ?all = "concat (map snd tokens)"
  let ?st = "drop_tool_status env ?chat (stream_tokens env target tokens st)"
  let ?st1 = "?st\<lparr>ts_token_buffers := (ts_token_buffers ?st)(?key := None)\<rparr>"
  have "tokens \<noteq> []" using assms(2) by auto
  from stream_tokens_fresh [OF assms(1) this] have "ts_token_buffers ?st ?key = Some ?all"
    by (simp add: drop_tool_status_buffers)
  then have "on_done env now ?chat ?key (case target of None \<Rightarrow> False | Some t \<Rightarrow> ot_status_update t) []
      (stream_tokens env target tokens st) = send_text env ?chat ?all ?st1"
    using assms(2,3) by (auto simp: on_done_def Let_def done_message_def nonempty_def split: option.split)
  then have "telegram_send_event env now (Done [] a b c d) target (stream_tokens env target tokens st)
        = (map_sum id (\<lambda>_. default_handle) (fst (send_text env ?chat ?all ?st1)), snd (send_text env ?chat ?all ?st1))"
    by (simp add: telegram_send_event_def Let_def case_prod_beta)
  then show ?thesis by (intro exI [of _ ?st1]) simp
qed

section \<open>The button press\<close>

definition press :: json where
  "press = JObj [(''update_id'', JNum ''5''), (''callback_query'',
     JObj [(''id'', JStr ''q''), (''data'', JStr ''approve''), (''from'', JObj [(''id'', JNum ''66'')]),
           (''message'', JObj [(''chat'', JObj [(''id'', JNum ''99'')])])])]"

text \<open>C0: the press of a button by a sender who is on neither list reaches the agent.\<close>

theorem button_press_bypasses_lists:
  "\<not> chat_accepted silent_env (telegram_new [''1''] [''2'']) ''99'' \<and> \<not> sender_allowed (telegram_new [''1''] [''2'']) ''66''
     \<and> map im_text (ts_inbound (snd (process_update silent_env True press (telegram_new [''1''] [''2''])))) = [''approve'']"
  by (simp add: chat_accepted_def sender_allowed_def telegram_new_def silent_env_def process_update_def press_def
      process_callback_def tg_do_def Let_def str_or_empty_def json_str_def dispatch_inbound_def
      callback_message_def)


section \<open>Instances\<close>

definition ok_env :: tg_env where
  "ok_env = \<lparr>te_id = ''tg'', te_token = ''t'', te_default_chat_id = ''7'', te_reply = (\<lambda>_. TgReply 200 [] None), te_status_text = show_nat\<rparr>"

definition yes_update :: json where
  "yes_update = JObj [(''update_id'', JNum ''6''), (''message'',
     JObj [(''chat'', JObj [(''id'', JNum ''7'')]), (''from'', JObj [(''id'', JNum ''2'')]), (''text'', JStr ''yes'')])]"

definition asking :: outbound_target where
  "asking = \<lparr>ot_recipient_id = Some ''7'', ot_sender_id = Some ''2'', ot_thread_id = None, ot_session_id = None,
     ot_reply_to_message_id = None, ot_request_id = None, ot_status_update = False\<rparr>"

lemma yes_update_parts:
  "update_chat yes_update = ''7''" "update_sender yes_update = ''2''" "update_text yes_update = ''yes''"
  "json_member ''callback_query'' yes_update = None"
  by code_simp+

lemma chunks_of_short: "char_count t \<le> telegram_max_chars \<Longrightarrow> chunks_of t = [t]"
  by (simp add: chunks_of_def chunk_message_def)

lemma inbound_from_allowed_witness:
  "\<exists>new. ts_inbound (snd (process_updates ok_env True [press, yes_update] 0 (telegram_new [] [''2''])))
       = ts_inbound (telegram_new [] [''2'']) @ new
     \<and> (\<forall>m\<in>set new. im_metadata m = None \<longrightarrow>
          (\<exists>chat. im_conversation_id m = Some chat \<and> chat_accepted ok_env (telegram_new [] [''2'']) chat)
          \<and> sender_allowed (telegram_new [] [''2'']) (im_sender_id m))"
  by (rule inbound_from_allowed [of ok_env True "[press, yes_update]" 0 "telegram_new [] [''2'']"]) (rule surjective_pairing)

definition asked :: tg_state where
  "asked = (telegram_new [] [''2''])\<lparr>ts_pending_asks := (\<lambda>_. None)(''chat:7:sender:2'' \<mapsto> 1)\<rparr>"

lemma asked_answered: "ts_replies (snd (process_updates ok_env True [yes_update] 0 asked)) 1 = Some ''yes''"
  by code_simp

lemma replies_from_allowed_witness:
  "\<exists>u\<in>set [yes_update]. from_allowed ok_env asked u \<and> ''yes'' = update_text u"
  by (rule replies_from_allowed [OF surjective_pairing asked_answered]) (simp add: asked_def telegram_new_def)

lemma reply_answers_question_witness:
  "\<exists>key st1 st3. telegram_ask ok_env 1 ''go?'' (Some asking) (telegram_new [] [''2'']) = (Inr key, st1)
     \<and> process_update ok_env True yes_update st1 = (True, st3)
     \<and> fst (telegram_ask_resume key 1 st3) = Some (Inr ''yes'')"
proof -
  have c: "chunks_of ''go?'' = [''go?'']" by (rule chunks_of_short) code_simp
  obtain st1 where a: "telegram_ask ok_env 1 ''go?'' (Some asking) (telegram_new [] [''2'']) = (Inr ''chat:7:sender:2'', st1)"
      "ts_allowed_senders st1 = [''2'']" "ts_allowed_chats st1 = []"
    by (simp add: telegram_ask_def asking_def ask_sender_def nonempty_def target_chat_id_def ask_key_def Let_def
        telegram_new_def send_text_def c ok_env_def tg_do_def status_ok_def)
  have u: "process_updates ok_env True [] 0 st1 = ((True, 0), st1)" by simp
  have f: "from_allowed ok_env st1 yes_update"
    using a by (simp add: from_allowed_def yes_update_parts chat_accepted_def sender_allowed_def ok_env_def)
  have k: "''chat:7:sender:2'' = ask_key (update_chat yes_update) (Some (update_sender yes_update))"
    by (simp add: yes_update_parts ask_key_def)
  from reply_answers_question [OF a(1) u _ k f] a(1) show ?thesis by (auto simp: yes_update_parts)
qed

lemma streamed_text_is_sent_witness:
  "\<exists>st1. ts_token_buffers st1 (stream_key ok_env (Some asking)) = None
     \<and> telegram_send_event ok_env 9 (Done [] 0 0 0 0) (Some asking)
          (stream_tokens ok_env (Some asking) [(1, ''Hel''), (2, ''lo'')] (telegram_new [] []))
        = (map_sum id (\<lambda>_. default_handle) (fst (send_text ok_env (target_chat_id ok_env (Some asking)) ''Hello'' st1)),
           snd (send_text ok_env (target_chat_id ok_env (Some asking)) ''Hello'' st1))"
  using streamed_text_is_sent [of "telegram_new [] []" ok_env "Some asking" "[(1, ''Hel''), (2, ''lo'')]" 9 0 0 0 0]
  by (simp add: telegram_new_def asking_def)

end
