(* ===== verification/Scope.thy ===== *)
theory Scope
  imports File_System "HOL-Library.List_Lexorder" "HOL-Library.Char_ord"
begin

text \<open>
  The directories an agent owns (\<open>sandbox/scope.rs\<close>): names of plugins and skills made fit for
  the file system, and the path of each kind of target below the agent's root.  The home directory
  is a parameter.
\<close>

section \<open>Paths and directories\<close>

text \<open>\<open>Path::join\<close>: an absolute operand replaces the path.\<close>

definition path_join :: "fs_path \<Rightarrow> string \<Rightarrow> fs_path" where
  "path_join p s =
     (let q = parse_path s in
      if fp_absolute q then q else p\<lparr>fp_components := fp_components p @ fp_components q\<rparr>)"

text \<open>\<open>read_dir\<close>: the names of the entries, in the order of the tree.\<close>

definition read_dir :: "fs_tree \<Rightarrow> location \<Rightarrow> fs_path \<Rightarrow> io_error + string list" where
  "read_dir fs cwd p =
     (case lookup fs cwd False p of
        Inl e \<Rightarrow> Inl e
      | Inr l \<Rightarrow>
          if is_dir_at fs l then Inr (map last (filter (\<lambda>k. k \<noteq> [] \<and> butlast k = l) (map fst fs)))
          else Inl NotADirectory)"

definition is_file :: "fs_tree \<Rightarrow> location \<Rightarrow> fs_path \<Rightarrow> bool" where
  "is_file fs cwd p \<longleftrightarrow>
     (case lookup fs cwd False p of Inr l \<Rightarrow> (\<exists>s. node_at fs l = Some (FileNode s)) | Inl _ \<Rightarrow> False)"

lemma is_file_code [code]:
  "is_file fs cwd p =
     (case lookup fs cwd False p of
        Inr l \<Rightarrow> (case node_at fs l of Some (FileNode _) \<Rightarrow> True | _ \<Rightarrow> False) | Inl _ \<Rightarrow> False)"
  by (auto simp: is_file_def split: sum.splits option.splits fs_node.splits)

section \<open>Names\<close>

definition under :: char where "under = CHR ''_''"

definition scope_piece :: "(char \<Rightarrow> bool) \<Rightarrow> string \<Rightarrow> string" where
  "scope_piece keep u = (case u of [c] \<Rightarrow> if keep c then [lower_char c] else [under] | _ \<Rightarrow> [under])"

definition lower_or_under :: "(char \<Rightarrow> bool) \<Rightarrow> string \<Rightarrow> string" where
  "lower_or_under keep s =
     trim_matches under (concat (map (scope_piece keep) (chars s)))"

definition normalize_scope_id :: "string \<Rightarrow> string" where
  "normalize_scope_id s = lower_or_under is_ascii_alnum s"

definition normalize_skill_dir_name :: "string \<Rightarrow> string" where
  "normalize_skill_dir_name s = lower_or_under (\<lambda>c. is_ascii_alnum c \<or> c = CHR ''-'' \<or> c = under) s"

section \<open>Targets\<close>

datatype scope_target =
    AgentRoot
  | AgentSkills
  | PluginsRoot
  | PluginRoot string
  | PluginSkills string
  | PluginState string
  | PluginArtifacts string
  | PluginDeploy string
  | PluginScripts string

datatype scope_error = NoHome | NoAlphanumeric | ScopeIo io_error

definition agent_root :: "fs_path option \<Rightarrow> string \<Rightarrow> scope_error + fs_path" where
  "agent_root home agent =
     (case home of
        None \<Rightarrow> Inl NoHome
      | Some h \<Rightarrow> Inr (path_join (path_join (path_join h ''.that-agent'') ''agents'') agent))"

definition plugins_root :: "fs_path option \<Rightarrow> string \<Rightarrow> scope_error + fs_path" where
  "plugins_root home agent = bind_res (agent_root home agent) (\<lambda>r. Inr (path_join r ''plugins''))"

definition agent_skills_root :: "fs_path option \<Rightarrow> string \<Rightarrow> scope_error + fs_path" where
  "agent_skills_root home agent = bind_res (agent_root home agent) (\<lambda>r. Inr (path_join r ''skills''))"

definition plugin_root :: "fs_path option \<Rightarrow> string \<Rightarrow> string \<Rightarrow> scope_error + fs_path" where
  "plugin_root home agent plugin_id =
     (let n = normalize_scope_id plugin_id in
      if n = [] then Inl NoAlphanumeric else bind_res (plugins_root home agent) (\<lambda>r. Inr (path_join r n)))"

definition resolve_scope_path :: "fs_path option \<Rightarrow> string \<Rightarrow> scope_target \<Rightarrow> scope_error + fs_path" where
  "resolve_scope_path home agent target =
     bind_res (agent_root home agent) (\<lambda>root.
       let below = (\<lambda>i d. bind_res (plugin_root home agent i) (\<lambda>r. Inr (path_join r d))) in
       case target of
         AgentRoot \<Rightarrow> Inr root
       | AgentSkills \<Rightarrow> Inr (path_join root ''skills'')
       | PluginsRoot \<Rightarrow> Inr (path_join root ''plugins'')
       | PluginRoot i \<Rightarrow> plugin_root home agent i
       | PluginSkills i \<Rightarrow> below i ''skills''
       | PluginState i \<Rightarrow> below i ''state''
       | PluginArtifacts i \<Rightarrow> below i ''artifacts''
       | PluginDeploy i \<Rightarrow> below i ''deploy''
       | PluginScripts i \<Rightarrow> below i ''scripts'')"

definition ensure_scope_path ::
  "fs_path option \<Rightarrow> string \<Rightarrow> scope_target \<Rightarrow> location \<Rightarrow> fs_tree \<Rightarrow> (scope_error + fs_path) \<times> fs_tree" where
  "ensure_scope_path home agent target cwd fs =
     (case resolve_scope_path home agent target of
        Inl e \<Rightarrow> (Inl e, fs)
      | Inr p \<Rightarrow>
          (case create_dir_all p cwd fs of
             (Inl e, fs1) \<Rightarrow> (Inl (ScopeIo e), fs1)
           | (Inr _, fs1) \<Rightarrow> (Inr p, fs1)))"

section \<open>Names stay single components\<close>

lemma trim_matches_set: "set (trim_matches c s) \<subseteq> set s"
  unfolding trim_matches_def by (metis order_trans set_dropWhileD set_rev subsetI)

lemma lower_char_alnum: "is_ascii_alnum c \<Longrightarrow> is_ascii_alnum (lower_char c)"
proof (cases "is_upper c")
  case True
  then have "of_char (lower_char c) = (of_char c + 32 :: nat)"
    by (simp add: lower_char_def is_upper_def Let_def)
  with True show ?thesis by (simp add: is_ascii_alnum_def is_lower_def is_upper_def Let_def)
qed (simp add: lower_char_def)

definition scope_char :: "char \<Rightarrow> bool" where
  "scope_char c \<longleftrightarrow> is_ascii_alnum c \<or> c = under"

lemma normalize_scope_id_chars: "c \<in> set (normalize_scope_id s) \<Longrightarrow> scope_char c"
proof -
  assume "c \<in> set (normalize_scope_id s)"
  then have "c \<in> set (concat (map (scope_piece is_ascii_alnum) (chars s)))"
    unfolding normalize_scope_id_def lower_or_under_def using trim_matches_set by blast
  then obtain u where "c \<in> set (scope_piece is_ascii_alnum u)" by auto
  then show ?thesis
    by (cases u; cases "tl u") (auto simp: scope_piece_def scope_char_def lower_char_alnum split: if_splits)
qed

lemma scope_char_plain: "\<not> scope_char (CHR ''/'')" "\<not> scope_char (CHR ''.'')"
  by (code_simp)+

lemma split_char_absent: "c \<notin> set s \<Longrightarrow> split_char c s = [s]"
  by (induction s) (auto simp: split_char.simps split: list.splits)

lemma parse_path_single:
  assumes "s \<noteq> []" "\<forall>c\<in>set s. scope_char c"
  shows "parse_path s = \<lparr>fp_absolute = False, fp_components = [s]\<rparr>"
proof -
  have n: "CHR ''/'' \<notin> set s" "CHR ''.'' \<notin> set s" using assms(2) scope_char_plain by blast+
  then have "s \<noteq> ''.''" "\<not> prefix ''/'' s" by (auto simp: prefix_def)
  with n assms(1) show ?thesis by (simp add: parse_path_def split_char_absent)
qed

text \<open>C0: whatever a plugin is called, its directory is a single entry of the agent's plugin directory.\<close>

theorem plugin_root_is_entry:
  assumes "plugin_root home agent plugin_id = Inr p"
  shows "\<exists>root. plugins_root home agent = Inr root
     \<and> p = root\<lparr>fp_components := fp_components root @ [normalize_scope_id plugin_id]\<rparr>
     \<and> normalize_scope_id plugin_id \<noteq> ''..''"
proof -
  let ?n = "normalize_scope_id plugin_id"
  have n: "?n \<noteq> []" and r: "bind_res (plugins_root home agent) (\<lambda>r. Inr (path_join r ?n)) = Inr p"
    using assms by (auto simp: plugin_root_def Let_def split: if_splits)
  have c: "\<forall>c\<in>set ?n. scope_char c" using normalize_scope_id_chars by blast
  from r obtain root where "plugins_root home agent = Inr root" "path_join root ?n = p" by (auto elim: bind_res_InrD)
  moreover have "?n \<noteq> ''..''" using c scope_char_plain(2) by auto
  ultimately show ?thesis by (auto simp: path_join_def parse_path_single [OF n c] Let_def)
qed

definition demo_home :: fs_path where
  "demo_home = \<lparr>fp_absolute = True, fp_components = [''h'']\<rparr>"

lemma plugin_root_is_entry_witness:
  "\<exists>root. plugins_root (Some demo_home) ''a'' = Inr root
     \<and> \<lparr>fp_absolute = True, fp_components = [''h'', ''.that-agent'', ''agents'', ''a'', ''plugins'', ''x_y'']\<rparr>
         = root\<lparr>fp_components := fp_components root @ [normalize_scope_id ''../X-y'']\<rparr>
     \<and> normalize_scope_id ''../X-y'' \<noteq> ''..''"
  by (rule plugin_root_is_entry) code_simp

end
