(* ===== verification/Skills.thy ===== *)
theory Skills
  imports Scope
begin

text \<open>
  Skills (\<open>skills/mod.rs\<close>) and the tool that reads them (\<open>tool_dispatch/skill.rs\<close>): the front matter of
  a \<open>SKILL.md\<close>, eligibility, discovery in a directory, the catalogue of the preamble, deletion, and
  the look-up of a skill and of a file inside it.  The environment's variables are a parameter.
\<close>

section \<open>Front matter\<close>

record skill_metadata =
  sm_bootstrap :: bool
  sm_envvars :: "string list"
  sm_always :: bool
  sm_version :: "string option"

definition skill_metadata_default :: skill_metadata where
  "skill_metadata_default = \<lparr>sm_bootstrap = False, sm_envvars = [], sm_always = False, sm_version = None\<rparr>"

record skill_meta =
  sk_name :: string
  sk_description :: string
  sk_path :: fs_path
  sk_metadata :: skill_metadata
  sk_body :: "string option"
  sk_references :: "string list"

record front_state =
  fr_name :: "string option"
  fr_description :: "string option"
  fr_metadata :: skill_metadata
  fr_in_metadata :: bool
  fr_in_envvars :: bool

definition front_init :: front_state where
  "front_init =
     \<lparr>fr_name = None, fr_description = None, fr_metadata = skill_metadata_default, fr_in_metadata = False,
      fr_in_envvars = False\<rparr>"

definition metadata_key :: "string \<Rightarrow> front_state \<Rightarrow> front_state" where
  "metadata_key t st =
     (let st1 = st\<lparr>fr_in_envvars := False\<rparr>; m = fr_metadata st1 in
      if t = ''envvars:'' then st1\<lparr>fr_in_envvars := True\<rparr>
      else case strip_prefix ''bootstrap:'' t of
        Some v \<Rightarrow> st1\<lparr>fr_metadata := m\<lparr>sm_bootstrap := (trim v = ''true'')\<rparr>\<rparr>
      | None \<Rightarrow>
          (case strip_prefix ''always:'' t of
             Some v \<Rightarrow> st1\<lparr>fr_metadata := m\<lparr>sm_always := (trim v = ''true'')\<rparr>\<rparr>
           | None \<Rightarrow>
               (case strip_prefix ''version:'' t of
                  Some v \<Rightarrow> if trim v \<noteq> [] then st1\<lparr>fr_metadata := m\<lparr>sm_version := Some (trim v)\<rparr>\<rparr> else st1
                | None \<Rightarrow> st1)))"

definition front_line :: "front_state \<Rightarrow> string \<Rightarrow> front_state" where
  "front_line st line =
     (if trim line = [] then st
      else
        (let indent = length (takeWhile (\<lambda>c. c = CHR '' '') line); t = trim line in
         if indent = 0
         then (let st1 = st\<lparr>fr_in_metadata := False, fr_in_envvars := False\<rparr> in
               case strip_prefix ''name:'' t of
                 Some v \<Rightarrow> st1\<lparr>fr_name := Some (trim v)\<rparr>
               | None \<Rightarrow>
                   (case strip_prefix ''description:'' t of
                      Some v \<Rightarrow> st1\<lparr>fr_description := Some (trim v)\<rparr>
                    | None \<Rightarrow> if t = ''metadata:'' then st1\<lparr>fr_in_metadata := True\<rparr> else st1))
         else if fr_in_metadata st \<and> indent = 2 then metadata_key t st
         else if fr_in_envvars st \<and> indent \<ge> 4
         then (case strip_prefix ''-'' t of
                 Some item \<Rightarrow>
                   if trim item \<noteq> []
                   then st\<lparr>fr_metadata := (fr_metadata st)\<lparr>sm_envvars := sm_envvars (fr_metadata st) @ [trim item]\<rparr>\<rparr>
                   else st
               | None \<Rightarrow> st)
         else st))"

definition close_mark :: string where "close_mark = [newline] @ ''---''"

definition parse_frontmatter :: "string \<Rightarrow> (string \<times> string \<times> skill_metadata) option" where
  "parse_frontmatter content =
     (let c = trim_start content in
      if \<not> prefix ''---'' c then None
      else (case find_sub close_mark (drop 3 c) of
              None \<Rightarrow> None
            | Some i \<Rightarrow>
                (let st = foldl front_line front_init (str_lines (take i (drop 3 c))) in
                 case (fr_name st, fr_description st) of
                   (Some n, Some d) \<Rightarrow> if n \<noteq> [] \<and> d \<noteq> [] then Some (n, d, fr_metadata st) else None
                 | _ \<Rightarrow> None)))"

definition strip_frontmatter :: "string \<Rightarrow> string" where
  "strip_frontmatter content =
     (let c = trim_start content in
      if \<not> prefix ''---'' c then content
      else (case find_sub close_mark (drop 3 c) of
              Some i \<Rightarrow> dropWhile (\<lambda>x. x = newline) (drop (i + 4) (drop 3 c))
            | None \<Rightarrow> content))"

section \<open>Eligibility\<close>

definition skill_env_var_name :: "string \<Rightarrow> string" where
  "skill_env_var_name spec0 =
     (let spec = trim spec0 in
      case find_sub ''${'' spec of
        Some i \<Rightarrow>
          (case find_sub ''}'' (drop (i + 2) spec) of Some j \<Rightarrow> take j (drop (i + 2) spec) | None \<Rightarrow> spec)
      | None \<Rightarrow> spec)"

definition check_eligibility :: "(string \<Rightarrow> string option) \<Rightarrow> skill_metadata \<Rightarrow> string + unit" where
  "check_eligibility env m =
     (let missing = filter (\<lambda>v. env v = None) (map skill_env_var_name (sm_envvars m)) in
      if missing \<noteq> [] then Inl (''missing environment variables: '' @ join '', '' missing) else Inr ())"

section \<open>Discovery\<close>

text \<open>\<open>Path::file_stem\<close> of a name.\<close>

definition file_stem :: "string \<Rightarrow> string" where
  "file_stem n =
     (let ps = split_char (CHR ''.'') n in
      if length ps < 2 \<or> join ''.'' (butlast ps) = [] then n else join ''.'' (butlast ps))"

definition scan_references :: "fs_tree \<Rightarrow> location \<Rightarrow> fs_path \<Rightarrow> string list" where
  "scan_references fs cwd dir =
     (let refs = path_join dir ''references'' in
      case read_dir fs cwd refs of
        Inl _ \<Rightarrow> []
      | Inr names \<Rightarrow> sort (map file_stem (filter (\<lambda>n. is_file fs cwd (path_join refs n)) names)))"

definition discover_one :: "(string \<Rightarrow> string option) \<Rightarrow> fs_tree \<Rightarrow> location \<Rightarrow> fs_path \<Rightarrow> skill_meta option" where
  "discover_one env fs cwd path =
     (let f = path_join path ''SKILL.md'' in
      if \<not> is_dir fs cwd path \<or> \<not> path_exists fs cwd f then None
      else (case read_to_string fs cwd f of
              Inl _ \<Rightarrow> None
            | Inr content \<Rightarrow>
                (case parse_frontmatter content of
                   None \<Rightarrow> None
                 | Some (n, d, m) \<Rightarrow>
                     (case check_eligibility env m of
                        Inl _ \<Rightarrow> None
                      | Inr _ \<Rightarrow>
                          Some \<lparr>sk_name = n, sk_description = d, sk_path = f, sk_metadata = m,
                            sk_body = (if sm_always m then Some (strip_frontmatter content) else None),
                            sk_references = scan_references fs cwd path\<rparr>))))"

definition discover_skills_local :: "(string \<Rightarrow> string option) \<Rightarrow> fs_tree \<Rightarrow> location \<Rightarrow> fs_path \<Rightarrow> skill_meta list" where
  "discover_skills_local env fs cwd dir =
     (case read_dir fs cwd dir of
        Inl _ \<Rightarrow> []
      | Inr names \<Rightarrow> sort_key sk_name (List.map_filter (\<lambda>n. discover_one env fs cwd (path_join dir n)) names))"

section \<open>The catalogue of the preamble\<close>

definition skills_intro :: "string \<Rightarrow> string" where
  "skills_intro skills_path =
    ''Your skills directory: `'' @ skills_path @
    ''`  '' @ [newline] @ ''New or updated skill files are hot-reloaded automatically '' @
    [CHR 0xE2, CHR 0x80, CHR 0x94] @ '' no restart needed.  '' @ [newline] @
    ''Skill naming must be deterministic and kebab-case. If the user does not provide a name, derive it from the core capability phrase and keep role nouns stable (e.g. `JSON formatter` -> `json-formatter`, `task manager` -> `task-manager`).  '' @
    [newline] @
    ''Do not substitute role nouns with alternates like `formatting` when `formatter` is implied.'' @
    [newline, newline] @ ''### Installing skills'' @ [newline, newline] @
    ''When the user provides a repository URL or download link for a skill, **clone or download it** into the skills directory '' @
    [CHR 0xE2, CHR 0x80, CHR 0x94] @
    '' never manually recreate the content with `fs_write`. Use `shell_exec` to run the appropriate command (e.g. clone the repository directly into the skills path). Only use `fs_write` for skills you are authoring from scratch.'' @
    [newline, newline]"

definition reading_skills :: string where
  "reading_skills =
    ''### Reading skills'' @ [newline, newline] @ ''**Always use `read_skill(name)` to read skill content** '' @
    [CHR 0xE2, CHR 0x80, CHR 0x94] @
    '' never use `fs_cat` or other file-reading tools on skill files. `read_skill` returns the skill body along with available reference files for progressive disclosure, which raw file reads cannot provide.'' @
    [newline, newline] @
    ''Use `list_skills()` to discover all available skills at any time. **Before starting a task, scan this list and `read_skill(name)` any skill whose description matches what you are about to do.** If an installed skill appears relevant to the problem domain, framework, or implementation style the user is asking for, read it before choosing libraries, architecture, or workflows. The tool returns the skill body and lists any reference files available for deeper progressive loading. Call `read_skill` only once per skill per conversation '' @
    [CHR 0xE2, CHR 0x80, CHR 0x94] @
    '' the content is already in your context after the first load. Only reload a skill if your context was compacted and the content is no longer visible.'' @
    [newline, newline]"

definition always_section :: "skill_meta \<Rightarrow> string" where
  "always_section s =
     (let body = (case sk_body s of Some b \<Rightarrow> b | None \<Rightarrow> []) in
      ''### '' @ sk_name s @ [newline] @ body @ (if suffix [newline] body then [] else [newline])
      @ [newline] @ ''---'' @ [newline, newline])"

definition catalog_line :: "skill_meta \<Rightarrow> string" where
  "catalog_line s =
     (let n = length (sk_references s);
          hint = (if n = 0 then [] else if n \<le> 5 then '' (refs: '' @ join '', '' (sk_references s) @ '')''
                  else '' ('' @ show_nat n @ '' refs)'')
      in ''- **'' @ sk_name s @ ''**: '' @ sk_description s @ hint @ [newline])"

definition format_skill_preamble :: "skill_meta list \<Rightarrow> string \<Rightarrow> string" where
  "format_skill_preamble skills skills_path =
     (let intro = ''## Skills'' @ [newline, newline] @ skills_intro skills_path;
          always = filter (\<lambda>s. sm_always (sk_metadata s)) skills;
          catalog = filter (\<lambda>s. \<not> sm_always (sk_metadata s)) skills
      in if skills = [] then intro @ ''No skills installed yet.'' @ [newline, newline]
         else intro @ concat (map always_section always)
           @ (if catalog = [] then []
              else reading_skills @ ''### Available Skills'' @ [newline, newline] @ concat (map catalog_line catalog)
                @ [newline]))"

section \<open>Creating, deleting and reading\<close>

definition skills_dir_local :: "fs_path option \<Rightarrow> string \<Rightarrow> fs_path option" where
  "skills_dir_local home agent =
     map_option (\<lambda>h. path_join (path_join (path_join (path_join h ''.that-agent'') ''agents'') agent) ''skills'') home"

definition skills_dir_sandbox :: "string \<Rightarrow> string" where
  "skills_dir_sandbox agent = ''/home/agent/.that-agent/agents/'' @ agent @ ''/skills''"

definition skill_template :: "string \<Rightarrow> string \<Rightarrow> string" where
  "skill_template n body =
     ''---'' @ [newline] @ ''name: '' @ n @ [newline] @ ''description: '' @ n @ '' skill'' @ [newline] @ ''metadata:'' @ [newline]
     @ ''  bootstrap: false'' @ [newline] @ ''  always: false'' @ [newline] @ ''---'' @ [newline, newline] @ body @ [newline]"

datatype skill_error =
    EmptySkillName
  | SkillScope scope_error
  | SkillExists string fs_path
  | SkillIo io_error
  | SkillNotFound string

definition create_skill_scaffold_local ::
  "fs_path option \<Rightarrow> string \<Rightarrow> string \<Rightarrow> bool \<Rightarrow> location \<Rightarrow> fs_tree \<Rightarrow> (skill_error + fs_path) \<times> fs_tree" where
  "create_skill_scaffold_local home agent name force cwd fs =
     (let n = normalize_skill_dir_name name in
      if n = [] then (Inl EmptySkillName, fs)
      else case ensure_scope_path home agent AgentSkills cwd fs of
        (Inl e, fs1) \<Rightarrow> (Inl (SkillScope e), fs1)
      | (Inr root, fs1) \<Rightarrow>
          (case create_dir_all (path_join root n) cwd fs1 of
             (Inl e, fs2) \<Rightarrow> (Inl (SkillIo e), fs2)
           | (Inr _, fs2) \<Rightarrow>
               (let p = path_join (path_join root n) ''SKILL.md'' in
                if path_exists fs2 cwd p \<and> \<not> force then (Inl (SkillExists n p), fs2)
                else (case write_file p (skill_template n ''Add skill instructions here.'') cwd fs2 of
                        (Inl e, fs3) \<Rightarrow> (Inl (SkillIo e), fs3)
                      | (Inr _, fs3) \<Rightarrow> (Inr p, fs3)))))"

text \<open>
  \<open>remove_dir_all\<close> of a path.  A link in the last place is removed itself; when the last component is
  a dot name everything below goes and the removal of the directory itself fails.
\<close>

definition lookup_entry :: "fs_tree \<Rightarrow> location \<Rightarrow> fs_path \<Rightarrow> io_error + location" where
  "lookup_entry fs cwd p =
     (if fp_components p = [] \<or> last (fp_components p) = ''..'' then lookup fs cwd False p
      else let q = p\<lparr>fp_components := butlast (fp_components p)\<rparr> in
        bind_res (if empty_path q then Inr cwd else lookup fs cwd False q) (\<lambda>l. Inr (l @ [last (fp_components p)])))"

definition remove_path_all :: "fs_path \<Rightarrow> bool \<Rightarrow> location \<Rightarrow> fs_tree \<Rightarrow> (io_error + unit) \<times> fs_tree" where
  "remove_path_all p dotted cwd fs =
     (case lookup_entry fs cwd p of
        Inl e \<Rightarrow> (Inl e, fs)
      | Inr l \<Rightarrow>
          (case node_at fs l of
             Some (LinkNode _ _) \<Rightarrow> (Inr (), drop_nodes (\<lambda>k. k = l) fs)
           | _ \<Rightarrow> if dotted then (Inl NotEmpty, drop_nodes (strict_prefix l) fs) else remove_dir_all l fs))"

definition dot_name :: "string \<Rightarrow> bool" where
  "dot_name n \<longleftrightarrow> last (split_char (CHR ''/'') n) \<in> {''.'', ''..''}"

definition delete_skill_local :: "fs_path \<Rightarrow> string \<Rightarrow> location \<Rightarrow> fs_tree \<Rightarrow> (skill_error + unit) \<times> fs_tree" where
  "delete_skill_local dir name cwd fs =
     (let p = path_join dir name in
      if \<not> is_dir fs cwd p then (Inl (SkillNotFound name), fs)
      else (case remove_path_all p (dot_name name) cwd fs of
              (Inl e, fs1) \<Rightarrow> (Inl (SkillIo e), fs1)
            | (Inr _, fs1) \<Rightarrow> (Inr (), fs1)))"

definition read_skill_local :: "fs_tree \<Rightarrow> location \<Rightarrow> fs_path \<Rightarrow> string \<Rightarrow> string option" where
  "read_skill_local fs cwd dir name =
     (case read_to_string fs cwd (path_join (path_join dir name) ''SKILL.md'') of Inr s \<Rightarrow> Some s | Inl _ \<Rightarrow> None)"

section \<open>The tool that reads skills\<close>

record skill_tool =
  st_roots :: "fs_path list"
  st_index :: "(string \<times> fs_path) list"

definition insert_new :: "string \<Rightarrow> 'a \<Rightarrow> (string \<times> 'a) list \<Rightarrow> (string \<times> 'a) list" where
  "insert_new k v m = (if map_of m k = None then m @ [(k, v)] else m)"

definition index_entry :: "fs_tree \<Rightarrow> location \<Rightarrow> fs_path \<Rightarrow> string \<Rightarrow> (string \<times> fs_path) list \<Rightarrow> (string \<times> fs_path) list" where
  "index_entry fs cwd root n ix =
     (let path = path_join root n; f = path_join path ''SKILL.md'' in
      if \<not> is_dir fs cwd path \<or> \<not> path_exists fs cwd f then ix
      else (let ix1 = insert_new n path ix in
            case read_to_string fs cwd f of
              Inl _ \<Rightarrow> ix1
            | Inr content \<Rightarrow>
                (case parse_frontmatter content of Some (name, _, _) \<Rightarrow> insert_new name path ix1 | None \<Rightarrow> ix1)))"

definition build_skill_index :: "fs_tree \<Rightarrow> location \<Rightarrow> fs_path list \<Rightarrow> (string \<times> fs_path) list" where
  "build_skill_index fs cwd roots =
     foldl (\<lambda>ix root. case read_dir fs cwd root of
              Inl _ \<Rightarrow> ix
            | Inr names \<Rightarrow> foldl (\<lambda>ix n. index_entry fs cwd root n ix) ix names) [] roots"

definition read_skill_tool :: "fs_tree \<Rightarrow> location \<Rightarrow> fs_path list \<Rightarrow> skill_tool" where
  "read_skill_tool fs cwd roots =
     (let unique = foldl (\<lambda>us r. if r \<in> set us then us else us @ [r]) [] roots
      in \<lparr>st_roots = unique, st_index = build_skill_index fs cwd unique\<rparr>)"

definition resolve_skill_dir :: "fs_tree \<Rightarrow> location \<Rightarrow> skill_tool \<Rightarrow> string \<Rightarrow> fs_path option" where
  "resolve_skill_dir fs cwd t name =
     (case map_of (st_index t) name of
        Some p \<Rightarrow> Some p
      | None \<Rightarrow> map_option (\<lambda>r. path_join r name)
          (find (\<lambda>r. is_file fs cwd (path_join (path_join r name) ''SKILL.md'')) (st_roots t)))"

text \<open>All files below a directory; links to directories are followed, so the depth is bounded by fuel.\<close>

fun collect_files :: "nat \<Rightarrow> fs_tree \<Rightarrow> location \<Rightarrow> string list \<Rightarrow> fs_path \<Rightarrow> string list list" where
  "collect_files 0 fs cwd rel dir = []"
| "collect_files (Suc k) fs cwd rel dir =
     (case read_dir fs cwd dir of
        Inl _ \<Rightarrow> []
      | Inr names \<Rightarrow> concat (map (\<lambda>n.
          let p = path_join dir n in
          if is_file fs cwd p then [rel @ [n]]
          else if is_dir fs cwd p then collect_files k fs cwd (rel @ [n]) p
          else []) names))"

definition list_skill_files :: "nat \<Rightarrow> fs_tree \<Rightarrow> location \<Rightarrow> fs_path \<Rightarrow> string list" where
  "list_skill_files fuel fs cwd dir = sort (map (join ''/'') (collect_files fuel fs cwd [] dir))"

definition sanitize_relative_path :: "string \<Rightarrow> string + fs_path" where
  "sanitize_relative_path s =
     (let p = parse_path s in
      if fp_absolute p then Inl ''Skill file path must be relative''
      else if ''..'' \<in> set (fp_components p) then Inl ''Skill file path must not contain parent traversal''
      else Inr p)"

definition path_append :: "fs_path \<Rightarrow> fs_path \<Rightarrow> fs_path" where
  "path_append p q = p\<lparr>fp_components := fp_components p @ fp_components q\<rparr>"

definition call_read_skill ::
  "nat \<Rightarrow> (io_error \<Rightarrow> string) \<Rightarrow> fs_tree \<Rightarrow> location \<Rightarrow> skill_tool \<Rightarrow> string \<Rightarrow> string option \<Rightarrow> string + string \<times> string list" where
  "call_read_skill fuel show_io fs cwd t name file_arg =
     (case resolve_skill_dir fs cwd t name of
        None \<Rightarrow> Inl (''Skill '' @ [CHR 0x27] @ name @ [CHR 0x27] @ '' not found in configured skill roots'')
      | Some dir \<Rightarrow>
          if \<not> is_dir fs cwd dir
          then Inl (''Skill '' @ [CHR 0x27] @ name @ [CHR 0x27] @ '' not found in skills directory'')
          else (let f = (case file_arg of Some x \<Rightarrow> x | None \<Rightarrow> ''SKILL.md'') in
                bind_res (sanitize_relative_path f) (\<lambda>rel.
                  case read_to_string fs cwd (path_append dir rel) of
                    Inl e \<Rightarrow> Inl (''Failed to read '' @ [CHR 0x27] @ f @ [CHR 0x27] @ '' for skill '' @ [CHR 0x27] @ name
                      @ [CHR 0x27] @ '': '' @ show_io e)
                  | Inr content \<Rightarrow> Inr (content, list_skill_files fuel fs cwd dir))))"

definition skill_listing :: "nat \<Rightarrow> fs_tree \<Rightarrow> location \<Rightarrow> fs_path \<Rightarrow> (string \<times> string \<times> string list) option" where
  "skill_listing fuel fs cwd dir =
     (case read_to_string fs cwd (path_join dir ''SKILL.md'') of
        Inl _ \<Rightarrow> None
      | Inr content \<Rightarrow>
          (case parse_frontmatter content of
             None \<Rightarrow> None
           | Some (n, d, _) \<Rightarrow> Some (n, d, filter (\<lambda>f. f \<noteq> ''SKILL.md'') (list_skill_files fuel fs cwd dir))))"

definition dispatch_list_skills :: "nat \<Rightarrow> fs_tree \<Rightarrow> location \<Rightarrow> fs_path list \<Rightarrow> json" where
  "dispatch_list_skills fuel fs cwd roots =
     (let t = read_skill_tool fs cwd roots;
          found = sort_key fst (List.map_filter (\<lambda>e. skill_listing fuel fs cwd (snd e)) (st_index t))
      in JObj [(''skills'', JArr (map (\<lambda>(n, d, fs).
           JObj [(''name'', JStr n), (''description'', JStr d), (''references'', JArr (map JStr fs))]) found))])"

end
