(* ===== verification/Skills_Props.thy ===== *)
theory Skills_Props
  imports Skills
begin

text \<open>
  What discovery and the skill tool promise: eligible skills in order of their names, a new skill's
  front matter that reads back, and files read below the skill's directory only.
\<close>

section \<open>Texts without white space at their ends\<close>

definition graphic :: "char \<Rightarrow> bool" where
  "graphic c \<longleftrightarrow> (let n = of_char c :: nat in 33 \<le> n \<and> n \<le> 126)"

lemma space_seq_ends: "w \<in> set space_seqs \<Longrightarrow> \<not> graphic (hd w) \<and> \<not> graphic (last w)"
  by (auto simp: space_seqs_def ascii_space_def unicode_space_def graphic_def)

lemma graphic_space_at: "graphic c \<Longrightarrow> space_at (c # s) = None"
  unfolding space_at_None using space_seq_ends space_seqs_nonempty by (fastforce simp: prefix_Cons)

lemma graphic_space_before: "s \<noteq> [] \<Longrightarrow> graphic (last s) \<Longrightarrow> space_before s = None"
  unfolding space_before_None
proof (intro ballI notI)
  fix w assume a: "s \<noteq> []" "graphic (last s)" "w \<in> set space_seqs" "suffix w s"
  then have "last w = last s" using space_seqs_nonempty by (metis last_append suffix_def)
  with a space_seq_ends show False by metis
qed

lemma trim_graphic: "s \<noteq> [] \<Longrightarrow> graphic (hd s) \<Longrightarrow> graphic (last s) \<Longrightarrow> trim s = s"
  by (cases s) (auto intro!: trim_id graphic_space_at graphic_space_before)

lemma trim_start_blank: "trim_start (CHR '' '' # s) = trim_start s"
proof -
  have "space_at (CHR '' '' # s) = Some '' ''"
    by (simp add: space_at_def space_seqs_def ascii_space_def)
  then show ?thesis by (subst trim_start.simps) simp
qed

lemma trim_blank: "trim (CHR '' '' # s) = trim s"
  by (simp add: trim_def trim_start_blank)

lemma trim_words:
  "trim ''metadata:'' = ''metadata:''" "trim ''bootstrap: false'' = ''bootstrap: false''"
  "trim ''always: false'' = ''always: false''" "trim ''false'' = ''false''"
  by (rule trim_graphic; simp add: graphic_def)+

lemma dashes_take: "take (length x) (drop 3 (''---'' @ x @ r)) = x"
  by simp

section \<open>Discovery\<close>

text \<open>C0: discovery lists skills in the order of their names, each with a name and a description, and every
  variable a listed skill asks for is set.\<close>

lemma parse_frontmatter_nonempty: "parse_frontmatter c = Some (n, d, m) \<Longrightarrow> n \<noteq> [] \<and> d \<noteq> []"
  by (auto simp: parse_frontmatter_def Let_def split: if_splits option.splits)

lemma discover_one_eligible:
  assumes "discover_one env fs cwd p = Some s"
  shows "sk_name s \<noteq> [] \<and> sk_description s \<noteq> [] \<and> list_all (\<lambda>v. env (skill_env_var_name v) \<noteq> None) (sm_envvars (sk_metadata s))"
proof -
  obtain content n d m where "parse_frontmatter content = Some (n, d, m)" "check_eligibility env m = Inr ()"
    and s: "sk_name s = n" "sk_description s = d" "sk_metadata s = m"
    using assms by (auto simp: discover_one_def Let_def split: if_splits sum.splits option.splits)
  then show ?thesis using parse_frontmatter_nonempty
    by (auto simp: check_eligibility_def Let_def list_all_iff filter_empty_conv split: if_splits)
qed

theorem discovered_skills_eligible:
  "sorted (map sk_name (discover_skills_local env fs cwd dir)) \<and>
   list_all (\<lambda>s. sk_name s \<noteq> [] \<and> sk_description s \<noteq> []
     \<and> list_all (\<lambda>v. env (skill_env_var_name v) \<noteq> None) (sm_envvars (sk_metadata s))) (discover_skills_local env fs cwd dir)"
  using discover_one_eligible
  by (fastforce simp: discover_skills_local_def list_all_iff List.map_filter_def split: sum.split)

section \<open>The front matter of a new skill\<close>

lemma skill_dir_char: "c \<in> set (normalize_skill_dir_name s) \<Longrightarrow> is_ascii_alnum c \<or> c = CHR ''-'' \<or> c = under"
proof -
  let ?keep = "\<lambda>c. is_ascii_alnum c \<or> c = CHR ''-'' \<or> c = under"
  assume "c \<in> set (normalize_skill_dir_name s)"
  then have "c \<in> set (concat (map (scope_piece ?keep) (chars s)))"
    unfolding normalize_skill_dir_name_def lower_or_under_def using trim_matches_set by blast
  then obtain u where "c \<in> set (scope_piece ?keep u)" by auto
  moreover have "lower_char (CHR ''-'') = CHR ''-''" "lower_char under = under" by code_simp+
  ultimately show ?thesis
    by (cases u; cases "tl u") (auto simp: scope_piece_def lower_char_alnum split: if_splits)
qed

lemma skill_dir_graphic: "c \<in> set (normalize_skill_dir_name s) \<Longrightarrow> graphic c"
  using skill_dir_char [of c s]
  by (auto simp: graphic_def is_ascii_alnum_def is_upper_def is_lower_def is_digit_def Let_def under_def)

text \<open>C0: the front matter of a skill made by the scaffold reads back as the skill's own name and
  description, neither bundled nor always injected, with nothing required of the environment.\<close>

theorem scaffold_reads_back:
  assumes "normalize_skill_dir_name name \<noteq> []"
  shows "parse_frontmatter (skill_template (normalize_skill_dir_name name) body)
     = Some (normalize_skill_dir_name name, normalize_skill_dir_name name @ '' skill'', skill_metadata_default)"
proof -
  let ?n = "normalize_skill_dir_name name"
  let ?ls = "[''name: '' @ ?n, ''description: '' @ ?n @ '' skill'', ''metadata:'', ''  bootstrap: false'', ''  always: false'']"
  have g: "graphic (hd ?n)" "graphic (last ?n)" using assms skill_dir_graphic hd_in_set last_in_set by blast+
  have nl: "newline \<notin> set ?n"
    using skill_dir_graphic [of newline name] by (auto simp: graphic_def newline_def)
  have t: "skill_template ?n body = ''---'' @ (newline # join [newline] ?ls) @ close_mark @ [newline, newline] @ body @ [newline]"
    by (simp add: skill_template_def close_mark_def)
  have gd: "graphic (CHR ''-'')" by (simp add: graphic_def)
  have c: "trim_start (skill_template ?n body) = skill_template ?n body"
    unfolding t by (rule trim_start_id) (simp add: graphic_space_at gd)
  have free: "\<not> contains_sub (newline # ''---'') (newline # join [newline] ?ls)"
    by (rule not_contains_lines) (use nl in \<open>simp_all add: newline_def\<close>)
  have f: "find_sub close_mark (drop 3 (skill_template ?n body)) = Some (length (newline # join [newline] ?ls))"
    unfolding t close_mark_def using find_sub_append [of newline "''---''", OF _ free]
    by (simp add: newline_def)
  have front: "take (length (newline # join [newline] ?ls)) (drop 3 (skill_template ?n body)) = newline # join [newline] ?ls"
    unfolding t by (rule dashes_take)
  have lines: "str_lines (newline # join [newline] ?ls) = [] # ?ls"
  proof -
    have "last (''name: '' @ ?n) = last ?n" using assms by simp
    then have "str_lines (join [newline] ?ls) = ?ls"
      by (intro str_lines_join) (use nl g(2) assms in \<open>auto simp: newline_def graphic_def\<close>)
    then show ?thesis using str_lines_append [of "[]" "join [newline] ?ls"] by simp
  qed
  have tr: "trim (''name: '' @ ?n) = ''name: '' @ ?n" "trim (''description: '' @ ?n @ '' skill'') = ''description: '' @ ?n @ '' skill''"
    "trim ?n = ?n" "trim (?n @ '' skill'') = ?n @ '' skill''"
    by (rule trim_graphic; use g assms in \<open>simp add: graphic_def\<close>)+
  have fold: "foldl front_line front_init ([] # ?ls)
      = front_init\<lparr>fr_name := Some ?n, fr_description := Some (?n @ '' skill''), fr_in_metadata := True\<rparr>"
    by (simp add: front_line_def tr [simplified] strip_prefix_def Let_def metadata_key_def trim_blank front_init_def skill_metadata_default_def trim_words)
  show ?thesis
    using f front lines fold assms c
    by (simp add: parse_frontmatter_def Let_def t front_init_def)
qed

lemma scaffold_reads_back_witness:
  "parse_frontmatter (skill_template (normalize_skill_dir_name ''Json fmt!'') ''Body'')
     = Some (normalize_skill_dir_name ''Json fmt!'', normalize_skill_dir_name ''Json fmt!'' @ '' skill'', skill_metadata_default)"
  by (rule scaffold_reads_back) code_simp

section \<open>Reading files of a skill\<close>

definition link_free :: "fs_tree \<Rightarrow> bool" where
  "link_free fs \<longleftrightarrow> (\<forall>l a t. node_at fs l \<noteq> Some (LinkNode a t))"

lemma resolve_below:
  "link_free fs \<Longrightarrow> ''..'' \<notin> set cs \<Longrightarrow> resolve fs create n base cs = Inr (l, m) \<Longrightarrow> l = base @ cs"
proof (induction fs create n base cs rule: resolve.induct)
  case (2 fs create n base c cs)
  have c: "c \<noteq> ''..''" using "2.prems" by auto
  show ?case
  proof (cases "node_at fs (base @ [c])")
    case None
    then show ?thesis using "2.prems" c by (auto simp: resolve.simps(2) split: if_splits)
  next
    case (Some x)
    show ?thesis
    proof (cases x)
      case (LinkNode a t)
      then show ?thesis using Some "2.prems"(1) by (simp add: link_free_def)
    qed (use Some "2.prems" "2.IH" c in \<open>auto simp: resolve.simps(2) split: if_splits\<close>)
  qed
qed simp

text \<open>C0: in a tree without links a file that is read for a skill lies below the skill's directory.\<close>

theorem skill_file_below_directory:
  assumes "link_free fs" "sanitize_relative_path f = Inr rel" "lookup fs cwd False dir = Inr l"
    and "lookup fs cwd False (path_append dir rel) = Inr k"
  shows "prefix l k"
proof -
  have rel: "''..'' \<notin> set (fp_components rel)" using assms(2) by (auto simp: sanitize_relative_path_def Let_def split: if_splits)
  let ?b = "if fp_absolute dir then [] else cwd"
  obtain m where m: "resolve fs False max_links ?b (fp_components dir) = Inr (l, m)"
    using assms(3) by (auto simp: lookup_def split: if_splits sum.splits)
  obtain j where j: "resolve fs False max_links ?b (fp_components dir @ fp_components rel) = Inr (k, j)"
    using assms(4) by (auto simp: lookup_def path_append_def split: if_splits sum.splits)
  show ?thesis
  proof (cases "fp_components rel = []")
    case False
    have "resolve fs False m l (fp_components rel) = Inr (k, j)" using resolve_append [OF False] m j by simp
    from resolve_below [OF assms(1) rel this] show ?thesis by simp
  qed (use m j in simp)
qed

definition skill_tree :: fs_tree where
  "skill_tree =
     [([''h''], DirNode), ([''h'', ''skills''], DirNode), ([''h'', ''skills'', ''d''], DirNode),
      ([''h'', ''skills'', ''d'', ''SKILL.md''],
       FileNode (''---'' @ [newline] @ ''name: ..'' @ [newline] @ ''description: x'' @ [newline] @ ''---'' @ [newline])),
      ([''h'', ''SKILL.md''], FileNode ''private''), ([''h'', ''notes''], FileNode ''secret'')]"

definition skills_root :: fs_path where
  "skills_root = \<lparr>fp_absolute = True, fp_components = [''h'', ''skills'']\<rparr>"

lemma skill_tree_link_free: "link_free skill_tree"
  by (auto simp: link_free_def node_at_def skill_tree_def split: if_splits)

lemma skill_file_below_directory_witness: "prefix [''h'', ''skills'', ''d''] [''h'', ''skills'', ''d'', ''SKILL.md'']"
proof (rule skill_file_below_directory [OF skill_tree_link_free])
  show "sanitize_relative_path ''SKILL.md'' = Inr \<lparr>fp_absolute = False, fp_components = [''SKILL.md'']\<rparr>" by code_simp
  show "lookup skill_tree [] False (path_join skills_root ''d'') = Inr [''h'', ''skills'', ''d'']" by code_simp
  show "lookup skill_tree [] False (path_append (path_join skills_root ''d'') \<lparr>fp_absolute = False, fp_components = [''SKILL.md'']\<rparr>)
    = Inr [''h'', ''skills'', ''d'', ''SKILL.md'']" by code_simp
qed

text \<open>C0: the name of a skill is not checked: a name with a parent component reads a file outside the roots.\<close>

theorem skill_name_leaves_roots:
  "st_roots (read_skill_tool skill_tree [] [skills_root]) = [skills_root]
     \<and> map_sum id fst (call_read_skill 5 (\<lambda>_. []) skill_tree [] (read_skill_tool skill_tree [] [skills_root]) ''d/../..'' (Some ''notes''))
         = Inr ''secret''"
  by code_simp

text \<open>C0: a skill is deleted by its declared name; a skill that calls itself \<open>..\<close> takes everything beside the
  skills directory with it.\<close>

theorem deleted_skill_takes_agent_directory:
  "map sk_name (discover_skills_local (\<lambda>_. None) skill_tree [] skills_root) = [''..'']
     \<and> snd (delete_skill_local skills_root ''..'' [] skill_tree) = [([''h''], DirNode)]"
  by code_simp

text \<open>C0: a skill whose declared name differs from its directory is listed twice.\<close>

theorem renamed_skill_listed_twice:
  "dispatch_list_skills 5 skill_tree [] [skills_root]
     = JObj [(''skills'', JArr (replicate 2 (JObj [(''name'', JStr ''..''), (''description'', JStr ''x''), (''references'', JArr [])])))]"
  by code_simp

end
