(* ===== verification/Plugins.thy ===== *)
theory Plugins
  imports Skills Cron Heartbeat Interfaces
begin

text \<open>
  The plugins of an agent (\<open>plugins/mod.rs\<close>): manifests, the registry read from the plugin directory,
  the commands, emojis and activations of the enabled plugins, the queue of activations and the
  schedule of routines, validation, and the scaffolds.

  TOML and the local time zone are parameters; times are nanoseconds.
\<close>

section \<open>Manifests\<close>

record plugin_runtime =
  pr_kind :: string
  pr_context :: "string option"
  pr_dockerfile :: "string option"
  pr_command :: "string list"

definition plugin_runtime_default :: plugin_runtime where
  "plugin_runtime_default =
     \<lparr>pr_kind = ''docker'', pr_context = Some ''.'', pr_dockerfile = Some ''Dockerfile'',
      pr_command = [''/bin/sh'', ''scripts/run.sh'']\<rparr>"

record plugin_command =
  pc_command :: string
  pc_description :: string
  pc_task_template :: "string option"

record plugin_emoji =
  pj_name :: string
  pj_value :: string
  pj_description :: "string option"

record plugin_routine =
  pt_name :: string
  pt_description :: "string option"
  pt_schedule :: "string option"
  pt_priority :: "string option"
  pt_task_template :: "string option"

record plugin_activation =
  pa_name :: string
  pa_event :: "string option"
  pa_command :: "string option"
  pa_contains :: "string option"
  pa_trigger :: "string option"
  pa_priority :: "string option"
  pa_task_template :: "string option"
  pa_description :: "string option"

record plugin_manifest =
  pm_id :: string
  pm_version :: string
  pm_name :: "string option"
  pm_description :: "string option"
  pm_enabled_by_default :: bool
  pm_capabilities :: "string list"
  pm_envvars :: "string list"
  pm_skills_dir :: "string option"
  pm_commands :: "plugin_command list"
  pm_emojis :: "plugin_emoji list"
  pm_routines :: "plugin_routine list"
  pm_activations :: "plugin_activation list"
  pm_runtime :: "plugin_runtime option"

definition normalize_plugin_id :: "string \<Rightarrow> string" where
  "normalize_plugin_id s = filter (\<lambda>c. is_ascii_alnum c \<or> c = under \<or> c = CHR ''-'') (to_ascii_lower (trim s))"

datatype manifest_error = IdEmpty | VersionEmpty string

definition validate_manifest :: "string \<Rightarrow> plugin_manifest \<Rightarrow> manifest_error + plugin_manifest" where
  "validate_manifest fallback m =
     (let i = normalize_plugin_id (if trim (pm_id m) = [] then fallback else pm_id m) in
      if i = [] then Inl IdEmpty
      else if trim (pm_version m) = [] then Inl (VersionEmpty i)
      else Inr (m\<lparr>pm_id := i\<rparr>))"

definition display_name :: "plugin_manifest \<Rightarrow> string" where
  "display_name m = (case pm_name m of Some n \<Rightarrow> n | None \<Rightarrow> pm_id m)"

text \<open>A trimmed value that is not empty.\<close>

definition given :: "string option \<Rightarrow> string option" where
  "given v = (case v of Some s \<Rightarrow> if trim s = [] then None else Some (trim s) | None \<Rightarrow> None)"

definition skills_subdir :: "plugin_manifest \<Rightarrow> string" where
  "skills_subdir m = (case given (pm_skills_dir m) of Some d \<Rightarrow> d | None \<Rightarrow> ''skills'')"

section \<open>Normal forms\<close>

definition normalize_command_name :: "string \<Rightarrow> string" where
  "normalize_command_name s =
     take 32 (filter (\<lambda>c. is_ascii_alnum c \<or> c = under) (to_ascii_lower (dropWhile (\<lambda>c. c = CHR ''/'') (trim s))))"

definition normalize_event_name :: "string \<Rightarrow> string" where
  "normalize_event_name s =
     (let n = filter (\<lambda>c. is_ascii_alnum c \<or> c = under) (to_ascii_lower (trim s))
      in if n = [] then ''message_in'' else n)"

definition normalize_priority :: "string \<Rightarrow> string \<Rightarrow> string" where
  "normalize_priority s fallback =
     (let n = to_ascii_lower (trim s) in if n \<in> set [''urgent'', ''high'', ''normal'', ''low''] then n else fallback)"

definition cron_ok :: "string \<Rightarrow> bool" where
  "cron_ok expr = (case parse_cron_expression expr of Inr _ \<Rightarrow> True | Inl _ \<Rightarrow> False)"

definition normalize_schedule :: "string \<Rightarrow> string \<Rightarrow> string" where
  "normalize_schedule s fallback =
     (let raw = trim s; n = to_ascii_lower raw in
      if raw = [] then fallback
      else if n \<in> set [''once'', ''minutely'', ''hourly'', ''daily'', ''weekly''] then n
      else (case strip_prefix ''cron:'' raw of
              Some expr \<Rightarrow> if cron_ok (trim expr) then ''cron:'' @ trim expr else ''invalid''
            | None \<Rightarrow> if cron_ok raw then ''cron:'' @ raw else ''invalid''))"

definition plugin_env_var_name :: "string \<Rightarrow> string" where
  "plugin_env_var_name spec0 =
     (let spec = trim spec0 in
      case find_sub ''${'' spec of
        Some i \<Rightarrow>
          (case find_sub ''}'' (drop (i + 2) spec) of Some j \<Rightarrow> trim (take j (drop (i + 2) spec)) | None \<Rightarrow> spec)
      | None \<Rightarrow> spec)"

section \<open>The registry\<close>

text \<open>A \<open>BTreeMap\<close> is the list of its entries in the order of the keys.\<close>

definition bt_get :: "('k \<times> 'v) list \<Rightarrow> 'k \<Rightarrow> 'v option" where
  "bt_get m k = map_option snd (lookup_by fst m k)"

definition bt_insert :: "'k::linorder \<Rightarrow> 'v \<Rightarrow> ('k \<times> 'v) list \<Rightarrow> ('k \<times> 'v) list" where
  "bt_insert k v m = sorted_put fst m (k, v)"

lemma bt_get_Nil [simp]: "bt_get [] k = None"
  by (simp add: bt_get_def)

lemma bt_get_insert [simp]: "bt_get (bt_insert k v m) k' = (if k' = k then Some v else bt_get m k')"
  by (simp add: bt_get_def bt_insert_def sorted_table.lookup_put)

record installed_plugin =
  ip_manifest :: plugin_manifest
  ip_dir :: fs_path
  ip_enabled :: bool

record plugin_route =
  rt_channel_id :: "string option"
  rt_conversation_id :: "string option"
  rt_sender_id :: "string option"

record queued_activation =
  qa_plugin_id :: string
  qa_activation_name :: string
  qa_priority :: string
  qa_task :: string
  qa_created_at :: string
  qa_route :: "plugin_route option"

record runtime_file =
  rf_last_run :: "(string \<times> string) list"
  rf_queue :: "queued_activation list"

definition runtime_default :: runtime_file where
  "runtime_default = \<lparr>rf_last_run = [], rf_queue = []\<rparr>"

type_synonym plugin_states = "(string \<times> bool) list"

record plugin_env =
  pe_home :: "fs_path option"
  pe_cwd :: location
  pe_manifest_of :: "string \<Rightarrow> string + plugin_manifest"
  pe_manifest_text :: "plugin_manifest \<Rightarrow> string"
  pe_state_of :: "string \<Rightarrow> plugin_states option"
  pe_state_text :: "plugin_states \<Rightarrow> string"
  pe_runtime_of :: "string \<Rightarrow> runtime_file option"
  pe_runtime_text :: "runtime_file \<Rightarrow> string"

datatype load_error = ManifestUnreadable fs_path io_error | ManifestUnparsed fs_path string | ManifestInvalid fs_path manifest_error

record plugin_registry =
  pg_agent_name :: string
  pg_root_dir :: fs_path
  pg_plugins :: "installed_plugin list"
  pg_load_errors :: "load_error list"

definition agent_plugins_dir :: "plugin_env \<Rightarrow> string \<Rightarrow> fs_path option" where
  "agent_plugins_dir e agent = (case plugins_root (pe_home e) agent of Inr p \<Rightarrow> Some p | Inl _ \<Rightarrow> None)"

definition read_state_file :: "plugin_env \<Rightarrow> fs_tree \<Rightarrow> fs_path \<Rightarrow> plugin_states" where
  "read_state_file e fs p =
     (case read_to_string fs (pe_cwd e) p of
        Inl _ \<Rightarrow> []
      | Inr s \<Rightarrow> (case pe_state_of e s of Some st \<Rightarrow> st | None \<Rightarrow> []))"

definition load_manifest :: "plugin_env \<Rightarrow> fs_path \<Rightarrow> string \<Rightarrow> string \<Rightarrow> load_error + plugin_manifest" where
  "load_manifest e p fallback s =
     (case pe_manifest_of e s of
        Inl err \<Rightarrow> Inl (ManifestUnparsed p err)
      | Inr m \<Rightarrow> (case validate_manifest fallback m of Inl err \<Rightarrow> Inl (ManifestInvalid p err) | Inr m1 \<Rightarrow> Inr m1))"

text \<open>One entry of the plugin directory: nothing, an error or a plugin.\<close>

definition load_entry ::
  "plugin_env \<Rightarrow> fs_tree \<Rightarrow> plugin_states \<Rightarrow> fs_path \<Rightarrow> string \<Rightarrow> (load_error + installed_plugin) option" where
  "load_entry e fs states root n =
     (let path = path_join root n; mp = path_join path ''plugin.toml'' in
      if \<not> is_dir fs (pe_cwd e) path \<or> \<not> path_exists fs (pe_cwd e) mp then None
      else Some (case read_to_string fs (pe_cwd e) mp of
        Inl err \<Rightarrow> Inl (ManifestUnreadable mp err)
      | Inr s \<Rightarrow>
          bind_res (load_manifest e mp n s) (\<lambda>m.
            Inr \<lparr>ip_manifest = m, ip_dir = path,
              ip_enabled = (case bt_get states (pm_id m) of Some b \<Rightarrow> b | None \<Rightarrow> pm_enabled_by_default m)\<rparr>)))"

definition plugin_id :: "installed_plugin \<Rightarrow> string" where
  "plugin_id p = pm_id (ip_manifest p)"

definition load_registry :: "plugin_env \<Rightarrow> string \<Rightarrow> fs_tree \<Rightarrow> plugin_registry" where
  "load_registry e agent fs =
     (let root = (case agent_plugins_dir e agent of Some p \<Rightarrow> p
            | None \<Rightarrow> path_join (path_join (parse_path ''.that-agent/agents'') agent) ''plugins'');
          states = read_state_file e fs (path_join root ''.plugin-state.toml'');
          results = (case read_dir fs (pe_cwd e) root of
            Inl _ \<Rightarrow> [] | Inr names \<Rightarrow> List.map_filter (load_entry e fs states root) names)
      in \<lparr>pg_agent_name = agent, pg_root_dir = root,
          pg_plugins = sort_key plugin_id (List.map_filter (\<lambda>r. case r of Inr p \<Rightarrow> Some p | Inl _ \<Rightarrow> None) results),
          pg_load_errors = List.map_filter (\<lambda>r. case r of Inl err \<Rightarrow> Some err | Inr _ \<Rightarrow> None) results\<rparr>)"

definition enabled_plugins :: "plugin_registry \<Rightarrow> installed_plugin list" where
  "enabled_plugins r = filter ip_enabled (pg_plugins r)"

definition enabled_skill_dirs :: "fs_tree \<Rightarrow> location \<Rightarrow> plugin_registry \<Rightarrow> fs_path list" where
  "enabled_skill_dirs fs cwd r =
     filter (is_dir fs cwd) (map (\<lambda>p. path_join (ip_dir p) (skills_subdir (ip_manifest p))) (enabled_plugins r))"

definition get_plugin :: "plugin_registry \<Rightarrow> string \<Rightarrow> installed_plugin option" where
  "get_plugin r i = find (\<lambda>p. plugin_id p = i) (pg_plugins r)"

section \<open>What enabled plugins provide\<close>

record resolved_command =
  rc_plugin_id :: string
  rc_command :: string
  rc_description :: string
  rc_task_template :: "string option"

text \<open>Names are taken once, in the order of the plugins; an empty name is skipped.\<close>

fun take_names :: "('a \<Rightarrow> string) \<Rightarrow> string list \<Rightarrow> 'a list \<Rightarrow> 'a list" where
  "take_names f seen [] = []"
| "take_names f seen (x # xs) =
     (if f x = [] \<or> f x \<in> set seen then take_names f seen xs else x # take_names f (f x # seen) xs)"

definition enabled_commands :: "plugin_registry \<Rightarrow> resolved_command list" where
  "enabled_commands r =
     map (\<lambda>(i, c). \<lparr>rc_plugin_id = i, rc_command = normalize_command_name (pc_command c),
          rc_description = take_chars 256 (pc_description c), rc_task_template = pc_task_template c\<rparr>)
       (take_names (\<lambda>(i, c). normalize_command_name (pc_command c)) []
          (concat (map (\<lambda>p. map (Pair (plugin_id p)) (pm_commands (ip_manifest p))) (enabled_plugins r))))"

record resolved_emoji =
  re_plugin_id :: string
  re_name :: string
  re_value :: string
  re_description :: "string option"

definition enabled_emojis :: "plugin_registry \<Rightarrow> resolved_emoji list" where
  "enabled_emojis r =
     map (\<lambda>(i, j). \<lparr>re_plugin_id = i, re_name = normalize_plugin_id (pj_name j), re_value = pj_value j,
          re_description = pj_description j\<rparr>)
       (take_names (\<lambda>(i, j). normalize_plugin_id (pj_name j)) []
          (concat (map (\<lambda>p. map (Pair (plugin_id p)) (pm_emojis (ip_manifest p))) (enabled_plugins r))))"

record resolved_activation =
  ra_plugin_id :: string
  ra_name :: string
  ra_event :: string
  ra_command :: "string option"
  ra_contains :: "string option"
  ra_trigger :: "string option"
  ra_priority :: string
  ra_task_template :: "string option"
  ra_description :: "string option"

definition resolve_activation :: "string \<Rightarrow> plugin_activation \<Rightarrow> resolved_activation" where
  "resolve_activation i a =
     \<lparr>ra_plugin_id = i, ra_name = pa_name a,
      ra_event = (case pa_event a of Some x \<Rightarrow> normalize_event_name x | None \<Rightarrow> ''message_in''),
      ra_command = (case pa_command a of
         Some c \<Rightarrow> if normalize_command_name c = [] then None else Some (normalize_command_name c) | None \<Rightarrow> None),
      ra_contains = given (pa_contains a), ra_trigger = given (pa_trigger a),
      ra_priority = normalize_priority (case pa_priority a of Some p \<Rightarrow> p | None \<Rightarrow> ''high'') ''high'',
      ra_task_template = pa_task_template a, ra_description = pa_description a\<rparr>"

definition enabled_activations :: "plugin_registry \<Rightarrow> resolved_activation list" where
  "enabled_activations r =
     concat (map (\<lambda>p. map (resolve_activation (plugin_id p)) (pm_activations (ip_manifest p))) (enabled_plugins r))"

record plugin_summary =
  ps_id :: string
  ps_name :: string
  ps_version :: string
  ps_description :: "string option"
  ps_capabilities :: "string list"
  ps_commands :: nat
  ps_routines :: nat
  ps_activations :: nat
  ps_emojis :: nat

definition summaries :: "plugin_registry \<Rightarrow> plugin_summary list" where
  "summaries r =
     map (\<lambda>p. let m = ip_manifest p in
       \<lparr>ps_id = pm_id m, ps_name = display_name m, ps_version = pm_version m, ps_description = pm_description m,
        ps_capabilities = pm_capabilities m, ps_commands = length (pm_commands m), ps_routines = length (pm_routines m),
        ps_activations = length (pm_activations m), ps_emojis = length (pm_emojis m)\<rparr>) (enabled_plugins r)"

section \<open>Files\<close>

datatype plugin_error =
    NoPluginHome
  | PluginIo io_error
  | PluginScope scope_error
  | NoPluginId
  | PluginExists string fs_path
  | PluginMissing string string
  | PluginNotFound string string
  | PluginManifestError load_error
  | NoSkillName
  | PluginSkillExists string fs_path

type_synonym 'a plugin_result = "(plugin_error + 'a) \<times> fs_tree"

definition and_then :: "('e + 'a) \<times> 's \<Rightarrow> ('a \<Rightarrow> 's \<Rightarrow> ('e + 'b) \<times> 's) \<Rightarrow> ('e + 'b) \<times> 's" where
  "and_then r f = (case r of (Inl e, s) \<Rightarrow> (Inl e, s) | (Inr x, s) \<Rightarrow> f x s)"

lemma and_then_simps [simp]:
  "and_then (Inl e, s) f = (Inl e, s)"
  "and_then (Inr x, s) f = f x s"
  by (simp_all add: and_then_def)

definition wrap_error :: "('e \<Rightarrow> 'f) \<Rightarrow> ('e + 'a) \<times> 's \<Rightarrow> ('f + 'a) \<times> 's" where
  "wrap_error f r = (map_sum f id (fst r), snd r)"

definition ensure_agent_plugins_dir :: "plugin_env \<Rightarrow> string \<Rightarrow> fs_tree \<Rightarrow> fs_path plugin_result" where
  "ensure_agent_plugins_dir e agent fs =
     (case agent_plugins_dir e agent of
        None \<Rightarrow> (Inl NoPluginHome, fs)
      | Some p \<Rightarrow> and_then (wrap_error PluginIo (create_dir_all p (pe_cwd e) fs)) (\<lambda>_ fs1. (Inr p, fs1)))"

definition set_plugin_enabled :: "plugin_env \<Rightarrow> string \<Rightarrow> string \<Rightarrow> bool \<Rightarrow> fs_tree \<Rightarrow> unit plugin_result" where
  "set_plugin_enabled e agent i enabled fs =
     and_then (ensure_agent_plugins_dir e agent fs) (\<lambda>root fs1.
       let p = path_join root ''.plugin-state.toml'';
           states = bt_insert (normalize_plugin_id i) enabled (read_state_file e fs1 p)
       in wrap_error PluginIo (write_file p (pe_state_text e states) (pe_cwd e) fs1))"

definition read_runtime_file :: "plugin_env \<Rightarrow> fs_tree \<Rightarrow> fs_path \<Rightarrow> runtime_file" where
  "read_runtime_file e fs p =
     (case read_to_string fs (pe_cwd e) p of
        Inl _ \<Rightarrow> runtime_default
      | Inr s \<Rightarrow> (case pe_runtime_of e s of Some r \<Rightarrow> r | None \<Rightarrow> runtime_default))"

definition write_runtime_file :: "plugin_env \<Rightarrow> fs_path \<Rightarrow> runtime_file \<Rightarrow> fs_tree \<Rightarrow> unit plugin_result" where
  "write_runtime_file e p r fs = wrap_error PluginIo (write_file p (pe_runtime_text e r) (pe_cwd e) fs)"

definition runtime_path :: "fs_path \<Rightarrow> fs_path" where
  "runtime_path root = path_join root ''.plugin-runtime.toml''"

section \<open>Activations and routines\<close>

definition enqueue_activation_task ::
  "plugin_env \<Rightarrow> string \<Rightarrow> string \<Rightarrow> string \<Rightarrow> string \<Rightarrow> string \<Rightarrow> string \<Rightarrow> plugin_route option \<Rightarrow> fs_tree \<Rightarrow> unit plugin_result" where
  "enqueue_activation_task e now agent i activation prio task route fs =
     (if trim task = [] then (Inr (), fs)
      else and_then (ensure_agent_plugins_dir e agent fs) (\<lambda>root fs1.
        let r = read_runtime_file e fs1 (runtime_path root) in
        write_runtime_file e (runtime_path root)
          (r\<lparr>rf_queue := rf_queue r @ [\<lparr>qa_plugin_id = normalize_plugin_id i, qa_activation_name = trim activation,
             qa_priority = normalize_priority prio ''high'', qa_task = trim task, qa_created_at = now, qa_route = route\<rparr>]\<rparr>) fs1))"

text \<open>The local clock: wall time, the same minute without seconds where that exists, and RFC 3339.\<close>

record local_clock =
  lc_naive :: "int \<Rightarrow> naive_datetime"
  lc_minute :: "int \<Rightarrow> int option"
  lc_format :: "int \<Rightarrow> string"
  lc_parse :: "string \<Rightarrow> int option"

definition plugin_cron_due :: "calendar \<Rightarrow> local_clock \<Rightarrow> string \<Rightarrow> int option \<Rightarrow> int \<Rightarrow> bool option" where
  "plugin_cron_due cal ck expr last_run now =
     (case last_run of
        None \<Rightarrow> Some True
      | Some t \<Rightarrow>
          (case parse_cron_expression expr of
             Inl _ \<Rightarrow> Some False
           | Inr parsed \<Rightarrow>
               (let tick = (case lc_minute ck now of Some m \<Rightarrow> m | None \<Rightarrow> now) in
                if t \<ge> tick then Some False else cron_matches cal parsed (lc_naive ck tick))))"

function trim_start_matches :: "string \<Rightarrow> string \<Rightarrow> string" where
  "trim_start_matches p s = (if p \<noteq> [] \<and> prefix p s then trim_start_matches p (drop (length p) s) else s)"
  by pat_completeness auto
termination by (relation "measure (\<lambda>(p, s). length s)") (auto simp: prefix_def)

declare trim_start_matches.simps [simp del]

text \<open>\<open>None\<close> is the panic of an index, which never happens for a valid date.\<close>

definition is_routine_due :: "calendar \<Rightarrow> local_clock \<Rightarrow> string \<Rightarrow> int option \<Rightarrow> int \<Rightarrow> bool option" where
  "is_routine_due cal ck schedule last_run now =
     (if schedule = ''once'' then Some (last_run = None)
      else if schedule = ''minutely'' then Some (case last_run of None \<Rightarrow> True | Some t \<Rightarrow> now - t \<ge> minutes1)
      else if schedule = ''hourly'' then Some (case last_run of None \<Rightarrow> True | Some t \<Rightarrow> now - t > hours1)
      else if schedule = ''daily''
      then Some (case last_run of None \<Rightarrow> True | Some t \<Rightarrow> nd_day (lc_naive ck t) < nd_day (lc_naive ck now))
      else if schedule = ''weekly'' then Some (case last_run of None \<Rightarrow> True | Some t \<Rightarrow> now - t > weeks1)
      else if prefix ''cron:'' schedule
      then plugin_cron_due cal ck (trim (trim_start_matches ''cron:'' schedule)) last_run now
      else Some False)"

record heartbeat_task =
  ht_source :: string
  ht_plugin_id :: string
  ht_name :: string
  ht_priority :: string
  ht_schedule :: string
  ht_body :: string
  ht_route :: "plugin_route option"

definition routine_key :: "string \<Rightarrow> plugin_routine \<Rightarrow> string" where
  "routine_key i rt = i @ ''::'' @ pt_name rt"

definition routine_schedule :: "plugin_routine \<Rightarrow> string" where
  "routine_schedule rt = normalize_schedule (case pt_schedule rt of Some s \<Rightarrow> s | None \<Rightarrow> ''daily'') ''daily''"

definition routine_task :: "string \<Rightarrow> plugin_routine \<Rightarrow> heartbeat_task" where
  "routine_task i rt =
     \<lparr>ht_source = ''routine'', ht_plugin_id = i, ht_name = pt_name rt,
      ht_priority = normalize_priority (case pt_priority rt of Some p \<Rightarrow> p | None \<Rightarrow> ''normal'') ''normal'',
      ht_schedule = routine_schedule rt,
      ht_body = (case given (pt_task_template rt) of Some b \<Rightarrow> b
        | None \<Rightarrow> (case pt_description rt of Some d \<Rightarrow> d
            | None \<Rightarrow> ''Run plugin routine '' @ [CHR 0x27] @ pt_name rt @ [CHR 0x27])),
      ht_route = None\<rparr>"

definition last_run_of :: "local_clock \<Rightarrow> runtime_file \<Rightarrow> string \<Rightarrow> int option" where
  "last_run_of ck r key = Option.bind (bt_get (rf_last_run r) key) (lc_parse ck)"

definition mark_run :: "string \<Rightarrow> string \<Rightarrow> runtime_file \<Rightarrow> runtime_file" where
  "mark_run key stamp r = r\<lparr>rf_last_run := bt_insert key stamp (rf_last_run r)\<rparr>"

fun collect_routines ::
  "calendar \<Rightarrow> local_clock \<Rightarrow> int \<Rightarrow> (string \<times> plugin_routine) list \<Rightarrow> runtime_file \<Rightarrow> (heartbeat_task list \<times> runtime_file) option" where
  "collect_routines cal ck now [] r = Some ([], r)"
| "collect_routines cal ck now ((i, rt) # rest) r =
     (if routine_schedule rt = ''invalid'' then collect_routines cal ck now rest r
      else Option.bind (is_routine_due cal ck (routine_schedule rt) (last_run_of ck r (routine_key i rt)) now) (\<lambda>due.
        if \<not> due then collect_routines cal ck now rest r
        else map_option (\<lambda>(ts, r1). (routine_task i rt # ts, r1))
          (collect_routines cal ck now rest (mark_run (routine_key i rt) (lc_format ck now) r))))"

definition activation_task :: "queued_activation \<Rightarrow> heartbeat_task" where
  "activation_task q =
     \<lparr>ht_source = ''activation'', ht_plugin_id = qa_plugin_id q, ht_name = qa_activation_name q,
      ht_priority = normalize_priority (qa_priority q) ''high'', ht_schedule = ''once'', ht_body = qa_task q,
      ht_route = qa_route q\<rparr>"

definition all_routines :: "plugin_registry \<Rightarrow> (string \<times> plugin_routine) list" where
  "all_routines r = concat (map (\<lambda>p. map (Pair (plugin_id p)) (pm_routines (ip_manifest p))) (enabled_plugins r))"

definition collect_due_heartbeat_tasks ::
  "plugin_env \<Rightarrow> calendar \<Rightarrow> local_clock \<Rightarrow> int \<Rightarrow> string \<Rightarrow> plugin_registry \<Rightarrow> fs_tree \<Rightarrow> heartbeat_task list plugin_result option" where
  "collect_due_heartbeat_tasks e cal ck now agent reg fs =
     (case ensure_agent_plugins_dir e agent fs of
        (Inl err, fs1) \<Rightarrow> Some (Inl err, fs1)
      | (Inr root, fs1) \<Rightarrow>
          map_option (\<lambda>(ts, r).
              and_then (write_runtime_file e (runtime_path root) (r\<lparr>rf_queue := []\<rparr>) fs1)
                (\<lambda>_ fs2. (Inr (ts @ map activation_task (rf_queue r)), fs2)))
            (collect_routines cal ck now (all_routines reg) (read_runtime_file e fs1 (runtime_path root))))"

section \<open>Validation\<close>

definition env_requirements :: "(string \<Rightarrow> string option) \<Rightarrow> string list \<Rightarrow> string list \<times> string list" where
  "env_requirements env specs =
     (let required = foldl (\<lambda>vs s. let v = plugin_env_var_name s in if v \<noteq> [] \<and> v \<notin> set vs then vs @ [v] else vs) [] specs
      in (required, filter (\<lambda>v. env v = None) required))"

definition quoted :: "string \<Rightarrow> string" where
  "quoted s = [CHR 0x27] @ s @ [CHR 0x27]"

fun command_errors :: "string list \<Rightarrow> plugin_command list \<Rightarrow> string list" where
  "command_errors seen [] = []"
| "command_errors seen (c # cs) =
     (let n = normalize_command_name (pc_command c) in
      if n = []
      then (''Command '' @ quoted (pc_command c) @ '' normalizes to empty; use lowercase letters/digits/underscore.'')
        # command_errors seen cs
      else (if n \<in> set seen then [''Duplicate command after normalization: '' @ quoted n] else [])
        @ (if trim (pc_description c) = [] then [''Command '' @ quoted (pc_command c) @ '' has an empty description.''] else [])
        @ command_errors (n # seen) cs)"

definition activation_errors :: "plugin_activation list \<Rightarrow> string list" where
  "activation_errors as =
     List.map_filter (\<lambda>a. case pa_command a of
         Some c \<Rightarrow> if normalize_command_name c = []
           then Some (''Activation '' @ quoted (pa_name a) @ '' references invalid command '' @ quoted c @ ''.'') else None
       | None \<Rightarrow> None) as"

definition routine_errors :: "plugin_routine list \<Rightarrow> string list" where
  "routine_errors rs =
     List.map_filter (\<lambda>r. if routine_schedule r = ''invalid''
         then Some (''Routine '' @ quoted (pt_name r) @ '' has invalid schedule ''
           @ quoted (case pt_schedule r of Some s \<Rightarrow> s | None \<Rightarrow> ''daily'')
           @ ''. Use once|minutely|hourly|daily|weekly or cron: <expr>.'')
         else None) rs"

record validation_item =
  vi_plugin_id :: string
  vi_valid :: bool
  vi_errors :: "string list"
  vi_warnings :: "string list"
  vi_required :: "string list"
  vi_missing :: "string list"
  vi_manifest_path :: fs_path

definition runtime_errors :: "plugin_runtime option \<Rightarrow> string list" where
  "runtime_errors r = (case r of Some x \<Rightarrow> if trim (pr_kind x) = [] then [''runtime.kind is empty.''] else [] | None \<Rightarrow> [])"

definition runtime_warnings :: "(fs_path \<Rightarrow> string) \<Rightarrow> fs_tree \<Rightarrow> location \<Rightarrow> fs_path \<Rightarrow> plugin_runtime option \<Rightarrow> string list" where
  "runtime_warnings shown fs cwd dir r =
     (case r of
        None \<Rightarrow> []
      | Some x \<Rightarrow>
          (if pr_command x = [] then [''runtime.command is empty.''] else [])
          @ (case pr_dockerfile x of
               Some d \<Rightarrow> if path_exists fs cwd (path_join dir d) then []
                 else [''runtime.dockerfile '' @ quoted (shown (path_join dir d)) @ '' does not exist.'']
             | None \<Rightarrow> []))"

definition validate_plugin_entry ::
  "(fs_path \<Rightarrow> string) \<Rightarrow> (string \<Rightarrow> string option) \<Rightarrow> fs_tree \<Rightarrow> location \<Rightarrow> installed_plugin \<Rightarrow> validation_item" where
  "validate_plugin_entry shown env fs cwd p =
     (let m = ip_manifest p;
          errors = command_errors [] (pm_commands m) @ activation_errors (pm_activations m) @ routine_errors (pm_routines m)
            @ runtime_errors (pm_runtime m);
          skills = path_join (ip_dir p) (skills_subdir m);
          (required, missing) = env_requirements env (pm_envvars m);
          warnings = (if is_dir fs cwd skills then [] else [''Skills directory '' @ quoted (shown skills) @ '' is missing.''])
            @ runtime_warnings shown fs cwd (ip_dir p) (pm_runtime m)
            @ (if missing = [] then [] else [''Missing required environment variables: '' @ join '', '' missing])
      in \<lparr>vi_plugin_id = pm_id m, vi_valid = (errors = []), vi_errors = errors, vi_warnings = warnings,
          vi_required = required, vi_missing = missing, vi_manifest_path = path_join (ip_dir p) ''plugin.toml''\<rparr>)"

record validation_report =
  vr_agent_name :: string
  vr_valid :: bool
  vr_items :: "validation_item list"
  vr_load_errors :: "load_error list"

definition validate_plugin_snapshot ::
  "(fs_path \<Rightarrow> string) \<Rightarrow> plugin_env \<Rightarrow> (string \<Rightarrow> string option) \<Rightarrow> string \<Rightarrow> string option \<Rightarrow> fs_tree \<Rightarrow> plugin_error + validation_report" where
  "validate_plugin_snapshot shown e env agent id_arg fs =
     (let reg = load_registry e agent fs; check = validate_plugin_entry shown env fs (pe_cwd e) in
      bind_res
        (case id_arg of
           Some i \<Rightarrow> (case get_plugin reg (normalize_plugin_id i) of
               None \<Rightarrow> Inl (PluginNotFound (normalize_plugin_id i) agent) | Some p \<Rightarrow> Inr [check p])
         | None \<Rightarrow> Inr (map check (pg_plugins reg)))
        (\<lambda>items. Inr \<lparr>vr_agent_name = agent, vr_valid = (list_all vi_valid items \<and> pg_load_errors reg = []),
           vr_items = items, vr_load_errors = pg_load_errors reg\<rparr>))"

record plugin_fs_entry =
  fe_name :: string
  fe_kind :: string

record plugin_read_summary =
  rs_id :: string
  rs_name :: string
  rs_version :: string
  rs_enabled :: bool
  rs_path :: fs_path
  rs_commands :: nat
  rs_routines :: nat
  rs_activations :: nat
  rs_emojis :: nat

record plugin_read_list =
  rl_agent_name :: string
  rl_plugins :: "plugin_read_summary list"
  rl_load_errors :: "load_error list"

record plugin_read_detail =
  rd_agent_name :: string
  rd_id :: string
  rd_enabled :: bool
  rd_plugin_dir :: fs_path
  rd_manifest_path :: fs_path
  rd_manifest :: plugin_manifest
  rd_required :: "string list"
  rd_missing :: "string list"
  rd_entries :: "plugin_fs_entry list"
  rd_load_errors :: "load_error list"

definition list_top_level_entries :: "plugin_env \<Rightarrow> fs_tree \<Rightarrow> fs_path \<Rightarrow> plugin_fs_entry list" where
  "list_top_level_entries e fs dir =
     (case read_dir fs (pe_cwd e) dir of
        Inl _ \<Rightarrow> []
      | Inr names \<Rightarrow> sort_key fe_name (map (\<lambda>n. \<lparr>fe_name = n,
          fe_kind = (if is_dir fs (pe_cwd e) (path_join dir n) then ''dir'' else ''file'')\<rparr>) names))"

definition read_summary :: "installed_plugin \<Rightarrow> plugin_read_summary" where
  "read_summary p =
     (let m = ip_manifest p in
      \<lparr>rs_id = pm_id m, rs_name = display_name m, rs_version = pm_version m, rs_enabled = ip_enabled p, rs_path = ip_dir p,
       rs_commands = length (pm_commands m), rs_routines = length (pm_routines m),
       rs_activations = length (pm_activations m), rs_emojis = length (pm_emojis m)\<rparr>)"

definition read_plugin_snapshot ::
  "plugin_env \<Rightarrow> (string \<Rightarrow> string option) \<Rightarrow> string \<Rightarrow> string option \<Rightarrow> bool \<Rightarrow> fs_tree
     \<Rightarrow> plugin_error + plugin_read_detail + plugin_read_list" where
  "read_plugin_snapshot e env agent id_arg include_files fs =
     (let reg = load_registry e agent fs in
      case id_arg of
        Some i \<Rightarrow>
          (case get_plugin reg (normalize_plugin_id i) of
             None \<Rightarrow> Inl (PluginNotFound (normalize_plugin_id i) agent)
           | Some p \<Rightarrow>
               (let (required, missing) = env_requirements env (pm_envvars (ip_manifest p)) in
                Inr (Inl \<lparr>rd_agent_name = agent, rd_id = plugin_id p, rd_enabled = ip_enabled p, rd_plugin_dir = ip_dir p,
                  rd_manifest_path = path_join (ip_dir p) ''plugin.toml'', rd_manifest = ip_manifest p,
                  rd_required = required, rd_missing = missing,
                  rd_entries = (if include_files then list_top_level_entries e fs (ip_dir p) else []),
                  rd_load_errors = pg_load_errors reg\<rparr>)))
      | None \<Rightarrow>
          Inr (Inr \<lparr>rl_agent_name = agent, rl_plugins = map read_summary (pg_plugins reg),
            rl_load_errors = pg_load_errors reg\<rparr>))"

section \<open>Scaffolds\<close>

definition scaffold_manifest :: "string \<Rightarrow> plugin_manifest" where
  "scaffold_manifest i =
     \<lparr>pm_id = i, pm_version = ''0.1.0'', pm_name = Some i, pm_description = Some ''Describe what this plugin adds'',
      pm_enabled_by_default = True, pm_capabilities = [], pm_envvars = [], pm_skills_dir = Some ''skills'',
      pm_commands = [], pm_emojis = [], pm_routines = [], pm_activations = [], pm_runtime = Some plugin_runtime_default\<rparr>"

definition run_script :: string where
  "run_script =
     ''#!/bin/sh'' @ [newline] @ ''set -eu'' @ [newline, newline] @ ''ARGS=\"${*:-}\"'' @ [newline]
     @ ''echo \"plugin=$THAT_PLUGIN_ID agent=$THAT_AGENT_NAME args=$ARGS\"'' @ [newline]"

definition plugin_skill_template :: "string \<Rightarrow> string" where
  "plugin_skill_template n = skill_template n ''Replace this skill with plugin-specific instructions.''"

definition mkdirs :: "plugin_env \<Rightarrow> fs_path \<Rightarrow> fs_tree \<Rightarrow> unit plugin_result" where
  "mkdirs e p fs = wrap_error PluginIo (create_dir_all p (pe_cwd e) fs)"

definition put_file :: "plugin_env \<Rightarrow> fs_path \<Rightarrow> string \<Rightarrow> fs_tree \<Rightarrow> unit plugin_result" where
  "put_file e p content fs = wrap_error PluginIo (write_file p content (pe_cwd e) fs)"

definition scope_dir :: "plugin_env \<Rightarrow> string \<Rightarrow> scope_target \<Rightarrow> fs_tree \<Rightarrow> fs_path plugin_result" where
  "scope_dir e agent target fs = wrap_error PluginScope (ensure_scope_path (pe_home e) agent target (pe_cwd e) fs)"

definition create_plugin_scaffold :: "plugin_env \<Rightarrow> string \<Rightarrow> string \<Rightarrow> bool \<Rightarrow> fs_tree \<Rightarrow> fs_path plugin_result" where
  "create_plugin_scaffold e agent i0 force fs =
     (let i = normalize_plugin_id i0 in
      if i = [] then (Inl NoPluginId, fs)
      else case resolve_scope_path (pe_home e) agent (PluginRoot i) of
        Inl err \<Rightarrow> (Inl (PluginScope err), fs)
      | Inr dir \<Rightarrow>
          and_then (if path_exists fs (pe_cwd e) dir
                    then (if force then Inr () else Inl (PluginExists i dir), fs) else mkdirs e dir fs) (\<lambda>_ fs1.
          and_then (scope_dir e agent (PluginSkills i) fs1) (\<lambda>skills fs2.
          and_then (scope_dir e agent (PluginScripts i) fs2) (\<lambda>scripts fs3.
          and_then (scope_dir e agent (PluginState i) fs3) (\<lambda>_ fs4.
          and_then (scope_dir e agent (PluginArtifacts i) fs4) (\<lambda>_ fs5.
          and_then (put_file e (path_join dir ''plugin.toml'') (pe_manifest_text e (scaffold_manifest i)) fs5) (\<lambda>_ fs6.
          and_then (mkdirs e (path_join skills ''example'') fs6) (\<lambda>_ fs7.
            let sample = path_join (path_join skills ''example'') ''SKILL.md''; run = path_join scripts ''run.sh'' in
          and_then (if force \<or> \<not> path_exists fs7 (pe_cwd e) sample
                    then put_file e sample (plugin_skill_template ''example'') fs7 else (Inr (), fs7)) (\<lambda>_ fs8.
          and_then (if force \<or> \<not> path_exists fs8 (pe_cwd e) run then put_file e run run_script fs8 else (Inr (), fs8))
            (\<lambda>_ fs9. (Inr dir, fs9)))))))))))"

definition create_plugin_skill_scaffold ::
  "plugin_env \<Rightarrow> string \<Rightarrow> string \<Rightarrow> string \<Rightarrow> bool \<Rightarrow> fs_tree \<Rightarrow> fs_path plugin_result" where
  "create_plugin_skill_scaffold e agent i0 skill_name force fs =
     (let i = normalize_plugin_id i0; n = normalize_skill_dir_name skill_name in
      if i = [] then (Inl NoPluginId, fs)
      else case resolve_scope_path (pe_home e) agent (PluginRoot i) of
        Inl err \<Rightarrow> (Inl (PluginScope err), fs)
      | Inr dir \<Rightarrow>
          if \<not> path_exists fs (pe_cwd e) dir then (Inl (PluginMissing i agent), fs)
          else (case read_to_string fs (pe_cwd e) (path_join dir ''plugin.toml'') of
            Inl err \<Rightarrow> (Inl (PluginManifestError (ManifestUnreadable (path_join dir ''plugin.toml'') err)), fs)
          | Inr s \<Rightarrow>
              (case load_manifest e (path_join dir ''plugin.toml'') i s of
                 Inl err \<Rightarrow> (Inl (PluginManifestError err), fs)
               | Inr m \<Rightarrow>
                   if n = [] then (Inl NoSkillName, fs)
                   else (let root = path_join dir (skills_subdir m); sd = path_join root n; sp = path_join sd ''SKILL.md'' in
                     and_then (mkdirs e root fs) (\<lambda>_ fs1.
                     if path_exists fs1 (pe_cwd e) sd \<and> \<not> force then (Inl (PluginSkillExists n sd), fs1)
                     else and_then (mkdirs e sd fs1) (\<lambda>_ fs2.
                       and_then (if force \<or> \<not> path_exists fs2 (pe_cwd e) sp then put_file e sp (plugin_skill_template n) fs2
                                 else (Inr (), fs2)) (\<lambda>_ fs3. (Inr sp, fs3))))))))"

end
