(* ===== verification/Plugin_Cluster.thy ===== *)
theory Plugin_Cluster
  imports Plugins
begin

text \<open>
  The plugins shared by a cluster of agents (\<open>plugins/cluster.rs\<close>): one JSON file with the main agent
  and the installed plugins, their owners and policies.  The JSON codec is a parameter; the file is
  replaced by renaming, so a failed write leaves the old one.
\<close>

section \<open>State\<close>

record cluster_plugin =
  cp_id :: string
  cp_version :: string
  cp_owner_agent :: string
  cp_allow :: "string list"
  cp_manifest :: plugin_manifest
  cp_deploy_status :: "string option"
  cp_status_checked_at :: "u64 option"

record cluster_state =
  cs_main_agent :: "string option"
  cs_plugins :: "cluster_plugin list"

definition cluster_default :: cluster_state where
  "cluster_default = \<lparr>cs_main_agent = None, cs_plugins = []\<rparr>"

datatype cluster_error =
    ClusterRead
  | ClusterJson
  | ClusterWrite string
  | NotOwner string
  | NoPlugin string
  | NotPolicyOwner string

record cluster_env =
  ce_parse :: "string \<Rightarrow> cluster_state option"
  ce_print :: "cluster_state \<Rightarrow> string"
  ce_write_error :: "string option"

definition load_cluster :: "cluster_env \<Rightarrow> string option \<Rightarrow> cluster_error + cluster_state" where
  "load_cluster e f =
     (case f of
        None \<Rightarrow> Inr cluster_default
      | Some s \<Rightarrow>
          if \<not> utf8_ok s then Inl ClusterRead
          else (case ce_parse e s of None \<Rightarrow> Inl ClusterJson | Some st \<Rightarrow> Inr st))"

definition save_cluster :: "cluster_env \<Rightarrow> cluster_state \<Rightarrow> string option \<Rightarrow> (cluster_error + unit) \<times> string option" where
  "save_cluster e st f =
     (case ce_write_error e of Some msg \<Rightarrow> (Inl (ClusterWrite msg), f) | None \<Rightarrow> (Inr (), Some (ce_print e st)))"

section \<open>Operations on the state\<close>

definition new_plugin :: "plugin_manifest \<Rightarrow> string \<Rightarrow> cluster_plugin" where
  "new_plugin m owner =
     \<lparr>cp_id = pm_id m, cp_version = pm_version m, cp_owner_agent = owner, cp_allow = [''*''], cp_manifest = m,
      cp_deploy_status = None, cp_status_checked_at = None\<rparr>"

definition put_plugin :: "cluster_plugin list \<Rightarrow> cluster_plugin \<Rightarrow> cluster_plugin list" where
  "put_plugin ps p =
     (if list_ex (\<lambda>x. cp_id x = cp_id p) ps
      then (case update_first (\<lambda>x. cp_id x = cp_id p) (\<lambda>_. Inr p :: unit + cluster_plugin) ps of Inr qs \<Rightarrow> qs | Inl _ \<Rightarrow> ps)
      else ps @ [p])"

definition drop_plugin :: "cluster_plugin list \<Rightarrow> string \<Rightarrow> cluster_plugin list" where
  "drop_plugin ps i = filter (\<lambda>p. cp_id p \<noteq> i) ps"

definition install_in :: "plugin_manifest \<Rightarrow> string \<Rightarrow> cluster_state \<Rightarrow> cluster_state" where
  "install_in m owner st =
     \<lparr>cs_main_agent = (case cs_main_agent st of None \<Rightarrow> Some owner | Some a \<Rightarrow> Some a),
      cs_plugins = put_plugin (cs_plugins st) (new_plugin m owner)\<rparr>"

definition uninstall_in :: "string \<Rightarrow> string \<Rightarrow> cluster_state \<Rightarrow> cluster_error + cluster_state" where
  "uninstall_in i requestor st =
     (case lookup_by cp_id (cs_plugins st) i of
        None \<Rightarrow> Inl (NoPlugin i)
      | Some p \<Rightarrow>
          if cp_owner_agent p = requestor \<or> cs_main_agent st = Some requestor
          then Inr (st\<lparr>cs_plugins := drop_plugin (cs_plugins st) i\<rparr>)
          else Inl (NotOwner i))"

definition set_policy_in :: "string \<Rightarrow> string list \<Rightarrow> string \<Rightarrow> cluster_state \<Rightarrow> cluster_error + cluster_state" where
  "set_policy_in i allow requestor st =
     (if \<not> list_ex (\<lambda>p. cp_id p = i) (cs_plugins st) then Inl (NoPlugin i)
      else bind_res (update_first (\<lambda>p. cp_id p = i)
          (\<lambda>p. if cp_owner_agent p \<noteq> requestor \<and> cs_main_agent st \<noteq> Some requestor then Inl (NotPolicyOwner i)
                else Inr (p\<lparr>cp_allow := allow\<rparr>)) (cs_plugins st))
        (\<lambda>ps. Inr (st\<lparr>cs_plugins := ps\<rparr>)))"

section \<open>Operations on the file\<close>

definition cluster_update ::
  "cluster_env \<Rightarrow> (cluster_state \<Rightarrow> cluster_error + cluster_state) \<Rightarrow> string option \<Rightarrow> (cluster_error + unit) \<times> string option" where
  "cluster_update e f file0 =
     (case bind_res (load_cluster e file0) f of Inl err \<Rightarrow> (Inl err, file0) | Inr st \<Rightarrow> save_cluster e st file0)"

definition cluster_install ::
  "cluster_env \<Rightarrow> plugin_manifest \<Rightarrow> string \<Rightarrow> string option \<Rightarrow> (cluster_error + cluster_plugin) \<times> string option" where
  "cluster_install e m owner file0 =
     (case cluster_update e (\<lambda>st. Inr (install_in m owner st)) file0 of
        (Inl err, f) \<Rightarrow> (Inl err, f) | (Inr _, f) \<Rightarrow> (Inr (new_plugin m owner), f))"

definition cluster_uninstall :: "cluster_env \<Rightarrow> string \<Rightarrow> string \<Rightarrow> string option \<Rightarrow> (cluster_error + unit) \<times> string option" where
  "cluster_uninstall e i requestor = cluster_update e (uninstall_in i requestor)"

definition cluster_set_policy ::
  "cluster_env \<Rightarrow> string \<Rightarrow> string list \<Rightarrow> string \<Rightarrow> string option \<Rightarrow> (cluster_error + unit) \<times> string option" where
  "cluster_set_policy e i allow requestor = cluster_update e (set_policy_in i allow requestor)"

definition cluster_list :: "cluster_env \<Rightarrow> string option \<Rightarrow> cluster_error + cluster_plugin list" where
  "cluster_list e f = bind_res (load_cluster e f) (\<lambda>st. Inr (cs_plugins st))"

definition cluster_find :: "cluster_env \<Rightarrow> string \<Rightarrow> string option \<Rightarrow> cluster_error + cluster_plugin option" where
  "cluster_find e i f = bind_res (load_cluster e f) (\<lambda>st. Inr (lookup_by cp_id (cs_plugins st) i))"

section \<open>The list as a table\<close>

lemma lookup_by_Cons: "lookup_by key (x # xs) k = (if key x = k then Some x else lookup_by key xs k)"
  by (simp add: lookup_by_def)

lemma update_first_const:
  "\<exists>x\<in>set ps. key x = key p \<Longrightarrow>
     \<exists>as x bs. ps = as @ x # bs \<and> update_first (\<lambda>x. key x = key p) (\<lambda>_. Inr p :: unit + 'a) ps = Inr (as @ p # bs)
       \<and> key x = key p \<and> (\<forall>a\<in>set as. key a \<noteq> key p)"
proof (induction ps)
  case (Cons y ys)
  show ?case
  proof (cases "key y = key p")
    case True
    then show ?thesis by (intro exI [of _ "[]"] exI [of _ y] exI [of _ ys]) simp
  next
    case False
    then obtain as x bs where "ys = as @ x # bs" "update_first (\<lambda>x. key x = key p) (\<lambda>_. Inr p :: unit + 'a) ys = Inr (as @ p # bs)"
      "key x = key p" "\<forall>a\<in>set as. key a \<noteq> key p" using Cons by auto
    with False show ?thesis by (intro exI [of _ "y # as"] exI [of _ x] exI [of _ bs]) simp
  qed
qed simp

lemma put_plugin_cases:
  obtains (fresh) "put_plugin ps p = ps @ [p]" "\<forall>x\<in>set ps. cp_id x \<noteq> cp_id p"
  | (replaced) as x bs where "ps = as @ x # bs" "put_plugin ps p = as @ p # bs" "cp_id x = cp_id p" "\<forall>a\<in>set as. cp_id a \<noteq> cp_id p"
proof (cases "\<exists>x\<in>set ps. cp_id x = cp_id p")
  case True
  from update_first_const [where key = cp_id, OF this] that(2) True show ?thesis
    by (auto simp: put_plugin_def list_ex_iff)
qed (use that(1) in \<open>auto simp: put_plugin_def list_ex_iff\<close>)

interpretation cluster_table: keyed_table cp_id put_plugin drop_plugin
proof
  show "lookup_by cp_id (put_plugin ps p) k = (if k = cp_id p then Some p else lookup_by cp_id ps k)" for ps p k
  proof (cases ps p rule: put_plugin_cases)
    case fresh
    have "lookup_by cp_id [p] k = (if k = cp_id p then Some p else None)" by (simp add: lookup_by_def)
    moreover have "lookup_by cp_id ps (cp_id p) = None" using fresh(2) by (auto simp: lookup_by_None)
    ultimately show ?thesis using fresh(1) by (cases "k = cp_id p"; cases "lookup_by cp_id ps k") (simp_all add: lookup_by_append)
  next
    case (replaced as x bs)
    then have "lookup_by cp_id as (cp_id p) = None" by (auto simp: lookup_by_None)
    with replaced show ?thesis by (auto simp: lookup_by_append lookup_by_Cons split: option.split)
  qed
  show "lookup_by cp_id (drop_plugin ps k') k = (if k = k' then None else lookup_by cp_id ps k)" for ps k k'
    unfolding drop_plugin_def by (rule lookup_by_filter_neq)
  show "distinct (map cp_id ps) \<Longrightarrow> distinct (map cp_id (put_plugin ps p))" for ps p
    by (cases ps p rule: put_plugin_cases) auto
  show "distinct (map cp_id ps) \<Longrightarrow> distinct (map cp_id (drop_plugin ps k))" for ps k
    by (simp add: drop_plugin_def distinct_map_filter)
qed

section \<open>Who may change what\<close>

datatype cluster_op = InstallOp plugin_manifest string | UninstallOp string string | PolicyOp string "string list" string

definition cluster_step :: "cluster_op \<Rightarrow> cluster_state \<Rightarrow> cluster_state" where
  "cluster_step op st =
     (case op of
        InstallOp m a \<Rightarrow> install_in m a st
      | UninstallOp i a \<Rightarrow> (case uninstall_in i a st of Inr st1 \<Rightarrow> st1 | Inl _ \<Rightarrow> st)
      | PolicyOp i allow a \<Rightarrow> (case set_policy_in i allow a st of Inr st1 \<Rightarrow> st1 | Inl _ \<Rightarrow> st))"

definition op_agent :: "cluster_op \<Rightarrow> string" where
  "op_agent op = (case op of InstallOp _ a \<Rightarrow> a | UninstallOp _ a \<Rightarrow> a | PolicyOp _ _ a \<Rightarrow> a)"

definition installs :: "string \<Rightarrow> cluster_op \<Rightarrow> bool" where
  "installs i op = (case op of InstallOp m _ \<Rightarrow> pm_id m = i | _ \<Rightarrow> False)"

lemma set_policy_lookup:
  assumes "set_policy_in i allow a st = Inr st1"
  shows "cs_main_agent st1 = cs_main_agent st \<and>
    (\<forall>k. lookup_by cp_id (cs_plugins st1) k
       = (if k = i then map_option (\<lambda>p. p\<lparr>cp_allow := allow\<rparr>) (lookup_by cp_id (cs_plugins st) i) else lookup_by cp_id (cs_plugins st) k))
    \<and> (\<forall>p. lookup_by cp_id (cs_plugins st) i = Some p \<longrightarrow> cp_owner_agent p = a \<or> cs_main_agent st = Some a)"
proof -
  let ?f = "\<lambda>p. if cp_owner_agent p \<noteq> a \<and> cs_main_agent st \<noteq> Some a then Inl (NotPolicyOwner i) else Inr (p\<lparr>cp_allow := allow\<rparr>)"
  obtain ps where ps: "update_first (\<lambda>p. cp_id p = i) ?f (cs_plugins st) = Inr ps" "st1 = st\<lparr>cs_plugins := ps\<rparr>"
    and ex: "\<exists>p\<in>set (cs_plugins st). cp_id p = i"
    using assms by (auto simp: set_policy_in_def list_ex_iff split: if_splits elim: bind_res_InrD)
  obtain as x bs y where xs: "cs_plugins st = as @ x # bs" "ps = as @ y # bs" "cp_id x = i" "?f x = Inr y" "\<forall>a\<in>set as. cp_id a \<noteq> i"
    by (rule update_first_split [OF ps(1) ex])
  then have y: "y = x\<lparr>cp_allow := allow\<rparr>" "cp_owner_agent x = a \<or> cs_main_agent st = Some a" by (auto split: if_splits)
  have none: "lookup_by cp_id as i = None" using xs(5) by (auto simp: lookup_by_None)
  show ?thesis using ps(2) xs(1-3) y none by (auto simp: lookup_by_append lookup_by_Cons split: option.split)
qed

lemma step_main: "cs_main_agent st = Some a \<Longrightarrow> cs_main_agent (cluster_step op st) = Some a"
  using set_policy_lookup
  by (fastforce simp: cluster_step_def install_in_def uninstall_in_def split: cluster_op.split sum.split option.split)

lemma stranger_step:
  assumes "lookup_by cp_id (cs_plugins st) i = Some p" "cs_main_agent st = Some main"
    and "op_agent op \<noteq> cp_owner_agent p" "op_agent op \<noteq> main" "\<not> installs i op"
  shows "lookup_by cp_id (cs_plugins (cluster_step op st)) i = Some p"
proof (cases op)
  case (InstallOp m a)
  then show ?thesis using assms
    by (simp add: cluster_step_def install_in_def installs_def cluster_table.lookup_put new_plugin_def)
next
  case (UninstallOp k a)
  then show ?thesis using assms
    by (auto simp: cluster_step_def uninstall_in_def op_agent_def cluster_table.lookup_del split: option.split)
next
  case (PolicyOp k allow a)
  then show ?thesis using assms set_policy_lookup [of k allow a st]
    by (auto simp: cluster_step_def op_agent_def split: sum.split)
qed

text \<open>C0: once a plugin is installed and there is a main agent, no sequence of requests of other agents than its
  owner and the main agent changes or removes it, unless one of them installs the same identifier.\<close>

theorem strangers_keep_plugin:
  assumes "lookup_by cp_id (cs_plugins st) i = Some p" "cs_main_agent st = Some main"
    and "\<forall>op\<in>set ops. op_agent op \<noteq> cp_owner_agent p \<and> op_agent op \<noteq> main \<and> \<not> installs i op"
  shows "lookup_by cp_id (cs_plugins (foldl (\<lambda>st op. cluster_step op st) st ops)) i = Some p"
  using assms
proof (induction ops arbitrary: st)
  case (Cons op ops)
  then show ?case using stranger_step [of st i p main op] step_main by simp
qed simp

definition demo_manifest :: plugin_manifest where
  "demo_manifest = scaffold_manifest ''p''"

definition demo_cluster :: cluster_state where
  "demo_cluster = install_in demo_manifest ''main'' cluster_default"

lemma strangers_keep_plugin_witness:
  "lookup_by cp_id (cs_plugins (foldl (\<lambda>st op. cluster_step op st) demo_cluster
     [UninstallOp ''p'' ''x'', PolicyOp ''p'' [] ''x'', InstallOp (scaffold_manifest ''q'') ''x''])) ''p'' = Some (new_plugin demo_manifest ''main'')"
  by (rule strangers_keep_plugin [where main = "''main''"]; code_simp)

text \<open>C0: after an installation under an identifier that another agent owns, the installing agent owns the
  plugin, its policy is open again, and the agent may remove it.\<close>

theorem install_takes_over:
  "let st1 = install_in m a st in
     lookup_by cp_id (cs_plugins st1) (pm_id m) = Some (new_plugin m a)
     \<and> cp_owner_agent (new_plugin m a) = a \<and> cp_allow (new_plugin m a) = [''*'']
     \<and> ok (uninstall_in (pm_id m) a st1)"
proof -
  have "lookup_by cp_id (cs_plugins (install_in m a st)) (pm_id m) = Some (new_plugin m a)"
    by (simp add: install_in_def cluster_table.lookup_put new_plugin_def)
  then show ?thesis by (simp add: Let_def uninstall_in_def ok_def) (simp add: new_plugin_def)
qed

text \<open>C0: the identifiers of the installed plugins stay distinct.\<close>

theorem cluster_ids_distinct:
  "distinct (map cp_id (cs_plugins st)) \<Longrightarrow> distinct (map cp_id (cs_plugins (foldl (\<lambda>st op. cluster_step op st) st ops)))"
proof (induction ops arbitrary: st)
  case (Cons op ops)
  have "distinct (map cp_id (cs_plugins (cluster_step op st)))"
  proof (cases op)
    case (InstallOp m a)
    then show ?thesis using Cons.prems by (simp add: cluster_step_def install_in_def cluster_table.put_distinct)
  next
    case (UninstallOp k a)
    then show ?thesis using Cons.prems
      by (auto simp: cluster_step_def uninstall_in_def cluster_table.del_distinct split: option.split)
  next
    case (PolicyOp k allow a)
    let ?f = "\<lambda>p. if cp_owner_agent p \<noteq> a \<and> cs_main_agent st \<noteq> Some a then Inl (NotPolicyOwner k) else Inr (p\<lparr>cp_allow := allow\<rparr>)"
    have "update_first (\<lambda>p. cp_id p = k) ?f xs = Inr ys \<Longrightarrow> map cp_id ys = map cp_id xs" for xs ys
      by (induction xs arbitrary: ys) (auto split: if_splits elim!: bind_res_InrD)
    from this [of "cs_plugins st"] show ?thesis using PolicyOp Cons.prems
      by (auto simp: cluster_step_def set_policy_in_def split: sum.split if_splits elim!: bind_res_InrD)
  qed
  from Cons.IH [OF this] show ?case by simp
qed simp

lemma cluster_ids_distinct_witness:
  "distinct (map cp_id (cs_plugins (foldl (\<lambda>st op. cluster_step op st) demo_cluster [InstallOp demo_manifest ''x'', InstallOp (scaffold_manifest ''q'') ''y''])))"
  by (rule cluster_ids_distinct) code_simp

end
