(* ===== verification/Plugin_Props.thy ===== *)
theory Plugin_Props
  imports Plugins Fs_Props Demo_Codecs
begin

text \<open>
  What the plugin registry promises: distinct command names that are fit for a bot, switches that
  hold at the next load, routines that are collected once per slot, and activations that are handed
  over exactly once.
\<close>

section \<open>Names\<close>

lemma take_names_spec:
  "distinct (map f (take_names f seen xs)) \<and> set (map f (take_names f seen xs)) \<inter> (set seen \<union> {[]}) = {}
     \<and> set (take_names f seen xs) \<subseteq> set xs"
proof (induction xs arbitrary: seen)
  case (Cons x xs)
  from Cons.IH [of seen] Cons.IH [of "f x # seen"] show ?case by auto
qed simp

definition command_char :: "char \<Rightarrow> bool" where
  "command_char c \<longleftrightarrow> is_digit c \<or> is_lower c \<or> c = under"

lemma lower_char_command: "is_ascii_alnum (lower_char c) \<or> lower_char c = under \<Longrightarrow> command_char (lower_char c)"
proof (cases "is_upper c")
  case True
  then have "of_char (lower_char c) = (of_char c + 32 :: nat)"
    by (simp add: lower_char_def is_upper_def Let_def)
  with True have "is_lower (lower_char c)" by (simp add: is_lower_def is_upper_def Let_def)
  then show ?thesis by (simp add: command_char_def)
qed (auto simp: lower_char_def command_char_def is_ascii_alnum_def)

lemma command_name_chars: "list_all command_char (normalize_command_name s) \<and> length (normalize_command_name s) \<le> 32"
proof -
  let ?f = "filter (\<lambda>c. is_ascii_alnum c \<or> c = under) (to_ascii_lower (dropWhile (\<lambda>c. c = CHR ''/'') (trim s)))"
  have "\<forall>c\<in>set ?f. command_char c" using lower_char_command by (fastforce simp: to_ascii_lower_def)
  then show ?thesis using set_take_subset [of 32 ?f] unfolding normalize_command_name_def list_all_iff by auto
qed

text \<open>C0: the commands of the enabled plugins have distinct names, each a nonempty text of at most 32 lower
  case letters, digits and underscores.\<close>

theorem plugin_commands_fit:
  "distinct (map rc_command (enabled_commands r)) \<and>
   list_all (\<lambda>c. rc_command c \<noteq> [] \<and> length (rc_command c) \<le> 32 \<and> list_all command_char (rc_command c)) (enabled_commands r)"
proof -
  let ?f = "\<lambda>(i :: string, c). normalize_command_name (pc_command c)"
  let ?xs = "concat (map (\<lambda>p. map (Pair (plugin_id p)) (pm_commands (ip_manifest p))) (enabled_plugins r))"
  have m: "map rc_command (enabled_commands r) = map ?f (take_names ?f [] ?xs)"
    by (simp add: enabled_commands_def case_prod_beta)
  have "\<forall>c\<in>set (map rc_command (enabled_commands r)). c \<noteq> [] \<and> length c \<le> 32 \<and> list_all command_char c"
    unfolding m using take_names_spec [of ?f "[]" ?xs] command_name_chars by fastforce
  moreover have "distinct (map rc_command (enabled_commands r))" unfolding m using take_names_spec by blast
  ultimately show ?thesis by (auto simp: list_all_iff)
qed

section \<open>Switches\<close>

text \<open>A path that is a directory is left alone.\<close>

lemma create_dir_existing:
  assumes "is_dir fs cwd p"
  shows "\<exists>e. create_dir p cwd fs = (Inl e, fs) \<and> e \<noteq> NotFoundError"
proof (cases "path_parent p")
  case None
  then have "\<not> empty_path p" using assms by (auto simp: is_dir_def lookup_def split: sum.splits)
  with None show ?thesis by (simp add: create_dir_def)
next
  case (Some q)
  obtain l where l: "lookup fs cwd False p = Inr l" "is_dir_at fs l"
    using assms by (auto simp: is_dir_def split: sum.splits)
  have ne: "fp_components p \<noteq> []" "\<not> empty_path p" using Some by (auto simp: path_parent_def empty_path_def split: if_splits)
  obtain k m j where k: "(if empty_path q then Inr cwd else lookup fs cwd False q) = Inr k"
    "resolve fs False m k [last (fp_components p)] = Inr (l, j)"
  proof (cases "empty_path q")
    case True
    then have "butlast (fp_components p) = []" "\<not> fp_absolute p"
      using Some by (auto simp: path_parent_def empty_path_def split: if_splits)
    then have "fp_components p = [last (fp_components p)]" using ne by (metis append_butlast_last_id append_Nil)
    moreover obtain j where "resolve fs False max_links cwd (fp_components p) = Inr (l, j)"
      using l(1) \<open>\<not> fp_absolute p\<close> by (auto simp: lookup_def split: if_splits sum.splits)
    ultimately show ?thesis using that [of cwd max_links j] True by simp
  next
    case False
    have q: "fp_absolute q = fp_absolute p" using Some by (auto simp: path_parent_def split: if_splits)
    obtain k m where "resolve fs False max_links (if fp_absolute p then [] else cwd) (fp_components q) = Inr (k, m)"
      "(case resolve fs False m k [last (fp_components p)] of Inl e \<Rightarrow> Inl e | Inr (x, _) \<Rightarrow> Inr x) = Inr l"
      using l(1) lookup_parent [OF ne(2,1) Some False, of fs cwd False] by (auto split: sum.splits)
    moreover from this(1) have "lookup fs cwd False q = Inr k" using False q by (simp add: lookup_def)
    ultimately show ?thesis using that [of k m] False by (auto split: sum.splits)
  qed
  then have "node_at fs k = Some DirNode \<and> (last (fp_components p) = ''..'' \<or> node_at fs (k @ [last (fp_components p)]) \<noteq> None)"
    by (auto simp: resolve.simps(2) split: if_splits option.splits)
  with k(1) Some show ?thesis by (simp add: create_dir_def is_dir_at_def Let_def)
qed

lemma create_dir_all_existing: "is_dir fs cwd p \<Longrightarrow> create_dir_all p cwd fs = (Inr (), fs)"
proof -
  assume d: "is_dir fs cwd p"
  then obtain e where e: "create_dir p cwd fs = (Inl e, fs)" "e \<noteq> NotFoundError" using create_dir_existing by blast
  obtain a cs where p: "p = \<lparr>fp_absolute = a, fp_components = cs\<rparr>" by (cases p) auto
  have "create_components a cs cwd fs = (Inr (), fs)"
    using e d unfolding p by (subst create_components.simps) (simp add: Let_def)
  then show ?thesis by (simp add: create_dir_all_def p)
qed


lemma ensure_existing:
  assumes "agent_plugins_dir e agent = Some root" "is_dir fs (pe_cwd e) root"
  shows "ensure_agent_plugins_dir e agent fs = (Inr root, fs)"
  using assms by (simp add: ensure_agent_plugins_dir_def wrap_error_def create_dir_all_existing)

lemma load_entry_enabled:
  assumes "load_entry e fs st root n = Some (Inr p)"
  shows "ip_enabled p = (case bt_get st (plugin_id p) of Some x \<Rightarrow> x | None \<Rightarrow> pm_enabled_by_default (ip_manifest p))"
proof -
  obtain m where "p = \<lparr>ip_manifest = m, ip_dir = path_join root n,
      ip_enabled = (case bt_get st (pm_id m) of Some b \<Rightarrow> b | None \<Rightarrow> pm_enabled_by_default m)\<rparr>"
    using assms by (auto simp: load_entry_def Let_def split: if_splits sum.splits elim!: bind_res_InrD)
  then show ?thesis by (auto simp: plugin_id_def split: option.split)
qed

text \<open>C0: a plugin that is switched on or off is so at every later load of the registry, and the switches of
  the others stay as they were.\<close>

theorem switch_holds_at_load:
  assumes "\<And>st. pe_state_of e (pe_state_text e st) = Some st" "\<And>st. utf8_ok (pe_state_text e st)"
    and "agent_plugins_dir e agent = Some root" "is_dir fs (pe_cwd e) root" "canonical fs (pe_cwd e)"
    and "set_plugin_enabled e agent i b fs = (Inr (), fs')" "p \<in> set (pg_plugins (load_registry e agent fs'))"
  shows "ip_enabled p = (if plugin_id p = normalize_plugin_id i then b
     else case bt_get (read_state_file e fs (path_join root ''.plugin-state.toml'')) (plugin_id p) of
       Some x \<Rightarrow> x | None \<Rightarrow> pm_enabled_by_default (ip_manifest p))"
proof -
  let ?p = "path_join root ''.plugin-state.toml''"
  let ?st = "bt_insert (normalize_plugin_id i) b (read_state_file e fs ?p)"
  have "write_file ?p (pe_state_text e ?st) (pe_cwd e) fs = (Inr (), fs')"
    using assms(6) ensure_existing [OF assms(3,4)]
    by (cases "write_file ?p (pe_state_text e ?st) (pe_cwd e) fs")
       (auto simp: set_plugin_enabled_def wrap_error_def Let_def map_sum_def split: sum.splits)
  then have "read_to_string fs' (pe_cwd e) ?p = Inr (pe_state_text e ?st)"
    using write_file_reads_back assms(2,5) by blast
  then have st: "read_state_file e fs' ?p = ?st" using assms(1) by (simp add: read_state_file_def)
  obtain n where "load_entry e fs' ?st root n = Some (Inr p)"
    using assms(7,3) st
    by (auto simp: load_registry_def Let_def List.map_filter_def split: sum.splits)
  from load_entry_enabled [OF this] show ?thesis by simp
qed

section \<open>Routines\<close>

definition due_now :: "calendar \<Rightarrow> local_clock \<Rightarrow> int \<Rightarrow> string \<times> plugin_routine \<Rightarrow> runtime_file \<Rightarrow> bool option" where
  "due_now cal ck now e r = is_routine_due cal ck (routine_schedule (snd e)) (last_run_of ck r (routine_key (fst e) (snd e))) now"

lemma not_due_again:
  assumes "\<And>m. lc_minute ck now = Some m \<Longrightarrow> m \<le> now"
  shows "is_routine_due cal ck schedule (Some now) now = Some False"
  using assms
  by (auto simp: is_routine_due_def plugin_cron_due_def minutes1_def hours1_def weeks1_def Let_def split: sum.splits option.splits)

lemma collected_last_runs:
  assumes "collect_routines cal ck now rs r = Some (ts, r1)" "lc_parse ck (lc_format ck now) = Some now"
  shows "last_run_of ck r1 key \<in> {last_run_of ck r key, Some now}"
  using assms(1)
proof (induction rs arbitrary: r ts)
  case (Cons e rs)
  obtain i rt where e: "e = (i, rt)" by fastforce
  have "last_run_of ck (mark_run (routine_key i rt) (lc_format ck now) r) key \<in> {last_run_of ck r key, Some now}"
    using assms(2) by (simp add: last_run_of_def mark_run_def)
  with Cons.prems e show ?case by (fastforce split: if_splits dest!: Cons.IH simp: bind_eq_Some_conv)
qed simp

lemma collected_not_due:
  assumes "collect_routines cal ck now rs r = Some (ts, r1)" "lc_parse ck (lc_format ck now) = Some now"
    and "\<And>m. lc_minute ck now = Some m \<Longrightarrow> m \<le> now"
  shows "\<forall>(i, rt)\<in>set rs. routine_schedule rt = ''invalid''
     \<or> is_routine_due cal ck (routine_schedule rt) (last_run_of ck r1 (routine_key i rt)) now = Some False"
  using assms(1)
proof (induction rs arbitrary: r ts)
  case (Cons e rs)
  obtain i rt where e: "e = (i, rt)" by fastforce
  note again = not_due_again [OF assms(3)]
  let ?key = "routine_key i rt"
  show ?case
  proof (cases "routine_schedule rt = ''invalid''")
    case True
    with Cons e show ?thesis by auto
  next
    case False
    then obtain due where due: "is_routine_due cal ck (routine_schedule rt) (last_run_of ck r ?key) now = Some due"
      using Cons.prems e by (auto simp: bind_eq_Some_conv)
    obtain ts2 where c: "collect_routines cal ck now rs (if due then mark_run ?key (lc_format ck now) r else r) = Some (ts2, r1)"
      using Cons.prems e False due by (auto split: if_splits)
    from collected_last_runs [OF c assms(2), of ?key]
    have "is_routine_due cal ck (routine_schedule rt) (last_run_of ck r1 ?key) now = Some False"
      using again due assms(2) by (auto simp: last_run_of_def mark_run_def split: if_splits)
    with Cons.IH [OF c] e show ?thesis by simp
  qed
qed simp

lemma collect_none:
  "\<forall>(i, rt)\<in>set rs. routine_schedule rt = ''invalid''
     \<or> is_routine_due cal ck (routine_schedule rt) (last_run_of ck r (routine_key i rt)) now = Some False \<Longrightarrow>
   collect_routines cal ck now rs r = Some ([], r)"
  by (induction rs) auto

text \<open>C0: whatever routines the plugins declare and whatever ran before, a second collection at the same
  instant yields no routine and changes no stamp.\<close>

theorem routines_collected_once:
  assumes "collect_routines cal ck now rs r = Some (ts, r1)" "lc_parse ck (lc_format ck now) = Some now"
    and "\<And>m. lc_minute ck now = Some m \<Longrightarrow> m \<le> now"
  shows "collect_routines cal ck now rs r1 = Some ([], r1)"
  by (rule collect_none [OF collected_not_due [OF assms]])


section \<open>Activations\<close>

text \<open>The messages that queue an activation, in order; the queue they make.\<close>

record activation_request =
  ar_plugin :: string
  ar_name :: string
  ar_priority :: string
  ar_task :: string
  ar_route :: "plugin_route option"
  ar_now :: string

definition queued_of :: "activation_request \<Rightarrow> queued_activation" where
  "queued_of a =
     \<lparr>qa_plugin_id = normalize_plugin_id (ar_plugin a), qa_activation_name = trim (ar_name a),
      qa_priority = normalize_priority (ar_priority a) ''high'', qa_task = trim (ar_task a), qa_created_at = ar_now a,
      qa_route = ar_route a\<rparr>"

fun enqueue_all :: "plugin_env \<Rightarrow> string \<Rightarrow> activation_request list \<Rightarrow> fs_tree \<Rightarrow> unit plugin_result" where
  "enqueue_all e agent [] fs = (Inr (), fs)"
| "enqueue_all e agent (a # as) fs =
     and_then (enqueue_activation_task e (ar_now a) agent (ar_plugin a) (ar_name a) (ar_priority a) (ar_task a) (ar_route a) fs)
       (\<lambda>_ fs1. enqueue_all e agent as fs1)"

text \<open>A write leaves the other nodes, and with them every directory, in place.\<close>

lemma resolve_put_other:
  "resolve fs False n base cs = Inr (k, m) \<Longrightarrow> is_dir_at fs k \<Longrightarrow> l \<noteq> [] \<Longrightarrow>
     node_at fs l \<noteq> Some DirNode \<Longrightarrow> \<forall>a t. node_at fs l \<noteq> Some (LinkNode a t) \<Longrightarrow>
     resolve (put_node l (FileNode s) fs) False n base cs = Inr (k, m)"
proof (induction fs "False" n base cs arbitrary: k m rule: resolve.induct)
  case (2 fs n base c cs)
  let ?fs = "put_node l (FileNode s) fs"
  have base: "node_at fs base = Some DirNode" using "2.prems"(1) by (auto simp: resolve.simps(2) split: if_splits)
  then have "base \<noteq> l" using "2.prems"(4) by auto
  then have base': "node_at ?fs base = Some DirNode" using base "2.prems"(3) by simp
  show ?case
  proof (cases "c = ''..''")
    case True
    with 2 base base' show ?thesis by (simp add: resolve.simps(2))
  next
    case False
    obtain x where x: "node_at fs (base @ [c]) = Some x"
      using "2.prems"(1) base False by (auto simp: resolve.simps(2) split: option.splits)
    show ?thesis
    proof (cases "base @ [c] = l")
      case True
      then obtain t where "x = FileNode t" using x "2.prems"(4,5) by (cases x) auto
      then have "resolve fs False n l cs = Inr (k, m)" "node_at fs l = Some (FileNode t)"
        using "2.prems"(1) base False x True by (simp_all add: resolve.simps(2))
      then have "k = l \<or> False" by (cases cs) (auto simp: resolve.simps(2))
      with \<open>node_at fs l = Some (FileNode t)\<close> "2.prems"(2) show ?thesis by (simp add: is_dir_at_def)
    next
      case other: False
      then have "node_at ?fs (base @ [c]) = Some x" using x "2.prems"(3) by simp
      with 2 base base' False x show ?thesis by (cases x; cases n) (simp_all add: resolve.simps(2))
    qed
  qed
qed simp

lemma write_file_keeps_dir:
  assumes "write_file p content cwd fs = (Inr (), fs')" "canonical fs cwd" "is_dir fs cwd d"
  shows "is_dir fs' cwd d"
proof -
  obtain l where l: "lookup fs cwd True p = Inr l" "\<not> is_dir_at fs l" "fs' = put_node l (FileNode content) fs"
    using assms(1) by (auto simp: write_file_def split: sum.splits if_splits)
  then have ne: "l \<noteq> []" by (auto simp: is_dir_at_def node_at_def)
  obtain m where "resolve fs True max_links (if fp_absolute p then [] else cwd) (fp_components p) = Inr (l, m)"
    using l(1) by (auto simp: lookup_def split: if_splits sum.splits)
  moreover have "canonical fs (if fp_absolute p then [] else cwd)" using assms(2) by (cases "cwd = []") (auto simp: canonical_def node_at_def)
  ultimately have nl: "\<forall>a t. node_at fs l \<noteq> Some (LinkNode a t)" using resolve_end by blast
  obtain k where k: "lookup fs cwd False d = Inr k" "is_dir_at fs k"
    using assms(3) by (auto simp: is_dir_def split: sum.splits)
  then obtain j where "resolve fs False max_links (if fp_absolute d then [] else cwd) (fp_components d) = Inr (k, j)" "\<not> empty_path d"
    by (auto simp: lookup_def split: if_splits sum.splits)
  from resolve_put_other [OF this(1) k(2) ne _ nl, of content] this l(2,3) have "lookup fs' cwd False d = Inr k"
    by (simp add: lookup_def is_dir_at_def)
  moreover have "is_dir_at fs' k" using k(2) l(2,3) ne by (auto simp: is_dir_at_def)
  ultimately show ?thesis by (simp add: is_dir_def)
qed


text \<open>The runtime file of an agent whose plugin directory exists.\<close>

definition plugin_dir_ready :: "plugin_env \<Rightarrow> fs_path \<Rightarrow> fs_tree \<Rightarrow> bool" where
  "plugin_dir_ready e root fs \<longleftrightarrow> is_dir fs (pe_cwd e) root \<and> canonical fs (pe_cwd e)"

definition runtime_codec :: "plugin_env \<Rightarrow> bool" where
  "runtime_codec e \<longleftrightarrow> (\<forall>r. pe_runtime_of e (pe_runtime_text e r) = Some r \<and> utf8_ok (pe_runtime_text e r))"

lemma runtime_written:
  assumes "runtime_codec e" "plugin_dir_ready e root fs" "write_runtime_file e (runtime_path root) r fs = (Inr (), fs')"
  shows "plugin_dir_ready e root fs' \<and> read_runtime_file e fs' (runtime_path root) = r"
proof -
  have w: "write_file (runtime_path root) (pe_runtime_text e r) (pe_cwd e) fs = (Inr (), fs')"
    using assms(3) by (cases "write_file (runtime_path root) (pe_runtime_text e r) (pe_cwd e) fs"; cases "fst (write_file (runtime_path root) (pe_runtime_text e r) (pe_cwd e) fs)")
      (auto simp: write_runtime_file_def wrap_error_def)
  have "canonical fs' (pe_cwd e)" using write_file_canonical w assms(2) by (metis plugin_dir_ready_def snd_conv)
  moreover have "is_dir fs' (pe_cwd e) root" using write_file_keeps_dir [OF w] assms(2) by (simp add: plugin_dir_ready_def)
  moreover have "read_to_string fs' (pe_cwd e) (runtime_path root) = Inr (pe_runtime_text e r)"
    using write_file_reads_back [OF w] assms(1,2) by (simp add: plugin_dir_ready_def runtime_codec_def)
  ultimately show ?thesis using assms(1) by (simp add: plugin_dir_ready_def read_runtime_file_def runtime_codec_def)
qed

lemma enqueue_one:
  assumes "runtime_codec e" "agent_plugins_dir e agent = Some root" "plugin_dir_ready e root fs"
    and "enqueue_activation_task e (ar_now a) agent (ar_plugin a) (ar_name a) (ar_priority a) (ar_task a) (ar_route a) fs = (Inr (), fs')"
  shows "plugin_dir_ready e root fs' \<and> rf_queue (read_runtime_file e fs' (runtime_path root))
     = rf_queue (read_runtime_file e fs (runtime_path root)) @ (if trim (ar_task a) = [] then [] else [queued_of a])"
proof (cases "trim (ar_task a) = []")
  case True
  then show ?thesis using assms(3,4) by (simp add: enqueue_activation_task_def)
next
  case False
  let ?r = "read_runtime_file e fs (runtime_path root)"
  have "ensure_agent_plugins_dir e agent fs = (Inr root, fs)"
    using ensure_existing assms(2,3) by (simp add: plugin_dir_ready_def)
  then have "write_runtime_file e (runtime_path root) (?r\<lparr>rf_queue := rf_queue ?r @ [queued_of a]\<rparr>) fs = (Inr (), fs')"
    using assms(4) False by (simp add: enqueue_activation_task_def Let_def queued_of_def)
  from runtime_written [OF assms(1,3) this] False show ?thesis by simp
qed

lemma enqueue_many:
  assumes "runtime_codec e" "agent_plugins_dir e agent = Some root" "plugin_dir_ready e root fs"
    and "enqueue_all e agent as fs = (Inr (), fs')"
  shows "plugin_dir_ready e root fs' \<and> rf_queue (read_runtime_file e fs' (runtime_path root))
     = rf_queue (read_runtime_file e fs (runtime_path root)) @ map queued_of (filter (\<lambda>a. trim (ar_task a) \<noteq> []) as)"
  using assms(3,4)
proof (induction as arbitrary: fs)
  case (Cons a as)
  obtain r fs1 where r: "enqueue_activation_task e (ar_now a) agent (ar_plugin a) (ar_name a) (ar_priority a) (ar_task a) (ar_route a) fs = (r, fs1)"
    by fastforce
  with Cons.prems(2) have "r = Inr ()" "enqueue_all e agent as fs1 = (Inr (), fs')" by (cases r; auto)+
  with enqueue_one [OF assms(1,2) Cons.prems(1), of a fs1] r Cons.IH [of fs1] show ?case by auto
qed simp

lemma routine_sources: "collect_routines cal ck now rs r = Some (ts, r1) \<Longrightarrow> filter (\<lambda>t. ht_source t = ''activation'') ts = [] \<and> rf_queue r1 = rf_queue r"
proof (induction rs arbitrary: r ts)
  case (Cons e rs)
  obtain i rt where "e = (i, rt)" by fastforce
  with Cons show ?case
    by (fastforce simp: bind_eq_Some_conv routine_task_def mark_run_def split: if_splits dest!: Cons.IH)
qed simp

text \<open>C0: every activation queued since the last collection is handed over by the next one that succeeds, in the
  order of the messages and each once; nothing stays in the queue.\<close>

theorem activations_delivered_once:
  assumes "runtime_codec e" "agent_plugins_dir e agent = Some root" "plugin_dir_ready e root fs"
    and "enqueue_all e agent as fs = (Inr (), fs1)"
    and "collect_due_heartbeat_tasks e cal ck now agent reg fs1 = Some (Inr ts, fs2)"
  shows "filter (\<lambda>t. ht_source t = ''activation'') ts
       = map activation_task (rf_queue (read_runtime_file e fs (runtime_path root))
           @ map queued_of (filter (\<lambda>a. trim (ar_task a) \<noteq> []) as))
     \<and> rf_queue (read_runtime_file e fs2 (runtime_path root)) = []"
proof -
  let ?q = "rf_queue (read_runtime_file e fs (runtime_path root)) @ map queued_of (filter (\<lambda>a. trim (ar_task a) \<noteq> []) as)"
  from enqueue_many [OF assms(1-4)] have r: "plugin_dir_ready e root fs1"
    and q: "rf_queue (read_runtime_file e fs1 (runtime_path root)) = ?q" by auto
  have "ensure_agent_plugins_dir e agent fs1 = (Inr root, fs1)"
    using ensure_existing assms(2) r by (simp add: plugin_dir_ready_def)
  then obtain us r1 where c: "collect_routines cal ck now (all_routines reg) (read_runtime_file e fs1 (runtime_path root)) = Some (us, r1)"
    and w: "and_then (write_runtime_file e (runtime_path root) (r1\<lparr>rf_queue := []\<rparr>) fs1)
      (\<lambda>_ fs2. (Inr (us @ map activation_task (rf_queue r1)), fs2)) = (Inr ts, fs2)"
    using assms(5) by (auto simp: collect_due_heartbeat_tasks_def)
  then have "write_runtime_file e (runtime_path root) (r1\<lparr>rf_queue := []\<rparr>) fs1 = (Inr (), fs2)"
    and ts: "ts = us @ map activation_task (rf_queue r1)"
    by (cases "write_runtime_file e (runtime_path root) (r1\<lparr>rf_queue := []\<rparr>) fs1"; cases "fst (write_runtime_file e (runtime_path root) (r1\<lparr>rf_queue := []\<rparr>) fs1)"; auto)+
  from runtime_written [OF assms(1) r this(1)] have "rf_queue (read_runtime_file e fs2 (runtime_path root)) = []" by simp
  moreover have "filter (\<lambda>t. ht_source t = ''activation'') (map activation_task qs) = map activation_task qs" for qs
    by (induction qs) (simp_all add: activation_task_def)
  moreover have "ts = us @ map activation_task ?q" using ts routine_sources [OF c] q by simp
  ultimately show ?thesis using routine_sources [OF c] by (simp del: map_append map_map)
qed

section \<open>Cron expressions of both schedulers\<close>

text \<open>C0: where wall time follows the clock without a shift, a routine and a heartbeat entry with the same cron
  expression are due at the same times.\<close>

theorem cron_schedulers_agree:
  assumes "\<And>s t. lc_naive ck s \<le> lc_naive ck t \<longleftrightarrow> s \<le> t"
    and "\<And>t. \<exists>m. lc_minute ck t = Some m \<and> lc_naive ck m = minute_slot (lc_naive ck t)"
  shows "plugin_cron_due cal ck expr last_run now = is_cron_due cal expr (map_option (lc_naive ck) last_run) (lc_naive ck now)"
proof -
  obtain m where m: "lc_minute ck now = Some m" "lc_naive ck m = minute_slot (lc_naive ck now)" using assms(2) by blast
  have "m \<le> t \<longleftrightarrow> minute_slot (lc_naive ck now) \<le> lc_naive ck t" for t using assms(1) [of m t] m(2) by simp
  with m show ?thesis
    by (auto simp: plugin_cron_due_def is_cron_due_def Let_def split: option.split sum.split)
qed

section \<open>Identifiers and directories\<close>

text \<open>C0: two identifiers that differ in a dash and an underscore are different plugins but have one directory.\<close>

theorem dashed_ids_share_directory:
  "normalize_plugin_id ''a-b'' \<noteq> normalize_plugin_id ''a_b''
     \<and> resolve_scope_path home agent (PluginRoot (normalize_plugin_id ''a-b''))
       = resolve_scope_path home agent (PluginRoot (normalize_plugin_id ''a_b''))"
proof -
  have "normalize_plugin_id ''a-b'' = ''a-b''" "normalize_plugin_id ''a_b'' = ''a_b''"
    "normalize_scope_id ''a-b'' = ''a_b''" "normalize_scope_id ''a_b'' = ''a_b''" by code_simp+
  then show ?thesis by (simp add: resolve_scope_path_def plugin_root_def)
qed


section \<open>Instances\<close>

text \<open>A code for runtime files and states as lists of texts.\<close>

fun opt_texts :: "string option \<Rightarrow> string list" where
  "opt_texts None = [''n'', [] ]"
| "opt_texts (Some s) = [''s'', s]"

definition text_opt :: "string \<Rightarrow> string \<Rightarrow> string option" where
  "text_opt t s = (if t = ''s'' then Some s else None)"

definition queue_texts :: "queued_activation \<Rightarrow> string list" where
  "queue_texts q =
     [''q'', qa_plugin_id q, qa_activation_name q, qa_priority q, qa_task q, qa_created_at q]
     @ (case qa_route q of None \<Rightarrow> [''n'', [], [], [], [], [], [] ]
        | Some r \<Rightarrow> ''s'' # opt_texts (rt_channel_id r) @ opt_texts (rt_conversation_id r) @ opt_texts (rt_sender_id r))"

definition demo_runtime_text :: "runtime_file \<Rightarrow> string" where
  "demo_runtime_text r =
     print_strings (concat (map (\<lambda>(k, v). [''r'', k, v]) (rf_last_run r)) @ concat (map queue_texts (rf_queue r)))"

fun runtime_items :: "string list \<Rightarrow> runtime_file" where
  "runtime_items (t # a # b # rest) =
     (if t = ''r'' then (let r = runtime_items rest in r\<lparr>rf_last_run := (a, b) # rf_last_run r\<rparr>)
      else (case rest of
        c # d # e # f # c1 # c2 # d1 # d2 # s1 # s2 # more_texts \<Rightarrow>
          (let r = runtime_items more_texts in
           r\<lparr>rf_queue := \<lparr>qa_plugin_id = a, qa_activation_name = b, qa_priority = c, qa_task = d, qa_created_at = e,
             qa_route = (if f = ''s'' then Some \<lparr>rt_channel_id = text_opt c1 c2, rt_conversation_id = text_opt d1 d2,
               rt_sender_id = text_opt s1 s2\<rparr> else None)\<rparr> # rf_queue r\<rparr>)
      | _ \<Rightarrow> runtime_default))"
| "runtime_items _ = runtime_default"

lemma text_opt_texts: "\<exists>t s. opt_texts x = [t, s] \<and> text_opt t s = x"
  by (cases x) (auto simp: text_opt_def)

lemma runtime_items_queue: "runtime_items (queue_texts q @ rest) = (let r = runtime_items rest in r\<lparr>rf_queue := q # rf_queue r\<rparr>)"
proof (cases "qa_route q")
  case (Some r)
  obtain a1 a2 b1 b2 c1 c2 where "opt_texts (rt_channel_id r) = [a1, a2]" "text_opt a1 a2 = rt_channel_id r"
    "opt_texts (rt_conversation_id r) = [b1, b2]" "text_opt b1 b2 = rt_conversation_id r"
    "opt_texts (rt_sender_id r) = [c1, c2]" "text_opt c1 c2 = rt_sender_id r"
    using text_opt_texts by metis
  with Some show ?thesis by (cases q; cases r) (simp add: queue_texts_def Let_def)
qed (cases q, simp add: queue_texts_def Let_def)

lemma runtime_items_code: "runtime_items (concat (map (\<lambda>(k, v). [''r'', k, v]) ls) @ concat (map queue_texts qs)) = \<lparr>rf_last_run = ls, rf_queue = qs\<rparr>"
proof (induction ls)
  case Nil
  show ?case by (induction qs) (simp_all add: runtime_items_queue runtime_default_def Let_def)
qed auto

definition demo_env :: plugin_env where
  "demo_env =
     \<lparr>pe_home = Some demo_home, pe_cwd = [], pe_manifest_of = (\<lambda>_. Inr (scaffold_manifest ''p'')), pe_manifest_text = (\<lambda>_. []),
      pe_state_of = (\<lambda>s. Some (map (\<lambda>(k, v). (k, v = ''t'')) (parse_pairs s))),
      pe_state_text = (\<lambda>st. print_pairs (map (\<lambda>(k, v). (k, if v then ''t'' else ''f'')) st)),
      pe_runtime_of = (\<lambda>s. Some (runtime_items (parse_strings s))), pe_runtime_text = demo_runtime_text\<rparr>"

lemma demo_runtime_codec: "runtime_codec demo_env"
  by (simp add: runtime_codec_def demo_env_def demo_runtime_text_def runtime_items_code)

lemma demo_state_codec: "pe_state_of demo_env (pe_state_text demo_env st) = Some st" "utf8_ok (pe_state_text demo_env st)"
proof -
  have "map ((\<lambda>(k, v). (k, v = ''t'')) \<circ> (\<lambda>(k, v). (k, if v then ''t'' else ''f''))) st = st"
    by (induction st) (auto split: if_splits)
  then show "pe_state_of demo_env (pe_state_text demo_env st) = Some st" by (simp add: demo_env_def)
qed (simp add: demo_env_def)

definition plugin_tree :: fs_tree where
  "plugin_tree =
     [([''h''], DirNode), ([''h'', ''.that-agent''], DirNode), ([''h'', ''.that-agent'', ''agents''], DirNode),
      ([''h'', ''.that-agent'', ''agents'', ''a''], DirNode), ([''h'', ''.that-agent'', ''agents'', ''a'', ''plugins''], DirNode),
      ([''h'', ''.that-agent'', ''agents'', ''a'', ''plugins'', ''p''], DirNode),
      ([''h'', ''.that-agent'', ''agents'', ''a'', ''plugins'', ''p'', ''plugin.toml''], FileNode [])]"

definition plugin_home :: fs_path where
  "plugin_home = \<lparr>fp_absolute = True, fp_components = [''h'', ''.that-agent'', ''agents'', ''a'', ''plugins'']\<rparr>"

lemma plugin_home_dir: "agent_plugins_dir demo_env ''a'' = Some plugin_home"
  by (simp add: agent_plugins_dir_def demo_env_def) code_simp

lemma plugin_tree_ready: "plugin_dir_ready demo_env plugin_home plugin_tree"
proof -
  have "is_dir plugin_tree [] plugin_home" by code_simp
  then show ?thesis by (simp add: plugin_dir_ready_def demo_env_def canonical_def node_at_def)
qed

text \<open>Files of the plugin directory can be written, and written again.\<close>

lemma resolve_create_mono: "resolve fs False n base cs = Inr x \<Longrightarrow> resolve fs True n base cs = Inr x"
proof (induction fs "False" n base cs rule: resolve.induct)
  case (2 fs n base c cs)
  then show ?case
    by (auto simp: resolve.simps(2) split: if_splits option.splits fs_node.splits nat.splits)
qed simp

lemma write_again:
  assumes "write_file p c cwd fs = (Inr (), fs1)" "canonical fs cwd" "utf8_ok c"
  shows "\<exists>fs2. write_file p c2 cwd fs1 = (Inr (), fs2)"
proof -
  have "read_to_string fs1 cwd p = Inr c" by (rule write_file_reads_back [OF assms])
  then obtain l where l: "lookup fs1 cwd False p = Inr l" "node_at fs1 l = Some (FileNode c)"
    by (auto simp: read_to_string_def read_file_def split: sum.splits option.splits fs_node.splits if_splits)
  then have "lookup fs1 cwd True p = Inr l"
    by (auto simp: lookup_def dest!: resolve_create_mono split: if_splits sum.splits)
  with l(2) show ?thesis by (simp add: write_file_def is_dir_at_def)
qed

lemma demo_write:
  assumes "n = ''.plugin-state.toml'' \<or> n = ''.plugin-runtime.toml''"
  shows "\<exists>fs'. write_file (path_join plugin_home n) c [] plugin_tree = (Inr (), fs')"
proof -
  have "lookup plugin_tree [] True (path_join plugin_home n) = Inr (fp_components plugin_home @ [n])"
    "\<not> is_dir_at plugin_tree (fp_components plugin_home @ [n])"
    using assms by (elim disjE; simp; code_simp)+
  then show ?thesis by (simp add: write_file_def)
qed

lemma switch_holds_at_load_witness:
  "\<exists>fs'. set_plugin_enabled demo_env ''a'' ''P'' False plugin_tree = (Inr (), fs')
     \<and> (\<forall>p\<in>set (pg_plugins (load_registry demo_env ''a'' fs')). plugin_id p = ''p'' \<longrightarrow> \<not> ip_enabled p)"
proof -
  have cwd: "pe_cwd demo_env = []" by (simp add: demo_env_def)
  have "ensure_agent_plugins_dir demo_env ''a'' plugin_tree = (Inr plugin_home, plugin_tree)"
    using ensure_existing [OF plugin_home_dir] plugin_tree_ready by (simp add: plugin_dir_ready_def)
  then obtain fs' where s: "set_plugin_enabled demo_env ''a'' ''P'' False plugin_tree = (Inr (), fs')"
  proof -
    let ?c = "pe_state_text demo_env (bt_insert (normalize_plugin_id ''P'') False
      (read_state_file demo_env plugin_tree (path_join plugin_home ''.plugin-state.toml'')))"
    obtain fs' where "write_file (path_join plugin_home ''.plugin-state.toml'') ?c [] plugin_tree = (Inr (), fs')"
      using demo_write [of "''.plugin-state.toml''" ?c] by blast
    with \<open>ensure_agent_plugins_dir _ _ _ = _\<close> that show thesis
      by (simp add: set_plugin_enabled_def wrap_error_def Let_def cwd)
  qed
  have "normalize_plugin_id ''P'' = ''p''" by code_simp
  then show ?thesis
    using s switch_holds_at_load [OF demo_state_codec plugin_home_dir _ _ s] plugin_tree_ready
    by (auto simp: plugin_dir_ready_def)
qed

definition demo_request :: activation_request where
  "demo_request = \<lparr>ar_plugin = ''P'', ar_name = ''greet'', ar_priority = ''low'', ar_task = '' say hi '', ar_route = None, ar_now = ''now''\<rparr>"

definition demo_registry :: plugin_registry where
  "demo_registry = \<lparr>pg_agent_name = ''a'', pg_root_dir = plugin_home, pg_plugins = [], pg_load_errors = []\<rparr>"

definition utc_clock :: local_clock where
  "utc_clock = \<lparr>lc_naive = (\<lambda>t. NaiveDateTime t 0 0 0 0), lc_minute = Some, lc_format = show_int, lc_parse = (\<lambda>_. Some 7)\<rparr>"

lemma activations_delivered_once_witness:
  "\<exists>fs1 ts fs2. enqueue_all demo_env ''a'' [demo_request] plugin_tree = (Inr (), fs1)
     \<and> collect_due_heartbeat_tasks demo_env demo_calendar utc_clock 0 ''a'' demo_registry fs1 = Some (Inr ts, fs2)
     \<and> filter (\<lambda>t. ht_source t = ''activation'') ts = map activation_task (rf_queue (read_runtime_file demo_env plugin_tree (runtime_path plugin_home)) @ [queued_of demo_request])"
proof -
  have cwd: "pe_cwd demo_env = []" by (simp add: demo_env_def)
  have ens: "plugin_dir_ready demo_env plugin_home fs \<Longrightarrow> ensure_agent_plugins_dir demo_env ''a'' fs = (Inr plugin_home, fs)" for fs
    using ensure_existing [OF plugin_home_dir] by (simp add: plugin_dir_ready_def)
  have t: "trim (ar_task demo_request) \<noteq> []" by code_simp
  let ?r = "read_runtime_file demo_env plugin_tree (runtime_path plugin_home)"
  let ?r1 = "?r\<lparr>rf_queue := rf_queue ?r @ [queued_of demo_request]\<rparr>"
  obtain fs1 where w: "write_file (runtime_path plugin_home) (pe_runtime_text demo_env ?r1) [] plugin_tree = (Inr (), fs1)"
    using demo_write [of "''.plugin-runtime.toml''"] unfolding runtime_path_def by blast
  then have e: "enqueue_all demo_env ''a'' [demo_request] plugin_tree = (Inr (), fs1)"
    using t ens [OF plugin_tree_ready]
    by (simp add: enqueue_activation_task_def write_runtime_file_def wrap_error_def Let_def cwd queued_of_def)
  from enqueue_many [OF demo_runtime_codec plugin_home_dir plugin_tree_ready e]
  have r1: "plugin_dir_ready demo_env plugin_home fs1" by simp
  have "canonical plugin_tree []" using plugin_tree_ready by (simp add: plugin_dir_ready_def cwd)
  moreover have "utf8_ok (pe_runtime_text demo_env ?r1)" using demo_runtime_codec by (simp add: runtime_codec_def)
  ultimately obtain fs2 where "write_file (runtime_path plugin_home)
      (pe_runtime_text demo_env ((read_runtime_file demo_env fs1 (runtime_path plugin_home))\<lparr>rf_queue := []\<rparr>)) [] fs1 = (Inr (), fs2)"
    using write_again [OF w] by blast
  then obtain ts where c: "collect_due_heartbeat_tasks demo_env demo_calendar utc_clock 0 ''a'' demo_registry fs1 = Some (Inr ts, fs2)"
    using ens [OF r1]
    by (simp add: collect_due_heartbeat_tasks_def demo_registry_def all_routines_def enabled_plugins_def
        write_runtime_file_def wrap_error_def cwd)
  from activations_delivered_once [OF demo_runtime_codec plugin_home_dir plugin_tree_ready e c] e c t
  show ?thesis by auto
qed

lemma routines_collected_once_witness:
  "\<exists>ts r1. collect_routines demo_calendar utc_clock 7 [(''p'', \<lparr>pt_name = ''r'', pt_description = None, pt_schedule = Some ''Hourly'',
       pt_priority = None, pt_task_template = None\<rparr>)] runtime_default = Some (ts, r1)
     \<and> length ts = 1 \<and> collect_routines demo_calendar utc_clock 7 [(''p'', \<lparr>pt_name = ''r'', pt_description = None, pt_schedule = Some ''Hourly'',
       pt_priority = None, pt_task_template = None\<rparr>)] r1 = Some ([], r1)"
proof -
  let ?rt = "\<lparr>pt_name = ''r'', pt_description = None, pt_schedule = Some ''Hourly'', pt_priority = None, pt_task_template = None\<rparr>"
  have h: "routine_schedule ?rt = ''hourly''" by code_simp
  then obtain ts r1 where c: "collect_routines demo_calendar utc_clock 7 [(''p'', ?rt)] runtime_default = Some (ts, r1)" "length ts = 1"
    by (simp add: is_routine_due_def last_run_of_def runtime_default_def)
  from routines_collected_once [OF c(1)] c show ?thesis by (simp add: utc_clock_def)
qed

lemma cron_schedulers_agree_witness:
  "\<exists>ck. plugin_cron_due demo_calendar ck ''0 9 * * *'' (Some 3) 7 = is_cron_due demo_calendar ''0 9 * * *'' (map_option (lc_naive ck) (Some 3)) (lc_naive ck 7)"
proof -
  have "lc_naive utc_clock s \<le> lc_naive utc_clock t \<longleftrightarrow> s \<le> t" for s t
    by (auto simp: utc_clock_def less_eq_naive_datetime_def)
  moreover have "\<exists>m. lc_minute utc_clock t = Some m \<and> lc_naive utc_clock m = minute_slot (lc_naive utc_clock t)" for t
    by (simp add: utc_clock_def minute_slot_def)
  ultimately show ?thesis using cron_schedulers_agree [of utc_clock demo_calendar "''0 9 * * *''" "Some 3" 7] by blast
qed

end
