(* ===== verification/Discovery.thy ===== *)
theory Discovery
  imports Plugin_Cluster Plugin_Props Channel_Router Skills_Props
begin

text \<open>
  What the channels offer (\<open>orchestration/discovery.rs\<close>): the bot commands made of the built-in ones, the
  plugins' and the skills', slash commands, activations of inbound messages, the roots and the
  discovery of skills over the enabled plugins, and the plugin section of the preamble.

  The alphanumeric test on characters beyond ASCII, the text of a path and the note on the runtime
  backend (which reads the Docker socket and the Kubernetes client) are parameters.
\<close>

section \<open>Commands of skills and plugins\<close>

definition word_char :: "(string \<Rightarrow> bool) \<Rightarrow> string \<Rightarrow> bool" where
  "word_char alnum x = (case x of [c] \<Rightarrow> is_ascii_alnum c \<or> c = under | _ \<Rightarrow> alnum x)"

definition skill_to_command :: "(string \<Rightarrow> bool) \<Rightarrow> string \<Rightarrow> string" where
  "skill_to_command alnum n =
     take_chars 32 (to_ascii_lower (concat (filter (word_char alnum)
       (map (\<lambda>x. if x = ''-'' then [under] else x) (chars n)))))"

definition find_skill_by_command :: "(string \<Rightarrow> bool) \<Rightarrow> string \<Rightarrow> skill_meta list \<Rightarrow> skill_meta option" where
  "find_skill_by_command alnum cmd skills = find (\<lambda>s. skill_to_command alnum (sk_name s) = cmd) skills"

definition read_skill_content :: "fs_tree \<Rightarrow> location \<Rightarrow> skill_meta \<Rightarrow> string option" where
  "read_skill_content fs cwd s = (case read_to_string fs cwd (sk_path s) of Inr t \<Rightarrow> Some t | Inl _ \<Rightarrow> None)"

definition find_plugin_command :: "string \<Rightarrow> resolved_command list \<Rightarrow> resolved_command option" where
  "find_plugin_command cmd cs = find (\<lambda>c. rc_command c = cmd) cs"

definition render_plugin_command_task :: "resolved_command \<Rightarrow> string \<Rightarrow> string" where
  "render_plugin_command_task c args =
     (case given (rc_task_template c) of
        Some t \<Rightarrow>
          if contains_sub ''{{args}}'' t then replace_str ''{{args}}'' (trim args) t
          else if trim args = [] then t
          else t @ [newline, newline] @ ''User args: '' @ trim args
      | None \<Rightarrow> trim args)"

section \<open>Activations\<close>

definition mentions :: "string \<Rightarrow> string \<Rightarrow> bool" where
  "mentions s w = contains_sub (to_ascii_lower w) (to_ascii_lower s)"

definition activation_matches_message :: "resolved_activation \<Rightarrow> string \<Rightarrow> string option \<Rightarrow> bool" where
  "activation_matches_message a s slash =
     (if ra_event a \<noteq> ''message_in'' then False
      else case (case ra_command a of
                   Some c \<Rightarrow> if slash = Some c then Inr True else Inl ()
                 | None \<Rightarrow> Inr False) of
        Inl _ \<Rightarrow> False
      | Inr m1 \<Rightarrow>
          (case (case ra_contains a of
                   Some w \<Rightarrow> if mentions s w then Inr True else Inl ()
                 | None \<Rightarrow> Inr m1) of
             Inl _ \<Rightarrow> False
           | Inr m2 \<Rightarrow>
               (case ra_trigger a of
                  Some w \<Rightarrow> mentions s w
                | None \<Rightarrow> m2)))"

definition render_activation_task :: "resolved_activation \<Rightarrow> string \<Rightarrow> string option \<Rightarrow> string" where
  "render_activation_task a message slash_args =
     (let args = trim (case slash_args of Some x \<Rightarrow> x | None \<Rightarrow> []) in
      case given (ra_task_template a) of
        Some t \<Rightarrow> replace_str ''{{args}}'' args (replace_str ''{{message}}'' (trim message) t)
      | None \<Rightarrow>
          (case given (ra_description a) of
             Some d \<Rightarrow> ''Activation '' @ quoted (ra_name a) @ '' ('' @ ra_plugin_id a @ '') triggered.'' @ [newline, newline] @ d @ [newline, newline] @ ''Message: '' @ trim message
           | None \<Rightarrow> ''Activation '' @ quoted (ra_name a) @ '' from plugin '' @ quoted (ra_plugin_id a)
               @ '' triggered by message: '' @ trim message))"

definition plugin_item_text :: "heartbeat_task \<Rightarrow> string" where
  "plugin_item_text t =
     ''## ['' @ ht_source t @ ''] '' @ ht_plugin_id t @ ''::'' @ ht_name t @ '' (priority: '' @ ht_priority t
     @ '', schedule: '' @ ht_schedule t @ '')'' @ [newline] @ trim (ht_body t) @ [newline, newline]"

definition append_plugin_heartbeat_tasks :: "string \<Rightarrow> heartbeat_task list \<Rightarrow> string" where
  "append_plugin_heartbeat_tasks task items =
     (if items = [] then task
      else task @ [newline, newline] @ ''Plugin heartbeat items (routines/activations):'' @ [newline, newline] @ ''For each item, complete the work and include what changed.'' @ [newline, newline] @ concat (map plugin_item_text items))"

section \<open>Slash commands\<close>

definition parse_slash_command :: "string \<Rightarrow> (string \<times> string) option" where
  "parse_slash_command s =
     (case trim s of
        [] \<Rightarrow> None
      | c # rest \<Rightarrow>
          if c \<noteq> CHR ''/'' then None
          else
            (let (raw, args) = (case split_once (CHR '' '') rest of Some (a, b) \<Rightarrow> (a, trim b) | None \<Rightarrow> (rest, []))
             in Some (to_ascii_lower (hd (split_char (CHR ''@'') raw)), args)))"

definition build_help_text :: "bot_command list \<Rightarrow> string" where
  "build_help_text cs =
     ''Available commands:'' @ [newline]
     @ concat (map (\<lambda>c. ''/'' @ bc_command c @ '' '' @ [CHR 0xE2, CHR 0x80, CHR 0x94] @ '' '' @ bc_description c @ [newline]) cs)"

definition built_in_commands :: "bot_command list" where
  "built_in_commands =
     [\<lparr>bc_command = ''help'', bc_description = ''List available commands''\<rparr>,
      \<lparr>bc_command = ''clear'', bc_description = ''Clear conversation history''\<rparr>,
      \<lparr>bc_command = ''compact'', bc_description = ''Keep only the most recent exchanges''\<rparr>,
      \<lparr>bc_command = ''stop'', bc_description = ''Stop the active agent run''\<rparr>,
      \<lparr>bc_command = ''models'', bc_description = ''Choose the provider and model for this conversation''\<rparr>]"

text \<open>A command is listed when its name is new.\<close>

definition add_command :: "bot_command list \<Rightarrow> bot_command \<Rightarrow> bot_command list" where
  "add_command cs c = (if bc_command c \<in> bc_command ` set cs then cs else cs @ [c])"

definition build_bot_commands_list :: "(string \<Rightarrow> bool) \<Rightarrow> skill_meta list \<Rightarrow> resolved_command list \<Rightarrow> bot_command list" where
  "build_bot_commands_list alnum skills plugin_commands =
     foldl add_command
       (foldl add_command built_in_commands
          (map (\<lambda>c. \<lparr>bc_command = rc_command c, bc_description = take_chars 256 (rc_description c)\<rparr>) plugin_commands))
       (map (\<lambda>s. \<lparr>bc_command = skill_to_command alnum (sk_name s), bc_description = take_chars 256 (sk_description s)\<rparr>) skills)"

section \<open>Skills of an agent\<close>

definition skill_roots_for_agent :: "plugin_env \<Rightarrow> string \<Rightarrow> plugin_registry \<Rightarrow> fs_tree \<Rightarrow> fs_path list" where
  "skill_roots_for_agent e agent reg fs =
     (let roots = (case skills_dir_local (pe_home e) agent of Some p \<Rightarrow> [p] | None \<Rightarrow> [])
            @ enabled_skill_dirs fs (pe_cwd e) reg;
          deduped = rev (remdups (rev roots))
      in if deduped = [] then [parse_path ''.that-agent/skills''] else deduped)"

fun first_by_name :: "string list \<Rightarrow> skill_meta list \<Rightarrow> skill_meta list" where
  "first_by_name seen [] = []"
| "first_by_name seen (s # ss) =
     (if sk_name s \<in> set seen then first_by_name seen ss else s # first_by_name (sk_name s # seen) ss)"

definition discover_skills_with_registry ::
  "plugin_env \<Rightarrow> (string \<Rightarrow> string option) \<Rightarrow> string \<Rightarrow> plugin_registry \<Rightarrow> fs_tree \<Rightarrow> skill_meta list" where
  "discover_skills_with_registry e env agent reg fs =
     sort_key sk_name (first_by_name []
       (concat (map (discover_skills_local env fs (pe_cwd e)) (skill_roots_for_agent e agent reg fs))))"

definition discover_skills :: "plugin_env \<Rightarrow> (string \<Rightarrow> string option) \<Rightarrow> string \<Rightarrow> fs_tree \<Rightarrow> skill_meta list" where
  "discover_skills e env agent fs = discover_skills_with_registry e env agent (load_registry e agent fs) fs"

definition discover_plugin_commands :: "plugin_env \<Rightarrow> string \<Rightarrow> fs_tree \<Rightarrow> resolved_command list" where
  "discover_plugin_commands e agent fs = enabled_commands (load_registry e agent fs)"

definition discover_plugin_activations :: "plugin_env \<Rightarrow> string \<Rightarrow> fs_tree \<Rightarrow> resolved_activation list" where
  "discover_plugin_activations e agent fs = enabled_activations (load_registry e agent fs)"

section \<open>The plugin section of the preamble\<close>

definition preamble_intro :: "string \<Rightarrow> string \<Rightarrow> string" where
  "preamble_intro plugins_path runtime_note =
     ''Plugin directory: `'' @ plugins_path @ ''`  '' @ [newline] @ ''Plugins are agent-scoped and must keep assets inside their own plugin directory.  '' @ [newline] @ ''Standard plugin subdirectories: `skills/`, `scripts/`, `deploy/`, `state/`, `artifacts/`.  '' @ [newline]
     @ runtime_note @ ''  '' @ [newline] @ ''Plugins can add commands, skills, routines, activations, and emoji packs.  '' @ [newline] @ ''Changes are hot-reloaded automatically.'' @ [newline, newline]"

definition skill_line :: "skill_meta list \<Rightarrow> string" where
  "skill_line ss =
     (if ss = [] then []
      else ''  Skills: '' @ join '', '' (map (\<lambda>s. ''`'' @ sk_name s @ ''` ('' @ sk_description s @ '')'') ss) @ [newline])"

definition status_line :: "cluster_plugin list \<Rightarrow> string \<Rightarrow> string" where
  "status_line cps i =
     (case Option.bind (lookup_by cp_id cps i) cp_deploy_status of Some s \<Rightarrow> '' | deploy: **'' @ s @ ''**'' | None \<Rightarrow> [])"

definition plugin_line :: "(string \<Rightarrow> string option) \<Rightarrow> fs_tree \<Rightarrow> location \<Rightarrow> cluster_plugin list \<Rightarrow> installed_plugin \<Rightarrow> string" where
  "plugin_line env fs cwd cps p =
     (let m = ip_manifest p in
      ''- **'' @ display_name m @ ''** (`'' @ pm_id m @ ''` v'' @ pm_version m @ ''): ''
      @ (case pm_description m of Some d \<Rightarrow> d | None \<Rightarrow> ''No description'') @ ''.'' @ status_line cps (pm_id m)
      @ '' Commands: '' @ show_nat (length (pm_commands m)) @ '', Routines: '' @ show_nat (length (pm_routines m))
      @ '', Activations: '' @ show_nat (length (pm_activations m)) @ '', Emojis: '' @ show_nat (length (pm_emojis m))
      @ [newline] @ skill_line (discover_skills_local env fs cwd (path_join (ip_dir p) (skills_subdir m))))"

definition emoji_line :: "resolved_emoji \<Rightarrow> string" where
  "emoji_line j = ''- `'' @ re_plugin_id j @ ''.'' @ re_name j @ ''` => '' @ re_value j @ [newline]"

definition format_plugin_preamble_full ::
  "(string \<Rightarrow> string option) \<Rightarrow> fs_tree \<Rightarrow> location \<Rightarrow> string \<Rightarrow> bool \<Rightarrow> string \<Rightarrow> plugin_registry
     \<Rightarrow> (cluster_error + cluster_plugin list) option \<Rightarrow> string" where
  "format_plugin_preamble_full env fs cwd agent sandbox runtime_note reg cluster =
     (if summaries reg = [] then []
      else
        (let path = (if sandbox then ''/home/agent/.that-agent/agents/'' else ''~/.that-agent/agents/'') @ agent @ ''/plugins'';
             cps = (case cluster of Some (Inr ps) \<Rightarrow> ps | _ \<Rightarrow> []);
             emojis = enabled_emojis reg
         in ''## Plugins'' @ [newline, newline] @ preamble_intro path runtime_note
            @ concat (map (plugin_line env fs cwd cps) (enabled_plugins reg))
            @ (if emojis = [] then []
               else ''### Emoji Catalog'' @ [newline, newline] @ concat (map emoji_line emojis) @ [newline])
            @ [newline]))"

section \<open>The menu\<close>

definition names_of :: "bot_command list \<Rightarrow> string set" where
  "names_of cs = bc_command ` set cs"

lemma add_commands:
  assumes "distinct (map bc_command cs)"
  shows "distinct (map bc_command (foldl add_command cs ds)) \<and> prefix cs (foldl add_command cs ds)
    \<and> names_of (foldl add_command cs ds) = names_of cs \<union> names_of ds"
  using assms
proof (induction ds arbitrary: cs)
  case (Cons d ds)
  have step: "distinct (map bc_command (add_command cs d))" "prefix cs (add_command cs d)"
    "names_of (add_command cs d) = insert (bc_command d) (names_of cs)"
    using Cons.prems by (auto simp: add_command_def names_of_def)
  from Cons.IH [OF step(1)] step(2,3) show ?case by (auto simp: names_of_def intro: prefix_order.trans)
qed (simp add: names_of_def)

lemma find_command: "find_plugin_command c cs \<noteq> None \<longleftrightarrow> c \<in> rc_command ` set cs"
  by (auto simp: find_plugin_command_def find_None_iff)

lemma find_skill: "find_skill_by_command alnum c ss \<noteq> None \<longleftrightarrow> c \<in> (\<lambda>s. skill_to_command alnum (sk_name s)) ` set ss"
  by (auto simp: find_skill_by_command_def find_None_iff)

lemma menu_resolves:
  "let menu = build_bot_commands_list alnum skills commands in
     prefix built_in_commands menu \<and> distinct (map bc_command menu)
     \<and> (\<forall>c. c \<in> names_of menu \<longleftrightarrow>
          c \<in> names_of built_in_commands \<or> find_plugin_command c commands \<noteq> None \<or> find_skill_by_command alnum c skills \<noteq> None)"
proof -
  let ?ps = "map (\<lambda>c. \<lparr>bc_command = rc_command c, bc_description = take_chars 256 (rc_description c)\<rparr>) commands"
  let ?ss = "map (\<lambda>s. \<lparr>bc_command = skill_to_command alnum (sk_name s), bc_description = take_chars 256 (sk_description s)\<rparr>) skills"
  have "distinct (map bc_command built_in_commands)" by (simp add: built_in_commands_def)
  note a = add_commands [OF this, of ?ps]
  note b = add_commands [OF a [THEN conjunct1], of ?ss]
  have "names_of ?ps = rc_command ` set commands" "names_of ?ss = (\<lambda>s. skill_to_command alnum (sk_name s)) ` set skills"
    by (simp_all add: names_of_def image_image)
  then show ?thesis using a b
    by (auto simp: Let_def build_bot_commands_list_def find_command find_skill simp del: not_None_eq intro: prefix_order.trans)
qed

text \<open>C0: the menu starts with the built-in commands, no name appears twice, and a name is listed exactly when it is
  built in or resolves to a plugin command or a skill.\<close>

theorem menu_lists_what_resolves:
  "let menu = build_bot_commands_list alnum skills commands in
     prefix built_in_commands menu \<and> distinct (map bc_command menu)
     \<and> (\<forall>c. c \<in> names_of menu \<longleftrightarrow>
          c \<in> names_of built_in_commands \<or> find_plugin_command c commands \<noteq> None \<or> find_skill_by_command alnum c skills \<noteq> None)"
  by (rule menu_resolves)

text \<open>C0: an activation fires on a message exactly when it is for inbound messages, has at least one criterion, and
  the message meets every criterion it has.\<close>

theorem activation_fires_iff:
  "activation_matches_message a s slash \<longleftrightarrow>
     ra_event a = ''message_in''
     \<and> (ra_command a \<noteq> None \<or> ra_contains a \<noteq> None \<or> ra_trigger a \<noteq> None)
     \<and> (ra_command a = None \<or> ra_command a = slash)
     \<and> (ra_contains a = None \<or> mentions s (the (ra_contains a)))
     \<and> (ra_trigger a = None \<or> mentions s (the (ra_trigger a)))"
  by (cases "ra_command a"; cases "ra_contains a"; cases "ra_trigger a")
    (auto simp: activation_matches_message_def)

section \<open>Slash commands round trip\<close>

lemma command_char_plain:
  "command_char c \<Longrightarrow> graphic c \<and> c \<noteq> CHR '' '' \<and> c \<noteq> CHR ''@'' \<and> lower_char c = c"
  by (auto simp: command_char_def graphic_def is_digit_def is_lower_def is_upper_def under_def lower_char_def Let_def)

lemma command_plain:
  assumes "list_all command_char c"
  shows "to_ascii_lower c = c" "CHR '' '' \<notin> set c" "CHR ''@'' \<notin> set c"
  using assms command_char_plain by (auto simp: to_ascii_lower_def list_all_iff intro!: map_idI)

lemma parse_slash_plain:
  assumes "list_all command_char cmd"
    and "mention = [] \<or> hd mention = CHR ''@''" "CHR '' '' \<notin> set mention"
    and "args \<noteq> []" "graphic (hd args)" "graphic (last args)"
  shows "parse_slash_command (''/'' @ cmd @ mention @ '' '' @ args) = Some (cmd, args)"
proof -
  have "trim (CHR ''/'' # cmd @ mention @ '' '' @ args) = CHR ''/'' # cmd @ mention @ '' '' @ args"
    by (rule trim_graphic) (use assms in \<open>simp_all add: graphic_def\<close>)
  moreover have "split_once (CHR '' '') ((cmd @ mention) @ CHR '' '' # args) = Some (cmd @ mention, args)"
    by (rule split_once_append) (use assms(1,3) command_plain in auto)
  moreover have "trim args = args" using assms(4-6) by (rule trim_graphic)
  moreover have "hd (split_char (CHR ''@'') (cmd @ mention)) = cmd"
  proof (cases mention)
    case Nil
    then show ?thesis using command_plain [OF assms(1)] by (simp add: split_char_none)
  next
    case (Cons c b)
    then have "cmd @ mention = cmd @ CHR ''@'' # b" using assms(2) by simp
    then show ?thesis using command_plain [OF assms(1)] by (simp add: split_char_append)
  qed
  ultimately show ?thesis using command_plain [OF assms(1)] by (simp add: parse_slash_command_def)
qed

text \<open>C0: a command of a menu typed with arguments, with or without the mention of a bot after it, is read as that
  command and those arguments.\<close>

theorem slash_command_reads_back:
  assumes "list_all command_char cmd"
    and "mention = [] \<or> hd mention = CHR ''@''" "CHR '' '' \<notin> set mention"
    and "args \<noteq> []" "graphic (hd args)" "graphic (last args)"
  shows "parse_slash_command (''/'' @ cmd @ mention @ '' '' @ args) = Some (cmd, args)"
  using assms by (rule parse_slash_plain)

lemma slash_command_reads_back_witness:
  "parse_slash_command ''/models@that_bot openai gpt'' = Some (''models'', ''openai gpt'')"
  using slash_command_reads_back [of "''models''" "''@that_bot''" "''openai gpt''"]
  by (simp add: command_char_def graphic_def is_digit_def is_lower_def under_def Let_def)

text \<open>C0: the name of a skill may leave no character for its command; the menu then has an entry with an empty name,
  and a second skill whose name has no such character either can never be called.\<close>

theorem punctuated_skill_has_empty_command:
  "let skill = (\<lambda>n. \<lparr>sk_name = n, sk_description = ''d'', sk_path = parse_path ''s'', sk_metadata = skill_metadata_default,
       sk_body = None, sk_references = []\<rparr>);
       skills = [skill ''!!'', skill ''?''] in
   [] \<in> bc_command ` set (build_bot_commands_list (\<lambda>_. False) skills [])
   \<and> map_option sk_name (find_skill_by_command (\<lambda>_. False) [] skills) = Some ''!!''
   \<and> skill_to_command (\<lambda>_. False) ''?'' = []"
  by code_simp

section \<open>Discovery\<close>

lemma first_by_name_spec:
  "distinct (map sk_name (first_by_name seen ss)) \<and> set (map sk_name (first_by_name seen ss)) \<inter> set seen = {}
   \<and> sk_name ` set (first_by_name seen ss) = sk_name ` set ss - set seen
   \<and> (\<forall>s\<in>set (first_by_name seen ss). find (\<lambda>x. sk_name x = sk_name s) ss = Some s)"
proof (induction ss arbitrary: seen)
  case (Cons s ss)
  show ?case
  proof (cases "sk_name s \<in> set seen")
    case True
    then show ?thesis using Cons.IH [of seen] by auto
  next
    case False
    then show ?thesis using Cons.IH [of "sk_name s # seen"] by auto
  qed
qed simp

text \<open>C0: the skills of an agent are listed once per name, in the order of the names; every skill found under any root
  is listed, and where several roots have one of the same name the first root's is the one listed, so a plugin never
  replaces the agent's own.\<close>

theorem first_root_wins:
  "let found = concat (map (discover_skills_local env fs (pe_cwd e)) (skill_roots_for_agent e agent reg fs));
       listed = discover_skills_with_registry e env agent reg fs in
     sorted (map sk_name listed) \<and> distinct (map sk_name listed)
     \<and> sk_name ` set listed = sk_name ` set found
     \<and> (\<forall>s\<in>set listed. find (\<lambda>x. sk_name x = sk_name s) found = Some s)"
  using first_by_name_spec [of "[]"]
  by (simp add: Let_def discover_skills_with_registry_def distinct_map)

end
