(* ===== verification/Channel_Factory.thy ===== *)
theory Channel_Factory
  imports Plugins
begin

text \<open>
  The configuration of channels (\<open>channels/config.rs\<close>) and the factory that builds the router from it
  (\<open>channels/factory.rs\<close>): adapter types and ids, environment placeholders, unique ids, the choice of
  the primary channel, and the gateway that is always added.

  A built channel is its type, id and settings; the environment is a function, and \<open>extra\<close> the list
  of the entries of a map.
\<close>

section \<open>Configuration\<close>

definition adapter_type :: "string \<Rightarrow> string" where
  "adapter_type s = to_ascii_lower (trim s)"

definition type_is_http :: "string \<Rightarrow> bool" where
  "type_is_http t \<longleftrightarrow> t = ''http'' \<or> t = ''gateway''"

definition type_is_tui :: "string \<Rightarrow> bool" where
  "type_is_tui t \<longleftrightarrow> t = ''tui''"

record adapter_settings =
  as_id :: "string option"
  as_type :: string
  as_enabled :: bool
  as_bot_token :: "string option"
  as_chat_id :: "string option"
  as_allowed_chats :: "string list"
  as_allowed_senders :: "string list"
  as_extra :: "(string \<times> json) list"

definition base_id :: "adapter_settings \<Rightarrow> string" where
  "base_id a = (case given (as_id a) of Some i \<Rightarrow> i | None \<Rightarrow> as_type a)"

definition extra_value :: "string \<Rightarrow> adapter_settings \<Rightarrow> json option" where
  "extra_value k a = map_of (as_extra a) k"

record channel_settings =
  cs_primary :: "string option"
  cs_adapters :: "adapter_settings list"

definition channel_settings_default :: channel_settings where
  "channel_settings_default = \<lparr>cs_primary = None, cs_adapters = []\<rparr>"

definition is_env_placeholder :: "string \<Rightarrow> bool" where
  "is_env_placeholder s \<longleftrightarrow> prefix ''${'' s \<and> suffix ''}'' s"

definition resolve_env_placeholder :: "(string \<Rightarrow> string option) \<Rightarrow> string \<Rightarrow> string option" where
  "resolve_env_placeholder env s = (if is_env_placeholder s then env (butlast (drop 2 s)) else None)"

definition resolve_field :: "(string \<Rightarrow> string option) \<Rightarrow> string option \<Rightarrow> string option" where
  "resolve_field env f =
     (case f of Some s \<Rightarrow> if is_env_placeholder s then resolve_env_placeholder env s else f | None \<Rightarrow> None)"

fun resolve_value :: "(string \<Rightarrow> string option) \<Rightarrow> json \<Rightarrow> json" where
  "resolve_value env (JStr s) =
     (case resolve_env_placeholder env s of Some r \<Rightarrow> JStr r | None \<Rightarrow> if is_env_placeholder s then JNull else JStr s)"
| "resolve_value env (JArr vs) = JArr (map (resolve_value env) vs)"
| "resolve_value env (JObj ms) = JObj (map (\<lambda>(k, v). (k, resolve_value env v)) ms)"
| "resolve_value env v = v"

definition resolve_adapter :: "(string \<Rightarrow> string option) \<Rightarrow> adapter_settings \<Rightarrow> adapter_settings" where
  "resolve_adapter env a =
     a\<lparr>as_id := resolve_field env (as_id a), as_bot_token := resolve_field env (as_bot_token a),
       as_chat_id := resolve_field env (as_chat_id a),
       as_extra := filter (\<lambda>(k, v). v \<noteq> JNull) (map (\<lambda>(k, v). (k, resolve_value env v)) (as_extra a))\<rparr>"

definition resolve_env_vars :: "(string \<Rightarrow> string option) \<Rightarrow> channel_settings \<Rightarrow> channel_settings" where
  "resolve_env_vars env c = c\<lparr>cs_adapters := map (resolve_adapter env) (cs_adapters c)\<rparr>"

definition enabled_adapters :: "channel_settings \<Rightarrow> adapter_settings list" where
  "enabled_adapters c = filter as_enabled (cs_adapters c)"

section \<open>Factories\<close>

datatype built_channel =
    TelegramChannel (bc_id: string) string string "string list" "string list"
  | HttpChannel (bc_id: string) string "string option" nat bool "string option"
  | OtherChannel (bc_id: string) string

datatype factory_error = FieldRequired string string | NoFactory string | NoChannels | FactoryFailed string

type_synonym factory = "adapter_settings \<Rightarrow> string \<Rightarrow> factory_error + built_channel"

definition required_field :: "string option \<Rightarrow> string \<Rightarrow> string \<Rightarrow> factory_error + string" where
  "required_field v adapter fld = (case given v of Some s \<Rightarrow> Inr s | None \<Rightarrow> Inl (FieldRequired adapter fld))"

definition telegram_factory :: factory where
  "telegram_factory cfg i =
     bind_res (required_field (as_bot_token cfg) ''telegram'' ''bot_token'') (\<lambda>token.
     bind_res (required_field (as_chat_id cfg) ''telegram'' ''chat_id'') (\<lambda>chat.
       Inr (TelegramChannel i token chat (as_allowed_chats cfg) (as_allowed_senders cfg))))"

text \<open>The last two settings of the gateway: whether it knows the dynamic routes, and its cluster directory.\<close>

definition http_factory :: factory where
  "http_factory cfg i =
     Inr (HttpChannel i
       (case Option.bind (extra_value ''bind_addr'' cfg) json_str of Some s \<Rightarrow> s | None \<Rightarrow> ''0.0.0.0:8080'')
       (Option.bind (extra_value ''auth_token'' cfg) json_str)
       (case as_u64 (extra_value ''request_timeout_secs'' cfg) of Some n \<Rightarrow> unat n | None \<Rightarrow> 60)
       False None)"

type_synonym factories = "string \<rightharpoonup> factory"

definition register_factory :: "string \<Rightarrow> factory \<Rightarrow> factories \<Rightarrow> factories" where
  "register_factory t f fs = fs(adapter_type t \<mapsto> f)"

definition builtin_factories :: factories where
  "builtin_factories =
     register_factory ''gateway'' http_factory (register_factory ''http'' http_factory
       (register_factory ''telegram'' telegram_factory Map.empty))"

section \<open>The router\<close>

record build_env =
  be_env :: "string \<Rightarrow> string option"
  be_dir :: "string \<Rightarrow> bool"
  be_home_cluster :: "string option"

definition default_cluster_dir :: "build_env \<Rightarrow> string option" where
  "default_cluster_dir e =
     (case be_env e ''THAT_CLUSTER_DIR'' of
        Some d \<Rightarrow> if be_dir e d then Some d else Option.bind (be_home_cluster e) (\<lambda>h. if be_dir e h then Some h else None)
      | None \<Rightarrow> Option.bind (be_home_cluster e) (\<lambda>h. if be_dir e h then Some h else None))"

datatype build_mode = Headless | AllAdapters

record build_state =
  bs_channels :: "built_channel list"
  bs_primary :: nat
  bs_counts :: "string \<Rightarrow> nat"

definition numbered_id :: "string \<Rightarrow> nat \<Rightarrow> string" where
  "numbered_id b n = (if n = 1 then b else b @ ''-'' @ show_nat n)"

definition skipped :: "build_mode \<Rightarrow> adapter_settings \<Rightarrow> bool" where
  "skipped mode cfg \<longleftrightarrow> mode = Headless \<and> type_is_tui (as_type cfg)"

definition build_adapter ::
  "factories \<Rightarrow> build_mode \<Rightarrow> string option \<Rightarrow> build_state \<Rightarrow> adapter_settings \<Rightarrow> factory_error + build_state" where
  "build_adapter fs mode primary st cfg =
     (if skipped mode cfg then Inr st
      else
        (let b = base_id cfg; n = bs_counts st b + 1; i = numbered_id b n; idx = length (bs_channels st) in
         case fs (as_type cfg) of
           None \<Rightarrow> Inl (NoFactory (as_type cfg))
         | Some f \<Rightarrow>
             bind_res (f cfg i) (\<lambda>ch.
               Inr \<lparr>bs_channels = bs_channels st @ [ch],
                 bs_primary = (if primary = Some i \<or> primary = Some b \<or> primary = Some (as_type cfg) then idx else bs_primary st),
                 bs_counts = (bs_counts st)(b := n)\<rparr>)))"

definition build_start :: build_state where
  "build_start = \<lparr>bs_channels = [], bs_primary = 0, bs_counts = (\<lambda>_. 0)\<rparr>"

definition gateway_channels :: "build_env \<Rightarrow> channel_settings \<Rightarrow> bool \<Rightarrow> built_channel list" where
  "gateway_channels e c with_routes =
     (if list_ex (\<lambda>a. type_is_http (as_type a)) (enabled_adapters c) then []
      else
        (let addr = (case be_env e ''THAT_GATEWAY_ADDR'' of Some a \<Rightarrow> a | None \<Rightarrow> ''0.0.0.0:8080'') in
         if addr = [] then [] else [HttpChannel ''gateway'' addr None 300 with_routes (default_cluster_dir e)]))"

definition build_router ::
  "build_env \<Rightarrow> factories \<Rightarrow> channel_settings \<Rightarrow> build_mode \<Rightarrow> bool \<Rightarrow> factory_error + built_channel list \<times> nat" where
  "build_router e fs c mode with_routes =
     bind_res (fold_res (build_adapter fs mode (given (cs_primary c))) build_start (enabled_adapters c)) (\<lambda>st.
       let chs = bs_channels st @ gateway_channels e c with_routes in
       if chs = [] then Inl NoChannels else Inr (chs, bs_primary st))"

section \<open>Ids\<close>

lemma show_nat_inj: "show_nat m = show_nat n \<Longrightarrow> m = n"
proof -
  assume "show_nat m = show_nat n"
  then have "digits_val (show_nat m) = digits_val (show_nat n)" by (rule arg_cong)
  then show ?thesis by (simp add: show_nat_digits)
qed

lemma builtin_id: "builtin_factories t = Some f \<Longrightarrow> f cfg i = Inr ch \<Longrightarrow> bc_id ch = i"
  by (auto simp: builtin_factories_def register_factory_def telegram_factory_def http_factory_def
      split: if_splits elim!: bind_res_InrD)

text \<open>No base id looks like another one with a number.\<close>

definition ids_apart :: "string set \<Rightarrow> bool" where
  "ids_apart bs \<longleftrightarrow> (\<forall>b\<in>bs. \<forall>b'\<in>bs. \<forall>n. b' \<noteq> b @ ''-'' @ show_nat n)"

lemma digits_no_dash: "CHR ''-'' \<notin> set (show_nat n)"
  using show_nat_digits [of n] by (auto simp: list_all_iff is_digit_def)

lemma after_dash: "CHR ''-'' \<notin> set x \<Longrightarrow> CHR ''-'' \<notin> set y \<Longrightarrow> a @ CHR ''-'' # x = b @ CHR ''-'' # y \<Longrightarrow> a = b \<and> x = y"
  by (induction a arbitrary: b) (auto simp: Cons_eq_append_conv append_eq_Cons_conv)

lemma numbered_id_inj:
  assumes "ids_apart bs" "b \<in> bs" "b' \<in> bs" "numbered_id b m = numbered_id b' n"
  shows "b = b' \<and> m = n"
proof -
  have *: "b \<noteq> b' @ CHR ''-'' # show_nat n" "b' \<noteq> b @ CHR ''-'' # show_nat m" using assms(1-3) by (auto simp: ids_apart_def)
  consider "m = 1" "n = 1" | "m = 1" "n \<noteq> 1" | "m \<noteq> 1" "n = 1" | "m \<noteq> 1" "n \<noteq> 1" by blast
  then show ?thesis
  proof cases
    case 4
    then have "b @ CHR ''-'' # show_nat m = b' @ CHR ''-'' # show_nat n" using assms(4) by (simp add: numbered_id_def)
    from after_dash [OF digits_no_dash digits_no_dash this] show_nat_inj show ?thesis by blast
  qed (use assms(4) * in \<open>simp_all add: numbered_id_def\<close>)
qed

definition id_state :: "string set \<Rightarrow> build_state \<Rightarrow> bool" where
  "id_state bs st \<longleftrightarrow> distinct (map bc_id (bs_channels st))
     \<and> set (map bc_id (bs_channels st)) = {numbered_id b k | b k. b \<in> bs \<and> 1 \<le> k \<and> k \<le> bs_counts st b}"

lemma build_adapter_ids:
  assumes apart: "ids_apart bs" and b: "base_id cfg \<in> bs" and st: "id_state bs st"
    and ok: "build_adapter builtin_factories mode primary st cfg = Inr st1"
  shows "id_state bs st1"
proof (cases "skipped mode cfg")
  case True
  then show ?thesis using ok st by (simp add: build_adapter_def)
next
  case False
  let ?b = "base_id cfg" and ?n = "bs_counts st (base_id cfg) + 1"
  from ok False obtain f ch where f: "builtin_factories (as_type cfg) = Some f" "f cfg (numbered_id ?b ?n) = Inr ch"
    and st1: "bs_channels st1 = bs_channels st @ [ch]" "bs_counts st1 = (bs_counts st)(?b := ?n)"
    by (auto simp: build_adapter_def Let_def split: option.splits elim!: bind_res_InrD)
  have ch: "bc_id ch = numbered_id ?b ?n" using builtin_id f by blast
  have new: "numbered_id ?b ?n \<noteq> numbered_id b' k" if "b' \<in> bs" "k \<le> bs_counts st b'" for b' k
    using numbered_id_inj [OF apart b that(1)] that(2) by fastforce
  have "numbered_id b' k \<in> insert (numbered_id ?b ?n) {numbered_id b' k | b' k. b' \<in> bs \<and> 1 \<le> k \<and> k \<le> bs_counts st b'}"
    if "b' \<in> bs" "1 \<le> k" "k \<le> bs_counts st1 b'" for b' k
  proof -
    have "b' = ?b \<and> k = ?n \<or> k \<le> bs_counts st b'" using that by (auto simp: st1 split: if_splits)
    then show ?thesis using that by blast
  qed
  moreover have "numbered_id b' k \<in> {numbered_id b' k | b' k. b' \<in> bs \<and> 1 \<le> k \<and> k \<le> bs_counts st1 b'}"
    if "b' \<in> bs" "1 \<le> k" "k \<le> bs_counts st b'" for b' k
    using that by (auto simp: st1 intro!: exI [of _ b'] exI [of _ k])
  moreover have "numbered_id ?b ?n \<in> {numbered_id b' k | b' k. b' \<in> bs \<and> 1 \<le> k \<and> k \<le> bs_counts st1 b'}"
    using b by (auto simp: st1 intro!: exI [of _ ?b] exI [of _ ?n])
  ultimately have "{numbered_id b' k | b' k. b' \<in> bs \<and> 1 \<le> k \<and> k \<le> bs_counts st1 b'}
    = insert (numbered_id ?b ?n) {numbered_id b' k | b' k. b' \<in> bs \<and> 1 \<le> k \<and> k \<le> bs_counts st b'}"
    by blast
  then show ?thesis using st new by (fastforce simp: id_state_def st1 ch)
qed

lemma build_adapters_ids:
  "ids_apart bs \<Longrightarrow> base_id ` set cfgs \<subseteq> bs \<Longrightarrow> id_state bs st \<Longrightarrow>
     fold_res (build_adapter builtin_factories mode primary) st cfgs = Inr st1 \<Longrightarrow> id_state bs st1"
proof (induction cfgs arbitrary: st)
  case (Cons cfg cfgs)
  from Cons.prems(4) obtain st2 where "build_adapter builtin_factories mode primary st cfg = Inr st2"
    "fold_res (build_adapter builtin_factories mode primary) st2 cfgs = Inr st1" by (auto elim!: bind_res_InrD)
  moreover from this(1) have "id_state bs st2" by (intro build_adapter_ids [OF Cons.prems(1) _ Cons.prems(3)]) (use Cons.prems(2) in auto)
  ultimately show ?case using Cons.IH [OF Cons.prems(1)] Cons.prems(2) by simp
qed simp

lemma id_state_start: "id_state bs build_start"
  by (auto simp: id_state_def build_start_def)

text \<open>C0: the channels of a router have distinct ids, provided no configured id looks like another one followed by a
  number, and none is called \<open>gateway\<close> when the gateway is added.\<close>

theorem adapter_ids_distinct:
  assumes "build_router e builtin_factories c mode with_routes = Inr (chs, primary)"
    and "bs = base_id ` set (enabled_adapters c)"
    and "ids_apart (insert ''gateway'' bs)"
    and "''gateway'' \<in> bs \<longrightarrow> gateway_channels e c with_routes = []"
  shows "distinct (map bc_id chs)"
proof -
  obtain st where st: "fold_res (build_adapter builtin_factories mode (given (cs_primary c))) build_start (enabled_adapters c) = Inr st"
    and chs: "chs = bs_channels st @ gateway_channels e c with_routes"
    using assms(1) by (auto simp: build_router_def Let_def split: if_splits elim!: bind_res_InrD)
  have apart: "ids_apart bs" using assms(3) by (auto simp: ids_apart_def)
  have inv: "id_state bs st" using build_adapters_ids [OF apart _ id_state_start st] assms(2) by simp
  have "''gateway'' \<notin> set (map bc_id (bs_channels st))" if "''gateway'' \<notin> bs"
  proof
    assume "''gateway'' \<in> set (map bc_id (bs_channels st))"
    then obtain b k where "b \<in> bs" "numbered_id ''gateway'' 1 = numbered_id b k"
      using inv by (auto simp: id_state_def numbered_id_def)
    with numbered_id_inj [OF assms(3), of "''gateway''" b 1 k] that show False by auto
  qed
  moreover have "map bc_id (gateway_channels e c with_routes) \<in> {[], [''gateway'']}"
    by (auto simp: gateway_channels_def Let_def)
  ultimately show ?thesis using inv assms(4) unfolding chs id_state_def by (auto simp del: set_map simp flip: set_map)
qed

definition demo_adapter :: "string \<Rightarrow> adapter_settings" where
  "demo_adapter i =
     \<lparr>as_id = Some i, as_type = ''telegram'', as_enabled = True, as_bot_token = Some ''t'', as_chat_id = Some ''c'',
      as_allowed_chats = [], as_allowed_senders = [], as_extra = []\<rparr>"

definition demo_build_env :: build_env where
  "demo_build_env = \<lparr>be_env = (\<lambda>_. None), be_dir = (\<lambda>_. False), be_home_cluster = None\<rparr>"

definition demo_channels :: "string list \<Rightarrow> string option \<Rightarrow> channel_settings" where
  "demo_channels ids primary = \<lparr>cs_primary = primary, cs_adapters = map demo_adapter ids\<rparr>"

definition built_ids :: "factory_error + built_channel list \<times> nat \<Rightarrow> (string list \<times> nat) option" where
  "built_ids r = (case r of Inr (chs, n) \<Rightarrow> Some (map bc_id chs, n) | Inl _ \<Rightarrow> None)"

lemma demo_build:
  "built_ids (build_router demo_build_env builtin_factories (demo_channels [''ops'', ''ops''] None) Headless True)
     = Some ([''ops'', ''ops-2'', ''gateway''], 0)"
  by code_simp

lemma adapter_ids_distinct_witness:
  "distinct (fst (the (built_ids (build_router demo_build_env builtin_factories (demo_channels [''ops'', ''ops''] None) Headless True))))"
proof -
  let ?c = "demo_channels [''ops'', ''ops''] None"
  obtain chs n where r: "build_router demo_build_env builtin_factories ?c Headless True = Inr (chs, n)"
    using demo_build by (auto simp: built_ids_def split: sum.splits)
  have "base_id ` set (enabled_adapters ?c) = {''ops''}" by code_simp
  moreover have "ids_apart (insert ''gateway'' {''ops''})"
    by (simp add: ids_apart_def)
  ultimately have "distinct (map bc_id chs)" using adapter_ids_distinct [OF r refl] by simp
  then show ?thesis by (simp add: r built_ids_def)
qed

text \<open>C0: an id that looks like another one with a number is given twice.\<close>

theorem numbered_ids_collide:
  "built_ids (build_router demo_build_env builtin_factories (demo_channels [''ops'', ''ops'', ''ops-2''] None) Headless True)
     = Some ([''ops'', ''ops-2'', ''ops-2'', ''gateway''], 0)"
  by code_simp

text \<open>C0: a primary that is the exact id of one channel can select another one: the last adapter whose configured id or
  type equals it.\<close>

theorem exact_primary_is_overridden:
  "built_ids (build_router demo_build_env builtin_factories (demo_channels [''ops'', ''ops''] (Some ''ops'')) Headless True)
     = Some ([''ops'', ''ops-2'', ''gateway''], 1)
   \<and> built_ids (build_router demo_build_env builtin_factories (demo_channels [''telegram'', ''ops''] (Some ''telegram'')) Headless True)
     = Some ([''telegram'', ''ops'', ''gateway''], 1)"
  by code_simp

section \<open>The gateway\<close>

definition is_http_channel :: "built_channel \<Rightarrow> bool" where
  "is_http_channel ch \<longleftrightarrow> (case ch of HttpChannel _ _ _ _ _ _ \<Rightarrow> True | _ \<Rightarrow> False)"

lemma build_adapter_keeps:
  "build_adapter fs mode primary st cfg = Inr st1 \<Longrightarrow> prefix (bs_channels st) (bs_channels st1)
     \<and> (bs_primary st1 = bs_primary st \<or> bs_primary st1 < length (bs_channels st1))"
  by (auto simp: build_adapter_def Let_def split: if_splits option.splits elim!: bind_res_InrD)

lemma build_adapters_keep:
  "fold_res (build_adapter fs mode primary) st cfgs = Inr st1 \<Longrightarrow> prefix (bs_channels st) (bs_channels st1)
     \<and> (bs_primary st1 = bs_primary st \<or> bs_primary st1 < length (bs_channels st1))"
proof (induction cfgs arbitrary: st)
  case (Cons cfg cfgs)
  then obtain st2 where a: "build_adapter fs mode primary st cfg = Inr st2"
    and b: "fold_res (build_adapter fs mode primary) st2 cfgs = Inr st1" by (auto elim!: bind_res_InrD)
  from build_adapter_keeps [OF a] Cons.IH [OF b] show ?case
    by (auto dest: prefix_length_le intro: prefix_order.trans)
qed simp

lemma builtin_types: "adapter_type ''http'' = ''http''" "adapter_type ''gateway'' = ''gateway''" "adapter_type ''telegram'' = ''telegram''"
  by code_simp+

lemma builtin_http: "type_is_http t \<Longrightarrow> builtin_factories t = Some http_factory"
  by (auto simp: type_is_http_def builtin_factories_def register_factory_def builtin_types)

lemma build_http:
  assumes "build_adapter builtin_factories mode primary st cfg = Inr st1" "type_is_http (as_type cfg)"
  shows "list_ex is_http_channel (bs_channels st1)"
proof -
  have "\<not> skipped mode cfg" using assms(2) by (auto simp: skipped_def type_is_http_def type_is_tui_def)
  then show ?thesis using assms(1)
    by (auto simp: build_adapter_def Let_def builtin_http [OF assms(2)] http_factory_def is_http_channel_def elim!: bind_res_InrD)
qed

lemma build_https:
  "fold_res (build_adapter builtin_factories mode primary) st cfgs = Inr st1 \<Longrightarrow> list_ex (\<lambda>a. type_is_http (as_type a)) cfgs \<Longrightarrow>
     list_ex is_http_channel (bs_channels st1)"
proof (induction cfgs arbitrary: st)
  case (Cons cfg cfgs)
  then obtain st2 where a: "build_adapter builtin_factories mode primary st cfg = Inr st2"
    and b: "fold_res (build_adapter builtin_factories mode primary) st2 cfgs = Inr st1" by (auto elim!: bind_res_InrD)
  show ?case
  proof (cases "type_is_http (as_type cfg)")
    case True
    from build_http [OF a True] build_adapters_keep [OF b] show ?thesis by (auto simp: list_ex_iff dest: set_mono_prefix)
  next
    case False
    with Cons.prems(2) Cons.IH [OF b] show ?thesis by simp
  qed
qed simp

text \<open>C0: a router that is built has an HTTP channel unless the gateway address is set to the empty text, and its
  primary index is one of its channels.\<close>

theorem router_has_gateway:
  assumes "build_router e builtin_factories c mode with_routes = Inr (chs, primary)"
    and "be_env e ''THAT_GATEWAY_ADDR'' \<noteq> Some []"
  shows "list_ex is_http_channel chs \<and> primary < length chs"
proof -
  obtain st where st: "fold_res (build_adapter builtin_factories mode (given (cs_primary c))) build_start (enabled_adapters c) = Inr st"
    and chs: "chs = bs_channels st @ gateway_channels e c with_routes" "chs \<noteq> []" "primary = bs_primary st"
    using assms(1) by (auto simp: build_router_def Let_def split: if_splits elim!: bind_res_InrD)
  have "list_ex is_http_channel chs"
  proof (cases "list_ex (\<lambda>a. type_is_http (as_type a)) (enabled_adapters c)")
    case True
    from build_https [OF st this] show ?thesis by (simp add: chs(1))
  next
    case False
    then show ?thesis using assms(2)
      by (auto simp: chs(1) gateway_channels_def is_http_channel_def Let_def split: option.split)
  qed
  moreover have "primary < length chs"
    using build_adapters_keep [OF st] chs by (auto simp: build_start_def)
  ultimately show ?thesis by blast
qed

lemma router_has_gateway_witness:
  "(\<lambda>r. case r of Inr (chs, n) \<Rightarrow> list_ex is_http_channel chs \<and> n < length chs | Inl _ \<Rightarrow> False)
     (build_router demo_build_env builtin_factories (demo_channels [''ops'', ''ops''] None) Headless True)"
proof -
  obtain chs n where r: "build_router demo_build_env builtin_factories (demo_channels [''ops'', ''ops''] None) Headless True = Inr (chs, n)"
    using demo_build by (auto simp: built_ids_def split: sum.splits)
  have "be_env demo_build_env ''THAT_GATEWAY_ADDR'' \<noteq> Some []" by (simp add: demo_build_env_def)
  from router_has_gateway [OF r this] show ?thesis by (simp add: r)
qed

end
