(* ===== verification/Agent_Config.thy ===== *)
theory Agent_Config
  imports Channel_Factory Provider_Registry
begin

text \<open>
  The configuration of an agent and of the workspace (\<open>config/mod.rs\<close>), and the catalogue of models
  (\<open>model_catalog.rs\<close>): defaults, what the environment overrides, where a definition is looked for, the
  models offered for a provider and the providers that are available.

  TOML is a parameter: a text gives the keys that are set in it and the definition.  The environment
  is a function, and whether Anthropic credentials are found is a flag.
\<close>

section \<open>Agents\<close>

record agent_def =
  ad_name :: string
  ad_provider :: string
  ad_model :: string
  ad_max_turns :: nat
  ad_max_tokens :: nat
  ad_preamble :: "string option"
  ad_shared_workspace :: bool
  ad_channels :: channel_settings
  ad_heartbeat_interval :: "nat option"
  ad_timezone :: "string option"
  ad_parent :: "string option"
  ad_role :: "string option"
  ad_inherit_workspace :: bool
  ad_steering :: bool

definition agent_default :: agent_def where
  "agent_default =
     \<lparr>ad_name = ''default'', ad_provider = ''openai'', ad_model = ''gpt-5.2-codex'', ad_max_turns = 300,
      ad_max_tokens = 16384, ad_preamble = None, ad_shared_workspace = False, ad_channels = channel_settings_default,
      ad_heartbeat_interval = Some 10, ad_timezone = None, ad_parent = None, ad_role = None,
      ad_inherit_workspace = False, ad_steering = True\<rparr>"

type_synonym env_vars = "string \<Rightarrow> string option"

definition truthy_var :: "string \<Rightarrow> bool" where
  "truthy_var v \<longleftrightarrow> to_ascii_lower (trim v) \<in> set [''1'', ''true'', ''yes'', ''on'']"

text \<open>A variable that is set and not empty.\<close>

definition var_given :: "env_vars \<Rightarrow> string \<Rightarrow> string option" where
  "var_given env k = (case env k of Some v \<Rightarrow> if v = [] then None else Some v | None \<Rightarrow> None)"

definition file_has :: "string list option \<Rightarrow> string \<Rightarrow> bool" where
  "file_has raw k = (case raw of Some ks \<Rightarrow> k \<in> set ks | None \<Rightarrow> False)"

definition fallback_text :: "env_vars \<Rightarrow> string list option \<Rightarrow> string \<Rightarrow> string \<Rightarrow> string \<Rightarrow> string" where
  "fallback_text env raw key var old =
     (if file_has raw key then old else case var_given env var of Some v \<Rightarrow> v | None \<Rightarrow> old)"

definition fallback_number :: "env_vars \<Rightarrow> string list option \<Rightarrow> string \<Rightarrow> string \<Rightarrow> nat \<Rightarrow> nat" where
  "fallback_number env raw key var old =
     (if file_has raw key then old
      else case Option.bind (env var) (parse_uint (2 ^ 64)) of Some n \<Rightarrow> n | None \<Rightarrow> old)"

definition fallback_prompt :: "env_vars \<Rightarrow> string list option \<Rightarrow> string option \<Rightarrow> string option" where
  "fallback_prompt env raw old =
     (if file_has raw ''preamble'' then old
      else case var_given env ''THAT_AGENT_BOOTSTRAP_PROMPT'' of Some v \<Rightarrow> Some v | None \<Rightarrow> old)"

definition fallback_llm :: "env_vars \<Rightarrow> string list option \<Rightarrow> agent_def \<Rightarrow> agent_def" where
  "fallback_llm env raw a =
     a\<lparr>ad_provider := fallback_text env raw ''provider'' ''THAT_AGENT_PROVIDER'' (ad_provider a),
       ad_model := fallback_text env raw ''model'' ''THAT_AGENT_MODEL'' (ad_model a),
       ad_max_turns := fallback_number env raw ''max_turns'' ''THAT_AGENT_MAX_TURNS'' (ad_max_turns a),
       ad_max_tokens := fallback_number env raw ''max_tokens'' ''THAT_AGENT_MAX_TOKENS'' (ad_max_tokens a),
       ad_preamble := fallback_prompt env raw (ad_preamble a)\<rparr>"

definition override_text :: "env_vars \<Rightarrow> string \<Rightarrow> string option \<Rightarrow> string option" where
  "override_text env var old = (case var_given env var of Some v \<Rightarrow> Some v | None \<Rightarrow> old)"

definition override_inherit :: "env_vars \<Rightarrow> bool \<Rightarrow> bool" where
  "override_inherit env old =
     (case env ''THAT_AGENT_INHERIT_WORKSPACE'' of Some v \<Rightarrow> if truthy_var v then True else old | None \<Rightarrow> old)"

definition override_hierarchy :: "env_vars \<Rightarrow> agent_def \<Rightarrow> agent_def" where
  "override_hierarchy env a =
     a\<lparr>ad_parent := override_text env ''THAT_AGENT_PARENT'' (ad_parent a),
       ad_role := override_text env ''THAT_AGENT_ROLE'' (ad_role a),
       ad_inherit_workspace := override_inherit env (ad_inherit_workspace a)\<rparr>"

definition fallback_steering :: "env_vars \<Rightarrow> string list option \<Rightarrow> agent_def \<Rightarrow> agent_def" where
  "fallback_steering env raw a =
     (if file_has raw ''steering'' then a
      else case env ''THAT_AGENT_STEERING'' of Some v \<Rightarrow> a\<lparr>ad_steering := truthy_var v\<rparr> | None \<Rightarrow> a)"

definition apply_env_overrides :: "env_vars \<Rightarrow> string list option \<Rightarrow> agent_def \<Rightarrow> agent_def" where
  "apply_env_overrides env raw a = fallback_steering env raw (override_hierarchy env (fallback_llm env raw a))"

record config_env =
  ge_env :: env_vars
  ge_home :: "fs_path option"
  ge_config_dir :: "fs_path option"
  ge_cwd :: location
  ge_keys :: "string \<Rightarrow> string list option"
  ge_agent :: "string \<Rightarrow> agent_def option"

datatype config_error = AgentUnreadable fs_path io_error | AgentUnparsed fs_path | ConfigUnreadable fs_path io_error
  | ConfigUnparsed fs_path | StateDirFailed io_error | AgentsUnreadable io_error

definition agent_from_file :: "config_env \<Rightarrow> fs_tree \<Rightarrow> fs_path \<Rightarrow> config_error + agent_def" where
  "agent_from_file e fs p =
     (case read_to_string fs (ge_cwd e) p of
        Inl err \<Rightarrow> Inl (AgentUnreadable p err)
      | Inr s \<Rightarrow>
          (case ge_keys e s of
             None \<Rightarrow> Inl (AgentUnparsed p)
           | Some raw \<Rightarrow>
               (case ge_agent e s of
                  None \<Rightarrow> Inl (AgentUnparsed p)
                | Some a \<Rightarrow>
                    Inr (apply_env_overrides (ge_env e) (Some raw)
                      (a\<lparr>ad_channels := resolve_env_vars (ge_env e) (ad_channels a)\<rparr>)))))"

definition that_agent_dir :: "config_env \<Rightarrow> fs_path" where
  "that_agent_dir e = path_join (case ge_home e of Some h \<Rightarrow> h | None \<Rightarrow> parse_path ''.'') ''.that-agent''"

definition agent_workspace_dir :: "config_env \<Rightarrow> string \<Rightarrow> fs_path" where
  "agent_workspace_dir e n = path_join (path_join (that_agent_dir e) ''workspaces'') n"

definition agent_memory_db_path :: "config_env \<Rightarrow> string \<Rightarrow> fs_path" where
  "agent_memory_db_path e n = path_join (path_join (path_join (that_agent_dir e) ''agents'') n) ''memory.db''"

section \<open>Workspaces\<close>

record workspace_config =
  wc_workspace :: "fs_path option"
  wc_state_dir :: "fs_path option"
  wc_default_agent :: string

definition workspace_default :: workspace_config where
  "workspace_default = \<lparr>wc_workspace = None, wc_state_dir = None, wc_default_agent = ''default''\<rparr>"

record raw_workspace_config =
  rw_workspace :: "fs_path option"
  rw_state_dir :: "fs_path option"
  rw_default_agent :: "string option"

definition apply_raw :: "raw_workspace_config \<Rightarrow> workspace_config \<Rightarrow> workspace_config" where
  "apply_raw r c =
     \<lparr>wc_workspace = (case rw_workspace r of Some v \<Rightarrow> Some v | None \<Rightarrow> wc_workspace c),
      wc_state_dir = (case rw_state_dir r of Some v \<Rightarrow> Some v | None \<Rightarrow> wc_state_dir c),
      wc_default_agent = (case rw_default_agent r of Some v \<Rightarrow> v | None \<Rightarrow> wc_default_agent c)\<rparr>"

text \<open>A configuration file that exists is applied; one that cannot be read or parsed is an error.\<close>

definition apply_layer ::
  "config_env \<Rightarrow> (string \<Rightarrow> raw_workspace_config option) \<Rightarrow> fs_tree \<Rightarrow> fs_path option \<Rightarrow> workspace_config
     \<Rightarrow> config_error + workspace_config" where
  "apply_layer e parse fs dir c =
     (case dir of
        None \<Rightarrow> Inr c
      | Some p \<Rightarrow>
          if \<not> path_exists fs (ge_cwd e) p then Inr c
          else (case read_to_string fs (ge_cwd e) p of
            Inl err \<Rightarrow> Inl (ConfigUnreadable p err)
          | Inr s \<Rightarrow> (case parse s of None \<Rightarrow> Inl (ConfigUnparsed p) | Some r \<Rightarrow> Inr (apply_raw r c))))"

definition load_workspace ::
  "config_env \<Rightarrow> (string \<Rightarrow> raw_workspace_config option) \<Rightarrow> fs_path option \<Rightarrow> fs_path option \<Rightarrow> fs_tree
     \<Rightarrow> config_error + workspace_config" where
  "load_workspace e parse cwd workspace fs =
     (let ws = (case workspace of Some w \<Rightarrow> Some w | None \<Rightarrow> cwd);
          join2 = (\<lambda>a p. path_join (path_join p a) ''config.toml'') in
      bind_res (apply_layer e parse fs (map_option (join2 ''that-agent'') (ge_config_dir e)) workspace_default) (\<lambda>c1.
      bind_res (apply_layer e parse fs (map_option (join2 ''.that-agent'') ws) c1) (\<lambda>c2.
        Inr (if wc_workspace c2 = None then c2\<lparr>wc_workspace := ws\<rparr> else c2))))"

definition resolve_state_dir :: "config_env \<Rightarrow> workspace_config \<Rightarrow> fs_tree \<Rightarrow> (config_error + fs_path) \<times> fs_tree" where
  "resolve_state_dir e c fs =
     (let dir = (case wc_state_dir c of Some d \<Rightarrow> d | None \<Rightarrow> path_join (that_agent_dir e) ''state'') in
      case create_dir_all dir (ge_cwd e) fs of (Inl err, fs1) \<Rightarrow> (Inl (StateDirFailed err), fs1) | (Inr _, fs1) \<Rightarrow> (Inr dir, fs1))"

definition agents_dir :: "config_env \<Rightarrow> fs_path" where
  "agents_dir e = path_join (that_agent_dir e) ''agents''"

definition agent_config_path :: "config_env \<Rightarrow> string \<Rightarrow> fs_path" where
  "agent_config_path e n = path_join (path_join (agents_dir e) n) ''config.toml''"

definition legacy_config_path :: "config_env \<Rightarrow> string \<Rightarrow> fs_path" where
  "legacy_config_path e n = path_join (agents_dir e) (n @ ''.toml'')"

definition load_agent :: "config_env \<Rightarrow> string \<Rightarrow> fs_tree \<Rightarrow> config_error + agent_def" where
  "load_agent e n fs =
     bind_res
       (if path_exists fs (ge_cwd e) (agent_config_path e n) then agent_from_file e fs (agent_config_path e n)
        else if path_exists fs (ge_cwd e) (legacy_config_path e n) then agent_from_file e fs (legacy_config_path e n)
        else Inr (apply_env_overrides (ge_env e) None agent_default))
       (\<lambda>a. Inr (a\<lparr>ad_name := n\<rparr>))"

definition list_agents :: "config_env \<Rightarrow> fs_tree \<Rightarrow> config_error + string list" where
  "list_agents e fs =
     (let dir = agents_dir e in
      if \<not> path_exists fs (ge_cwd e) dir then Inr [''default'']
      else (case read_dir fs (ge_cwd e) dir of
        Inl err \<Rightarrow> Inl (AgentsUnreadable err)
      | Inr names \<Rightarrow>
          Inr (sort (remdups (List.map_filter (\<lambda>n.
            if suffix ''.toml'' n then Some (trim_end_matches ''.toml'' n)
            else if path_exists fs (ge_cwd e) (path_join (path_join dir n) ''config.toml'') then Some n else None) names)))))"

section \<open>Models\<close>

definition model_options :: "(string \<times> string) list" where
  "model_options =
     [(''anthropic'', ''claude-opus-4-6''), (''anthropic'', ''claude-sonnet-4-6''), (''anthropic'', ''claude-haiku-4-5''),
      (''openai'', ''gpt-5.2-codex''), (''openai'', ''gpt-5.1-codex-mini''),
      (''openrouter'', ''anthropic/claude-sonnet-4.6''), (''openrouter'', ''anthropic/claude-opus-4.6''),
      (''openrouter'', ''google/gemini-3.1-pro''), (''openrouter'', ''deepseek/deepseek-r1'')]"

definition provider_order :: "string list" where
  "provider_order = [''openai'', ''anthropic'', ''openrouter'']"

record model_env =
  me_providers :: provider_env
  me_file :: "string option option"
  me_env :: env_vars
  me_anthropic :: bool

definition registered_provider :: "model_env \<Rightarrow> string \<Rightarrow> provider_entry option" where
  "registered_provider e p = find_registered_provider (me_providers e) p (me_file e)"

definition normalize_provider :: "model_env \<Rightarrow> string \<Rightarrow> string option" where
  "normalize_provider e p =
     (let n = to_ascii_lower (trim p) in
      if n \<in> set provider_order then Some n
      else (case normalize_provider_id p of
              Some i \<Rightarrow> if registered_provider e i = None then None else Some i | None \<Rightarrow> None))"

definition normalize_model :: "string \<Rightarrow> string" where
  "normalize_model m0 =
     (let m = trim m0; ids = map snd model_options in
      if m \<in> set ids then m
      else if ''claude-'' @ m \<in> set ids then ''claude-'' @ m
      else if m = ''opus'' \<or> m = ''claude-opus'' then ''claude-opus-4-6''
      else if m = ''sonnet'' \<or> m = ''claude-sonnet'' then ''claude-sonnet-4-6''
      else if m = ''haiku'' \<or> m = ''claude-haiku'' then ''claude-haiku-4-5''
      else m)"

definition context_window :: "string \<Rightarrow> nat" where
  "context_window m =
     (if m \<in> set [''claude-opus-4-6'', ''claude-sonnet-4-6'', ''claude-haiku-4-5''] then 1000000
      else if m \<in> set [''gpt-5.2-codex'', ''gpt-5.1-codex-mini''] then 1000000 else 200000)"

definition suggested_models :: "model_env \<Rightarrow> string \<Rightarrow> string list" where
  "suggested_models e p =
     (if p \<in> set provider_order then map snd (filter (\<lambda>(q, m). q = p) model_options)
      else (case registered_provider e p of Some x \<Rightarrow> pe_models x | None \<Rightarrow> []))"

definition has_env :: "model_env \<Rightarrow> string \<Rightarrow> bool" where
  "has_env e k = (case me_env e k of Some v \<Rightarrow> trim v \<noteq> [] | None \<Rightarrow> False)"

definition provider_is_available :: "model_env \<Rightarrow> string \<Rightarrow> bool" where
  "provider_is_available e p =
     (case normalize_provider e p of
        Some q \<Rightarrow>
          if q = ''anthropic'' then me_anthropic e
          else if q = ''openai'' then has_env e ''OPENAI_API_KEY''
          else if q = ''openrouter'' then has_env e ''OPENROUTER_API_KEY''
          else (case registered_provider e q of Some x \<Rightarrow> has_env e (pe_api_key_env x) | None \<Rightarrow> False)
      | None \<Rightarrow> False)"

definition available_providers :: "model_env \<Rightarrow> string list" where
  "available_providers e =
     filter (provider_is_available e) provider_order
     @ sort (map pe_id (filter (\<lambda>x. provider_is_available e (pe_id x)) (load_registered_providers (me_providers e) (me_file e))))"

section \<open>Precedence\<close>

text \<open>C0: applying the environment again changes nothing, so a definition that is loaded again is the same.\<close>

theorem overrides_idempotent:
  "apply_env_overrides env raw (apply_env_overrides env raw a) = apply_env_overrides env raw a"
proof -
  have text_again: "fallback_text env raw k v (fallback_text env raw k v x) = fallback_text env raw k v x" for k v x
    by (simp add: fallback_text_def split: option.split)
  have number_again: "fallback_number env raw k v (fallback_number env raw k v x) = fallback_number env raw k v x" for k v x
    by (simp add: fallback_number_def split: option.split)
  have prompt_again: "fallback_prompt env raw (fallback_prompt env raw x) = fallback_prompt env raw x" for x
    by (simp add: fallback_prompt_def split: option.split)
  have llm: "fallback_llm env raw (fallback_llm env raw x) = fallback_llm env raw x" for x
    by (simp add: fallback_llm_def text_again number_again prompt_again)
  have hierarchy: "override_hierarchy env (override_hierarchy env x) = override_hierarchy env x" for x
    by (simp add: override_hierarchy_def override_text_def override_inherit_def split: option.split)
  have steering: "fallback_steering env raw (fallback_steering env raw x) = fallback_steering env raw x" for x
    by (simp add: fallback_steering_def split: option.split)
  have swap1: "fallback_llm env raw (override_hierarchy env x) = override_hierarchy env (fallback_llm env raw x)" for x
    by (cases x) (simp add: fallback_llm_def override_hierarchy_def)
  have swap2: "fallback_llm env raw (fallback_steering env raw x) = fallback_steering env raw (fallback_llm env raw x)" for x
    by (cases "env ''THAT_AGENT_STEERING''"; cases "file_has raw ''steering''"; cases x)
      (simp_all add: fallback_llm_def fallback_steering_def)
  have swap3: "override_hierarchy env (fallback_steering env raw x) = fallback_steering env raw (override_hierarchy env x)" for x
    by (cases "env ''THAT_AGENT_STEERING''"; cases "file_has raw ''steering''"; cases x)
      (simp_all add: override_hierarchy_def fallback_steering_def)
  show ?thesis by (simp only: apply_env_overrides_def swap1 swap2 swap3 llm hierarchy steering)
qed

text \<open>C0: keys that the file sets are not touched by the environment, except the parent, the role and the inherited
  workspace.\<close>

theorem file_keys_win:
  assumes "set [''provider'', ''model'', ''max_turns'', ''max_tokens'', ''preamble'', ''steering''] \<subseteq> set ks"
  shows "apply_env_overrides env (Some ks) a = override_hierarchy env a"
  using assms
  by (simp add: apply_env_overrides_def fallback_steering_def fallback_llm_def fallback_text_def fallback_number_def fallback_prompt_def file_has_def)

lemma file_keys_win_witness:
  "ad_model (apply_env_overrides (\<lambda>_. Some ''x'')
     (Some [''provider'', ''model'', ''max_turns'', ''max_tokens'', ''preamble'', ''steering'']) agent_default) = ''gpt-5.2-codex''"
  by (subst file_keys_win) (simp_all add: override_hierarchy_def agent_default_def)

text \<open>C0: the environment cannot switch the inherited workspace off again.\<close>

theorem inherit_cannot_be_cleared:
  "ad_inherit_workspace (apply_env_overrides (env(''THAT_AGENT_INHERIT_WORKSPACE'' \<mapsto> ''false'')) raw a) = ad_inherit_workspace a"
proof -
  have f: "\<not> truthy_var ''false''" by code_simp
  have s: "ad_inherit_workspace (fallback_steering e raw x) = ad_inherit_workspace x" for e x
    by (simp add: fallback_steering_def split: option.split)
  show ?thesis by (simp add: apply_env_overrides_def s override_hierarchy_def fallback_llm_def override_inherit_def f)
qed

section \<open>The catalogue\<close>

text \<open>C0: the normal form of a model name is a normal form.\<close>

theorem normalize_model_idempotent:
  "normalize_model (normalize_model m) = normalize_model m"
proof -
  have known: "normalize_model x = x" if "x \<in> set (map snd model_options)" for x
  proof -
    have "\<forall>y\<in>set (map snd model_options). normalize_model y = y" by code_simp
    with that show ?thesis by blast
  qed
  have aliases: "\<forall>y\<in>set [''claude-opus-4-6'', ''claude-sonnet-4-6'', ''claude-haiku-4-5'']. y \<in> set (map snd model_options)"
    by code_simp
  have cases: "normalize_model m \<in> set (map snd model_options)
    \<or> normalize_model m \<in> set [''claude-opus-4-6'', ''claude-sonnet-4-6'', ''claude-haiku-4-5'']
    \<or> normalize_model m = trim m"
    unfolding normalize_model_def Let_def by (simp only: list.set insert_iff split: if_split) blast
  have "normalize_model (trim m) = normalize_model m" by (simp add: normalize_model_def)
  then show ?thesis
    using cases known aliases by metis
qed

lemma available_normal:
  assumes "\<forall>x\<in>set (load_registered_providers (me_providers e) (me_file e)). normalize_provider_id (pe_id x) = Some (pe_id x)"
    and "p \<in> set (available_providers e)"
  shows "normalize_provider e p = Some p"
proof -
  have builtin: "normalize_provider e q = Some q" if "q \<in> set provider_order" for q
  proof -
    have "\<forall>q\<in>set provider_order. to_ascii_lower (trim q) = q" by code_simp
    with that show ?thesis by (simp add: normalize_provider_def Let_def)
  qed
  from assms(2) consider "p \<in> set provider_order"
    | x where "x \<in> set (load_registered_providers (me_providers e) (me_file e))" "p = pe_id x" "provider_is_available e p"
    by (auto simp: available_providers_def)
  then show ?thesis
  proof cases
    case 1
    then show ?thesis by (rule builtin)
  next
    case 2
    then have "normalize_provider_id p = Some p" using assms(1) by simp
    then have "to_ascii_lower (trim p) = p" by (auto simp: normalize_provider_id_def Let_def split: if_splits)
    moreover have "normalize_provider e p \<noteq> None" using 2(3) by (auto simp: provider_is_available_def split: option.splits)
    ultimately show ?thesis using \<open>normalize_provider_id p = Some p\<close> by (auto simp: normalize_provider_def Let_def split: if_splits)
  qed
qed

text \<open>C0: every provider that is offered is its own normal form, so choosing it from a menu is understood, provided
  the registry holds normalised ids.\<close>

theorem offered_providers_are_normal:
  assumes "\<forall>x\<in>set (load_registered_providers (me_providers e) (me_file e)). normalize_provider_id (pe_id x) = Some (pe_id x)"
    and "p \<in> set (available_providers e)"
  shows "normalize_provider e p = Some p"
  using assms by (rule available_normal)

definition demo_model_env :: "provider_entry list \<Rightarrow> model_env" where
  "demo_model_env es =
     \<lparr>me_providers = \<lparr>print_providers = (\<lambda>_. []), parse_providers = (\<lambda>_. Some es), providers_write_error = None\<rparr>,
      me_file = Some (Some []), me_env = (\<lambda>_. Some ''key''), me_anthropic = False\<rparr>"

lemma offered_providers_are_normal_witness:
  "normalize_provider (demo_model_env [demo_provider ''groq'']) ''groq'' = Some ''groq''"
  by (rule offered_providers_are_normal; code_simp)

text \<open>C0: a provider may be registered under a built-in name; it is then offered twice, and its models are never
  suggested.\<close>

theorem builtin_name_registered:
  "ok (checked_entry (demo_provider ''openai''))
   \<and> available_providers (demo_model_env [(demo_provider ''openai'')\<lparr>pe_models := [''local'']\<rparr>]) = [''openai'', ''openrouter'', ''openai'']
   \<and> suggested_models (demo_model_env [(demo_provider ''openai'')\<lparr>pe_models := [''local'']\<rparr>]) ''openai''
       = [''gpt-5.2-codex'', ''gpt-5.1-codex-mini'']"
  by code_simp

end
