(* ===== verification/Channel_Commands.thy ===== *)
theory Channel_Commands
  imports Discovery Agent_Config Session TaskRegistry
begin

text \<open>
  The helpers of the listen loop (\<open>orchestration/channel_mode.rs\<close>): notifications of workers and the git
  server, the keys of senders, the runs that \<open>/stop\<close> cancels, and the model of a conversation with the menus
  of \<open>/models\<close>.

  The mutexes serialise the operations, which are functions on the state they guard.  A run that is
  active is its key, number and the hints queued for it; aborting it adds its number to a list.  The
  printer of TOML and the text of a path are parameters.
\<close>

section \<open>Notifications\<close>

definition is_zero_git_oid :: "string \<Rightarrow> bool" where
  "is_zero_git_oid oid \<longleftrightarrow> oid \<noteq> [] \<and> list_all (\<lambda>c. c = CHR ''0'') oid"

definition heartbeat_sender_key :: "string \<Rightarrow> string option \<Rightarrow> string \<Rightarrow> string" where
  "heartbeat_sender_key channel conversation sender =
     ''heartbeat:'' @ channel @ '':'' @ (case conversation of Some c \<Rightarrow> c | None \<Rightarrow> []) @ '':'' @ sender"

definition sender_key :: "string \<Rightarrow> string option \<Rightarrow> string \<Rightarrow> string" where
  "sender_key channel conversation sender =
     channel @ '':'' @ (case conversation of Some c \<Rightarrow> c | None \<Rightarrow> []) @ '':'' @ sender"

definition should_queue_notification :: "string \<Rightarrow> json option \<Rightarrow> bool" where
  "should_queue_notification s0 meta =
     (case Option.bind meta (member_str ''task_state'') of
        Some st \<Rightarrow> st \<in> set [''completed'', ''failed'', ''canceled'', ''input_required'']
      | None \<Rightarrow>
          (case Option.bind meta (member_str ''event'') of
             Some ev \<Rightarrow> ev = ''merge_conflict''
           | None \<Rightarrow>
               (let s = trim s0 in
                \<not> (prefix ''['' s \<and> contains_sub '' turn '' s \<and> contains_sub ''/'' s \<and> suffix '')'' s \<and> contains_sub '' ('' s))))"

record notify_event =
  ne_kind :: string
  ne_actor :: string
  ne_note :: string
  ne_agents :: "string list"
  ne_task_id :: "string option"

definition branch_task_id :: "string \<Rightarrow> string option" where
  "branch_task_id branch =
     (case split_char (CHR ''/'') branch of
        [a, w, t] \<Rightarrow> if a = ''task'' \<and> trim t \<noteq> [] then Some t else None
      | _ \<Rightarrow> None)"

definition or_text :: "string \<Rightarrow> string option \<Rightarrow> string" where
  "or_text d v = (case v of Some s \<Rightarrow> s | None \<Rightarrow> d)"

definition notify_kind :: "string \<Rightarrow> json \<Rightarrow> string option" where
  "notify_kind event meta =
     (if event = ''push''
      then Some (case member_str ''commit'' meta of Some c \<Rightarrow> if is_zero_git_oid c then ''branch_deleted'' else ''commit''
                 | None \<Rightarrow> ''commit'')
      else if event = ''auto_merge'' then Some ''auto_merge''
      else if event = ''merge_conflict'' then Some ''merge_conflict'' else None)"

definition notify_note :: "string \<Rightarrow> json \<Rightarrow> string" where
  "notify_note event meta =
     (let repo = or_text ''workspace'' (member_str ''repo'' meta); branch = or_text [] (member_str ''branch'' meta);
          commit = or_text [] (member_str ''commit'' meta) in
      if event = ''push'' \<and> is_zero_git_oid commit
      then ''Git branch deletion visible to parent: repo='' @ repo @ '', branch='' @ branch
      else if event = ''push''
      then ''Git activity visible to parent: repo='' @ repo @ '', branch='' @ branch @ '', commit='' @ commit
      else if event = ''auto_merge''
      then ''Git auto-merge visible to parent: repo='' @ repo @ '', branch='' @ branch @ '', commit='' @ commit
      else ''Git merge conflict visible to parent: repo='' @ repo @ '', branch='' @ branch @ '', files=''
        @ (case json_member ''conflicting_files'' meta of
             Some (JArr fs) \<Rightarrow> join '', '' (List.map_filter json_str fs) | _ \<Rightarrow> []))"

definition notify_agents :: "string \<Rightarrow> string \<Rightarrow> string list" where
  "notify_agents actor branch =
     remdups_adj (sort
       ((case strip_prefix ''git-server/'' actor of Some n \<Rightarrow> [n] | None \<Rightarrow> [])
        @ (case strip_prefix ''task/'' branch of Some r \<Rightarrow> [hd (split_char (CHR ''/'') r)] | None \<Rightarrow> [])))"

definition notify_scratchpad_event :: "json \<Rightarrow> notify_event option" where
  "notify_scratchpad_event meta =
     Option.bind (member_str ''event'' meta) (\<lambda>event.
     Option.bind (notify_kind event meta) (\<lambda>kind.
       let actor = or_text ''git-server'' (member_str ''agent'' meta); branch = or_text [] (member_str ''branch'' meta);
           agents = notify_agents actor branch in
       if agents = [] then None
       else Some \<lparr>ne_kind = kind, ne_actor = actor, ne_note = notify_note event meta, ne_agents = agents,
         ne_task_id = (case member_str ''task_id'' meta of
             Some t \<Rightarrow> if trim t \<noteq> [] then Some t else branch_task_id branch
           | None \<Rightarrow> branch_task_id branch)\<rparr>))"

definition mirror_notify_event_to_registry :: "'v codec \<Rightarrow> string \<Rightarrow> json \<Rightarrow> task_files \<Rightarrow> task_files" where
  "mirror_notify_event_to_registry c now meta fs =
     (case notify_scratchpad_event meta of
        None \<Rightarrow> fs
      | Some ev \<Rightarrow>
          (let append = (\<lambda>i. fst (scratchpad_append_kind c now i (ne_actor ev) (ne_note ev) (Some (ne_kind ev)) fs)) in
           case ne_task_id ev of
             Some i \<Rightarrow> append i
           | None \<Rightarrow>
               (case list_active c fs of
                  Inl _ \<Rightarrow> fs
                | Inr tasks \<Rightarrow>
                    (case filter (\<lambda>t. task_agent t \<in> set (ne_agents ev)) tasks of
                       [t] \<Rightarrow> append (task_id t) | _ \<Rightarrow> fs))))"

section \<open>Active runs\<close>

record active_run =
  ar_run_id :: nat
  ar_steering :: "string list"

type_synonym active_runs = "(string \<times> active_run) list"

definition insert_run :: "string \<Rightarrow> active_run \<Rightarrow> active_runs \<Rightarrow> active_runs" where
  "insert_run k r runs = (k, r) # filter (\<lambda>x. fst x \<noteq> k) runs"

definition remove_run :: "active_runs \<Rightarrow> string \<Rightarrow> active_runs" where
  "remove_run runs k = filter (\<lambda>x. fst x \<noteq> k) runs"

text \<open>The end of a run removes its entry only when it is still its own.\<close>

definition finish_run :: "string \<Rightarrow> nat \<Rightarrow> active_runs \<Rightarrow> active_runs" where
  "finish_run k n runs =
     (case map_of runs k of Some r \<Rightarrow> if ar_run_id r = n then remove_run runs k else runs | None \<Rightarrow> runs)"

definition stop_matching_runs :: "(string \<Rightarrow> bool) \<Rightarrow> active_runs \<Rightarrow> nat \<times> nat list \<times> active_runs" where
  "stop_matching_runs matches runs =
     (let ks = filter matches (map fst runs) in
      (length ks, map (ar_run_id \<circ> snd) (filter (matches \<circ> fst) runs), filter (\<lambda>x. \<not> matches (fst x)) runs))"

definition stop_scope :: "string \<Rightarrow> string option \<Rightarrow> string \<Rightarrow> string \<Rightarrow> string \<Rightarrow> bool" where
  "stop_scope channel conversation sender key k \<longleftrightarrow>
     k = key \<or> k = heartbeat_sender_key channel conversation sender \<or> k = ''heartbeat:system''"

definition stop_run_scope :: "string \<Rightarrow> string option \<Rightarrow> string \<Rightarrow> string \<Rightarrow> active_runs \<Rightarrow> nat \<times> nat list \<times> active_runs" where
  "stop_run_scope channel conversation sender key runs = stop_matching_runs (stop_scope channel conversation sender key) runs"

record run_state =
  rn_runs :: active_runs
  rn_aborted :: "nat list"
  rn_notifications :: "string list"
  rn_child_cleanups :: nat

definition stop_run_scope_and_cleanup ::
  "bool \<Rightarrow> string \<Rightarrow> string option \<Rightarrow> string \<Rightarrow> string \<Rightarrow> run_state \<Rightarrow> bool \<times> run_state" where
  "stop_run_scope_and_cleanup k8s channel conversation sender key st =
     (let (n, aborted, runs) = stop_run_scope channel conversation sender key (rn_runs st);
          st1 = st\<lparr>rn_runs := runs, rn_aborted := rn_aborted st @ aborted\<rparr> in
      if n > 0
      then (True, st1\<lparr>rn_notifications := [], rn_child_cleanups := rn_child_cleanups st + (if k8s then 1 else 0)\<rparr>)
      else (False, st1))"

text \<open>The lock of a sender goes away when nobody else holds it and the map still has this one.\<close>

definition evict_sender_lock_if_idle :: "string \<Rightarrow> nat \<Rightarrow> nat \<Rightarrow> nat \<Rightarrow> (string \<rightharpoonup> nat) \<Rightarrow> (string \<rightharpoonup> nat)" where
  "evict_sender_lock_if_idle key lock count1 count2 locks =
     (if count1 > 1 \<or> count2 > 1 then locks
      else if locks key = Some lock then locks(key := None) else locks)"

section \<open>The model of a conversation\<close>

definition apply_channel_preferences :: "agent_def \<Rightarrow> channel_preferences \<Rightarrow> agent_def" where
  "apply_channel_preferences a p =
     (case (cp_provider p, cp_model p) of
        (Some provider, Some model) \<Rightarrow> a\<lparr>ad_provider := provider, ad_model := model\<rparr> | _ \<Rightarrow> a)"

definition active_provider :: "agent_def \<Rightarrow> channel_preferences \<Rightarrow> string" where
  "active_provider a p = or_text (ad_provider a) (cp_provider p)"

definition active_model :: "agent_def \<Rightarrow> channel_preferences \<Rightarrow> string" where
  "active_model a p = or_text (ad_model a) (cp_model p)"

definition channel_model_status :: "agent_def \<Rightarrow> channel_preferences \<Rightarrow> string" where
  "channel_model_status a p =
     ''Current model for this conversation: '' @ active_provider a p @ '' / '' @ active_model a p @ '' (''
     @ (if is_default p then ''agent default'' else ''channel override'') @ '').''"

definition channel_config_slug :: "string \<Rightarrow> string" where
  "channel_config_slug key =
     (let slug = concat (map (\<lambda>x. case x of
         [c] \<Rightarrow> if is_ascii_alnum c \<or> c = CHR ''-'' \<or> c = under then [c] else [under]
       | _ \<Rightarrow> [under]) (chars key))
      in if slug = [] then ''default'' else slug)"

record models_env =
  md_router :: router
  md_adapters :: adapters
  md_codec :: session_codec
  md_models :: model_env
  md_home :: "fs_path option"
  md_cwd :: location
  md_agent_text :: "agent_def \<Rightarrow> string option"
  md_shown :: "fs_path \<Rightarrow> string"

definition effective_channel_config_host_path :: "models_env \<Rightarrow> string \<Rightarrow> string \<Rightarrow> fs_path option" where
  "effective_channel_config_host_path e agent key =
     map_option (\<lambda>h. path_join (path_join (path_join (path_join (path_join h ''.that-agent'') ''state'') ''channel-configs'') agent)
       (channel_config_slug key @ ''.toml'')) (md_home e)"

definition effective_channel_config_visible_path :: "models_env \<Rightarrow> string \<Rightarrow> string \<Rightarrow> bool \<Rightarrow> string option" where
  "effective_channel_config_visible_path e agent key sandbox =
     (if sandbox
      then Some (''/home/agent/.that-agent/state/channel-configs/'' @ agent @ ''/'' @ channel_config_slug key @ ''.toml'')
      else map_option (md_shown e) (effective_channel_config_host_path e agent key))"

definition persist_effective_channel_config ::
  "models_env \<Rightarrow> agent_def \<Rightarrow> string \<Rightarrow> bool \<Rightarrow> fs_tree \<Rightarrow> string option \<times> fs_tree" where
  "persist_effective_channel_config e a key sandbox fs =
     (case effective_channel_config_host_path e (ad_name a) key of
        None \<Rightarrow> (None, fs)
      | Some p \<Rightarrow>
          (case path_parent p of
             None \<Rightarrow> (None, fs)
           | Some d \<Rightarrow>
               (case create_dir_all d (md_cwd e) fs of
                  (Inl _, fs1) \<Rightarrow> (None, fs1)
                | (Inr _, fs1) \<Rightarrow>
                    (case md_agent_text e a of
                       None \<Rightarrow> (None, fs1)
                     | Some s \<Rightarrow>
                         (case File_System.write_file p s (md_cwd e) fs1 of
                            (Inl _, fs2) \<Rightarrow> (None, fs2)
                          | (Inr _, fs2) \<Rightarrow> (effective_channel_config_visible_path e (ad_name a) key sandbox, fs2))))))"

definition remove_effective_channel_config :: "models_env \<Rightarrow> string \<Rightarrow> string \<Rightarrow> fs_tree \<Rightarrow> fs_tree" where
  "remove_effective_channel_config e agent key fs =
     (case effective_channel_config_host_path e agent key of
        None \<Rightarrow> fs
      | Some p \<Rightarrow>
          (case lookup_entry fs (md_cwd e) p of Inl _ \<Rightarrow> fs | Inr l \<Rightarrow> snd (remove_file l fs)))"

section \<open>Menus\<close>

definition menu_mark :: "bool \<Rightarrow> string" where
  "menu_mark b = (if b then [CHR 0xE2, CHR 0x9C, CHR 0x93] else [CHR 0xE2, CHR 0x80, CHR 0xA2])"

definition provider_menu_text :: "agent_def \<Rightarrow> channel_preferences \<Rightarrow> string list \<Rightarrow> string" where
  "provider_menu_text a p providers =
     channel_model_status a p @ [newline, newline] @ ''Available providers:'' @ [newline]
     @ concat (map (\<lambda>x. menu_mark (x = active_provider a p) @ '' '' @ x @ [newline]) providers)
     @ [newline] @ ''Use /models <provider> to see suggested models, or /models reset to go back to the agent default.''"

definition model_menu_text :: "model_env \<Rightarrow> agent_def \<Rightarrow> channel_preferences \<Rightarrow> string \<Rightarrow> string" where
  "model_menu_text me a p provider =
     channel_model_status a p @ [newline, newline] @ ''Suggested models for '' @ provider @ '':'' @ [newline]
     @ concat (map (\<lambda>m. menu_mark (provider = active_provider a p \<and> m = active_model a p) @ '' '' @ m @ [newline])
         (suggested_models me provider))
     @ [newline] @ ''Use /models <provider> <model> to set a custom model.''"

fun pairs_of :: "'a list \<Rightarrow> 'a list list" where
  "pairs_of [] = []"
| "pairs_of [x] = [[x]]"
| "pairs_of (x # y # xs) = [x, y] # pairs_of xs"

definition checked_text :: "bool \<Rightarrow> string \<Rightarrow> string" where
  "checked_text b s = (if b then [CHR 0xE2, CHR 0x9C, CHR 0x93] @ '' '' @ s else s)"

definition provider_button :: "agent_def \<Rightarrow> channel_preferences \<Rightarrow> string \<Rightarrow> inline_button" where
  "provider_button a p x =
     \<lparr>ib_text = checked_text (x = active_provider a p) x, ib_callback_data = ''/models '' @ x\<rparr>"

definition provider_menu_markup :: "agent_def \<Rightarrow> channel_preferences \<Rightarrow> string list \<Rightarrow> reply_markup option" where
  "provider_menu_markup a p providers =
     (if providers = [] then None
      else Some (InlineKeyboard (pairs_of (map (provider_button a p) providers)
        @ (if is_default p then [] else [[\<lparr>ib_text = ''Reset to default'', ib_callback_data = ''/models reset''\<rparr>]]))))"

definition model_button :: "agent_def \<Rightarrow> channel_preferences \<Rightarrow> string \<Rightarrow> string \<Rightarrow> inline_button" where
  "model_button a p provider m =
     \<lparr>ib_text = checked_text (provider = active_provider a p \<and> m = active_model a p) m,
      ib_callback_data = ''/models '' @ provider @ '' '' @ m\<rparr>"

definition model_menu_markup :: "model_env \<Rightarrow> agent_def \<Rightarrow> channel_preferences \<Rightarrow> string \<Rightarrow> reply_markup option" where
  "model_menu_markup me a p provider =
     (let models = suggested_models me provider in
      if models = [] then None
      else Some (InlineKeyboard (pairs_of (map (model_button a p provider) models)
        @ [[\<lparr>ib_text = [CHR 0xE2, CHR 0x9C, CHR 0x8F, CHR 0xEF, CHR 0xB8, CHR 0x8F] @ '' Custom'', ib_callback_data = ''/models '' @ provider @ '' __custom__''\<rparr>,
            \<lparr>ib_text = ''Back'', ib_callback_data = ''/models''\<rparr>]])))"

definition send_channel_menu ::
  "models_env \<Rightarrow> string \<Rightarrow> outbound_target \<Rightarrow> string \<Rightarrow> reply_markup option \<Rightarrow> call_log \<Rightarrow> call_log" where
  "send_channel_menu e channel target s markup log =
     (let notify = notify_channel (md_router e) channel s (Some target) in
      case markup of
        None \<Rightarrow> notify log
      | Some m \<Rightarrow>
          (case send_message (md_adapters e) (md_router e) channel
              \<lparr>om_text = s, om_parse_mode = Some Plain, om_reply_markup = Some m, om_reply_to_message_id = ot_reply_to_message_id target\<rparr>
              (Some target) log of
             (Inr _, log1) \<Rightarrow> log1
           | (Inl _, log1) \<Rightarrow> notify log1))"

section \<open>The models command\<close>

record models_state =
  ms_prefs :: "string \<rightharpoonup> channel_preferences"
  ms_dir :: state_dir
  ms_fs :: fs_tree
  ms_log :: call_log

record models_request =
  mq_key :: string
  mq_channel :: string
  mq_target :: outbound_target
  mq_agent :: agent_def
  mq_prefs :: channel_preferences
  mq_sandbox :: bool

definition say :: "models_env \<Rightarrow> models_request \<Rightarrow> string \<Rightarrow> models_state \<Rightarrow> models_state" where
  "say e q s st = st\<lparr>ms_log := notify_channel (md_router e) (mq_channel q) s (Some (mq_target q)) (ms_log st)\<rparr>"

definition show_menu :: "models_env \<Rightarrow> models_request \<Rightarrow> string \<Rightarrow> reply_markup option \<Rightarrow> models_state \<Rightarrow> models_state" where
  "show_menu e q s m st = st\<lparr>ms_log := send_channel_menu e (mq_channel q) (mq_target q) s m (ms_log st)\<rparr>"

definition reset_model :: "models_env \<Rightarrow> models_request \<Rightarrow> models_state \<Rightarrow> models_state" where
  "reset_model e q st =
     say e q (''Model reset. This conversation now uses the agent default: '' @ ad_provider (mq_agent q) @ '' / '' @ ad_model (mq_agent q) @ ''.'')
       (st\<lparr>ms_prefs := (ms_prefs st)(mq_key q := None),
           ms_dir := save_channel_preferences (md_codec e) (mq_key q) \<lparr>cp_provider = None, cp_model = None\<rparr> (ms_dir st),
           ms_fs := remove_effective_channel_config e (ad_name (mq_agent q)) (mq_key q) (ms_fs st)\<rparr>)"

definition choose_model :: "models_env \<Rightarrow> models_request \<Rightarrow> string \<Rightarrow> string \<Rightarrow> models_state \<Rightarrow> models_state" where
  "choose_model e q provider model st =
     (let prefs = \<lparr>cp_provider = Some provider, cp_model = Some model\<rparr>;
          (shown, fs1) = persist_effective_channel_config e (apply_channel_preferences (mq_agent q) prefs) (mq_key q)
            (mq_sandbox q) (ms_fs st)
      in say e q (''Model for this conversation set to '' @ provider @ '' / '' @ model @ ''. New runs will use it.''
             @ (case shown of Some p \<Rightarrow> '' Effective runtime config: '' @ p | None \<Rightarrow> []))
           (st\<lparr>ms_prefs := (ms_prefs st)(mq_key q \<mapsto> prefs),
               ms_dir := save_channel_preferences (md_codec e) (mq_key q) prefs (ms_dir st), ms_fs := fs1\<rparr>))"

definition ask_custom_model :: "models_env \<Rightarrow> models_request \<Rightarrow> string \<Rightarrow> models_state \<Rightarrow> models_state" where
  "ask_custom_model e q provider st =
     st\<lparr>ms_log := snd (send_message (md_adapters e) (md_router e) (mq_channel q)
         \<lparr>om_text = ''Type the model ID for '' @ provider @ '':'', om_parse_mode = Some Plain,
          om_reply_markup = Some (ForceReply (Some (''/models '' @ provider @ '' model-id''))),
          om_reply_to_message_id = ot_reply_to_message_id (mq_target q)\<rparr> (Some (mq_target q)) (ms_log st))\<rparr>"

definition with_provider ::
  "models_env \<Rightarrow> models_request \<Rightarrow> string \<Rightarrow> (string \<Rightarrow> models_state \<Rightarrow> models_state) \<Rightarrow> models_state \<Rightarrow> models_state" where
  "with_provider e q p f st =
     (case normalize_provider (md_models e) p of
        None \<Rightarrow> say e q ''Unknown provider. Use /models to pick from the configured providers.'' st
      | Some provider \<Rightarrow>
          if provider \<notin> set (available_providers (md_models e))
          then say e q (''Provider '' @ quoted provider @ '' is not configured on this agent.'') st
          else f provider st)"

definition handle_models_command :: "models_env \<Rightarrow> models_request \<Rightarrow> string \<Rightarrow> models_state \<Rightarrow> models_state" where
  "handle_models_command e q args st =
     (let providers = available_providers (md_models e); a = mq_agent q; p = mq_prefs q in
      if providers = []
      then say e q ''No provider API keys are configured. Set an API key first, then try /models again.'' st
      else case split_whitespace args of
        [] \<Rightarrow> show_menu e q (provider_menu_text a p providers) (provider_menu_markup a p providers) st
      | [x] \<Rightarrow>
          if x = ''reset'' then reset_model e q st
          else with_provider e q x (\<lambda>provider.
            show_menu e q (model_menu_text (md_models e) a p provider) (model_menu_markup (md_models e) a p provider)) st
      | x # model_parts \<Rightarrow>
          with_provider e q x (\<lambda>provider.
            let model = trim (join '' '' model_parts) in
            if model = [] then say e q ''Model name is required. Use /models <provider> first to see suggestions.''
            else if model = ''__custom__'' then ask_custom_model e q provider
            else choose_model e q provider model) st)"

end
