(* ===== verification/Channel_Commands_Props.thy ===== *)
theory Channel_Commands_Props
  imports Channel_Commands Session_Props Git_Server Http_Gateway
begin

text \<open>
  What the helpers of the listen loop guarantee: buttons of a menu do what they say, a commit pushed for a
  task is recorded with the task, \<open>/stop\<close> reaches the runs of its sender, and the keys of senders are
  distinct where the parts have no colon.
\<close>

section \<open>White space\<close>

lemma split_ws_graphic:
  "list_all graphic s \<Longrightarrow> split_ws_aux acc (s @ rest) = split_ws_aux (acc @ s) rest"
proof (induction s arbitrary: acc)
  case (Cons c s)
  then have "space_at (c # s @ rest) = None" by (simp add: graphic_space_at)
  with Cons show ?case by (simp add: split_ws_aux.simps [of acc "c # s @ rest"])
qed simp

lemma split_ws_end: "split_ws_aux acc [] = (if acc = [] then [] else [acc])"
  by (simp add: split_ws_aux.simps)

lemma split_ws_blank: "split_ws_aux acc (CHR '' '' # s) = (if acc = [] then [] else [acc]) @ split_ws_aux [] s"
  by (simp add: split_ws_aux.simps [of acc "CHR '' '' # s"] space_at_ascii)

lemma split_ws_one: "list_all graphic s \<Longrightarrow> s \<noteq> [] \<Longrightarrow> split_whitespace s = [s]"
  using split_ws_graphic [of s "[]" "[]"] by (simp add: split_whitespace_def split_ws_end)

lemma split_ws_two:
  "list_all graphic s \<Longrightarrow> s \<noteq> [] \<Longrightarrow> list_all graphic t \<Longrightarrow> t \<noteq> [] \<Longrightarrow> split_whitespace (s @ '' '' @ t) = [s, t]"
  using split_ws_graphic [of s "[]" "CHR '' '' # t"] split_ws_graphic [of t "[]" "[]"]
  by (simp add: split_whitespace_def split_ws_end split_ws_blank)

lemma trim_graphics: "list_all graphic s \<Longrightarrow> trim s = s"
  by (cases "s = []") (auto intro!: trim_graphic simp: list_all_iff)

section \<open>Buttons\<close>

definition ids_normal :: "model_env \<Rightarrow> bool" where
  "ids_normal e \<longleftrightarrow> (\<forall>x\<in>set (load_registered_providers (me_providers e) (me_file e)). normalize_provider_id (pe_id x) = Some (pe_id x))"

lemma id_char_graphic: "id_char c \<Longrightarrow> graphic c"
  by (auto simp: id_char_def graphic_def is_lower_def is_digit_def Let_def)

lemma offered:
  assumes "ids_normal e" "p \<in> set (available_providers e)"
  shows "normalize_provider e p = Some p" "list_all graphic p" "p \<noteq> []"
proof -
  show n: "normalize_provider e p = Some p"
    using assms unfolding ids_normal_def by (rule available_normal)
  have "list_all graphic p \<and> p \<noteq> []"
  proof (cases "p \<in> set provider_order")
    case True
    have "\<forall>q\<in>set provider_order. list_all graphic q \<and> q \<noteq> []" by code_simp
    with True show ?thesis by blast
  next
    case False
    with n have "normalize_provider_id p = Some p" by (auto simp: normalize_provider_def Let_def split: if_splits option.splits)
    then have "list_all id_char p \<and> p \<noteq> []" by (auto simp: normalize_provider_id_def Let_def split: if_splits)
    then show ?thesis using id_char_graphic by (auto simp: list_all_iff)
  qed
  then show "list_all graphic p" "p \<noteq> []" by blast+
qed

lemma models_args:
  assumes "args \<noteq> []" "graphic (hd args)" "graphic (last args)"
  shows "parse_slash_command (''/models '' @ args) = Some (''models'', args)"
proof -
  have "list_all command_char ''models''" by code_simp
  from parse_slash_plain [OF this, of "[]" args] assms show ?thesis by simp
qed

lemma some_provider: "p \<in> set (available_providers e) \<Longrightarrow> available_providers e \<noteq> []"
  by auto

text \<open>C0: pressing the button of a provider that is offered shows the models of that provider.\<close>

theorem provider_button_shows_models:
  assumes "ids_normal (md_models e)" "p \<in> set (available_providers (md_models e))" "p \<noteq> ''reset''"
  shows "\<exists>args. parse_slash_command (ib_callback_data (provider_button a prefs p)) = Some (''models'', args)
    \<and> handle_models_command e q args st
      = show_menu e q (model_menu_text (md_models e) (mq_agent q) (mq_prefs q) p)
          (model_menu_markup (md_models e) (mq_agent q) (mq_prefs q) p) st"
proof (rule exI [of _ p], rule conjI)
  note o = offered [OF assms(1,2)]
  show "parse_slash_command (ib_callback_data (provider_button a prefs p)) = Some (''models'', p)"
    unfolding provider_button_def inline_button.simps
    by (rule models_args) (use o in \<open>simp_all add: list_all_iff\<close>)
  show "handle_models_command e q p st = show_menu e q (model_menu_text (md_models e) (mq_agent q) (mq_prefs q) p)
      (model_menu_markup (md_models e) (mq_agent q) (mq_prefs q) p) st"
    using assms(2,3) o split_ws_one [OF o(2,3)] some_provider [OF assms(2)]
    by (simp add: handle_models_command_def with_provider_def Let_def)
qed

text \<open>C0: pressing the button of a model makes it the model of the conversation, in memory and in the index, and a run
  then uses that provider and model.\<close>

theorem model_button_sets_model:
  assumes "ids_normal (md_models e)" "p \<in> set (available_providers (md_models e))"
    and "list_all graphic m" "m \<noteq> []" "m \<noteq> ''__custom__''"
  shows "\<exists>args chosen. parse_slash_command (ib_callback_data (model_button a prefs p m)) = Some (''models'', args)
    \<and> ms_prefs (handle_models_command e q args st) = (ms_prefs st)(mq_key q \<mapsto> chosen)
    \<and> ms_dir (handle_models_command e q args st) = save_channel_preferences (md_codec e) (mq_key q) chosen (ms_dir st)
    \<and> apply_channel_preferences b chosen = b\<lparr>ad_provider := p, ad_model := m\<rparr>"
proof (intro exI conjI)
  note o = offered [OF assms(1,2)]
  let ?args = "p @ '' '' @ m" and ?chosen = "\<lparr>cp_provider = Some p, cp_model = Some m\<rparr>"
  show "parse_slash_command (ib_callback_data (model_button a prefs p m)) = Some (''models'', ?args)"
    unfolding model_button_def inline_button.simps
    by (rule models_args) (use o assms(3,4) in \<open>simp_all add: list_all_iff\<close>)
  have h: "handle_models_command e q ?args st = choose_model e q p m st"
  proof -
    have "split_whitespace ?args = [p, m]" using o(2,3) assms(3,4) by (rule split_ws_two)
    then show ?thesis using assms(2,4,5) o(1) some_provider [OF assms(2)] trim_graphics [OF assms(3)]
      by (simp add: handle_models_command_def with_provider_def Let_def)
  qed
  show "ms_prefs (handle_models_command e q ?args st) = (ms_prefs st)(mq_key q \<mapsto> ?chosen)"
    "ms_dir (handle_models_command e q ?args st) = save_channel_preferences (md_codec e) (mq_key q) ?chosen (ms_dir st)"
    unfolding h by (simp_all add: choose_model_def say_def Let_def case_prod_beta)
  show "apply_channel_preferences b ?chosen = b\<lparr>ad_provider := p, ad_model := m\<rparr>"
    by (simp add: apply_channel_preferences_def)
qed

text \<open>C0: a provider may be registered under the name \<open>reset\<close>; its button resets the model instead of showing
  its models.\<close>

theorem provider_called_reset:
  "let m = demo_model_env [demo_provider ''reset''] in
     ok (checked_entry (demo_provider ''reset'')) \<and> ''reset'' \<in> set (available_providers m)
     \<and> handle_models_command (e\<lparr>md_models := m\<rparr>) q ''reset'' st = reset_model (e\<lparr>md_models := m\<rparr>) q st"
proof -
  have "available_providers (demo_model_env [demo_provider ''reset'']) = [''openai'', ''openrouter'', ''reset'']" by code_simp
  moreover have "split_whitespace ''reset'' = [''reset'']" by code_simp
  moreover have "ok (checked_entry (demo_provider ''reset''))" by code_simp
  ultimately show ?thesis by (simp add: Let_def handle_models_command_def)
qed

section \<open>Keys\<close>

text \<open>C0: the senders of a channel have distinct keys when no part of them has a colon.\<close>

theorem sender_keys_distinct:
  assumes "sender_key c (Some v) s = sender_key c' (Some v') s'"
    and "CHR '':'' \<notin> set (c @ v @ s @ c' @ v' @ s')"
  shows "c = c' \<and> v = v' \<and> s = s'"
proof -
  have parts: "split_char (CHR '':'') (sender_key a (Some b) d) = [a, b, d]" if "CHR '':'' \<notin> set a" "CHR '':'' \<notin> set b" "CHR '':'' \<notin> set d" for a b d
  proof -
    have "sender_key a (Some b) d = a @ CHR '':'' # (b @ CHR '':'' # d)" by (simp add: sender_key_def)
    also have "split_char (CHR '':'') \<dots> = a # split_char (CHR '':'') (b @ CHR '':'' # d)" using that(1) by (rule split_char_append)
    also have "split_char (CHR '':'') (b @ CHR '':'' # d) = b # split_char (CHR '':'') d" using that(2) by (rule split_char_append)
    finally show ?thesis using that(3) by (simp add: split_char_none)
  qed
  have e: "split_char (CHR '':'') (sender_key c (Some v) s) = split_char (CHR '':'') (sender_key c' (Some v') s')"
    using assms(1) by (rule arg_cong)
  have "[c, v, s] = split_char (CHR '':'') (sender_key c (Some v) s)"
    by (rule parts [symmetric]) (use assms(2) in auto)
  also note e
  also have "split_char (CHR '':'') (sender_key c' (Some v') s') = [c', v', s']" by (rule parts) (use assms(2) in auto)
  finally show ?thesis by simp
qed

lemma sender_keys_distinct_witness: "sender_key ''http'' (Some ''a'') ''b'' \<noteq> sender_key ''http'' (Some ''ab'') ''b''"
  using sender_keys_distinct [of "''http''" "''a''" "''b''" "''http''" "''ab''" "''b''"] by auto

text \<open>C0: two senders whose conversations have a colon can share one key, hence one conversation; two keys that differ
  can share one configuration file.\<close>

theorem sender_keys_collide:
  "sender_key ''http'' (Some ''a:b'') ''c'' = sender_key ''http'' (Some ''a'') ''b:c''
   \<and> sender_key ''http'' (Some ''a_b'') ''c'' \<noteq> sender_key ''http'' (Some ''a'') ''b_c''
   \<and> channel_config_slug (sender_key ''http'' (Some ''a_b'') ''c'') = channel_config_slug (sender_key ''http'' (Some ''a'') ''b_c'')"
  by code_simp

section \<open>Stopping\<close>

text \<open>C0: \<open>/stop\<close> aborts and forgets exactly the runs of the sender, of its heartbeat and of the system heartbeat;
  every other run keeps its entry, and notifications are dropped only when something was stopped.\<close>

theorem stop_reaches_own_runs:
  "let (stopped, st1) = stop_run_scope_and_cleanup k8s channel conversation sender key st;
       hit = stop_scope channel conversation sender key in
     stopped = list_ex (hit \<circ> fst) (rn_runs st)
     \<and> rn_aborted st1 = rn_aborted st @ map (ar_run_id \<circ> snd) (filter (hit \<circ> fst) (rn_runs st))
     \<and> (\<forall>k. map_of (rn_runs st1) k = (if hit k then None else map_of (rn_runs st) k))
     \<and> rn_notifications st1 = (if stopped then [] else rn_notifications st)"
proof -
  let ?hit = "stop_scope channel conversation sender key"
  have m: "map_of (filter (\<lambda>x. \<not> ?hit (fst x)) rs) k = (if ?hit k then None else map_of rs k)" for rs :: active_runs and k
    by (induction rs) auto
  have none: "map_of rs k = None" if "\<forall>x\<in>set rs. \<not> ?hit (fst x)" "?hit k" for rs :: active_runs and k
    using that by (auto simp: map_of_eq_None_iff)
  show ?thesis
    by (auto simp: none stop_run_scope_and_cleanup_def stop_run_scope_def stop_matching_runs_def Let_def m list_ex_iff filter_empty_conv)
qed

text \<open>C0: a run that ends removes the entry of its key only if the entry is its own.\<close>

theorem finish_keeps_newer_run:
  "map_of (finish_run k n runs) k' =
     (if k' = k \<and> (\<exists>r. map_of runs k = Some r \<and> ar_run_id r = n) then None else map_of runs k')"
proof -
  have "map_of (remove_run runs k) k' = (if k' = k then None else map_of runs k')"
    by (induction runs) (auto simp: remove_run_def)
  then show ?thesis by (auto simp: finish_run_def split: option.splits)
qed

section \<open>Pushes reach their task\<close>

text \<open>How \<open>serde\<close> reads a notification: the agent is taken out, the other members stay.\<close>

definition read_as_notify :: "json \<Rightarrow> notify_request \<Rightarrow> bool" where
  "read_as_notify payload req \<longleftrightarrow>
     nr_agent req = member_str ''agent'' payload \<and> nr_sender_id req = None
     \<and> (\<forall>k. map_of (nr_metadata req) k = (if k \<in> {''message'', ''agent'', ''sender_id''} then None else json_member k payload))"

definition request_meta :: "notify_request \<Rightarrow> json" where
  "request_meta req = JObj (or_insert ''sender_id'' (nr_sender_id req) (or_insert ''agent'' (nr_agent req) (nr_metadata req)))"

lemma request_meta_member:
  assumes "read_as_notify payload req" "member_str ''agent'' payload = Some a" "k \<notin> {''message'', ''sender_id''}"
  shows "json_member k (request_meta req) = (if k = ''agent'' then Some (JStr a) else json_member k payload)"
  using assms by (auto simp: read_as_notify_def request_meta_def or_insert_def map_add_def split: option.split)

lemma path_parts:
  "CHR ''/'' \<notin> set w \<Longrightarrow> CHR ''/'' \<notin> set t \<Longrightarrow> split_char (CHR ''/'') (''task/'' @ w @ ''/'' @ t) = [''task'', w, t]"
proof -
  assume a: "CHR ''/'' \<notin> set w" "CHR ''/'' \<notin> set t"
  have "split_char (CHR ''/'') (''task'' @ CHR ''/'' # (w @ CHR ''/'' # t)) = ''task'' # split_char (CHR ''/'') (w @ CHR ''/'' # t)"
    by (rule split_char_append) simp
  also have "split_char (CHR ''/'') (w @ CHR ''/'' # t) = w # split_char (CHR ''/'') t" using a(1) by (rule split_char_append)
  finally show ?thesis using a(2) by (simp add: split_char_none)
qed

text \<open>C0: when the git server tells of a commit pushed by a worker to the branch of a task, the notification as the gateway
  passes it on is recorded for that task: as a commit, from the server on behalf of the worker, and naming the
  worker of the branch.\<close>

theorem pushed_commit_reaches_task:
  assumes "read_as_notify (push_payload repo agent (''task/'' @ w @ ''/'' @ t) commit) req"
    and "CHR ''/'' \<notin> set w" "CHR ''/'' \<notin> set t" "\<not> is_blank t" "\<not> is_zero_git_oid commit"
  shows "\<exists>ev. notify_scratchpad_event (request_meta req) = Some ev \<and> ne_task_id ev = Some t \<and> ne_kind ev = ''commit''
    \<and> ne_actor ev = ''git-server/'' @ agent \<and> w \<in> set (ne_agents ev) \<and> agent \<in> set (ne_agents ev)
    \<and> (\<forall>now fs. mirror_notify_event_to_registry c now (request_meta req) fs
         = fst (scratchpad_append_kind c now t (''git-server/'' @ agent) (ne_note ev) (Some ''commit'') fs))"
proof -
  define b where b: "b = ''task/'' @ w @ ''/'' @ t"
  define srv where srv: "srv = ''git-server/'' @ agent"
  have bt: "Git_Server.branch_task_id b = Some t"
    unfolding b Git_Server.branch_task_id_def path_parts [OF assms(2,3)] by (simp add: assms(4))
  have req: "read_as_notify (push_payload repo agent b commit) req" using assms(1) unfolding b .
  have "\<exists>m. push_payload repo agent b commit = json_set ''task_id'' (JStr t) (JObj [(''message'', JStr m), (''agent'', JStr srv),
      (''event'', JStr ''push''), (''repo'', JStr repo), (''branch'', JStr b), (''commit'', JStr commit)])"
    unfolding push_payload_def with_task_id_def bt option.case srv by (rule exI, rule refl)
  then obtain m where p: "push_payload repo agent b commit = json_set ''task_id'' (JStr t) (JObj [(''message'', JStr m), (''agent'', JStr srv),
      (''event'', JStr ''push''), (''repo'', JStr repo), (''branch'', JStr b), (''commit'', JStr commit)])" ..
  have pa: "member_str ''agent'' (push_payload repo agent b commit) = Some srv" by (simp add: p member_str_def json_str_def)
  note get = request_meta_member [OF req pa]
  have m: "member_str ''event'' (request_meta req) = Some ''push''" "member_str ''agent'' (request_meta req) = Some srv"
    "member_str ''branch'' (request_meta req) = Some b" "member_str ''commit'' (request_meta req) = Some commit"
    "member_str ''repo'' (request_meta req) = Some repo" "member_str ''task_id'' (request_meta req) = Some t"
    by (simp_all add: member_str_def get p json_str_def)
  let ?ev = "\<lparr>ne_kind = ''commit'', ne_actor = srv, ne_note = notify_note ''push'' (request_meta req),
    ne_agents = notify_agents srv b, ne_task_id = Some t\<rparr>"
  have sp: "strip_prefix ''git-server/'' srv = Some agent" "strip_prefix ''task/'' b = Some (w @ ''/'' @ t)"
    by (simp_all add: strip_prefix_def srv b)
  have hd: "hd (split_char (CHR ''/'') (w @ ''/'' @ t)) = w" using assms(2) by (simp add: split_char_append)
  have ag: "set (notify_agents srv b) = {agent, w}"
    by (simp only: notify_agents_def sp option.case hd) auto
  then have "notify_agents srv b \<noteq> []" by force
  moreover have "trim t \<noteq> []" using assms(4) by (simp add: is_blank_def)
  ultimately have ev: "notify_scratchpad_event (request_meta req) = Some ?ev"
    using assms(5) by (simp add: notify_scratchpad_event_def m notify_kind_def or_text_def Let_def)
  show ?thesis
    unfolding srv [symmetric] by (rule exI [of _ ?ev]) (simp add: ev ag mirror_notify_event_to_registry_def)
qed

definition demo_push :: notify_request where
  "demo_push = \<lparr>nr_message = ''m'', nr_agent = Some ''git-server/w'', nr_sender_id = None,
     nr_metadata = [(''event'', JStr ''push''), (''repo'', JStr ''r''), (''branch'', JStr ''task/w/t1''), (''commit'', JStr ''abc''),
       (''task_id'', JStr ''t1'')]\<rparr>"

lemma pushed_commit_reaches_task_witness:
  "\<exists>ev. notify_scratchpad_event (request_meta demo_push) = Some ev \<and> ne_task_id ev = Some ''t1'' \<and> ne_actor ev = ''git-server/w''"
proof -
  have p: "push_payload ''r'' ''w'' (''task/'' @ ''w'' @ ''/'' @ ''t1'') ''abc'' = JObj [(''message'', JStr ''git push: w pushed task/w/t1 to r (abc)''),
      (''agent'', JStr ''git-server/w''), (''event'', JStr ''push''), (''repo'', JStr ''r''), (''branch'', JStr ''task/w/t1''),
      (''commit'', JStr ''abc''), (''task_id'', JStr ''t1'')]"
    by code_simp
  have "read_as_notify (push_payload ''r'' ''w'' (''task/'' @ ''w'' @ ''/'' @ ''t1'') ''abc'') demo_push"
    unfolding p read_as_notify_def demo_push_def by (auto simp: member_str_def json_str_def)
  moreover have "\<not> is_blank ''t1''" "\<not> is_zero_git_oid ''abc''" by code_simp+
  ultimately show ?thesis using pushed_commit_reaches_task [of "''r''" "''w''" "''w''" "''t1''" "''abc''" demo_push] by simp blast
qed

definition demo_models_env :: models_env where
  "demo_models_env =
     \<lparr>md_router = router_new [] 0, md_adapters = \<lparr>answer_unit = (\<lambda>_. Inr ()), answer_handle = (\<lambda>_. Inr default_handle), answer_text = (\<lambda>_. Inr []),
        answer_json = (\<lambda>_. Inr JNull)\<rparr>, md_codec = index_demo, md_models = demo_model_env [demo_provider ''groq''], md_home = None,
      md_cwd = [], md_agent_text = (\<lambda>_. None), md_shown = (\<lambda>_. [])\<rparr>"

definition demo_models_request :: models_request where
  "demo_models_request =
     \<lparr>mq_key = ''k'', mq_channel = ''c'', mq_target = \<lparr>ot_recipient_id = None, ot_sender_id = None, ot_thread_id = None, ot_session_id = None,
        ot_reply_to_message_id = None, ot_request_id = None, ot_status_update = False\<rparr>, mq_agent = agent_default,
      mq_prefs = \<lparr>cp_provider = None, cp_model = None\<rparr>, mq_sandbox = False\<rparr>"

lemma demo_groq: "ids_normal (md_models demo_models_env) \<and> ''groq'' \<in> set (available_providers (md_models demo_models_env))"
proof -
  have "md_models demo_models_env = demo_model_env [demo_provider ''groq'']" by (simp add: demo_models_env_def)
  moreover have "ids_normal (demo_model_env [demo_provider ''groq'']) \<and> ''groq'' \<in> set (available_providers (demo_model_env [demo_provider ''groq'']))"
    unfolding ids_normal_def by code_simp
  ultimately show ?thesis by simp
qed

lemma provider_button_shows_models_witness:
  "\<forall>st. \<exists>args. parse_slash_command ''/models groq'' = Some (''models'', args)
    \<and> handle_models_command demo_models_env demo_models_request args st
      = show_menu demo_models_env demo_models_request (model_menu_text (md_models demo_models_env) agent_default (mq_prefs demo_models_request) ''groq'')
          (model_menu_markup (md_models demo_models_env) agent_default (mq_prefs demo_models_request) ''groq'') st"
  using provider_button_shows_models [OF demo_groq [THEN conjunct1] demo_groq [THEN conjunct2], where q = demo_models_request]
  by (simp add: provider_button_def demo_models_request_def)

lemma model_button_sets_model_witness:
  "\<forall>st. \<exists>args. parse_slash_command ''/models groq m-1'' = Some (''models'', args)
    \<and> ms_prefs (handle_models_command demo_models_env demo_models_request args st) ''k'' \<noteq> None"
proof
  fix st
  have m: "list_all graphic ''m-1''" by code_simp
  have cb: "ib_callback_data (model_button agent_default (mq_prefs demo_models_request) ''groq'' ''m-1'') = ''/models groq m-1''"
    by (simp add: model_button_def)
  have k: "mq_key demo_models_request = ''k''" by (simp add: demo_models_request_def)
  obtain args chosen where "parse_slash_command ''/models groq m-1'' = Some (''models'', args)"
    "ms_prefs (handle_models_command demo_models_env demo_models_request args st) = (ms_prefs st)(''k'' \<mapsto> chosen)"
    using model_button_sets_model [OF demo_groq [THEN conjunct1] demo_groq [THEN conjunct2] m, where q = demo_models_request and st = st,
        of agent_default "mq_prefs demo_models_request" agent_default]
    unfolding cb k by auto
  then show "\<exists>args. parse_slash_command ''/models groq m-1'' = Some (''models'', args)
    \<and> ms_prefs (handle_models_command demo_models_env demo_models_request args st) ''k'' \<noteq> None"
    by (intro exI [of _ args]) simp
qed

end
