(* ===== verification/Channel_Turns.thy ===== *)
theory Channel_Turns
  imports Channel_Commands
begin

text \<open>
  One turn of a conversation in the listen loop (\<open>run_agent_for_sender\<close> and the commands that change a
  conversation in \<open>orchestration/channel_mode.rs\<close>): the session of a sender, the attachments, the transcript,
  the history kept in memory, and compaction by the agent, by the user and in the background.

  The agent run itself is a parameter: a turn begins, and ends with the outcome it is given.  The map of
  conversations is behind one mutex, and each lock of it is one step here, so that the background
  compaction and the commands interleave.
\<close>

section \<open>State\<close>

record conversation =
  cv_session :: string
  cv_history :: "message list"

record turn_state =
  ts_conversations :: "string \<rightharpoonup> conversation"
  ts_dir :: state_dir
  ts_fs :: fs_tree
  ts_log :: call_log
  ts_callbacks :: "(string \<times> json) list"

record turn_env =
  te_router :: router
  te_adapters :: adapters
  te_codec :: session_codec
  te_cwd :: location
  te_temp_dir :: fs_path
  te_openai_key :: "string option"
  te_transcribe :: "string \<Rightarrow> string \<Rightarrow> string \<Rightarrow> string + string"
  te_shown :: "fs_path \<Rightarrow> string"
  te_parse_json :: "string \<Rightarrow> json option"

text \<open>What is fresh in a turn: the clock, its date part, the bytes and identifiers drawn.\<close>

record fresh =
  fr_now :: int
  fr_date :: string
  fr_byte0 :: "8 word"
  fr_byte1 :: "8 word"
  fr_run_id :: string
  fr_mark_id :: string

datatype tool_log_event = LogCall string string | LogResult string string bool

record turn_request =
  tq_task :: string
  tq_channel :: string
  tq_sender :: string
  tq_conversation :: "string option"
  tq_message_id :: "string option"
  tq_session_hint :: "string option"
  tq_key :: string
  tq_agent :: agent_def
  tq_attachments :: "inbound_attachment list"
  tq_callback_url :: "string option"
  tq_config_path :: "string option"

definition outbound_target_of :: "turn_request \<Rightarrow> bool \<Rightarrow> outbound_target" where
  "outbound_target_of q status =
     \<lparr>ot_recipient_id = (case tq_conversation q of Some c \<Rightarrow> Some c | None \<Rightarrow> Some (tq_sender q)), ot_sender_id = Some (tq_sender q),
      ot_thread_id = tq_session_hint q, ot_session_id = None, ot_reply_to_message_id = tq_message_id q,
      ot_request_id = tq_session_hint q, ot_status_update = status\<rparr>"

definition internal_source :: "string \<Rightarrow> bool" where
  "internal_source key \<longleftrightarrow> prefix ''heartbeat:'' key"

section \<open>Beginning a turn\<close>

text \<open>The reaction and the first typing indicator; the refreshes of the indicator are not modelled.\<close>

definition acknowledge :: "turn_env \<Rightarrow> turn_request \<Rightarrow> call_log \<Rightarrow> call_log" where
  "acknowledge e q log =
     (if internal_source (tq_key q) then log
      else
        (let target = outbound_target_of q False;
             log1 = (case tq_message_id q of
               Some m \<Rightarrow> react_to_message (te_router e) (tq_channel q) (the (ot_recipient_id target)) m [CHR 0xF0, CHR 0x9F, CHR 0x91, CHR 0x80] log
             | None \<Rightarrow> log)
         in snd (send_to (te_adapters e) (te_router e) (tq_channel q) TypingIndicator (Some target) log1)))"

definition restore_conversation :: "turn_env \<Rightarrow> fresh \<Rightarrow> string \<Rightarrow> state_dir \<Rightarrow> conversation \<times> state_dir" where
  "restore_conversation e fr key d =
     (case load_channel_sessions (te_codec e) d key of
        Some sid \<Rightarrow>
          (let d1 = snd (mark_restart_if_interrupted (te_codec e) (fr_mark_id fr) sid (fr_now fr) d);
               history = (case read_transcript (te_codec e) sid d1 of
                 Inl _ \<Rightarrow> []
               | Inr es \<Rightarrow> if list_ex is_compaction es then rebuild_history_recent es (length es) else rebuild_history_recent es 50)
           in (\<lparr>cv_session = sid, cv_history = history\<rparr>, d1))
      | None \<Rightarrow>
          (let (sid, d1) = create_session (fr_date fr) (fr_byte0 fr) (fr_byte1 fr) (fr_now fr) d
           in (\<lparr>cv_session = sid, cv_history = []\<rparr>, d1)))"

definition open_conversation :: "turn_env \<Rightarrow> fresh \<Rightarrow> string \<Rightarrow> turn_state \<Rightarrow> conversation \<times> turn_state" where
  "open_conversation e fr key st =
     (case ts_conversations st key of
        Some cv \<Rightarrow> (cv, st)
      | None \<Rightarrow>
          (let (cv, d) = restore_conversation e fr key (ts_dir st)
           in (cv, st\<lparr>ts_conversations := (ts_conversations st)(key \<mapsto> cv), ts_dir := d\<rparr>)))"

definition document_path :: "turn_env \<Rightarrow> string option \<Rightarrow> fs_path" where
  "document_path e filename = path_join (path_join (te_temp_dir e) ''that-agent-docs'') (or_text ''attachment.bin'' filename)"

text \<open>The enriched task and the images, or the message that ends the turn.\<close>

fun process_attachments ::
  "turn_env \<Rightarrow> inbound_attachment list \<Rightarrow> string \<Rightarrow> (string \<times> string) list \<Rightarrow> fs_tree
     \<Rightarrow> (string + string \<times> (string \<times> string) list) \<times> fs_tree" where
  "process_attachments e [] task images fs = (Inr (task, images), fs)"
| "process_attachments e (AudioAttachment data mime d # as) task images fs =
     (case te_openai_key e of
        None \<Rightarrow> (Inl ''Voice messages require OPENAI_API_KEY to be set.'', fs)
      | Some k \<Rightarrow>
          (case te_transcribe e k data mime of
             Inl err \<Rightarrow> (Inl (''Voice transcription failed: '' @ err), fs)
           | Inr t \<Rightarrow> process_attachments e as (''[Voice transcript]: '' @ t @ [newline, newline] @ task) images fs))"
| "process_attachments e (ImageAttachment data mime # as) task images fs =
     process_attachments e as task (images @ [(data, mime)]) fs"
| "process_attachments e (DocumentAttachment data mime filename # as) task images fs =
     (let dir = path_join (te_temp_dir e) ''that-agent-docs'';
          fs1 = snd (create_dir_all dir (te_cwd e) fs);
          dest = document_path e filename in
      case File_System.write_file dest data (te_cwd e) fs1 of
        (Inr _, fs2) \<Rightarrow>
          process_attachments e as
            (''[Document received: '' @ or_text ''attachment.bin'' filename @ '' ('' @ mime @ '') saved to '' @ te_shown e dest @ '']''
              @ [newline, newline] @ task) images fs2
      | (Inl _, fs2) \<Rightarrow> process_attachments e as task images fs2)"

definition note_images :: "string \<times> (string \<times> string) list \<Rightarrow> string" where
  "note_images ti = (if snd ti = [] then fst ti else fst ti @ [newline, newline] @ ''[System: image attached '' @ [CHR 0xE2, CHR 0x80, CHR 0x94] @ '' after responding, use mem_add to store a brief description]'')"

definition append_memory_bootstrap_reminder :: "string \<Rightarrow> nat \<Rightarrow> string" where
  "append_memory_bootstrap_reminder task history_len =
     (if history_len > 0 \<or> contains_sub ''history_empty_or_reset: true'' task then task else task @ [newline, newline] @ ''<system-reminder>'' @ [newline] @ ''history_empty_or_reset: true'' @ [newline] @ ''memory_bootstrap_required: Before using any other tool for this run, call `mem_recall` once with a concise task-relevant query so prior preferences/constraints are restored.'' @ [newline] @ ''fallback_shell_standard: If writing shell scripts and no recalled preference overrides it, default to POSIX shell (`#!/bin/sh` and `set -eu`; avoid bash-only features).'' @ [newline] @ ''</system-reminder>'')"

definition entry_of :: "fresh \<Rightarrow> string \<Rightarrow> transcript_event \<Rightarrow> transcript_entry" where
  "entry_of fr run_id ev = \<lparr>te_timestamp = fr_now fr, te_run_id = run_id, te_event = ev\<rparr>"

definition append_events :: "turn_env \<Rightarrow> fresh \<Rightarrow> string \<Rightarrow> transcript_event list \<Rightarrow> state_dir \<Rightarrow> state_dir" where
  "append_events e fr sid evs d = foldl (\<lambda>d ev. append_entry (te_codec e) sid (entry_of fr (fr_run_id fr) ev) (fr_now fr) d) d evs"

record started_turn =
  st_request :: turn_request
  st_session :: string
  st_history :: "message list"
  st_task :: string
  st_images :: "(string \<times> string) list"

definition begin_turn :: "turn_env \<Rightarrow> fresh \<Rightarrow> turn_request \<Rightarrow> turn_state \<Rightarrow> started_turn option \<times> turn_state" where
  "begin_turn e fr q st0 =
     (let (cv, st1) = open_conversation e fr (tq_key q) (st0\<lparr>ts_log := acknowledge e q (ts_log st0)\<rparr>);
          sid = cv_session cv;
          st2 = st1\<lparr>ts_dir := save_channel_session (te_codec e) (tq_key q) sid (ts_dir st1)\<rparr>;
          target = (outbound_target_of q (internal_source (tq_key q)))\<lparr>ot_session_id := Some sid\<rparr> in
      case process_attachments e (tq_attachments q) (tq_task q) [] (ts_fs st2) of
        (Inl msg, fs) \<Rightarrow>
          (None, st2\<lparr>ts_fs := fs, ts_log := notify_channel (te_router e) (tq_channel q) msg (Some target) (ts_log st2)\<rparr>)
      | (Inr ti, fs) \<Rightarrow>
          (let task = note_images ti in
           (Some \<lparr>st_request = q, st_session = sid, st_history = cv_history cv,
              st_task = append_memory_bootstrap_reminder task (length (cv_history cv)), st_images = snd ti\<rparr>,
            st2\<lparr>ts_fs := fs, ts_dir := append_events e fr sid [RunStart task, UserMessage task] (ts_dir st2)\<rparr>)))"

section \<open>Ending a turn\<close>

definition compact_anchor :: "string \<Rightarrow> message list" where
  "compact_anchor summary =
     [MUser (''[Conversation context summary: '' @ summary @ '']''),
      MAssistant (''Understood, I have the context from our previous conversation. Context was compacted '' @ [CHR 0xE2, CHR 0x80, CHR 0x94] @ '' previously loaded skill references are no longer in context. I will reload any skills needed for my current task.'')]"

text \<open>The summary of the first \<open>mem_compact\<close> call whose arguments have one.\<close>

fun compact_summary_of :: "turn_env \<Rightarrow> tool_log_event list \<Rightarrow> string option" where
  "compact_summary_of e [] = None"
| "compact_summary_of e (LogCall n args # evs) =
     (if n = ''mem_compact''
      then (case Option.bind (te_parse_json e args) (member_str ''summary'') of Some s \<Rightarrow> Some s | None \<Rightarrow> compact_summary_of e evs)
      else compact_summary_of e evs)"
| "compact_summary_of e (LogResult _ _ _ # evs) = compact_summary_of e evs"

definition log_event :: "turn_env \<Rightarrow> tool_log_event \<Rightarrow> transcript_event" where
  "log_event e ev =
     (case ev of
        LogCall n args \<Rightarrow> ToolCall n (case te_parse_json e args of Some v \<Rightarrow> v | None \<Rightarrow> JObj [])
      | LogResult n r err \<Rightarrow> ToolResult n r err)"

definition callback_body :: "string \<Rightarrow> string \<Rightarrow> string \<Rightarrow> json" where
  "callback_body s state sender = JObj [(''text'', JStr s), (''state'', JStr state), (''message'', JStr s), (''agent'', JStr sender)]"

definition post_callback :: "started_turn \<Rightarrow> string \<Rightarrow> string \<Rightarrow> turn_state \<Rightarrow> turn_state" where
  "post_callback t s state st =
     (case tq_callback_url (st_request t) of
        Some url \<Rightarrow> st\<lparr>ts_callbacks := ts_callbacks st @ [(url, callback_body s state (tq_sender (st_request t)))]\<rparr>
      | None \<Rightarrow> st)"

definition set_history :: "string \<Rightarrow> message list \<Rightarrow> turn_state \<Rightarrow> turn_state" where
  "set_history key h st =
     (case ts_conversations st key of
        Some cv \<Rightarrow> st\<lparr>ts_conversations := (ts_conversations st)(key \<mapsto> cv\<lparr>cv_history := h\<rparr>)\<rparr> | None \<Rightarrow> st)"

text \<open>The threshold is 70 per cent of the window, rounded down; the product is exact in a double for the
  windows of the catalogue.\<close>

definition compact_threshold :: "string \<Rightarrow> nat" where
  "compact_threshold model = context_window model * 7 div 10"

definition needs_auto_compaction :: "turn_env \<Rightarrow> started_turn \<Rightarrow> tool_log_event list \<Rightarrow> nat \<Rightarrow> bool" where
  "needs_auto_compaction e t evs input_tokens \<longleftrightarrow>
     compact_summary_of e evs = None \<and> input_tokens > compact_threshold (ad_model (tq_agent (st_request t)))"

definition end_turn ::
  "turn_env \<Rightarrow> fresh \<Rightarrow> started_turn \<Rightarrow> string + string \<times> tool_log_event list \<Rightarrow> turn_state \<Rightarrow> turn_state" where
  "end_turn e fr t outcome st =
     (let append = append_events e fr (st_session t) in
      case outcome of
        Inl err \<Rightarrow>
          (let st1 = post_callback t err ''failed'' st in st1\<lparr>ts_dir := append [RunEnd RunError (Some err)] (ts_dir st1)\<rparr>)
      | Inr (answer, evs) \<Rightarrow>
          (let (history, d1) = (case compact_summary_of e evs of
                 Some s \<Rightarrow> (compact_anchor s, append [Compaction s] (ts_dir st)) | None \<Rightarrow> (st_history t, ts_dir st));
               st1 = post_callback t answer ''completed'' (st\<lparr>ts_dir := append (map (log_event e) evs) d1\<rparr>);
               st2 = st1\<lparr>ts_dir := append [AssistantMessage answer, RunEnd Success None] (ts_dir st1)\<rparr>
           in set_history (tq_key (st_request t)) (history @ [MUser (st_task t), MAssistant answer]) st2))"

section \<open>Compaction\<close>

text \<open>Both kinds of compaction read the history, have it summarised, and write the summary back later.\<close>

definition begin_compaction :: "string \<Rightarrow> turn_state \<Rightarrow> message list option" where
  "begin_compaction key st = map_option cv_history (ts_conversations st key)"

definition finish_compaction :: "turn_env \<Rightarrow> fresh \<Rightarrow> string \<Rightarrow> string \<Rightarrow> string \<Rightarrow> turn_state \<Rightarrow> turn_state" where
  "finish_compaction e fr key sid summary st =
     (let st1 = set_history key (compact_anchor summary) st in
      st1\<lparr>ts_dir := append_events e fr sid [Compaction summary] (ts_dir st1)\<rparr>)"

definition auto_compaction_note :: "nat \<Rightarrow> string" where
  "auto_compaction_note pct = [CHR 0xF0, CHR 0x9F, CHR 0x97, CHR 0x9C] @ '' Auto-compacted (context was '' @ show_nat pct @ ''% full)''"

definition finish_auto_compaction :: "turn_env \<Rightarrow> fresh \<Rightarrow> string \<Rightarrow> string \<Rightarrow> string \<Rightarrow> nat \<Rightarrow> turn_state \<Rightarrow> turn_state" where
  "finish_auto_compaction e fr key sid summary pct st =
     (let st1 = finish_compaction e fr key sid summary st in
      st1\<lparr>ts_log := notify_all (te_router e) (auto_compaction_note pct) (ts_log st1)\<rparr>)"

section \<open>Commands on a conversation\<close>

definition reply :: "turn_env \<Rightarrow> turn_request \<Rightarrow> string \<Rightarrow> turn_state \<Rightarrow> turn_state" where
  "reply e q s st = st\<lparr>ts_log := notify_channel (te_router e) (tq_channel q) s (Some (outbound_target_of q False)) (ts_log st)\<rparr>"

definition clear_conversation :: "turn_env \<Rightarrow> fresh \<Rightarrow> turn_request \<Rightarrow> turn_state \<Rightarrow> turn_state" where
  "clear_conversation e fr q st =
     (let (sid, d) = create_session (fr_date fr) (fr_byte0 fr) (fr_byte1 fr) (fr_now fr) (ts_dir st)
      in reply e q ''Conversation cleared.''
           (st\<lparr>ts_conversations := (ts_conversations st)(tq_key q \<mapsto> \<lparr>cv_session = sid, cv_history = []\<rparr>),
               ts_dir := save_channel_session (te_codec e) (tq_key q) sid d\<rparr>))"

definition compact_conversation :: "turn_env \<Rightarrow> fresh \<Rightarrow> (message list \<Rightarrow> string) \<Rightarrow> turn_request \<Rightarrow> turn_state \<Rightarrow> turn_state" where
  "compact_conversation e fr summarise q st =
     (case ts_conversations st (tq_key q) of
        None \<Rightarrow> reply e q ''Nothing to compact.'' st
      | Some cv \<Rightarrow>
          if cv_history cv = [] then reply e q ''Nothing to compact.'' st
          else reply e q ''History compacted.'' (finish_compaction e fr (tq_key q) (cv_session cv) (summarise (cv_history cv)) st))"

end
