(* ===== verification/Channel_Turns_Props.thy ===== *)
theory Channel_Turns_Props
  imports Channel_Turns Session_Props
begin

text \<open>
  What a turn leaves behind: the conversation that a restart restores is the one of the turns, except
  for a turn that compacts; the background compaction against the commands; and where documents go.
\<close>

section \<open>What a restart restores\<close>

lemma append_events_Nil: "append_events e fr sid [] d = d"
  by (simp add: append_events_def)

lemma append_events_append: "append_events e fr sid (xs @ ys) d = append_events e fr sid ys (append_events e fr sid xs d)"
  by (simp add: append_events_def)

lemma split_compaction_append:
  "split_compaction (xs @ ys) =
     (case split_compaction ys of (Some s, t) \<Rightarrow> (Some s, t)
      | (None, _) \<Rightarrow> (case split_compaction xs of (Some s, t) \<Rightarrow> (Some s, t @ ys) | (None, _) \<Rightarrow> (None, xs @ ys)))"
proof (induction xs)
  case Nil
  have "fst (split_compaction ys) = None \<Longrightarrow> snd (split_compaction ys) = ys"
    by (induction ys) (auto split: prod.splits option.splits transcript_event.splits)
  then show ?case by (auto split: prod.splits option.splits)
next
  case (Cons x xs)
  then show ?case by (auto split: prod.splits option.splits transcript_event.splits)
qed

text \<open>Entries that neither start nor end anything.\<close>

definition quiet :: "transcript_entry \<Rightarrow> bool" where
  "quiet e \<longleftrightarrow> (case te_event e of ToolCall _ _ \<Rightarrow> True | ToolResult _ _ _ \<Rightarrow> True | _ \<Rightarrow> False)"

lemma log_quiet: "quiet (entry_of fr r (log_event e ev))"
  by (cases ev) (simp_all add: quiet_def log_event_def entry_of_def)

lemma quiet_compaction: "list_all quiet es \<Longrightarrow> split_compaction es = (None, es)"
  by (induction es) (auto simp: quiet_def split: transcript_event.splits)

lemma quiet_pairs: "list_all quiet es \<Longrightarrow> foldl pair_step st es = st"
  by (induction es) (auto simp: quiet_def pair_step_def split: transcript_event.splits)

lemma quiet_idle: "list_all quiet es \<Longrightarrow> foldl interrupt_step (None, n) es = (None, n)"
  by (induction es) (auto simp: quiet_def interrupt_step_def split: transcript_event.splits)

lemma quiet_running: "list_all quiet es \<Longrightarrow> \<exists>c'. foldl interrupt_step (Some c, n) es = (Some c', n)"
proof (induction es arbitrary: c)
  case (Cons x es)
  then have "\<exists>c'. interrupt_step (Some c, n) x = (Some c', n)"
    by (auto simp: quiet_def interrupt_step_def split: transcript_event.splits)
  with Cons show ?case by auto
qed simp

definition turn_entries :: "turn_env \<Rightarrow> fresh \<Rightarrow> string \<times> tool_log_event list \<times> string \<Rightarrow> transcript_entry list" where
  "turn_entries e fr t =
     (case t of (task, evs, answer) \<Rightarrow>
        map (entry_of fr (fr_run_id fr))
          ([RunStart task, UserMessage task] @ map (log_event e) evs @ [AssistantMessage answer, RunEnd Success None]))"

lemma turn_quiet: "list_all quiet (map (entry_of fr r \<circ> log_event e) evs)"
  by (simp add: list_all_iff log_quiet)

lemma turn_compaction: "split_compaction (turn_entries e fr t) = (None, turn_entries e fr t)"
  using quiet_compaction [OF turn_quiet [of fr "fr_run_id fr" e]]
  by (cases t) (simp add: turn_entries_def split_compaction_append, simp add: entry_of_def)

lemma turn_pairs:
  "foldl pair_step st (turn_entries e fr (task, evs, answer)) = st\<lparr>ps_pending := None, ps_pairs := ps_pairs st @ [(task, answer)]\<rparr>"
  using quiet_pairs [OF turn_quiet [of fr "fr_run_id fr" e evs]]
  by (cases st) (simp add: turn_entries_def, simp add: entry_of_def pair_step_def)

lemma turn_interrupts: "foldl interrupt_step (None, 0) (turn_entries e fr t) = (None, 0)"
proof (cases t)
  case (fields task evs answer)
  have "foldl interrupt_step (None, 0) [entry_of fr (fr_run_id fr) (RunStart task), entry_of fr (fr_run_id fr) (UserMessage task)]
    = (Some \<lparr>ir_run_id = fr_run_id fr, ir_last_task = Some task, ir_last_tool = None, ir_recent_tools = []\<rparr>, 1)"
    by (simp add: interrupt_step_def entry_of_def)
  moreover obtain c where "foldl interrupt_step (Some \<lparr>ir_run_id = fr_run_id fr, ir_last_task = Some task, ir_last_tool = None, ir_recent_tools = []\<rparr>, 1)
      (map (entry_of fr (fr_run_id fr) \<circ> log_event e) evs) = (Some c, 1)"
    using quiet_running [OF turn_quiet] by blast
  ultimately show ?thesis by (simp add: fields turn_entries_def) (simp add: interrupt_step_def entry_of_def)
qed

definition turns_entries :: "turn_env \<Rightarrow> (fresh \<times> string \<times> tool_log_event list \<times> string) list \<Rightarrow> transcript_entry list" where
  "turns_entries e ts = concat (map (\<lambda>(fr, t). turn_entries e fr t) ts)"

lemma turns_compaction: "split_compaction (turns_entries e ts) = (None, turns_entries e ts)"
  by (induction ts) (auto simp: turns_entries_def split_compaction_append turn_compaction split: prod.splits)

lemma turns_interrupts: "foldl interrupt_step (None, 0) (turns_entries e ts) = (None, 0)"
  by (induction ts) (auto simp: turns_entries_def turn_interrupts)

lemma turns_pairs:
  "foldl pair_step \<lparr>ps_pairs = ps, ps_pending = None, ps_restart = b\<rparr> (turns_entries e ts)
     = \<lparr>ps_pairs = ps @ map (\<lambda>(fr, task, evs, answer). (task, answer)) ts, ps_pending = None, ps_restart = b\<rparr>"
  by (induction ts arbitrary: ps) (auto simp: turns_entries_def turn_pairs)

text \<open>C0: after any number of finished turns without compaction, a restart restores the questions and answers of the
  last fifty of them, in order.\<close>

theorem restart_restores_turns:
  "rebuild_history_recent (turns_entries e ts) 50
     = concat (map (\<lambda>(fr, task, evs, answer). [MUser task, MAssistant answer]) (drop (length ts - 50) ts))"
proof -
  have i: "find_interrupted_run (turns_entries e ts) = None" by (simp add: find_interrupted_run_def turns_interrupts)
  have "concat (map (\<lambda>(u, a). [MUser u, MAssistant a]) (map (\<lambda>(fr, task, evs, answer). (task, answer)) xs))
    = concat (map (\<lambda>(fr, task, evs, answer). [MUser task, MAssistant answer]) xs)"
    for xs :: "(fresh \<times> string \<times> tool_log_event list \<times> string) list" by (induction xs) auto
  then show ?thesis
    by (simp add: rebuild_history_recent_def turns_compaction pair_init_def turns_pairs i summary_anchor_def Let_def drop_map)
qed

text \<open>C0: the entries a successful turn writes are those of \<open>turn_entries\<close> when the agent did not compact, and the
  conversation in memory grows by the question and the answer.\<close>

theorem turn_writes_its_entries:
  assumes "begin_turn e fr q st = (Some t, st1)" and "compact_summary_of e evs = None"
    and "ts_conversations st1 (tq_key q) = Some cv"
  shows "\<exists>task d. ts_dir (end_turn e fr t (Inr (answer, evs)) st1)
      = foldl (\<lambda>d x. append_entry (te_codec e) (st_session t) x (fr_now fr) d) d (turn_entries e fr (task, evs, answer))
    \<and> st_task t = append_memory_bootstrap_reminder task (length (st_history t))
    \<and> ts_conversations (end_turn e fr t (Inr (answer, evs)) st1) (tq_key q)
      = Some (cv\<lparr>cv_history := st_history t @ [MUser (st_task t), MAssistant answer]\<rparr>)"
proof -
  obtain cv0 sta where op: "open_conversation e fr (tq_key q) (st\<lparr>ts_log := acknowledge e q (ts_log st)\<rparr>) = (cv0, sta)" by fastforce
  let ?d = "save_channel_session (te_codec e) (tq_key q) (cv_session cv0) (ts_dir sta)"
  obtain r fs where pa: "process_attachments e (tq_attachments q) (tq_task q) [] (ts_fs sta) = (r, fs)" by fastforce
  with assms(1) op obtain ti where ti: "r = Inr ti" by (cases r) (auto simp: begin_turn_def Let_def)
  let ?task = "note_images ti"
  have t: "t = \<lparr>st_request = q, st_session = cv_session cv0, st_history = cv_history cv0,
      st_task = append_memory_bootstrap_reminder ?task (length (cv_history cv0)), st_images = snd ti\<rparr>"
    and st1: "ts_dir st1 = append_events e fr (cv_session cv0) [RunStart ?task, UserMessage ?task] ?d"
    using assms(1) op pa ti by (auto simp: begin_turn_def Let_def)
  have dirs: "ts_dir (set_history k h s) = ts_dir s" "ts_dir (post_callback t' x y s) = ts_dir s"
    "ts_conversations (post_callback t' x y s) = ts_conversations s" for k h s t' x y
    by (simp_all add: set_history_def post_callback_def split: option.split)
  have "ts_dir (end_turn e fr t (Inr (answer, evs)) st1)
    = append_events e fr (st_session t) ([RunStart ?task, UserMessage ?task] @ map (log_event e) evs @ [AssistantMessage answer, RunEnd Success None]) ?d"
    using assms(2) by (simp add: end_turn_def Let_def dirs st1 t append_events_append flip: append_events_append)
  also have "\<dots> = foldl (\<lambda>d x. append_entry (te_codec e) (st_session t) x (fr_now fr) d) ?d (turn_entries e fr (?task, evs, answer))"
    by (simp add: append_events_def turn_entries_def foldl_map)
  finally have "ts_dir (end_turn e fr t (Inr (answer, evs)) st1) = \<dots>" .
  moreover have "ts_conversations (end_turn e fr t (Inr (answer, evs)) st1) (tq_key q)
      = Some (cv\<lparr>cv_history := st_history t @ [MUser (st_task t), MAssistant answer]\<rparr>)"
    using assms(2,3) by (simp add: end_turn_def Let_def set_history_def dirs t)
  ultimately show ?thesis by (intro exI conjI) (auto simp: t)
qed

text \<open>C0: when the agent compacts during a turn, the answer of that turn is in memory, but a restart restores the summary
  alone: the question stands before the mark of the compaction and the answer after it, so they are not a pair.\<close>

theorem compacting_turn_is_not_restored:
  assumes "compact_summary_of e evs = Some s" and "ts_conversations st (tq_key (st_request t)) = Some cv"
  shows "\<exists>new. ts_dir (end_turn e fr t (Inr (answer, evs)) st) = append_events e fr (st_session t) new (ts_dir st)
    \<and> ts_conversations (end_turn e fr t (Inr (answer, evs)) st) (tq_key (st_request t))
      = Some (cv\<lparr>cv_history := compact_anchor s @ [MUser (st_task t), MAssistant answer]\<rparr>)
    \<and> (\<forall>es task n. rebuild_history_recent (es @ map (entry_of fr (fr_run_id fr)) ([RunStart task, UserMessage task] @ new)) n
      = summary_anchor (Some s))"
proof -
  let ?new = "[Compaction s] @ map (log_event e) evs @ [AssistantMessage answer, RunEnd Success None]"
  have dirs: "ts_dir (set_history k h x) = ts_dir x" "ts_dir (post_callback t' y z x) = ts_dir x"
    "ts_conversations (post_callback t' y z x) = ts_conversations x" for k h x t' y z
    by (simp_all add: set_history_def post_callback_def split: option.split)
  have a: "ts_dir (end_turn e fr t (Inr (answer, evs)) st) = append_events e fr (st_session t) ?new (ts_dir st)"
    using assms(1) by (simp add: end_turn_def Let_def dirs flip: append_events_append)
  have b: "ts_conversations (end_turn e fr t (Inr (answer, evs)) st) (tq_key (st_request t))
      = Some (cv\<lparr>cv_history := compact_anchor s @ [MUser (st_task t), MAssistant answer]\<rparr>)"
    using assms by (simp add: end_turn_def Let_def set_history_def dirs)
  have c: "rebuild_history_recent (es @ map (entry_of fr (fr_run_id fr)) ([RunStart task, UserMessage task] @ ?new)) n = summary_anchor (Some s)"
    for es task n
  proof -
    let ?q = "map (entry_of fr (fr_run_id fr) \<circ> log_event e) evs"
    let ?tail = "?q @ [entry_of fr (fr_run_id fr) (AssistantMessage answer), entry_of fr (fr_run_id fr) (RunEnd Success None)]"
    have q: "list_all quiet ?q" by (rule turn_quiet)
    have tail: "split_compaction ?tail = (None, ?tail)"
      using quiet_compaction [OF q] by (simp add: split_compaction_append) (simp add: entry_of_def)
    have "split_compaction (es @ map (entry_of fr (fr_run_id fr)) ([RunStart task, UserMessage task] @ ?new)) = (Some s, ?tail)"
    proof -
      have "split_compaction (entry_of fr (fr_run_id fr) (Compaction s) # ?tail) = (Some s, ?tail)"
        by (simp add: tail) (simp add: entry_of_def)
      then show ?thesis by (simp add: split_compaction_append [of es] split_compaction.simps(2))
    qed
    moreover have "foldl pair_step pair_init ?tail = pair_init"
      using quiet_pairs [OF q] by simp (simp add: pair_step_def pair_init_def entry_of_def)
    moreover have "find_interrupted_run ?tail = None"
      using quiet_idle [OF q, of 0] by (simp add: find_interrupted_run_def) (simp add: interrupt_step_def entry_of_def)
    ultimately show ?thesis by (simp add: rebuild_history_recent_def Let_def pair_init_def)
  qed
  show ?thesis using a b c by blast
qed

section \<open>Compaction and the commands\<close>

text \<open>C0: a background compaction that was started before \<open>/clear\<close> brings the summary of the cleared conversation back,
  into the new session.\<close>

theorem cleared_conversation_returns:
  "\<exists>sid. ts_conversations (clear_conversation e fr q st) (tq_key q) = Some \<lparr>cv_session = sid, cv_history = []\<rparr>
     \<and> ts_conversations (finish_auto_compaction e fr' (tq_key q) old summary pct (clear_conversation e fr q st)) (tq_key q)
       = Some \<lparr>cv_session = sid, cv_history = compact_anchor summary\<rparr>"
  by (simp add: clear_conversation_def reply_def finish_auto_compaction_def finish_compaction_def set_history_def Let_def case_prod_beta)

section \<open>Documents\<close>

definition doc_env :: turn_env where
  "doc_env = \<lparr>te_router = router_new [] 0, te_adapters = \<lparr>answer_unit = (\<lambda>_. Inr ()), answer_handle = (\<lambda>_. Inr default_handle),
      answer_text = (\<lambda>_. Inr []), answer_json = (\<lambda>_. Inr JNull)\<rparr>, te_codec = demo_codec, te_cwd = [], te_temp_dir = parse_path ''/tmp'',
     te_openai_key = None, te_transcribe = (\<lambda>_ _ _. Inl []), te_shown = (\<lambda>_. []), te_parse_json = (\<lambda>_. None)\<rparr>"

definition doc_tree :: fs_tree where
  "doc_tree = [([''tmp''], DirNode), ([''home''], DirNode), ([''home'', ''u''], DirNode), ([''home'', ''u'', ''.profile''], FileNode ''old'')]"

text \<open>C0: the name of a document decides where it is written: with parent components or as an absolute path it
  replaces any file the process may write.\<close>

theorem document_name_escapes:
  "(\<lambda>name. node_at (snd (process_attachments doc_env [DocumentAttachment ''new'' ''text/plain'' (Some name)] ''t'' [] doc_tree))
       [''home'', ''u'', ''.profile'']) ` {''../../home/u/.profile'', ''/home/u/.profile''}
     = {Some (FileNode ''new'')}"
  by code_simp

section \<open>Instances\<close>

definition demo_fresh :: fresh where
  "demo_fresh = \<lparr>fr_now = 0, fr_date = ''d'', fr_byte0 = 0, fr_byte1 = 1, fr_run_id = ''r'', fr_mark_id = ''m''\<rparr>"

definition demo_request :: turn_request where
  "demo_request = \<lparr>tq_task = ''t'', tq_channel = ''c'', tq_sender = ''s'', tq_conversation = None, tq_message_id = None, tq_session_hint = None,
     tq_key = ''k'', tq_agent = agent_default, tq_attachments = [], tq_callback_url = None, tq_config_path = None\<rparr>"

definition demo_turn_state :: turn_state where
  "demo_turn_state = \<lparr>ts_conversations = [''k'' \<mapsto> \<lparr>cv_session = ''sid'', cv_history = []\<rparr>], ts_dir = empty_dir, ts_fs = [], ts_log = [],
     ts_callbacks = []\<rparr>"

definition demo_started :: started_turn where
  "demo_started = \<lparr>st_request = demo_request, st_session = ''sid'', st_history = [], st_task = append_memory_bootstrap_reminder ''t'' 0, st_images = []\<rparr>"

lemma demo_begin:
  "\<exists>st1. begin_turn doc_env demo_fresh demo_request demo_turn_state = (Some demo_started, st1)
    \<and> ts_conversations st1 ''k'' = Some \<lparr>cv_session = ''sid'', cv_history = []\<rparr>"
  by (simp add: begin_turn_def open_conversation_def demo_request_def demo_turn_state_def demo_started_def Let_def note_images_def)

lemma turn_writes_its_entries_witness:
  "\<exists>st1. ts_conversations (end_turn doc_env demo_fresh demo_started (Inr (''a'', [])) st1) ''k''
     = Some \<lparr>cv_session = ''sid'', cv_history = [MUser (st_task demo_started), MAssistant ''a'']\<rparr>"
proof -
  obtain st1 where b: "begin_turn doc_env demo_fresh demo_request demo_turn_state = (Some demo_started, st1)"
    and cv: "ts_conversations st1 (tq_key demo_request) = Some \<lparr>cv_session = ''sid'', cv_history = []\<rparr>"
    using demo_begin by (auto simp: demo_request_def)
  from turn_writes_its_entries [OF b _ cv, of "[]" "''a''"] show ?thesis
    by (auto simp: demo_started_def demo_request_def)
qed

lemma compacting_turn_is_not_restored_witness:
  "\<exists>new. \<forall>es task n. rebuild_history_recent (es @ map (entry_of demo_fresh (fr_run_id demo_fresh)) ([RunStart task, UserMessage task] @ new)) n
     = summary_anchor (Some ''s'')"
proof -
  let ?e = "doc_env\<lparr>te_parse_json := (\<lambda>_. Some (JObj [(''summary'', JStr ''s'')]))\<rparr>"
  have "compact_summary_of ?e [LogCall ''mem_compact'' []] = Some ''s''" by (simp add: member_str_def json_str_def)
  moreover have "ts_conversations demo_turn_state (tq_key (st_request demo_started)) = Some \<lparr>cv_session = ''sid'', cv_history = []\<rparr>"
    by (simp add: demo_turn_state_def demo_started_def demo_request_def)
  ultimately show ?thesis using compacting_turn_is_not_restored [of ?e "[LogCall ''mem_compact'' []]" "''s''" demo_turn_state demo_started] by blast
qed

end
