(* ===== verification/Spec2Isabelle.thy ===== *)
theory Spec2Isabelle
  imports TaskRegistry Heartbeat_Format Git_Server_Props Session_Props Output_Budget_Props Channel_Props Path_Lock Tool_Props
    Agent_Loop_Props Provider_Wire_Props Provider_Stream_Props Code_Edit_Props Fs_Props Secrets_Props Http_Props Telegram_Props Skills_Props Channel_Commands_Props Channel_Turns_Props
begin

text \<open>
  A verification library for that-agent, the autonomous agent runtime of this repository
  (\<open>src/crates/that-agent\<close>) with its Git server (\<open>src/crates/that-git-server\<close>).  Paths below are
  relative to \<open>src/crates/that-agent/src\<close>.

  The program.  A message reaches the agent over a channel, a schedule or the terminal; a
  session transcript gives the conversation so far; the agentic loop asks a model provider,
  executes the tool calls of its answer and asks again until the model is done; tools work on the
  file system, on code, on the network and on other agents; agents share tasks and branches
  through a journal and a Git server.  The parts and their theories, bottom up:

  \<^item> Vocabulary.  \<open>Prelude\<close> (results as sums, generic list lemmas), \<open>Text_Ops\<close> and \<open>Encoding\<close>
    (the string operations of the Rust library on UTF-8 bytes), \<open>Interfaces\<close> (the locales
    \<open>keyed_table\<close>, \<open>capped_log\<close>, \<open>journaled\<close> and others that several components interpret),
    \<open>Demo_Codecs\<close> (invertible codecs that instantiate parameters in the witnesses), \<open>Timestamps\<close>
    (\<open>channels/registry.rs\<close>, \<open>tools/impls/session/mod.rs\<close>, \<open>tools/impls/memory/store.rs\<close>).
  \<^item> Tasks and agents.  \<open>TaskRegistry\<close>: \<open>agents/mod.rs\<close> and the journal of \<open>channels/mod.rs\<close>; a
    state is a snapshot file and a journal file, an operation records an event.  \<open>Path_Lock\<close>: the
    lock file that guards them, as one process's loop and as a step relation over all processes.
  \<^item> Schedules.  \<open>Cron\<close> and \<open>Heartbeat\<close>: \<open>heartbeat/mod.rs\<close> and the poll in
    \<open>orchestration/channel_mode.rs\<close>; \<open>Heartbeat_Format\<close> has the round trip of the file.
  \<^item> Sessions.  \<open>Session\<close>, \<open>Session_Props\<close>: \<open>session/mod.rs\<close>.
  \<^item> The loop and its providers.  \<open>Agent_Loop\<close>: \<open>agent_loop/mod.rs\<close>; \<open>Provider_Wire\<close> (requests),
    \<open>Provider_Stream\<close>, \<open>Provider_Events\<close>, \<open>Provider_Responses\<close> (answers) and \<open>Provider_Registry\<close>:
    \<open>agent_loop/{anthropic,openai,openrouter,openai_compatible}.rs\<close>, \<open>provider_registry.rs\<close>.
  \<^item> Tools.  \<open>Tool_Config\<close>, \<open>Tool_Sessions\<close>, \<open>Tool_Dispatch\<close>, \<open>Tool_Commands\<close>: the policy, the
    accounts, the dispatcher and the command line of \<open>tools/\<close>; \<open>Output_Budget\<close>: the token budget of
    \<open>tools/output\<close>; \<open>File_System\<close> and \<open>Fs_Tools\<close>: \<open>tools/impls/fs\<close> and \<open>path_guard.rs\<close> over a tree
    with symbolic links; \<open>Code_Parse\<close> and \<open>Code_Edit\<close>: \<open>tools/impls/code\<close>.
  \<^item> Channels and secrets.  \<open>Channel_Router\<close>: \<open>channels/router.rs\<close> and the registry of dynamic
    channels; \<open>Secrets\<close>: \<open>commands/secrets.rs\<close>.
  \<^item> The Git server.  \<open>Git_Server\<close>: \<open>acl.rs\<close>, \<open>git.rs\<close>, \<open>state.rs\<close>, \<open>hooks.rs\<close>, \<open>expiry.rs\<close>, \<open>api.rs\<close>.

  What the lemmas show.  For each component the theory with suffix \<open>_Props\<close> (or the end of the
  theory itself) has an invariant that the operations keep, the result of the operations on each
  branch, and the contract: registries and indexes refine maps through \<open>keyed_table\<close>; the task
  registry refines the replay of its journal; the lock excludes; one-time entries run once; the
  conversation of the loop stays well-formed and reaches each provider in the form its API
  demands; refused requests and pushes change nothing; file operations stay below the workspace.
  Closed theorems show where the code falls short of what it means to do; the manifest lists them
  as findings.

  Parameters.  What is not in the repository is a function in a record of parameters: JSON codecs
  and renderers (\<open>codec\<close>, \<open>output_env\<close>), clocks, HTTP clients, sockets, the git executable
  (\<open>git_env\<close>), tree-sitter, the ciphers, the tool implementations behind the dispatcher
  (\<open>tool_impls\<close>).  Hypotheses about them state documented behaviour, chiefly that a codec reads
  back what it wrote, and each has a witness with concrete functions.

  Bounds and fuel.  The loop of \<open>Agent_Loop\<close> recurses on the turns that are left, as the code's
  \<open>max_turns\<close> does.  Path resolution in \<open>File_System\<close> follows at most \<open>max_links\<close> (40) links, the
  limit of Linux, and fails beyond.  The lock loop may run for ever: it is a function of the list
  of its observations and gives no result when they are used up.  Readers of streams recurse on
  the length of the buffer.  Machine integers are words where the code relies on their width
  (accounts, expiry, revisions), naturals where the width cannot be reached.

  Not modelled.  Pure input and output (terminal user interface, tracing, container and pod
  management, HTTP plumbing), the prompts (fixed texts), the search engines' HTML scraping, the
  index over tree-sitter and SQLite, evaluation runners, and the concurrency of the async runtime
  except where a step relation says so.  Letter case outside ASCII is not modelled.
\<close>

end
